(* ===== verification/Prelude.thy ===== *)
theory Prelude
  imports Main "HOL-Library.Word" "HOL-Library.List_Lexorder" "HOL-Library.Char_ord"
begin

text \<open>
  Shared vocabulary of the development.

  \<^item> Rust's \<open>Result\<close> is a sum: \<open>Err\<close> is \<open>Inl\<close>, \<open>Ok\<close> is \<open>Inr\<close>; \<open>and_then\<close> is the
    question-mark operator.
  \<^item> A byte is a \<^typ>\<open>char\<close> and a byte slice a list of them.  A Rust \<open>String\<close> is the list of
    its UTF-8 bytes, so \<open>as_bytes\<close> is the identity; \<open>chars\<close> decodes the code points, and the
    Unicode tests of the standard library (\<open>is_whitespace\<close>, \<open>is_control\<close>) are stated on them.
  \<^item> Unsigned integers keep their width as words; little-endian byte strings are written and
    read by \<open>le_bytes\<close> and \<open>le_val\<close>.
  \<^item> The crates the sources only call (\<open>sha2\<close>, \<open>hex\<close>, \<open>serde_json\<close>'s string escaping) are the
    fields of the record \<open>crates\<close>, an argument of every definition that uses them.  What the
    code relies on is stated by \<open>hex_ok\<close>, \<open>sha_ok\<close> and \<open>json_ok\<close>.
\<close>

named_theorems result_simps "rules that open the Result plumbing"
named_theorems byte_simps "lengths and inverses of byte encodings"

section \<open>Results\<close>

abbreviation Ok :: "'a \<Rightarrow> 'e + 'a" where "Ok \<equiv> Inr"
abbreviation Err :: "'e \<Rightarrow> 'e + 'a" where "Err \<equiv> Inl"

definition and_then :: "'e + 'a \<Rightarrow> ('a \<Rightarrow> 'e + 'b) \<Rightarrow> 'e + 'b" where
  "and_then r f = (case r of Inl e \<Rightarrow> Inl e | Inr x \<Rightarrow> f x)"

definition ok_or :: "'a option \<Rightarrow> 'e \<Rightarrow> 'e + 'a" where
  "ok_or x e = (case x of None \<Rightarrow> Inl e | Some v \<Rightarrow> Inr v)"

definition map_err :: "('e \<Rightarrow> 'f) \<Rightarrow> 'e + 'a \<Rightarrow> 'f + 'a" where
  "map_err f r = (case r of Inl e \<Rightarrow> Inl (f e) | Inr x \<Rightarrow> Inr x)"

definition is_ok :: "'e + 'a \<Rightarrow> bool" where
  "is_ok r = (case r of Inl _ \<Rightarrow> False | Inr _ \<Rightarrow> True)"

text \<open>\<open>check_all f xs\<close> is a \<open>for\<close> loop whose body ends in a question mark: the first error stops it.\<close>

fun check_all :: "('a \<Rightarrow> 'e + unit) \<Rightarrow> 'a list \<Rightarrow> 'e + unit" where
  "check_all f [] = Ok ()"
| "check_all f (x # xs) = (case f x of Inl e \<Rightarrow> Err e | Inr _ \<Rightarrow> check_all f xs)"

text \<open>\<open>iter().position(..)\<close>: the index of the first element that satisfies the test.\<close>

fun position :: "('a \<Rightarrow> bool) \<Rightarrow> 'a list \<Rightarrow> nat option" where
  "position P [] = None"
| "position P (x # xs) = (if P x then Some 0 else map_option Suc (position P xs))"

section \<open>Integers and bytes\<close>

type_synonym u8 = char
type_synonym bytes = "u8 list"
type_synonym u16 = "16 word"
type_synonym u32 = "32 word"
type_synonym u64 = "64 word"

definition newline :: u8 where "newline = CHR 0x0A"

fun le_bytes :: "nat \<Rightarrow> nat \<Rightarrow> bytes" where
  "le_bytes 0 x = []"
| "le_bytes (Suc n) x = char_of (x mod 256) # le_bytes n (x div 256)"

fun le_val :: "bytes \<Rightarrow> nat" where
  "le_val [] = 0"
| "le_val (b # bs) = of_char b + 256 * le_val bs"

definition u32_le :: "u32 \<Rightarrow> bytes" where "u32_le w = le_bytes 4 (unat w)"
definition u64_le :: "u64 \<Rightarrow> bytes" where "u64_le w = le_bytes 8 (unat w)"

text \<open>\<open>u64::saturating_mul\<close> and \<open>u64::saturating_add\<close>.\<close>

definition saturating_mul :: "u64 \<Rightarrow> u64 \<Rightarrow> u64" where
  "saturating_mul a b = (if unat a * unat b < 2 ^ 64 then a * b else - 1)"

definition saturating_add :: "u64 \<Rightarrow> u64 \<Rightarrow> u64" where
  "saturating_add a b = (if unat a + unat b < 2 ^ 64 then a + b else - 1)"

text \<open>Decimal text of an unsigned integer (\<open>to_string\<close>).\<close>

fun dec_nat :: "nat \<Rightarrow> string" where
  "dec_nat n = (if n < 10 then [char_of (48 + n)] else dec_nat (n div 10) @ [char_of (48 + n mod 10)])"

declare dec_nat.simps [simp del]

section \<open>Rust strings\<close>

text \<open>Code points of a UTF-8 string.  Rust strings are valid UTF-8, so the lead byte gives the
  length of each sequence.\<close>

fun chars :: "string \<Rightarrow> nat list" where
  "chars [] = []"
| "chars (a # s) =
     (let x = of_char a :: nat in
      if x < 128 then x # chars s
      else if x < 224 then
        (case s of b # s' \<Rightarrow> ((x mod 32) * 64 + of_char b mod 64) # chars s' | _ \<Rightarrow> [x])
      else if x < 240 then
        (case s of b # c # s' \<Rightarrow>
           ((x mod 16) * 4096 + (of_char b mod 64) * 64 + of_char c mod 64) # chars s' | _ \<Rightarrow> [x])
      else
        (case s of b # c # d # s' \<Rightarrow>
           ((x mod 8) * 262144 + (of_char b mod 64) * 4096 + (of_char c mod 64) * 64
             + of_char d mod 64) # chars s' | _ \<Rightarrow> [x]))"

definition is_whitespace :: "nat \<Rightarrow> bool" where
  "is_whitespace c \<longleftrightarrow> (9 \<le> c \<and> c \<le> 13) \<or> c = 32 \<or> c = 133 \<or> c = 160 \<or> c = 5760 \<or>
     (8192 \<le> c \<and> c \<le> 8202) \<or> c = 8232 \<or> c = 8233 \<or> c = 8239 \<or> c = 8287 \<or> c = 12288"

definition is_control :: "nat \<Rightarrow> bool" where
  "is_control c \<longleftrightarrow> c < 32 \<or> (127 \<le> c \<and> c < 160)"

text \<open>\<open>s.trim().is_empty()\<close>: every code point is white space.\<close>

definition is_blank :: "string \<Rightarrow> bool" where
  "is_blank s \<longleftrightarrow> list_all is_whitespace (chars s)"

definition has_control :: "string \<Rightarrow> bool" where
  "has_control s \<longleftrightarrow> list_ex is_control (chars s)"

definition starts_with :: "string \<Rightarrow> string \<Rightarrow> bool" where
  "starts_with p s \<longleftrightarrow> take (length p) s = p"

definition strip_prefix :: "string \<Rightarrow> string \<Rightarrow> string option" where
  "strip_prefix p s = (if starts_with p s then Some (drop (length p) s) else None)"

definition ends_with :: "string \<Rightarrow> string \<Rightarrow> bool" where
  "ends_with p s \<longleftrightarrow> starts_with (rev p) (rev s)"

text \<open>\<open>str::split\<close> on a one-byte separator: always at least one piece, empty pieces kept.\<close>

fun split_on :: "char \<Rightarrow> string \<Rightarrow> string list" where
  "split_on c [] = [[]]"
| "split_on c (x # xs) =
     (if x = c then [] # split_on c xs
      else (case split_on c xs of [] \<Rightarrow> [[x]] | p # ps \<Rightarrow> (x # p) # ps))"

fun join :: "string \<Rightarrow> string list \<Rightarrow> string" where
  "join sep [] = []"
| "join sep [p] = p"
| "join sep (p # q # ps) = p @ sep @ join sep (q # ps)"

text \<open>\<open>s.contains(pat)\<close> for a string pattern.\<close>

fun contains :: "string \<Rightarrow> string \<Rightarrow> bool" where
  "contains p [] = (p = [])"
| "contains p (x # xs) = (starts_with p (x # xs) \<or> contains p xs)"

section \<open>Crates the sources call\<close>

record crates =
  sha256 :: "bytes \<Rightarrow> bytes"
  hex_encode :: "bytes \<Rightarrow> string"
  hex_decode :: "string \<Rightarrow> bytes option"
  json_str :: "string \<Rightarrow> bytes"

definition hex_digits :: "char set" where
  "hex_digits = set ''0123456789abcdef''"

definition hex_ok :: "crates \<Rightarrow> bool" where
  "hex_ok X \<longleftrightarrow> (\<forall>b. hex_decode X (hex_encode X b) = Some b \<and>
     length (hex_encode X b) = 2 * length b \<and> set (hex_encode X b) \<subseteq> hex_digits)"

definition sha_ok :: "crates \<Rightarrow> bool" where
  "sha_ok X \<longleftrightarrow> (\<forall>b. length (sha256 X b) = 32)"

definition json_ok :: "crates \<Rightarrow> bool" where
  "json_ok X \<longleftrightarrow> (\<forall>s. newline \<notin> set (json_str X s))"

text \<open>Two different inputs of SHA-256 with the same digest.\<close>

definition sha_collision :: "crates \<Rightarrow> bytes \<Rightarrow> bytes \<Rightarrow> bool" where
  "sha_collision X a b \<longleftrightarrow> a \<noteq> b \<and> sha256 X a = sha256 X b"

section \<open>Lemmas on results\<close>

lemma and_then_simps [simp, result_simps]:
  "and_then (Inl e) f = Inl e"
  "and_then (Inr x) f = f x"
  by (simp_all add: and_then_def)

lemma and_then_Ok [result_simps]:
  "and_then r f = Inr y \<longleftrightarrow> (\<exists>x. r = Inr x \<and> f x = Inr y)"
  by (cases r) auto

lemma ok_or_simps [simp, result_simps]:
  "ok_or None e = Inl e"
  "ok_or (Some v) e = Inr v"
  by (simp_all add: ok_or_def)

lemma ok_or_Ok [result_simps]: "ok_or x e = Inr v \<longleftrightarrow> x = Some v"
  by (cases x) auto

lemma map_err_simps [simp, result_simps]:
  "map_err f (Inl e) = Inl (f e)"
  "map_err f (Inr x) = Inr x"
  by (simp_all add: map_err_def)

lemma map_err_Ok [result_simps]: "map_err f r = Inr x \<longleftrightarrow> r = Inr x"
  by (cases r) auto

lemma position_None: "position P xs = None \<longleftrightarrow> (\<forall>x \<in> set xs. \<not> P x)"
  by (induction xs) auto

lemma position_append:
  "\<forall>x \<in> set xs. \<not> P x \<Longrightarrow> P y \<Longrightarrow> position P (xs @ y # ys) = Some (length xs)"
  by (induction xs) auto

lemma position_SomeD:
  "position P xs = Some i \<Longrightarrow> \<exists>ys y zs. xs = ys @ y # zs \<and> length ys = i \<and> P y \<and> (\<forall>x \<in> set ys. \<not> P x)"
proof (induction xs arbitrary: i)
  case Nil
  then show ?case by simp
next
  case (Cons x xs)
  show ?case
  proof (cases "P x")
    case True
    with Cons.prems show ?thesis by (intro exI [of _ "[]"]) auto
  next
    case False
    with Cons.prems obtain j where j: "position P xs = Some j" "i = Suc j" by auto
    from Cons.IH [OF j(1)] obtain ys y zs
      where "xs = ys @ y # zs" "length ys = j" "P y" "\<forall>x \<in> set ys. \<not> P x" by blast
    with False j(2) show ?thesis by (intro exI [of _ "x # ys"]) auto
  qed
qed

lemma is_ok_simps [simp]: "is_ok (Inr x)" "\<not> is_ok (Inl e)"
  by (simp_all add: is_ok_def)

lemma is_ok_iff: "is_ok r \<longleftrightarrow> (\<exists>x. r = Inr x)"
  by (cases r) auto

lemma check_all_Ok [result_simps]:
  "check_all f xs = Inr u \<longleftrightarrow> (\<forall>x \<in> set xs. f x = Inr ())"
  by (induction xs) (auto split: sum.splits)

section \<open>Lemmas on bytes\<close>

lemma length_le_bytes [simp, byte_simps]: "length (le_bytes n x) = n"
  by (induction n arbitrary: x) auto

lemma le_val_le_bytes: "le_val (le_bytes n x) = x mod 256 ^ n"
proof (induction n arbitrary: x)
  case 0
  show ?case by simp
next
  case (Suc n)
  have "x mod (256 * 256 ^ n) = 256 * (x div 256 mod 256 ^ n) + x mod 256"
    by (rule mod_mult2_eq)
  then show ?case by (simp add: Suc.IH)
qed

lemma le_bytes_le_val: "le_bytes (length bs) (le_val bs) = bs"
proof (induction bs)
  case Nil
  show ?case by simp
next
  case (Cons b bs)
  have "(of_char b :: nat) < 256" by simp
  then show ?case using Cons.IH by simp
qed

lemma le_val_less: "le_val bs < 256 ^ length bs"
proof -
  have "le_val bs = le_val bs mod 256 ^ length bs"
    using le_val_le_bytes [of "length bs" "le_val bs"] by (simp add: le_bytes_le_val)
  then show ?thesis by (metis mod_less_divisor zero_less_numeral zero_less_power)
qed

lemma le_bytes_inj: "le_bytes n x = le_bytes n y \<Longrightarrow> x < 256 ^ n \<Longrightarrow> y < 256 ^ n \<Longrightarrow> x = y"
  by (metis le_val_le_bytes mod_less)

lemma length_u32_le [simp, byte_simps]: "length (u32_le w) = 4"
  by (simp add: u32_le_def)

lemma length_u64_le [simp, byte_simps]: "length (u64_le w) = 8"
  by (simp add: u64_le_def)

lemma unat_u32_less: "unat (w :: u32) < 256 ^ 4"
  using unsigned_less [of w] by simp

lemma unat_u64_less: "unat (w :: u64) < 256 ^ 8"
  using unsigned_less [of w] by simp

lemma u32_le_val [byte_simps]: "le_val (u32_le w) = unat w"
  using unat_u32_less [of w] by (simp add: u32_le_def le_val_le_bytes)

lemma u64_le_val [byte_simps]: "le_val (u64_le w) = unat w"
  using unat_u64_less [of w] by (simp add: u64_le_def le_val_le_bytes)

lemma u64_le_inj [simp]: "u64_le v = u64_le w \<longleftrightarrow> v = w"
  by (metis u64_le_val word_unat_eq_iff)

lemma u32_le_inj [simp]: "u32_le v = u32_le w \<longleftrightarrow> v = w"
  by (metis u32_le_val word_unat_eq_iff)

text \<open>Reading four or eight bytes and writing them back.\<close>

lemma u32_le_of_val: "length bs = 4 \<Longrightarrow> u32_le (of_nat (le_val bs)) = bs"
  using le_val_less [of bs] le_bytes_le_val [of bs]
  by (simp add: u32_le_def unat_of_nat)

lemma u64_le_of_val: "length bs = 8 \<Longrightarrow> u64_le (of_nat (le_val bs)) = bs"
  using le_val_less [of bs] le_bytes_le_val [of bs]
  by (simp add: u64_le_def unat_of_nat)

lemma unat_saturating_mul: "unat (saturating_mul a b) = min (unat a * unat b) (2 ^ 64 - 1)"
  by (auto simp: saturating_mul_def unat_mult_lem [THEN iffD1] unsigned_minus_1_eq_mask mask_eq_exp_minus_1)

lemma unat_saturating_add: "unat (saturating_add a b) = min (unat a + unat b) (2 ^ 64 - 1)"
  by (auto simp: saturating_add_def unat_add_lem [THEN iffD1] unsigned_minus_1_eq_mask mask_eq_exp_minus_1)

lemma dec_nat_digits: "set (dec_nat n) \<subseteq> set ''0123456789''"
proof (induction n rule: dec_nat.induct)
  case (1 n)
  have dig: "char_of (48 + k) \<in> set ''0123456789''" if "k < 10" for k :: nat
  proof -
    have "list_all (\<lambda>k. char_of (48 + k :: nat) \<in> set ''0123456789'') [0..<10]" by code_simp
    with that show ?thesis by (simp only: list_all_iff set_upt) simp
  qed
  show ?case
  proof (cases "n < 10")
    case True
    then show ?thesis using dig [of n] by (simp add: dec_nat.simps [of n])
  next
    case False
    then show ?thesis using 1 dig [of "n mod 10"] by (simp add: dec_nat.simps [of n])
  qed
qed

section \<open>State machines\<close>

text \<open>Reachable states of a machine, and the contract of an invariant: it holds initially and every
  step keeps it.\<close>

inductive reachable :: "('s \<Rightarrow> bool) \<Rightarrow> ('s \<Rightarrow> 's \<Rightarrow> bool) \<Rightarrow> 's \<Rightarrow> bool" for init step where
  start: "init s \<Longrightarrow> reachable init step s"
| follow: "reachable init step s \<Longrightarrow> step s s' \<Longrightarrow> reachable init step s'"

locale machine =
  fixes init :: "'s \<Rightarrow> bool" and step :: "'s \<Rightarrow> 's \<Rightarrow> bool" and inv :: "'s \<Rightarrow> bool"
  assumes init_inv: "init s \<Longrightarrow> inv s"
    and step_inv: "inv s \<Longrightarrow> step s s' \<Longrightarrow> inv s'"
begin

lemma reachable_inv: "reachable init step s \<Longrightarrow> inv s"
  by (induction rule: reachable.induct) (blast intro: init_inv step_inv)+

end

end
