(* ===== verification/Digest.thy ===== *)
theory Digest
  imports Prelude
begin

text \<open>
  Digests and canonical JSON: \<open>put_field\<close> of \<open>src/src/evaluator/mod.rs\<close> and the shared
  functions of \<open>src/src/canary/mod.rs\<close>.  A \<open>Sha256\<close> hasher that has absorbed some updates is
  the list of the bytes it absorbed, and \<open>finalize\<close> applies \<open>sha256\<close> to them.

  The interface of this theory is the locale \<open>committed\<close>: an encoding that is injective on its
  valid values binds the value to its digest, up to an explicit SHA-256 collision.  The locale
  \<open>prefix_code\<close> is the stronger contract of a self-delimiting encoding, and \<open>put_field\<close> is
  interpreted in it.
\<close>

type_synonym hasher = bytes

definition put_field :: "hasher \<Rightarrow> bytes \<Rightarrow> hasher" where
  "put_field h b = h @ u64_le (of_nat (length b)) @ b"

definition sha256_hex :: "crates \<Rightarrow> bytes \<Rightarrow> string" where
  "sha256_hex X b = hex_encode X (sha256 X b)"

definition domain_digest :: "crates \<Rightarrow> string \<Rightarrow> bytes list \<Rightarrow> string" where
  "domain_digest X domain flds =
     (let h = put_field [] domain;
          h = foldl put_field h flds
      in hex_encode X (sha256 X h))"

definition is_hex_digest :: "string \<Rightarrow> bool" where
  "is_hex_digest s \<longleftrightarrow> length s = 64 \<and>
     list_all (\<lambda>b. (CHR ''0'' \<le> b \<and> b \<le> CHR ''9'') \<or> (CHR ''a'' \<le> b \<and> b \<le> CHR ''f'')) s"

text \<open>JSON values as \<open>serde_json::to_value\<close> builds them from the canary records: strings,
  unsigned integers, booleans, arrays and objects.\<close>

datatype json =
    JNull
  | JBool bool
  | JNumber nat
  | JString string
  | JArray "json list"
  | JObject "(string \<times> json) list"

definition write_json_string :: "crates \<Rightarrow> string \<Rightarrow> bytes" where
  "write_json_string X s = json_str X s"

text \<open>The bytes \<open>write_canonical\<close> pushes to its output vector.\<close>

function write_canonical :: "crates \<Rightarrow> json \<Rightarrow> bytes" where
  "write_canonical X JNull = ''null''"
| "write_canonical X (JBool b) = (if b then ''true'' else ''false'')"
| "write_canonical X (JNumber n) = dec_nat n"
| "write_canonical X (JString s) = write_json_string X s"
| "write_canonical X (JArray items) =
     ''['' @ join '','' (map (write_canonical X) items) @ '']''"
| "write_canonical X (JObject entries) =
     (let keys = sort_key fst entries in
      CHR 0x7B # join '','' (map (\<lambda>e. write_json_string X (fst e) @ '':'' @ write_canonical X (snd e)) keys)
        @ [CHR 0x7D])"
  by pat_completeness auto
termination
proof (relation "measure (size \<circ> snd)")
  show "wf (measure (size \<circ> snd))" by simp
next
  fix X :: crates and items :: "json list" and item
  assume "item \<in> set items"
  then have "size item \<le> size_list size items" by (simp add: size_list_estimation')
  then show "((X, item), X, JArray items) \<in> measure (size \<circ> snd)" by simp
next
  fix X :: crates and entries keys :: "(string \<times> json) list" and e
  assume "keys = sort_key fst entries" and "e \<in> set keys"
  then have e: "e \<in> set entries" by simp
  then have "size_prod (\<lambda>_. 0) size e \<le> size_list (size_prod (\<lambda>_. 0) size) entries"
    by (simp add: size_list_estimation')
  moreover have "size (snd e) < Suc (size_prod (\<lambda>_. 0) size e)"
    by (cases e) simp
  ultimately show "((X, snd e), X, JObject entries) \<in> measure (size \<circ> snd)"
    by simp
qed

text \<open>Slices whose length a 64-bit \<open>usize\<close> can hold: every slice of a running program.\<close>

definition fits :: "bytes \<Rightarrow> bool" where
  "fits b \<longleftrightarrow> length b < 2 ^ 64"

section \<open>Encodings that commit to their value\<close>

locale committed =
  fixes enc :: "'a \<Rightarrow> bytes" and valid :: "'a \<Rightarrow> bool"
  assumes enc_inj: "valid x \<Longrightarrow> valid y \<Longrightarrow> enc x = enc y \<Longrightarrow> x = y"
begin

lemma digest_binds:
  assumes "hex_ok X" and "valid x" and "valid y"
    and "hex_encode X (sha256 X (enc x)) = hex_encode X (sha256 X (enc y))"
  shows "x = y \<or> sha_collision X (enc x) (enc y)"
proof -
  from assms(1,4) have "sha256 X (enc x) = sha256 X (enc y)"
    by (metis hex_ok_def option.inject)
  then show ?thesis
    using enc_inj [OF assms(2,3)] by (auto simp: sha_collision_def)
qed

end

locale prefix_code =
  fixes enc :: "'a \<Rightarrow> bytes" and valid :: "'a \<Rightarrow> bool"
  assumes unique: "valid x \<Longrightarrow> valid y \<Longrightarrow> enc x @ r = enc y @ s \<Longrightarrow> x = y \<and> r = s"
    and nonempty: "valid x \<Longrightarrow> enc x \<noteq> []"
begin

lemma concat_unique:
  assumes "list_all valid xs" and "list_all valid ys"
    and "concat (map enc xs) = concat (map enc ys)"
  shows "xs = ys"
  using assms
proof (induction xs arbitrary: ys)
  case Nil
  then show ?case by (cases ys) (auto simp: nonempty)
next
  case (Cons x xs)
  then obtain y ys' where ys: "ys = y # ys'"
    by (cases ys) (auto simp: nonempty)
  with Cons.prems have "x = y \<and> concat (map enc xs) = concat (map enc ys')"
    by (intro unique) auto
  then show ?case using Cons ys by auto
qed

end

text \<open>A self-delimiting code commits to a list of values by concatenation.\<close>

sublocale prefix_code \<subseteq> lists: committed "\<lambda>xs. concat (map enc xs)" "list_all valid"
  by unfold_locales (rule concat_unique)

section \<open>Length-prefixed fields\<close>

lemma put_field_acc: "put_field h b = h @ put_field [] b"
  by (simp add: put_field_def)

lemma foldl_put_field: "foldl put_field h fs = h @ concat (map (put_field []) fs)"
proof (induction fs arbitrary: h)
  case Nil
  show ?case by simp
next
  case (Cons b fs)
  show ?case by (simp add: Cons.IH put_field_acc [of h])
qed

lemma put_field_unique:
  assumes "fits a" and "fits b" and "put_field [] a @ r = put_field [] b @ s"
  shows "a = b \<and> r = s"
proof -
  from assms(3) have len: "u64_le (of_nat (length a)) = u64_le (of_nat (length b))"
    and rest: "a @ r = b @ s"
    by (simp_all add: put_field_def)
  have "le_val (u64_le (of_nat (length c))) = length c" if "fits c" for c
    using that unfolding u64_le_val unat_of_nat fits_def by simp
  with len assms(1,2) have "length a = length b" by metis
  with rest show ?thesis by simp
qed

interpretation field: prefix_code "put_field []" fits
proof unfold_locales
  show "a = b \<and> r = s" if "fits a" "fits b" "put_field [] a @ r = put_field [] b @ s" for a b r s
    using that by (rule put_field_unique)
  show "put_field [] a \<noteq> []" for a
  proof -
    have "0 < length (put_field [] a)" by (simp add: put_field_def)
    then show ?thesis by simp
  qed
qed

lemma domain_digest_concat:
  "domain_digest X d fs = hex_encode X (sha256 X (concat (map (put_field []) (d # fs))))"
  by (simp add: domain_digest_def foldl_put_field)

text \<open>The preimage of a domain digest.\<close>

definition domain_preimage :: "string \<Rightarrow> bytes list \<Rightarrow> bytes" where
  "domain_preimage d fs = foldl put_field (put_field [] d) fs"

lemma domain_digest_preimage: "domain_digest X d fs = hex_encode X (sha256 X (domain_preimage d fs))"
  by (simp add: domain_digest_def domain_preimage_def)

lemma domain_digest_binds:
  assumes "hex_ok X" and "fits d" "list_all fits fs" and "fits d'" "list_all fits fs'"
    and "domain_digest X d fs = domain_digest X d' fs'"
  shows "(d = d' \<and> fs = fs') \<or> sha_collision X (domain_preimage d fs) (domain_preimage d' fs')"
proof -
  have "d # fs = d' # fs' \<or> sha_collision X (concat (map (put_field []) (d # fs)))
     (concat (map (put_field []) (d' # fs')))"
    by (rule field.lists.digest_binds) (use assms in \<open>auto simp: domain_digest_concat\<close>)
  then show ?thesis by (auto simp: domain_preimage_def foldl_put_field)
qed

lemma sha256_hex_binds:
  assumes "hex_ok X" and "sha256_hex X a = sha256_hex X b"
  shows "a = b \<or> sha_collision X a b"
proof -
  from assms have "sha256 X a = sha256 X b"
    unfolding sha256_hex_def by (metis hex_ok_def option.inject)
  then show ?thesis by (auto simp: sha_collision_def)
qed

section \<open>Digest strings\<close>

lemma hex_digits_ranges:
  "b \<in> hex_digits \<Longrightarrow> (CHR ''0'' \<le> b \<and> b \<le> CHR ''9'') \<or> (CHR ''a'' \<le> b \<and> b \<le> CHR ''f'')"
  by (auto simp: hex_digits_def less_eq_char_def)

lemma is_hex_digestI: "length s = 64 \<Longrightarrow> set s \<subseteq> hex_digits \<Longrightarrow> is_hex_digest s"
  using hex_digits_ranges by (auto simp: is_hex_digest_def list_all_iff)

lemma is_hex_digest_encode:
  assumes "hex_ok X" and "sha_ok X"
  shows "is_hex_digest (hex_encode X (sha256 X b))"
  using assms by (intro is_hex_digestI) (simp_all add: hex_ok_def sha_ok_def)

lemma is_hex_digest_domain:
  "hex_ok X \<Longrightarrow> sha_ok X \<Longrightarrow> is_hex_digest (domain_digest X d fs)"
  by (simp add: domain_digest_preimage is_hex_digest_encode)

section \<open>Canonical JSON is one line\<close>

lemma set_join: "set (join sep ps) \<subseteq> set sep \<union> (\<Union>p \<in> set ps. set p)"
  by (induction sep ps rule: join.induct) auto

lemma newline_notin_join:
  "newline \<notin> set sep \<Longrightarrow> (\<And>p. p \<in> set ps \<Longrightarrow> newline \<notin> set p) \<Longrightarrow> newline \<notin> set (join sep ps)"
  using set_join [of sep ps] by auto

lemma newline_notin_dec_nat: "newline \<notin> set (dec_nat n)"
  using dec_nat_digits [of n] by (auto simp: newline_def)

lemma newline_notin_canonical:
  assumes "json_ok X"
  shows "newline \<notin> set (write_canonical X v)"
proof (induction v)
  case (JArray items)
  then have "newline \<notin> set (join '','' (map (write_canonical X) items))"
    by (intro newline_notin_join) (auto simp: newline_def)
  then show ?case by (simp add: newline_def)
next
  case (JObject entries)
  have "newline \<notin> set (write_canonical X (snd e))" if "e \<in> set entries" for e
    using JObject [of e "snd e"] that by (cases e) auto
  then have "newline \<notin> set (join '','' (map (\<lambda>e. write_json_string X (fst e) @ '':'' @
      write_canonical X (snd e)) (sort_key fst entries)))"
    using assms
    by (intro newline_notin_join) (auto simp: newline_def json_ok_def write_json_string_def)
  then show ?case by (simp add: newline_def Let_def)
qed (use assms newline_notin_dec_nat in \<open>auto simp: json_ok_def write_json_string_def newline_def\<close>)

section \<open>Canonical JSON determines the value\<close>

definition json_unique :: "crates \<Rightarrow> bool" where
  "json_unique X \<longleftrightarrow> (\<forall>s. \<exists>q. json_str X s = CHR 0x22 # q) \<and>
     (\<forall>s t r u. json_str X s @ r = json_str X t @ u \<longrightarrow> s = t \<and> r = u)"

fun sorted_json :: "json \<Rightarrow> json" where
  "sorted_json (JArray items) = JArray (map sorted_json items)"
| "sorted_json (JObject entries) = JObject (map (\<lambda>e. (fst e, sorted_json (snd e))) (sort_key fst entries))"
| "sorted_json v = v"

fun print_json :: "crates \<Rightarrow> json \<Rightarrow> bytes" where
  "print_json X JNull = ''null''"
| "print_json X (JBool b) = (if b then ''true'' else ''false'')"
| "print_json X (JNumber n) = dec_nat n"
| "print_json X (JString s) = json_str X s"
| "print_json X (JArray items) = ''['' @ join '','' (map (print_json X) items) @ '']''"
| "print_json X (JObject entries) =
     CHR 0x7B # join '','' (map (\<lambda>e. json_str X (fst e) @ '':'' @ print_json X (snd e)) entries) @ [CHR 0x7D]"

lemma write_canonical_print: "write_canonical X v = print_json X (sorted_json v)"
proof (induction v)
  case (JArray items)
  then show ?case by (simp cong: map_cong)
next
  case (JObject entries)
  have "write_canonical X (snd e) = print_json X (sorted_json (snd e))" if "e \<in> set entries" for e
    using JObject [of e "snd e"] that by (cases e) auto
  then show ?case
    by (auto simp: Let_def write_json_string_def comp_def intro!: arg_cong [where f = "join _"] map_cong)
qed (simp_all add: write_json_string_def)

lemma join_Cons: "join sep (p # ps) = p @ (if ps = [] then [] else sep @ join sep ps)"
  by (cases ps) simp_all

definition decimal :: "char set" where
  "decimal = set ''0123456789''"

lemma dec_nat_decimal: "set (dec_nat n) \<subseteq> decimal"
  unfolding decimal_def by (rule dec_nat_digits)

lemma not_decimal [simp]:
  "CHR '','' \<notin> decimal" "CHR '':'' \<notin> decimal" "CHR '']'' \<notin> decimal" "CHR 0x7D \<notin> decimal"
  "CHR ''['' \<notin> decimal" "CHR 0x7B \<notin> decimal" "CHR 0x22 \<notin> decimal" "CHR ''n'' \<notin> decimal"
  "CHR ''t'' \<notin> decimal" "CHR ''f'' \<notin> decimal" "newline \<notin> decimal"
  by (simp_all add: decimal_def newline_def)

text \<open>What follows a printed value never continues a number.\<close>

definition ends_number :: "bytes \<Rightarrow> bool" where
  "ends_number r \<longleftrightarrow> r = [] \<or> hd r \<notin> decimal"

lemma ends_number_Cons [simp]: "ends_number (c # r) \<longleftrightarrow> c \<notin> decimal"
  by (simp add: ends_number_def)

lemma join_unique:
  assumes one: "\<And>x y r s. x \<in> set xs \<Longrightarrow> ends_number r \<Longrightarrow> ends_number s \<Longrightarrow> f x @ r = f y @ s \<Longrightarrow> x = y \<and> r = s"
    and first: "\<And>x. \<exists>h t. f x = h # t \<and> h \<noteq> c \<and> h \<noteq> CHR '',''"
    and c: "c \<noteq> CHR '',''" "c \<notin> decimal"
    and eq: "join '','' (map f xs) @ c # r = join '','' (map f ys) @ c # s"
  shows "xs = ys \<and> r = s"
  using one eq
proof (induction xs arbitrary: ys)
  case Nil
  show ?case
  proof (cases ys)
    case Nil
    with Nil.prems(2) show ?thesis by simp
  next
    case (Cons y ys')
    with Nil.prems(2) first [of y] show ?thesis by (auto simp: join_Cons)
  qed
next
  case (Cons x xs)
  obtain y ys' where ys: "ys = y # ys'"
    using Cons.prems(2) first [of x] by (cases ys) (auto simp: join_Cons)
  let ?rest = "\<lambda>zs t. (if zs = [] then [] else '','' @ join '','' (map f zs)) @ c # t"
  have "f x @ ?rest xs r = f y @ ?rest ys' s"
    using Cons.prems(2) ys by (simp add: join_Cons)
  moreover have "ends_number (?rest zs t)" for zs t using c by simp
  ultimately have "x = y" and rest: "?rest xs r = ?rest ys' s"
    using Cons.prems(1) [of x "?rest xs r" "?rest ys' s" y] by simp_all
  show ?case
  proof (cases "xs = []")
    case True
    with rest c have "ys' = [] \<and> r = s" by (cases ys') auto
    with True \<open>x = y\<close> ys show ?thesis by simp
  next
    case False
    with rest c have "ys' \<noteq> []" by auto
    with rest False have "join '','' (map f xs) @ c # r = join '','' (map f ys') @ c # s" by simp
    with Cons.IH [of ys'] Cons.prems(1) \<open>x = y\<close> ys show ?thesis by auto
  qed
qed

lemma of_char_digit: "n < 10 \<Longrightarrow> of_char (char_of (48 + n) :: char) = 48 + (n :: nat)"
  by simp

lemma dec_nat_inj: "dec_nat n = dec_nat m \<Longrightarrow> n = m"
proof (induction n arbitrary: m rule: dec_nat.induct)
  case (1 n)
  have dig: "char_of (48 + a) = (char_of (48 + b) :: char) \<Longrightarrow> a < 10 \<Longrightarrow> b < 10 \<Longrightarrow> a = b" for a b :: nat
    using of_char_digit [of a] of_char_digit [of b] by simp
  have ne: "dec_nat k \<noteq> []" "[] \<noteq> dec_nat k" for k by (subst dec_nat.simps, simp)+
  show ?case
  proof (cases "n < 10")
    case True
    with "1.prems" have "m < 10"
      using ne by (cases "m < 10") (simp_all add: dec_nat.simps [of n] dec_nat.simps [of m])
    with True "1.prems" show ?thesis
      using dig by (simp add: dec_nat.simps [of n] dec_nat.simps [of m])
  next
    case False
    with "1.prems" have "\<not> m < 10"
      using ne by (cases "m < 10") (simp_all add: dec_nat.simps [of n] dec_nat.simps [of m])
    with False "1.prems" have "dec_nat (n div 10) = dec_nat (m div 10)"
      and "char_of (48 + n mod 10) = (char_of (48 + m mod 10) :: char)"
      by (simp_all add: dec_nat.simps [of n] dec_nat.simps [of m])
    with "1.IH" [OF False] dig [of "n mod 10" "m mod 10"]
    have "n div 10 = m div 10" "n mod 10 = m mod 10" by simp_all
    then show ?thesis by (metis div_mult_mod_eq)
  qed
qed

lemma dec_nat_unique:
  assumes "ends_number r" and "ends_number s" and "dec_nat n @ r = dec_nat m @ s"
  shows "n = m \<and> r = s"
proof -
  let ?d = "\<lambda>c. c \<in> decimal"
  have *: "takeWhile ?d (dec_nat k @ t) = dec_nat k" if "ends_number t" for k t
    using that dec_nat_decimal [of k] by (cases t) (auto simp: takeWhile_append)
  from * [OF assms(1), of n] * [OF assms(2), of m] assms(3) have "dec_nat n = dec_nat m" by simp
  with assms(3) show ?thesis by (simp add: dec_nat_inj)
qed

lemma dec_nat_hd: "\<exists>h t. dec_nat n = h # t \<and> h \<in> decimal"
proof -
  have "dec_nat n \<noteq> []" by (subst dec_nat.simps) simp
  then obtain h t where "dec_nat n = h # t" by (cases "dec_nat n") auto
  with dec_nat_decimal [of n] show ?thesis by simp
qed

definition first_byte :: "json \<Rightarrow> char \<Rightarrow> bool" where
  "first_byte v h \<longleftrightarrow> (case v of JNull \<Rightarrow> h = CHR ''n'' | JBool b \<Rightarrow> h = (if b then CHR ''t'' else CHR ''f'')
     | JNumber _ \<Rightarrow> h \<in> decimal | JString _ \<Rightarrow> h = CHR 0x22 | JArray _ \<Rightarrow> h = CHR ''['' | JObject _ \<Rightarrow> h = CHR 0x7B)"

lemma print_json_first:
  assumes "json_unique X"
  shows "\<exists>h t. print_json X v = h # t \<and> first_byte v h"
proof (cases v)
  case (JNumber n)
  then show ?thesis using dec_nat_hd [of n] by (simp add: first_byte_def)
next
  case (JString t)
  from assms obtain q where "json_str X t = CHR 0x22 # q" unfolding json_unique_def by blast
  with JString show ?thesis by (simp add: first_byte_def)
qed (simp_all add: first_byte_def)

lemma first_byte_bracket: "first_byte v h \<Longrightarrow> h \<noteq> CHR '']'' \<and> h \<noteq> CHR '',''"
  by (cases v) (auto simp: first_byte_def)

lemma json_str_unique:
  "json_unique X \<Longrightarrow> json_str X s @ r = json_str X t @ u \<longleftrightarrow> s = t \<and> r = u"
  unfolding json_unique_def by blast

lemma first_byte_kind:
  "first_byte v h \<Longrightarrow> first_byte u h \<Longrightarrow>
   (case v of JNull \<Rightarrow> u = JNull | JBool b \<Rightarrow> u = JBool b | JNumber n \<Rightarrow> \<exists>m. u = JNumber m
    | JString s \<Rightarrow> \<exists>t. u = JString t | JArray xs \<Rightarrow> \<exists>ys. u = JArray ys | JObject es \<Rightarrow> \<exists>fs. u = JObject fs)"
  by (cases v; cases u) (auto simp: first_byte_def split: if_splits)

lemma print_json_kind:
  assumes "json_unique X" and "print_json X v @ r = print_json X u @ s"
  shows "(case v of JNull \<Rightarrow> u = JNull | JBool b \<Rightarrow> u = JBool b | JNumber n \<Rightarrow> \<exists>m. u = JNumber m
    | JString s \<Rightarrow> \<exists>t. u = JString t | JArray xs \<Rightarrow> \<exists>ys. u = JArray ys | JObject es \<Rightarrow> \<exists>fs. u = JObject fs)"
proof -
  obtain h t h' t' where "print_json X v = h # t" "first_byte v h" "print_json X u = h' # t'" "first_byte u h'"
    using print_json_first [OF assms(1)] by metis
  with assms(2) show ?thesis by (intro first_byte_kind [of v h u]) simp_all
qed

lemma print_json_unique:
  assumes "json_unique X"
  shows "ends_number r \<Longrightarrow> ends_number s \<Longrightarrow> print_json X v @ r = print_json X u @ s \<Longrightarrow> v = u \<and> r = s"
proof (induction v arbitrary: u r s)
  case (JNumber n)
  from print_json_kind [OF assms JNumber.prems(3)] obtain m where "u = JNumber m" by auto
  with JNumber dec_nat_unique [of r s n m] show ?case by simp
next
  case (JArray items)
  from print_json_kind [OF assms JArray.prems(3)] obtain items' where u: "u = JArray items'" by auto
  have "items = items' \<and> r = s"
  proof (rule join_unique [where f = "print_json X" and c = "CHR '']''"])
    show "\<exists>h t. print_json X x = h # t \<and> h \<noteq> CHR '']'' \<and> h \<noteq> CHR '',''" for x
      using print_json_first [OF assms] first_byte_bracket by blast
    show "x = y \<and> r = s" if "x \<in> set items" "ends_number r" "ends_number s"
        "print_json X x @ r = print_json X y @ s" for x y r s
      using JArray.IH that by blast
    show "join '','' (map (print_json X) items) @ CHR '']'' # r =
        join '','' (map (print_json X) items') @ CHR '']'' # s"
      using JArray.prems(3) u by simp
  qed simp_all
  with u show ?case by simp
next
  case (JObject entries)
  let ?f = "\<lambda>e. json_str X (fst e) @ '':'' @ print_json X (snd e)"
  from print_json_kind [OF assms JObject.prems(3)] obtain entries' where u: "u = JObject entries'" by auto
  have "entries = entries' \<and> r = s"
  proof (rule join_unique [where f = ?f and c = "CHR 0x7D"])
    show "\<exists>h t. ?f x = h # t \<and> h \<noteq> CHR 0x7D \<and> h \<noteq> CHR '',''" for x :: "string \<times> json"
    proof -
      obtain q where "json_str X (fst x) = CHR 0x22 # q" using assms unfolding json_unique_def by blast
      then show ?thesis by simp
    qed
    show "x = y \<and> r = s" if "x \<in> set entries" "ends_number r" "ends_number s" "?f x @ r = ?f y @ s" for x y r s
    proof -
      from that(4) have "fst x = fst y" "print_json X (snd x) @ r = print_json X (snd y) @ s"
        by (simp_all add: json_str_unique [OF assms])
      moreover have "snd x \<in> Basic_BNFs.snds x" by (cases x) simp
      ultimately show ?thesis using JObject.IH [of x "snd x" r s "snd y"] that(1-3) by (simp add: prod_eq_iff)
    qed
    show "join '','' (map ?f entries) @ CHR 0x7D # r = join '','' (map ?f entries') @ CHR 0x7D # s"
      using JObject.prems(3) u by simp
  qed simp_all
  with u show ?case by simp
next
  case (JString t)
  from print_json_kind [OF assms JString.prems(3)] obtain t' where "u = JString t'" by auto
  with JString.prems(3) show ?case by (simp add: json_str_unique [OF assms])
next
  case JNull
  from print_json_kind [OF assms JNull.prems(3)] JNull.prems(3) show ?case by simp
next
  case (JBool b)
  from print_json_kind [OF assms JBool.prems(3)] JBool.prems(3) show ?case by simp
qed

lemma write_canonical_unique:
  assumes "json_unique X" and "write_canonical X v = write_canonical X u"
  shows "sorted_json v = sorted_json u"
  using print_json_unique [OF assms(1), of "[]" "[]" "sorted_json v" "sorted_json u"] assms(2)
  by (simp add: write_canonical_print ends_number_def)

end
