(* ===== verification/Canary_Base.thy ===== *)
theory Canary_Base
  imports Digest
begin

text \<open>
  Versions and statuses shared by the canary contract (\<open>src/src/canary/\<close>).  Each component has
  its own error type: every \<open>Err(format!(..))\<close> of the sources is one constructor, carrying the
  values the message prints, and a component that passes another one's error on wraps it.
\<close>

definition CANARY_PROTOCOL_VERSION :: u16 where "CANARY_PROTOCOL_VERSION = 1"
definition OBSERVATION_RECORD_VERSION :: u16 where "OBSERVATION_RECORD_VERSION = 2"
definition OBSERVATION_LOG_VERSION :: u16 where "OBSERVATION_LOG_VERSION = 1"
definition WORKLOAD_VERSION :: u16 where "WORKLOAD_VERSION = 1"
definition ADAPTER_MANIFEST_VERSION :: u16 where "ADAPTER_MANIFEST_VERSION = 1"
definition IDENTITY_VERSION :: u16 where "IDENTITY_VERSION = 1"

datatype verified_status =
    VerifiedSuccess
  | WrongResult
  | Timeout
  | InvalidResponse
  | ConnectionClosed

datatype provenance = Measured | Synthetic

end
