(* ===== verification/Sample.thy ===== *)
theory Sample
  imports Digest "HOL-Library.Multiset"
begin

text \<open>
  A concrete instance of the crates: lower-case hexadecimal, JSON string literals with the escapes
  of \<open>serde_json\<close> for quotes, backslashes and control bytes, and a 32-byte stand-in for SHA-256
  that is cheap to evaluate.  It satisfies \<open>hex_ok\<close>, \<open>sha_ok\<close>, \<open>json_ok\<close> and \<open>json_unique\<close>, so
  the hypotheses of the development hold together, and the examples of the other theories are
  evaluated on it.
\<close>

definition hex_digit :: "nat \<Rightarrow> char" where
  "hex_digit n = (if n < 10 then char_of (48 + n) else char_of (87 + n))"

definition hex_value :: "char \<Rightarrow> nat option" where
  "hex_value c = (let n = of_char c in
     if 48 \<le> n \<and> n < 58 then Some (n - 48) else if 97 \<le> n \<and> n < 103 then Some (n - 87) else None)"

fun hex_of :: "bytes \<Rightarrow> string" where
  "hex_of [] = []"
| "hex_of (b # bs) = hex_digit (of_char b div 16) # hex_digit (of_char b mod 16) # hex_of bs"

fun of_hex :: "string \<Rightarrow> bytes option" where
  "of_hex [] = Some []"
| "of_hex [c] = None"
| "of_hex (c # d # s) =
     (case (hex_value c, hex_value d, of_hex s) of
        (Some x, Some y, Some bs) \<Rightarrow> Some (char_of (16 * x + y) # bs)
      | _ \<Rightarrow> None)"

definition json_escape :: "char \<Rightarrow> string" where
  "json_escape c =
     (if c = CHR 0x22 \<or> c = CHR 0x5C then [CHR 0x5C, c]
      else if (of_char c :: nat) < 32 then CHR 0x5C # ''u00'' @ hex_of [c]
      else [c])"

definition json_literal :: "string \<Rightarrow> string" where
  "json_literal s = CHR 0x22 # concat (map json_escape s) @ [CHR 0x22]"

definition mixed :: "bytes \<Rightarrow> bytes" where
  "mixed b = le_bytes 32 (foldl (\<lambda>h c. (h * 131 + of_char c) mod 4294967291) 7 b)"

definition sample :: crates where
  "sample = \<lparr>sha256 = mixed, hex_encode = hex_of, hex_decode = of_hex, json_str = json_literal\<rparr>"

text \<open>The same crates with a hash that collides everywhere: on it the digests of different values
  are equal, and a binding theorem must produce the collision.\<close>

definition colliding :: crates where
  "colliding = sample\<lparr>sha256 := \<lambda>_. replicate 32 (CHR 0x00)\<rparr>"

text \<open>And with no hash at all, so that different values have different digests.\<close>

definition transparent :: crates where
  "transparent = sample\<lparr>sha256 := \<lambda>b. b\<rparr>"

lemma of_char_hex_digit: "n < 16 \<Longrightarrow> (of_char (hex_digit n) :: nat) = (if n < 10 then 48 + n else 87 + n)"
  by (simp add: hex_digit_def)

lemma hex_value_digit [simp]: "n < 16 \<Longrightarrow> hex_value (hex_digit n) = Some n"
  by (simp add: hex_value_def of_char_hex_digit)

lemma of_hex_of [simp]: "of_hex (hex_of bs) = Some bs"
proof (induction bs)
  case (Cons b bs)
  have "(of_char b :: nat) < 256" by simp
  then have "(of_char b :: nat) div 16 < 16" by linarith
  then have "hex_value (hex_digit (of_char b div 16)) = Some (of_char b div 16)" by simp
  moreover have "hex_value (hex_digit (of_char b mod 16)) = Some (of_char b mod 16)" by simp
  ultimately show ?case using Cons by simp
qed simp

lemma hex_digit_in: "n < 16 \<Longrightarrow> hex_digit n \<in> hex_digits"
proof -
  have "list_all (\<lambda>n. hex_digit n \<in> set ''0123456789abcdef'') [0..<16]" by code_simp
  then show "n < 16 \<Longrightarrow> hex_digit n \<in> hex_digits"
    unfolding hex_digits_def by (simp only: list_all_iff set_upt) simp
qed

lemma hex_of_digits: "length (hex_of bs) = 2 * length bs \<and> set (hex_of bs) \<subseteq> hex_digits"
proof (induction bs)
  case (Cons b bs)
  have "(of_char b :: nat) < 256" by simp
  then have "(of_char b :: nat) div 16 < 16" by linarith
  then show ?case using Cons hex_digit_in by simp
qed simp

lemma sample_hex_ok [simp]: "hex_ok sample"
  using hex_of_digits by (simp add: hex_ok_def sample_def)

lemma sample_sha_ok [simp]: "sha_ok sample"
  by (simp add: sha_ok_def sample_def mixed_def)

lemma hex_of_inj: "hex_of a = hex_of b \<longleftrightarrow> a = b"
  by (metis of_hex_of option.inject)

lemma json_escape_unique:
  assumes "json_escape c @ r = json_escape d @ s"
  shows "c = d \<and> r = s"
proof -
  have len: "length (hex_of [x]) = 2" for x using hex_of_digits [of "[x]"] by simp
  have "\<exists>p q. hex_of [x] = [p, q]" for x by simp
  with assms len hex_of_inj [of "[c]" "[d]"] show ?thesis
    by (auto simp: json_escape_def simp del: hex_of.simps split: if_splits)
qed

lemma json_escape_hd: "\<exists>h t. json_escape c = h # t \<and> h \<noteq> CHR 0x22"
  by (auto simp: json_escape_def)

lemma escapes_unique:
  "concat (map json_escape s) @ CHR 0x22 # r = concat (map json_escape t) @ CHR 0x22 # u \<Longrightarrow> s = t \<and> r = u"
proof (induction s arbitrary: t)
  case Nil
  show ?case
  proof (cases t)
    case Nil
    with Nil.prems show ?thesis by simp
  next
    case (Cons d t')
    with Nil.prems json_escape_hd [of d] show ?thesis by auto
  qed
next
  case (Cons c s)
  obtain d t' where t: "t = d # t'" using Cons.prems json_escape_hd [of c] by (cases t) auto
  from Cons.prems t
  have "c = d \<and> concat (map json_escape s) @ CHR 0x22 # r = concat (map json_escape t') @ CHR 0x22 # u"
    by (intro json_escape_unique) simp
  with Cons.IH [of t'] t show ?case by simp
qed

lemma sample_json_unique [simp]: "json_unique sample"
  unfolding json_unique_def
proof (intro conjI allI impI)
  show "\<exists>q. json_str sample s = CHR 0x22 # q" for s
    by (simp add: sample_def json_literal_def)
next
  fix s t r u
  assume "json_str sample s @ r = json_str sample t @ u"
  then have "concat (map json_escape s) @ CHR 0x22 # r = concat (map json_escape t) @ CHR 0x22 # u"
    by (simp add: sample_def json_literal_def)
  then show "s = t" "r = u" using escapes_unique by blast+
qed

lemma newline_notin_escape: "newline \<notin> set (json_escape c)"
proof -
  have "newline \<notin> hex_digits" by (simp add: newline_def hex_digits_def)
  with hex_of_digits [of "[c]"] show ?thesis
    by (auto simp: json_escape_def newline_def simp del: hex_of.simps)
qed

lemma sample_json_ok [simp]: "json_ok sample"
  using newline_notin_escape
  by (auto simp: json_ok_def sample_def json_literal_def newline_def)

lemma colliding_crates:
  "hex_encode colliding = hex_encode sample" "hex_decode colliding = hex_decode sample"
  "json_str colliding = json_str sample" "sha256 colliding = (\<lambda>_. replicate 32 (CHR 0x00))"
  by (simp_all add: colliding_def)

lemma colliding_hex_ok [simp]: "hex_ok colliding"
  using sample_hex_ok unfolding hex_ok_def colliding_crates .

lemma colliding_json_ok [simp]: "json_ok colliding"
  using sample_json_ok unfolding json_ok_def colliding_crates .

lemma colliding_json_unique [simp]: "json_unique colliding"
  using sample_json_unique unfolding json_unique_def colliding_crates .

lemma transparent_crates:
  "hex_encode transparent = hex_of" "hex_decode transparent = of_hex"
  "json_str transparent = json_literal" "sha256 transparent = (\<lambda>b. b)"
  by (simp_all add: transparent_def sample_def)

lemma transparent_json_unique [simp]: "json_unique transparent"
proof -
  have same: "json_str transparent = json_str sample" by (simp add: transparent_def)
  show ?thesis using sample_json_unique unfolding json_unique_def same .
qed

section \<open>Bounds on the length of canonical JSON\<close>

fun json_weight :: "json \<Rightarrow> nat" where
  "json_weight JNull = 4"
| "json_weight (JBool b) = 5"
| "json_weight (JNumber n) = n + 1"
| "json_weight (JString s) = 6 * length s + 2"
| "json_weight (JArray items) = sum_list (map (\<lambda>v. json_weight v + 1) items) + 2"
| "json_weight (JObject entries) =
     sum_list (map (\<lambda>e. 6 * length (fst e) + 4 + json_weight (snd e)) entries) + 2"

lemma length_escapes: "length (concat (map json_escape s)) \<le> 6 * length s"
proof (induction s)
  case (Cons c s)
  have "length (json_escape c) \<le> 6" by (simp add: json_escape_def)
  with Cons show ?case by simp
qed simp

lemma length_json_literal: "length (json_literal s) \<le> 6 * length s + 2"
  using length_escapes [of s] by (simp add: json_literal_def)

lemma length_dec_nat: "length (dec_nat n) \<le> n + 1"
proof (induction n rule: dec_nat.induct)
  case (1 n)
  then show ?case by (cases "n < 10") (simp_all add: dec_nat.simps [of n])
qed

lemma length_join:
  "length (join '','' (map f xs)) \<le> sum_list (map (\<lambda>x. length (f x) + 1) xs)"
  by (induction xs) (simp_all add: join_Cons)

lemma length_write_canonical:
  assumes "json_str X = json_literal"
  shows "length (write_canonical X v) \<le> json_weight v"
proof (induction v)
  case (JArray items)
  have "length (join '','' (map (write_canonical X) items)) \<le> sum_list (map (\<lambda>x. length (write_canonical X x) + 1) items)"
    by (rule length_join)
  also have "\<dots> \<le> sum_list (map (\<lambda>v. json_weight v + 1) items)"
    using JArray by (intro sum_list_mono) auto
  finally show ?case by simp
next
  case (JObject entries)
  let ?f = "\<lambda>e. write_json_string X (fst e) @ '':'' @ write_canonical X (snd e)"
  let ?g = "\<lambda>e. 6 * length (fst e) + 4 + json_weight (snd e)"
  have e: "length (?f e) + 1 \<le> ?g e" if "e \<in> set entries" for e
    using JObject [of e "snd e"] that length_json_literal [of "fst e"] assms
    by (cases e) (simp add: write_json_string_def)
  have "length (join '','' (map ?f (sort_key fst entries))) \<le> sum_list (map (\<lambda>x. length (?f x) + 1) (sort_key fst entries))"
    by (rule length_join)
  also have "\<dots> \<le> sum_list (map ?g (sort_key fst entries))"
    using e by (intro sum_list_mono) auto
  also have "\<dots> = sum_list (map ?g entries)"
    unfolding sum_mset_sum_list [symmetric] mset_map mset_sort ..
  finally show ?case by (simp add: Let_def)
qed (use assms length_json_literal length_dec_nat in \<open>simp_all add: write_json_string_def\<close>)

end
