(* ===== verification/Workload.thy ===== *)
theory Workload
  imports Canary_Base Sample
begin

text \<open>
  The canary workload (\<open>src/src/canary/workload.rs\<close>): the request set with expected outcomes and
  deadlines that the operator pins by digest.  \<open>serde_json::from_slice\<close> at the manifest type is
  the argument \<open>from_slice\<close>; a file is \<open>None\<close> when it cannot be read.  The lemmas characterise
  what validation accepts, and show that a pinned digest fixes the whole request set.
\<close>

definition WORKLOAD_DOMAIN :: string where "WORKLOAD_DOMAIN = ''spark-rsi/canary-workload/v1''"
definition REQUEST_DOMAIN :: string where "REQUEST_DOMAIN = ''spark-rsi/canary-request/v1''"

datatype workload_error =
    RequestIdRequired
  | RequestIdControl string
  | ZeroDeadline string
  | WorkloadUnreadable
  | WorkloadParse
  | WorkloadVersion u16
  | WorkloadProtocol u16
  | WorkloadIdInvalid
  | WorkloadEmpty
  | RepeatedRequestId string
  | WorkloadNotPinned string string

datatype nondeterminism = Exact

fun nondeterminism_str :: "nondeterminism \<Rightarrow> string" where
  "nondeterminism_str Exact = ''exact''"

record request_spec =
  spec_request_id :: string
  spec_input :: string
  spec_expected_output :: string
  spec_deadline_ms :: u64
  spec_nondeterminism :: nondeterminism

record workload_manifest =
  wl_workload_version :: u16
  wl_workload_id :: string
  wl_protocol_version :: u16
  wl_requests :: "request_spec list"

record pinned_workload =
  pw_manifest :: workload_manifest
  pw_digest :: string

definition request_digest :: "crates \<Rightarrow> request_spec \<Rightarrow> string \<Rightarrow> string" where
  "request_digest X r workload_id =
     domain_digest X REQUEST_DOMAIN
       [workload_id, spec_request_id r, spec_input r, spec_expected_output r,
        u64_le (spec_deadline_ms r), nondeterminism_str (spec_nondeterminism r)]"

definition expected_result_digest :: "crates \<Rightarrow> request_spec \<Rightarrow> string" where
  "expected_result_digest X r = sha256_hex X (spec_expected_output r)"

definition matches_output :: "request_spec \<Rightarrow> string \<Rightarrow> bool" where
  "matches_output r output =
     (case spec_nondeterminism r of Exact \<Rightarrow> output = spec_expected_output r)"

definition validate_request :: "request_spec \<Rightarrow> workload_error + unit" where
  "validate_request r =
     (if is_blank (spec_request_id r) then Err RequestIdRequired
      else if has_control (spec_request_id r) then Err (RequestIdControl (spec_request_id r))
      else if spec_deadline_ms r = 0 then Err (ZeroDeadline (spec_request_id r))
      else Ok ())"

text \<open>The loop over the requests; \<open>ids\<close> is the \<open>BTreeSet\<close> of the ids already seen.\<close>

fun validate_requests :: "string set \<Rightarrow> request_spec list \<Rightarrow> workload_error + unit" where
  "validate_requests ids [] = Ok ()"
| "validate_requests ids (r # rs) =
     (case validate_request r of
        Inl e \<Rightarrow> Err e
      | Inr _ \<Rightarrow>
          if spec_request_id r \<in> ids then Err (RepeatedRequestId (spec_request_id r))
          else validate_requests (insert (spec_request_id r) ids) rs)"

definition validate_workload :: "workload_manifest \<Rightarrow> workload_error + unit" where
  "validate_workload w =
     (if wl_workload_version w \<noteq> WORKLOAD_VERSION then Err (WorkloadVersion (wl_workload_version w))
      else if wl_protocol_version w \<noteq> CANARY_PROTOCOL_VERSION
        then Err (WorkloadProtocol (wl_protocol_version w))
      else if is_blank (wl_workload_id w) \<or> has_control (wl_workload_id w) then Err WorkloadIdInvalid
      else if wl_requests w = [] then Err WorkloadEmpty
      else validate_requests {} (wl_requests w))"

definition parse_workload ::
    "(bytes \<Rightarrow> workload_manifest option) \<Rightarrow> bytes \<Rightarrow> workload_error + workload_manifest" where
  "parse_workload from_slice b =
     (case from_slice b of
        None \<Rightarrow> Err WorkloadParse
      | Some m \<Rightarrow> and_then (validate_workload m) (\<lambda>_. Ok m))"

text \<open>What \<open>#[derive(Serialize)]\<close> produces for the two structs.\<close>

definition request_value :: "request_spec \<Rightarrow> json" where
  "request_value r = JObject
     [(''request_id'', JString (spec_request_id r)),
      (''input'', JString (spec_input r)),
      (''expected_output'', JString (spec_expected_output r)),
      (''deadline_ms'', JNumber (unat (spec_deadline_ms r))),
      (''nondeterminism'', JString (nondeterminism_str (spec_nondeterminism r)))]"

definition workload_value :: "workload_manifest \<Rightarrow> json" where
  "workload_value w = JObject
     [(''workload_version'', JNumber (unat (wl_workload_version w))),
      (''workload_id'', JString (wl_workload_id w)),
      (''protocol_version'', JNumber (unat (wl_protocol_version w))),
      (''requests'', JArray (map request_value (wl_requests w)))]"

definition workload_canonical_bytes :: "crates \<Rightarrow> workload_manifest \<Rightarrow> bytes" where
  "workload_canonical_bytes X w = write_canonical X (workload_value w)"

definition workload_digest :: "crates \<Rightarrow> workload_manifest \<Rightarrow> string" where
  "workload_digest X w = domain_digest X WORKLOAD_DOMAIN [workload_canonical_bytes X w]"

definition workload_request :: "workload_manifest \<Rightarrow> string \<Rightarrow> request_spec option" where
  "workload_request w rid = List.find (\<lambda>r. spec_request_id r = rid) (wl_requests w)"

definition load_workload ::
    "crates \<Rightarrow> (bytes \<Rightarrow> workload_manifest option) \<Rightarrow> bytes option \<Rightarrow> workload_error + pinned_workload" where
  "load_workload X from_slice file =
     (case file of
        None \<Rightarrow> Err WorkloadUnreadable
      | Some b \<Rightarrow> and_then (parse_workload from_slice b)
          (\<lambda>m. Ok \<lparr>pw_manifest = m, pw_digest = workload_digest X m\<rparr>))"

definition load_pinned ::
    "crates \<Rightarrow> (bytes \<Rightarrow> workload_manifest option) \<Rightarrow> bytes option \<Rightarrow> string
      \<Rightarrow> workload_error + pinned_workload" where
  "load_pinned X from_slice file expected =
     and_then (load_workload X from_slice file)
       (\<lambda>loaded. if pw_digest loaded \<noteq> expected then Err (WorkloadNotPinned (pw_digest loaded) expected)
         else Ok loaded)"

section \<open>What validation accepts\<close>

definition request_wf :: "request_spec \<Rightarrow> bool" where
  "request_wf r \<longleftrightarrow> \<not> is_blank (spec_request_id r) \<and> \<not> has_control (spec_request_id r)
     \<and> spec_deadline_ms r \<noteq> 0"

definition workload_wf :: "workload_manifest \<Rightarrow> bool" where
  "workload_wf w \<longleftrightarrow> wl_workload_version w = WORKLOAD_VERSION
     \<and> wl_protocol_version w = CANARY_PROTOCOL_VERSION
     \<and> \<not> is_blank (wl_workload_id w) \<and> \<not> has_control (wl_workload_id w)
     \<and> wl_requests w \<noteq> [] \<and> list_all request_wf (wl_requests w)
     \<and> distinct (map spec_request_id (wl_requests w))"

lemma validate_request_Ok [result_simps]: "validate_request r = Inr u \<longleftrightarrow> request_wf r"
  by (auto simp: validate_request_def request_wf_def)

lemma validate_requests_Ok [result_simps]:
  "validate_requests ids rs = Inr u \<longleftrightarrow>
     list_all request_wf rs \<and> distinct (map spec_request_id rs) \<and> ids \<inter> spec_request_id ` set rs = {}"
proof (induction ids rs rule: validate_requests.induct)
  case (1 ids)
  show ?case by simp
next
  case (2 ids r rs)
  show ?case
  proof (cases "validate_request r")
    case (Inl e)
    then have "\<not> request_wf r" using validate_request_Ok [of r "()"] by simp
    with Inl show ?thesis by simp
  next
    case (Inr v)
    then have "request_wf r" by (simp add: validate_request_Ok)
    with Inr 2 show ?thesis by auto
  qed
qed

lemma validate_workload_Ok [result_simps]: "validate_workload w = Inr u \<longleftrightarrow> workload_wf w"
  by (auto simp: validate_workload_def workload_wf_def validate_requests_Ok)

lemma workload_request_SomeD:
  "workload_request w rid = Some r \<Longrightarrow> r \<in> set (wl_requests w) \<and> spec_request_id r = rid"
  by (auto simp: workload_request_def find_Some_iff)

lemma workload_request_unique:
  assumes "workload_wf w" and "r \<in> set (wl_requests w)"
  shows "workload_request w (spec_request_id r) = Some r"
proof -
  from assms(2) obtain r' where found: "workload_request w (spec_request_id r) = Some r'"
    by (cases "workload_request w (spec_request_id r)") (auto simp: workload_request_def find_None_iff)
  then have "r' \<in> set (wl_requests w)" and "spec_request_id r' = spec_request_id r"
    using workload_request_SomeD by blast+
  moreover have "inj_on spec_request_id (set (wl_requests w))"
    using assms(1) by (simp add: workload_wf_def distinct_map)
  ultimately have "r' = r" using assms(2) by (auto dest: inj_onD)
  with found show ?thesis by simp
qed

section \<open>What a pinned digest fixes\<close>

lemma parse_workload_Ok [result_simps]:
  "parse_workload from_slice b = Inr m \<longleftrightarrow> from_slice b = Some m \<and> workload_wf m"
  by (auto simp: parse_workload_def result_simps split: option.splits)

lemma load_workload_Ok [result_simps]:
  "load_workload X from_slice file = Inr p \<longleftrightarrow>
     (\<exists>b. file = Some b \<and> from_slice b = Some (pw_manifest p)) \<and> workload_wf (pw_manifest p)
     \<and> pw_digest p = workload_digest X (pw_manifest p)"
  by (cases p) (auto simp: load_workload_def result_simps split: option.splits)

lemma load_pinned_Ok [result_simps]:
  "load_pinned X from_slice file d = Inr p \<longleftrightarrow> load_workload X from_slice file = Inr p \<and> pw_digest p = d"
  by (auto simp: load_pinned_def and_then_Ok split: if_splits)

text \<open>The request digest determines the workload id and the whole specification.\<close>

definition spec_fits :: "request_spec \<Rightarrow> bool" where
  "spec_fits r \<longleftrightarrow> fits (spec_request_id r) \<and> fits (spec_input r) \<and> fits (spec_expected_output r)"

definition request_preimage :: "request_spec \<Rightarrow> string \<Rightarrow> bytes" where
  "request_preimage r workload_id = domain_preimage REQUEST_DOMAIN
       [workload_id, spec_request_id r, spec_input r, spec_expected_output r,
        u64_le (spec_deadline_ms r), nondeterminism_str (spec_nondeterminism r)]"

lemma fits_small [simp]: "fits (u64_le w)" "fits (nondeterminism_str n)" "fits REQUEST_DOMAIN"
    "fits WORKLOAD_DOMAIN"
  by (simp add: fits_def, cases n, simp_all add: fits_def REQUEST_DOMAIN_def WORKLOAD_DOMAIN_def)

lemma request_digest_binds_lemma:
  assumes "hex_ok X" and "spec_fits r" "fits w" and "spec_fits r'" "fits w'"
    and "request_digest X r w = request_digest X r' w'"
  shows "(r = r' \<and> w = w') \<or> sha_collision X (request_preimage r w) (request_preimage r' w')"
proof -
  let ?f = "\<lambda>r w. [w, spec_request_id r, spec_input r, spec_expected_output r,
        u64_le (spec_deadline_ms r), nondeterminism_str (spec_nondeterminism r)]"
  have "(REQUEST_DOMAIN = REQUEST_DOMAIN \<and> ?f r w = ?f r' w') \<or>
      sha_collision X (domain_preimage REQUEST_DOMAIN (?f r w)) (domain_preimage REQUEST_DOMAIN (?f r' w'))"
    by (rule domain_digest_binds)
       (use assms in \<open>simp_all add: spec_fits_def request_digest_def\<close>)
  moreover have "r = r' \<and> w = w'" if "?f r w = ?f r' w'"
  proof -
    have "spec_nondeterminism r = spec_nondeterminism r'"
      by (cases "spec_nondeterminism r"; cases "spec_nondeterminism r'") simp
    with that show ?thesis by (simp add: request_spec.equality)
  qed
  ultimately show ?thesis unfolding request_preimage_def by satx
qed

lemma request_value_inj: "sorted_json (request_value r) = sorted_json (request_value r') \<Longrightarrow> r = r'"
  by (cases "spec_nondeterminism r"; cases "spec_nondeterminism r'")
     (simp add: request_value_def word_unat_eq_iff [symmetric])

lemma workload_value_inj: "sorted_json (workload_value w) = sorted_json (workload_value w') \<Longrightarrow> w = w'"
proof -
  assume eq: "sorted_json (workload_value w) = sorted_json (workload_value w')"
  then have "map (sorted_json \<circ> request_value) (wl_requests w) = map (sorted_json \<circ> request_value) (wl_requests w')"
    by (simp add: workload_value_def)
  moreover have "inj (sorted_json \<circ> request_value)" using request_value_inj by (auto intro!: injI)
  ultimately have "wl_requests w = wl_requests w'" by (metis inj_map_eq_map)
  with eq show "w = w'" by (simp add: workload_value_def word_unat_eq_iff [symmetric])
qed

lemma workload_digest_binds_lemma:
  assumes "hex_ok X" and "json_unique X"
    and "fits (workload_canonical_bytes X w)" and "fits (workload_canonical_bytes X w')"
    and "workload_digest X w = workload_digest X w'"
  shows "w = w' \<or> sha_collision X (domain_preimage WORKLOAD_DOMAIN [workload_canonical_bytes X w])
     (domain_preimage WORKLOAD_DOMAIN [workload_canonical_bytes X w'])"
proof -
  have "(WORKLOAD_DOMAIN = WORKLOAD_DOMAIN \<and>
      [workload_canonical_bytes X w] = [workload_canonical_bytes X w']) \<or>
      sha_collision X (domain_preimage WORKLOAD_DOMAIN [workload_canonical_bytes X w])
        (domain_preimage WORKLOAD_DOMAIN [workload_canonical_bytes X w'])"
    by (rule domain_digest_binds) (use assms in \<open>simp_all add: workload_digest_def\<close>)
  moreover have "w = w'" if "workload_canonical_bytes X w = workload_canonical_bytes X w'"
    using write_canonical_unique [OF assms(2) that [unfolded workload_canonical_bytes_def]]
    by (rule workload_value_inj)
  ultimately show ?thesis by auto
qed

section \<open>Properties of the workload\<close>

text \<open>A pinned digest fixes the request set.  Two files that load under the same pinned digest hold
  the same manifest (every request with its input, expected output, deadline and matching rule), which
  is valid, or the canonical texts of the two manifests exhibit a SHA-256 collision.\<close>

theorem pinned_workload_is_fixed:
  assumes "hex_ok X" and "json_unique X"
    and "load_pinned X from_slice f d = Ok p" and "load_pinned X from_slice' f' d = Ok p'"
    and "fits (workload_canonical_bytes X (pw_manifest p))" and "fits (workload_canonical_bytes X (pw_manifest p'))"
  shows "workload_wf (pw_manifest p) \<and> pw_digest p = d \<and> (pw_manifest p = pw_manifest p' \<or>
     sha_collision X (domain_preimage WORKLOAD_DOMAIN [workload_canonical_bytes X (pw_manifest p)])
       (domain_preimage WORKLOAD_DOMAIN [workload_canonical_bytes X (pw_manifest p')]))"
proof -
  from assms(3,4) have "workload_digest X (pw_manifest p) = workload_digest X (pw_manifest p')"
    "workload_wf (pw_manifest p)" "pw_digest p = d"
    unfolding load_pinned_Ok load_workload_Ok by metis+
  with workload_digest_binds_lemma [OF assms(1,2,5,6)] show ?thesis by blast
qed

definition ping :: "string \<Rightarrow> workload_manifest" where
  "ping output = \<lparr>wl_workload_version = 1, wl_workload_id = ''w'', wl_protocol_version = 1,
     wl_requests = [\<lparr>spec_request_id = ''r-1'', spec_input = ''ping'', spec_expected_output = output,
       spec_deadline_ms = 50, spec_nondeterminism = Exact\<rparr>]\<rparr>"

lemma ping_wf: "workload_wf (ping output)"
proof -
  have "\<not> is_blank ''w''" "\<not> has_control ''w''" "\<not> is_blank ''r-1''" "\<not> has_control ''r-1''" by code_simp+
  then show ?thesis
    by (simp add: workload_wf_def ping_def request_wf_def WORKLOAD_VERSION_def CANARY_PROTOCOL_VERSION_def)
qed

lemma ping_fits: "length output < 100 \<Longrightarrow> fits (workload_canonical_bytes colliding (ping output))"
proof -
  assume "length output < 100"
  then have "json_weight (workload_value (ping output)) < 10000"
    by (simp add: workload_value_def ping_def request_value_def)
  then show ?thesis
    using length_write_canonical [of colliding "workload_value (ping output)"]
    by (simp add: fits_def workload_canonical_bytes_def colliding_def sample_def)
qed

theorem pinned_workload_is_fixed_witness:
  "sha_collision colliding (domain_preimage WORKLOAD_DOMAIN [workload_canonical_bytes colliding (ping ''pong'')])
       (domain_preimage WORKLOAD_DOMAIN [workload_canonical_bytes colliding (ping ''gong'')])"
proof -
  let ?d = "workload_digest colliding (ping ''pong'')"
  have load: "load_pinned colliding (\<lambda>b. Some (ping out)) (Some []) ?d = Ok \<lparr>pw_manifest = ping out, pw_digest = ?d\<rparr>" for out
    using ping_wf by (simp add: load_pinned_Ok load_workload_Ok workload_digest_def domain_digest_def colliding_def)
  have "ping ''pong'' \<noteq> ping ''gong''" by (simp add: ping_def)
  then show ?thesis
    using pinned_workload_is_fixed [OF colliding_hex_ok colliding_json_unique load [of "''pong''"] load [of "''gong''"]]
      ping_fits [of "''pong''"] ping_fits [of "''gong''"] by simp
qed

end
