(* ===== verification/Identity.thy ===== *)
theory Identity
  imports Canary_Base Sample
begin

text \<open>
  The candidate identity chain (\<open>src/src/canary/identity.rs\<close>) and the adapter manifest a target
  ships (\<open>src/src/canary/adapter.rs\<close>).  \<open>toml::from_str\<close> at the manifest type is the argument
  \<open>from_toml\<close>; a file is \<open>None\<close> when it is absent or cannot be read.  The lemmas show that the
  binding digest fixes every link of the chain, that only the executable in the chain passes the
  launch check, and that an accepted adapter executable never leaves the build output root.
\<close>

datatype identity_error =
    IdentityVersion u16
  | IdentityDigest string
  | IdentityGenerationRequired
  | ExecutableUnreadable
  | ExecutableMismatch string string

datatype adapter_error =
    AdapterMissing
  | AdapterUnreadable
  | AdapterParse
  | AdapterVersion u16
  | AdapterProtocol u16
  | AdapterExecutableRequired
  | AdapterExecutableBadByte
  | AdapterExecutableAbsolute string
  | AdapterExecutableClimbs string
  | AdapterArgumentNul
  | AdapterWorkloadIdInvalid
  | AdapterResponseFormat string

section \<open>Identity\<close>

definition IDENTITY_DOMAIN :: string where "IDENTITY_DOMAIN = ''spark-rsi/candidate-identity/v1''"

record candidate_identity =
  id_identity_version :: u16
  id_patch_digest :: string
  id_tree_digest :: string
  id_executable_digest :: string
  id_generation_id :: string

definition new_identity :: "string \<Rightarrow> string \<Rightarrow> string \<Rightarrow> string \<Rightarrow> candidate_identity" where
  "new_identity patch tree exe gen =
     \<lparr>id_identity_version = IDENTITY_VERSION, id_patch_digest = patch, id_tree_digest = tree,
      id_executable_digest = exe, id_generation_id = gen\<rparr>"

definition validate_identity :: "candidate_identity \<Rightarrow> identity_error + unit" where
  "validate_identity c =
     (if id_identity_version c \<noteq> IDENTITY_VERSION then Err (IdentityVersion (id_identity_version c))
      else and_then
        (check_all (\<lambda>(name, d). if \<not> is_hex_digest d then Err (IdentityDigest name) else Ok ())
          [(''patch_digest'', id_patch_digest c), (''tree_digest'', id_tree_digest c),
           (''executable_digest'', id_executable_digest c)])
        (\<lambda>_. if is_blank (id_generation_id c) then Err IdentityGenerationRequired else Ok ()))"

definition binding_digest :: "crates \<Rightarrow> candidate_identity \<Rightarrow> string" where
  "binding_digest X c = domain_digest X IDENTITY_DOMAIN
     [id_patch_digest c, id_tree_digest c, id_executable_digest c, id_generation_id c]"

definition digest_file :: "crates \<Rightarrow> bytes option \<Rightarrow> identity_error + string" where
  "digest_file X file =
     (case file of None \<Rightarrow> Err ExecutableUnreadable | Some b \<Rightarrow> Ok (sha256_hex X b))"

definition verify_executable ::
    "crates \<Rightarrow> candidate_identity \<Rightarrow> bytes option \<Rightarrow> identity_error + unit" where
  "verify_executable X c file =
     and_then (digest_file X file)
       (\<lambda>actual. if actual \<noteq> id_executable_digest c
          then Err (ExecutableMismatch actual (id_executable_digest c)) else Ok ())"

section \<open>Adapter manifest\<close>

definition RESPONSE_FORMAT_UTF8_EXACT :: string where
  "RESPONSE_FORMAT_UTF8_EXACT = ''utf8-exact''"

record adapter_manifest =
  am_manifest_version :: u16
  am_protocol_version :: u16
  am_executable :: string
  am_args :: "string list"
  am_workload_id :: string
  am_response_format :: string

text \<open>\<open>std::path::Path::components\<close> on Unix: repeated separators and inner \<open>.\<close> vanish, a leading
  \<open>.\<close> is \<open>CurDir\<close>, a leading \<open>/\<close> is \<open>RootDir\<close>.\<close>

datatype component = RootDir | CurDir | ParentDir | Normal string

definition component_of :: "string \<Rightarrow> component" where
  "component_of c = (if c = ''..'' then ParentDir else Normal c)"

definition path_components :: "string \<Rightarrow> component list" where
  "path_components p =
     (if starts_with ''/'' p then [RootDir]
      else if hd (split_on CHR ''/'' p) = ''.'' then [CurDir] else [])
     @ map component_of (filter (\<lambda>c. c \<noteq> [] \<and> c \<noteq> ''.'') (split_on CHR ''/'' p))"

definition is_absolute :: "string \<Rightarrow> bool" where
  "is_absolute p \<longleftrightarrow> starts_with ''/'' p"

fun is_normal :: "component \<Rightarrow> bool" where
  "is_normal (Normal _) = True"
| "is_normal _ = False"

definition validate_relative_executable :: "string \<Rightarrow> adapter_error + unit" where
  "validate_relative_executable exe =
     (if is_blank exe then Err AdapterExecutableRequired
      else if CHR 0x5C \<in> set exe \<or> CHR 0x00 \<in> set exe then Err AdapterExecutableBadByte
      else if is_absolute exe then Err (AdapterExecutableAbsolute exe)
      else check_all (\<lambda>c. case c of Normal _ \<Rightarrow> Ok () | _ \<Rightarrow> Err (AdapterExecutableClimbs exe))
             (path_components exe))"

definition validate_adapter :: "adapter_manifest \<Rightarrow> adapter_error + unit" where
  "validate_adapter m =
     (if am_manifest_version m \<noteq> ADAPTER_MANIFEST_VERSION then Err (AdapterVersion (am_manifest_version m))
      else if am_protocol_version m \<noteq> CANARY_PROTOCOL_VERSION
        then Err (AdapterProtocol (am_protocol_version m))
      else and_then (validate_relative_executable (am_executable m))
        (\<lambda>_. and_then
           (check_all (\<lambda>arg. if CHR 0x00 \<in> set arg then Err AdapterArgumentNul else Ok ()) (am_args m))
           (\<lambda>_. if is_blank (am_workload_id m) \<or> has_control (am_workload_id m)
                then Err AdapterWorkloadIdInvalid
                else if am_response_format m \<noteq> RESPONSE_FORMAT_UTF8_EXACT
                  then Err (AdapterResponseFormat (am_response_format m))
                else Ok ())))"

definition parse_adapter ::
    "(string \<Rightarrow> adapter_manifest option) \<Rightarrow> string \<Rightarrow> adapter_error + adapter_manifest" where
  "parse_adapter from_toml text =
     (case from_toml text of
        None \<Rightarrow> Err AdapterParse
      | Some m \<Rightarrow> and_then (validate_adapter m) (\<lambda>_. Ok m))"

text \<open>The manifest file at the root of the tree: absent, present but unreadable, or its text.\<close>

datatype manifest_file = NoFile | UnreadableFile | TextFile string

record loaded_adapter =
  la_manifest :: adapter_manifest
  la_digest :: string

definition load_from_tree ::
    "crates \<Rightarrow> (string \<Rightarrow> adapter_manifest option) \<Rightarrow> manifest_file \<Rightarrow> adapter_error + loaded_adapter" where
  "load_from_tree X from_toml f =
     (case f of
        NoFile \<Rightarrow> Err AdapterMissing
      | UnreadableFile \<Rightarrow> Err AdapterUnreadable
      | TextFile text \<Rightarrow> and_then (parse_adapter from_toml text)
          (\<lambda>m. Ok \<lparr>la_manifest = m, la_digest = sha256_hex X text\<rparr>))"

text \<open>Where a path leads from a directory, component by component; an absolute component restarts
  at the root and \<open>..\<close> climbs.\<close>

fun resolve :: "string list \<Rightarrow> component list \<Rightarrow> string list" where
  "resolve dir [] = dir"
| "resolve dir (RootDir # cs) = resolve [] cs"
| "resolve dir (CurDir # cs) = resolve dir cs"
| "resolve dir (ParentDir # cs) = resolve (butlast dir) cs"
| "resolve dir (Normal c # cs) = resolve (dir @ [c]) cs"

definition executable_path :: "string list \<Rightarrow> adapter_manifest \<Rightarrow> string list" where
  "executable_path build_output_root m = resolve build_output_root (path_components (am_executable m))"

section \<open>Properties of the identity chain\<close>

definition identity_wf :: "candidate_identity \<Rightarrow> bool" where
  "identity_wf c \<longleftrightarrow> id_identity_version c = IDENTITY_VERSION \<and> is_hex_digest (id_patch_digest c)
     \<and> is_hex_digest (id_tree_digest c) \<and> is_hex_digest (id_executable_digest c)
     \<and> \<not> is_blank (id_generation_id c)"

lemma validate_identity_Ok [result_simps]: "validate_identity c = Inr u \<longleftrightarrow> identity_wf c"
  by (auto simp: validate_identity_def identity_wf_def)

lemma fits_hex_digest: "is_hex_digest d \<Longrightarrow> fits d"
  by (simp add: is_hex_digest_def fits_def)

lemma verify_executable_Ok [result_simps]:
  "verify_executable X c file = Inr u \<longleftrightarrow>
     (\<exists>b. file = Some b \<and> sha256_hex X b = id_executable_digest c)"
  by (auto simp: verify_executable_def digest_file_def split: option.splits)

definition identity_preimage :: "candidate_identity \<Rightarrow> bytes" where
  "identity_preimage c = domain_preimage IDENTITY_DOMAIN
     [id_patch_digest c, id_tree_digest c, id_executable_digest c, id_generation_id c]"

lemma binding_digest_binds_lemma:
  assumes "hex_ok X" and "identity_wf c" "fits (id_generation_id c)"
    and "identity_wf c'" "fits (id_generation_id c')"
    and "binding_digest X c = binding_digest X c'"
  shows "c = c' \<or> sha_collision X (identity_preimage c) (identity_preimage c')"
proof -
  let ?f = "\<lambda>c. [id_patch_digest c, id_tree_digest c, id_executable_digest c, id_generation_id c]"
  have "(IDENTITY_DOMAIN = IDENTITY_DOMAIN \<and> ?f c = ?f c') \<or>
      sha_collision X (domain_preimage IDENTITY_DOMAIN (?f c)) (domain_preimage IDENTITY_DOMAIN (?f c'))"
  proof (rule domain_digest_binds)
    show "fits IDENTITY_DOMAIN" by (simp add: fits_def IDENTITY_DOMAIN_def)
    then show "fits IDENTITY_DOMAIN" .
  qed (use assms in \<open>auto simp: identity_wf_def fits_hex_digest binding_digest_def\<close>)
  moreover have "c = c'" if "?f c = ?f c'"
    using that assms(2,4) by (intro candidate_identity.equality) (simp_all add: identity_wf_def)
  ultimately show ?thesis unfolding identity_preimage_def by satx
qed

section \<open>Properties of the adapter manifest\<close>

lemma validate_relative_executable_Ok:
  "validate_relative_executable exe = Inr u \<longleftrightarrow>
     \<not> is_blank exe \<and> CHR 0x5C \<notin> set exe \<and> CHR 0x00 \<notin> set exe \<and> \<not> is_absolute exe
     \<and> (\<forall>c \<in> set (path_components exe). is_normal c)"
proof -
  have "(case c of Normal _ \<Rightarrow> Ok () | _ \<Rightarrow> Err (AdapterExecutableClimbs exe)) = Inr () \<longleftrightarrow> is_normal c" for c
    by (cases c) auto
  then show ?thesis by (auto simp: validate_relative_executable_def result_simps)
qed

lemma resolve_normal:
  "\<forall>c \<in> set cs. is_normal c \<Longrightarrow> \<exists>names. resolve dir cs = dir @ names \<and> cs = map Normal names"
proof (induction cs arbitrary: dir)
  case Nil
  show ?case by simp
next
  case (Cons c cs)
  then obtain n where c: "c = Normal n" by (cases c) auto
  from Cons obtain names where "resolve (dir @ [n]) cs = (dir @ [n]) @ names \<and> cs = map Normal names"
    by fastforce
  with c show ?case by (intro exI [of _ "n # names"]) auto
qed

lemma component_of_Normal: "component_of c = Normal n \<longleftrightarrow> c = n \<and> c \<noteq> ''..''"
  by (auto simp: component_of_def)

lemma path_components_normal_names:
  "Normal n \<in> set (path_components p) \<Longrightarrow> n \<noteq> [] \<and> n \<noteq> ''.'' \<and> n \<noteq> ''..''"
  by (auto simp: path_components_def component_of_def split: if_splits)

text \<open>An accepted executable has at least one component.\<close>

lemma split_on_ne: "split_on c xs \<noteq> []"
  by (induction xs) (auto split: list.splits)

lemma path_components_nonempty:
  assumes "p \<noteq> []" and "\<not> is_absolute p" and "\<forall>c \<in> set (path_components p). is_normal c"
  shows "path_components p \<noteq> []"
proof -
  obtain x xs where p: "p = x # xs" using assms(1) by (cases p) auto
  have x: "x \<noteq> CHR ''/''" using assms(2) p by (simp add: is_absolute_def starts_with_def)
  obtain q qs where q: "split_on CHR ''/'' xs = q # qs" using split_on_ne by (cases "split_on CHR ''/'' xs") auto
  with x p have split: "split_on CHR ''/'' p = (x # q) # qs" by simp
  have "x # q \<noteq> ''.''"
  proof
    assume "x # q = ''.''"
    then have "CurDir \<in> set (path_components p)" using assms(2) split by (simp add: path_components_def is_absolute_def)
    with assms(3) show False by force
  qed
  with split show ?thesis by (simp add: path_components_def)
qed

section \<open>Properties of identity and adapter\<close>

text \<open>The binding digest commits to the whole identity chain: the patch, the tree, the executable
  and the generation.\<close>

theorem binding_digest_commits:
  assumes "hex_ok X" and "identity_wf c" "fits (id_generation_id c)"
    and "identity_wf c'" "fits (id_generation_id c')"
    and "binding_digest X c = binding_digest X c'"
  shows "c = c' \<or> sha_collision X (identity_preimage c) (identity_preimage c')"
  by (rule binding_digest_binds_lemma [OF assms])

theorem binding_digest_commits_witness:
  "sha_collision colliding
     (identity_preimage (new_identity (replicate 64 (CHR ''a'')) (replicate 64 (CHR ''b'')) (replicate 64 (CHR ''c'')) ''g1''))
     (identity_preimage (new_identity (replicate 64 (CHR ''a'')) (replicate 64 (CHR ''b'')) (replicate 64 (CHR ''c'')) ''g2''))"
proof -
  let ?c = "\<lambda>g. new_identity (replicate 64 (CHR ''a'')) (replicate 64 (CHR ''b'')) (replicate 64 (CHR ''c'')) g"
  have "is_hex_digest (replicate 64 (CHR ''a''))" "is_hex_digest (replicate 64 (CHR ''b''))"
    "is_hex_digest (replicate 64 (CHR ''c''))" "\<not> is_blank ''g1''" "\<not> is_blank ''g2''" by code_simp+
  then have "identity_wf (?c ''g1'')" "identity_wf (?c ''g2'')" by (simp_all add: identity_wf_def new_identity_def)
  then show ?thesis
    using binding_digest_commits [of colliding "?c ''g1''" "?c ''g2''"]
    by (simp add: binding_digest_def domain_digest_def colliding_crates fits_def new_identity_def)
qed

text \<open>An adapter executable never leaves the build output: for an accepted manifest the path that is
  launched is the build output root followed by at least one name, none of them empty, \<open>.\<close> or \<open>..\<close>.\<close>

theorem adapter_executable_stays_inside:
  assumes "validate_adapter m = Ok ()"
  shows "\<exists>names. names \<noteq> [] \<and> executable_path root m = root @ names \<and>
     list_all (\<lambda>n. n \<noteq> [] \<and> n \<noteq> ''.'' \<and> n \<noteq> ''..'') names"
proof -
  from assms have "validate_relative_executable (am_executable m) = Ok ()"
    by (auto simp: validate_adapter_def and_then_Ok split: if_splits)
  then have v: "\<not> is_blank (am_executable m)" "\<not> is_absolute (am_executable m)"
    "\<forall>c \<in> set (path_components (am_executable m)). is_normal c"
    by (simp_all add: validate_relative_executable_Ok)
  then have "am_executable m \<noteq> []" by (auto simp: is_blank_def)
  with v have ne: "path_components (am_executable m) \<noteq> []" by (intro path_components_nonempty)
  from resolve_normal [OF v(3), of root] obtain names
    where "resolve root (path_components (am_executable m)) = root @ names"
      and names: "path_components (am_executable m) = map Normal names" by blast
  moreover have "n \<noteq> [] \<and> n \<noteq> ''.'' \<and> n \<noteq> ''..''" if "n \<in> set names" for n
    using path_components_normal_names [of n "am_executable m"] names that by simp
  ultimately show ?thesis using ne by (intro exI [of _ names]) (auto simp: executable_path_def list_all_iff)
qed

theorem adapter_executable_stays_inside_witness:
  "\<exists>names. names \<noteq> [] \<and> executable_path [''out''] \<lparr>am_manifest_version = 1, am_protocol_version = 1,
       am_executable = ''bin/run'', am_args = [''-v''], am_workload_id = ''w'', am_response_format = ''utf8-exact''\<rparr>
     = [''out''] @ names \<and> list_all (\<lambda>n. n \<noteq> [] \<and> n \<noteq> ''.'' \<and> n \<noteq> ''..'') names"
proof (rule adapter_executable_stays_inside)
  show "validate_adapter \<lparr>am_manifest_version = 1, am_protocol_version = 1,
       am_executable = ''bin/run'', am_args = [''-v''], am_workload_id = ''w'', am_response_format = ''utf8-exact''\<rparr> = Ok ()"
    by code_simp
qed

end
