(* ===== verification/Observation.thy ===== *)
theory Observation
  imports Canary_Base
begin

text \<open>
  Version 2 canary observations (\<open>src/src/canary/observation.rs\<close>): the supervisor's record of one
  issued request and its checked outcome, its canonical encoding, its digest and its derived
  identity.  The lemmas characterise structural validity and show that equal observation ids come
  from the same generation, request and request digest.
\<close>

datatype obs_error =
    ObsVersion u16
  | ObsGenerationRequired
  | ObsRequestRequired
  | ObsDigestMalformed string
  | ObsResultMalformed
  | ObsResultMissing verified_status
  | ObsIdMismatch string

definition OBSERVATION_DOMAIN :: string where
  "OBSERVATION_DOMAIN = ''spark-rsi/canary-observation/v2''"
definition OBSERVATION_ID_DOMAIN :: string where
  "OBSERVATION_ID_DOMAIN = ''spark-rsi/canary-observation-id/v2''"

record observation =
  obs_record_version :: u16
  obs_observation_id :: string
  obs_generation_id :: string
  obs_request_id :: string
  obs_request_digest :: string
  obs_workload_digest :: string
  obs_executable_digest :: string
  obs_result_digest :: "string option"
  obs_elapsed_us :: u64
  obs_observed_at_ms :: u64
  obs_status :: verified_status
  obs_provenance :: provenance

definition observation_id :: "crates \<Rightarrow> string \<Rightarrow> string \<Rightarrow> string \<Rightarrow> string" where
  "observation_id X generation_id request_id request_digest =
     domain_digest X OBSERVATION_ID_DOMAIN [generation_id, request_id, request_digest]"

definition result_digest :: "crates \<Rightarrow> bytes \<Rightarrow> string" where
  "result_digest X output = sha256_hex X output"

record observation_input =
  in_generation_id :: string
  in_request_id :: string
  in_request_digest :: string
  in_workload_digest :: string
  in_executable_digest :: string
  in_result_digest :: "string option"
  in_elapsed_us :: u64
  in_observed_at_ms :: u64
  in_status :: verified_status
  in_provenance :: provenance

definition new_observation :: "crates \<Rightarrow> observation_input \<Rightarrow> observation" where
  "new_observation X i =
     \<lparr>obs_record_version = OBSERVATION_RECORD_VERSION,
      obs_observation_id = observation_id X (in_generation_id i) (in_request_id i) (in_request_digest i),
      obs_generation_id = in_generation_id i,
      obs_request_id = in_request_id i,
      obs_request_digest = in_request_digest i,
      obs_workload_digest = in_workload_digest i,
      obs_executable_digest = in_executable_digest i,
      obs_result_digest = in_result_digest i,
      obs_elapsed_us = in_elapsed_us i,
      obs_observed_at_ms = in_observed_at_ms i,
      obs_status = in_status i,
      obs_provenance = in_provenance i\<rparr>"

text \<open>Serialized names of the two enums (\<open>rename_all = "snake_case"\<close>).\<close>

fun status_str :: "verified_status \<Rightarrow> string" where
  "status_str VerifiedSuccess = ''verified_success''"
| "status_str WrongResult = ''wrong_result''"
| "status_str Timeout = ''timeout''"
| "status_str InvalidResponse = ''invalid_response''"
| "status_str ConnectionClosed = ''connection_closed''"

fun provenance_str :: "provenance \<Rightarrow> string" where
  "provenance_str Measured = ''measured''"
| "provenance_str Synthetic = ''synthetic''"

definition observation_value :: "observation \<Rightarrow> json" where
  "observation_value ob = JObject
     [(''record_version'', JNumber (unat (obs_record_version ob))),
      (''observation_id'', JString (obs_observation_id ob)),
      (''generation_id'', JString (obs_generation_id ob)),
      (''request_id'', JString (obs_request_id ob)),
      (''request_digest'', JString (obs_request_digest ob)),
      (''workload_digest'', JString (obs_workload_digest ob)),
      (''candidate_executable_digest'', JString (obs_executable_digest ob)),
      (''result_digest'', (case obs_result_digest ob of None \<Rightarrow> JNull | Some d \<Rightarrow> JString d)),
      (''elapsed_us'', JNumber (unat (obs_elapsed_us ob))),
      (''observed_at_ms'', JNumber (unat (obs_observed_at_ms ob))),
      (''status'', JString (status_str (obs_status ob))),
      (''provenance'', JString (provenance_str (obs_provenance ob)))]"

definition observation_canonical_bytes :: "crates \<Rightarrow> observation \<Rightarrow> bytes" where
  "observation_canonical_bytes X ob = write_canonical X (observation_value ob)"

definition digest_hex :: "crates \<Rightarrow> observation \<Rightarrow> string" where
  "digest_hex X ob = domain_digest X OBSERVATION_DOMAIN [observation_canonical_bytes X ob]"

definition validate_observation :: "crates \<Rightarrow> observation \<Rightarrow> obs_error + unit" where
  "validate_observation X ob =
     (if obs_record_version ob \<noteq> OBSERVATION_RECORD_VERSION then Err (ObsVersion (obs_record_version ob))
      else if is_blank (obs_generation_id ob) then Err ObsGenerationRequired
      else if is_blank (obs_request_id ob) then Err ObsRequestRequired
      else and_then
        (check_all (\<lambda>(name, d). if \<not> is_hex_digest d then Err (ObsDigestMalformed name) else Ok ())
          [(''request_digest'', obs_request_digest ob), (''workload_digest'', obs_workload_digest ob),
           (''candidate_executable_digest'', obs_executable_digest ob)])
        (\<lambda>_. and_then
          (case (obs_result_digest ob, obs_status ob) of
             (Some d, st) \<Rightarrow> if \<not> is_hex_digest d then Err ObsResultMalformed else Ok ()
           | (None, VerifiedSuccess) \<Rightarrow> Err (ObsResultMissing (obs_status ob))
           | (None, WrongResult) \<Rightarrow> Err (ObsResultMissing (obs_status ob))
           | (None, _) \<Rightarrow> Ok ())
          (\<lambda>_. if obs_observation_id ob \<noteq>
                   observation_id X (obs_generation_id ob) (obs_request_id ob) (obs_request_digest ob)
                then Err (ObsIdMismatch (obs_observation_id ob)) else Ok ())))"

definition is_qualifying :: "observation \<Rightarrow> bool" where
  "is_qualifying ob \<longleftrightarrow> obs_provenance ob = Measured \<and> obs_status ob = VerifiedSuccess
     \<and> obs_result_digest ob \<noteq> None"

section \<open>Properties\<close>

definition observation_wf :: "crates \<Rightarrow> observation \<Rightarrow> bool" where
  "observation_wf X ob \<longleftrightarrow> obs_record_version ob = OBSERVATION_RECORD_VERSION
     \<and> \<not> is_blank (obs_generation_id ob) \<and> \<not> is_blank (obs_request_id ob)
     \<and> is_hex_digest (obs_request_digest ob) \<and> is_hex_digest (obs_workload_digest ob)
     \<and> is_hex_digest (obs_executable_digest ob)
     \<and> (\<forall>d. obs_result_digest ob = Some d \<longrightarrow> is_hex_digest d)
     \<and> (obs_status ob \<in> {VerifiedSuccess, WrongResult} \<longrightarrow> obs_result_digest ob \<noteq> None)
     \<and> obs_observation_id ob =
         observation_id X (obs_generation_id ob) (obs_request_id ob) (obs_request_digest ob)"

lemma validate_observation_Ok [result_simps]:
  "validate_observation X ob = Inr u \<longleftrightarrow> observation_wf X ob"
  by (cases "obs_result_digest ob"; cases "obs_status ob")
     (auto simp: validate_observation_def observation_wf_def)

lemma new_observation_fields [simp]:
  "obs_record_version (new_observation X i) = OBSERVATION_RECORD_VERSION"
  "obs_observation_id (new_observation X i) =
     observation_id X (in_generation_id i) (in_request_id i) (in_request_digest i)"
  "obs_generation_id (new_observation X i) = in_generation_id i"
  "obs_request_id (new_observation X i) = in_request_id i"
  "obs_request_digest (new_observation X i) = in_request_digest i"
  "obs_workload_digest (new_observation X i) = in_workload_digest i"
  "obs_executable_digest (new_observation X i) = in_executable_digest i"
  "obs_result_digest (new_observation X i) = in_result_digest i"
  "obs_elapsed_us (new_observation X i) = in_elapsed_us i"
  "obs_observed_at_ms (new_observation X i) = in_observed_at_ms i"
  "obs_status (new_observation X i) = in_status i"
  "obs_provenance (new_observation X i) = in_provenance i"
  by (simp_all add: new_observation_def)

definition id_preimage :: "string \<Rightarrow> string \<Rightarrow> string \<Rightarrow> bytes" where
  "id_preimage g r d = domain_preimage OBSERVATION_ID_DOMAIN [g, r, d]"

lemma observation_id_binds_lemma:
  assumes "hex_ok X" and "fits g" "fits r" "fits d" and "fits g'" "fits r'" "fits d'"
    and "observation_id X g r d = observation_id X g' r' d'"
  shows "(g = g' \<and> r = r' \<and> d = d') \<or> sha_collision X (id_preimage g r d) (id_preimage g' r' d')"
proof -
  have "(OBSERVATION_ID_DOMAIN = OBSERVATION_ID_DOMAIN \<and> [g, r, d] = [g', r', d']) \<or>
      sha_collision X (domain_preimage OBSERVATION_ID_DOMAIN [g, r, d])
        (domain_preimage OBSERVATION_ID_DOMAIN [g', r', d'])"
  proof (rule domain_digest_binds)
    show "fits OBSERVATION_ID_DOMAIN" by (simp add: fits_def OBSERVATION_ID_DOMAIN_def)
    then show "fits OBSERVATION_ID_DOMAIN" .
  qed (use assms in \<open>simp_all add: observation_id_def\<close>)
  then show ?thesis by (simp add: id_preimage_def)
qed

lemma status_str_inj [simp]: "status_str a = status_str b \<longleftrightarrow> a = b"
  by (cases a; cases b) simp_all

lemma provenance_str_inj [simp]: "provenance_str a = provenance_str b \<longleftrightarrow> a = b"
  by (cases a; cases b) simp_all

lemma unat_eq [simp]: "unat v = unat w \<longleftrightarrow> v = w"
  by (simp add: word_unat_eq_iff)

lemma observation_value_inj:
  assumes "sorted_json (observation_value a) = sorted_json (observation_value b)"
  shows "a = b"
proof -
  have "obs_result_digest a = obs_result_digest b"
    using assms by (auto simp: observation_value_def split: option.splits)
  with assms show ?thesis by (simp add: observation_value_def)
qed

end
