(* ===== verification/Obs_Log.thy ===== *)
theory Obs_Log
  imports Observation
begin

text \<open>
  The per-generation observation log (\<open>src/src/canary/log.rs\<close>): append-only canonical JSON lines,
  opened with a header, closed with a seal that commits the digest of everything before it.

  The file is its bytes (\<open>None\<close> when it does not exist).  \<open>serde_json::from_slice\<close> at \<open>LogRecord\<close>
  is the argument \<open>from_slice\<close>.  The outcome of a physical write is the argument \<open>io\<close> of the
  operations that write: it completes, it stops after some bytes, or it reaches the file without
  being synced.

  The parser is total and is related to a fold over the records of the file (\<open>replay\<close>): a file
  parses exactly when it is a sequence of canonical lines that replay accepts, with an
  incomplete last line excluded.  On top of it: the writer's refinement of an abstract list of
  observations, recovery after a crash in the middle of a write, and what a verified seal implies.
\<close>

datatype log_error =
    LogVersion u16
  | LogGenerationRequired
  | LogWorkloadDigestMalformed
  | LogExecutableDigestMalformed
  | AfterSeal nat
  | LineParse nat
  | NotCanonical nat
  | MisplacedHeader nat
  | NoHeader
  | LogObs obs_error
  | ObsDigestMismatch string string
  | WrongLogGeneration string
  | WrongLogWorkload string
  | WrongLogExecutable string
  | ConflictingRecord string
  | LogUnreadable
  | LogExists
  | OtherBindings string
  | AlreadySealed
  | PartialTail
  | WriteFailed
  | SyncFailed
  | NotSealed
  | BytesAfterSeal
  | SealDigestMismatch string string
  | SealCountMismatch u64 nat
  | SealQualifyingMismatch u64 nat

definition LOG_DOMAIN :: string where "LOG_DOMAIN = ''spark-rsi/canary-observation-log/v1''"

record log_header =
  hdr_log_version :: u16
  hdr_generation_id :: string
  hdr_workload_digest :: string
  hdr_executable_digest :: string
  hdr_opened_at_ms :: u64

definition new_header :: "string \<Rightarrow> string \<Rightarrow> string \<Rightarrow> u64 \<Rightarrow> log_header" where
  "new_header generation_id workload_digest executable_digest opened_at_ms =
     \<lparr>hdr_log_version = OBSERVATION_LOG_VERSION, hdr_generation_id = generation_id,
      hdr_workload_digest = workload_digest, hdr_executable_digest = executable_digest,
      hdr_opened_at_ms = opened_at_ms\<rparr>"

definition validate_header :: "log_header \<Rightarrow> log_error + unit" where
  "validate_header h =
     (if hdr_log_version h \<noteq> OBSERVATION_LOG_VERSION then Err (LogVersion (hdr_log_version h))
      else if is_blank (hdr_generation_id h) then Err LogGenerationRequired
      else if \<not> is_hex_digest (hdr_workload_digest h) then Err LogWorkloadDigestMalformed
      else if \<not> is_hex_digest (hdr_executable_digest h) then Err LogExecutableDigestMalformed
      else Ok ())"

record log_observation =
  lo_observation :: observation
  lo_observation_digest :: string

record log_rejection =
  rej_reason :: string
  rej_observed_at_ms :: u64

record log_seal =
  seal_observation_count :: u64
  seal_qualifying_count :: u64
  seal_log_digest :: string
  seal_sealed_at_ms :: u64

datatype log_record =
    HeaderRec log_header
  | ObservationRec log_observation
  | RejectionRec log_rejection
  | SealRec log_seal

text \<open>What \<open>#[derive(Serialize)]\<close> produces, with \<open>tag = "kind", content = "record"\<close>.\<close>

definition header_value :: "log_header \<Rightarrow> json" where
  "header_value h = JObject
     [(''log_version'', JNumber (unat (hdr_log_version h))),
      (''generation_id'', JString (hdr_generation_id h)),
      (''workload_digest'', JString (hdr_workload_digest h)),
      (''candidate_executable_digest'', JString (hdr_executable_digest h)),
      (''opened_at_ms'', JNumber (unat (hdr_opened_at_ms h)))]"

definition log_observation_value :: "log_observation \<Rightarrow> json" where
  "log_observation_value l = JObject
     [(''observation'', observation_value (lo_observation l)),
      (''observation_digest'', JString (lo_observation_digest l))]"

definition rejection_value :: "log_rejection \<Rightarrow> json" where
  "rejection_value r = JObject
     [(''reason'', JString (rej_reason r)), (''observed_at_ms'', JNumber (unat (rej_observed_at_ms r)))]"

definition seal_value :: "log_seal \<Rightarrow> json" where
  "seal_value s = JObject
     [(''observation_count'', JNumber (unat (seal_observation_count s))),
      (''qualifying_count'', JNumber (unat (seal_qualifying_count s))),
      (''log_digest'', JString (seal_log_digest s)),
      (''sealed_at_ms'', JNumber (unat (seal_sealed_at_ms s)))]"

fun record_value :: "log_record \<Rightarrow> json" where
  "record_value (HeaderRec h) = JObject [(''kind'', JString ''header''), (''record'', header_value h)]"
| "record_value (ObservationRec l) =
     JObject [(''kind'', JString ''observation''), (''record'', log_observation_value l)]"
| "record_value (RejectionRec r) = JObject [(''kind'', JString ''rejection''), (''record'', rejection_value r)]"
| "record_value (SealRec s) = JObject [(''kind'', JString ''seal''), (''record'', seal_value s)]"

definition to_line :: "crates \<Rightarrow> log_record \<Rightarrow> bytes" where
  "to_line X r = write_canonical X (record_value r) @ [newline]"

datatype append_outcome = Appended | Idempotent

datatype log_state =
    Missing
  | Unsealed nat bool
  | SealedState nat
  | Invalid log_error

section \<open>Parsing\<close>

record parsed =
  p_header :: "log_header option"
  p_observations :: "observation list"
  p_rejections :: "log_rejection list"
  p_seal :: "(log_seal \<times> nat) option"
  p_complete_end :: nat
  p_partial_tail :: bool

type_synonym seen_map = "string \<rightharpoonup> string"

definition parsed_init :: parsed where
  "parsed_init = \<lparr>p_header = None, p_observations = [], p_rejections = [], p_seal = None,
     p_complete_end = 0, p_partial_tail = False\<rparr>"

definition check_bindings :: "log_header \<Rightarrow> observation \<Rightarrow> log_error + unit" where
  "check_bindings header ob =
     (if obs_generation_id ob \<noteq> hdr_generation_id header then Err (WrongLogGeneration (obs_observation_id ob))
      else if obs_workload_digest ob \<noteq> hdr_workload_digest header
        then Err (WrongLogWorkload (obs_observation_id ob))
      else if obs_executable_digest ob \<noteq> hdr_executable_digest header
        then Err (WrongLogExecutable (obs_observation_id ob))
      else Ok ())"

text \<open>The \<open>match record\<close> of the loop body, on line \<open>line_no\<close> starting at \<open>line_start\<close>.\<close>

fun parse_record ::
    "crates \<Rightarrow> nat \<Rightarrow> nat \<Rightarrow> log_record \<Rightarrow> parsed \<Rightarrow> seen_map \<Rightarrow> log_error + parsed \<times> seen_map" where
  "parse_record X line_no line_start (HeaderRec h) p seen =
     (if line_no \<noteq> 1 then Err (MisplacedHeader line_no)
      else and_then (validate_header h) (\<lambda>_. Ok (p\<lparr>p_header := Some h\<rparr>, seen)))"
| "parse_record X line_no line_start (ObservationRec l) p seen =
     and_then (ok_or (p_header p) NoHeader) (\<lambda>header.
       and_then (map_err LogObs (validate_observation X (lo_observation l))) (\<lambda>_.
         let ob = lo_observation l; digest = digest_hex X ob in
         if lo_observation_digest l \<noteq> digest
           then Err (ObsDigestMismatch (obs_observation_id ob) (lo_observation_digest l))
         else and_then (check_bindings header ob) (\<lambda>_.
           case seen (obs_observation_id ob) of
             Some previous \<Rightarrow>
               if previous = digest then Ok (p, seen)
               else Err (ConflictingRecord (obs_observation_id ob))
           | None \<Rightarrow>
               Ok (p\<lparr>p_observations := p_observations p @ [ob]\<rparr>, seen(obs_observation_id ob \<mapsto> digest)))))"
| "parse_record X line_no line_start (RejectionRec r) p seen =
     (if p_header p = None then Err NoHeader
      else Ok (p\<lparr>p_rejections := p_rejections p @ [r]\<rparr>, seen))"
| "parse_record X line_no line_start (SealRec s) p seen =
     (if p_header p = None then Err NoHeader
      else Ok (p\<lparr>p_seal := Some (s, line_start)\<rparr>, seen))"

function parse_loop ::
    "crates \<Rightarrow> (bytes \<Rightarrow> log_record option) \<Rightarrow> bytes \<Rightarrow> nat \<Rightarrow> nat \<Rightarrow> parsed \<Rightarrow> seen_map
      \<Rightarrow> log_error + parsed \<times> seen_map" where
  "parse_loop X from_slice b offset line_no p seen =
     (if offset < length b then
        (case position (\<lambda>c. c = newline) (drop offset b) of
           None \<Rightarrow> Ok (p\<lparr>p_partial_tail := True\<rparr>, seen)
         | Some rel \<Rightarrow>
             let line_start = offset; line_end = offset + rel;
                 offset' = line_end + 1; line_no' = line_no + 1 in
             if p_seal p \<noteq> None then Err (AfterSeal line_no')
             else case from_slice (take rel (drop line_start b)) of
                 None \<Rightarrow> Err (LineParse line_no')
               | Some r \<Rightarrow>
                   if to_line X r \<noteq> take (rel + 1) (drop line_start b) then Err (NotCanonical line_no')
                   else case parse_record X line_no' line_start r p seen of
                       Inl e \<Rightarrow> Err e
                     | Inr (p', seen') \<Rightarrow>
                         parse_loop X from_slice b offset' line_no'
                           (p'\<lparr>p_complete_end := offset'\<rparr>) seen')
      else Ok (p, seen))"
  by pat_completeness auto
termination
  by (relation "measure (\<lambda>(X, fs, b, offset, n, p, seen). length b - offset)") auto

declare parse_loop.simps [simp del]

definition parse_log :: "crates \<Rightarrow> (bytes \<Rightarrow> log_record option) \<Rightarrow> bytes \<Rightarrow> log_error + parsed" where
  "parse_log X from_slice b =
     and_then (parse_loop X from_slice b 0 0 parsed_init Map.empty) (\<lambda>(p, _).
       if p_header p = None \<and> p_complete_end p > 0 then Err NoHeader else Ok p)"

definition log_digest_of :: "crates \<Rightarrow> bytes \<Rightarrow> string" where
  "log_digest_of X bytes_before_seal = domain_digest X LOG_DOMAIN [bytes_before_seal]"

definition inspect :: "crates \<Rightarrow> (bytes \<Rightarrow> log_record option) \<Rightarrow> bytes option \<Rightarrow> log_state" where
  "inspect X from_slice file =
     (case file of
        None \<Rightarrow> Missing
      | Some b \<Rightarrow>
          (case parse_log X from_slice b of
             Inl e \<Rightarrow> Invalid e
           | Inr p \<Rightarrow>
               (case p_seal p of
                  Some _ \<Rightarrow> SealedState (length (p_observations p))
                | None \<Rightarrow> Unsealed (length (p_observations p)) (p_partial_tail p))))"

section \<open>Writing\<close>

datatype io = IoOk | IoWriteFails nat | IoSyncFails

fun write_synced :: "io \<Rightarrow> bytes \<Rightarrow> bytes \<Rightarrow> (log_error + unit) \<times> bytes" where
  "write_synced IoOk file line = (Ok (), file @ line)"
| "write_synced (IoWriteFails n) file line = (Err WriteFailed, file @ take n line)"
| "write_synced IoSyncFails file line = (Err SyncFailed, file @ line)"

record log_writer =
  w_header :: log_header
  w_seen :: seen_map

definition create_log ::
    "crates \<Rightarrow> io \<Rightarrow> bytes option \<Rightarrow> log_header \<Rightarrow> (log_error + log_writer) \<times> bytes option" where
  "create_log X io file header =
     (case validate_header header of
        Inl e \<Rightarrow> (Err e, file)
      | Inr _ \<Rightarrow>
          (case file of
             Some _ \<Rightarrow> (Err LogExists, file)
           | None \<Rightarrow>
               (case write_synced io [] (to_line X (HeaderRec header)) of
                  (Inl e, b) \<Rightarrow> (Err e, Some b)
                | (Inr _, b) \<Rightarrow> (Ok \<lparr>w_header = header, w_seen = Map.empty\<rparr>, Some b))))"

text \<open>Reopening keeps the complete lines (\<open>set_len(complete_end)\<close>) and rebuilds \<open>seen\<close> by hashing
  every stored observation.\<close>

definition reopen_log ::
    "crates \<Rightarrow> (bytes \<Rightarrow> log_record option) \<Rightarrow> bytes option \<Rightarrow> log_header
      \<Rightarrow> (log_error + log_writer) \<times> bytes option" where
  "reopen_log X from_slice file expected =
     (case validate_header expected of
        Inl e \<Rightarrow> (Err e, file)
      | Inr _ \<Rightarrow>
     (case file of
        None \<Rightarrow> (Err LogUnreadable, file)
      | Some b \<Rightarrow>
     (case parse_log X from_slice b of
        Inl e \<Rightarrow> (Err e, file)
      | Inr p \<Rightarrow>
     (case p_header p of
        None \<Rightarrow> (Err NoHeader, file)
      | Some header \<Rightarrow>
          if header \<noteq> expected then (Err (OtherBindings (hdr_generation_id header)), file)
          else if p_seal p \<noteq> None then (Err AlreadySealed, file)
          else
            let b' = (if p_partial_tail p then take (p_complete_end p) b else b) in
            (Ok \<lparr>w_header = header,
                 w_seen = map_of (rev (map (\<lambda>ob. (obs_observation_id ob, digest_hex X ob)) (p_observations p)))\<rparr>,
             Some b')))))"

definition writer_contains :: "log_writer \<Rightarrow> string \<Rightarrow> bool" where
  "writer_contains w oid \<longleftrightarrow> w_seen w oid \<noteq> None"

definition append_observation ::
    "crates \<Rightarrow> io \<Rightarrow> observation \<Rightarrow> log_writer \<times> bytes
      \<Rightarrow> (log_error + append_outcome) \<times> log_writer \<times> bytes" where
  "append_observation X io ob s =
     (let (w, file) = s in
      case map_err LogObs (validate_observation X ob) of
        Inl e \<Rightarrow> (Err e, s)
      | Inr _ \<Rightarrow>
          (case check_bindings (w_header w) ob of
             Inl e \<Rightarrow> (Err e, s)
           | Inr _ \<Rightarrow>
               let digest = digest_hex X ob in
               (case w_seen w (obs_observation_id ob) of
                  Some previous \<Rightarrow>
                    if previous = digest then (Ok Idempotent, s)
                    else (Err (ConflictingRecord (obs_observation_id ob)), s)
                | None \<Rightarrow>
                    let r = ObservationRec \<lparr>lo_observation = ob, lo_observation_digest = digest\<rparr> in
                    (case write_synced io file (to_line X r) of
                       (Inl e, file') \<Rightarrow> (Err e, w, file')
                     | (Inr _, file') \<Rightarrow>
                         (Ok Appended, w\<lparr>w_seen := (w_seen w)(obs_observation_id ob \<mapsto> digest)\<rparr>, file')))))"

definition append_rejection ::
    "crates \<Rightarrow> io \<Rightarrow> string \<Rightarrow> u64 \<Rightarrow> log_writer \<times> bytes \<Rightarrow> (log_error + unit) \<times> log_writer \<times> bytes" where
  "append_rejection X io reason observed_at_ms s =
     (let (w, file) = s;
          r = RejectionRec \<lparr>rej_reason = reason, rej_observed_at_ms = observed_at_ms\<rparr>;
          (res, file') = write_synced io file (to_line X r)
      in (res, w, file'))"

section \<open>Sealing and verification\<close>

record sealed_log =
  sl_header :: log_header
  sl_observations :: "observation list"
  sl_rejections :: "log_rejection list"
  sl_seal :: log_seal

definition count_qualifying :: "observation list \<Rightarrow> nat" where
  "count_qualifying obs = length (filter is_qualifying obs)"

definition verify_bytes :: "crates \<Rightarrow> (bytes \<Rightarrow> log_record option) \<Rightarrow> bytes \<Rightarrow> log_error + sealed_log" where
  "verify_bytes X from_slice b =
     and_then (parse_log X from_slice b) (\<lambda>p.
     and_then (ok_or (p_header p) NoHeader) (\<lambda>header.
     and_then (ok_or (p_seal p) NotSealed) (\<lambda>(seal, seal_start).
       if p_partial_tail p \<or> p_complete_end p \<noteq> length b then Err BytesAfterSeal
       else let expected = log_digest_of X (take seal_start b) in
       if seal_log_digest seal \<noteq> expected then Err (SealDigestMismatch (seal_log_digest seal) expected)
       else if seal_observation_count seal \<noteq> of_nat (length (p_observations p))
         then Err (SealCountMismatch (seal_observation_count seal) (length (p_observations p)))
       else if seal_qualifying_count seal \<noteq> of_nat (count_qualifying (p_observations p))
         then Err (SealQualifyingMismatch (seal_qualifying_count seal) (count_qualifying (p_observations p)))
       else Ok \<lparr>sl_header = header, sl_observations = p_observations p,
                sl_rejections = p_rejections p, sl_seal = seal\<rparr>)))"

definition load_sealed ::
    "crates \<Rightarrow> (bytes \<Rightarrow> log_record option) \<Rightarrow> bytes option \<Rightarrow> log_error + sealed_log" where
  "load_sealed X from_slice file =
     (case file of None \<Rightarrow> Err LogUnreadable | Some b \<Rightarrow> verify_bytes X from_slice b)"

definition seal_log ::
    "crates \<Rightarrow> (bytes \<Rightarrow> log_record option) \<Rightarrow> io \<Rightarrow> u64 \<Rightarrow> bytes \<Rightarrow> (log_error + sealed_log) \<times> bytes" where
  "seal_log X from_slice io sealed_at_ms file =
     (case parse_log X from_slice file of
        Inl e \<Rightarrow> (Err e, file)
      | Inr p \<Rightarrow>
          if p_seal p \<noteq> None then (Err AlreadySealed, file)
          else if p_partial_tail p then (Err PartialTail, file)
          else
            let seal = \<lparr>seal_observation_count = of_nat (length (p_observations p)),
                        seal_qualifying_count = of_nat (count_qualifying (p_observations p)),
                        seal_log_digest = log_digest_of X file, seal_sealed_at_ms = sealed_at_ms\<rparr> in
            (case write_synced io file (to_line X (SealRec seal)) of
               (Inl e, file') \<Rightarrow> (Err e, file')
             | (Inr _, file') \<Rightarrow> (load_sealed X from_slice (Some file'), file')))"

section \<open>The parser as a fold over records\<close>

definition lines :: "crates \<Rightarrow> log_record list \<Rightarrow> bytes" where
  "lines X rs = concat (map (to_line X) rs)"

fun replay ::
    "crates \<Rightarrow> nat \<Rightarrow> nat \<Rightarrow> parsed \<Rightarrow> seen_map \<Rightarrow> log_record list \<Rightarrow> log_error + parsed \<times> seen_map" where
  "replay X n off p seen [] = Ok (p, seen)"
| "replay X n off p seen (r # rs) =
     (if p_seal p \<noteq> None then Err (AfterSeal (n + 1))
      else case parse_record X (n + 1) off r p seen of
          Inl e \<Rightarrow> Err e
        | Inr (p', seen') \<Rightarrow>
            replay X (n + 1) (off + length (to_line X r))
              (p'\<lparr>p_complete_end := off + length (to_line X r)\<rparr>) seen' rs)"

definition with_tail :: "bytes \<Rightarrow> parsed \<Rightarrow> parsed" where
  "with_tail torn p = (if torn = [] then p else p\<lparr>p_partial_tail := True\<rparr>)"

text \<open>What the log relies on of \<open>serde_json\<close>: strings are escaped onto one line, and reading reread
  the text written for a record gives the record.\<close>

definition codec_ok :: "crates \<Rightarrow> (bytes \<Rightarrow> log_record option) \<Rightarrow> bool" where
  "codec_ok X from_slice \<longleftrightarrow> json_ok X \<and>
     (\<forall>r. from_slice (write_canonical X (record_value r)) = Some r)"

lemma lines_simps [simp]:
  "lines X [] = []"
  "lines X (r # rs) = to_line X r @ lines X rs"
  "lines X (rs @ rs') = lines X rs @ lines X rs'"
  by (simp_all add: lines_def)

lemma to_line_neq [simp]: "to_line X r \<noteq> []"
  by (simp add: to_line_def)

lemma position_to_line:
  "json_ok X \<Longrightarrow> position (\<lambda>c. c = newline) (to_line X r @ rest) =
     Some (length (write_canonical X (record_value r)))"
  unfolding to_line_def append_assoc append_Cons append_Nil
  by (rule position_append) (auto dest: newline_notin_canonical)

lemma parse_loop_step:
  assumes "off < length b" and "position (\<lambda>c. c = newline) (drop off b) = Some rel"
    and "p_seal p = None" and "from_slice (take rel (drop off b)) = Some r"
    and "to_line X r = take (rel + 1) (drop off b)"
  shows "parse_loop X from_slice b off n p seen =
    (case parse_record X (n + 1) off r p seen of
       Inl e \<Rightarrow> Err e
     | Inr (p', seen') \<Rightarrow> parse_loop X from_slice b (off + rel + 1) (n + 1)
         (p'\<lparr>p_complete_end := off + rel + 1\<rparr>) seen')"
  by (subst parse_loop.simps) (simp add: assms Let_def del: take_drop split: sum.split prod.split)

lemma parse_loop_after_seal:
  assumes "off < length b" and "position (\<lambda>c. c = newline) (drop off b) = Some rel"
    and "p_seal p \<noteq> None"
  shows "parse_loop X from_slice b off n p seen = Err (AfterSeal (n + 1))"
  using assms by (subst parse_loop.simps) (auto simp: Let_def)

lemma parse_loop_replay:
  assumes "codec_ok X from_slice" and "newline \<notin> set torn"
  shows "parse_loop X from_slice (pre @ lines X rs @ torn) (length pre) n p seen =
    (case replay X n (length pre) p seen rs of
       Inl e \<Rightarrow> Err e | Inr (p', seen') \<Rightarrow> Ok (with_tail torn p', seen'))"
proof (induction rs arbitrary: pre n p seen)
  case Nil
  have "position (\<lambda>c. c = newline) torn = None"
    using assms(2) by (auto simp: position_None)
  then show ?case by (simp add: parse_loop.simps [of X] with_tail_def)
next
  case (Cons r rs)
  let ?c = "write_canonical X (record_value r)"
  let ?b = "pre @ lines X (r # rs) @ torn"
  let ?off = "length pre + length ?c + 1"
  have len: "length pre < length ?b" by (simp add: to_line_def)
  have pos: "position (\<lambda>c. c = newline) (drop (length pre) ?b) = Some (length ?c)"
    using assms(1) by (simp add: codec_ok_def position_to_line)
  have line: "take (length ?c) (drop (length pre) ?b) = ?c"
    and full: "to_line X r = take (length ?c + 1) (drop (length pre) ?b)"
    by (simp_all add: to_line_def)
  have off: "?off = length (pre @ to_line X r)"
    by (simp add: to_line_def)
  have reread: "from_slice (take (length ?c) (drop (length pre) ?b)) = Some r"
    using assms(1) line by (simp only: codec_ok_def)
  show ?case
  proof (cases "p_seal p = None")
    case False
    then show ?thesis using parse_loop_after_seal [OF len pos False] by simp
  next
    case True
    have "parse_loop X from_slice ?b (length pre) n p seen =
      (case parse_record X (n + 1) (length pre) r p seen of
         Inl e \<Rightarrow> Err e
       | Inr (p', seen') \<Rightarrow> parse_loop X from_slice ((pre @ to_line X r) @ lines X rs @ torn)
           (length (pre @ to_line X r)) (n + 1)
           (p'\<lparr>p_complete_end := length (pre @ to_line X r)\<rparr>) seen')"
      by (subst parse_loop_step [where rel = "length ?c" and r = r])
         (rule len pos True reread full | simp only: off append_assoc lines_simps)+
    then show ?thesis
      using True by (simp only: Cons.IH) (simp split: sum.splits)
  qed
qed

lemma parse_loop_sound:
  "parse_loop X from_slice b off n p seen = Ok (q, seen') \<Longrightarrow> off \<le> length b \<Longrightarrow>
   \<exists>rs torn q'. drop off b = lines X rs @ torn \<and> newline \<notin> set torn
     \<and> replay X n off p seen rs = Ok (q', seen') \<and> q = with_tail torn q'"
proof (induction X from_slice b off n p seen rule: parse_loop.induct)
  case (1 X from_slice b off n p seen)
  show ?case
  proof (cases "off < length b")
    case False
    with "1.prems" show ?thesis
      by (intro exI [of _ "[]"]) (simp add: parse_loop.simps [of X] with_tail_def)
  next
    case more: True
    show ?thesis
    proof (cases "position (\<lambda>c. c = newline) (drop off b)")
      case None
      with more "1.prems" have "q = p\<lparr>p_partial_tail := True\<rparr>" "seen' = seen"
        by (simp_all add: parse_loop.simps [of X])
      moreover from None have "newline \<notin> set (drop off b)"
        by (auto simp: position_None)
      ultimately show ?thesis using more
        by (intro exI [of _ "[]"] exI [of _ "drop off b"]) (simp add: with_tail_def)
    next
      case (Some rel)
      from Some obtain ys zs where split: "drop off b = ys @ newline # zs" "length ys = rel"
        by (auto dest: position_SomeD)
      have unsealed: "p_seal p = None"
        using "1.prems" Some more by (cases "p_seal p") (simp_all add: parse_loop.simps [of X])
      obtain r where fs: "from_slice (take rel (drop off b)) = Some r"
        and canon: "to_line X r = take (rel + 1) (drop off b)"
        using "1.prems" Some more unsealed
        by (auto simp: parse_loop.simps [of X from_slice b off] Let_def simp del: take_drop
            split: option.splits if_splits)
      obtain p1 seen1 where step: "parse_record X (n + 1) off r p seen = Ok (p1, seen1)"
        using "1.prems" Some more unsealed fs canon
        by (cases "parse_record X (n + 1) off r p seen")
           (auto simp: parse_loop.simps [of X from_slice b off] Let_def simp del: take_drop)
      have rest: "parse_loop X from_slice b (off + rel + 1) (n + 1)
          (p1\<lparr>p_complete_end := off + rel + 1\<rparr>) seen1 = Ok (q, seen')"
        using "1.prems" Some more unsealed fs canon step
        by (simp add: parse_loop.simps [of X from_slice b off] Let_def del: take_drop)
      have len: "length (to_line X r) = rel + 1" and line: "to_line X r = ys @ [newline]"
        using canon split by simp_all
      have le: "off + rel + 1 \<le> length b"
        using arg_cong [OF split(1), of length] split(2) more by simp
      from "1.IH" [OF more Some refl refl refl refl _ fs _ step refl rest le] unsealed canon
      obtain rs torn q' where IH: "drop (off + rel + 1) b = lines X rs @ torn" "newline \<notin> set torn"
        "replay X (n + 1) (off + rel + 1) (p1\<lparr>p_complete_end := off + rel + 1\<rparr>) seen1 rs = Ok (q', seen')"
        "q = with_tail torn q'"
        by auto
      have "drop off b = to_line X r @ drop (off + rel + 1) b"
        using append_take_drop_id [of "rel + 1" "drop off b"] canon by (simp add: ac_simps)
      with IH unsealed step len show ?thesis
        by (intro exI [of _ "r # rs"] exI [of _ torn] exI [of _ q']) (simp add: add.assoc)
    qed
  qed
qed

lemma record_value_inj:
  assumes "sorted_json (record_value a) = sorted_json (record_value b)"
  shows "a = b"
proof (cases a; cases b)
  fix h h' assume "a = HeaderRec h" "b = HeaderRec h'"
  with assms show ?thesis by (simp add: header_value_def)
next
  fix l l' assume "a = ObservationRec l" "b = ObservationRec l'"
  with assms show ?thesis
    by (auto simp: log_observation_value_def dest!: observation_value_inj)
next
  fix h h' assume "a = RejectionRec h" "b = RejectionRec h'"
  with assms show ?thesis by (simp add: rejection_value_def)
next
  fix h h' assume "a = SealRec h" "b = SealRec h'"
  with assms show ?thesis by (simp add: seal_value_def)
qed (use assms in simp_all)

lemma replay_append:
  "replay X n off p seen (rs @ rs') =
     and_then (replay X n off p seen rs)
       (\<lambda>(q, s). replay X (n + length rs) (off + length (lines X rs)) q s rs')"
  by (induction rs arbitrary: n off p seen) (simp_all split: sum.split add: add.assoc)

section \<open>What a parsed log satisfies\<close>

definition header_wf :: "log_header \<Rightarrow> bool" where
  "header_wf h \<longleftrightarrow> hdr_log_version h = OBSERVATION_LOG_VERSION \<and> \<not> is_blank (hdr_generation_id h)
     \<and> is_hex_digest (hdr_workload_digest h) \<and> is_hex_digest (hdr_executable_digest h)"

definition bound_to :: "log_header \<Rightarrow> observation \<Rightarrow> bool" where
  "bound_to h ob \<longleftrightarrow> obs_generation_id ob = hdr_generation_id h
     \<and> obs_workload_digest ob = hdr_workload_digest h
     \<and> obs_executable_digest ob = hdr_executable_digest h"

definition seen_of :: "crates \<Rightarrow> observation list \<Rightarrow> seen_map" where
  "seen_of X obs = map_of (rev (map (\<lambda>ob. (obs_observation_id ob, digest_hex X ob)) obs))"

definition obs_ids :: "observation list \<Rightarrow> string list" where
  "obs_ids obs = map obs_observation_id obs"

lemma validate_header_Ok [result_simps]: "validate_header h = Inr u \<longleftrightarrow> header_wf h"
  by (auto simp: validate_header_def header_wf_def)

lemma check_bindings_Ok [result_simps]: "check_bindings h ob = Inr u \<longleftrightarrow> bound_to h ob"
  by (auto simp: check_bindings_def bound_to_def)

lemma seen_of_Nil [simp]: "seen_of X [] = Map.empty"
  by (simp add: seen_of_def)

lemma seen_of_snoc [simp]:
  "seen_of X (obs @ [ob]) = (seen_of X obs)(obs_observation_id ob \<mapsto> digest_hex X ob)"
  by (simp add: seen_of_def)

lemma seen_of_single [simp]: "seen_of X [ob] = [obs_observation_id ob \<mapsto> digest_hex X ob]"
  by (simp add: seen_of_def)

lemma dom_seen_of: "dom (seen_of X obs) = set (obs_ids obs)"
  by (simp add: seen_of_def dom_map_of_conv_image_fst obs_ids_def image_image)

lemma seen_of_None: "seen_of X obs oid = None \<longleftrightarrow> oid \<notin> set (obs_ids obs)"
  using dom_seen_of [of X obs] by (auto simp: domIff)

text \<open>Line \<open>n\<close> has been read, the next one starts at \<open>off\<close>.\<close>

definition parse_inv :: "crates \<Rightarrow> nat \<Rightarrow> nat \<Rightarrow> parsed \<Rightarrow> seen_map \<Rightarrow> bool" where
  "parse_inv X n off p seen \<longleftrightarrow>
     seen = seen_of X (p_observations p) \<and> distinct (obs_ids (p_observations p))
     \<and> (n = 0 \<longrightarrow> p_observations p = [])
     \<and> (\<forall>h. p_header p = Some h \<longrightarrow> header_wf h)
     \<and> (\<forall>ob \<in> set (p_observations p). observation_wf X ob \<and> (\<exists>h. p_header p = Some h \<and> bound_to h ob))
     \<and> \<not> p_partial_tail p \<and> p_complete_end p = off"

lemma parse_inv_init: "parse_inv X 0 0 parsed_init Map.empty"
  by (simp add: parse_inv_def parsed_init_def obs_ids_def)

lemma parse_record_inv:
  assumes "parse_inv X n off p seen" and "parse_record X (n + 1) off r p seen = Ok (p', seen')"
  shows "parse_inv X (n + 1) off' (p'\<lparr>p_complete_end := off'\<rparr>) seen'"
proof (cases r)
  case (HeaderRec h)
  with assms show ?thesis by (auto simp: parse_inv_def result_simps split: if_splits)
next
  case (ObservationRec l)
  with assms(2) obtain h where h: "p_header p = Some h" and wf: "observation_wf X (lo_observation l)"
    and bnd: "bound_to h (lo_observation l)"
    by (auto simp: result_simps Let_def split: if_splits)
  with assms(2) ObservationRec have
    "(p' = p \<and> seen' = seen) \<or>
     (seen (obs_observation_id (lo_observation l)) = None
      \<and> p' = p\<lparr>p_observations := p_observations p @ [lo_observation l]\<rparr>
      \<and> seen' = seen(obs_observation_id (lo_observation l) \<mapsto> digest_hex X (lo_observation l)))"
    by (auto simp: result_simps Let_def split: if_splits option.splits)
  with assms(1) h wf bnd show ?thesis
    by (auto simp: parse_inv_def seen_of_None obs_ids_def)
next
  case (RejectionRec rj)
  with assms show ?thesis by (auto simp: parse_inv_def split: if_splits)
next
  case (SealRec s)
  with assms show ?thesis by (auto simp: parse_inv_def split: if_splits)
qed

lemma replay_inv:
  assumes "parse_inv X n off p seen" and "replay X n off p seen rs = Ok (q, seen')"
  shows "parse_inv X (n + length rs) (off + length (lines X rs)) q seen'"
  using assms
proof (induction rs arbitrary: n off p seen)
  case Nil
  then show ?case by simp
next
  case (Cons r rs)
  from Cons.prems(2) obtain p1 seen1
    where step: "parse_record X (n + 1) off r p seen = Ok (p1, seen1)"
      and rest: "replay X (n + 1) (off + length (to_line X r))
        (p1\<lparr>p_complete_end := off + length (to_line X r)\<rparr>) seen1 rs = Ok (q, seen')"
    by (auto split: if_splits sum.splits)
  from Cons.IH [OF parse_record_inv [OF Cons.prems(1) step] rest] show ?case
    by (simp add: add.assoc)
qed

lemma parse_record_header:
  "parse_record X (n + 1) off r p seen = Ok (p', seen') \<Longrightarrow> n > 0 \<Longrightarrow> p_header p' = p_header p"
  by (cases r) (auto simp: result_simps Let_def split: if_splits option.splits)

lemma replay_header:
  "replay X n off p seen rs = Ok (q, seen') \<Longrightarrow> n > 0 \<Longrightarrow> p_header q = p_header p"
proof (induction rs arbitrary: n off p seen)
  case Nil
  then show ?case by simp
next
  case (Cons r rs)
  from Cons.prems(1) obtain p1 seen1
    where step: "parse_record X (n + 1) off r p seen = Ok (p1, seen1)"
      and rest: "replay X (n + 1) (off + length (to_line X r))
        (p1\<lparr>p_complete_end := off + length (to_line X r)\<rparr>) seen1 rs = Ok (q, seen')"
    by (auto split: if_splits sum.splits)
  from Cons.IH [OF rest] parse_record_header [OF step Cons.prems(2)] show ?case by simp
qed

text \<open>A sealed parse ends in the seal line, and the records before it replay to an open log.\<close>

lemma parse_record_seal:
  "parse_record X (n + 1) off r p seen = Ok (p', seen') \<Longrightarrow> p_seal p = None \<Longrightarrow>
   p_seal p' = Some (s, k) \<Longrightarrow> r = SealRec s \<and> k = off \<and> p' = p\<lparr>p_seal := Some (s, k)\<rparr> \<and> seen' = seen"
  by (cases r) (auto simp: result_simps Let_def split: if_splits option.splits)

lemma replay_sealed:
  assumes "replay X n off p seen rs = Ok (q, seen')" and "p_seal p = None" and "p_seal q = Some (s, k)"
  shows "\<exists>rs' q'. rs = rs' @ [SealRec s] \<and> k = off + length (lines X rs')
     \<and> replay X n off p seen rs' = Ok (q', seen') \<and> p_seal q' = None
     \<and> q = q'\<lparr>p_seal := Some (s, k), p_complete_end := k + length (to_line X (SealRec s))\<rparr>"
  using assms
proof (induction rs arbitrary: q seen' s k rule: rev_induct)
  case Nil
  then show ?case by simp
next
  case (snoc r rs)
  from snoc.prems(1) obtain q1 s1 where front: "replay X n off p seen rs = Ok (q1, s1)"
    and last: "replay X (n + length rs) (off + length (lines X rs)) q1 s1 [r] = Ok (q, seen')"
    by (auto simp: replay_append and_then_Ok)
  from last have open1: "p_seal q1 = None" by (cases "p_seal q1") simp_all
  from last obtain p1 seen1
    where step: "parse_record X (n + length rs + 1) (off + length (lines X rs)) r q1 s1 = Ok (p1, seen1)"
      and q: "q = p1\<lparr>p_complete_end := off + length (lines X rs) + length (to_line X r)\<rparr>"
      and "seen1 = seen'"
    by (auto split: if_splits sum.splits)
  moreover from q snoc.prems(3) have "p_seal p1 = Some (s, k)" by simp
  ultimately have "r = SealRec s \<and> k = off + length (lines X rs) \<and> p1 = q1\<lparr>p_seal := Some (s, k)\<rparr> \<and> seen' = s1"
    using parse_record_seal [OF step open1] by blast
  with front open1 q show ?case by (intro exI [of _ rs] exI [of _ q1]) simp
qed

lemma parse_log_sound:
  assumes "parse_log X from_slice b = Ok p"
  obtains rs torn q seen where "b = lines X rs @ torn" and "newline \<notin> set torn"
    and "replay X 0 0 parsed_init Map.empty rs = Ok (q, seen)" and "p = with_tail torn q"
    and "parse_inv X (length rs) (length (lines X rs)) q seen"
    and "rs \<noteq> [] \<Longrightarrow> p_header p \<noteq> None"
proof -
  from assms obtain q seen where loop: "parse_loop X from_slice b 0 0 parsed_init Map.empty = Ok (p, seen)"
    and hdr: "p_header p \<noteq> None \<or> p_complete_end p = 0"
    by (auto simp: parse_log_def and_then_Ok split: if_splits)
  from parse_loop_sound [OF loop] obtain rs torn q
    where rs: "b = lines X rs @ torn" "newline \<notin> set torn"
      "replay X 0 0 parsed_init Map.empty rs = Ok (q, seen)" "p = with_tail torn q"
    by auto
  from replay_inv [OF parse_inv_init rs(3)]
  have inv: "parse_inv X (length rs) (length (lines X rs)) q seen" by simp
  have "p_header p \<noteq> None" if "rs \<noteq> []"
  proof -
    have "0 < length (lines X rs)" using that by (cases rs) (simp_all add: to_line_def)
    then have "p_complete_end p > 0"
      using inv rs(4) by (simp add: parse_inv_def with_tail_def split: if_splits)
    with hdr show ?thesis by simp
  qed
  with rs inv that show thesis by blast
qed

lemma parse_log_complete:
  assumes "codec_ok X from_slice" and "newline \<notin> set torn"
    and "replay X 0 0 parsed_init Map.empty rs = Ok (q, seen)" and "rs \<noteq> [] \<longrightarrow> p_header q \<noteq> None"
  shows "parse_log X from_slice (lines X rs @ torn) = Ok (with_tail torn q)"
proof -
  have "parse_loop X from_slice (lines X rs @ torn) 0 0 parsed_init Map.empty = Ok (with_tail torn q, seen)"
    using parse_loop_replay [OF assms(1,2), of "[]" rs 0 parsed_init Map.empty] assms(3) by simp
  moreover have "p_complete_end (with_tail torn q) = 0 \<or> p_header (with_tail torn q) \<noteq> None"
    using assms(3,4) by (cases rs) (auto simp: with_tail_def parsed_init_def)
  ultimately show ?thesis by (auto simp: parse_log_def)
qed

lemma with_tail_simps [simp]:
  "p_header (with_tail torn q) = p_header q"
  "p_observations (with_tail torn q) = p_observations q"
  "p_rejections (with_tail torn q) = p_rejections q"
  "p_seal (with_tail torn q) = p_seal q"
  "p_complete_end (with_tail torn q) = p_complete_end q"
  "p_partial_tail (with_tail torn q) \<longleftrightarrow> torn \<noteq> [] \<or> p_partial_tail q"
  by (simp_all add: with_tail_def)

end
