(* ===== verification/Log_Recovery.thy ===== *)
theory Log_Recovery
  imports Obs_Log Sample
begin

text \<open>
  The life of an observation log (\<open>src/src/canary/log.rs\<close>): the writer against an abstract store of
  observations, crashes and restarts, sealing, and what the verification of a sealed log implies.

  The locale \<open>observation_store\<close> is the contract the executor relies on (a record is stored once, a
  repeated record changes nothing, a conflicting one is refused); \<open>append_observation\<close> is
  interpreted in it.  \<open>open_log X w file obs\<close> relates a writer and the bytes of its file to the
  list of observations stored; \<open>log_step\<close> is the log with failing writes, crashes and restarts.
\<close>

section \<open>The store contract\<close>

text \<open>A loop that stores records in order and stops at the first refusal.\<close>

fun put_all :: "('o \<Rightarrow> 's \<Rightarrow> ('e + 'r) \<times> 's) \<Rightarrow> 'o list \<Rightarrow> 's \<Rightarrow> ('e + unit) \<times> 's" where
  "put_all put [] s = (Ok (), s)"
| "put_all put (x # xs) s =
     (case put x s of (Inl e, s') \<Rightarrow> (Err e, s') | (Inr _, s') \<Rightarrow> put_all put xs s')"

locale observation_store =
  fixes invar :: "'s \<Rightarrow> bool" and stored :: "'s \<Rightarrow> (string \<rightharpoonup> string)"
    and put :: "'o \<Rightarrow> 's \<Rightarrow> ('e + append_outcome) \<times> 's"
    and oid :: "'o \<Rightarrow> string" and odigest :: "'o \<Rightarrow> string" and accepts :: "'s \<Rightarrow> 'o \<Rightarrow> bool"
  assumes put_fresh: "invar s \<Longrightarrow> accepts s x \<Longrightarrow> stored s (oid x) = None \<Longrightarrow>
      put x s = (r, s') \<Longrightarrow> r = Ok Appended \<and> invar s' \<and> stored s' = (stored s)(oid x \<mapsto> odigest x)
        \<and> accepts s' = accepts s"
    and put_same: "accepts s x \<Longrightarrow> stored s (oid x) = Some (odigest x) \<Longrightarrow> put x s = (Ok Idempotent, s)"
    and put_conflict: "accepts s x \<Longrightarrow> stored s (oid x) = Some d \<Longrightarrow> d \<noteq> odigest x \<Longrightarrow>
      put x s = (r, s') \<Longrightarrow> \<not> is_ok r \<and> s' = s"
    and put_refused: "\<not> accepts s x \<Longrightarrow> put x s = (r, s') \<Longrightarrow> \<not> is_ok r \<and> s' = s"
begin

lemma put_OkD:
  assumes "invar s" and "put x s = (Inr r, s')"
  shows "accepts s x \<and> invar s' \<and> accepts s' = accepts s \<and> stored s \<subseteq>\<^sub>m stored s'
     \<and> stored s' = (stored s)(oid x \<mapsto> odigest x)"
proof (cases "accepts s x")
  case False
  from put_refused [OF False assms(2)] show ?thesis by simp
next
  case acc: True
  show ?thesis
  proof (cases "stored s (oid x)")
    case None
    from put_fresh [OF assms(1) acc None assms(2)] None show ?thesis
      using acc by (auto simp: map_le_def)
  next
    case (Some d)
    then have "d = odigest x" using put_conflict [OF acc Some _ assms(2)] by auto
    with put_same [OF acc] Some assms(2) have "s' = s" by auto
    with acc assms(1) Some \<open>d = odigest x\<close> show ?thesis by auto
  qed
qed

lemma put_retry:
  assumes "invar s" and "put x s = (Inr r, s')"
  shows "put x s' = (Ok Idempotent, s')"
  using put_OkD [OF assms] by (intro put_same) auto

lemma put_all_OkD:
  assumes "invar s" and "put_all put xs s = (Inr u, s')"
  shows "invar s' \<and> accepts s' = accepts s \<and> list_all (accepts s) xs \<and> stored s \<subseteq>\<^sub>m stored s'
     \<and> dom (stored s') = dom (stored s) \<union> oid ` set xs
     \<and> (\<forall>x \<in> set xs. stored s' (oid x) = Some (odigest x))"
  using assms
proof (induction xs arbitrary: s)
  case Nil
  then show ?case by simp
next
  case (Cons x xs)
  from Cons.prems(2) obtain r s1 where put: "put x s = (Inr r, s1)" and rest: "put_all put xs s1 = (Inr u, s')"
    by (auto split: prod.splits sum.splits)
  note x = put_OkD [OF Cons.prems(1) put]
  then have "invar s1" by blast
  note ih = Cons.IH [OF this rest]
  have x': "accepts s1 = accepts s" "accepts s x" "stored s1 = (stored s)(oid x \<mapsto> odigest x)" using x by blast+
  have le: "stored s1 \<subseteq>\<^sub>m stored s'" using ih by blast
  then have "stored s \<subseteq>\<^sub>m stored s'" using x map_le_trans by blast
  moreover have "stored s' (oid x) = Some (odigest x)"
    using le x'(3) by (metis domIff fun_upd_same map_le_def option.distinct(1))
  moreover have "dom (stored s') = dom (stored s) \<union> oid ` set (x # xs)"
    using ih x'(3) by (metis Un_insert_left dom_fun_upd image_insert list.simps(15) option.distinct(1) Un_insert_right)
  ultimately show ?case using ih x'(1,2) by simp
qed

lemma put_all_retry:
  assumes "list_all (accepts s) xs" and "\<forall>x \<in> set xs. stored s (oid x) = Some (odigest x)"
  shows "put_all put xs s = (Ok (), s)"
  using assms by (induction xs) (simp_all add: put_same)

end

section \<open>The open log and its operations\<close>

definition open_log :: "crates \<Rightarrow> log_writer \<Rightarrow> bytes \<Rightarrow> observation list \<Rightarrow> bool" where
  "open_log X w file obs \<longleftrightarrow>
     (\<exists>rs q. file = lines X rs \<and> replay X 0 0 parsed_init Map.empty rs = Ok (q, w_seen w)
        \<and> p_seal q = None \<and> p_header q = Some (w_header w) \<and> p_observations q = obs)"

lemma open_log_wf:
  assumes "open_log X w file obs"
  shows "w_seen w = seen_of X obs" and "distinct (obs_ids obs)" and "header_wf (w_header w)"
    and "list_all (\<lambda>ob. observation_wf X ob \<and> bound_to (w_header w) ob) obs"
proof -
  from assms obtain rs q where q: "replay X 0 0 parsed_init Map.empty rs = Ok (q, w_seen w)"
    "p_header q = Some (w_header w)" "p_observations q = obs"
    by (auto simp: open_log_def)
  from replay_inv [OF parse_inv_init q(1)] q(2,3)
  show "w_seen w = seen_of X obs" "distinct (obs_ids obs)" "header_wf (w_header w)"
    "list_all (\<lambda>ob. observation_wf X ob \<and> bound_to (w_header w) ob) obs"
    by (auto simp: parse_inv_def list_all_iff)
qed

text \<open>Appending one accepted line to an open log.\<close>

lemma open_log_extend:
  assumes "open_log X w file obs"
    and "\<And>n off p. n > 0 \<Longrightarrow> p_header p = Some (w_header w) \<Longrightarrow> p_seal p = None \<Longrightarrow> p_observations p = obs \<Longrightarrow>
      \<exists>p'. parse_record X (n + 1) off r p (w_seen w) = Ok (p', w_seen w') \<and> p_seal p' = None
        \<and> p_header p' = Some (w_header w') \<and> p_observations p' = obs'"
  shows "open_log X w' (file @ to_line X r) obs'"
proof -
  from assms(1) obtain rs q where rs: "file = lines X rs"
    "replay X 0 0 parsed_init Map.empty rs = Ok (q, w_seen w)"
    "p_seal q = None" "p_header q = Some (w_header w)" "p_observations q = obs"
    by (auto simp: open_log_def)
  from rs(2,4) have "rs \<noteq> []" by (auto simp: parsed_init_def)
  with assms(2) [of "length rs" q "length (lines X rs)"] rs obtain p' where
    p': "parse_record X (length rs + 1) (length (lines X rs)) r q (w_seen w) = Ok (p', w_seen w')"
    "p_seal p' = None" "p_header p' = Some (w_header w')" "p_observations p' = obs'"
    by auto
  then have "replay X 0 0 parsed_init Map.empty (rs @ [r]) =
      Ok (p'\<lparr>p_complete_end := length (lines X rs) + length (to_line X r)\<rparr>, w_seen w')"
    using rs by (simp add: replay_append)
  with rs(1) p' show ?thesis
    unfolding open_log_def by (intro exI [of _ "rs @ [r]"]) (auto intro!: exI)
qed

lemma create_log_open:
  assumes "create_log X IoOk file h = (Ok w, file')"
  shows "file = None \<and> w_header w = h \<and> (\<exists>b. file' = Some b \<and> open_log X w b [])"
proof -
  from assms have wf: "header_wf h" and none: "file = None"
    and w: "w = \<lparr>w_header = h, w_seen = Map.empty\<rparr>" and f: "file' = Some (to_line X (HeaderRec h))"
    by (auto simp: create_log_def validate_header_Ok split: sum.splits option.splits)
  have "replay X 0 0 parsed_init Map.empty [HeaderRec h] =
      Ok (parsed_init\<lparr>p_header := Some h, p_complete_end := length (to_line X (HeaderRec h))\<rparr>, Map.empty)"
    using wf by (simp add: parsed_init_def and_then_def validate_header_def header_wf_def)
  then have "open_log X w (to_line X (HeaderRec h)) []"
    unfolding open_log_def w by (intro exI [of _ "[HeaderRec h]"]) (auto simp: parsed_init_def)
  with none w f show ?thesis by simp
qed

lemma append_observation_cases:
  assumes "append_observation X io ob (w, file) = (res, w', file')"
  obtains
    (refused) e where "res = Err e" "w' = w" "file' = file"
      "\<not> (observation_wf X ob \<and> bound_to (w_header w) ob) \<or>
        (\<exists>d. w_seen w (obs_observation_id ob) = Some d \<and> d \<noteq> digest_hex X ob)"
  | (repeated) "res = Ok Idempotent" "w' = w" "file' = file" "observation_wf X ob"
      "bound_to (w_header w) ob" "w_seen w (obs_observation_id ob) = Some (digest_hex X ob)"
  | (stored) res0 where "observation_wf X ob" "bound_to (w_header w) ob" "w_seen w (obs_observation_id ob) = None"
      "write_synced io file (to_line X (ObservationRec
         \<lparr>lo_observation = ob, lo_observation_digest = digest_hex X ob\<rparr>)) = (res0, file')"
      "(res0 = Ok () \<and> res = Ok Appended \<and>
         w' = w\<lparr>w_seen := (w_seen w)(obs_observation_id ob \<mapsto> digest_hex X ob)\<rparr>) \<or>
       (\<exists>e. res0 = Err e \<and> res = Err e \<and> w' = w)"
proof (cases "validate_observation X ob")
  case (Inl e)
  then have "\<not> observation_wf X ob" using validate_observation_Ok [of X ob "()"] by simp
  with Inl assms show ?thesis by (intro refused) (auto simp: append_observation_def)
next
  case wf: (Inr u)
  then have wf': "observation_wf X ob" by (simp add: validate_observation_Ok)
  show ?thesis
  proof (cases "check_bindings (w_header w) ob")
    case (Inl e)
    then have "\<not> bound_to (w_header w) ob" using check_bindings_Ok [of "w_header w" ob "()"] by simp
    with Inl wf assms show ?thesis by (intro refused) (auto simp: append_observation_def)
  next
    case bnd: (Inr v)
    then have bnd': "bound_to (w_header w) ob" by (simp add: check_bindings_Ok)
    show ?thesis
    proof (cases "w_seen w (obs_observation_id ob)")
      case (Some d)
      show ?thesis
      proof (cases "d = digest_hex X ob")
        case True
        with Some wf bnd assms wf' bnd' show ?thesis
          by (intro repeated) (auto simp: append_observation_def)
      next
        case False
        with Some wf bnd assms show ?thesis by (intro refused) (auto simp: append_observation_def)
      qed
    next
      case None
      obtain res0 file0 where ws: "write_synced io file (to_line X (ObservationRec
          \<lparr>lo_observation = ob, lo_observation_digest = digest_hex X ob\<rparr>)) = (res0, file0)"
        by fastforce
      with None wf bnd assms have "file' = file0" by (cases res0) (auto simp: append_observation_def)
      with None wf bnd assms wf' bnd' ws show ?thesis
        by (intro stored [of res0]) (cases res0; auto simp: append_observation_def)+
    qed
  qed
qed

lemma append_observation_Ok_cases:
  assumes "open_log X w file obs" and "append_observation X IoOk ob (w, file) = (res, w', file')"
  shows "(\<not> is_ok res \<and> w' = w \<and> file' = file) \<or> (res = Ok Idempotent \<and> w' = w \<and> file' = file)
    \<or> (res = Ok Appended \<and> w_header w' = w_header w \<and> open_log X w' file' (obs @ [ob]))"
  using assms(2)
proof (cases rule: append_observation_cases)
  case (refused e)
  then show ?thesis by simp
next
  case repeated
  then show ?thesis by simp
next
  case (stored res0)
  let ?l = "\<lparr>lo_observation = ob, lo_observation_digest = digest_hex X ob\<rparr>"
  have content: "file' = file @ to_line X (ObservationRec ?l)" and res: "res = Ok Appended"
    and w: "w' = w\<lparr>w_seen := (w_seen w)(obs_observation_id ob \<mapsto> digest_hex X ob)\<rparr>"
    using stored by auto
  have "open_log X w' (file @ to_line X (ObservationRec ?l)) (obs @ [ob])"
  proof (rule open_log_extend [OF assms(1)])
    fix n off and p :: parsed
    assume "p_header p = Some (w_header w)" "p_seal p = None" "p_observations p = obs"
    then show "\<exists>p'. parse_record X (n + 1) off (ObservationRec ?l) p (w_seen w) = Ok (p', w_seen w')
       \<and> p_seal p' = None \<and> p_header p' = Some (w_header w') \<and> p_observations p' = obs @ [ob]"
      using stored(3) w validate_observation_Ok [of X ob "()"] check_bindings_Ok [of "w_header w" ob "()"]
        stored(1,2) by simp
  qed
  with content res w show ?thesis by simp
qed

lemma append_rejection_open:
  assumes "open_log X w file obs" and "append_rejection X IoOk reason t (w, file) = (res, w', file')"
  shows "res = Ok () \<and> w' = w \<and> open_log X w file' obs"
proof -
  let ?r = "RejectionRec \<lparr>rej_reason = reason, rej_observed_at_ms = t\<rparr>"
  have "open_log X w (file @ to_line X ?r) obs"
    by (rule open_log_extend [OF assms(1)]) simp
  with assms(2) show ?thesis by (auto simp: append_rejection_def)
qed

interpretation log_store: observation_store
  "\<lambda>s. \<exists>obs. open_log X (fst s) (snd s) obs" "\<lambda>s. w_seen (fst s)" "append_observation X IoOk"
  obs_observation_id "digest_hex X"
  "\<lambda>s ob. observation_wf X ob \<and> bound_to (w_header (fst s)) ob" for X
proof unfold_locales
  fix s :: "log_writer \<times> bytes" and ob r s'
  assume inv: "\<exists>obs. open_log X (fst s) (snd s) obs"
    and acc: "observation_wf X ob \<and> bound_to (w_header (fst s)) ob"
    and fresh: "w_seen (fst s) (obs_observation_id ob) = None"
    and put: "append_observation X IoOk ob s = (r, s')"
  from inv obtain obs where o: "open_log X (fst s) (snd s) obs" ..
  from put have p: "append_observation X IoOk ob (fst s, snd s) = (r, fst s', snd s')" by simp
  from p acc fresh have "r = Ok Appended \<and>
      fst s' = (fst s)\<lparr>w_seen := (w_seen (fst s))(obs_observation_id ob \<mapsto> digest_hex X ob)\<rparr>"
    by (cases rule: append_observation_cases) auto
  moreover from append_observation_Ok_cases [OF o p] this
  have "open_log X (fst s') (snd s') (obs @ [ob])" by auto
  ultimately show "r = Ok Appended \<and> (\<exists>obs. open_log X (fst s') (snd s') obs) \<and>
      w_seen (fst s') = (w_seen (fst s))(obs_observation_id ob \<mapsto> digest_hex X ob) \<and>
      (\<lambda>ob. observation_wf X ob \<and> bound_to (w_header (fst s')) ob) =
      (\<lambda>ob. observation_wf X ob \<and> bound_to (w_header (fst s)) ob)"
    by auto
next
  fix s :: "log_writer \<times> bytes" and ob
  assume "observation_wf X ob \<and> bound_to (w_header (fst s)) ob"
    and "w_seen (fst s) (obs_observation_id ob) = Some (digest_hex X ob)"
  moreover obtain r w' file' where "append_observation X IoOk ob (fst s, snd s) = (r, w', file')"
    by (metis prod_cases3)
  ultimately show "append_observation X IoOk ob s = (Ok Idempotent, s)"
    by (cases s) (auto elim: append_observation_cases)
next
  fix s :: "log_writer \<times> bytes" and ob d r s'
  assume "observation_wf X ob \<and> bound_to (w_header (fst s)) ob"
    and "w_seen (fst s) (obs_observation_id ob) = Some d" and "d \<noteq> digest_hex X ob"
    and "append_observation X IoOk ob s = (r, s')"
  then show "\<not> is_ok r \<and> s' = s"
    by (cases s; cases s') (auto elim: append_observation_cases)
next
  fix s :: "log_writer \<times> bytes" and ob r s'
  assume "\<not> (observation_wf X ob \<and> bound_to (w_header (fst s)) ob)"
    and "append_observation X IoOk ob s = (r, s')"
  then show "\<not> is_ok r \<and> s' = s"
    by (cases s; cases s') (auto elim: append_observation_cases)
qed

section \<open>Sealing, reopening and recovery\<close>

lemma open_log_parse:
  assumes "open_log X w file obs" and "codec_ok X from_slice" and "newline \<notin> set torn"
  obtains rs q where "file = lines X rs" and "rs \<noteq> []"
    and "replay X 0 0 parsed_init Map.empty rs = Ok (q, w_seen w)"
    and "parse_log X from_slice (file @ torn) = Ok (with_tail torn q)"
    and "p_seal q = None" and "p_header q = Some (w_header w)" and "p_observations q = obs"
    and "p_complete_end q = length file" and "\<not> p_partial_tail q"
proof -
  from assms(1) obtain rs q where rs: "file = lines X rs"
    "replay X 0 0 parsed_init Map.empty rs = Ok (q, w_seen w)"
    "p_seal q = None" "p_header q = Some (w_header w)" "p_observations q = obs"
    by (auto simp: open_log_def)
  from rs(2,4) have "rs \<noteq> []" by (auto simp: parsed_init_def)
  moreover have "parse_log X from_slice (file @ torn) = Ok (with_tail torn q)"
    using parse_log_complete [OF assms(2,3) rs(2)] rs(1,4) by simp
  moreover from replay_inv [OF parse_inv_init rs(2)] rs(1)
  have "p_complete_end q = length file" "\<not> p_partial_tail q" by (simp_all add: parse_inv_def)
  ultimately show thesis using that rs by blast
qed

definition seal_of :: "crates \<Rightarrow> u64 \<Rightarrow> bytes \<Rightarrow> observation list \<Rightarrow> log_seal" where
  "seal_of X t file obs = \<lparr>seal_observation_count = of_nat (length obs),
     seal_qualifying_count = of_nat (count_qualifying obs),
     seal_log_digest = log_digest_of X file, seal_sealed_at_ms = t\<rparr>"

lemma seal_log_open:
  assumes "open_log X w file obs" and "codec_ok X from_slice"
  shows "\<exists>rejs. seal_log X from_slice IoOk t file =
     (Ok \<lparr>sl_header = w_header w, sl_observations = obs, sl_rejections = rejs, sl_seal = seal_of X t file obs\<rparr>,
      file @ to_line X (SealRec (seal_of X t file obs)))"
proof -
  obtain rs q where rs: "file = lines X rs" "rs \<noteq> []"
    "replay X 0 0 parsed_init Map.empty rs = Ok (q, w_seen w)"
    "parse_log X from_slice (file @ []) = Ok (with_tail [] q)"
    "p_seal q = None" "p_header q = Some (w_header w)" "p_observations q = obs"
    "p_complete_end q = length file" "\<not> p_partial_tail q"
    using open_log_parse [OF assms, of "[]"] by auto
  let ?s = "seal_of X t file obs"
  let ?q = "q\<lparr>p_seal := Some (?s, length file), p_complete_end := length file + length (to_line X (SealRec ?s))\<rparr>"
  have "replay X 0 0 parsed_init Map.empty (rs @ [SealRec ?s]) = Ok (?q, w_seen w)"
    using rs by (simp add: replay_append)
  then have "parse_log X from_slice (lines X (rs @ [SealRec ?s]) @ []) = Ok (with_tail [] ?q)"
    using rs by (intro parse_log_complete [OF assms(2)]) simp_all
  then have parse: "parse_log X from_slice (file @ to_line X (SealRec ?s)) = Ok ?q"
    using rs by (simp add: with_tail_def)
  have "verify_bytes X from_slice (file @ to_line X (SealRec ?s)) =
    Ok \<lparr>sl_header = w_header w, sl_observations = obs, sl_rejections = p_rejections q, sl_seal = ?s\<rparr>"
    using parse rs by (simp add: verify_bytes_def) (simp add: seal_of_def)
  then show ?thesis using rs
    by (simp add: seal_log_def load_sealed_def with_tail_def seal_of_def Let_def)
qed

lemma reopen_open:
  assumes "open_log X w file obs" and "codec_ok X from_slice" and "newline \<notin> set torn"
  shows "reopen_log X from_slice (Some (file @ torn)) (w_header w) = (Ok w, Some file)"
proof -
  obtain q where q: "parse_log X from_slice (file @ torn) = Ok (with_tail torn q)"
    "p_seal q = None" "p_header q = Some (w_header w)" "p_observations q = obs"
    "p_complete_end q = length file" "\<not> p_partial_tail q"
    using open_log_parse [OF assms] by metis
  have "validate_header (w_header w) = Ok ()"
    using open_log_wf(3) [OF assms(1)] by (simp add: validate_header_Ok)
  moreover have "\<lparr>w_header = w_header w, w_seen = seen_of X obs\<rparr> = w"
    using open_log_wf(1) [OF assms(1)] by simp
  ultimately show ?thesis using q
    by (simp add: reopen_log_def seen_of_def)
qed

text \<open>A write that fails leaves the whole line or a torn one.\<close>

lemma write_synced_cases:
  assumes "json_ok X" and "write_synced io file (to_line X r) = (res, file')"
  shows "file' = file @ to_line X r \<or>
    (\<exists>torn. file' = file @ torn \<and> newline \<notin> set torn \<and> \<not> is_ok res)"
proof (cases io)
  case (IoWriteFails n)
  let ?c = "write_canonical X (record_value r)"
  show ?thesis
  proof (cases "n \<le> length ?c")
    case True
    then have "take n (to_line X r) = take n ?c" by (simp add: to_line_def)
    moreover have "newline \<notin> set (take n ?c)"
      using newline_notin_canonical [OF assms(1)] by (meson in_set_takeD)
    ultimately show ?thesis using IoWriteFails assms(2) by auto
  next
    case False
    then show ?thesis using IoWriteFails assms(2) by (simp add: to_line_def)
  qed
qed (use assms(2) in auto)

lemma open_log_append:
  assumes "open_log X w file obs" and "observation_wf X ob" and "bound_to (w_header w) ob"
    and "w_seen w (obs_observation_id ob) = None"
  shows "open_log X (w\<lparr>w_seen := (w_seen w)(obs_observation_id ob \<mapsto> digest_hex X ob)\<rparr>)
     (file @ to_line X (ObservationRec \<lparr>lo_observation = ob, lo_observation_digest = digest_hex X ob\<rparr>))
     (obs @ [ob])"
proof (rule open_log_extend [OF assms(1)])
  let ?l = "\<lparr>lo_observation = ob, lo_observation_digest = digest_hex X ob\<rparr>"
  let ?w = "w\<lparr>w_seen := (w_seen w)(obs_observation_id ob \<mapsto> digest_hex X ob)\<rparr>"
  fix n off and p :: parsed
  assume "p_header p = Some (w_header w)" "p_seal p = None" "p_observations p = obs"
  then show "\<exists>p'. parse_record X (n + 1) off (ObservationRec ?l) p (w_seen w) = Ok (p', w_seen ?w)
     \<and> p_seal p' = None \<and> p_header p' = Some (w_header ?w) \<and> p_observations p' = obs @ [ob]"
    using assms(2-4) validate_observation_Ok [of X ob "()"] check_bindings_Ok [of "w_header w" ob "()"]
    by simp
qed

lemma open_log_reject:
  assumes "open_log X w file obs"
  shows "open_log X w (file @ to_line X (RejectionRec rej)) obs"
  by (rule open_log_extend [OF assms]) simp

text \<open>The file of a process that died in the middle of a write.\<close>

definition torn_log :: "crates \<Rightarrow> log_header \<Rightarrow> bytes \<Rightarrow> observation list \<Rightarrow> bool" where
  "torn_log X h file obs \<longleftrightarrow> (\<exists>w g torn. file = g @ torn \<and> newline \<notin> set torn \<and> open_log X w g obs \<and> w_header w = h)"

lemma torn_logI: "open_log X w file obs \<Longrightarrow> torn_log X (w_header w) file obs"
  unfolding torn_log_def by (intro exI [of _ w] exI [of _ "file"] exI [of _ "[]"]) simp

lemma append_observation_torn:
  assumes "json_ok X" and "open_log X w file obs"
    and "append_observation X io ob (w, file) = (res, w', file')"
  shows "torn_log X (w_header w) file' obs \<and> \<not> is_ok res
     \<or> torn_log X (w_header w) file' obs \<and> res = Ok Idempotent
     \<or> torn_log X (w_header w) file' (obs @ [ob])"
  using assms(3)
proof (cases rule: append_observation_cases)
  case (refused e)
  with torn_logI [OF assms(2)] show ?thesis by simp
next
  case repeated
  with torn_logI [OF assms(2)] show ?thesis by simp
next
  case (stored res0)
  from write_synced_cases [OF assms(1) stored(4)] show ?thesis
  proof
    assume f: "file' = file @ to_line X (ObservationRec
       \<lparr>lo_observation = ob, lo_observation_digest = digest_hex X ob\<rparr>)"
    from torn_logI [OF open_log_append [OF assms(2) stored(1-3)]] f show ?thesis by simp
  next
    assume "\<exists>torn. file' = file @ torn \<and> newline \<notin> set torn \<and> \<not> is_ok res0"
    with stored(5) assms(2) have "torn_log X (w_header w) file' obs \<and> \<not> is_ok res"
      unfolding torn_log_def by auto
    then show ?thesis by blast
  qed
qed

lemma append_rejection_torn:
  assumes "json_ok X" and "open_log X w file obs"
    and "append_rejection X io reason t (w, file) = (res, w', file')"
  shows "torn_log X (w_header w) file' obs"
proof -
  let ?r = "RejectionRec \<lparr>rej_reason = reason, rej_observed_at_ms = t\<rparr>"
  from assms(3) have "write_synced io file (to_line X ?r) = (res, file')"
    by (auto simp: append_rejection_def split: prod.splits)
  from write_synced_cases [OF assms(1) this] show ?thesis
    using open_log_reject [OF assms(2)] assms(2) torn_logI
    unfolding torn_log_def by (metis append_Nil2 empty_iff list.set(1))
qed

lemma reopen_torn:
  assumes "codec_ok X from_slice" and "torn_log X h file obs"
  shows "\<exists>w g. reopen_log X from_slice (Some file) h = (Ok w, Some g) \<and> open_log X w g obs \<and> w_header w = h"
  using assms reopen_open unfolding torn_log_def by metis

section \<open>The log as a state machine\<close>

text \<open>A log is live under its writer, or down: the process stopped, perhaps inside a write.  A
  failed write takes it down, as the executor stops at the first error.\<close>

datatype log_sys = Live log_writer bytes | Down bytes

inductive log_step :: "crates \<Rightarrow> (bytes \<Rightarrow> log_record option) \<Rightarrow> log_header \<Rightarrow> log_sys \<Rightarrow> log_sys \<Rightarrow> bool"
  for X from_slice h where
  observe: "append_observation X IoOk ob (w, b) = (res, w', b') \<Longrightarrow> log_step X from_slice h (Live w b) (Live w' b')"
| observe_fails: "append_observation X io ob (w, b) = (Inl e, w', b') \<Longrightarrow> log_step X from_slice h (Live w b) (Down b')"
| reject: "append_rejection X IoOk reason t (w, b) = (res, w', b') \<Longrightarrow> log_step X from_slice h (Live w b) (Live w' b')"
| reject_fails: "append_rejection X io reason t (w, b) = (Inl e, w', b') \<Longrightarrow> log_step X from_slice h (Live w b) (Down b')"
| crash: "log_step X from_slice h (Live w b) (Down b)"
| restart: "reopen_log X from_slice (Some b) h = (Inr w, Some b') \<Longrightarrow> log_step X from_slice h (Down b) (Live w b')"

inductive log_steps :: "crates \<Rightarrow> (bytes \<Rightarrow> log_record option) \<Rightarrow> log_header \<Rightarrow> log_sys \<Rightarrow> log_sys \<Rightarrow> bool"
  for X from_slice h where
  none: "log_steps X from_slice h s s"
| more: "log_steps X from_slice h s s' \<Longrightarrow> log_step X from_slice h s' s'' \<Longrightarrow> log_steps X from_slice h s s''"

fun log_holds :: "crates \<Rightarrow> log_header \<Rightarrow> log_sys \<Rightarrow> observation list \<Rightarrow> bool" where
  "log_holds X h (Live w b) obs \<longleftrightarrow> open_log X w b obs \<and> w_header w = h"
| "log_holds X h (Down b) obs \<longleftrightarrow> torn_log X h b obs"

inductive_cases log_step_LiveE: "log_step X from_slice h (Live w b) s"
inductive_cases log_step_DownE: "log_step X from_slice h (Down b) s"

lemma log_step_holds:
  assumes "codec_ok X from_slice" and "log_holds X h s obs" and "log_step X from_slice h s s'"
  shows "\<exists>ext. log_holds X h s' (obs @ ext)"
  using assms(3)
proof cases
  case (observe ob w b res w' b')
  with assms(2) append_observation_Ok_cases [of X w b obs ob res w' b'] show ?thesis
    by (auto intro: exI [of _ "[]"])
next
  case (observe_fails io ob w b e w' b')
  with assms append_observation_torn [of X w b obs io ob "Inl e" w' b'] show ?thesis
    by (auto simp: codec_ok_def intro: exI [of _ "[]"])
next
  case (reject reason t w b res w' b')
  with assms(2) append_rejection_open [of X w b obs reason t res w' b'] show ?thesis
    by (auto intro: exI [of _ "[]"])
next
  case (reject_fails io reason t w b e w' b')
  with assms append_rejection_torn [of X w b obs io reason t "Inl e" w' b'] show ?thesis
    by (auto simp: codec_ok_def intro: exI [of _ "[]"])
next
  case (crash w b)
  with assms(2) torn_logI [of X w b obs] show ?thesis by (auto intro: exI [of _ "[]"])
next
  case (restart b w b')
  with assms reopen_torn [of X from_slice h b obs] show ?thesis by (auto intro: exI [of _ "[]"])
qed

lemma log_steps_holds:
  assumes "codec_ok X from_slice" and "log_steps X from_slice h s s'" and "log_holds X h s obs"
  shows "\<exists>ext. log_holds X h s' (obs @ ext)"
  using assms(2,3)
proof (induction rule: log_steps.induct)
  case (none s)
  then show ?case by (intro exI [of _ "[]"]) simp
next
  case (more s s' s'')
  then obtain ext where "log_holds X h s' (obs @ ext)" by blast
  from log_step_holds [OF assms(1) this more.hyps(2)] show ?case by (metis append.assoc)
qed

section \<open>What a verified seal implies\<close>

lemma verify_bytes_sound:
  assumes "verify_bytes X from_slice b = Ok sl"
  obtains rs q where "b = lines X rs @ to_line X (SealRec (sl_seal sl))"
    and "replay X 0 0 parsed_init Map.empty rs = Ok (q, seen_of X (sl_observations sl))"
    and "p_header q = Some (sl_header sl)" and "p_observations q = sl_observations sl"
    and "p_rejections q = sl_rejections sl" and "p_seal q = None"
    and "seal_log_digest (sl_seal sl) = log_digest_of X (lines X rs)"
    and "seal_observation_count (sl_seal sl) = of_nat (length (sl_observations sl))"
    and "seal_qualifying_count (sl_seal sl) = of_nat (count_qualifying (sl_observations sl))"
proof -
  from assms obtain p k where p: "parse_log X from_slice b = Ok p" "p_header p = Some (sl_header sl)"
    "p_seal p = Some (sl_seal sl, k)" "\<not> p_partial_tail p" "p_complete_end p = length b"
    "seal_log_digest (sl_seal sl) = log_digest_of X (take k b)"
    "seal_observation_count (sl_seal sl) = of_nat (length (p_observations p))"
    "seal_qualifying_count (sl_seal sl) = of_nat (count_qualifying (p_observations p))"
    "p_observations p = sl_observations sl" "p_rejections p = sl_rejections sl"
    by (auto simp: verify_bytes_def result_simps Let_def split: if_splits)
  obtain rs torn q seen where rs: "b = lines X rs @ torn"
    "replay X 0 0 parsed_init Map.empty rs = Ok (q, seen)" "p = with_tail torn q"
    using parse_log_sound [OF p(1)] by metis
  from rs(3) p(4) have "torn = []" and "p = q" by (auto simp: with_tail_def split: if_splits)
  from replay_sealed [OF rs(2), of "sl_seal sl" k] p(3) \<open>p = q\<close> obtain rs' q' where
    rs': "rs = rs' @ [SealRec (sl_seal sl)]" "k = length (lines X rs')"
      "replay X 0 0 parsed_init Map.empty rs' = Ok (q', seen)" "p_seal q' = None"
      "q = q'\<lparr>p_seal := Some (sl_seal sl, k), p_complete_end := k + length (to_line X (SealRec (sl_seal sl)))\<rparr>"
    by (auto simp: parsed_init_def)
  have "seen = seen_of X (p_observations q')"
    using replay_inv [OF parse_inv_init rs'(3)] by (simp add: parse_inv_def)
  with rs' rs \<open>torn = []\<close> \<open>p = q\<close> p show thesis
    by (intro that [of rs' q']) simp_all
qed

definition sealed_writer :: "crates \<Rightarrow> sealed_log \<Rightarrow> log_writer" where
  "sealed_writer X sl = \<lparr>w_header = sl_header sl, w_seen = seen_of X (sl_observations sl)\<rparr>"

text \<open>A verified log is an open log with its seal.\<close>

lemma verify_bytes_open:
  assumes "verify_bytes X from_slice b = Ok sl"
  shows "\<exists>file t. b = file @ to_line X (SealRec (sl_seal sl))
     \<and> open_log X (sealed_writer X sl) file (sl_observations sl)
     \<and> sl_seal sl = seal_of X t file (sl_observations sl)"
proof -
  obtain rs q where rs: "b = lines X rs @ to_line X (SealRec (sl_seal sl))"
    "replay X 0 0 parsed_init Map.empty rs = Ok (q, seen_of X (sl_observations sl))"
    "p_header q = Some (sl_header sl)" "p_observations q = sl_observations sl" "p_seal q = None"
    "seal_log_digest (sl_seal sl) = log_digest_of X (lines X rs)"
    "seal_observation_count (sl_seal sl) = of_nat (length (sl_observations sl))"
    "seal_qualifying_count (sl_seal sl) = of_nat (count_qualifying (sl_observations sl))"
    using verify_bytes_sound [OF assms] by metis
  have "open_log X (sealed_writer X sl) (lines X rs) (sl_observations sl)"
    unfolding open_log_def sealed_writer_def using rs by (intro exI [of _ rs] exI [of _ q]) simp
  moreover have "sl_seal sl = seal_of X (seal_sealed_at_ms (sl_seal sl)) (lines X rs) (sl_observations sl)"
    using rs by (simp add: seal_of_def)
  ultimately show ?thesis using rs(1) by blast
qed

section \<open>Digests commit to logs\<close>

lemma to_line_unique:
  assumes "json_unique X" and "to_line X a @ r = to_line X b @ s"
  shows "a = b \<and> r = s"
proof -
  have "sorted_json (record_value a) = sorted_json (record_value b) \<and> newline # r = newline # s"
    by (rule print_json_unique [OF assms(1)])
       (use assms(2) in \<open>simp_all add: to_line_def write_canonical_print\<close>)
  then show ?thesis using record_value_inj by auto
qed

lemma lines_code: "json_unique X \<Longrightarrow> prefix_code (to_line X) (\<lambda>_. True)"
  by unfold_locales (auto dest: to_line_unique)

lemma lines_inj: "json_unique X \<Longrightarrow> lines X rs = lines X rs' \<Longrightarrow> rs = rs'"
  unfolding lines_def by (rule prefix_code.concat_unique [OF lines_code]) (simp_all add: list_all_iff)

lemma fits_prefix: "fits (a @ b) \<Longrightarrow> fits a"
  by (simp add: fits_def)

lemma seal_digest_binds:
  assumes "hex_ok X" and "json_unique X" and "fits b" and "fits b'"
    and "verify_bytes X from_slice b = Ok sl" and "verify_bytes X from_slice' b' = Ok sl'"
    and "seal_log_digest (sl_seal sl) = seal_log_digest (sl_seal sl')"
  shows "(sl_header sl = sl_header sl' \<and> sl_observations sl = sl_observations sl' \<and> sl_rejections sl = sl_rejections sl')
    \<or> (\<exists>p s p' s'. b = p @ s \<and> b' = p' @ s' \<and>
        sha_collision X (domain_preimage LOG_DOMAIN [p]) (domain_preimage LOG_DOMAIN [p']))"
proof -
  obtain rs q where rs: "b = lines X rs @ to_line X (SealRec (sl_seal sl))"
    "replay X 0 0 parsed_init Map.empty rs = Ok (q, seen_of X (sl_observations sl))"
    "p_header q = Some (sl_header sl)" "p_observations q = sl_observations sl"
    "p_rejections q = sl_rejections sl" "seal_log_digest (sl_seal sl) = log_digest_of X (lines X rs)"
    using verify_bytes_sound [OF assms(5)] by metis
  obtain rs' q' where rs': "b' = lines X rs' @ to_line X (SealRec (sl_seal sl'))"
    "replay X 0 0 parsed_init Map.empty rs' = Ok (q', seen_of X (sl_observations sl'))"
    "p_header q' = Some (sl_header sl')" "p_observations q' = sl_observations sl'"
    "p_rejections q' = sl_rejections sl'" "seal_log_digest (sl_seal sl') = log_digest_of X (lines X rs')"
    using verify_bytes_sound [OF assms(6)] by metis
  have "(LOG_DOMAIN = LOG_DOMAIN \<and> [lines X rs] = [lines X rs']) \<or>
      sha_collision X (domain_preimage LOG_DOMAIN [lines X rs]) (domain_preimage LOG_DOMAIN [lines X rs'])"
  proof (rule domain_digest_binds [OF assms(1)])
    show "fits LOG_DOMAIN" by (simp add: fits_def LOG_DOMAIN_def)
    then show "fits LOG_DOMAIN" .
    show "domain_digest X LOG_DOMAIN [lines X rs] = domain_digest X LOG_DOMAIN [lines X rs']"
      using assms(7) rs(6) rs'(6) by (simp add: log_digest_of_def)
  qed (use assms(3,4) rs(1) rs'(1) in \<open>auto dest: fits_prefix\<close>)
  then show ?thesis
  proof
    assume "LOG_DOMAIN = LOG_DOMAIN \<and> [lines X rs] = [lines X rs']"
    then have "rs = rs'" using lines_inj [OF assms(2)] by simp
    with rs rs' show ?thesis by simp
  next
    assume "sha_collision X (domain_preimage LOG_DOMAIN [lines X rs]) (domain_preimage LOG_DOMAIN [lines X rs'])"
    with rs(1) rs'(1) show ?thesis by blast
  qed
qed

lemma digest_hex_binds:
  assumes "hex_ok X" and "json_unique X"
    and "fits (observation_canonical_bytes X a)" and "fits (observation_canonical_bytes X b)"
    and "digest_hex X a = digest_hex X b"
  shows "a = b \<or> sha_collision X (domain_preimage OBSERVATION_DOMAIN [observation_canonical_bytes X a])
     (domain_preimage OBSERVATION_DOMAIN [observation_canonical_bytes X b])"
proof -
  have "(OBSERVATION_DOMAIN = OBSERVATION_DOMAIN \<and> [observation_canonical_bytes X a] = [observation_canonical_bytes X b]) \<or>
      sha_collision X (domain_preimage OBSERVATION_DOMAIN [observation_canonical_bytes X a])
        (domain_preimage OBSERVATION_DOMAIN [observation_canonical_bytes X b])"
  proof (rule domain_digest_binds [OF assms(1)])
    show "fits OBSERVATION_DOMAIN" by (simp add: fits_def OBSERVATION_DOMAIN_def)
    then show "fits OBSERVATION_DOMAIN" .
  qed (use assms(3-5) in \<open>auto simp: digest_hex_def\<close>)
  moreover have "a = b" if "observation_canonical_bytes X a = observation_canonical_bytes X b"
    using write_canonical_unique [OF assms(2) that [unfolded observation_canonical_bytes_def]]
    by (rule observation_value_inj)
  ultimately show ?thesis by blast
qed

section \<open>The acknowledged record is stored\<close>

lemma seen_of_Some:
  "seen_of X obs k = Some d \<Longrightarrow> \<exists>ob \<in> set obs. obs_observation_id ob = k \<and> digest_hex X ob = d"
  unfolding seen_of_def by (auto dest!: map_of_SomeD)

definition acknowledged :: "crates \<Rightarrow> append_outcome \<Rightarrow> observation \<Rightarrow> observation list \<Rightarrow> bool" where
  "acknowledged X r ob obs \<longleftrightarrow> (\<exists>ob' \<in> set obs. obs_observation_id ob' = obs_observation_id ob
     \<and> digest_hex X ob' = digest_hex X ob \<and> (r = Appended \<longrightarrow> ob' = ob))"

lemma append_acknowledged:
  assumes "open_log X w b obs" and "append_observation X IoOk ob (w, b) = (Inr r, w', b')"
  shows "\<exists>ext. open_log X w' b' (obs @ ext) \<and> w_header w' = w_header w \<and> acknowledged X r ob (obs @ ext)"
proof (cases r)
  case Appended
  with append_observation_Ok_cases [OF assms] show ?thesis
    by (auto simp: acknowledged_def intro!: exI [of _ "[ob]"])
next
  case Idempotent
  with assms(2) have "w_seen w (obs_observation_id ob) = Some (digest_hex X ob)"
    by (auto elim: append_observation_cases)
  then have "acknowledged X r ob obs"
    using seen_of_Some [of X obs] open_log_wf(1) [OF assms(1)] Idempotent by (auto simp: acknowledged_def)
  with append_observation_Ok_cases [OF assms] assms(1) Idempotent show ?thesis
    by (intro exI [of _ "[]"]) auto
qed

lemma acknowledged_append: "acknowledged X r ob obs \<Longrightarrow> acknowledged X r ob (obs @ ext)"
  unfolding acknowledged_def by auto

lemma create_log_holds:
  "create_log X IoOk None h = (Inr w, Some b) \<Longrightarrow> log_holds X h (Live w b) []"
  using create_log_open [of X None h w "Some b"] by simp

section \<open>Sealed means closed\<close>

lemma sealed_closed:
  assumes "codec_ok X from_slice" and "verify_bytes X from_slice b = Ok sl"
  shows "reopen_log X from_slice (Some b) (sl_header sl) = (Err AlreadySealed, Some b)"
    and "seal_log X from_slice io t b = (Err AlreadySealed, b)"
    and "inspect X from_slice (Some b) = SealedState (length (sl_observations sl))"
proof -
  from assms(2) obtain p k where p: "parse_log X from_slice b = Ok p" "p_header p = Some (sl_header sl)"
    "p_seal p = Some (sl_seal sl, k)" "p_observations p = sl_observations sl"
    by (auto simp: verify_bytes_def result_simps Let_def split: if_splits)
  obtain f where "open_log X (sealed_writer X sl) f (sl_observations sl)"
    using verify_bytes_open [OF assms(2)] by blast
  from open_log_wf(3) [OF this] have "validate_header (sl_header sl) = Ok ()"
    by (simp add: sealed_writer_def validate_header_Ok)
  with p show "reopen_log X from_slice (Some b) (sl_header sl) = (Err AlreadySealed, Some b)"
    "seal_log X from_slice io t b = (Err AlreadySealed, b)"
    "inspect X from_slice (Some b) = SealedState (length (sl_observations sl))"
    by (simp_all add: reopen_log_def seal_log_def inspect_def)
qed

text \<open>A decoder that inverts the writer: the record whose line the bytes are.\<close>

definition reread :: "crates \<Rightarrow> bytes \<Rightarrow> log_record option" where
  "reread X b = (let f = (\<lambda>r. write_canonical X (record_value r)) in
     if b \<in> range f then Some (inv f b) else None)"

lemma reread_codec:
  assumes "json_ok X" and "json_unique X"
  shows "codec_ok X (reread X)"
proof -
  have "inj (\<lambda>r. write_canonical X (record_value r))"
    using write_canonical_unique [OF assms(2)] record_value_inj by (blast intro: injI)
  from inv_f_f [OF this] show ?thesis using assms(1) by (simp add: codec_ok_def reread_def Let_def)
qed

lemma seal_log_loads:
  "seal_log X from_slice IoOk t b = (Inr sl, file') \<Longrightarrow> load_sealed X from_slice (Some file') = Ok sl"
  by (auto simp: seal_log_def Let_def split: sum.splits if_splits prod.splits)

section \<open>A sample log\<close>

definition sample_header :: log_header where
  "sample_header = new_header ''gen-1'' (replicate 64 (CHR ''a'')) (replicate 64 (CHR ''b'')) 7"

definition sample_observation :: "string \<Rightarrow> observation" where
  "sample_observation rid = new_observation sample
     \<lparr>in_generation_id = ''gen-1'', in_request_id = rid, in_request_digest = replicate 64 (CHR ''c''),
      in_workload_digest = replicate 64 (CHR ''a''), in_executable_digest = replicate 64 (CHR ''b''),
      in_result_digest = Some (replicate 64 (CHR ''d'')), in_elapsed_us = 5, in_observed_at_ms = 9,
      in_status = VerifiedSuccess, in_provenance = Measured\<rparr>"

definition sample_log :: "observation list \<Rightarrow> bytes" where
  "sample_log obs = lines sample (HeaderRec sample_header #
     map (\<lambda>ob. ObservationRec \<lparr>lo_observation = ob, lo_observation_digest = digest_hex sample ob\<rparr>) obs)"

definition sample_writer :: "observation list \<Rightarrow> log_writer" where
  "sample_writer obs = \<lparr>w_header = sample_header, w_seen = seen_of sample obs\<rparr>"

lemma sample_digests: "is_hex_digest (replicate 64 (CHR ''a''))" "is_hex_digest (replicate 64 (CHR ''b''))"
  "is_hex_digest (replicate 64 (CHR ''c''))" "is_hex_digest (replicate 64 (CHR ''d''))"
  by code_simp+

lemma sample_header_wf: "header_wf sample_header"
proof -
  have "\<not> is_blank ''gen-1''" by code_simp
  then show ?thesis by (simp add: header_wf_def sample_header_def new_header_def sample_digests)
qed

lemma sample_observation_wf: "\<not> is_blank rid \<Longrightarrow> observation_wf sample (sample_observation rid)"
proof -
  have "\<not> is_blank ''gen-1''" by code_simp
  then show "\<not> is_blank rid \<Longrightarrow> observation_wf sample (sample_observation rid)"
    by (simp add: observation_wf_def sample_observation_def sample_digests)
qed

lemma sample_bound: "bound_to sample_header (sample_observation rid)"
  by (simp add: bound_to_def sample_header_def new_header_def sample_observation_def)

lemma sample_created: "create_log sample IoOk None sample_header = (Inr (sample_writer []), Some (sample_log []))"
proof -
  have "validate_header sample_header = Ok ()" by (simp add: validate_header_Ok sample_header_wf)
  then show ?thesis by (simp add: create_log_def sample_writer_def sample_log_def)
qed

lemma sample_appended:
  assumes "\<not> is_blank rid"
  shows "append_observation sample IoOk (sample_observation rid) (sample_writer [], sample_log []) =
     (Inr Appended, sample_writer [sample_observation rid], sample_log [sample_observation rid])"
proof -
  have "validate_observation sample (sample_observation rid) = Ok ()"
    "check_bindings sample_header (sample_observation rid) = Ok ()"
    using sample_observation_wf [OF assms] sample_bound
    by (simp_all add: validate_observation_Ok check_bindings_Ok)
  then show ?thesis by (simp add: append_observation_def sample_writer_def sample_log_def Let_def)
qed

lemma sample_codec: "codec_ok sample (reread sample)"
  by (simp add: reread_codec)

lemma sample_open: "open_log sample (sample_writer []) (sample_log []) []"
  using create_log_open [OF sample_created] by simp

lemma rid_not_blank: "\<not> is_blank ''r-1''"
  by code_simp

lemma sample_open_one: "open_log sample (sample_writer [sample_observation ''r-1'']) (sample_log [sample_observation ''r-1''])
   [sample_observation ''r-1'']"
  using append_observation_Ok_cases [OF sample_open sample_appended [OF rid_not_blank]] by simp

section \<open>Properties of the observation log\<close>





text \<open>C28: An append is atomic under failure.  Whatever happens to the physical write (it completes,
  stops after any number of bytes, or fails to sync), reopening the log yields either the
  observations stored before or those with the new one at the end; if the append was acknowledged
  as new, the second.\<close>

theorem append_atomic_under_failure:
  assumes "codec_ok X from_slice" and "open_log X w b obs"
    and "append_observation X io ob (w, b) = (res, w', b')"
  shows "\<exists>w'' b'' obs'. reopen_log X from_slice (Some b') (w_header w) = (Ok w'', Some b'')
     \<and> open_log X w'' b'' obs' \<and> (obs' = obs \<or> obs' = obs @ [ob]) \<and> (res = Ok Appended \<longrightarrow> obs' = obs @ [ob])"
proof -
  from assms(1) have "json_ok X" by (simp add: codec_ok_def)
  from append_observation_torn [OF this assms(2,3)]
  have "\<exists>obs'. torn_log X (w_header w) b' obs' \<and> (obs' = obs \<or> obs' = obs @ [ob])
     \<and> (res = Ok Appended \<longrightarrow> obs' = obs @ [ob])" by (cases res) auto
  with reopen_torn [OF assms(1)] show ?thesis by metis
qed

lemma sample_torn: "append_observation sample (IoWriteFails 20) (sample_observation ''r-1'')
     (sample_writer [], sample_log []) =
   (Err WriteFailed, sample_writer [],
    sample_log [] @ take 20 (to_line sample (ObservationRec \<lparr>lo_observation = sample_observation ''r-1'',
      lo_observation_digest = digest_hex sample (sample_observation ''r-1'')\<rparr>)))"
proof -
  have "validate_observation sample (sample_observation ''r-1'') = Ok ()"
    "check_bindings sample_header (sample_observation ''r-1'') = Ok ()"
    using sample_observation_wf [OF rid_not_blank] sample_bound
    by (simp_all add: validate_observation_Ok check_bindings_Ok)
  then show ?thesis by (simp add: append_observation_def sample_writer_def Let_def)
qed

theorem append_atomic_under_failure_witness:
  "case append_observation sample (IoWriteFails 20) (sample_observation ''r-1'') (sample_writer [], sample_log [])
   of (res, w', b') \<Rightarrow> res = Err WriteFailed \<and>
     (\<exists>w'' b'' obs'. reopen_log sample (reread sample) (Some b') (w_header (sample_writer [])) = (Ok w'', Some b'')
     \<and> open_log sample w'' b'' obs' \<and> (obs' = [] \<or> obs' = [] @ [sample_observation ''r-1'']))"
  unfolding sample_torn prod.case
  using append_atomic_under_failure [OF sample_codec sample_open sample_torn] by blast

text \<open>A verified sealed log is sound evidence: its header is valid, every observation is
  structurally valid and bound to the header's generation, workload and executable, ids are pairwise
  different, the seal's counts are those of the observations, its digest is that of all the bytes
  before the seal line, and nothing follows the seal line.\<close>

theorem verified_log_sound:
  assumes "verify_bytes X from_slice b = Ok sl"
  shows "\<exists>before. b = before @ to_line X (SealRec (sl_seal sl))
     \<and> seal_log_digest (sl_seal sl) = log_digest_of X before
     \<and> header_wf (sl_header sl)
     \<and> list_all (\<lambda>ob. observation_wf X ob \<and> bound_to (sl_header sl) ob) (sl_observations sl)
     \<and> distinct (obs_ids (sl_observations sl))
     \<and> seal_observation_count (sl_seal sl) = of_nat (length (sl_observations sl))
     \<and> seal_qualifying_count (sl_seal sl) = of_nat (length (filter is_qualifying (sl_observations sl)))"
proof -
  obtain before t where f: "b = before @ to_line X (SealRec (sl_seal sl))"
    "open_log X (sealed_writer X sl) before (sl_observations sl)"
    "sl_seal sl = seal_of X t before (sl_observations sl)"
    using verify_bytes_open [OF assms] by blast
  have w: "w_header (sealed_writer X sl) = sl_header sl" by (simp add: sealed_writer_def)
  have "seal_log_digest (sl_seal sl) = log_digest_of X before"
    "seal_observation_count (sl_seal sl) = of_nat (length (sl_observations sl))"
    "seal_qualifying_count (sl_seal sl) = of_nat (length (filter is_qualifying (sl_observations sl)))"
    by (subst f(3), simp add: seal_of_def count_qualifying_def)+
  with f(1) open_log_wf(2-4) [OF f(2)] show ?thesis unfolding w by blast
qed

definition sample_seal :: log_seal where
  "sample_seal = seal_of sample 11 (sample_log [sample_observation ''r-1'']) [sample_observation ''r-1'']"

definition sample_file :: bytes where
  "sample_file = sample_log [sample_observation ''r-1''] @ to_line sample (SealRec sample_seal)"

lemma sample_sealed:
  obtains sl where "verify_bytes sample (reread sample) sample_file = Ok sl"
    and "sl_header sl = sample_header" and "sl_observations sl = [sample_observation ''r-1'']"
    and "sl_seal sl = sample_seal"
proof -
  obtain rejs where s: "seal_log sample (reread sample) IoOk 11 (sample_log [sample_observation ''r-1'']) =
     (Ok \<lparr>sl_header = w_header (sample_writer [sample_observation ''r-1'']),
          sl_observations = [sample_observation ''r-1''], sl_rejections = rejs, sl_seal = sample_seal\<rparr>, sample_file)"
    using seal_log_open [OF sample_open_one sample_codec, of 11] unfolding sample_file_def sample_seal_def by blast
  have h: "w_header (sample_writer [sample_observation ''r-1'']) = sample_header" by (simp add: sample_writer_def)
  from seal_log_loads [OF s] show thesis
    unfolding load_sealed_def option.case h by (rule that) simp_all
qed

theorem verified_log_sound_witness:
  "\<exists>sl before. verify_bytes sample (reread sample) sample_file = Ok sl
     \<and> sample_file = before @ to_line sample (SealRec (sl_seal sl))
     \<and> seal_log_digest (sl_seal sl) = log_digest_of sample before \<and> distinct (obs_ids (sl_observations sl))"
proof (rule sample_sealed)
  fix sl assume "verify_bytes sample (reread sample) sample_file = Ok sl"
  from this verified_log_sound [OF this] show ?thesis by blast
qed

text \<open>The seal digest is tamper evidence.  Two verified logs with the same seal digest have
  the same header, the same observations in the same order and the same rejections, or their
  contents exhibit a SHA-256 collision.\<close>

theorem seal_digest_commits:
  assumes "hex_ok X" and "json_unique X" and "fits b" and "fits b'"
    and "verify_bytes X from_slice b = Ok sl" and "verify_bytes X from_slice' b' = Ok sl'"
    and "seal_log_digest (sl_seal sl) = seal_log_digest (sl_seal sl')"
  shows "(sl_header sl = sl_header sl' \<and> sl_observations sl = sl_observations sl' \<and> sl_rejections sl = sl_rejections sl')
    \<or> (\<exists>p s p' s'. b = p @ s \<and> b' = p' @ s' \<and>
        sha_collision X (domain_preimage LOG_DOMAIN [p]) (domain_preimage LOG_DOMAIN [p']))"
  by (rule seal_digest_binds [OF assms])

lemma length_domain_digest: "length (domain_digest sample d fs) = 64"
  using is_hex_digest_domain [OF sample_hex_ok sample_sha_ok] by (auto simp: is_hex_digest_def)

lemma sample_weight: "json_weight (observation_value (sample_observation rid)) < 7000 + 6 * length rid"
  by (simp add: observation_value_def sample_observation_def observation_id_def length_domain_digest
      OBSERVATION_RECORD_VERSION_def)

lemma sample_file_fits: "fits sample_file"
proof -
  let ?h = "HeaderRec sample_header" and ?ob = "sample_observation ''r-1''"
  let ?o = "ObservationRec \<lparr>lo_observation = ?ob, lo_observation_digest = digest_hex sample ?ob\<rparr>"
  have line: "length (to_line sample r) \<le> json_weight (record_value r) + 1" for r
    using length_write_canonical [of sample "record_value r"] by (simp add: to_line_def sample_def)
  have "length (digest_hex sample ?ob) = 64" "length (log_digest_of sample b) = 64" for b
    by (simp_all add: digest_hex_def log_digest_of_def length_domain_digest)
  moreover have "json_weight (observation_value ?ob) < 9292" using sample_weight [of "''r-1''"] by simp
  ultimately have "json_weight (record_value ?h) < 5000" "json_weight (record_value ?o) < 10000"
    "json_weight (record_value (SealRec sample_seal)) < 5000"
    by (simp_all add: sample_header_def new_header_def header_value_def log_observation_value_def
        sample_seal_def seal_of_def count_qualifying_def seal_value_def OBSERVATION_LOG_VERSION_def)
  then have "length sample_file < 30000"
    using line [of ?h] line [of ?o] line [of "SealRec sample_seal"]
    by (simp add: sample_file_def sample_log_def)
  then show ?thesis by (simp add: fits_def)
qed

theorem seal_digest_commits_witness:
  "\<exists>sl. verify_bytes sample (reread sample) sample_file = Ok sl \<and>
     ((sl_header sl = sl_header sl \<and> sl_observations sl = sl_observations sl \<and> sl_rejections sl = sl_rejections sl)
    \<or> (\<exists>p s p' s'. sample_file = p @ s \<and> sample_file = p' @ s' \<and>
        sha_collision sample (domain_preimage LOG_DOMAIN [p]) (domain_preimage LOG_DOMAIN [p'])))"
proof (rule sample_sealed)
  fix sl assume v: "verify_bytes sample (reread sample) sample_file = Ok sl"
  from v seal_digest_commits [OF sample_hex_ok sample_json_unique sample_file_fits sample_file_fits v v refl]
  show ?thesis by blast
qed

text \<open>C29: Storing a batch is idempotent.  When a batch of observations was stored, one after the
  other, every one of them was valid and bound to the log, the stored digests of earlier records
  are unchanged, and storing the whole batch again is acknowledged and changes neither the writer
  nor a byte of the file.\<close>

theorem batch_retry_changes_nothing:
  assumes "open_log X w b obs" and "put_all (append_observation X IoOk) batch (w, b) = (Ok (), w', b')"
  shows "put_all (append_observation X IoOk) batch (w', b') = (Ok (), w', b')
     \<and> w_seen w \<subseteq>\<^sub>m w_seen w' \<and> dom (w_seen w') = dom (w_seen w) \<union> obs_observation_id ` set batch
     \<and> list_all (\<lambda>ob. observation_wf X ob \<and> bound_to (w_header w) ob) batch
     \<and> (\<exists>obs'. open_log X w' b' obs')"
proof -
  have inv: "\<exists>obs. open_log X (fst (w, b)) (snd (w, b)) obs" using assms(1) by auto
  note stored = log_store.put_all_OkD [OF inv assms(2)]
  then have "list_all (\<lambda>ob. observation_wf X ob \<and> bound_to (w_header (fst (w', b'))) ob) batch"
    by (simp add: fun_eq_iff)
  with log_store.put_all_retry [of X "(w', b')" batch] stored show ?thesis by simp
qed

theorem batch_retry_changes_nothing_witness:
  "put_all (append_observation sample IoOk) [sample_observation ''r-1'']
     (sample_writer [sample_observation ''r-1''], sample_log [sample_observation ''r-1'']) =
   (Ok (), sample_writer [sample_observation ''r-1''], sample_log [sample_observation ''r-1''])"
proof -
  have "put_all (append_observation sample IoOk) [sample_observation ''r-1''] (sample_writer [], sample_log []) =
    (Ok (), sample_writer [sample_observation ''r-1''], sample_log [sample_observation ''r-1''])"
    using sample_appended [OF rid_not_blank] by simp
  from batch_retry_changes_nothing [OF sample_open this] show ?thesis by blast
qed

text \<open>A sealed log is closed: once a file verifies, it can neither be reopened for writing nor
  sealed again, the attempts leave its bytes as they are, and inspection reports it as sealed.\<close>

theorem sealed_log_is_closed:
  assumes "codec_ok X from_slice" and "verify_bytes X from_slice b = Ok sl"
  shows "reopen_log X from_slice (Some b) (sl_header sl) = (Err AlreadySealed, Some b)
     \<and> seal_log X from_slice io t b = (Err AlreadySealed, b)
     \<and> inspect X from_slice (Some b) = SealedState (length (sl_observations sl))"
  using sealed_closed [OF assms] by blast

theorem sealed_log_is_closed_witness:
  "reopen_log sample (reread sample) (Some sample_file) sample_header = (Err AlreadySealed, Some sample_file)
   \<and> seal_log sample (reread sample) IoOk 12 sample_file = (Err AlreadySealed, sample_file)
   \<and> inspect sample (reread sample) (Some sample_file) = SealedState 1"
proof (rule sample_sealed)
  fix sl assume "verify_bytes sample (reread sample) sample_file = Ok sl" "sl_header sl = sample_header"
    "sl_observations sl = [sample_observation ''r-1'']"
  with sealed_log_is_closed [OF sample_codec this(1), of IoOk 12] show ?thesis by simp
qed

text \<open>An observation's digest commits to every field of it: two observations with the same
  digest are equal, or their canonical encodings exhibit a SHA-256 collision.\<close>

theorem observation_digest_commits:
  assumes "hex_ok X" and "json_unique X"
    and "fits (observation_canonical_bytes X a)" and "fits (observation_canonical_bytes X b)"
    and "digest_hex X a = digest_hex X b"
  shows "a = b \<or> sha_collision X (domain_preimage OBSERVATION_DOMAIN [observation_canonical_bytes X a])
     (domain_preimage OBSERVATION_DOMAIN [observation_canonical_bytes X b])"
  by (rule digest_hex_binds [OF assms])

lemma observation_fits:
  "rid \<in> {''r-1'', ''r-2''} \<Longrightarrow> fits (observation_canonical_bytes colliding (sample_observation rid))"
  using length_write_canonical [of colliding "observation_value (sample_observation rid)"] sample_weight [of rid]
  by (auto simp: fits_def observation_canonical_bytes_def colliding_def sample_def)

theorem observation_digest_commits_witness:
  "sample_observation ''r-1'' \<noteq> sample_observation ''r-2'' \<and> sha_collision colliding
     (domain_preimage OBSERVATION_DOMAIN [observation_canonical_bytes colliding (sample_observation ''r-1'')])
     (domain_preimage OBSERVATION_DOMAIN [observation_canonical_bytes colliding (sample_observation ''r-2'')])"
proof -
  have "digest_hex colliding (sample_observation ''r-1'') = digest_hex colliding (sample_observation ''r-2'')"
    by (simp add: digest_hex_def domain_digest_def colliding_def)
  moreover have "sample_observation ''r-1'' \<noteq> sample_observation ''r-2''"
    by (simp add: sample_observation_def new_observation_def)
  ultimately show ?thesis
    using observation_digest_commits [of colliding "sample_observation ''r-1''" "sample_observation ''r-2''"]
      observation_fits by simp
qed

end
