(* ===== verification/Admission.thy ===== *)
theory Admission
  imports Workload Identity Log_Recovery
begin

text \<open>
  Quota admission: \<open>admit_sealed_quota\<close> of \<open>src/src/canary/admission.rs\<close> on version 2 sealed logs,
  and \<open>admit_production_quota\<close> of \<open>src/src/canary_observation.rs\<close> on version 1 records.  The lemmas
  characterise admission exactly (every error branch is the negation of one conjunct), and count
  what an admitted quota stands for: that many different requests of the pinned workload.
\<close>

section \<open>Version 2: sealed logs\<close>

datatype admission_error =
    QuotaTargetZero
  | AdmitIdentity identity_error
  | AdmitWorkload workload_error
  | OtherGeneration string string
  | OtherExecutable string string
  | OtherWorkload string string
  | AdmitObservation obs_error
  | NotBound string
  | SyntheticRehearsal string
  | NotPromotable verified_status string
  | UnknownRequest string string
  | OtherRequestDigest string string string string
  | OtherResult string "string option" string
  | OverDeadline string u64 u64 string
  | QuotaNotMet u64 u64

record sealed_quota_decision =
  qd_counted :: u64
  qd_target :: u64
  qd_generation_id :: string
  qd_executable_digest :: string
  qd_workload_digest :: string
  qd_log_digest :: string

text \<open>The body of the loop up to the count: one observation against the pinned workload.\<close>

definition admit_observation ::
    "crates \<Rightarrow> candidate_identity \<Rightarrow> workload_manifest \<Rightarrow> observation \<Rightarrow> admission_error + unit" where
  "admit_observation X identity workload ob =
     and_then (map_err AdmitObservation (validate_observation X ob)) (\<lambda>_.
     if obs_generation_id ob \<noteq> id_generation_id identity
        \<or> obs_executable_digest ob \<noteq> id_executable_digest identity
        \<or> obs_workload_digest ob \<noteq> workload_digest X workload
       then Err (NotBound (obs_observation_id ob))
     else if obs_provenance ob \<noteq> Measured then Err (SyntheticRehearsal (obs_observation_id ob))
     else if obs_status ob \<noteq> VerifiedSuccess then Err (NotPromotable (obs_status ob) (obs_request_id ob))
     else and_then (ok_or (workload_request workload (obs_request_id ob))
            (UnknownRequest (obs_observation_id ob) (obs_request_id ob))) (\<lambda>spec.
     let expected_request = request_digest X spec (wl_workload_id workload) in
     if obs_request_digest ob \<noteq> expected_request
       then Err (OtherRequestDigest (obs_observation_id ob) (obs_request_digest ob)
                   (spec_request_id spec) expected_request)
     else let expected_result = expected_result_digest X spec in
     if obs_result_digest ob \<noteq> Some expected_result
       then Err (OtherResult (obs_observation_id ob) (obs_result_digest ob) (spec_request_id spec))
     else if obs_elapsed_us ob > saturating_mul (spec_deadline_ms spec) 1000
       then Err (OverDeadline (obs_observation_id ob) (obs_elapsed_us ob) (spec_deadline_ms spec)
                   (spec_request_id spec))
     else Ok ()))"

fun admit_loop ::
    "crates \<Rightarrow> candidate_identity \<Rightarrow> workload_manifest \<Rightarrow> u64 \<Rightarrow> string set \<Rightarrow> observation list
      \<Rightarrow> admission_error + u64" where
  "admit_loop X identity workload counted seen [] = Ok counted"
| "admit_loop X identity workload counted seen (ob # obs) =
     (case admit_observation X identity workload ob of
        Inl e \<Rightarrow> Err e
      | Inr _ \<Rightarrow>
          admit_loop X identity workload
            (if obs_observation_id ob \<in> seen then counted else counted + 1)
            (insert (obs_observation_id ob) seen) obs)"

definition admit_sealed_quota ::
    "crates \<Rightarrow> sealed_log \<Rightarrow> candidate_identity \<Rightarrow> workload_manifest \<Rightarrow> u64
      \<Rightarrow> admission_error + sealed_quota_decision" where
  "admit_sealed_quota X sealed identity workload target =
     (if target = 0 then Err QuotaTargetZero
      else and_then (map_err AdmitIdentity (validate_identity identity)) (\<lambda>_.
      and_then (map_err AdmitWorkload (validate_workload workload)) (\<lambda>_.
      let wd = workload_digest X workload; header = sl_header sealed in
      if hdr_generation_id header \<noteq> id_generation_id identity
        then Err (OtherGeneration (hdr_generation_id header) (id_generation_id identity))
      else if hdr_executable_digest header \<noteq> id_executable_digest identity
        then Err (OtherExecutable (hdr_executable_digest header) (id_executable_digest identity))
      else if hdr_workload_digest header \<noteq> wd
        then Err (OtherWorkload (hdr_workload_digest header) wd)
      else and_then (admit_loop X identity workload 0 {} (sl_observations sealed)) (\<lambda>counted.
      if counted < target then Err (QuotaNotMet target counted)
      else Ok \<lparr>qd_counted = counted, qd_target = target, qd_generation_id = id_generation_id identity,
               qd_executable_digest = id_executable_digest identity, qd_workload_digest = wd,
               qd_log_digest = seal_log_digest (sl_seal sealed)\<rparr>))))"

section \<open>Version 1: observation records\<close>

datatype quota_error =
    TargetZero
  | ObservationIdRequired
  | StatusRequired
  | CandidateMismatch
  | SyntheticObservation
  | ConflictingObservation string
  | TooFewObservations u64 u64

record canary_observation =
  co_observation_id :: string
  co_observed_at_ms :: u64
  co_candidate_digest :: string
  co_latency_us :: u64
  co_status :: string
  co_provenance :: provenance

text \<open>\<open>json_string\<close> walks the code points; a control above ASCII is the two-byte sequence
  \<open>C2 80\<close> to \<open>C2 9F\<close>.\<close>

definition hex_nibble :: "nat \<Rightarrow> char" where
  "hex_nibble n = ''0123456789abcdef'' ! (n mod 16)"

definition u_escape :: "nat \<Rightarrow> string" where
  "u_escape c = CHR 0x5C # CHR ''u'' # map (\<lambda>k. hex_nibble (c div 16 ^ k)) [3, 2, 1, 0]"

fun json_string :: "string \<Rightarrow> string" where
  "json_string [] = []"
| "json_string (c # s) =
     (if c = CHR 0x5C then [CHR 0x5C, CHR 0x5C] @ json_string s
      else if c = CHR 0x22 then [CHR 0x5C, CHR 0x22] @ json_string s
      else if is_control (of_char c) \<and> (of_char c :: nat) < 128 then u_escape (of_char c) @ json_string s
      else if c = CHR 0xC2 then
        (case s of
           [] \<Rightarrow> [c]
         | d # s' \<Rightarrow> if (128 :: nat) \<le> of_char d \<and> (of_char d :: nat) < 160
                    then u_escape (of_char d) @ json_string s'
                    else c # d # json_string s')
      else c # json_string s)"

definition co_canonical_bytes :: "canary_observation \<Rightarrow> bytes" where
  "co_canonical_bytes ob =
     CHR 0x7B # CHR 0x22 # ''candidate_digest'' @ [CHR 0x22] @ '':'' @ [CHR 0x22] @ json_string (co_candidate_digest ob)
     @ [CHR 0x22] @ '','' @ [CHR 0x22] @ ''latency_us'' @ [CHR 0x22] @ '':'' @ dec_nat (unat (co_latency_us ob))
     @ '','' @ [CHR 0x22] @ ''observation_id'' @ [CHR 0x22] @ '':'' @ [CHR 0x22] @ json_string (co_observation_id ob)
     @ [CHR 0x22] @ '','' @ [CHR 0x22] @ ''observed_at_ms'' @ [CHR 0x22] @ '':'' @ dec_nat (unat (co_observed_at_ms ob))
     @ '','' @ [CHR 0x22] @ ''provenance'' @ [CHR 0x22] @ '':'' @ [CHR 0x22] @ provenance_str (co_provenance ob)
     @ [CHR 0x22] @ '','' @ [CHR 0x22] @ ''status'' @ [CHR 0x22] @ '':'' @ [CHR 0x22] @ json_string (co_status ob)
     @ [CHR 0x22, CHR 0x7D]"

definition co_digest_hex :: "crates \<Rightarrow> canary_observation \<Rightarrow> string" where
  "co_digest_hex X ob = hex_encode X (sha256 X (co_canonical_bytes ob))"

fun quota_loop ::
    "crates \<Rightarrow> string \<Rightarrow> seen_map \<Rightarrow> u64 \<Rightarrow> canary_observation list \<Rightarrow> quota_error + u64" where
  "quota_loop X candidate seen counted [] = Ok counted"
| "quota_loop X candidate seen counted (ob # obs) =
     (if is_blank (co_observation_id ob) then Err ObservationIdRequired
      else if is_blank (co_status ob) then Err StatusRequired
      else if co_candidate_digest ob \<noteq> candidate then Err CandidateMismatch
      else if co_provenance ob \<noteq> Measured then Err SyntheticObservation
      else let digest = co_digest_hex X ob in
        case seen (co_observation_id ob) of
          Some previous \<Rightarrow>
            if previous \<noteq> digest then Err (ConflictingObservation (co_observation_id ob))
            else quota_loop X candidate seen counted obs
        | None \<Rightarrow> quota_loop X candidate (seen(co_observation_id ob \<mapsto> digest)) (counted + 1) obs)"

definition admit_production_quota ::
    "crates \<Rightarrow> canary_observation list \<Rightarrow> string \<Rightarrow> u64 \<Rightarrow> quota_error + u64" where
  "admit_production_quota X observations candidate target =
     (if target = 0 then Err TargetZero
      else and_then (quota_loop X candidate Map.empty 0 observations) (\<lambda>counted.
        if counted < target then Err (TooFewObservations target counted) else Ok counted))"

section \<open>What admission accepts\<close>

text \<open>The evidence for one request: a measured, verified success of the pinned request, with the
  expected result, within its deadline.\<close>

definition evidence_for ::
    "crates \<Rightarrow> candidate_identity \<Rightarrow> workload_manifest \<Rightarrow> request_spec \<Rightarrow> observation \<Rightarrow> bool" where
  "evidence_for X identity workload spec ob \<longleftrightarrow>
     observation_wf X ob \<and> obs_generation_id ob = id_generation_id identity
     \<and> obs_executable_digest ob = id_executable_digest identity
     \<and> obs_workload_digest ob = workload_digest X workload
     \<and> obs_provenance ob = Measured \<and> obs_status ob = VerifiedSuccess
     \<and> obs_request_id ob = spec_request_id spec
     \<and> obs_request_digest ob = request_digest X spec (wl_workload_id workload)
     \<and> obs_result_digest ob = Some (expected_result_digest X spec)
     \<and> unat (obs_elapsed_us ob) \<le> unat (spec_deadline_ms spec) * 1000"

lemma elapsed_within:
  "\<not> (e > saturating_mul d 1000) \<longleftrightarrow> unat e \<le> unat d * 1000"
proof -
  have "unat e \<le> 2 ^ 64 - 1" using unat_u64_less [of e] by simp
  then show ?thesis by (auto simp: word_less_nat_alt unat_saturating_mul)
qed

lemma admit_observation_Ok:
  assumes "workload_wf workload"
  shows "admit_observation X identity workload ob = Inr u \<longleftrightarrow>
     (\<exists>spec \<in> set (wl_requests workload). evidence_for X identity workload spec ob)"
proof
  assume "admit_observation X identity workload ob = Inr u"
  then obtain spec where "workload_request workload (obs_request_id ob) = Some spec"
    and "evidence_for X identity workload spec ob"
    using workload_request_SomeD
    by (fastforce simp: admit_observation_def evidence_for_def result_simps Let_def elapsed_within split: if_splits)
  then show "\<exists>spec \<in> set (wl_requests workload). evidence_for X identity workload spec ob"
    using workload_request_SomeD by blast
next
  assume "\<exists>spec \<in> set (wl_requests workload). evidence_for X identity workload spec ob"
  then obtain spec where s: "spec \<in> set (wl_requests workload)" "evidence_for X identity workload spec ob" ..
  then have "workload_request workload (obs_request_id ob) = Some spec"
    using workload_request_unique [OF assms s(1)] by (simp add: evidence_for_def)
  moreover have "validate_observation X ob = Ok ()"
    using s(2) by (simp add: evidence_for_def validate_observation_Ok)
  ultimately show "admit_observation X identity workload ob = Inr u"
    using s(2) by (simp add: admit_observation_def evidence_for_def Let_def elapsed_within)
qed

lemma admit_loop_Ok:
  assumes "workload_wf workload"
  shows "admit_loop X identity workload c seen obs = Inr n \<longleftrightarrow>
     (\<forall>ob \<in> set obs. \<exists>spec \<in> set (wl_requests workload). evidence_for X identity workload spec ob)
     \<and> n = c + of_nat (card (set (obs_ids obs) - seen))"
proof (induction obs arbitrary: c seen)
  case Nil
  show ?case by (auto simp: obs_ids_def)
next
  case (Cons ob obs)
  let ?e = "\<lambda>ob. \<exists>spec \<in> set (wl_requests workload). evidence_for X identity workload spec ob"
  let ?i = "obs_observation_id ob"
  have card: "card (set (obs_ids (ob # obs)) - seen) =
      (if ?i \<in> seen then 0 else 1) + card (set (obs_ids obs) - insert ?i seen)"
  proof (cases "?i \<in> seen")
    case True
    then have "set (obs_ids (ob # obs)) - seen = set (obs_ids obs) - insert ?i seen"
      by (auto simp: obs_ids_def)
    with True show ?thesis by simp
  next
    case False
    then have "set (obs_ids (ob # obs)) - seen = insert ?i (set (obs_ids obs) - insert ?i seen)"
      by (auto simp: obs_ids_def)
    with False show ?thesis by simp
  qed
  show ?case
  proof (cases "admit_observation X identity workload ob")
    case (Inl e)
    with admit_observation_Ok [OF assms, of X identity ob "()"] have "\<not> ?e ob" by simp
    with Inl show ?thesis by simp
  next
    case (Inr u)
    then have "?e ob" using admit_observation_Ok [OF assms] by blast
    with Inr Cons.IH [of _ "insert ?i seen"] card show ?thesis by auto
  qed
qed

text \<open>The conditions of admission, and the number of different observations.\<close>

definition quota_evidence ::
    "crates \<Rightarrow> sealed_log \<Rightarrow> candidate_identity \<Rightarrow> workload_manifest \<Rightarrow> bool" where
  "quota_evidence X sealed identity workload \<longleftrightarrow>
     identity_wf identity \<and> workload_wf workload
     \<and> hdr_generation_id (sl_header sealed) = id_generation_id identity
     \<and> hdr_executable_digest (sl_header sealed) = id_executable_digest identity
     \<and> hdr_workload_digest (sl_header sealed) = workload_digest X workload
     \<and> (\<forall>ob \<in> set (sl_observations sealed).
          \<exists>spec \<in> set (wl_requests workload). evidence_for X identity workload spec ob)"

lemma admit_sealed_quota_Ok:
  "admit_sealed_quota X sealed identity workload target = Inr d \<longleftrightarrow>
     target \<noteq> 0 \<and> quota_evidence X sealed identity workload
     \<and> target \<le> of_nat (card (set (obs_ids (sl_observations sealed))))
     \<and> d = \<lparr>qd_counted = of_nat (card (set (obs_ids (sl_observations sealed)))), qd_target = target,
            qd_generation_id = id_generation_id identity,
            qd_executable_digest = id_executable_digest identity,
            qd_workload_digest = workload_digest X workload,
            qd_log_digest = seal_log_digest (sl_seal sealed)\<rparr>"
proof (cases "identity_wf identity \<and> workload_wf workload")
  case True
  then have v: "validate_identity identity = Ok ()" "validate_workload workload = Ok ()"
    by (simp_all add: validate_identity_Ok validate_workload_Ok)
  from True have wf: "workload_wf workload" ..
  show ?thesis
    using True v admit_loop_Ok [OF wf, of X identity 0 "{}" "sl_observations sealed"]
    by (auto simp: admit_sealed_quota_def quota_evidence_def Let_def and_then_Ok not_less split: if_splits)
next
  case False
  then show ?thesis
    by (auto simp: admit_sealed_quota_def quota_evidence_def and_then_Ok map_err_Ok validate_identity_Ok
        validate_workload_Ok split: if_splits)
qed

text \<open>Under the conditions of admission an observation id stands for one request.\<close>

definition answered :: "crates \<Rightarrow> sealed_log \<Rightarrow> candidate_identity \<Rightarrow> workload_manifest \<Rightarrow> request_spec set" where
  "answered X sealed identity workload = {spec \<in> set (wl_requests workload).
     \<exists>ob \<in> set (sl_observations sealed). evidence_for X identity workload spec ob}"

lemma quota_counts_requests:
  assumes "quota_evidence X sealed identity workload"
  shows "card (set (obs_ids (sl_observations sealed))) \<le> card (answered X sealed identity workload)"
proof -
  let ?id = "\<lambda>spec. observation_id X (id_generation_id identity) (spec_request_id spec)
     (request_digest X spec (wl_workload_id workload))"
  have "set (obs_ids (sl_observations sealed)) \<subseteq> ?id ` answered X sealed identity workload"
  proof
    fix i assume "i \<in> set (obs_ids (sl_observations sealed))"
    then obtain ob where ob: "ob \<in> set (sl_observations sealed)" "i = obs_observation_id ob"
      by (auto simp: obs_ids_def)
    with assms obtain spec where spec: "spec \<in> set (wl_requests workload)"
      "evidence_for X identity workload spec ob" by (auto simp: quota_evidence_def)
    then have "obs_observation_id ob = ?id spec" by (simp add: evidence_for_def observation_wf_def)
    with ob spec show "i \<in> ?id ` answered X sealed identity workload" by (auto simp: answered_def)
  qed
  moreover have "finite (answered X sealed identity workload)" by (simp add: answered_def)
  ultimately show ?thesis by (meson card_image_le card_mono finite_imageI le_trans)
qed

lemma admitted_counts:
  assumes "admit_sealed_quota X sealed identity workload target = Ok d"
    and "length (sl_observations sealed) < 2 ^ 64"
  shows "unat target \<le> card (answered X sealed identity workload)
    \<and> card (answered X sealed identity workload) \<le> length (wl_requests workload)
    \<and> unat (qd_counted d) = card (set (obs_ids (sl_observations sealed)))"
proof -
  let ?n = "card (set (obs_ids (sl_observations sealed)))"
  from assms(1) have q: "quota_evidence X sealed identity workload" "target \<le> of_nat ?n" "qd_counted d = of_nat ?n"
    by (auto simp: admit_sealed_quota_Ok)
  have "?n \<le> length (sl_observations sealed)"
    by (metis card_length length_map obs_ids_def)
  with assms(2) have n: "unat (of_nat ?n :: u64) = ?n" by (simp add: unat_of_nat)
  with q(2) have "unat target \<le> ?n" by (simp add: word_le_nat_alt)
  moreover have "card (answered X sealed identity workload) \<le> length (wl_requests workload)"
  proof -
    have "answered X sealed identity workload \<subseteq> set (wl_requests workload)" by (auto simp: answered_def)
    then show ?thesis by (meson card_length card_mono finite_set le_trans)
  qed
  ultimately show ?thesis using quota_counts_requests [OF q(1)] n q(3) by simp
qed

section \<open>Version 1\<close>

definition v1_acceptable :: "string \<Rightarrow> canary_observation \<Rightarrow> bool" where
  "v1_acceptable candidate ob \<longleftrightarrow> \<not> is_blank (co_observation_id ob) \<and> \<not> is_blank (co_status ob)
     \<and> co_candidate_digest ob = candidate \<and> co_provenance ob = Measured"

text \<open>No id is used for two records, nor for one that differs from what is already known.\<close>

definition consistent :: "crates \<Rightarrow> seen_map \<Rightarrow> canary_observation list \<Rightarrow> bool" where
  "consistent X seen obs \<longleftrightarrow>
     (\<exists>m. seen \<subseteq>\<^sub>m m \<and> (\<forall>ob \<in> set obs. m (co_observation_id ob) = Some (co_digest_hex X ob)))"

lemma consistent_fresh:
  assumes "seen (co_observation_id ob) = None"
  shows "consistent X seen (ob # obs) \<longleftrightarrow> consistent X (seen(co_observation_id ob \<mapsto> co_digest_hex X ob)) obs"
proof
  assume "consistent X seen (ob # obs)"
  then obtain m where m: "seen \<subseteq>\<^sub>m m" "\<forall>o' \<in> set (ob # obs). m (co_observation_id o') = Some (co_digest_hex X o')"
    unfolding consistent_def by blast
  then have "seen(co_observation_id ob \<mapsto> co_digest_hex X ob) \<subseteq>\<^sub>m m" by (simp add: map_le_def)
  with m(2) show "consistent X (seen(co_observation_id ob \<mapsto> co_digest_hex X ob)) obs"
    unfolding consistent_def by auto
next
  assume "consistent X (seen(co_observation_id ob \<mapsto> co_digest_hex X ob)) obs"
  then obtain m where m: "seen(co_observation_id ob \<mapsto> co_digest_hex X ob) \<subseteq>\<^sub>m m"
    "\<forall>o' \<in> set obs. m (co_observation_id o') = Some (co_digest_hex X o')"
    unfolding consistent_def by blast
  from m(1) have "m (co_observation_id ob) = Some (co_digest_hex X ob)"
    by (metis domIff fun_upd_same map_le_def option.distinct(1))
  moreover have "seen \<subseteq>\<^sub>m m"
    using assms m(1) by (auto simp: map_le_def dom_def split: if_splits)
  ultimately show "consistent X seen (ob # obs)"
    using m(2) unfolding consistent_def by auto
qed

lemma consistent_known:
  assumes "seen (co_observation_id ob) = Some d"
  shows "consistent X seen (ob # obs) \<longleftrightarrow> d = co_digest_hex X ob \<and> consistent X seen obs"
proof -
  have "m (co_observation_id ob) = Some d" if "seen \<subseteq>\<^sub>m m" for m
    using that assms by (metis domI map_le_def)
  then show ?thesis unfolding consistent_def by auto (metis option.inject)
qed

lemma quota_loop_Ok:
  "quota_loop X candidate seen c obs = Inr n \<longleftrightarrow>
     list_all (v1_acceptable candidate) obs \<and> consistent X seen obs
     \<and> n = c + of_nat (card (co_observation_id ` set obs - dom seen))"
proof (induction obs arbitrary: c seen)
  case Nil
  show ?case by (auto simp: consistent_def map_le_def intro!: exI [of _ seen])
next
  case (Cons ob obs)
  let ?i = "co_observation_id ob"
  show ?case
  proof (cases "v1_acceptable candidate ob")
    case False
    then show ?thesis by (auto simp: v1_acceptable_def)
  next
    case acc: True
    show ?thesis
    proof (cases "seen ?i")
      case None
      have "co_observation_id ` set (ob # obs) - dom seen =
          insert ?i (co_observation_id ` set obs - dom (seen(?i \<mapsto> co_digest_hex X ob)))"
        using None by auto
      then have card: "card (co_observation_id ` set (ob # obs) - dom seen) =
          Suc (card (co_observation_id ` set obs - dom (seen(?i \<mapsto> co_digest_hex X ob))))" by simp
      have step: "quota_loop X candidate seen c (ob # obs) =
          quota_loop X candidate (seen(?i \<mapsto> co_digest_hex X ob)) (c + 1) obs"
        using acc None by (simp add: v1_acceptable_def Let_def)
      show ?thesis unfolding step Cons.IH card consistent_fresh [of seen ob X obs, OF None]
        using acc by (simp add: add.assoc)
    next
      case (Some d)
      then have "co_observation_id ` set (ob # obs) - dom seen = co_observation_id ` set obs - dom seen"
        by auto
      then show ?thesis using Cons.IH [of seen c] acc Some consistent_known [of seen ob d X obs, OF Some]
        by (auto simp: v1_acceptable_def Let_def)
    qed
  qed
qed

section \<open>A sample quota\<close>

definition sample_request :: request_spec where
  "sample_request = \<lparr>spec_request_id = ''r-1'', spec_input = ''ping'', spec_expected_output = ''pong'',
     spec_deadline_ms = 50, spec_nondeterminism = Exact\<rparr>"

definition sample_workload :: workload_manifest where
  "sample_workload = \<lparr>wl_workload_version = 1, wl_workload_id = ''w'', wl_protocol_version = 1,
     wl_requests = [sample_request]\<rparr>"

definition sample_identity :: candidate_identity where
  "sample_identity = new_identity (replicate 64 (CHR ''c'')) (replicate 64 (CHR ''d''))
     (sha256_hex sample ''elf'') ''gen-1''"

definition evidence_header :: log_header where
  "evidence_header = new_header ''gen-1'' (workload_digest sample sample_workload) (sha256_hex sample ''elf'') 7"

definition sample_evidence :: observation where
  "sample_evidence = new_observation sample
     \<lparr>in_generation_id = ''gen-1'', in_request_id = ''r-1'',
      in_request_digest = request_digest sample sample_request ''w'',
      in_workload_digest = workload_digest sample sample_workload,
      in_executable_digest = sha256_hex sample ''elf'',
      in_result_digest = Some (expected_result_digest sample sample_request), in_elapsed_us = 50000,
      in_observed_at_ms = 9, in_status = VerifiedSuccess, in_provenance = Measured\<rparr>"

definition sample_sealed_log :: sealed_log where
  "sample_sealed_log = \<lparr>sl_header = evidence_header, sl_observations = [sample_evidence], sl_rejections = [],
     sl_seal = seal_of sample 11 [] [sample_evidence]\<rparr>"

lemma sample_hex_digests [simp]:
  "is_hex_digest (domain_digest sample d fs)" "is_hex_digest (sha256_hex sample b)"
  using is_hex_digest_domain [OF sample_hex_ok sample_sha_ok] is_hex_digest_encode [OF sample_hex_ok sample_sha_ok]
  by (simp_all add: sha256_hex_def)

lemma sample_names: "\<not> is_blank ''gen-1''" "\<not> is_blank ''r-1''" "\<not> is_blank ''w''" "\<not> has_control ''r-1''" "\<not> has_control ''w''"
  by code_simp+

lemma sample_workload_wf: "workload_wf sample_workload"
  by (simp add: workload_wf_def sample_workload_def sample_request_def request_wf_def sample_names
      WORKLOAD_VERSION_def CANARY_PROTOCOL_VERSION_def)

lemma sample_identity_wf: "identity_wf sample_identity"
  by (simp add: identity_wf_def sample_identity_def new_identity_def sample_names sample_digests)

lemma sample_evidence_wf: "observation_wf sample sample_evidence"
  by (simp add: observation_wf_def sample_evidence_def sample_names request_digest_def workload_digest_def
      expected_result_digest_def)

lemma sample_evidence_for: "evidence_for sample sample_identity sample_workload sample_request sample_evidence"
  using sample_evidence_wf
  by (simp add: evidence_for_def sample_evidence_def sample_identity_def new_identity_def sample_request_def
      sample_workload_def)

lemma sample_quota: "quota_evidence sample sample_sealed_log sample_identity sample_workload"
  using sample_evidence_for sample_identity_wf sample_workload_wf
  by (auto simp: quota_evidence_def sample_sealed_log_def evidence_header_def new_header_def sample_identity_def
      new_identity_def sample_workload_def)

lemma sample_admitted:
  "\<exists>d. admit_sealed_quota sample sample_sealed_log sample_identity sample_workload 1 = Ok d"
  using sample_quota by (simp add: admit_sealed_quota_Ok sample_sealed_log_def obs_ids_def)

definition sample_v1 :: "string \<Rightarrow> canary_observation" where
  "sample_v1 i = \<lparr>co_observation_id = i, co_observed_at_ms = 3, co_candidate_digest = ''c'', co_latency_us = 4,
     co_status = ''ok'', co_provenance = Measured\<rparr>"

section \<open>Properties of quota admission\<close>

text \<open>Admission on a sealed log is exactly the stated policy.  It succeeds when the target is
  positive, identity and workload are valid, the header names this generation, executable and
  workload, every observation is a measured verified success of a pinned request with the pinned
  request digest, the expected result and an elapsed time within the deadline (computed without
  wrap-around), and the number of different observation ids reaches the target; the decision then
  carries that number.  In every other case it is refused.\<close>

theorem admission_policy_exact:
  "admit_sealed_quota X sealed identity workload target = Ok d \<longleftrightarrow>
     target \<noteq> 0 \<and> quota_evidence X sealed identity workload
     \<and> target \<le> of_nat (card (set (obs_ids (sl_observations sealed))))
     \<and> d = \<lparr>qd_counted = of_nat (card (set (obs_ids (sl_observations sealed)))), qd_target = target,
            qd_generation_id = id_generation_id identity,
            qd_executable_digest = id_executable_digest identity,
            qd_workload_digest = workload_digest X workload,
            qd_log_digest = seal_log_digest (sl_seal sealed)\<rparr>"
  by (rule admit_sealed_quota_Ok)

text \<open>C7: An admitted quota stands for that many different requests of the pinned workload, each
  answered as expected: repeating one request does not increase the count, and a target above the
  number of requests in the workload is never admitted.\<close>

theorem quota_counts_distinct_requests:
  assumes "admit_sealed_quota X sealed identity workload target = Ok d"
    and "length (sl_observations sealed) < 2 ^ 64"
  shows "unat target \<le> card (answered X sealed identity workload)
    \<and> card (answered X sealed identity workload) \<le> length (wl_requests workload)
    \<and> unat (qd_counted d) = card (set (obs_ids (sl_observations sealed)))"
  by (rule admitted_counts [OF assms])

theorem quota_counts_distinct_requests_witness:
  "\<exists>d. admit_sealed_quota sample sample_sealed_log sample_identity sample_workload 1 = Ok d \<and>
     unat (1 :: u64) \<le> card (answered sample sample_sealed_log sample_identity sample_workload)
    \<and> card (answered sample sample_sealed_log sample_identity sample_workload) \<le> length (wl_requests sample_workload)
    \<and> unat (qd_counted d) = card (set (obs_ids (sl_observations sample_sealed_log)))"
proof -
  have "length (sl_observations sample_sealed_log) < 2 ^ 64" by (simp add: sample_sealed_log_def)
  then show ?thesis using sample_admitted quota_counts_distinct_requests by blast
qed

text \<open>The version 1 quota counts observation ids, not records: it succeeds exactly when the
  target is positive, every record is measured, names this candidate and has an id and a status, no
  id stands for two different records, and the number of different ids (which it returns) reaches
  the target.\<close>

theorem production_quota_exact:
  "admit_production_quota X observations candidate target = Ok n \<longleftrightarrow>
     target \<noteq> 0 \<and> list_all (v1_acceptable candidate) observations \<and> consistent X Map.empty observations
     \<and> n = of_nat (card (co_observation_id ` set observations)) \<and> target \<le> n"
  by (auto simp: admit_production_quota_def and_then_Ok quota_loop_Ok not_less split: if_splits)

end
