(* ===== verification/Generation.thy ===== *)
theory Generation
  imports Prelude
begin

text \<open>
  The generation record the host supervisor keeps and the ledger writes down
  (\<open>src/src/supervisor/mod.rs\<close>).  Paths are strings.
\<close>

datatype generation_state = Staged | Starting | Ready | CanaryActive | Durable | Reverting | Reverted

record generation_info =
  gi_generation_id :: string
  gi_installed_path :: string
  gi_manifest_digest :: string
  gi_state :: generation_state
  gi_pid :: "u32 option"
  gi_socket_path :: "string option"
  gi_canary_transactions :: u64
  gi_canary_errors :: u64
  gi_max_latency_us :: u64
  gi_total_latency_us :: u64
  gi_staged_timestamp :: string

text \<open>\<open>format!("{:?}", state)\<close>.\<close>

fun state_debug :: "generation_state \<Rightarrow> string" where
  "state_debug Staged = ''Staged''"
| "state_debug Starting = ''Starting''"
| "state_debug Ready = ''Ready''"
| "state_debug CanaryActive = ''CanaryActive''"
| "state_debug Durable = ''Durable''"
| "state_debug Reverting = ''Reverting''"
| "state_debug Reverted = ''Reverted''"

end
