(* ===== verification/Ledger.thy ===== *)
theory Ledger
  imports Sample Generation
begin

text \<open>
  The improvement ledger (\<open>src/src/ledger/\<close>): hash-chained blocks in a SQLite table, a
  content-addressed blob directory, and signed Merkle checkpoints.

  A table is the list of its rows in insertion order, with the constraints the schema declares
  (\<open>PRIMARY KEY\<close>, \<open>UNIQUE\<close>) checked by the insert; \<open>ORDER BY sequence\<close> sorts by the signed
  column.  \<open>serde_json::from_str\<close> at \<open>Vec<String>\<close> is the argument \<open>from_str\<close>, the clock is the
  argument \<open>now\<close>, and the P-256 operations are the record \<open>p256\<close>.  Statements that fail for
  reasons of their own (a full disk, a poisoned lock) are not modelled: they return before any
  change.
\<close>

section \<open>Blocks (\<open>record.rs\<close>)\<close>

datatype block_type = GenesisB | EvaluationB | PromotionB | RollbackB | PromotionEvidenceB

fun block_type_str :: "block_type \<Rightarrow> string" where
  "block_type_str GenesisB = ''GENESIS''"
| "block_type_str EvaluationB = ''EVALUATION''"
| "block_type_str PromotionB = ''PROMOTION''"
| "block_type_str RollbackB = ''ROLLBACK''"
| "block_type_str PromotionEvidenceB = ''PROMOTION_EVIDENCE''"

datatype ledger_error =
    UnknownBlockType string
  | BlobHashesParse
  | InsertFailed u64
  | LedgerUninitialized
  | BlobNotFound string
  | BlobCorrupted string string
  | PayloadDigestMismatch u64 string string
  | BlockHashMismatch u64 string string
  | EmptyCheckpoint
  | AuditEmpty
  | AuditGenesisSequence u64
  | AuditGenesisType block_type
  | AuditGenesisPrev string
  | AuditSequenceGap nat u64
  | AuditBrokenLink u64 string string
  | AuditBlob string u64
  | AuditCheckpointBeyond u64 u64
  | AuditCheckpointCount u64 nat
  | AuditCheckpointRoot string string
  | AuditSignature

definition parse_block_type :: "string \<Rightarrow> ledger_error + block_type" where
  "parse_block_type s =
     (if s = ''GENESIS'' then Ok GenesisB
      else if s = ''EVALUATION'' then Ok EvaluationB
      else if s = ''PROMOTION'' then Ok PromotionB
      else if s = ''ROLLBACK'' then Ok RollbackB
      else if s = ''PROMOTION_EVIDENCE'' then Ok PromotionEvidenceB
      else Err (UnknownBlockType s))"

record promotion_evidence =
  pe_meta_candidate_block_hash :: string
  pe_downstream_cycle_id :: string
  pe_downstream_ledger_block_hash :: string
  pe_capability_improvement_proof :: string
  pe_final_classification :: string

record ledger_block =
  lb_sequence :: u64
  lb_block_type :: block_type
  lb_timestamp_utc :: string
  lb_prev_block_hash :: string
  lb_payload_json :: string
  lb_payload_digest :: string
  lb_blob_hashes :: "string list"
  lb_block_hash :: string

definition GENESIS_PREV_HASH :: string where
  "GENESIS_PREV_HASH = replicate 64 (CHR ''0'')"

definition compute_payload_digest :: "crates \<Rightarrow> string \<Rightarrow> string" where
  "compute_payload_digest X payload = hex_encode X (sha256 X payload)"

definition block_preimage ::
    "u64 \<Rightarrow> block_type \<Rightarrow> string \<Rightarrow> string \<Rightarrow> string \<Rightarrow> string list \<Rightarrow> bytes" where
  "block_preimage sequence bt timestamp prev payload_digest blob_hashes =
     u64_le sequence @ block_type_str bt @ timestamp @ prev @ payload_digest @ concat blob_hashes"

definition compute_block_hash ::
    "crates \<Rightarrow> u64 \<Rightarrow> block_type \<Rightarrow> string \<Rightarrow> string \<Rightarrow> string \<Rightarrow> string list \<Rightarrow> string" where
  "compute_block_hash X sequence bt timestamp prev payload_digest blob_hashes =
     hex_encode X (sha256 X (block_preimage sequence bt timestamp prev payload_digest blob_hashes))"

definition new_block ::
    "crates \<Rightarrow> u64 \<Rightarrow> block_type \<Rightarrow> string \<Rightarrow> string \<Rightarrow> string \<Rightarrow> string list \<Rightarrow> ledger_block" where
  "new_block X sequence bt timestamp prev payload blob_hashes =
     (let payload_digest = compute_payload_digest X payload;
          block_hash = compute_block_hash X sequence bt timestamp prev payload_digest blob_hashes in
      \<lparr>lb_sequence = sequence, lb_block_type = bt, lb_timestamp_utc = timestamp,
       lb_prev_block_hash = prev, lb_payload_json = payload, lb_payload_digest = payload_digest,
       lb_blob_hashes = blob_hashes, lb_block_hash = block_hash\<rparr>)"

definition verify_integrity :: "crates \<Rightarrow> ledger_block \<Rightarrow> ledger_error + unit" where
  "verify_integrity X b =
     (let expected_payload = compute_payload_digest X (lb_payload_json b) in
      if lb_payload_digest b \<noteq> expected_payload
        then Err (PayloadDigestMismatch (lb_sequence b) (lb_payload_digest b) expected_payload)
      else let expected_hash = compute_block_hash X (lb_sequence b) (lb_block_type b)
             (lb_timestamp_utc b) (lb_prev_block_hash b) (lb_payload_digest b) (lb_blob_hashes b) in
      if lb_block_hash b \<noteq> expected_hash
        then Err (BlockHashMismatch (lb_sequence b) (lb_block_hash b) expected_hash)
      else Ok ())"

section \<open>Blobs (\<open>blob.rs\<close>)\<close>

text \<open>The directory maps file names to contents.  \<open>put_blob\<close> writes a temporary file and renames it,
  so the visible name appears with its whole content.\<close>

type_synonym blob_store = "string \<rightharpoonup> bytes"

definition put_blob :: "crates \<Rightarrow> bytes \<Rightarrow> blob_store \<Rightarrow> string \<times> blob_store" where
  "put_blob X data store =
     (let digest = hex_encode X (sha256 X data) in
      if store digest \<noteq> None then (digest, store) else (digest, store(digest \<mapsto> data)))"

definition get_blob :: "crates \<Rightarrow> blob_store \<Rightarrow> string \<Rightarrow> ledger_error + bytes" where
  "get_blob X store digest =
     (case store digest of
        None \<Rightarrow> Err (BlobNotFound digest)
      | Some data \<Rightarrow>
          let computed = hex_encode X (sha256 X data) in
          if computed \<noteq> digest then Err (BlobCorrupted digest computed) else Ok data)"

definition has_blob :: "blob_store \<Rightarrow> string \<Rightarrow> bool" where
  "has_blob store digest \<longleftrightarrow> store digest \<noteq> None"

definition verify_blob :: "crates \<Rightarrow> blob_store \<Rightarrow> string \<Rightarrow> bool" where
  "verify_blob X store digest \<longleftrightarrow> is_ok (get_blob X store digest)"

section \<open>Merkle trees and checkpoints (\<open>merkle.rs\<close>)\<close>

record p256 =
  ec_sign :: "bytes \<Rightarrow> bytes \<Rightarrow> bytes"
  ec_from_slice :: "bytes \<Rightarrow> bool"
  ec_verify :: "bytes \<Rightarrow> bytes \<Rightarrow> bytes \<Rightarrow> bool"

record merkle_checkpoint =
  mc_up_to_sequence :: u64
  mc_merkle_root :: string
  mc_block_count :: u64
  mc_timestamp_utc :: string
  mc_signature :: "string option"

definition new_checkpoint :: "u64 \<Rightarrow> string \<Rightarrow> u64 \<Rightarrow> string \<Rightarrow> merkle_checkpoint" where
  "new_checkpoint up_to root block_count now = \<lparr>mc_up_to_sequence = up_to, mc_merkle_root = root,
     mc_block_count = block_count, mc_timestamp_utc = now, mc_signature = None\<rparr>"

definition sign_checkpoint :: "crates \<Rightarrow> p256 \<Rightarrow> bytes \<Rightarrow> merkle_checkpoint \<Rightarrow> merkle_checkpoint" where
  "sign_checkpoint X P signing_key c =
     c\<lparr>mc_signature := Some (''p256:'' @ hex_encode X (ec_sign P signing_key (mc_merkle_root c)))\<rparr>"

definition verify_signature :: "crates \<Rightarrow> p256 \<Rightarrow> bytes \<Rightarrow> merkle_checkpoint \<Rightarrow> bool" where
  "verify_signature X P verifying_key c =
     (case mc_signature c of
        None \<Rightarrow> False
      | Some sig_str \<Rightarrow>
          (case strip_prefix ''p256:'' sig_str of
             None \<Rightarrow> False
           | Some hex_str \<Rightarrow>
               (case hex_decode X hex_str of
                  None \<Rightarrow> False
                | Some sig_bytes \<Rightarrow>
                    ec_from_slice P sig_bytes \<and> ec_verify P verifying_key (mc_merkle_root c) sig_bytes)))"

definition merkle_node :: "crates \<Rightarrow> string \<Rightarrow> string \<Rightarrow> string" where
  "merkle_node X left right = hex_encode X (sha256 X (left @ right))"

text \<open>The inner loop builds the next level; an odd last node is paired with itself.\<close>

fun next_level :: "crates \<Rightarrow> string list \<Rightarrow> string list" where
  "next_level X [] = []"
| "next_level X [a] = [merkle_node X a a]"
| "next_level X (a # b # rest) = merkle_node X a b # next_level X rest"

lemma length_next_level: "length (next_level X xs) = (length xs + 1) div 2"
  by (induction X xs rule: next_level.induct) simp_all

function merkle_loop :: "crates \<Rightarrow> string list \<Rightarrow> string list" where
  "merkle_loop X level = (if length level > 1 then merkle_loop X (next_level X level) else level)"
  by pat_completeness auto
termination
  by (relation "measure (\<lambda>(X, level). length level)") (simp_all add: length_next_level)

declare merkle_loop.simps [simp del]

definition compute_merkle_root :: "crates \<Rightarrow> string list \<Rightarrow> string" where
  "compute_merkle_root X leaf_hashes =
     (if leaf_hashes = [] then replicate 64 (CHR ''0'')
      else if length leaf_hashes = 1 then leaf_hashes ! 0
      else merkle_loop X leaf_hashes ! 0)"

section \<open>The database (\<open>db.rs\<close>, \<open>schema.rs\<close>)\<close>

record block_row =
  row_sequence :: u64
  row_block_type :: string
  row_timestamp_utc :: string
  row_prev_block_hash :: string
  row_payload_json :: string
  row_payload_digest :: string
  row_blob_hashes_json :: string
  row_block_hash :: string

record ledger_db =
  db_blocks :: "block_row list"
  db_checkpoints :: "merkle_checkpoint list"
  db_blobs_index :: "(string \<times> u64 \<times> string) list"
  db_blobs :: blob_store

definition blob_hashes_text :: "crates \<Rightarrow> string list \<Rightarrow> string" where
  "blob_hashes_text X hs = write_canonical X (JArray (map JString hs))"

definition block_row_of :: "crates \<Rightarrow> ledger_block \<Rightarrow> block_row" where
  "block_row_of X b =
     \<lparr>row_sequence = lb_sequence b, row_block_type = block_type_str (lb_block_type b),
      row_timestamp_utc = lb_timestamp_utc b, row_prev_block_hash = lb_prev_block_hash b,
      row_payload_json = lb_payload_json b, row_payload_digest = lb_payload_digest b,
      row_blob_hashes_json = blob_hashes_text X (lb_blob_hashes b), row_block_hash = lb_block_hash b\<rparr>"

definition insert_block :: "crates \<Rightarrow> ledger_block \<Rightarrow> ledger_db \<Rightarrow> ledger_error + ledger_db" where
  "insert_block X b db =
     (let r = block_row_of X b in
      if row_sequence r \<in> row_sequence ` set (db_blocks db)
         \<or> row_block_hash r \<in> row_block_hash ` set (db_blocks db)
        then Err (InsertFailed (lb_sequence b))
      else Ok (db\<lparr>db_blocks := db_blocks db @ [r]\<rparr>))"

definition row_to_block ::
    "(string \<Rightarrow> string list option) \<Rightarrow> block_row \<Rightarrow> ledger_error + ledger_block" where
  "row_to_block from_str r =
     and_then (parse_block_type (row_block_type r)) (\<lambda>bt.
     and_then (ok_or (from_str (row_blob_hashes_json r)) BlobHashesParse) (\<lambda>hs.
     Ok \<lparr>lb_sequence = row_sequence r, lb_block_type = bt, lb_timestamp_utc = row_timestamp_utc r,
         lb_prev_block_hash = row_prev_block_hash r, lb_payload_json = row_payload_json r,
         lb_payload_digest = row_payload_digest r, lb_blob_hashes = hs, lb_block_hash = row_block_hash r\<rparr>))"

text \<open>\<open>all_blocks\<close> reads leniently: an unknown type becomes \<open>Evaluation\<close>, an unreadable hash list
  becomes empty.\<close>

definition read_row :: "(string \<Rightarrow> string list option) \<Rightarrow> block_row \<Rightarrow> ledger_block" where
  "read_row from_str r =
     \<lparr>lb_sequence = row_sequence r,
      lb_block_type = (case parse_block_type (row_block_type r) of Inl _ \<Rightarrow> EvaluationB | Inr t \<Rightarrow> t),
      lb_timestamp_utc = row_timestamp_utc r,
      lb_prev_block_hash = row_prev_block_hash r, lb_payload_json = row_payload_json r,
      lb_payload_digest = row_payload_digest r,
      lb_blob_hashes = (case from_str (row_blob_hashes_json r) of None \<Rightarrow> [] | Some hs \<Rightarrow> hs),
      lb_block_hash = row_block_hash r\<rparr>"

definition rows_by_sequence :: "ledger_db \<Rightarrow> block_row list" where
  "rows_by_sequence db = sort_key (\<lambda>r. sint (row_sequence r)) (db_blocks db)"

definition all_blocks :: "(string \<Rightarrow> string list option) \<Rightarrow> ledger_db \<Rightarrow> ledger_block list" where
  "all_blocks from_str db = map (read_row from_str) (rows_by_sequence db)"

definition latest_block ::
    "(string \<Rightarrow> string list option) \<Rightarrow> ledger_db \<Rightarrow> ledger_error + ledger_block option" where
  "latest_block from_str db =
     (case rev (rows_by_sequence db) of
        [] \<Rightarrow> Ok None
      | r # _ \<Rightarrow> and_then (row_to_block from_str r) (\<lambda>b. Ok (Some b)))"

definition get_block ::
    "(string \<Rightarrow> string list option) \<Rightarrow> ledger_db \<Rightarrow> u64 \<Rightarrow> ledger_error + ledger_block option" where
  "get_block from_str db sequence =
     (case List.find (\<lambda>r. row_sequence r = sequence) (db_blocks db) of
        None \<Rightarrow> Ok None
      | Some r \<Rightarrow> and_then (row_to_block from_str r) (\<lambda>b. Ok (Some b)))"

definition get_block_by_hash ::
    "(string \<Rightarrow> string list option) \<Rightarrow> ledger_db \<Rightarrow> string \<Rightarrow> ledger_error + ledger_block option" where
  "get_block_by_hash from_str db h =
     (case List.find (\<lambda>r. row_block_hash r = h) (db_blocks db) of
        None \<Rightarrow> Ok None
      | Some r \<Rightarrow> and_then (row_to_block from_str r) (\<lambda>b. Ok (Some b)))"

definition genesis_payload :: "crates \<Rightarrow> string" where
  "genesis_payload X = write_canonical X (JObject
     [(''system'', JString ''spark-rsi''),
      (''law'', JString ''Build the cage, build the measuring instruments, then give the animal a bigger brain.''),
      (''standard'', JString ''Apache-2.0 WITH LLVM-exception'')])"

definition init_genesis :: "crates \<Rightarrow> string \<Rightarrow> ledger_db \<Rightarrow> ledger_error + ledger_db" where
  "init_genesis X now db =
     insert_block X (new_block X 0 GenesisB now GENESIS_PREV_HASH (genesis_payload X) []) db"

definition open_ledger ::
    "crates \<Rightarrow> (string \<Rightarrow> string list option) \<Rightarrow> string \<Rightarrow> ledger_db \<Rightarrow> ledger_error + ledger_db" where
  "open_ledger X from_str now db =
     and_then (latest_block from_str db) (\<lambda>latest.
       case latest of None \<Rightarrow> init_genesis X now db | Some _ \<Rightarrow> Ok db)"

definition append_block ::
    "crates \<Rightarrow> (string \<Rightarrow> string list option) \<Rightarrow> string \<Rightarrow> block_type \<Rightarrow> string \<Rightarrow> string list
      \<Rightarrow> ledger_db \<Rightarrow> ledger_error + ledger_block \<times> ledger_db" where
  "append_block X from_str now bt payload blob_hashes db =
     and_then (latest_block from_str db) (\<lambda>found.
     and_then (ok_or found LedgerUninitialized) (\<lambda>latest.
     let b = new_block X (lb_sequence latest + 1) bt now (lb_block_hash latest) payload blob_hashes in
     and_then (insert_block X b db) (\<lambda>db'. Ok (b, db'))))"

text \<open>\<open>append_evaluation\<close> stores the raw metrics first; the receipt's JSON text is an argument.\<close>

definition append_evaluation ::
    "crates \<Rightarrow> (string \<Rightarrow> string list option) \<Rightarrow> string \<Rightarrow> string \<Rightarrow> bytes option
      \<Rightarrow> ledger_db \<Rightarrow> (ledger_error + ledger_block) \<times> ledger_db" where
  "append_evaluation X from_str now receipt_json raw_metrics db =
     (let (hashes, db1) =
        (case raw_metrics of
           None \<Rightarrow> ([], db)
         | Some data \<Rightarrow>
             let (digest, store) = put_blob X data (db_blobs db);
                 index = (if digest \<in> fst ` set (db_blobs_index db) then db_blobs_index db
                          else db_blobs_index db @ [(digest, of_nat (length data), now)])
             in ([digest], db\<lparr>db_blobs := store, db_blobs_index := index\<rparr>))
      in case append_block X from_str now EvaluationB receipt_json hashes db1 of
           Inl e \<Rightarrow> (Err e, db1)
         | Inr (b, db2) \<Rightarrow> (Ok b, db2))"

definition append_promotion ::
    "crates \<Rightarrow> (string \<Rightarrow> string list option) \<Rightarrow> string \<Rightarrow> generation_info \<Rightarrow> string
      \<Rightarrow> ledger_db \<Rightarrow> ledger_error + ledger_block \<times> ledger_db" where
  "append_promotion X from_str now g receipt_digest db =
     append_block X from_str now PromotionB
       (write_canonical X (JObject
          [(''generation_id'', JString (gi_generation_id g)),
           (''installed_path'', JString (gi_installed_path g)),
           (''receipt_digest'', JString receipt_digest),
           (''state'', JString (state_debug (gi_state g))),
           (''staged_timestamp'', JString (gi_staged_timestamp g))])) [] db"

definition append_rollback ::
    "crates \<Rightarrow> (string \<Rightarrow> string list option) \<Rightarrow> string \<Rightarrow> string \<Rightarrow> string
      \<Rightarrow> ledger_db \<Rightarrow> ledger_error + ledger_block \<times> ledger_db" where
  "append_rollback X from_str now generation_id reason db =
     append_block X from_str now RollbackB
       (write_canonical X (JObject
          [(''generation_id'', JString generation_id), (''reason'', JString reason),
           (''rolled_back_at'', JString now)])) [] db"

definition append_promotion_evidence ::
    "crates \<Rightarrow> (string \<Rightarrow> string list option) \<Rightarrow> string \<Rightarrow> promotion_evidence
      \<Rightarrow> ledger_db \<Rightarrow> ledger_error + ledger_block \<times> ledger_db" where
  "append_promotion_evidence X from_str now e db =
     append_block X from_str now PromotionEvidenceB
       (print_json X (JObject
          [(''meta_candidate_block_hash'', JString (pe_meta_candidate_block_hash e)),
           (''downstream_cycle_id'', JString (pe_downstream_cycle_id e)),
           (''downstream_ledger_block_hash'', JString (pe_downstream_ledger_block_hash e)),
           (''capability_improvement_proof'', JString (pe_capability_improvement_proof e)),
           (''final_classification'', JString (pe_final_classification e))])) [] db"

section \<open>Checkpoints and audit\<close>

text \<open>\<open>INSERT OR REPLACE\<close>: the row with the same key goes.\<close>

definition checkpoint ::
    "crates \<Rightarrow> p256 \<Rightarrow> (string \<Rightarrow> string list option) \<Rightarrow> string \<Rightarrow> bytes option
      \<Rightarrow> ledger_db \<Rightarrow> ledger_error + merkle_checkpoint \<times> ledger_db" where
  "checkpoint X P from_str now signing_key db =
     (let blocks = all_blocks from_str db in
      if blocks = [] then Err EmptyCheckpoint
      else
        let c = new_checkpoint (lb_sequence (last blocks))
                  (compute_merkle_root X (map lb_block_hash blocks)) (of_nat (length blocks)) now;
            c = (case signing_key of None \<Rightarrow> c | Some key \<Rightarrow> sign_checkpoint X P key c)
        in Ok (c, db\<lparr>db_checkpoints :=
             filter (\<lambda>d. mc_up_to_sequence d \<noteq> mc_up_to_sequence c) (db_checkpoints db) @ [c]\<rparr>))"

definition latest_checkpoint :: "ledger_db \<Rightarrow> merkle_checkpoint option" where
  "latest_checkpoint db =
     (case rev (sort_key (\<lambda>c. sint (mc_up_to_sequence c)) (db_checkpoints db)) of
        [] \<Rightarrow> None | c # _ \<Rightarrow> Some c)"

record audit_report =
  ar_total_blocks :: u64
  ar_total_blobs :: nat
  ar_latest_sequence :: u64
  ar_latest_block_hash :: string
  ar_merkle_root :: string
  ar_checkpoint_verified :: bool
  ar_signature_verified :: bool
  ar_chain_valid :: bool
  ar_audit_timestamp_utc :: string
  ar_checkpoint_sequence :: "u64 option"
  ar_blocks_after_checkpoint :: u64

datatype audit_gap = NoCheckpoint | NotCovered u64 u64 | SignatureNotChecked

definition unchecked_gaps :: "audit_report \<Rightarrow> bool \<Rightarrow> audit_gap list" where
  "unchecked_gaps r key_given =
     (case ar_checkpoint_sequence r of
        None \<Rightarrow> [NoCheckpoint]
      | Some s \<Rightarrow>
          (if ar_blocks_after_checkpoint r > 0 then [NotCovered (ar_blocks_after_checkpoint r) s] else [])
          @ (if \<not> key_given then [SignatureNotChecked] else []))"

definition audit_genesis :: "crates \<Rightarrow> ledger_block \<Rightarrow> ledger_error + unit" where
  "audit_genesis X genesis =
     (if lb_sequence genesis \<noteq> 0 then Err (AuditGenesisSequence (lb_sequence genesis))
      else if lb_block_type genesis \<noteq> GenesisB then Err (AuditGenesisType (lb_block_type genesis))
      else if lb_prev_block_hash genesis \<noteq> GENESIS_PREV_HASH
        then Err (AuditGenesisPrev (lb_prev_block_hash genesis))
      else verify_integrity X genesis)"

text \<open>The loop over \<open>i in 1..blocks.len()\<close>, on the predecessor and the remaining blocks; it counts the
  blobs it verified.\<close>

fun audit_loop ::
    "crates \<Rightarrow> blob_store \<Rightarrow> nat \<Rightarrow> ledger_block \<Rightarrow> nat \<Rightarrow> ledger_block list \<Rightarrow> ledger_error + nat" where
  "audit_loop X store i prev blobs [] = Ok blobs"
| "audit_loop X store i prev blobs (b # bs) =
     (if lb_sequence b \<noteq> of_nat i then Err (AuditSequenceGap i (lb_sequence b))
      else if lb_prev_block_hash b \<noteq> lb_block_hash prev
        then Err (AuditBrokenLink (lb_sequence b) (lb_prev_block_hash b) (lb_block_hash prev))
      else case verify_integrity X b of
          Inl e \<Rightarrow> Err e
        | Inr _ \<Rightarrow>
            (case check_all (\<lambda>bh. if verify_blob X store bh then Ok () else Err (AuditBlob bh (lb_sequence b)))
                (lb_blob_hashes b) of
               Inl e \<Rightarrow> Err e
             | Inr _ \<Rightarrow> audit_loop X store (i + 1) b (blobs + length (lb_blob_hashes b)) bs))"

definition audit_checkpoint ::
    "crates \<Rightarrow> p256 \<Rightarrow> bytes option \<Rightarrow> string list \<Rightarrow> u64 \<Rightarrow> merkle_checkpoint option
      \<Rightarrow> ledger_error + bool \<times> bool \<times> u64 option \<times> u64" where
  "audit_checkpoint X P verifying_key leaves latest_sequence found =
     (case found of
        None \<Rightarrow> Ok (False, False, None, of_nat (length leaves))
      | Some c \<Rightarrow>
          if mc_up_to_sequence c > latest_sequence
            then Err (AuditCheckpointBeyond (mc_up_to_sequence c) latest_sequence)
          else
            let covered = take (unat (mc_up_to_sequence c) + 1) leaves in
            if mc_block_count c \<noteq> of_nat (length covered)
              then Err (AuditCheckpointCount (mc_block_count c) (length covered))
            else
              let covered_root = compute_merkle_root X covered in
              if mc_merkle_root c \<noteq> covered_root
                then Err (AuditCheckpointRoot (mc_merkle_root c) covered_root)
              else
                let after = latest_sequence - mc_up_to_sequence c in
                (case verifying_key of
                   None \<Rightarrow> Ok (True, False, Some (mc_up_to_sequence c), after)
                 | Some vk \<Rightarrow>
                     if verify_signature X P vk c then Ok (True, True, Some (mc_up_to_sequence c), after)
                     else Err AuditSignature))"

definition verify_chain_integrity ::
    "crates \<Rightarrow> p256 \<Rightarrow> (string \<Rightarrow> string list option) \<Rightarrow> string \<Rightarrow> bytes option
      \<Rightarrow> ledger_db \<Rightarrow> ledger_error + audit_report" where
  "verify_chain_integrity X P from_str now verifying_key db =
     (case all_blocks from_str db of
        [] \<Rightarrow> Err AuditEmpty
      | genesis # rest \<Rightarrow>
          and_then (audit_genesis X genesis) (\<lambda>_.
          and_then (audit_loop X (db_blobs db) 1 genesis 0 rest) (\<lambda>total_blobs.
          let leaves = map lb_block_hash (genesis # rest); latest = last (genesis # rest) in
          and_then (audit_checkpoint X P verifying_key leaves (lb_sequence latest) (latest_checkpoint db))
            (\<lambda>(ckpt, sig, ckpt_seq, after).
          Ok \<lparr>ar_total_blocks = of_nat (length leaves), ar_total_blobs = total_blobs,
              ar_latest_sequence = lb_sequence latest, ar_latest_block_hash = lb_block_hash latest,
              ar_merkle_root = compute_merkle_root X leaves, ar_checkpoint_verified = ckpt,
              ar_signature_verified = sig, ar_chain_valid = True, ar_audit_timestamp_utc = now,
              ar_checkpoint_sequence = ckpt_seq, ar_blocks_after_checkpoint = after\<rparr>))))"

end
