(* ===== verification/Ledger_Chain.thy ===== *)
theory Ledger_Chain
  imports Ledger
begin

text \<open>
  The guarantees of the improvement ledger (\<open>src/src/ledger/\<close>).  \<open>ledger_holds X db bs\<close> says that
  the tables of \<open>db\<close> hold exactly the hash-linked blocks \<open>bs\<close>, that every referenced blob is intact
  and that every stored checkpoint covers a prefix.  The operations keep it (the locale \<open>machine\<close>,
  interpreted on \<open>ledger_step\<close>), the audit of such a database succeeds with a known report, and
  the hashes commit: the latest block hash to the whole chain, a Merkle root to its leaves.
\<close>

section \<open>Blocks and rows\<close>

lemma parse_block_type_str [simp]: "parse_block_type (block_type_str t) = Ok t"
  by (cases t) (simp_all add: parse_block_type_def)

lemma parse_block_type_Ok: "parse_block_type s = Inr t \<longleftrightarrow> s = block_type_str t"
  by (cases t) (auto simp: parse_block_type_def)

definition integrity_ok :: "crates \<Rightarrow> ledger_block \<Rightarrow> bool" where
  "integrity_ok X b \<longleftrightarrow> lb_payload_digest b = compute_payload_digest X (lb_payload_json b)
     \<and> lb_block_hash b = compute_block_hash X (lb_sequence b) (lb_block_type b) (lb_timestamp_utc b)
         (lb_prev_block_hash b) (lb_payload_digest b) (lb_blob_hashes b)"

lemma verify_integrity_Ok [result_simps]: "verify_integrity X b = Inr u \<longleftrightarrow> integrity_ok X b"
  by (auto simp: verify_integrity_def integrity_ok_def Let_def)

lemma integrity_new_block: "integrity_ok X (new_block X s bt t p pl hs)"
  by (simp add: integrity_ok_def new_block_def Let_def)

text \<open>What the ledger relies on of \<open>serde_json\<close> for the list of blob hashes.\<close>

definition strings_ok :: "crates \<Rightarrow> (string \<Rightarrow> string list option) \<Rightarrow> bool" where
  "strings_ok X from_str \<longleftrightarrow> (\<forall>hs. from_str (blob_hashes_text X hs) = Some hs)"

lemma row_to_block_row_of [simp]: "strings_ok X from_str \<Longrightarrow> row_to_block from_str (block_row_of X b) = Ok b"
  by (simp add: row_to_block_def block_row_of_def strings_ok_def)

lemma read_row_row_of [simp]: "strings_ok X from_str \<Longrightarrow> read_row from_str (block_row_of X b) = b"
  by (simp add: read_row_def block_row_of_def strings_ok_def)

lemma row_of_simps [simp]:
  "row_sequence (block_row_of X b) = lb_sequence b" "row_block_hash (block_row_of X b) = lb_block_hash b"
  by (simp_all add: block_row_of_def)

section \<open>The audit of a chain\<close>

definition linked :: "crates \<Rightarrow> blob_store \<Rightarrow> ledger_block \<Rightarrow> ledger_block \<Rightarrow> bool" where
  "linked X store prev b \<longleftrightarrow> lb_prev_block_hash b = lb_block_hash prev \<and> integrity_ok X b
     \<and> list_all (verify_blob X store) (lb_blob_hashes b)"

lemma check_blobs_Ok:
  "check_all (\<lambda>bh. if verify_blob X store bh then Ok () else Err (e bh)) hs = Inr u \<longleftrightarrow>
     list_all (verify_blob X store) hs"
  by (auto simp: check_all_Ok list_all_iff)

lemma audit_loop_Ok:
  "audit_loop X store i prev tot bs = Inr n \<longleftrightarrow>
     (\<forall>k < length bs. lb_sequence (bs ! k) = of_nat (i + k) \<and> linked X store ((prev # bs) ! k) (bs ! k))
     \<and> n = tot + sum_list (map (length \<circ> lb_blob_hashes) bs)"
proof (induction bs arbitrary: i prev tot)
  case Nil
  show ?case by auto
next
  case (Cons b bs)
  have "audit_loop X store i prev tot (b # bs) = Inr n \<longleftrightarrow>
      lb_sequence b = of_nat i \<and> linked X store prev b
      \<and> audit_loop X store (i + 1) b (tot + length (lb_blob_hashes b)) bs = Inr n"
    using verify_integrity_Ok [of X b "()"]
      check_blobs_Ok [of X store "\<lambda>bh. AuditBlob bh (lb_sequence b)" "lb_blob_hashes b" "()"]
    by (cases "verify_integrity X b";
        cases "check_all (\<lambda>bh. if verify_blob X store bh then Ok () else Err (AuditBlob bh (lb_sequence b))) (lb_blob_hashes b)")
       (auto simp: linked_def)
  then show ?case
    by (auto simp: Cons.IH less_Suc_eq_0_disj simp del: audit_loop.simps)
qed

definition chain_ok :: "crates \<Rightarrow> blob_store \<Rightarrow> ledger_block list \<Rightarrow> bool" where
  "chain_ok X store bs \<longleftrightarrow> bs \<noteq> [] \<and> lb_block_type (hd bs) = GenesisB
     \<and> lb_prev_block_hash (hd bs) = GENESIS_PREV_HASH \<and> integrity_ok X (hd bs)
     \<and> (\<forall>i < length bs. lb_sequence (bs ! i) = of_nat i)
     \<and> (\<forall>i. Suc i < length bs \<longrightarrow> linked X store (bs ! i) (bs ! Suc i))"

lemma chain_ok_Cons:
  "chain_ok X store (g # bs) \<longleftrightarrow> audit_genesis X g = Ok () \<and> is_ok (audit_loop X store 1 g 0 bs)"
proof -
  have g: "audit_genesis X g = Ok () \<longleftrightarrow> lb_sequence g = 0 \<and> lb_block_type g = GenesisB
      \<and> lb_prev_block_hash g = GENESIS_PREV_HASH \<and> integrity_ok X g"
    by (auto simp: audit_genesis_def verify_integrity_Ok)
  show ?thesis
    unfolding chain_ok_def g is_ok_iff audit_loop_Ok
    by (auto simp: less_Suc_eq_0_disj)
qed

lemma chain_ok_snoc:
  assumes "chain_ok X store bs" and "lb_sequence b = of_nat (length bs)" and "linked X store (last bs) b"
  shows "chain_ok X store (bs @ [b])"
  using assms unfolding chain_ok_def
  by (auto simp: nth_append last_conv_nth less_Suc_eq) (metis One_nat_def diff_Suc_1)

lemma chain_ok_store:
  assumes "chain_ok X store bs" and "\<And>d. verify_blob X store d \<Longrightarrow> verify_blob X store' d"
  shows "chain_ok X store' bs"
  using assms unfolding chain_ok_def linked_def by (auto simp: list_all_iff)

section \<open>Blobs\<close>

definition store_ok :: "crates \<Rightarrow> blob_store \<Rightarrow> bool" where
  "store_ok X store \<longleftrightarrow> (\<forall>d data. store d = Some data \<longrightarrow> hex_encode X (sha256 X data) = d)"

lemma get_blob_Ok: "get_blob X store d = Inr data \<longleftrightarrow> store d = Some data \<and> hex_encode X (sha256 X data) = d"
  by (auto simp: get_blob_def Let_def split: option.splits)

lemma verify_blob_iff: "verify_blob X store d \<longleftrightarrow> (\<exists>data. store d = Some data \<and> hex_encode X (sha256 X data) = d)"
  by (auto simp: verify_blob_def is_ok_iff get_blob_Ok)

lemma put_blob_ok:
  assumes "store_ok X store" and "put_blob X data store = (d, store')"
  shows "store_ok X store' \<and> verify_blob X store' d \<and> store \<subseteq>\<^sub>m store' \<and> d = hex_encode X (sha256 X data)"
  using assms by (auto simp: put_blob_def store_ok_def verify_blob_iff map_le_def Let_def split: if_splits)

lemma verify_blob_mono: "store \<subseteq>\<^sub>m store' \<Longrightarrow> verify_blob X store d \<Longrightarrow> verify_blob X store' d"
  unfolding verify_blob_iff by (metis domI map_le_def)

section \<open>The database invariant\<close>

definition max_blocks :: nat where "max_blocks = 2 ^ 63"

text \<open>A stored checkpoint covers a prefix of the chain.\<close>

definition covers :: "crates \<Rightarrow> ledger_block list \<Rightarrow> merkle_checkpoint \<Rightarrow> bool" where
  "covers X bs c \<longleftrightarrow> unat (mc_up_to_sequence c) < length bs
     \<and> unat (mc_block_count c) = unat (mc_up_to_sequence c) + 1
     \<and> mc_merkle_root c = compute_merkle_root X (take (unat (mc_up_to_sequence c) + 1) (map lb_block_hash bs))"

definition ledger_holds :: "crates \<Rightarrow> ledger_db \<Rightarrow> ledger_block list \<Rightarrow> bool" where
  "ledger_holds X db bs \<longleftrightarrow> db_blocks db = map (block_row_of X) bs \<and> chain_ok X (db_blobs db) bs
     \<and> store_ok X (db_blobs db) \<and> length bs \<le> max_blocks \<and> list_all (covers X bs) (db_checkpoints db)"

lemma sint_of_nat_small: "k < 2 ^ 63 \<Longrightarrow> sint (of_nat k :: u64) = int k"
  by (subst signed_of_nat) (simp add: signed_take_bit_int_eq_self)

lemma unat_of_nat_small: "k < 2 ^ 63 \<Longrightarrow> unat (of_nat k :: u64) = k"
  by (simp add: unat_of_nat)

lemma sequence_nth:
  "chain_ok X store bs \<Longrightarrow> i < length bs \<Longrightarrow> lb_sequence (bs ! i) = of_nat i"
  by (simp add: chain_ok_def)

lemma rows_sorted:
  assumes "ledger_holds X db bs"
  shows "rows_by_sequence db = map (block_row_of X) bs"
proof -
  have "sorted (map (\<lambda>r. sint (row_sequence r)) (map (block_row_of X) bs))"
    unfolding sorted_iff_nth_mono
  proof (intro allI impI)
    fix i j assume "i \<le> j" "j < length (map (\<lambda>r. sint (row_sequence r)) (map (block_row_of X) bs))"
    moreover from this assms have "i < 2 ^ 63" "j < 2 ^ 63" by (auto simp: ledger_holds_def max_blocks_def)
    ultimately show "map (\<lambda>r. sint (row_sequence r)) (map (block_row_of X) bs) ! i \<le>
        map (\<lambda>r. sint (row_sequence r)) (map (block_row_of X) bs) ! j"
      using assms sequence_nth [of X "db_blobs db" bs i] sequence_nth [of X "db_blobs db" bs j]
        sint_of_nat_small [of i] sint_of_nat_small [of j] by (simp add: ledger_holds_def)
  qed
  then show ?thesis
    using assms by (simp add: rows_by_sequence_def ledger_holds_def sort_key_id_if_sorted)
qed

lemma ledger_all_blocks:
  assumes "ledger_holds X db bs" and "strings_ok X from_str"
  shows "all_blocks from_str db = bs"
  using assms by (simp add: all_blocks_def rows_sorted map_idI)

lemma ledger_latest_block:
  assumes "ledger_holds X db bs" and "strings_ok X from_str"
  shows "latest_block from_str db = Ok (Some (last bs))"
proof -
  from assms(1) have "bs \<noteq> []" by (simp add: ledger_holds_def chain_ok_def)
  then have "rev (map (block_row_of X) bs) = block_row_of X (last bs) # rev (map (block_row_of X) (butlast bs))"
    by (cases bs rule: rev_cases) simp_all
  with assms show ?thesis by (simp add: latest_block_def rows_sorted)
qed

lemma last_sequence:
  "chain_ok X store bs \<Longrightarrow> lb_sequence (last bs) = of_nat (length bs - 1)"
  using sequence_nth [of X store bs "length bs - 1"]
  by (cases "bs = []") (simp_all add: last_conv_nth chain_ok_def)

lemma append_block_holds:
  assumes holds: "ledger_holds X db bs" and "strings_ok X from_str" and "length bs < max_blocks"
    and blobs: "list_all (verify_blob X (db_blobs db)) hs"
    and app: "append_block X from_str now bt payload hs db = Ok (b, db')"
  shows "ledger_holds X db' (bs @ [b]) \<and> b = new_block X (of_nat (length bs)) bt now (lb_block_hash (last bs)) payload hs
     \<and> db_checkpoints db' = db_checkpoints db \<and> db_blobs db' = db_blobs db"
proof -
  have chain: "chain_ok X (db_blobs db) bs" and rows: "db_blocks db = map (block_row_of X) bs"
    using holds by (simp_all add: ledger_holds_def)
  then have ne: "bs \<noteq> []" by (simp add: chain_ok_def)
  have "lb_sequence (last bs) + 1 = of_nat (length bs)"
    using last_sequence [OF chain] ne by (cases bs) simp_all
  then have b: "b = new_block X (of_nat (length bs)) bt now (lb_block_hash (last bs)) payload hs"
    and db': "db' = db\<lparr>db_blocks := db_blocks db @ [block_row_of X b]\<rparr>"
    using app ledger_latest_block [OF holds assms(2)]
    by (auto simp: append_block_def insert_block_def Let_def and_then_Ok split: if_splits)
  have "chain_ok X (db_blobs db) (bs @ [b])"
  proof (rule chain_ok_snoc [OF chain])
    show "lb_sequence b = of_nat (length bs)" by (simp add: b new_block_def Let_def)
    show "linked X (db_blobs db) (last bs) b"
      using integrity_new_block blobs by (simp add: linked_def b) (simp add: new_block_def Let_def)
  qed
  moreover have "list_all (covers X (bs @ [b])) (db_checkpoints db)"
    using holds by (auto simp: ledger_holds_def covers_def list_all_iff)
  ultimately show ?thesis using holds rows assms(3) b db' by (simp add: ledger_holds_def)
qed

lemma append_evaluation_holds:
  assumes holds: "ledger_holds X db bs" and "strings_ok X from_str" and "length bs < max_blocks"
    and app: "append_evaluation X from_str now receipt raw db = (res, db')"
  shows "\<exists>ext. ledger_holds X db' (bs @ ext)"
proof -
  obtain hs db1 where hs: "(case raw of None \<Rightarrow> ([], db)
         | Some data \<Rightarrow>
             let (digest, store) = put_blob X data (db_blobs db);
                 index = (if digest \<in> fst ` set (db_blobs_index db) then db_blobs_index db
                          else db_blobs_index db @ [(digest, of_nat (length data), now)])
             in ([digest], db\<lparr>db_blobs := store, db_blobs_index := index\<rparr>)) = (hs, db1)"
    by fastforce
  have db1: "ledger_holds X db1 bs \<and> list_all (verify_blob X (db_blobs db1)) hs"
  proof (cases raw)
    case None
    with hs holds show ?thesis by simp
  next
    case (Some data)
    obtain d store where put: "put_blob X data (db_blobs db) = (d, store)" by fastforce
    from holds have "store_ok X (db_blobs db)" by (simp add: ledger_holds_def)
    note ok = put_blob_ok [OF this put]
    then have "chain_ok X store bs"
      using holds chain_ok_store [of X "db_blobs db" bs store] verify_blob_mono [of "db_blobs db" store X]
      by (simp add: ledger_holds_def)
    with Some put hs ok holds show ?thesis by (auto simp: ledger_holds_def Let_def)
  qed
  show ?thesis
  proof (cases "append_block X from_str now EvaluationB receipt hs db1")
    case (Inl e)
    with app hs have "db' = db1" by (simp add: append_evaluation_def)
    with db1 show ?thesis by (intro exI [of _ "[]"]) simp
  next
    case (Inr p)
    obtain b db2 where p: "p = (b, db2)" by (cases p)
    with Inr app hs have "db' = db2" by (simp add: append_evaluation_def)
    with append_block_holds [of X db1 bs from_str hs now EvaluationB receipt b db2] assms(2,3) db1 Inr p
    show ?thesis by blast
  qed
qed

lemma open_ledger_fresh:
  assumes "open_ledger X from_str now db = Ok db'" and "db_blocks db = []" and "db_checkpoints db = []"
    and "store_ok X (db_blobs db)"
  shows "ledger_holds X db' [new_block X 0 GenesisB now GENESIS_PREV_HASH (genesis_payload X) []]"
proof -
  let ?g = "new_block X 0 GenesisB now GENESIS_PREV_HASH (genesis_payload X) []"
  have "latest_block from_str db = Ok None" using assms(2) by (simp add: latest_block_def rows_by_sequence_def)
  with assms(1,2) have "db' = db\<lparr>db_blocks := [block_row_of X ?g]\<rparr>"
    by (auto simp: open_ledger_def init_genesis_def insert_block_def Let_def)
  moreover have "chain_ok X (db_blobs db) [?g]"
    using integrity_new_block by (auto simp: chain_ok_def) (simp_all add: new_block_def Let_def)
  ultimately show ?thesis using assms(3,4) by (simp add: ledger_holds_def max_blocks_def)
qed

section \<open>Checkpoints\<close>

lemma sort_key_snoc_max: "\<forall>x \<in> set xs. f x \<le> f c \<Longrightarrow> sort_key f (xs @ [c]) = sort_key f xs @ [c]"
proof (induction xs)
  case Nil
  show ?case by simp
next
  case (Cons x xs)
  have "insort_key f x (ys @ [c]) = insort_key f x ys @ [c]" for ys
    using Cons.prems by (induction ys) auto
  with Cons show ?case by simp
qed

lemma latest_checkpoint_in: "latest_checkpoint db = Some c \<Longrightarrow> c \<in> set (db_checkpoints db)"
proof -
  assume "latest_checkpoint db = Some c"
  then obtain cs where "rev (sort_key (\<lambda>c. sint (mc_up_to_sequence c)) (db_checkpoints db)) = c # cs"
    unfolding latest_checkpoint_def by (cases "rev (sort_key (\<lambda>c. sint (mc_up_to_sequence c)) (db_checkpoints db))") simp_all
  from arg_cong [OF this, of set] show ?thesis by auto
qed

lemma checkpoint_holds:
  assumes holds: "ledger_holds X db bs" and str: "strings_ok X from_str"
    and ck: "checkpoint X P from_str now key db = Ok (c, db')"
  shows "ledger_holds X db' bs" and "covers X bs c" and "mc_up_to_sequence c = of_nat (length bs - 1)"
    and "latest_checkpoint db' = Some c"
    and "key = Some sk \<Longrightarrow> c = sign_checkpoint X P sk (c\<lparr>mc_signature := None\<rparr>)"
proof -
  have chain: "chain_ok X (db_blobs db) bs" and len: "length bs \<le> 2 ^ 63"
    using holds by (simp_all add: ledger_holds_def max_blocks_def)
  then have ne: "bs \<noteq> []" by (simp add: chain_ok_def)
  let ?c = "new_checkpoint (lb_sequence (last bs)) (compute_merkle_root X (map lb_block_hash bs)) (of_nat (length bs)) now"
  let ?d = "case key of None \<Rightarrow> ?c | Some k \<Rightarrow> sign_checkpoint X P k ?c"
  from ck have c: "c = ?d" and db': "db' = db\<lparr>db_checkpoints :=
      filter (\<lambda>d. mc_up_to_sequence d \<noteq> mc_up_to_sequence c) (db_checkpoints db) @ [c]\<rparr>"
    using ledger_all_blocks [OF holds str] ne by (auto simp: checkpoint_def Let_def)
  have u: "unat (of_nat (length bs - 1) :: u64) = length bs - 1" "unat (of_nat (length bs) :: u64) = length bs"
    using len by (simp_all add: unat_of_nat)
  have fields: "mc_up_to_sequence c = of_nat (length bs - 1)" "mc_block_count c = of_nat (length bs)"
    "mc_merkle_root c = compute_merkle_root X (map lb_block_hash bs)"
    using last_sequence [OF chain]
    by (auto simp: c new_checkpoint_def sign_checkpoint_def split: option.splits)
  have "length bs - 1 + 1 = length bs" using ne by (cases bs) simp_all
  with fields u ne show cov: "covers X bs c" by (simp add: covers_def)
  show "mc_up_to_sequence c = of_nat (length bs - 1)" by (rule fields(1))
  have all: "list_all (covers X bs) (db_checkpoints db)" using holds by (simp add: ledger_holds_def)
  then show "ledger_holds X db' bs"
    using holds cov by (auto simp: ledger_holds_def db' list_all_iff)
  have "sint (mc_up_to_sequence d) \<le> sint (mc_up_to_sequence c)" if "d \<in> set (db_checkpoints db)" for d
  proof -
    from all that have d: "unat (mc_up_to_sequence d) < length bs" by (simp add: list_all_iff covers_def)
    then have "sint (of_nat (unat (mc_up_to_sequence d)) :: u64) = int (unat (mc_up_to_sequence d))"
      using len by (intro sint_of_nat_small) simp
    moreover have "sint (mc_up_to_sequence c) = int (length bs - 1)"
      unfolding fields(1) using len ne by (intro sint_of_nat_small) (cases bs; simp)
    moreover from d have "int (unat (mc_up_to_sequence d)) < int (length bs)" by (simp only: of_nat_less_iff)
    ultimately show ?thesis by simp
  qed
  then show "latest_checkpoint db' = Some c"
    by (simp add: latest_checkpoint_def db' sort_key_snoc_max)
  show "c = sign_checkpoint X P sk (c\<lparr>mc_signature := None\<rparr>)" if "key = Some sk"
    using that by (simp add: c sign_checkpoint_def new_checkpoint_def)
qed

section \<open>The audit of a ledger built by the API succeeds\<close>

definition clean_report :: "crates \<Rightarrow> string \<Rightarrow> bool \<Rightarrow> merkle_checkpoint option \<Rightarrow> ledger_block list \<Rightarrow> audit_report" where
  "clean_report X now key_given found bs =
     \<lparr>ar_total_blocks = of_nat (length bs), ar_total_blobs = sum_list (map (length \<circ> lb_blob_hashes) (tl bs)),
      ar_latest_sequence = of_nat (length bs - 1), ar_latest_block_hash = lb_block_hash (last bs),
      ar_merkle_root = compute_merkle_root X (map lb_block_hash bs),
      ar_checkpoint_verified = (found \<noteq> None), ar_signature_verified = (found \<noteq> None \<and> key_given),
      ar_chain_valid = True, ar_audit_timestamp_utc = now,
      ar_checkpoint_sequence = map_option mc_up_to_sequence found,
      ar_blocks_after_checkpoint =
        (case found of None \<Rightarrow> of_nat (length bs) | Some c \<Rightarrow> of_nat (length bs - 1) - mc_up_to_sequence c)\<rparr>"

lemma audit_checkpoint_covers:
  assumes "covers X bs c" and "length bs \<le> 2 ^ 63" and "\<And>vk. key = Some vk \<Longrightarrow> verify_signature X P vk c"
  shows "audit_checkpoint X P key (map lb_block_hash bs) (of_nat (length bs - 1)) (Some c) =
     Ok (True, key \<noteq> None, Some (mc_up_to_sequence c), of_nat (length bs - 1) - mc_up_to_sequence c)"
proof -
  have len: "unat (mc_up_to_sequence c) < length bs" using assms(1) by (simp add: covers_def)
  then have "unat (of_nat (length bs - 1) :: u64) = length bs - 1"
    using assms(2) by (intro unat_of_nat_small) linarith
  with len have le: "\<not> mc_up_to_sequence c > of_nat (length bs - 1)" by (simp add: word_less_nat_alt)
  have take: "length (take (unat (mc_up_to_sequence c) + 1) (map lb_block_hash bs)) = unat (mc_block_count c)"
    using assms(1) by (auto simp: covers_def)
  have root: "mc_merkle_root c = compute_merkle_root X (take (unat (mc_up_to_sequence c) + 1) (map lb_block_hash bs))"
    using assms(1) by (simp add: covers_def)
  show ?thesis
    using le take root assms(3)
    by (auto simp: audit_checkpoint_def Let_def simp del: length_take length_map split: option.splits)
qed

lemma audit_clean:
  assumes holds: "ledger_holds X db bs" and str: "strings_ok X from_str"
    and sig: "\<And>c vk. latest_checkpoint db = Some c \<Longrightarrow> key = Some vk \<Longrightarrow> verify_signature X P vk c"
  shows "verify_chain_integrity X P from_str now key db =
     Ok (clean_report X now (key \<noteq> None) (latest_checkpoint db) bs)"
proof -
  have chain: "chain_ok X (db_blobs db) bs" and len: "length bs \<le> 2 ^ 63"
    and cov: "list_all (covers X bs) (db_checkpoints db)"
    using holds by (simp_all add: ledger_holds_def max_blocks_def)
  then obtain g rest where bs: "bs = g # rest" by (cases bs) (auto simp: chain_ok_def)
  with chain have "audit_genesis X g = Ok ()" "is_ok (audit_loop X (db_blobs db) 1 g 0 rest)"
    by (simp_all add: chain_ok_Cons)
  then have loop: "audit_loop X (db_blobs db) 1 g 0 rest = Ok (sum_list (map (length \<circ> lb_blob_hashes) rest))"
    and gen: "audit_genesis X g = Ok ()"
    by (auto simp: is_ok_iff audit_loop_Ok)
  have seq: "lb_sequence (last (g # rest)) = of_nat (length bs - 1)"
    using last_sequence [OF chain] bs by simp
  show ?thesis
  proof (cases "latest_checkpoint db")
    case None
    then show ?thesis
      using ledger_all_blocks [OF holds str] gen loop seq bs
      by (simp add: verify_chain_integrity_def Let_def audit_checkpoint_def clean_report_def)
  next
    case (Some c)
    with cov latest_checkpoint_in have "covers X bs c" by (auto simp: list_all_iff)
    from audit_checkpoint_covers [OF this len, of key P] sig Some
    have "audit_checkpoint X P key (map lb_block_hash (g # rest)) (of_nat (length bs - 1)) (Some c) =
       Ok (True, key \<noteq> None, Some (mc_up_to_sequence c), of_nat (length bs - 1) - mc_up_to_sequence c)"
      using bs by blast
    then show ?thesis
      using ledger_all_blocks [OF holds str] gen loop seq bs Some
      by (simp add: verify_chain_integrity_def Let_def clean_report_def)
  qed
qed

section \<open>The ledger as a state machine\<close>

definition ledger_init :: "crates \<Rightarrow> (string \<Rightarrow> string list option) \<Rightarrow> ledger_db \<Rightarrow> bool" where
  "ledger_init X from_str db \<longleftrightarrow> (\<exists>now. open_ledger X from_str now
     \<lparr>db_blocks = [], db_checkpoints = [], db_blobs_index = [], db_blobs = Map.empty\<rparr> = Ok db)"

inductive ledger_step :: "crates \<Rightarrow> p256 \<Rightarrow> (string \<Rightarrow> string list option) \<Rightarrow> ledger_db \<Rightarrow> ledger_db \<Rightarrow> bool"
  for X P from_str where
  evaluation: "append_evaluation X from_str now receipt raw db = (res, db') \<Longrightarrow>
     length (db_blocks db) < max_blocks \<Longrightarrow> ledger_step X P from_str db db'"
| promotion: "append_promotion X from_str now g receipt db = Inr (b, db') \<Longrightarrow>
     length (db_blocks db) < max_blocks \<Longrightarrow> ledger_step X P from_str db db'"
| rollback: "append_rollback X from_str now gen reason db = Inr (b, db') \<Longrightarrow>
     length (db_blocks db) < max_blocks \<Longrightarrow> ledger_step X P from_str db db'"
| evidence: "append_promotion_evidence X from_str now ev db = Inr (b, db') \<Longrightarrow>
     length (db_blocks db) < max_blocks \<Longrightarrow> ledger_step X P from_str db db'"
| checkpointed: "checkpoint X P from_str now key db = Inr (c, db') \<Longrightarrow> ledger_step X P from_str db db'"
| reopened: "open_ledger X from_str now db = Inr db' \<Longrightarrow> ledger_step X P from_str db db'"

lemma holds_length: "ledger_holds X db bs \<Longrightarrow> length (db_blocks db) = length bs"
  by (simp add: ledger_holds_def)

lemma ledger_step_holds:
  assumes "strings_ok X from_str" and "ledger_holds X db bs" and "ledger_step X P from_str db db'"
  shows "\<exists>ext. ledger_holds X db' (bs @ ext)"
  using assms(3)
proof cases
  case (evaluation now receipt raw res)
  with append_evaluation_holds [OF assms(2,1)] holds_length [OF assms(2)] show ?thesis by metis
next
  case (promotion now g receipt b)
  with append_block_holds [OF assms(2,1) _ _ this(1) [unfolded append_promotion_def]] holds_length [OF assms(2)] show ?thesis
    by auto
next
  case (rollback now gen reason b)
  with append_block_holds [OF assms(2,1) _ _ this(1) [unfolded append_rollback_def]] holds_length [OF assms(2)] show ?thesis
    by auto
next
  case (evidence now ev b)
  with append_block_holds [OF assms(2,1) _ _ this(1) [unfolded append_promotion_evidence_def]] holds_length [OF assms(2)] show ?thesis
    by auto
next
  case (checkpointed now key c)
  with checkpoint_holds(1) [OF assms(2,1)] show ?thesis by (metis append_Nil2)
next
  case (reopened now)
  with ledger_latest_block [OF assms(2,1)] assms(2) show ?thesis
    by (intro exI [of _ "[]"]) (simp add: open_ledger_def)
qed

interpretation ledger: machine "ledger_init X from_str" "ledger_step X P from_str"
  "\<lambda>db. strings_ok X from_str \<longrightarrow> (\<exists>bs. ledger_holds X db bs)" for X P from_str
proof unfold_locales
  fix db assume "ledger_init X from_str db"
  then show "strings_ok X from_str \<longrightarrow> (\<exists>bs. ledger_holds X db bs)"
    using open_ledger_fresh [of X from_str] by (fastforce simp: ledger_init_def store_ok_def)
next
  fix db db' assume "strings_ok X from_str \<longrightarrow> (\<exists>bs. ledger_holds X db bs)" "ledger_step X P from_str db db'"
  then show "strings_ok X from_str \<longrightarrow> (\<exists>bs. ledger_holds X db' bs)" using ledger_step_holds by blast
qed

section \<open>What a block hash commits to\<close>

text \<open>The preimage of a block hash is not framed; it is unambiguous for blocks with timestamps as
  \<open>to_rfc3339\<close> writes them for UTC and hexadecimal digests.\<close>

definition stamped :: "ledger_block \<Rightarrow> bool" where
  "stamped b \<longleftrightarrow> (\<exists>d m. lb_timestamp_utc b = d # m @ ''+00:00'' \<and> d \<in> decimal)"

definition preimage_of :: "ledger_block \<Rightarrow> bytes" where
  "preimage_of b = block_preimage (lb_sequence b) (lb_block_type b) (lb_timestamp_utc b)
     (lb_prev_block_hash b) (lb_payload_digest b) (lb_blob_hashes b)"

definition digests_ok :: "ledger_block \<Rightarrow> bool" where
  "digests_ok b \<longleftrightarrow> list_all (\<lambda>h. length h = 64 \<and> CHR '':'' \<notin> set h)
     (lb_prev_block_hash b # lb_payload_digest b # lb_blob_hashes b)"

lemma last_separator_unique:
  assumes "x @ c # y = x' @ c # y'" and "c \<notin> set y" and "c \<notin> set y'"
  shows "x = x' \<and> y = y'"
proof -
  have tw: "takeWhile (\<lambda>z. z \<noteq> c) (rev (u @ c # v)) = rev v" if "c \<notin> set v" for u v
  proof -
    have "takeWhile (\<lambda>z. z \<noteq> c) (rev v @ c # rev u) = rev v @ takeWhile (\<lambda>z. z \<noteq> c) (c # rev u)"
      by (rule takeWhile_append2) (use that in auto)
    then show ?thesis by simp
  qed
  from tw [OF assms(2), of x] tw [OF assms(3), of x'] assms(1) have "rev y = rev y'" by simp
  with assms(1) show ?thesis by simp
qed

lemma concat_fixed_width:
  assumes "list_all (\<lambda>h. length h = n) xs" and "list_all (\<lambda>h. length h = n) ys" and "0 < n"
    and "concat xs = concat ys"
  shows "xs = ys"
  using assms
proof (induction xs arbitrary: ys)
  case Nil
  then show ?case by (cases ys) auto
next
  case (Cons x xs)
  then obtain y ys' where ys: "ys = y # ys'" by (cases ys) auto
  with Cons.prems have "length x = length y" and eq: "x @ concat xs = y @ concat ys'" by simp_all
  then have "x = y" "concat xs = concat ys'" by simp_all
  with Cons.IH [of ys'] Cons.prems ys show ?case by simp
qed

lemma type_then_digit:
  assumes "block_type_str t @ d # u = block_type_str t' @ d' # u'" and "d \<in> decimal" and "d' \<in> decimal"
  shows "t = t' \<and> d = d' \<and> u = u'"
proof -
  have "takeWhile (\<lambda>c. c \<notin> decimal) (block_type_str s @ e # v) = block_type_str s" if "e \<in> decimal" for s e v
  proof -
    have "\<forall>c \<in> set (block_type_str s). c \<notin> decimal" by (cases s) (simp_all add: decimal_def)
    with that show ?thesis by (simp add: takeWhile_append)
  qed
  from this [OF assms(2), of t u] this [OF assms(3), of t' u'] assms(1)
  have "block_type_str t = block_type_str t'" by simp
  moreover from this have "t = t'" by (metis parse_block_type_str sum.inject(2))
  ultimately show ?thesis using assms(1) by simp
qed

lemma preimage_unique:
  assumes "preimage_of a = preimage_of b" and "stamped a" "stamped b" and "digests_ok a" "digests_ok b"
  shows "lb_sequence a = lb_sequence b \<and> lb_block_type a = lb_block_type b \<and> lb_timestamp_utc a = lb_timestamp_utc b
     \<and> lb_prev_block_hash a = lb_prev_block_hash b \<and> lb_payload_digest a = lb_payload_digest b
     \<and> lb_blob_hashes a = lb_blob_hashes b"
proof -
  let ?hs = "\<lambda>b. lb_prev_block_hash b # lb_payload_digest b # lb_blob_hashes b"
  obtain d m where a: "lb_timestamp_utc a = d # m @ ''+00:00''" "d \<in> decimal" using assms(2) by (auto simp: stamped_def)
  obtain e n where b: "lb_timestamp_utc b = e # n @ ''+00:00''" "e \<in> decimal" using assms(3) by (auto simp: stamped_def)
  from assms(1) have seq: "lb_sequence a = lb_sequence b"
    and rest: "(block_type_str (lb_block_type a) @ d # m @ ''+00'') @ CHR '':'' # (''00'' @ concat (?hs a)) =
      (block_type_str (lb_block_type b) @ e # n @ ''+00'') @ CHR '':'' # (''00'' @ concat (?hs b))"
    by (simp_all add: preimage_of_def block_preimage_def a(1) b(1))
  have "CHR '':'' \<notin> set (''00'' @ concat (?hs a))" "CHR '':'' \<notin> set (''00'' @ concat (?hs b))"
    using assms(4,5) by (auto simp: digests_ok_def list_all_iff)
  from last_separator_unique [OF rest this]
  have head: "block_type_str (lb_block_type a) @ d # m @ ''+00'' = block_type_str (lb_block_type b) @ e # n @ ''+00''"
    and tail: "concat (?hs a) = concat (?hs b)" by simp_all
  have "?hs a = ?hs b"
    by (rule concat_fixed_width [of 64]) (use assms(4,5) tail in \<open>auto simp: digests_ok_def list_all_iff\<close>)
  with seq type_then_digit [OF head a(2) b(2)] a b show ?thesis by simp
qed

lemma hex_hash_shape: "hex_ok X \<Longrightarrow> sha_ok X \<Longrightarrow> length (hex_encode X (sha256 X p)) = 64 \<and> CHR '':'' \<notin> set (hex_encode X (sha256 X p))"
proof -
  assume "hex_ok X" "sha_ok X"
  then have "length (hex_encode X (sha256 X p)) = 64" "set (hex_encode X (sha256 X p)) \<subseteq> hex_digits"
    by (simp_all add: hex_ok_def sha_ok_def)
  moreover have "CHR '':'' \<notin> hex_digits" by (simp add: hex_digits_def)
  ultimately show ?thesis by blast
qed

lemma chain_digests_ok:
  assumes "hex_ok X" "sha_ok X" and "chain_ok X store bs" and "lb_blob_hashes (hd bs) = []" and "b \<in> set bs"
  shows "digests_ok b"
proof -
  from assms(5) obtain i where i: "i < length bs" "b = bs ! i" by (metis in_set_conv_nth)
  have integ: "integrity_ok X (bs ! j)" if "j < length bs" for j
    using assms(3) that by (cases j) (auto simp: chain_ok_def linked_def hd_conv_nth)
  have hashes: "lb_block_hash (bs ! j) = hex_encode X (sha256 X (preimage_of (bs ! j)))" if "j < length bs" for j
    using integ [OF that] by (simp add: integrity_ok_def compute_block_hash_def preimage_of_def)
  have pd: "lb_payload_digest b = hex_encode X (sha256 X (lb_payload_json b))"
    using integ [OF i(1)] i(2) by (simp add: integrity_ok_def compute_payload_digest_def)
  note shape = hex_hash_shape [OF assms(1,2)]
  show ?thesis
  proof (cases i)
    case 0
    with i have "b = hd bs" by (metis hd_conv_nth length_greater_0_conv)
    then have "lb_prev_block_hash b = GENESIS_PREV_HASH" "lb_blob_hashes b = []"
      using assms(3,4) by (simp_all add: chain_ok_def)
    with pd shape show ?thesis by (simp add: digests_ok_def GENESIS_PREV_HASH_def)
  next
    case (Suc j)
    with i assms(3) have "linked X store (bs ! j) b" by (auto simp: chain_ok_def)
    then have "lb_prev_block_hash b = lb_block_hash (bs ! j)" "list_all (verify_blob X store) (lb_blob_hashes b)"
      by (simp_all add: linked_def)
    moreover have "length h = 64 \<and> CHR '':'' \<notin> set h" if "verify_blob X store h" for h
      using that shape unfolding verify_blob_iff by metis
    ultimately show ?thesis using pd shape hashes [of j] Suc i by (auto simp: digests_ok_def list_all_iff)
  qed
qed

definition block_collision :: "crates \<Rightarrow> ledger_block list \<Rightarrow> ledger_block list \<Rightarrow> bool" where
  "block_collision X bs cs \<longleftrightarrow> (\<exists>b \<in> set bs. \<exists>c \<in> set cs.
     sha_collision X (preimage_of b) (preimage_of c) \<or> sha_collision X (lb_payload_json b) (lb_payload_json c))"

lemma block_hash_binds:
  assumes "hex_ok X" and "integrity_ok X a" "integrity_ok X b" and "stamped a" "stamped b"
    and "digests_ok a" "digests_ok b" and "lb_block_hash a = lb_block_hash b"
  shows "a = b \<or> sha_collision X (preimage_of a) (preimage_of b) \<or> sha_collision X (lb_payload_json a) (lb_payload_json b)"
proof -
  have inj: "x = y" if "hex_encode X x = hex_encode X y" for x y
    using that assms(1) by (metis hex_ok_def option.inject)
  have "sha256 X (preimage_of a) = sha256 X (preimage_of b)"
    using assms(2,3,8) inj by (simp add: integrity_ok_def compute_block_hash_def preimage_of_def)
  then have "preimage_of a = preimage_of b \<or> sha_collision X (preimage_of a) (preimage_of b)"
    by (auto simp: sha_collision_def)
  moreover have "lb_payload_json a = lb_payload_json b \<or> sha_collision X (lb_payload_json a) (lb_payload_json b)"
    if "lb_payload_digest a = lb_payload_digest b"
    using that assms(2,3) inj by (auto simp: integrity_ok_def compute_payload_digest_def sha_collision_def)
  ultimately show ?thesis
    using preimage_unique [OF _ assms(4-7)] assms(8) by (metis ledger_block.equality old.unit.exhaust)
qed

lemma chain_binds:
  assumes "hex_ok X" and "sha_ok X" and "chain_ok X st bs" and "chain_ok X st' cs"
    and "list_all stamped bs" and "list_all stamped cs"
    and "lb_blob_hashes (hd bs) = []" and "lb_blob_hashes (hd cs) = []"
    and "length bs = length cs" and "lb_block_hash (last bs) = lb_block_hash (last cs)"
  shows "bs = cs \<or> block_collision X bs cs"
proof (rule ccontr)
  assume no: "\<not> (bs = cs \<or> block_collision X bs cs)"
  have ne: "bs \<noteq> []" "cs \<noteq> []" using assms(3,4) by (simp_all add: chain_ok_def)
  have eq: "bs ! i = cs ! i" if "i < length bs" "lb_block_hash (bs ! i) = lb_block_hash (cs ! i)" for i
  proof -
    have mem: "bs ! i \<in> set bs" "cs ! i \<in> set cs" using that(1) assms(9) by simp_all
    have "integrity_ok X (bs ! i)" "integrity_ok X (cs ! i)"
      using assms(3,4,9) that(1) by (cases i; auto simp: chain_ok_def linked_def hd_conv_nth)+
    moreover have "stamped (bs ! i)" "stamped (cs ! i)" using assms(5,6) mem by (auto simp: list_all_iff)
    moreover have "digests_ok (bs ! i)" "digests_ok (cs ! i)"
      using chain_digests_ok [OF assms(1,2,3,7) mem(1)] chain_digests_ok [OF assms(1,2,4,8) mem(2)] by simp_all
    ultimately show ?thesis using block_hash_binds [OF assms(1)] that(2) no mem
      unfolding block_collision_def by blast
  qed
  have "bs ! (length bs - 1 - k) = cs ! (length bs - 1 - k)" for k
  proof (induction k)
    case 0
    have "length bs - 1 < length bs" using ne by (cases bs) simp_all
    then show ?case using eq [of "length bs - 1"] assms(9,10) ne by (simp add: last_conv_nth)
  next
    case (Suc k)
    show ?case
    proof (cases "Suc k < length bs")
      case False
      then have "length bs - 1 - Suc k = length bs - 1 - k" by simp
      with Suc show ?thesis by simp
    next
      case True
      let ?i = "length bs - 1 - Suc k"
      from True have i: "Suc ?i = length bs - 1 - k" "Suc ?i < length bs" by simp_all
      then have "linked X st (bs ! ?i) (bs ! Suc ?i)" "linked X st' (cs ! ?i) (cs ! Suc ?i)"
        using assms(3,4,9) unfolding chain_ok_def by metis+
      with Suc i(1) have "lb_block_hash (bs ! ?i) = lb_block_hash (cs ! ?i)" by (simp add: linked_def)
      with eq [of ?i] i(2) show ?thesis by simp
    qed
  qed
  moreover have "i = length bs - 1 - (length bs - 1 - i)" if "i < length bs" for i using that by simp
  ultimately have "bs = cs" using assms(9) by (metis nth_equalityI)
  with no show False by simp
qed

lemma verify_chain_sound:
  assumes "verify_chain_integrity X P from_str now key db = Ok r"
  shows "chain_ok X (db_blobs db) (all_blocks from_str db)
    \<and> ar_latest_block_hash r = lb_block_hash (last (all_blocks from_str db))
    \<and> ar_total_blocks r = of_nat (length (all_blocks from_str db))"
proof (cases "all_blocks from_str db")
  case Nil
  with assms show ?thesis by (simp add: verify_chain_integrity_def)
next
  case (Cons g rest)
  with assms have "audit_genesis X g = Ok ()" "is_ok (audit_loop X (db_blobs db) 1 g 0 rest)"
    and r: "ar_latest_block_hash r = lb_block_hash (last (g # rest))" "ar_total_blocks r = of_nat (length (g # rest))"
    by (auto simp: verify_chain_integrity_def and_then_Ok Let_def is_ok_iff)
  then have "chain_ok X (db_blobs db) (g # rest)" by (simp add: chain_ok_Cons)
  with r Cons show ?thesis by simp
qed

lemma latest_hash_binds:
  assumes "hex_ok X" and "sha_ok X" and "chain_ok X st bs" and "chain_ok X st' cs"
    and "list_all stamped bs" and "list_all stamped cs"
    and "lb_blob_hashes (hd bs) = []" and "lb_blob_hashes (hd cs) = []"
    and "length bs \<le> max_blocks" and "length cs \<le> max_blocks"
    and "lb_block_hash (last bs) = lb_block_hash (last cs)"
  shows "bs = cs \<or> block_collision X bs cs"
proof -
  have ne: "bs \<noteq> []" "cs \<noteq> []" using assms(3,4) by (simp_all add: chain_ok_def)
  have integ: "integrity_ok X (last zs)" if "chain_ok X s zs" for s zs
    using that by (cases "length zs - 1") (auto simp: chain_ok_def linked_def last_conv_nth hd_conv_nth)
  have mem: "last bs \<in> set bs" "last cs \<in> set cs" using ne by simp_all
  from block_hash_binds [OF assms(1) integ [OF assms(3)] integ [OF assms(4)] _ _
      chain_digests_ok [OF assms(1-3,7) mem(1)] chain_digests_ok [OF assms(1,2,4,8) mem(2)] assms(11)]
  have "last bs = last cs \<or> block_collision X bs cs"
    using assms(5,6) mem unfolding block_collision_def list_all_iff by blast
  moreover have "length bs = length cs" if "last bs = last cs"
  proof -
    have "of_nat (length bs - 1) = (of_nat (length cs - 1) :: u64)"
      using last_sequence [OF assms(3)] last_sequence [OF assms(4)] that by simp
    moreover have "length bs - 1 < 2 ^ 63" "length cs - 1 < 2 ^ 63"
      using assms(9,10) ne by (cases bs; cases cs; simp add: max_blocks_def)+
    ultimately have "length bs - 1 = length cs - 1" by (metis unat_of_nat_small)
    with ne show ?thesis by (cases bs; cases cs) simp_all
  qed
  ultimately show ?thesis using chain_binds [OF assms(1-8) _ assms(11)] by blast
qed

section \<open>What a Merkle root commits to\<close>

fun level_inputs :: "string list \<Rightarrow> bytes list" where
  "level_inputs [] = []"
| "level_inputs [a] = [a @ a]"
| "level_inputs (a # b # rest) = (a @ b) # level_inputs rest"

lemma next_level_inputs: "next_level X xs = map (\<lambda>p. hex_encode X (sha256 X p)) (level_inputs xs)"
  by (induction xs rule: level_inputs.induct) (simp_all add: merkle_node_def)

lemma length_level_inputs: "length (level_inputs xs) = (length xs + 1) div 2"
  using length_next_level [of undefined xs] by (simp add: next_level_inputs)

function merkle_inputs :: "crates \<Rightarrow> string list \<Rightarrow> bytes list" where
  "merkle_inputs X level =
     (if length level > 1 then level_inputs level @ merkle_inputs X (next_level X level) else [])"
  by pat_completeness auto
termination
  by (relation "measure (\<lambda>(X, level). length level)") (simp_all add: length_next_level)

declare merkle_inputs.simps [simp del]

lemma level_inputs_inj:
  assumes "length xs = length ys" and "list_all (\<lambda>h. length h = 64) xs" and "list_all (\<lambda>h. length h = 64) ys"
    and "level_inputs xs = level_inputs ys"
  shows "xs = ys"
  using assms
proof (induction xs arbitrary: ys rule: level_inputs.induct)
  case 1
  then show ?case by simp
next
  case (2 a)
  then obtain b where "ys = [b]" by (cases ys) auto
  with 2 show ?case by simp
next
  case (3 a b rest)
  then obtain c d rest' where ys: "ys = c # d # rest'" by (cases ys; cases "tl ys") auto
  with "3.prems" have "a @ b = c @ d" "length a = length c" "level_inputs rest = level_inputs rest'" by simp_all
  with "3.IH" [of rest'] "3.prems" ys show ?case by simp
qed

lemma merkle_loop_binds:
  assumes "hex_ok X" and "sha_ok X"
  shows "length xs = length ys \<Longrightarrow> list_all (\<lambda>h. length h = 64) xs \<Longrightarrow> list_all (\<lambda>h. length h = 64) ys \<Longrightarrow>
    merkle_loop X xs = merkle_loop X ys \<Longrightarrow>
    xs = ys \<or> (\<exists>a \<in> set (merkle_inputs X xs). \<exists>b \<in> set (merkle_inputs X ys). sha_collision X a b)"
proof (induction "length xs" arbitrary: xs ys rule: less_induct)
  case less
  show ?case
  proof (cases "length xs > 1")
    case False
    with less.prems show ?thesis by (simp add: merkle_loop.simps [of X])
  next
    case True
    let ?col = "\<lambda>xs ys. \<exists>a \<in> set (merkle_inputs X xs). \<exists>b \<in> set (merkle_inputs X ys). sha_collision X a b"
    have wide: "list_all (\<lambda>h. length h = 64) (next_level X zs)" for zs
      using hex_hash_shape [OF assms] by (simp add: next_level_inputs list_all_iff)
    have "next_level X xs = next_level X ys \<or> ?col (next_level X xs) (next_level X ys)"
    proof (rule less.hyps)
      show "length (next_level X xs) < length xs" using True by (simp add: length_next_level)
      show "length (next_level X xs) = length (next_level X ys)" using less.prems(1) by (simp add: length_next_level)
      show "merkle_loop X (next_level X xs) = merkle_loop X (next_level X ys)"
        using less.prems(1,4) True by (simp add: merkle_loop.simps [of X xs] merkle_loop.simps [of X ys])
    qed (rule wide)+
    then show ?thesis
    proof
      assume "?col (next_level X xs) (next_level X ys)"
      then show ?thesis using True less.prems(1)
        by (auto simp: merkle_inputs.simps [of X xs] merkle_inputs.simps [of X ys])
    next
      assume eq: "next_level X xs = next_level X ys"
      show ?thesis
      proof (cases "level_inputs xs = level_inputs ys")
        case True
        with level_inputs_inj less.prems show ?thesis by blast
      next
        case False
        have len: "length (level_inputs xs) = length (level_inputs ys)"
          using less.prems(1) by (simp add: length_level_inputs)
        with False obtain i where i: "i < length (level_inputs xs)" "level_inputs xs ! i \<noteq> level_inputs ys ! i"
          by (metis nth_equalityI)
        from eq have "next_level X xs ! i = next_level X ys ! i" by simp
        with i len have "sha256 X (level_inputs xs ! i) = sha256 X (level_inputs ys ! i)"
          using assms(1) by (simp add: next_level_inputs) (metis hex_ok_def option.inject)
        with i(2) have "sha_collision X (level_inputs xs ! i) (level_inputs ys ! i)" by (simp add: sha_collision_def)
        moreover have "level_inputs xs ! i \<in> set (merkle_inputs X xs)" "level_inputs ys ! i \<in> set (merkle_inputs X ys)"
          using i(1) len \<open>length xs > 1\<close> less.prems(1)
          by (simp_all add: merkle_inputs.simps [of X xs] merkle_inputs.simps [of X ys])
        ultimately show ?thesis by blast
      qed
    qed
  qed
qed

lemma length_merkle_loop: "xs \<noteq> [] \<Longrightarrow> length (merkle_loop X xs) = 1"
proof (induction "length xs" arbitrary: xs rule: less_induct)
  case less
  show ?case
  proof (cases "length xs > 1")
    case True
    then have "length (next_level X xs) < length xs" "next_level X xs \<noteq> []"
      using length_next_level [of X xs] by auto
    with less.hyps True show ?thesis by (simp add: merkle_loop.simps [of X xs])
  next
    case False
    with less.prems show ?thesis by (cases xs) (simp_all add: merkle_loop.simps [of X])
  qed
qed

lemma merkle_root_binds:
  assumes "hex_ok X" and "sha_ok X" and "length xs = length ys"
    and "list_all (\<lambda>h. length h = 64) xs" and "list_all (\<lambda>h. length h = 64) ys"
    and "compute_merkle_root X xs = compute_merkle_root X ys"
  shows "xs = ys \<or> (\<exists>a \<in> set (merkle_inputs X xs). \<exists>b \<in> set (merkle_inputs X ys). sha_collision X a b)"
proof (cases "xs = []")
  case True
  with assms(3) show ?thesis by simp
next
  case ne: False
  have root: "compute_merkle_root X zs = merkle_loop X zs ! 0" if "zs \<noteq> []" for zs
    using that by (cases zs) (auto simp: compute_merkle_root_def merkle_loop.simps [of X])
  have "ys \<noteq> []" using ne assms(3) by auto
  with ne root assms(6) have "merkle_loop X xs ! 0 = merkle_loop X ys ! 0" by simp
  moreover have "\<exists>x. merkle_loop X zs = [x]" if "zs \<noteq> []" for zs
    using length_merkle_loop [OF that, of X] by (cases "merkle_loop X zs") auto
  ultimately have "merkle_loop X xs = merkle_loop X ys" using ne \<open>ys \<noteq> []\<close> by (metis nth_Cons_0)
  with merkle_loop_binds [OF assms(1,2,3,4,5)] show ?thesis by blast
qed

text \<open>The pairing rule makes a list of odd length and the list with its last hash repeated
  indistinguishable by the root.\<close>

lemma next_level_repeat: "odd (length xs) \<Longrightarrow> next_level X (xs @ [last xs]) = next_level X xs"
  by (induction X xs rule: next_level.induct) auto

lemma merkle_root_repeat:
  assumes "odd (length xs)" and "length xs > 1"
  shows "compute_merkle_root X (xs @ [last xs]) = compute_merkle_root X xs"
  using assms next_level_repeat [OF assms(1), of X] less_nat_zero_code [of 1]
  by (auto simp add: compute_merkle_root_def merkle_loop.simps [of X xs] merkle_loop.simps [of X "xs @ [last xs]"])

section \<open>Lookups\<close>

lemma find_unique:
  assumes "x \<in> set xs" and "P x" and "\<And>y. y \<in> set xs \<Longrightarrow> P y \<Longrightarrow> y = x"
  shows "List.find P xs = Some x"
proof (cases "List.find P xs")
  case None
  with assms(1,2) show ?thesis by (simp add: find_None_iff)
next
  case (Some y)
  then have "y \<in> set xs" "P y" by (auto simp: find_Some_iff)
  with assms(3) Some show ?thesis by metis
qed

lemma append_block_found:
  assumes "ledger_holds X db bs" and "strings_ok X from_str" and "length bs < max_blocks"
    and "append_block X from_str now bt payload [] db = Ok (b, db')"
  shows "get_block from_str db' (lb_sequence b) = Ok (Some b) \<and> get_block_by_hash from_str db' (lb_block_hash b) = Ok (Some b)
    \<and> latest_block from_str db' = Ok (Some b)"
proof -
  have db': "db_blocks db' = db_blocks db @ [block_row_of X b]"
    and fresh: "lb_sequence b \<notin> row_sequence ` set (db_blocks db)" "lb_block_hash b \<notin> row_block_hash ` set (db_blocks db)"
    using assms(4) by (auto simp: append_block_def insert_block_def and_then_Ok Let_def ok_or_Ok split: if_splits)
  have "List.find (\<lambda>r. row_sequence r = lb_sequence b) (db_blocks db') = Some (block_row_of X b)"
    "List.find (\<lambda>r. row_block_hash r = lb_block_hash b) (db_blocks db') = Some (block_row_of X b)"
    using fresh unfolding db' by (intro find_unique; force)+
  moreover have "ledger_holds X db' (bs @ [b])"
    by (rule append_block_holds [OF assms(1-3) _ assms(4), THEN conjunct1]) simp
  ultimately show ?thesis
    using assms(2) ledger_latest_block [of X db' "bs @ [b]" from_str] by (simp add: get_block_def get_block_by_hash_def)
qed

lemma insort_key_map: "insort_key f (g x) (map g xs) = map g (insort_key (f \<circ> g) x xs)"
  by (induction xs) auto

lemma sort_key_map: "sort_key f (map g xs) = map g (sort_key (f \<circ> g) xs)"
  by (induction xs) (simp_all add: insort_key_map [unfolded comp_def] comp_def)

definition garble :: "string \<Rightarrow> block_row \<Rightarrow> block_row" where
  "garble s r = (if row_block_type r = ''EVALUATION'' then r\<lparr>row_block_type := s\<rparr> else r)"

lemma all_blocks_garbled:
  assumes "parse_block_type s = Inl e"
  shows "all_blocks from_str (db\<lparr>db_blocks := map (garble s) (db_blocks db)\<rparr>) = all_blocks from_str db"
proof -
  have "(\<lambda>r. sint (row_sequence r)) \<circ> garble s = (\<lambda>r. sint (row_sequence r))"
    by (auto simp: garble_def fun_eq_iff)
  moreover have "read_row from_str (garble s r) = read_row from_str r" for r
    using assms by (simp add: read_row_def garble_def) (simp add: parse_block_type_def)
  ultimately show ?thesis by (simp add: all_blocks_def rows_by_sequence_def sort_key_map)
qed

section \<open>A sample ledger\<close>

definition reread_strings :: "crates \<Rightarrow> bytes \<Rightarrow> string list option" where
  "reread_strings X b = (if b \<in> range (blob_hashes_text X) then Some (inv (blob_hashes_text X) b) else None)"

lemma reread_strings_ok:
  assumes "json_unique X"
  shows "strings_ok X (reread_strings X)"
proof -
  have "inj (blob_hashes_text X)"
  proof (rule injI)
    fix hs hs' assume "blob_hashes_text X hs = blob_hashes_text X hs'"
    then have "sorted_json (JArray (map JString hs)) = sorted_json (JArray (map JString hs'))"
      unfolding blob_hashes_text_def by (rule write_canonical_unique [OF assms])
    then have "map JString hs = map JString hs'" by (simp add: comp_def)
    then show "hs = hs'" by (simp add: inj_map_eq_map inj_on_def)
  qed
  then show ?thesis by (simp add: strings_ok_def reread_strings_def)
qed

definition sample_p256 :: p256 where
  "sample_p256 = \<lparr>ec_sign = (\<lambda>k m. k @ m), ec_from_slice = (\<lambda>s. True), ec_verify = (\<lambda>k m s. s = k @ m)\<rparr>"

definition sample_now :: string where "sample_now = ''2026-01-01T00:00:00+00:00''"

definition genesis_of :: "crates \<Rightarrow> ledger_block" where
  "genesis_of X = new_block X 0 GenesisB sample_now GENESIS_PREV_HASH (genesis_payload X) []"

definition fresh_db :: "crates \<Rightarrow> ledger_db" where
  "fresh_db X = \<lparr>db_blocks = [block_row_of X (genesis_of X)], db_checkpoints = [], db_blobs_index = [],
     db_blobs = Map.empty\<rparr>"

lemma fresh_opened: "open_ledger X from_str sample_now
     \<lparr>db_blocks = [], db_checkpoints = [], db_blobs_index = [], db_blobs = Map.empty\<rparr> = Ok (fresh_db X)"
  by (simp add: open_ledger_def latest_block_def rows_by_sequence_def init_genesis_def insert_block_def
      fresh_db_def genesis_of_def)

lemma fresh_reachable: "reachable (ledger_init X from_str) (ledger_step X P from_str) (fresh_db X)"
  using fresh_opened by (intro reachable.start) (auto simp: ledger_init_def)

lemma fresh_holds: "ledger_holds X (fresh_db X) [genesis_of X]"
  using open_ledger_fresh [OF fresh_opened] by (simp add: store_ok_def genesis_of_def)

lemma sample_strings: "strings_ok sample (reread_strings sample)"
  by (simp add: reread_strings_ok)

section \<open>Properties of the ledger\<close>

text \<open>C27: Every ledger built by the API audits clean.  Starting from a fresh database, after any
  sequence of appended evaluations, promotions, rollbacks and evidence, checkpoints and reopenings,
  the audit without a key succeeds and its report is the one computed from the stored blocks; in
  particular the latest checkpoint verifies against the blocks it covers, wherever it sits.\<close>

theorem reachable_ledger_audits_clean:
  assumes "strings_ok X from_str" and "reachable (ledger_init X from_str) (ledger_step X P from_str) db"
  shows "verify_chain_integrity X P from_str now None db =
     Ok (clean_report X now False (latest_checkpoint db) (all_blocks from_str db))"
proof -
  obtain bs where bs: "ledger_holds X db bs"
    using ledger.reachable_inv [OF assms(2)] assms(1) by blast
  show ?thesis
    using audit_clean [OF bs assms(1), of None P now] ledger_all_blocks [OF bs assms(1)] by simp
qed

theorem reachable_ledger_audits_clean_witness:
  "verify_chain_integrity sample sample_p256 (reread_strings sample) sample_now None (fresh_db sample) =
     Ok (clean_report sample sample_now False (latest_checkpoint (fresh_db sample)) (all_blocks (reread_strings sample) (fresh_db sample)))"
  using reachable_ledger_audits_clean [OF sample_strings fresh_reachable] .

text \<open>The ledger is append-only: every operation keeps the blocks stored before it, in order and
  unchanged, as a prefix of the blocks stored after it.\<close>

theorem ledger_is_append_only:
  assumes "strings_ok X from_str" and "reachable (ledger_init X from_str) (ledger_step X P from_str) db"
    and "ledger_step X P from_str db db'"
  shows "\<exists>ext. all_blocks from_str db' = all_blocks from_str db @ ext"
proof -
  obtain bs where bs: "ledger_holds X db bs"
    using ledger.reachable_inv [OF assms(2)] assms(1) by blast
  from ledger_step_holds [OF assms(1) bs assms(3)] obtain ext where "ledger_holds X db' (bs @ ext)" ..
  with ledger_all_blocks [OF bs assms(1)] ledger_all_blocks [OF this assms(1)] show ?thesis by auto
qed

theorem ledger_is_append_only_witness:
  "\<exists>ext. all_blocks (reread_strings sample) (fresh_db sample) = all_blocks (reread_strings sample) (fresh_db sample) @ ext"
proof -
  have "open_ledger sample (reread_strings sample) sample_now (fresh_db sample) = Ok (fresh_db sample)"
    using ledger_latest_block [OF fresh_holds sample_strings] by (simp add: open_ledger_def)
  from ledger_is_append_only [OF sample_strings fresh_reachable ledger_step.reopened [OF this]] show ?thesis .
qed

text \<open>A signed checkpoint covers the whole ledger.  After a checkpoint under a signing key, the
  audit with the matching verifying key succeeds, reports the checkpoint and the signature as
  verified, and leaves nothing unchecked.\<close>

theorem signed_checkpoint_covers_everything:
  assumes "strings_ok X from_str" and "reachable (ledger_init X from_str) (ledger_step X P from_str) db"
    and "hex_ok X" and "\<And>m. ec_from_slice P (ec_sign P sk m) \<and> ec_verify P vk m (ec_sign P sk m)"
    and "checkpoint X P from_str now (Some sk) db = Ok (c, db')"
  shows "\<exists>r. verify_chain_integrity X P from_str now' (Some vk) db' = Ok r \<and> ar_checkpoint_verified r
     \<and> ar_signature_verified r \<and> unchecked_gaps r True = []"
proof -
  obtain bs where bs: "ledger_holds X db bs"
    using ledger.reachable_inv [OF assms(2)] assms(1) by blast
  note ck = checkpoint_holds [OF bs assms(1,5)]
  have sgn: "c = sign_checkpoint X P sk (c\<lparr>mc_signature := None\<rparr>)" by (rule ck(5)) (rule refl)
  have "verify_signature X P vk c"
    using assms(3,4) by (subst sgn) (simp add: verify_signature_def sign_checkpoint_def strip_prefix_def
        starts_with_def hex_ok_def)
  then have "verify_chain_integrity X P from_str now' (Some vk) db' =
      Ok (clean_report X now' (Some vk \<noteq> None) (latest_checkpoint db') bs)"
    by (intro audit_clean [OF ck(1) assms(1)]) (use ck(4) in auto)
  with ck(3,4) show ?thesis by (simp add: clean_report_def unchecked_gaps_def)
qed

theorem signed_checkpoint_covers_everything_witness:
  "\<exists>c db' r. checkpoint sample sample_p256 (reread_strings sample) sample_now (Some ''key'') (fresh_db sample) = Ok (c, db')
     \<and> verify_chain_integrity sample sample_p256 (reread_strings sample) sample_now (Some ''key'') db' = Ok r
     \<and> ar_checkpoint_verified r \<and> ar_signature_verified r \<and> unchecked_gaps r True = []"
proof -
  obtain c db' where ck: "checkpoint sample sample_p256 (reread_strings sample) sample_now (Some ''key'') (fresh_db sample) = Ok (c, db')"
    using ledger_all_blocks [OF fresh_holds sample_strings] by (simp add: checkpoint_def Let_def)
  have "ec_from_slice sample_p256 (ec_sign sample_p256 ''key'' m) \<and>
      ec_verify sample_p256 ''key'' m (ec_sign sample_p256 ''key'' m)" for m
    by (simp add: sample_p256_def)
  from signed_checkpoint_covers_everything [OF sample_strings fresh_reachable sample_hex_ok this ck] ck
  show ?thesis by blast
qed

text \<open>The latest block hash commits to the whole ledger.  Two ledgers that both pass the audit and
  whose reports name the same latest block hash hold the same blocks, or two of their blocks exhibit
  a SHA-256 collision.  (Timestamps are those of \<open>to_rfc3339\<close> in UTC; the genesis block names no
  blobs, which the audit does not check.)\<close>

theorem latest_hash_commits_to_ledger:
  assumes "hex_ok X" and "sha_ok X"
    and "verify_chain_integrity X P from_str now key db = Ok r"
    and "verify_chain_integrity X P from_str now' key' db' = Ok r'"
    and "list_all stamped (all_blocks from_str db)" and "list_all stamped (all_blocks from_str db')"
    and "lb_blob_hashes (hd (all_blocks from_str db)) = []" and "lb_blob_hashes (hd (all_blocks from_str db')) = []"
    and "length (all_blocks from_str db) \<le> max_blocks" and "length (all_blocks from_str db') \<le> max_blocks"
    and "ar_latest_block_hash r = ar_latest_block_hash r'"
  shows "all_blocks from_str db = all_blocks from_str db'
     \<or> block_collision X (all_blocks from_str db) (all_blocks from_str db')"
proof -
  note a = verify_chain_sound [OF assms(3)] and b = verify_chain_sound [OF assms(4)]
  show ?thesis
    by (rule latest_hash_binds [OF assms(1,2) conjunct1 [OF a] conjunct1 [OF b] assms(5-10)])
       (use a b assms(11) in simp)
qed

lemma sample_all_blocks: "all_blocks (reread_strings sample) (fresh_db sample) = [genesis_of sample]"
  by (rule ledger_all_blocks [OF fresh_holds sample_strings])

theorem latest_hash_commits_to_ledger_witness:
  "all_blocks (reread_strings sample) (fresh_db sample) = all_blocks (reread_strings sample) ((fresh_db sample)\<lparr>db_blobs_index := [([], 0, [])]\<rparr>)
     \<or> block_collision sample (all_blocks (reread_strings sample) (fresh_db sample))
         (all_blocks (reread_strings sample) ((fresh_db sample)\<lparr>db_blobs_index := [([], 0, [])]\<rparr>))"
proof -
  let ?db' = "(fresh_db sample)\<lparr>db_blobs_index := [([], 0, [])]\<rparr>"
  have holds': "ledger_holds sample ?db' [genesis_of sample]" using fresh_holds by (simp add: ledger_holds_def)
  note a = audit_clean [OF fresh_holds sample_strings, of None sample_p256 sample_now]
  note b = audit_clean [OF holds' sample_strings, of None sample_p256 sample_now]
  have "lb_timestamp_utc (genesis_of sample) = CHR ''2'' # ''026-01-01T00:00:00'' @ ''+00:00''"
    by (simp add: genesis_of_def new_block_def Let_def sample_now_def)
  moreover have "CHR ''2'' \<in> decimal" by (simp add: decimal_def)
  ultimately have "stamped (genesis_of sample)" unfolding stamped_def by blast
  moreover have "lb_blob_hashes (genesis_of sample) = []" by (simp add: genesis_of_def new_block_def Let_def)
  ultimately show ?thesis
    by (intro latest_hash_commits_to_ledger [OF sample_hex_ok sample_sha_ok a b])
       (simp_all add: sample_all_blocks ledger_all_blocks [OF holds' sample_strings] max_blocks_def clean_report_def)
qed

text \<open>A Merkle root commits to the list of block hashes of a given length: two lists of 64-character
  hashes of the same length with the same root are equal, or two of the strings hashed while
  computing the two roots exhibit a SHA-256 collision.\<close>

theorem merkle_root_commits:
  assumes "hex_ok X" and "sha_ok X" and "length xs = length ys"
    and "list_all (\<lambda>h. length h = 64) xs" and "list_all (\<lambda>h. length h = 64) ys"
    and "compute_merkle_root X xs = compute_merkle_root X ys"
  shows "xs = ys \<or> (\<exists>a \<in> set (merkle_inputs X xs). \<exists>b \<in> set (merkle_inputs X ys). sha_collision X a b)"
  by (rule merkle_root_binds [OF assms])

theorem merkle_root_commits_witness:
  "\<exists>a \<in> set (merkle_inputs colliding [replicate 64 (CHR ''a''), replicate 64 (CHR ''b'')]).
   \<exists>b \<in> set (merkle_inputs colliding [replicate 64 (CHR ''a''), replicate 64 (CHR ''c'')]). sha_collision colliding a b"
proof -
  have "sha_ok colliding" by (simp add: sha_ok_def colliding_def)
  moreover have "compute_merkle_root colliding [replicate 64 (CHR ''a''), replicate 64 (CHR ''b'')] =
      compute_merkle_root colliding [replicate 64 (CHR ''a''), replicate 64 (CHR ''c'')]"
    by (simp add: compute_merkle_root_def merkle_loop.simps merkle_node_def colliding_def)
  moreover have "replicate 64 (CHR ''b'') \<noteq> replicate 64 (CHR ''c'')" by simp
  ultimately show ?thesis
    using merkle_root_commits [of colliding "[replicate 64 (CHR ''a''), replicate 64 (CHR ''b'')]"
        "[replicate 64 (CHR ''a''), replicate 64 (CHR ''c'')]"] by auto
qed

text \<open>An odd list and the same list with its last hash repeated have the same Merkle root.  The
  signature of a checkpoint covers the root only, so it does not distinguish the two; the block
  count stored beside it does.\<close>

theorem merkle_root_ignores_repeated_last:
  assumes "odd (length xs)" and "length xs > 1"
  shows "compute_merkle_root X (xs @ [last xs]) = compute_merkle_root X xs"
  by (rule merkle_root_repeat [OF assms])

theorem merkle_root_ignores_repeated_last_witness:
  "compute_merkle_root sample ([''a'', ''b'', ''c''] @ [last [''a'', ''b'', ''c'']]) = compute_merkle_root sample [''a'', ''b'', ''c'']"
  by (rule merkle_root_ignores_repeated_last) simp_all

text \<open>A block that was appended is found: by its sequence, by its hash, and as the latest block,
  with every field as returned by the append.\<close>

theorem appended_block_is_found:
  assumes "strings_ok X from_str" and "reachable (ledger_init X from_str) (ledger_step X P from_str) db"
    and "length (db_blocks db) < max_blocks" and "append_block X from_str now bt payload [] db = Ok (b, db')"
  shows "get_block from_str db' (lb_sequence b) = Ok (Some b)
    \<and> get_block_by_hash from_str db' (lb_block_hash b) = Ok (Some b) \<and> latest_block from_str db' = Ok (Some b)"
proof -
  obtain bs where bs: "ledger_holds X db bs"
    using ledger.reachable_inv [OF assms(2)] assms(1) by blast
  with append_block_found [OF bs assms(1) _ assms(4)] assms(3) holds_length [OF bs] show ?thesis by simp
qed


lemma transparent_append:
  "\<exists>b db'. append_block transparent (reread_strings transparent) sample_now RollbackB ''{}'' [] (fresh_db transparent) = Ok (b, db')"
proof -
  let ?X = transparent
  have str: "strings_ok ?X (reread_strings ?X)" by (simp add: reread_strings_ok)
  let ?b = "new_block ?X 1 RollbackB sample_now (lb_block_hash (genesis_of ?X)) ''{}'' []"
  have seq: "lb_sequence ?b = 1" "lb_sequence (genesis_of ?X) = 0"
    by (simp_all add: new_block_def genesis_of_def Let_def)
  have "preimage_of ?b \<noteq> preimage_of (genesis_of ?X)"
  proof
    assume eq: "preimage_of ?b = preimage_of (genesis_of ?X)"
    have "take 8 (preimage_of c) = u64_le (lb_sequence c)" for c
      by (simp add: preimage_of_def block_preimage_def)
    with eq seq show False by (metis u64_le_inj zero_neq_one)
  qed
  then have "lb_block_hash ?b \<noteq> lb_block_hash (genesis_of ?X)"
    by (simp add: new_block_def genesis_of_def Let_def compute_block_hash_def preimage_of_def transparent_crates
        hex_of_inj)
  then show ?thesis
    using ledger_latest_block [OF fresh_holds str] seq
    by (simp add: append_block_def insert_block_def Let_def fresh_db_def)
qed

theorem appended_block_is_found_witness:
  "\<exists>b db'. append_block transparent (reread_strings transparent) sample_now RollbackB ''{}'' [] (fresh_db transparent) = Ok (b, db')
    \<and> get_block (reread_strings transparent) db' (lb_sequence b) = Ok (Some b)
    \<and> get_block_by_hash (reread_strings transparent) db' (lb_block_hash b) = Ok (Some b)
    \<and> latest_block (reread_strings transparent) db' = Ok (Some b)"
proof -
  have str: "strings_ok transparent (reread_strings transparent)" by (simp add: reread_strings_ok)
  have len: "length (db_blocks (fresh_db transparent)) < max_blocks" by (simp add: fresh_db_def max_blocks_def)
  from transparent_append obtain b db'
    where "append_block transparent (reread_strings transparent) sample_now RollbackB ''{}'' [] (fresh_db transparent) = Ok (b, db')"
    by blast
  from this appended_block_is_found [OF str fresh_reachable len this] show ?thesis by blast
qed

text \<open>The audit does not see a garbled type column of an evaluation block: it reads every unknown
  type as \<open>Evaluation\<close>, so replacing \<open>EVALUATION\<close> by any unknown text in the table leaves the verdict
  as it was, whereas the strict readers refuse such a row.\<close>

theorem audit_reads_unknown_type_as_evaluation:
  assumes "parse_block_type s = Err e"
  shows "verify_chain_integrity X P from_str now key (db\<lparr>db_blocks := map (garble s) (db_blocks db)\<rparr>) =
      verify_chain_integrity X P from_str now key db"
proof -
  have "latest_checkpoint (db\<lparr>db_blocks := map (garble s) (db_blocks db)\<rparr>) = latest_checkpoint db"
    by (simp add: latest_checkpoint_def)
  then show ?thesis
    unfolding verify_chain_integrity_def all_blocks_garbled [OF assms] by (simp split: list.split)
qed

theorem audit_reads_unknown_type_as_evaluation_witness:
  "verify_chain_integrity sample sample_p256 (reread_strings sample) sample_now None
      ((fresh_db sample)\<lparr>db_blocks := map (garble ''PROMOTIONS'') (db_blocks (fresh_db sample))\<rparr>) =
    verify_chain_integrity sample sample_p256 (reread_strings sample) sample_now None (fresh_db sample)"
proof -
  have "parse_block_type ''PROMOTIONS'' = Err (UnknownBlockType ''PROMOTIONS'')" by (simp add: parse_block_type_def)
  then show ?thesis by (rule audit_reads_unknown_type_as_evaluation)
qed

end
