(* ===== verification/Ipc.thy ===== *)
theory Ipc
  imports Digest Canary_Base
begin

unbundle bit_operations_syntax

text \<open>
  Messages, connection authentication and HMAC of \<open>src/src/supervisor/ipc.rs\<close>, and the readiness
  handshake of \<open>src/src/supervisor/daemon.rs\<close>.  Errors are the source's strings.  What the peer and
  the socket do is an argument: the outcome of a send, and of a receive, where \<open>None\<close> is the
  deadline.  \<open>Debug\<close> text of a message is the argument \<open>dbg\<close>.
\<close>

section \<open>Messages\<close>

datatype supervisor_message =
    DrainStart u64
  | RevertOrder string
  | ShutdownAck u32
  | Ping
  | AuthChallenge string
  | ExecuteRequest u16 string string string string string u64

text \<open>Fields in the order of the source: \<open>Ready\<close> has generation, pid, token and protocol version.\<close>

datatype worker_message =
    ReadyMsg string u32 string u16
  | Heartbeat string u64 u32 u64
  | DrainComplete string
  | CanaryReport string u64 bool u64 "string option"
  | Pong
  | AuthResponse string
  | ExecuteResult u16 string string string "u64 option"

datatype auth_state = Unauthenticated | Authenticated string u32 u16

fun is_authenticated_for :: "auth_state \<Rightarrow> string \<Rightarrow> bool" where
  "is_authenticated_for Unauthenticated g = False"
| "is_authenticated_for (Authenticated g' pid v) g = (g' = g)"

fun can_execute_for :: "auth_state \<Rightarrow> string \<Rightarrow> bool" where
  "can_execute_for Unauthenticated g = False"
| "can_execute_for (Authenticated g' pid v) g = (g' = g \<and> v = CANARY_PROTOCOL_VERSION)"

section \<open>HMAC\<close>

definition xor_byte :: "u8 \<Rightarrow> u8 \<Rightarrow> u8" where
  "xor_byte a b = char_of ((of_char a :: nat) XOR of_char b)"

definition key_block :: "crates \<Rightarrow> bytes \<Rightarrow> bytes" where
  "key_block X key =
     (if length key > 64 then take 64 (sha256 X key @ replicate 32 (CHR 0x00))
      else key @ replicate (64 - length key) (CHR 0x00))"

definition compute_hmac :: "crates \<Rightarrow> string \<Rightarrow> string \<Rightarrow> string" where
  "compute_hmac X shared_secret message =
     (let block = key_block X shared_secret;
          ipad = map2 xor_byte (replicate 64 (CHR 0x36)) block;
          opad = map2 xor_byte (replicate 64 (CHR 0x5C)) block;
          inner_hash = sha256 X (ipad @ message)
      in hex_encode X (sha256 X (opad @ inner_hash)))"

text \<open>The comparison that looks at every byte: \<open>diff |= a ^ b\<close>.\<close>

fun diff_bytes :: "nat \<Rightarrow> bytes \<Rightarrow> bytes \<Rightarrow> nat" where
  "diff_bytes d (a # as) (b # bs) = diff_bytes (d OR (of_char a XOR of_char b)) as bs"
| "diff_bytes d _ _ = d"

definition verify_hmac :: "crates \<Rightarrow> string \<Rightarrow> string \<Rightarrow> string \<Rightarrow> bool" where
  "verify_hmac X shared_secret message candidate =
     (let expected = compute_hmac X shared_secret message in
      if length expected \<noteq> length candidate then False
      else diff_bytes 0 expected candidate = 0)"

section \<open>Readiness\<close>

datatype readiness_kind = TimeoutR | ClosedR | OldProtocol | WrongGenerationR | BadHmac | Unexpected

fun kind_debug :: "readiness_kind \<Rightarrow> string" where
  "kind_debug TimeoutR = ''Timeout''"
| "kind_debug ClosedR = ''Closed''"
| "kind_debug OldProtocol = ''OldProtocol''"
| "kind_debug WrongGenerationR = ''WrongGeneration''"
| "kind_debug BadHmac = ''BadHmac''"
| "kind_debug Unexpected = ''Unexpected''"

record readiness_failure =
  rf_kind :: readiness_kind
  rf_detail :: string

definition failure_display :: "readiness_failure \<Rightarrow> string" where
  "failure_display f = ''worker not ready ('' @ kind_debug (rf_kind f) @ ''): '' @ rf_detail f"

definition recv_failure :: "string \<Rightarrow> readiness_failure" where
  "recv_failure err = \<lparr>rf_kind = (if contains ''closed by peer'' err then ClosedR else Unexpected), rf_detail = err\<rparr>"

definition check_ready ::
    "(worker_message \<Rightarrow> string) \<Rightarrow> string \<Rightarrow> worker_message \<Rightarrow> readiness_failure + u32 \<times> u16" where
  "check_ready dbg expected_generation msg =
     (case msg of
        ReadyMsg g pid token v \<Rightarrow>
          if v \<noteq> CANARY_PROTOCOL_VERSION
            then Err \<lparr>rf_kind = OldProtocol,
              rf_detail = ''Ready states protocol version '' @ dec_nat (unat v) @ '', expected '' @
                dec_nat (unat CANARY_PROTOCOL_VERSION)\<rparr>
          else if g \<noteq> expected_generation
            then Err \<lparr>rf_kind = WrongGenerationR,
              rf_detail = ''Ready names generation '' @ g @ '', expected '' @ expected_generation\<rparr>
          else Ok (pid, v)
      | other \<Rightarrow> Err \<lparr>rf_kind = Unexpected, rf_detail = ''expected a versioned Ready first, got '' @ dbg other\<rparr>)"

text \<open>\<open>sent\<close> is the outcome of sending the challenge with \<open>nonce\<close>, \<open>answer\<close> what the peer sends back.\<close>

definition challenge_worker ::
    "crates \<Rightarrow> (worker_message \<Rightarrow> string) \<Rightarrow> string \<Rightarrow> string \<Rightarrow> string \<Rightarrow> string + unit
      \<Rightarrow> string + worker_message \<Rightarrow> readiness_failure + unit" where
  "challenge_worker X dbg generation_id shared_secret nonce sent answer =
     and_then (map_err recv_failure sent) (\<lambda>_.
     and_then (map_err recv_failure answer) (\<lambda>auth_msg.
     case auth_msg of
       AuthResponse candidate \<Rightarrow>
         if \<not> verify_hmac X shared_secret (generation_id @ '':'' @ nonce) candidate
           then Err \<lparr>rf_kind = BadHmac, rf_detail = ''HMAC for generation '' @ generation_id @ '' did not verify''\<rparr>
         else Ok ()
     | other \<Rightarrow> Err \<lparr>rf_kind = Unexpected, rf_detail = ''expected AuthResponse, got '' @ dbg other\<rparr>))"

text \<open>What happens on a connection during the handshake: the first frame, the outcome of sending the
  challenge, the answer, and the outcome of sending \<open>Ping\<close>.\<close>

record handshake =
  hs_first :: "string + worker_message"
  hs_sent :: "string + unit"
  hs_answer :: "string + worker_message"
  hs_ping :: "string + unit"

definition authenticate_worker_connection ::
    "crates \<Rightarrow> (worker_message \<Rightarrow> string) \<Rightarrow> string \<Rightarrow> string \<Rightarrow> string \<Rightarrow> string \<Rightarrow> handshake option
      \<Rightarrow> readiness_failure + auth_state" where
  "authenticate_worker_connection X dbg expected_generation shared_secret nonce deadline_text run =
     (case run of
        None \<Rightarrow> Err \<lparr>rf_kind = TimeoutR, rf_detail = ''no completed handshake within '' @ deadline_text\<rparr>
      | Some c \<Rightarrow>
          and_then (map_err recv_failure (hs_first c)) (\<lambda>msg.
          and_then (check_ready dbg expected_generation msg) (\<lambda>(pid, v).
          and_then (challenge_worker X dbg expected_generation shared_secret nonce (hs_sent c) (hs_answer c)) (\<lambda>_.
          and_then (map_err recv_failure (hs_ping c)) (\<lambda>_.
          Ok (Authenticated expected_generation pid v))))))"

text \<open>The worker's side of the handshake: the frames it sends, given the frames it receives.\<close>

definition perform_worker_handshake ::
    "crates \<Rightarrow> (supervisor_message \<Rightarrow> string) \<Rightarrow> string \<Rightarrow> u32 \<Rightarrow> string \<Rightarrow> string + supervisor_message
      \<Rightarrow> string + supervisor_message \<Rightarrow> worker_message list \<times> (string + supervisor_message)" where
  "perform_worker_handshake X dbg generation_id pid shared_secret challenge reply =
     (let ready = ReadyMsg generation_id pid [] CANARY_PROTOCOL_VERSION in
      case challenge of
        Inl e \<Rightarrow> ([ready], Err e)
      | Inr (AuthChallenge nonce) \<Rightarrow>
          ([ready, AuthResponse (compute_hmac X shared_secret (generation_id @ '':'' @ nonce))], reply)
      | Inr other \<Rightarrow> ([ready], Err (''Expected AuthChallenge from supervisor, got '' @ dbg other)))"

section \<open>Lemmas\<close>

lemma xor_byte_zero: "(of_char a :: nat) XOR of_char b = 0 \<longleftrightarrow> a = b"
proof
  assume "(of_char a :: nat) XOR of_char b = 0"
  then have "((of_char a :: nat) XOR of_char b) XOR of_char b = 0 XOR of_char b" by simp
  then have "(of_char a :: nat) = of_char b" by (simp add: xor.assoc)
  then show "a = b" by simp
qed simp

lemma or_eq_0_nat: "(m :: nat) OR n = 0 \<longleftrightarrow> m = 0 \<and> n = 0"
  by (metis or.left_neutral or.right_neutral or_nonnegative_int_iff or_eq_0_iff)

lemma diff_bytes_zero:
  "length as = length bs \<Longrightarrow> diff_bytes d as bs = 0 \<longleftrightarrow> d = 0 \<and> as = bs"
proof (induction d as bs rule: diff_bytes.induct)
  case (1 d a as b bs)
  then show ?case using xor_byte_zero [of a b] by (auto simp: or_eq_0_nat)
qed auto

lemma verify_hmac_iff: "verify_hmac X secret m c \<longleftrightarrow> c = compute_hmac X secret m"
  by (auto simp: verify_hmac_def Let_def diff_bytes_zero)

lemma challenge_worker_Ok [result_simps]:
  "challenge_worker X dbg g secret nonce sent answer = Inr u \<longleftrightarrow>
     is_ok sent \<and> answer = Ok (AuthResponse (compute_hmac X secret (g @ '':'' @ nonce)))"
  by (cases sent; cases answer)
     (auto simp: challenge_worker_def verify_hmac_iff and_then_Ok split: worker_message.splits if_splits)

lemma check_ready_Ok [result_simps]:
  "check_ready dbg g msg = Inr (pid, v) \<longleftrightarrow>
     (\<exists>token. msg = ReadyMsg g pid token CANARY_PROTOCOL_VERSION) \<and> v = CANARY_PROTOCOL_VERSION"
  by (cases msg) (auto simp: check_ready_def)

end
