(* ===== verification/F64.thy ===== *)
theory F64
  imports Complex_Main "HOL-Library.Log_Nat" Prelude
begin

text \<open>
  Binary64 arithmetic on the non-negative values the supervisor computes with: \<open>as f64\<close> of a
  \<open>u64\<close> and the quotient of two such values.  A value is its rational; every operation rounds the
  exact result to 53 significant bits, ties to even.  The quotients lie between \<open>2 ^ -64\<close> and
  \<open>2 ^ 64\<close>, so neither overflow nor subnormal numbers occur.
\<close>

definition ilog2 :: "rat \<Rightarrow> int" where
  "ilog2 x = (let (a, b) = quotient_of x; k = bitlen a - bitlen b in if x < 2 powi k then k - 1 else k)"

definition round_half_even :: "rat \<Rightarrow> int" where
  "round_half_even q = (let f = \<lfloor>q\<rfloor>; d = q - of_int f in
     if d < 1 / 2 then f else if d > 1 / 2 then f + 1 else if even f then f else f + 1)"

definition f64_round :: "rat \<Rightarrow> rat" where
  "f64_round x = (if x \<le> 0 then 0
     else let e = ilog2 x - 52 in of_int (round_half_even (x / 2 powi e)) * 2 powi e)"

definition f64_of_u64 :: "u64 \<Rightarrow> rat" where
  "f64_of_u64 w = f64_round (of_nat (unat w))"

definition f64_div :: "rat \<Rightarrow> rat \<Rightarrow> rat" where
  "f64_div a b = f64_round (a / b)"

lemma ilog2_bound:
  assumes "x > 0"
  shows "2 powi ilog2 x \<le> x"
proof -
  obtain a b where q: "quotient_of x = (a, b)" by (cases "quotient_of x")
  have b: "b > 0" using quotient_of_denom_pos [OF q] .
  have x: "x = of_int a / of_int b" using quotient_of_div [OF q] .
  with assms b have a: "a > 0" by (simp add: zero_less_divide_iff)
  let ?la = "bitlen a" and ?lb = "bitlen b"
  have la: "?la \<ge> 1" and lb: "?lb \<ge> 1" using a b by (auto simp: bitlen_alt_def)
  have "2 ^ nat (?la - 1) \<le> a" using bitlen_bounds [OF a] by simp
  then have lower: "(2::rat) powi (?la - 1) \<le> of_int a"
    using la by (metis diff_ge_0_iff_ge of_int_le_iff of_int_numeral of_int_power power_int_def)
  have "b < 2 ^ nat ?lb" using bitlen_bounds [OF b] by simp
  then have upper: "of_int b < (2::rat) powi ?lb"
    using lb by (metis of_int_less_iff of_int_numeral of_int_power order_trans power_int_def zero_le_one)
  have "(2::rat) powi (?la - ?lb - 1) = 2 powi (?la - 1) / 2 powi ?lb"
    by (simp flip: power_int_diff) (simp add: algebra_simps)
  also have "\<dots> \<le> of_int a / of_int b"
    using lower upper b a by (intro frac_le) auto
  finally have "2 powi (?la - ?lb - 1) \<le> x" using x by simp
  then show ?thesis by (simp add: ilog2_def q Let_def)
qed

lemma round_half_even_ge: "of_int n \<le> q \<Longrightarrow> n \<le> round_half_even q"
proof -
  assume "of_int n \<le> q"
  then have "n \<le> \<lfloor>q\<rfloor>" by (simp add: le_floor_iff)
  then show ?thesis by (auto simp: round_half_even_def Let_def)
qed

lemma f64_round_pos: "x > 0 \<Longrightarrow> f64_round x > 0"
proof -
  assume x: "x > 0"
  let ?e = "ilog2 x - 52"
  have "(2::rat) powi ilog2 x = 2 powi 52 * 2 powi ?e" 
    using power_int_add [of "2::rat" 52 ?e] by simp
  with ilog2_bound [OF x] have "of_int (2 ^ 52) \<le> x / 2 powi ?e"
    by (simp add: pos_le_divide_eq)
  then have "2 ^ 52 \<le> round_half_even (x / 2 powi ?e)" by (rule round_half_even_ge)
  then have "0 < round_half_even (x / 2 powi ?e)" by simp
  with x show ?thesis by (simp add: f64_round_def Let_def zero_less_mult_iff)
qed

lemma f64_round_zero [simp]: "f64_round 0 = 0"
  by (simp add: f64_round_def)

lemma f64_of_u64_zero [simp]: "f64_of_u64 0 = 0"
  by (simp add: f64_of_u64_def)

lemma f64_of_u64_pos: "w \<noteq> 0 \<Longrightarrow> f64_of_u64 w > 0"
  unfolding f64_of_u64_def by (rule f64_round_pos) (simp add: unat_gt_0 del: of_nat_unat)

lemma f64_div_pos: "a > 0 \<Longrightarrow> b > 0 \<Longrightarrow> f64_div a b > 0"
  by (simp add: f64_div_def f64_round_pos)

end
