(* ===== verification/Supervisor.thy ===== *)
theory Supervisor
  imports Ipc Generation F64 Log_Recovery
begin

text \<open>
  The host supervisor (\<open>src/src/supervisor/mod.rs\<close>) and the message loop of its daemon
  (\<open>src/src/supervisor/daemon.rs\<close>).

  The part of the file system the supervisor changes is the record \<open>host\<close>: the generation
  directories with their contents, the target of the active symlink, and the socket links.  The
  record \<open>env\<close> holds what one step takes from outside: the handshake with the peer, the clock, the
  outcome of every file operation, \<open>/proc/<pid>/statm\<close>, and the texts \<open>format!\<close> makes of values
  with \<open>Debug\<close> or floating-point parts.
\<close>

section \<open>The host\<close>

type_synonym tree = "string \<rightharpoonup> bytes"

record host =
  h_generations :: "string \<rightharpoonup> tree"
  h_active :: "string option"
  h_socket_links :: "string \<rightharpoonup> string"

datatype budget_error =
    LatencyExceeded u64 u64 u64
  | ErrorRateExceeded u64 u64 rat
  | MemoryExceeded u32 u64
  | MemoryUnreadable u32 string

text \<open>\<open>copied\<close> is what \<open>copy_dir_all\<close> leaves in the fresh directory, and whether it succeeded.\<close>

definition stage_generation ::
    "string \<Rightarrow> string \<Rightarrow> string \<Rightarrow> string \<Rightarrow> tree \<times> (string + unit) \<Rightarrow> host
      \<Rightarrow> (string + generation_info) \<times> host" where
  "stage_generation generations_root generation_id manifest_digest now copied h =
     (let h' = h\<lparr>h_generations := (h_generations h)(generation_id \<mapsto> fst copied)\<rparr> in
      case snd copied of
        Inl e \<Rightarrow> (Err e, h')
      | Inr _ \<Rightarrow>
          (Ok \<lparr>gi_generation_id = generation_id,
               gi_installed_path = generations_root @ ''/'' @ generation_id,
               gi_manifest_digest = manifest_digest, gi_state = Staged, gi_pid = None,
               gi_socket_path = None, gi_canary_transactions = 0, gi_canary_errors = 0,
               gi_max_latency_us = 0, gi_total_latency_us = 0, gi_staged_timestamp = now\<rparr>, h'))"

text \<open>\<open>swapped\<close>: the temporary link was created and renamed over the active one.\<close>

definition atomic_symlink_swap :: "string \<Rightarrow> string + unit \<Rightarrow> host \<Rightarrow> (string + unit) \<times> host" where
  "atomic_symlink_swap generation_id swapped h =
     (if h_generations h generation_id = None
        then (Err (''Target generation directory does not exist: '' @ generation_id), h)
      else case swapped of
          Inl e \<Rightarrow> (Err e, h)
        | Inr _ \<Rightarrow> (Ok (), h\<lparr>h_active := Some generation_id\<rparr>))"

definition switch_active_socket :: "string \<Rightarrow> string \<Rightarrow> string + unit \<Rightarrow> host \<Rightarrow> (string + unit) \<times> host" where
  "switch_active_socket link target swapped h =
     (case swapped of
        Inl e \<Rightarrow> (Err e, h)
      | Inr _ \<Rightarrow> (Ok (), h\<lparr>h_socket_links := (h_socket_links h)(link \<mapsto> target)\<rparr>))"

definition rollback_to_parent ::
    "string \<Rightarrow> string option \<Rightarrow> string option \<Rightarrow> string + unit \<Rightarrow> string + unit \<Rightarrow> host
      \<Rightarrow> (string + unit) \<times> host" where
  "rollback_to_parent parent_id link parent_socket swapped sock_swapped h =
     (case atomic_symlink_swap parent_id swapped h of
        (Inl e, h') \<Rightarrow> (Err e, h')
      | (Inr _, h') \<Rightarrow>
          (case (link, parent_socket) of
             (Some l, Some s) \<Rightarrow> switch_active_socket l s sock_swapped h'
           | _ \<Rightarrow> (Ok (), h')))"

definition spawn_worker_process ::
    "u32 option \<Rightarrow> string \<Rightarrow> string \<Rightarrow> generation_info \<Rightarrow> (string + u32) \<times> generation_info" where
  "spawn_worker_process spawned exe_text socket_path g =
     (case spawned of
        None \<Rightarrow> (Err (''Failed to spawn worker executable '' @ exe_text), g)
      | Some pid \<Rightarrow> (Ok pid, g\<lparr>gi_pid := Some pid, gi_socket_path := Some socket_path, gi_state := Starting\<rparr>))"

definition WORKER_ENV_PASSTHROUGH :: "string list" where
  "WORKER_ENV_PASSTHROUGH = [''PATH'', ''HOME'', ''LANG'', ''LC_ALL'', ''TMPDIR'', ''RUST_BACKTRACE'']"

definition WORKER_ENV_PREFIX :: string where "WORKER_ENV_PREFIX = ''RSI_CANARY_''"

definition worker_environment ::
    "(string \<times> string) list \<Rightarrow> (string \<times> string) list \<Rightarrow> (string \<times> string) list" where
  "worker_environment vars extra =
     filter (\<lambda>(key, _). key \<in> set WORKER_ENV_PASSTHROUGH \<or> starts_with WORKER_ENV_PREFIX key) vars @ extra"

section \<open>Memory\<close>

text \<open>\<open>split_whitespace\<close> on ASCII text, and \<open>str::parse\<close> at \<open>u64\<close>.\<close>

fun split_ws :: "string \<Rightarrow> string \<Rightarrow> string list" where
  "split_ws acc [] = (if acc = [] then [] else [rev acc])"
| "split_ws acc (c # s) =
     (if (of_char c :: nat) < 128 \<and> is_whitespace (of_char c)
        then (if acc = [] then [] else [rev acc]) @ split_ws [] s
      else split_ws (c # acc) s)"

fun digits_value :: "nat \<Rightarrow> string \<Rightarrow> nat option" where
  "digits_value n [] = Some n"
| "digits_value n (c # s) =
     (let d = of_char c :: nat in
      if 48 \<le> d \<and> d < 58 then digits_value (10 * n + (d - 48)) s else None)"

definition parse_u64 :: "string \<Rightarrow> u64 option" where
  "parse_u64 s =
     (let body = (case s of c # t \<Rightarrow> if c = CHR ''+'' then t else s | [] \<Rightarrow> []) in
      if body = [] then None
      else case digits_value 0 body of
          None \<Rightarrow> None
        | Some n \<Rightarrow> if n < 2 ^ 64 then Some (of_nat n) else None)"

definition check_unified_memory_mb :: "u64 \<Rightarrow> bytes option \<Rightarrow> string + u64" where
  "check_unified_memory_mb page_size_kb statm =
     (case statm of
        None \<Rightarrow> Err ''Failed to read statm''
      | Some content \<Rightarrow>
          (case split_ws [] content of
             _ # resident # _ \<Rightarrow>
               (case parse_u64 resident of
                  None \<Rightarrow> Err ''Failed to parse resident pages''
                | Some pages \<Rightarrow> Ok ((pages * page_size_kb) div 1024))
           | _ \<Rightarrow> Err ''Malformed statm output''))"

definition is_memory_within_budget :: "u64 \<Rightarrow> u64 \<Rightarrow> bytes option \<Rightarrow> string + bool" where
  "is_memory_within_budget limit_mb page_size_kb statm =
     and_then (check_unified_memory_mb page_size_kb statm) (\<lambda>current. Ok (current \<le> limit_mb))"

section \<open>The early safety budgets\<close>

definition count_transaction :: "bool \<Rightarrow> u64 \<Rightarrow> generation_info \<Rightarrow> generation_info" where
  "count_transaction success latency_us g =
     g\<lparr>gi_canary_transactions := gi_canary_transactions g + 1,
       gi_canary_errors := (if \<not> success then gi_canary_errors g + 1 else gi_canary_errors g),
       gi_max_latency_us := (if latency_us > gi_max_latency_us g then latency_us else gi_max_latency_us g),
       gi_total_latency_us := gi_total_latency_us g + latency_us\<rparr>"

definition record_canary_transaction ::
    "u64 \<Rightarrow> u64 \<Rightarrow> bytes option \<Rightarrow> bool \<Rightarrow> u64 \<Rightarrow> u64 \<Rightarrow> rat \<Rightarrow> generation_info
      \<Rightarrow> (budget_error + generation_state) \<times> generation_info" where
  "record_canary_transaction limit_mb page_kb statm success latency_us max_latency_us max_error_rate gen_info =
     (let g = count_transaction success latency_us gen_info in
      if max_latency_us > 0 \<and> latency_us > max_latency_us
        then (Err (LatencyExceeded latency_us max_latency_us (gi_canary_transactions g)), g\<lparr>gi_state := Reverting\<rparr>)
      else
        let error_rate = f64_div (f64_of_u64 (gi_canary_errors g)) (f64_of_u64 (gi_canary_transactions g)) in
        if error_rate > max_error_rate
          then (Err (ErrorRateExceeded (gi_canary_errors g) (gi_canary_transactions g) max_error_rate),
                g\<lparr>gi_state := Reverting\<rparr>)
        else
          (case gi_pid g of
             None \<Rightarrow> (Ok CanaryActive, g\<lparr>gi_state := CanaryActive\<rparr>)
           | Some pid \<Rightarrow>
               (case is_memory_within_budget limit_mb page_kb statm of
                  Inr True \<Rightarrow> (Ok CanaryActive, g\<lparr>gi_state := CanaryActive\<rparr>)
                | Inr False \<Rightarrow> (Err (MemoryExceeded pid limit_mb), g\<lparr>gi_state := Reverting\<rparr>)
                | Inl e \<Rightarrow> (Err (MemoryUnreadable pid e), g\<lparr>gi_state := Reverting\<rparr>))))"

section \<open>The daemon\<close>

record supervisor_config =
  sc_rsi_root :: string
  sc_memory_limit_mb :: u64
  sc_max_latency_us :: u64
  sc_max_error_rate :: rat
  sc_shared_secret :: string

record daemon =
  d_host :: host
  d_active_generation :: "generation_info option"
  d_canary_generation :: "generation_info option"
  d_observation_log :: "(log_writer \<times> bytes) option"

record env =
  e_nonce :: string
  e_challenge :: "((string + unit) \<times> (string + worker_message)) option"
  e_now_ms :: u64
  e_log_io :: io
  e_swapped :: "string + unit"
  e_sock_swapped :: "string + unit"
  e_statm :: "bytes option"
  e_page_kb :: u64
  e_dbg :: "worker_message \<Rightarrow> string"
  e_budget_text :: "budget_error \<Rightarrow> string"

definition stage_canary ::
    "string \<Rightarrow> string \<Rightarrow> string \<Rightarrow> string \<Rightarrow> tree \<times> (string + unit) \<Rightarrow> daemon \<Rightarrow> (string + generation_info) \<times> daemon" where
  "stage_canary generations_root generation_id manifest_digest now copied d =
     (case stage_generation generations_root generation_id manifest_digest now copied (d_host d) of
        (Inl e, h) \<Rightarrow> (Err e, d\<lparr>d_host := h\<rparr>)
      | (Inr g, h) \<Rightarrow> (Ok g, d\<lparr>d_host := h, d_canary_generation := Some g\<rparr>))"

definition attach_observation_log :: "log_writer \<times> bytes \<Rightarrow> daemon \<Rightarrow> daemon" where
  "attach_observation_log w d = d\<lparr>d_observation_log := Some w\<rparr>"

definition detach_observation_log :: "daemon \<Rightarrow> (log_writer \<times> bytes) option \<times> daemon" where
  "detach_observation_log d = (d_observation_log d, d\<lparr>d_observation_log := None\<rparr>)"

text \<open>A rejection is recorded in the open log, if any; failing to record it is only traced.\<close>

definition reject :: "crates \<Rightarrow> env \<Rightarrow> string \<Rightarrow> daemon \<Rightarrow> daemon" where
  "reject X e reason d =
     (case d_observation_log d of
        None \<Rightarrow> d
      | Some s \<Rightarrow>
          (case append_rejection X (e_log_io e) reason (e_now_ms e) s of
             (_, s') \<Rightarrow> d\<lparr>d_observation_log := Some s'\<rparr>))"

definition trigger_instant_rollback ::
    "supervisor_config \<Rightarrow> env \<Rightarrow> string \<Rightarrow> daemon \<Rightarrow> (string + unit) \<times> daemon" where
  "trigger_instant_rollback cfg e active_socket_link d =
     (let rolled =
        (case d_active_generation d of
           None \<Rightarrow> (Ok (), d_host d)
         | Some parent \<Rightarrow>
             rollback_to_parent (gi_generation_id parent) (Some active_socket_link)
               (Some (sc_rsi_root cfg @ ''/workers/'' @ gi_generation_id parent @ ''.sock''))
               (e_swapped e) (e_sock_swapped e) (d_host d))
      in case rolled of
          (Inl err, h) \<Rightarrow> (Err err, d\<lparr>d_host := h\<rparr>)
        | (Inr _, h) \<Rightarrow>
            (Ok (), d\<lparr>d_host := h,
               d_canary_generation := map_option (\<lambda>c. c\<lparr>gi_state := Reverted\<rparr>) (d_canary_generation d)\<rparr>))"

fun claimed_generation :: "worker_message \<Rightarrow> string option" where
  "claimed_generation (Heartbeat g _ _ _) = Some g"
| "claimed_generation (DrainComplete g) = Some g"
| "claimed_generation (CanaryReport g _ _ _ _) = Some g"
| "claimed_generation (ExecuteResult _ g _ _ _) = Some g"
| "claimed_generation _ = None"

text \<open>\<open>Ready\<close>: the handshake on an unauthenticated connection.\<close>

definition process_ready ::
    "crates \<Rightarrow> supervisor_config \<Rightarrow> env \<Rightarrow> auth_state \<Rightarrow> worker_message \<Rightarrow> daemon
      \<Rightarrow> (string + supervisor_message option) \<times> auth_state \<times> daemon" where
  "process_ready X cfg e auth msg d =
     (let refuse = (\<lambda>reason. (Err reason, auth, reject X e reason d)) in
      if auth \<noteq> Unauthenticated then refuse ''repeated Ready on an authenticated connection''
      else case d_canary_generation d of
          None \<Rightarrow> refuse ''Ready while no canary generation is staged''
        | Some c \<Rightarrow>
            let expected = gi_generation_id c in
            (case check_ready (e_dbg e) expected msg of
               Inl failure \<Rightarrow> refuse (failure_display failure)
             | Inr (pid, v) \<Rightarrow>
                 (case e_challenge e of
                    None \<Rightarrow> refuse ''HMAC challenge not answered before the readiness deadline''
                  | Some (sent, answer) \<Rightarrow>
                      (case challenge_worker X (e_dbg e) expected (sc_shared_secret cfg) (e_nonce e) sent answer of
                         Inl failure \<Rightarrow> refuse (failure_display failure)
                       | Inr _ \<Rightarrow>
                           (Ok (Some Ping), Authenticated expected pid v,
                            d\<lparr>d_canary_generation := Some (c\<lparr>gi_state := Ready, gi_pid := Some pid\<rparr>)\<rparr>)))))"

definition process_heartbeat ::
    "supervisor_config \<Rightarrow> env \<Rightarrow> string \<Rightarrow> u64 \<Rightarrow> string \<Rightarrow> daemon
      \<Rightarrow> (string + supervisor_message option) \<times> daemon" where
  "process_heartbeat cfg e generation_id memory_mb active_socket_link d =
     (case d_canary_generation d of
        Some c \<Rightarrow>
          if gi_generation_id c = generation_id \<and> memory_mb > sc_memory_limit_mb cfg then
            (case trigger_instant_rollback cfg e active_socket_link
                    (d\<lparr>d_canary_generation := Some (c\<lparr>gi_state := Reverting\<rparr>)\<rparr>) of
               (Inl err, d') \<Rightarrow> (Err err, d')
             | (Inr _, d') \<Rightarrow>
                 (Ok (Some (RevertOrder (''Memory budget exceeded: '' @ dec_nat (unat memory_mb) @ '' MB > '' @
                    dec_nat (unat (sc_memory_limit_mb cfg)) @ '' MB limit''))), d'))
          else (Ok (Some Ping), d)
      | None \<Rightarrow> (Ok (Some Ping), d))"

definition process_report ::
    "supervisor_config \<Rightarrow> env \<Rightarrow> string \<Rightarrow> bool \<Rightarrow> u64 \<Rightarrow> string option \<Rightarrow> string \<Rightarrow> daemon
      \<Rightarrow> (string + supervisor_message option) \<times> daemon" where
  "process_report cfg e generation_id success latency_us error active_socket_link d =
     (case d_canary_generation d of
        Some c \<Rightarrow>
          if gi_generation_id c = generation_id then
            (case record_canary_transaction (sc_memory_limit_mb cfg) (e_page_kb e) (e_statm e) success latency_us
                    (sc_max_latency_us cfg) (sc_max_error_rate cfg) c of
               (Inr _, c') \<Rightarrow> (Ok None, d\<lparr>d_canary_generation := Some c'\<rparr>)
             | (Inl budget_err, c') \<Rightarrow>
                 (let reason = (case error of
                       Some orig \<Rightarrow> orig @ '': '' @ e_budget_text e budget_err
                     | None \<Rightarrow> e_budget_text e budget_err) in
                  case trigger_instant_rollback cfg e active_socket_link (d\<lparr>d_canary_generation := Some c'\<rparr>) of
                    (Inl err, d') \<Rightarrow> (Err err, d')
                  | (Inr _, d') \<Rightarrow> (Ok (Some (RevertOrder reason)), d')))
          else (Ok None, d)
      | None \<Rightarrow> (Ok None, d))"

definition process_worker_message ::
    "crates \<Rightarrow> supervisor_config \<Rightarrow> env \<Rightarrow> auth_state \<Rightarrow> worker_message \<Rightarrow> string \<Rightarrow> daemon
      \<Rightarrow> (string + supervisor_message option) \<times> auth_state \<times> daemon" where
  "process_worker_message X cfg e auth msg active_socket_link d =
     (let refuse = (\<lambda>reason. (Err reason, auth, reject X e reason d)); keep = (\<lambda>(r, d'). (r, auth, d')) in
      case msg of
        ReadyMsg _ _ _ _ \<Rightarrow> process_ready X cfg e auth msg d
      | _ \<Rightarrow>
          (case auth of
             Unauthenticated \<Rightarrow> refuse (''message on an unauthenticated connection: '' @ e_dbg e msg)
           | Authenticated generation_id _ _ \<Rightarrow>
               if claimed_generation msg \<noteq> None \<and> claimed_generation msg \<noteq> Some generation_id then
                 refuse (''connection authenticated for generation '' @ generation_id @
                   '' sent a message naming generation '' @ the (claimed_generation msg))
               else (case msg of
                   Heartbeat _ _ _ memory_mb \<Rightarrow>
                     keep (process_heartbeat cfg e generation_id memory_mb active_socket_link d)
                 | CanaryReport _ _ success latency_us error \<Rightarrow>
                     keep (process_report cfg e generation_id success latency_us error active_socket_link d)
                 | DrainComplete _ \<Rightarrow> (Ok None, auth, d)
                 | Pong \<Rightarrow> (Ok None, auth, d)
                 | AuthResponse _ \<Rightarrow> refuse ''AuthResponse outside a handshake''
                 | ExecuteResult _ _ request_id _ _ \<Rightarrow>
                     (Ok None, auth, reject X e (''unsolicited ExecuteResult for request '' @ request_id) d)
                 | ReadyMsg _ _ _ _ \<Rightarrow> (Ok None, auth, d))))"

text \<open>The loop of \<open>run_server\<close> over the frames of one accepted connection.  A frame is \<open>None\<close> when the
  readiness deadline passes first, \<open>Inl\<close> when the receive fails; the loop returns the replies sent.\<close>

fun serve_connection ::
    "crates \<Rightarrow> supervisor_config \<Rightarrow> string \<Rightarrow> auth_state \<Rightarrow> (env \<times> (string + worker_message) option) list
      \<Rightarrow> daemon \<Rightarrow> supervisor_message list \<times> auth_state \<times> daemon" where
  "serve_connection X cfg link auth [] d = ([], auth, d)"
| "serve_connection X cfg link auth ((e, None) # frames) d =
     (if auth = Unauthenticated then ([], auth, reject X e ''connection silent past the readiness deadline'' d)
      else serve_connection X cfg link auth frames d)"
| "serve_connection X cfg link auth ((e, Some (Inl err)) # frames) d = ([], auth, d)"
| "serve_connection X cfg link auth ((e, Some (Inr msg)) # frames) d =
     (case process_worker_message X cfg e auth msg link d of
        (Inl err, auth', d') \<Rightarrow> ([], auth', d')
      | (Inr reply, auth', d') \<Rightarrow>
          (let (replies, rest) = serve_connection X cfg link auth' frames d' in
           ((case reply of None \<Rightarrow> [] | Some r \<Rightarrow> [r]) @ replies, rest)))"

end
