(* ===== verification/Supervisor_Safety.thy ===== *)
theory Supervisor_Safety
  imports Supervisor
begin

text \<open>
  What the daemon's message loop guarantees (\<open>src/src/supervisor/daemon.rs\<close>): authentication by HMAC,
  no promotion by worker frames, refusal of foreign frames, the early budgets, and the integrity of
  the attached observation log.  \<open>cautious\<close> is the relation every handler keeps between the daemon
  before and after a frame.
\<close>

section \<open>What a frame can change\<close>

text \<open>\<open>cautious\<close> relates the daemon before and after: the active generation, the installed
  generations and the identity of the canary stay; the active link stays or goes to the parent; the
  canary does not become \<open>Durable\<close>.\<close>

definition cautious_canary :: "generation_info option \<Rightarrow> generation_info option \<Rightarrow> bool" where
  "cautious_canary c c' \<longleftrightarrow> map_option gi_generation_id c' = map_option gi_generation_id c
     \<and> map_option gi_manifest_digest c' = map_option gi_manifest_digest c
     \<and> (map_option gi_state c' = Some Durable \<longrightarrow> map_option gi_state c = Some Durable)"

definition cautious :: "daemon \<Rightarrow> daemon \<Rightarrow> bool" where
  "cautious d d' \<longleftrightarrow> d_active_generation d' = d_active_generation d
     \<and> h_generations (d_host d') = h_generations (d_host d)
     \<and> (h_active (d_host d') = h_active (d_host d)
        \<or> h_active (d_host d') = map_option gi_generation_id (d_active_generation d))
     \<and> cautious_canary (d_canary_generation d) (d_canary_generation d')"

lemma cautious_refl [simp, intro]: "cautious d d"
  by (simp add: cautious_def cautious_canary_def)

lemma cautious_trans [trans]: "cautious a b \<Longrightarrow> cautious b c \<Longrightarrow> cautious a c"
  unfolding cautious_def cautious_canary_def by metis

lemma reject_simps [simp]:
  "d_host (reject X e r d) = d_host d" "d_active_generation (reject X e r d) = d_active_generation d"
  "d_canary_generation (reject X e r d) = d_canary_generation d"
  by (simp_all add: reject_def split: option.split prod.split)

lemma cautious_reject [simp]: "cautious d (reject X e r d)"
  by (simp add: cautious_def cautious_canary_def)

lemma record_transaction_state:
  "record_canary_transaction l p s ok lat maxlat rate g = (r, g') \<Longrightarrow>
   gi_generation_id g' = gi_generation_id g \<and> gi_manifest_digest g' = gi_manifest_digest g
   \<and> gi_state g' = (if is_ok r then CanaryActive else Reverting)"
  by (auto simp: record_canary_transaction_def count_transaction_def Let_def
      split: if_splits option.splits sum.splits bool.splits)

lemma rollback_host:
  "rollback_to_parent p l s sw so h = (r, h') \<Longrightarrow> h_generations h' = h_generations h
     \<and> (h_active h' = h_active h \<or> h_active h' = Some p) \<and> (is_ok r \<longrightarrow> h_active h' = Some p)"
  by (auto simp: rollback_to_parent_def atomic_symlink_swap_def switch_active_socket_def
      split: if_splits option.splits sum.splits prod.splits)

lemma trigger_cautious:
  "trigger_instant_rollback cfg e link d = (r, d') \<Longrightarrow> cautious d d'
     \<and> d_observation_log d' = d_observation_log d
     \<and> (is_ok r \<longrightarrow> d_canary_generation d' = map_option (\<lambda>c. c\<lparr>gi_state := Reverted\<rparr>) (d_canary_generation d)
          \<and> (\<forall>p. d_active_generation d = Some p \<longrightarrow> h_active (d_host d') = Some (gi_generation_id p)))"
proof (cases "d_active_generation d")
  case None
  assume "trigger_instant_rollback cfg e link d = (r, d')"
  with None show ?thesis
    by (cases "d_canary_generation d") (auto simp: trigger_instant_rollback_def cautious_def cautious_canary_def)
next
  case (Some p)
  assume t: "trigger_instant_rollback cfg e link d = (r, d')"
  obtain q h' where q: "rollback_to_parent (gi_generation_id p) (Some link)
      (Some (sc_rsi_root cfg @ ''/workers/'' @ gi_generation_id p @ ''.sock'')) (e_swapped e) (e_sock_swapped e) (d_host d) = (q, h')"
    by fastforce
  from rollback_host [OF q] t Some q show ?thesis
    by (cases q; cases "d_canary_generation d")
       (auto simp: trigger_instant_rollback_def Let_def cautious_def cautious_canary_def)
qed

lemma cautious_update_canary:
  assumes "d_canary_generation d = Some c" and "gi_generation_id c' = gi_generation_id c"
    and "gi_manifest_digest c' = gi_manifest_digest c" and "gi_state c' \<noteq> Durable"
  shows "cautious d (d\<lparr>d_canary_generation := Some c'\<rparr>)"
  using assms by (simp add: cautious_def cautious_canary_def)

lemma process_ready_cautious:
  "process_ready X cfg e auth msg d = (r, auth', d') \<Longrightarrow> cautious d d'"
  by (auto simp: process_ready_def Let_def intro!: cautious_update_canary
      split: if_splits option.splits sum.splits prod.splits)

lemma process_heartbeat_cautious:
  assumes "process_heartbeat cfg e g mem link d = (r, d')"
  shows "cautious d d'"
proof (cases "\<exists>c. d_canary_generation d = Some c \<and> gi_generation_id c = g \<and> mem > sc_memory_limit_mb cfg")
  case True
  then obtain c where c: "d_canary_generation d = Some c" "gi_generation_id c = g" "mem > sc_memory_limit_mb cfg" by blast
  let ?d = "d\<lparr>d_canary_generation := Some (c\<lparr>gi_state := Reverting\<rparr>)\<rparr>"
  obtain q d2 where q: "trigger_instant_rollback cfg e link ?d = (q, d2)" by fastforce
  have "cautious d ?d" using c(1) by (intro cautious_update_canary) auto
  also have "cautious ?d d2" using trigger_cautious [OF q] by blast
  also have "d2 = d'" using assms c q by (cases q) (auto simp: process_heartbeat_def)
  finally show ?thesis .
next
  case False
  with assms show ?thesis by (auto simp: process_heartbeat_def split: option.splits if_splits)
qed

lemma process_report_cautious:
  assumes "process_report cfg e g ok lat err link d = (r, d')"
  shows "cautious d d'"
proof (cases "\<exists>c. d_canary_generation d = Some c \<and> gi_generation_id c = g")
  case True
  then obtain c where c: "d_canary_generation d = Some c" "gi_generation_id c = g" by blast
  obtain q c' where q: "record_canary_transaction (sc_memory_limit_mb cfg) (e_page_kb e) (e_statm e) ok lat
      (sc_max_latency_us cfg) (sc_max_error_rate cfg) c = (q, c')" by fastforce
  let ?d = "d\<lparr>d_canary_generation := Some c'\<rparr>"
  have step: "cautious d ?d"
    using record_transaction_state [OF q] c(1) by (intro cautious_update_canary) auto
  show ?thesis
  proof (cases q)
    case (Inr s)
    with assms c q step show ?thesis by (auto simp: process_report_def)
  next
    case (Inl b)
    obtain q2 d2 where q2: "trigger_instant_rollback cfg e link ?d = (q2, d2)" by fastforce
    from trigger_cautious [OF q2] have "cautious ?d d2" by blast
    with step have "cautious d d2" by (rule cautious_trans)
    moreover have "d2 = d'" using assms c q q2 Inl by (cases q2) (auto simp: process_report_def Let_def)
    ultimately show ?thesis by simp
  qed
next
  case False
  with assms show ?thesis by (auto simp: process_report_def split: option.splits if_splits)
qed

lemma process_message_cautious:
  assumes "process_worker_message X cfg e auth msg link d = (r, auth', d')"
  shows "cautious d d'"
proof (cases msg)
  case (ReadyMsg g pid t v)
  with assms process_ready_cautious show ?thesis by (simp add: process_worker_message_def Let_def)
next
  case (Heartbeat g t a mem)
  with assms process_heartbeat_cautious [of cfg e g mem link d] show ?thesis
    by (auto simp: process_worker_message_def Let_def split: auth_state.splits if_splits prod.splits)
next
  case (CanaryReport g i ok lat err)
  with assms process_report_cautious [of cfg e g ok lat err link d] show ?thesis
    by (auto simp: process_worker_message_def Let_def split: auth_state.splits if_splits prod.splits)
qed (use assms in \<open>auto simp: process_worker_message_def Let_def split: auth_state.splits if_splits\<close>)

lemma serve_connection_cautious:
  "serve_connection X cfg link auth frames d = (replies, auth', d') \<Longrightarrow> cautious d d'"
proof (induction X cfg link auth frames d arbitrary: replies auth' d' rule: serve_connection.induct)
  case (2 X cfg link auth e frames d)
  then show ?case by (auto split: if_splits)
next
  case (4 X cfg link auth e msg frames d)
  obtain r a d1 where p: "process_worker_message X cfg e auth msg link d = (r, a, d1)" by (metis prod_cases3)
  from process_message_cautious [OF p] have c: "cautious d d1" .
  show ?case
  proof (cases r)
    case (Inl err)
    with p "4.prems" c show ?thesis by simp
  next
    case (Inr reply)
    obtain reps a2 d2 where s: "serve_connection X cfg link a frames d1 = (reps, a2, d2)" by (metis prod_cases3)
    from "4.IH" [OF p [symmetric] Inr refl s] have "cautious d1 d2" .
    with c have "cautious d d2" by (rule cautious_trans)
    with p Inr s "4.prems" show ?thesis by simp
  qed
qed auto

section \<open>Authentication\<close>

lemma process_authenticates:
  assumes "process_worker_message X cfg e Unauthenticated msg link d = (r, Authenticated g pid v, d')"
  shows "v = CANARY_PROTOCOL_VERSION \<and> r = Ok (Some Ping)
    \<and> (\<exists>c token. d_canary_generation d = Some c \<and> g = gi_generation_id c
        \<and> msg = ReadyMsg g pid token CANARY_PROTOCOL_VERSION
        \<and> e_challenge e = Some (Ok (), Ok (AuthResponse (compute_hmac X (sc_shared_secret cfg) (g @ '':'' @ e_nonce e))))
        \<and> d' = d\<lparr>d_canary_generation := Some (c\<lparr>gi_state := Ready, gi_pid := Some pid\<rparr>)\<rparr>)"
proof (cases msg)
  case (ReadyMsg g' p t v')
  with assms show ?thesis
    by (auto simp: process_worker_message_def Let_def process_ready_def challenge_worker_Ok check_ready_Ok is_ok_iff
        split: option.splits sum.splits prod.splits)
qed (use assms in \<open>simp_all add: process_worker_message_def\<close>)

lemma process_keeps_authenticated:
  assumes "process_worker_message X cfg e (Authenticated g pid v) msg link d = (r, auth', d')"
  shows "auth' = Authenticated g pid v"
  using assms by (cases msg) (auto simp: process_worker_message_def Let_def process_ready_def split: if_splits prod.splits)

section \<open>Frames the daemon refuses\<close>

definition foreign :: "auth_state \<Rightarrow> worker_message \<Rightarrow> bool" where
  "foreign auth msg \<longleftrightarrow> (case auth of
     Unauthenticated \<Rightarrow> (\<forall>g p t v. msg \<noteq> ReadyMsg g p t v)
   | Authenticated g _ _ \<Rightarrow> (\<exists>g'. claimed_generation msg = Some g' \<and> g' \<noteq> g))"

lemma process_foreign:
  assumes "foreign auth msg"
  shows "\<exists>reason. process_worker_message X cfg e auth msg link d = (Err reason, auth, reject X e reason d)"
  using assms by (cases msg; cases auth) (auto simp: foreign_def process_worker_message_def Let_def)

section \<open>The observation log of the daemon\<close>

definition log_of :: "crates \<Rightarrow> daemon \<Rightarrow> observation list \<Rightarrow> bool" where
  "log_of X d obs \<longleftrightarrow> (\<exists>w b. d_observation_log d = Some (w, b) \<and> open_log X w b obs)"

lemma reject_log:
  assumes "log_of X d obs" and "e_log_io e = IoOk"
  shows "log_of X (reject X e reason d) obs"
proof -
  from assms(1) obtain w b where w: "d_observation_log d = Some (w, b)" "open_log X w b obs"
    by (auto simp: log_of_def)
  obtain r w' b' where a: "append_rejection X IoOk reason (e_now_ms e) (w, b) = (r, w', b')" by (metis prod_cases3)
  from append_rejection_open [OF w(2) a] w(1) a assms(2) show ?thesis by (simp add: reject_def log_of_def)
qed

lemma process_log_cases:
  "process_worker_message X cfg e auth msg link d = (r, auth', d') \<Longrightarrow>
   d_observation_log d' = d_observation_log d \<or> (\<exists>reason. d' = reject X e reason d)"
proof -
  assume p: "process_worker_message X cfg e auth msg link d = (r, auth', d')"
  have t: "trigger_instant_rollback cfg e link d1 = (q, d2) \<Longrightarrow> d_observation_log d2 = d_observation_log d1" for d1 q d2
    using trigger_cautious by blast
  show ?thesis
  proof (cases msg)
    case (ReadyMsg g pid tk v)
    with p show ?thesis
      by (auto simp: process_worker_message_def Let_def process_ready_def split: if_splits option.splits sum.splits prod.splits)
  next
    case (Heartbeat g tm a mem)
    with p show ?thesis
      by (auto simp: process_worker_message_def Let_def process_heartbeat_def dest!: t
          split: auth_state.splits if_splits option.splits sum.splits prod.splits)
  next
    case (CanaryReport g i ok lat err)
    with p show ?thesis
      by (auto simp: process_worker_message_def Let_def process_report_def dest!: t
          split: auth_state.splits if_splits option.splits sum.splits prod.splits)
  qed (use p in \<open>auto simp: process_worker_message_def Let_def split: auth_state.splits if_splits\<close>)
qed

lemma process_log:
  assumes "process_worker_message X cfg e auth msg link d = (r, auth', d')"
    and "log_of X d obs" and "e_log_io e = IoOk"
  shows "log_of X d' obs"
  using process_log_cases [OF assms(1)] assms(2) reject_log [OF assms(2,3)] by (auto simp: log_of_def)

lemma serve_log:
  "serve_connection X cfg link auth frames d = (replies, auth', d') \<Longrightarrow> log_of X d obs \<Longrightarrow>
   list_all (\<lambda>(e, _). e_log_io e = IoOk) frames \<Longrightarrow> log_of X d' obs"
proof (induction X cfg link auth frames d arbitrary: replies auth' d' rule: serve_connection.induct)
  case (2 X cfg link auth e frames d)
  then show ?case using reject_log by (auto split: if_splits)
next
  case (4 X cfg link auth e msg frames d)
  obtain r a d1 where p: "process_worker_message X cfg e auth msg link d = (r, a, d1)" by (metis prod_cases3)
  from process_log [OF p "4.prems"(2)] "4.prems"(3) have l: "log_of X d1 obs" by simp
  show ?case
  proof (cases r)
    case (Inl err)
    with p "4.prems"(1) l show ?thesis by simp
  next
    case (Inr reply)
    obtain reps a2 d2 where s: "serve_connection X cfg link a frames d1 = (reps, a2, d2)" by (metis prod_cases3)
    from "4.IH" [OF p [symmetric] Inr refl s l] "4.prems"(3) have "log_of X d2 obs" by simp
    with p Inr s "4.prems"(1) show ?thesis by simp
  qed
qed auto

section \<open>Budgets\<close>

definition within_budget ::
    "u64 \<Rightarrow> u64 \<Rightarrow> bytes option \<Rightarrow> u64 \<Rightarrow> u64 \<Rightarrow> rat \<Rightarrow> generation_info \<Rightarrow> bool" where
  "within_budget limit_mb page_kb statm latency_us max_latency_us max_error_rate g \<longleftrightarrow>
     (max_latency_us = 0 \<or> latency_us \<le> max_latency_us)
     \<and> f64_div (f64_of_u64 (gi_canary_errors g)) (f64_of_u64 (gi_canary_transactions g)) \<le> max_error_rate
     \<and> (gi_pid g = None \<or> is_memory_within_budget limit_mb page_kb statm = Ok True)"

lemma record_transaction_exact:
  "is_ok (fst (record_canary_transaction limit_mb page_kb statm success lat maxlat rate g)) \<longleftrightarrow>
     within_budget limit_mb page_kb statm lat maxlat rate (count_transaction success lat g)"
  by (auto simp: record_canary_transaction_def within_budget_def Let_def not_less word_neq_0_conv
      split: option.split sum.split bool.split)

lemma zero_tolerance:
  assumes "\<not> success" and "gi_canary_errors g + 1 \<noteq> 0" and "gi_canary_transactions g + 1 \<noteq> 0"
  shows "\<not> within_budget limit_mb page_kb statm lat maxlat 0 (count_transaction success lat g)"
  using f64_div_pos [OF f64_of_u64_pos [OF assms(2)] f64_of_u64_pos [OF assms(3)]] assms(1)
  by (simp add: within_budget_def count_transaction_def not_le)

lemma report_reverts:
  assumes "d_canary_generation d = Some c" and "gi_generation_id c = g"
    and "\<not> within_budget (sc_memory_limit_mb cfg) (e_page_kb e) (e_statm e) lat (sc_max_latency_us cfg)
           (sc_max_error_rate cfg) (count_transaction success lat c)"
    and "process_worker_message X cfg e (Authenticated g pid v) (CanaryReport g i success lat err) link d = (Ok r, auth', d')"
  shows "\<exists>reason. r = Some (RevertOrder reason)
    \<and> map_option gi_state (d_canary_generation d') = Some Reverted
    \<and> (\<forall>p. d_active_generation d = Some p \<longrightarrow> h_active (d_host d') = Some (gi_generation_id p))"
proof -
  obtain q c' where q: "record_canary_transaction (sc_memory_limit_mb cfg) (e_page_kb e) (e_statm e) success lat
      (sc_max_latency_us cfg) (sc_max_error_rate cfg) c = (q, c')" by fastforce
  with assms(3) record_transaction_exact [of "sc_memory_limit_mb cfg" "e_page_kb e" "e_statm e" success lat
      "sc_max_latency_us cfg" "sc_max_error_rate cfg" c] obtain b where b: "q = Err b" by (cases q) simp_all
  let ?d = "d\<lparr>d_canary_generation := Some c'\<rparr>"
  obtain q2 d2 where q2: "trigger_instant_rollback cfg e link ?d = (q2, d2)" by fastforce
  from assms(1,2,4) q b q2 have ok: "is_ok q2" "d2 = d'" and r: "\<exists>reason. r = Some (RevertOrder reason)"
    by (cases q2; auto simp: process_worker_message_def Let_def process_report_def)+
  from trigger_cautious [OF q2] ok r show ?thesis by auto
qed

section \<open>Numbers in texts\<close>

lemma digits_value_append:
  "digits_value n (s @ t) = (case digits_value n s of None \<Rightarrow> None | Some m \<Rightarrow> digits_value m t)"
  by (induction n s rule: digits_value.induct) (auto simp: Let_def)

lemma digits_value_dec_nat: "digits_value 0 (dec_nat n) = Some n"
proof (induction n rule: dec_nat.induct)
  case (1 n)
  have last: "digits_value m [char_of (48 + k)] = Some (10 * m + k)" if "k < 10" for m k :: nat
    using that by (simp add: Let_def)
  show ?case
  proof (cases "n < 10")
    case True
    then show ?thesis using last [of n 0] by (simp add: dec_nat.simps [of n])
  next
    case False
    have "digits_value 0 (dec_nat n) = digits_value (n div 10) [char_of (48 + n mod 10)]"
      using False 1 by (subst dec_nat.simps) (simp add: digits_value_append)
    with last [of "n mod 10" "n div 10"] show ?thesis by simp
  qed
qed

lemma parse_u64_dec_nat: "parse_u64 (dec_nat (unat w)) = Some w"
proof -
  obtain h t where ht: "dec_nat (unat w) = h # t" "h \<in> decimal" using dec_nat_hd by blast
  then have "h \<noteq> CHR ''+''" by (auto simp: decimal_def)
  with ht digits_value_dec_nat [of "unat w"] show ?thesis
    using unsigned_less [of w] by (simp add: parse_u64_def)
qed

lemma split_ws_plain: "\<forall>c \<in> set s. \<not> ((of_char c :: nat) < 128 \<and> is_whitespace (of_char c)) \<Longrightarrow>
    split_ws acc (s @ CHR '' '' # t) = (if rev acc @ s = [] then [] else [rev acc @ s]) @ split_ws [] t"
proof (induction s arbitrary: acc)
  case Nil
  have "is_whitespace (of_char (CHR '' ''))" by (simp add: is_whitespace_def)
  then show ?case by simp
next
  case (Cons c s)
  then show ?case by simp
qed

lemma decimal_plain: "c \<in> decimal \<Longrightarrow> \<not> ((of_char c :: nat) < 128 \<and> is_whitespace (of_char c))"
  unfolding decimal_def by (auto simp: is_whitespace_def)

lemma statm_memory:
  "check_unified_memory_mb page_kb (Some (dec_nat (unat total_pages) @ '' '' @ dec_nat (unat pages) @ '' '' @ rest)) =
     Ok ((pages * page_kb) div 1024)"
proof -
  have "split_ws [] (dec_nat (unat total_pages) @ CHR '' '' # dec_nat (unat pages) @ CHR '' '' # rest) =
      dec_nat (unat total_pages) # dec_nat (unat pages) # split_ws [] rest"
  proof -
    have plain: "\<forall>c \<in> set (dec_nat n). \<not> ((of_char c :: nat) < 128 \<and> is_whitespace (of_char c))" for n
      using dec_nat_decimal decimal_plain by blast
    have "dec_nat n \<noteq> []" for n using dec_nat_hd [of n] by auto
    then show ?thesis by (simp add: split_ws_plain [OF plain])
  qed
  then show ?thesis by (simp add: check_unified_memory_mb_def parse_u64_dec_nat)
qed

section \<open>A sample daemon\<close>

definition sample_config :: supervisor_config where
  "sample_config = \<lparr>sc_rsi_root = ''/rsi'', sc_memory_limit_mb = 64, sc_max_latency_us = 1000,
     sc_max_error_rate = 0, sc_shared_secret = ''secret''\<rparr>"

definition generation :: "string \<Rightarrow> generation_state \<Rightarrow> generation_info" where
  "generation g s = \<lparr>gi_generation_id = g, gi_installed_path = ''/rsi/generations/'' @ g, gi_manifest_digest = ''m'',
     gi_state = s, gi_pid = None, gi_socket_path = None, gi_canary_transactions = 0, gi_canary_errors = 0,
     gi_max_latency_us = 0, gi_total_latency_us = 0, gi_staged_timestamp = ''t''\<rparr>"

definition sample_daemon :: daemon where
  "sample_daemon = \<lparr>d_host = \<lparr>h_generations = [''gen-0'' \<mapsto> Map.empty, ''gen-1'' \<mapsto> Map.empty],
       h_active = Some ''gen-1'', h_socket_links = Map.empty\<rparr>,
     d_active_generation = Some (generation ''gen-0'' Durable), d_canary_generation = Some (generation ''gen-1'' Staged),
     d_observation_log = Some (sample_writer [], sample_log [])\<rparr>"

definition sample_env :: env where
  "sample_env = \<lparr>e_nonce = ''n'', e_challenge = Some (Ok (), Ok (AuthResponse (compute_hmac sample ''secret'' ''gen-1:n''))),
     e_now_ms = 5, e_log_io = IoOk, e_swapped = Ok (), e_sock_swapped = Ok (), e_statm = None, e_page_kb = 4,
     e_dbg = (\<lambda>m. ''message''), e_budget_text = (\<lambda>b. ''budget'')\<rparr>"

lemma sample_ready:
  "process_worker_message sample sample_config sample_env Unauthenticated (ReadyMsg ''gen-1'' 7 [] 1) ''/run/active.sock'' sample_daemon =
     (Ok (Some Ping), Authenticated ''gen-1'' 7 1,
      sample_daemon\<lparr>d_canary_generation := Some ((generation ''gen-1'' Staged)\<lparr>gi_state := Ready, gi_pid := Some 7\<rparr>)\<rparr>)"
  by (simp add: process_worker_message_def Let_def process_ready_def sample_daemon_def generation_def check_ready_def
      CANARY_PROTOCOL_VERSION_def sample_env_def challenge_worker_def verify_hmac_iff sample_config_def)

section \<open>Properties of the supervisor\<close>

text \<open>C25: A connection becomes authenticated only through the HMAC challenge: the frame is a \<open>Ready\<close> with
  the current protocol version for the staged canary generation, and the answer to the challenge is the
  HMAC, under the supervisor's secret, of that generation and the nonce of this challenge.  Then, and
  only then, the canary is marked ready with the worker's pid.\<close>

theorem authentication_requires_hmac:
  assumes "process_worker_message X cfg e Unauthenticated msg link d = (r, Authenticated g pid v, d')"
  shows "v = CANARY_PROTOCOL_VERSION \<and> r = Ok (Some Ping)
    \<and> (\<exists>c token. d_canary_generation d = Some c \<and> g = gi_generation_id c
        \<and> msg = ReadyMsg g pid token CANARY_PROTOCOL_VERSION
        \<and> e_challenge e = Some (Ok (), Ok (AuthResponse (compute_hmac X (sc_shared_secret cfg) (g @ '':'' @ e_nonce e))))
        \<and> d' = d\<lparr>d_canary_generation := Some (c\<lparr>gi_state := Ready, gi_pid := Some pid\<rparr>)\<rparr>)"
  by (rule process_authenticates [OF assms])

theorem authentication_requires_hmac_witness:
  "e_challenge sample_env = Some (Ok (), Ok (AuthResponse (compute_hmac sample (sc_shared_secret sample_config)
     (''gen-1'' @ '':'' @ e_nonce sample_env))))"
  using authentication_requires_hmac [OF sample_ready] by blast

text \<open>C26: No frame promotes.  Whatever a worker sends on a connection, in whatever order and under
  whatever failures, the active generation and the installed generations stay as they were, the active
  link stays or returns to the parent generation, the canary keeps its identity, and it does not become
  \<open>Durable\<close>.\<close>

theorem worker_frames_never_promote:
  assumes "serve_connection X cfg link auth frames d = (replies, auth', d')"
  shows "d_active_generation d' = d_active_generation d
    \<and> h_generations (d_host d') = h_generations (d_host d)
    \<and> (h_active (d_host d') = h_active (d_host d)
       \<or> h_active (d_host d') = map_option gi_generation_id (d_active_generation d))
    \<and> map_option gi_generation_id (d_canary_generation d') = map_option gi_generation_id (d_canary_generation d)
    \<and> (map_option gi_state (d_canary_generation d') = Some Durable \<longrightarrow>
       map_option gi_state (d_canary_generation d) = Some Durable)"
  using serve_connection_cautious [OF assms] by (simp add: cautious_def cautious_canary_def)

theorem worker_frames_never_promote_witness:
  "\<exists>replies auth' d'. serve_connection sample sample_config ''/run/active.sock'' Unauthenticated
      [(sample_env, Some (Ok (ReadyMsg ''gen-1'' 7 [] 1))), (sample_env, Some (Ok (DrainComplete ''gen-1'')))] sample_daemon
     = (replies, auth', d') \<and> map_option gi_state (d_canary_generation d') \<noteq> Some Durable"
proof -
  obtain replies auth' d' where s: "serve_connection sample sample_config ''/run/active.sock'' Unauthenticated
      [(sample_env, Some (Ok (ReadyMsg ''gen-1'' 7 [] 1))), (sample_env, Some (Ok (DrainComplete ''gen-1'')))] sample_daemon
     = (replies, auth', d')" by (metis prod_cases3)
  have "map_option gi_state (d_canary_generation sample_daemon) \<noteq> Some Durable"
    by (simp add: sample_daemon_def generation_def)
  with worker_frames_never_promote [OF s] s show ?thesis by blast
qed

text \<open>A frame that is not \<open>Ready\<close> on an unauthenticated connection, or that names another generation
  than the authenticated one, closes the connection and changes nothing except that the refusal is
  recorded in the observation log.\<close>

theorem foreign_frames_change_nothing:
  assumes "foreign auth msg"
  shows "\<exists>reason log. process_worker_message X cfg e auth msg link d =
     (Err reason, auth, d\<lparr>d_observation_log := log\<rparr>)"
proof -
  obtain reason where "process_worker_message X cfg e auth msg link d = (Err reason, auth, reject X e reason d)"
    using process_foreign [OF assms] by blast
  moreover have "reject X e reason d = d\<lparr>d_observation_log := d_observation_log (reject X e reason d)\<rparr>"
    by (simp add: reject_def split: option.split prod.split)
  ultimately show ?thesis by metis
qed

theorem foreign_frames_change_nothing_witness:
  "\<exists>reason log. process_worker_message sample sample_config sample_env (Authenticated ''gen-1'' 7 1)
     (Heartbeat ''gen-2'' 1 0 9999) ''/run/active.sock'' sample_daemon =
     (Err reason, Authenticated ''gen-1'' 7 1, sample_daemon\<lparr>d_observation_log := log\<rparr>)"
  by (rule foreign_frames_change_nothing) (simp add: foreign_def)

text \<open>A report outside the early budgets reverts: if latency, error rate or memory is outside its budget
  (memory that cannot be read counts as outside) and the rollback itself does not fail, the worker is
  ordered to revert, the canary is reverted and the active link points to the parent.\<close>

theorem budget_violation_reverts:
  assumes "d_canary_generation d = Some c" and "gi_generation_id c = g"
    and "\<not> within_budget (sc_memory_limit_mb cfg) (e_page_kb e) (e_statm e) lat (sc_max_latency_us cfg)
           (sc_max_error_rate cfg) (count_transaction success lat c)"
    and "process_worker_message X cfg e (Authenticated g pid v) (CanaryReport g i success lat err) link d = (Ok r, auth', d')"
  shows "\<exists>reason. r = Some (RevertOrder reason)
    \<and> map_option gi_state (d_canary_generation d') = Some Reverted
    \<and> (\<forall>p. d_active_generation d = Some p \<longrightarrow> h_active (d_host d') = Some (gi_generation_id p))"
  by (rule report_reverts [OF assms])

theorem budget_violation_reverts_witness:
  "\<exists>r auth' d'. process_worker_message sample sample_config sample_env (Authenticated ''gen-1'' 7 1)
     (CanaryReport ''gen-1'' 1 True 2000 None) ''/run/active.sock'' sample_daemon = (Ok r, auth', d')
     \<and> (\<exists>reason. r = Some (RevertOrder reason)) \<and> h_active (d_host d') = Some ''gen-0''"
proof -
  let ?c = "generation ''gen-1'' Staged"
  have c: "d_canary_generation sample_daemon = Some ?c" "gi_generation_id ?c = ''gen-1''"
    by (simp_all add: sample_daemon_def generation_def)
  have out: "\<not> within_budget (sc_memory_limit_mb sample_config) (e_page_kb sample_env) (e_statm sample_env) 2000
      (sc_max_latency_us sample_config) (sc_max_error_rate sample_config) (count_transaction True 2000 ?c)"
    by (simp add: within_budget_def sample_config_def)
  obtain r auth' d' where p: "process_worker_message sample sample_config sample_env (Authenticated ''gen-1'' 7 1)
     (CanaryReport ''gen-1'' 1 True 2000 None) ''/run/active.sock'' sample_daemon = (Ok r, auth', d')"
    by (simp add: process_worker_message_def process_report_def sample_daemon_def generation_def sample_config_def
        record_canary_transaction_def count_transaction_def Let_def trigger_instant_rollback_def rollback_to_parent_def
        atomic_symlink_swap_def switch_active_socket_def sample_env_def)
  have act: "d_active_generation sample_daemon = Some (generation ''gen-0'' Durable)" by (simp add: sample_daemon_def)
  from budget_violation_reverts [OF c out p] act p show ?thesis by (auto simp: generation_def)
qed

text \<open>The report budget is decided exactly by its three tests, with 64-bit counters and binary64
  rounding of the error rate; and with a tolerated error rate of zero the first failed transaction is
  outside the budget, whatever the number of transactions before it.\<close>

theorem error_budget_exact:
  "(is_ok (fst (record_canary_transaction limit_mb page_kb statm success lat maxlat rate g)) \<longleftrightarrow>
     within_budget limit_mb page_kb statm lat maxlat rate (count_transaction success lat g))
   \<and> (\<not> success \<longrightarrow> gi_canary_errors g + 1 \<noteq> 0 \<longrightarrow> gi_canary_transactions g + 1 \<noteq> 0 \<longrightarrow>
      \<not> within_budget limit_mb page_kb statm lat maxlat 0 (count_transaction success lat g))"
  using record_transaction_exact zero_tolerance by blast

theorem error_budget_exact_witness:
  "\<not> within_budget 64 4 None 10 1000 0 (count_transaction False 10 (generation ''g'' Ready))"
  using error_budget_exact [of 64 4 None False 10 1000 0 "generation ''g'' Ready"] by (simp add: generation_def)

text \<open>The readiness handshake accepts exactly the authenticated worker, and a worker that follows the
  protocol with the right secret is accepted.\<close>

theorem handshake_exact:
  "(authenticate_worker_connection X dbg g secret nonce dl run = Ok a \<longleftrightarrow>
     (\<exists>c pid token. run = Some c \<and> hs_first c = Ok (ReadyMsg g pid token CANARY_PROTOCOL_VERSION)
        \<and> is_ok (hs_sent c) \<and> hs_answer c = Ok (AuthResponse (compute_hmac X secret (g @ '':'' @ nonce)))
        \<and> is_ok (hs_ping c) \<and> a = Authenticated g pid CANARY_PROTOCOL_VERSION))
   \<and> (perform_worker_handshake X dbg' g pid secret (Ok (AuthChallenge nonce)) (Ok Ping) = ([m1, m2], Ok Ping) \<longrightarrow>
      authenticate_worker_connection X dbg g secret nonce dl
        (Some \<lparr>hs_first = Ok m1, hs_sent = Ok (), hs_answer = Ok m2, hs_ping = Ok ()\<rparr>) =
      Ok (Authenticated g pid CANARY_PROTOCOL_VERSION))"
proof -
  have exact: "authenticate_worker_connection X dbg g secret nonce dl run = Ok a \<longleftrightarrow>
     (\<exists>c pid token. run = Some c \<and> hs_first c = Ok (ReadyMsg g pid token CANARY_PROTOCOL_VERSION)
        \<and> is_ok (hs_sent c) \<and> hs_answer c = Ok (AuthResponse (compute_hmac X secret (g @ '':'' @ nonce)))
        \<and> is_ok (hs_ping c) \<and> a = Authenticated g pid CANARY_PROTOCOL_VERSION)" for run a
    by (cases run) (auto simp: authenticate_worker_connection_def result_simps is_ok_iff)
  show ?thesis
    unfolding exact by (auto simp: perform_worker_handshake_def Let_def)
qed

theorem handshake_exact_witness:
  "authenticate_worker_connection sample (\<lambda>m. []) ''gen-1'' ''secret'' ''n'' ''10s''
     (Some \<lparr>hs_first = Ok (ReadyMsg ''gen-1'' 7 [] CANARY_PROTOCOL_VERSION), hs_sent = Ok (),
        hs_answer = Ok (AuthResponse (compute_hmac sample ''secret'' (''gen-1'' @ '':'' @ ''n''))), hs_ping = Ok ()\<rparr>) =
   Ok (Authenticated ''gen-1'' 7 CANARY_PROTOCOL_VERSION)"
  using handshake_exact [of sample "\<lambda>m. []" "''gen-1''" "''secret''" "''n''" "''10s''" None "Unauthenticated" "\<lambda>m. []" 7]
  by (simp add: perform_worker_handshake_def Let_def)

text \<open>Rejections never damage the evidence: whatever frames arrive, while the writes succeed, the
  observation log attached to the daemon keeps holding exactly the observations it held.\<close>

theorem rejections_keep_the_log:
  assumes "serve_connection X cfg link auth frames d = (replies, auth', d')" and "log_of X d obs"
    and "list_all (\<lambda>(e, _). e_log_io e = IoOk) frames"
  shows "log_of X d' obs"
  by (rule serve_log [OF assms])

theorem rejections_keep_the_log_witness:
  "\<exists>replies auth' d'. serve_connection sample sample_config ''/run/active.sock'' Unauthenticated
      [(sample_env, Some (Ok Pong))] sample_daemon = (replies, auth', d') \<and> log_of sample d' []"
proof -
  obtain replies auth' d' where s: "serve_connection sample sample_config ''/run/active.sock'' Unauthenticated
      [(sample_env, Some (Ok Pong))] sample_daemon = (replies, auth', d')" by (metis prod_cases3)
  have "log_of sample sample_daemon []" using sample_open by (simp add: log_of_def sample_daemon_def)
  from rejections_keep_the_log [OF s this] s show ?thesis by (simp add: sample_env_def)
qed

end
