(* ===== verification/Executor.thy ===== *)
theory Executor
  imports Supervisor Admission
begin

text \<open>
  The canary executor (\<open>src/src/supervisor/canary_exec.rs\<close>): it launches the candidate, issues the
  requests of the pinned workload one after the other, judges every answer itself and records one
  observation per request.

  Everything that comes from outside is a script: the files, the clock, the events while waiting for
  readiness, and for every request the frames that arrive, with the time on the supervisor's clock, in
  nanoseconds, at which each is seen.  The end of a list of frames is the deadline.  Theorems hold for
  every script, so for every behaviour of the candidate.
\<close>

datatype exec_error =
    ExIdentity identity_error
  | ExOtherGeneration string string
  | ExWorkload workload_error
  | ExNotPinned
  | ExLog log_error
  | ExUnreadable
  | ExUnreadableRecord
  | ExNoHeader
  | ExOtherBinding
  | ExBind string
  | ExSpawn string

record executor_config =
  ec_readiness_text :: string
  ec_deadline_cap_ms :: "u64 option"
  ec_request_limit :: "nat option"
  ec_halt_after_requests :: "nat option"

record execution_summary =
  es_requests_planned :: nat
  es_recovered :: nat
  es_issued :: nat
  es_verified_success :: nat
  es_wrong_result :: nat
  es_timeout :: nat
  es_invalid_response :: nat
  es_connection_closed :: nat
  es_rejections :: nat
  es_ready :: bool
  es_first_failure :: "string option"
  es_reverted :: bool

definition empty_summary :: execution_summary where
  "empty_summary = \<lparr>es_requests_planned = 0, es_recovered = 0, es_issued = 0, es_verified_success = 0,
     es_wrong_result = 0, es_timeout = 0, es_invalid_response = 0, es_connection_closed = 0, es_rejections = 0,
     es_ready = False, es_first_failure = None, es_reverted = False\<rparr>"

datatype execution_outcome = SealedOutcome sealed_log execution_summary | HaltedOutcome execution_summary

record executor =
  x_memory_limit_mb :: u64
  x_rsi_root :: string
  x_executable_text :: string
  x_workload :: pinned_workload
  x_identity :: candidate_identity
  x_exec :: executor_config

fun status_debug :: "verified_status \<Rightarrow> string" where
  "status_debug VerifiedSuccess = ''VerifiedSuccess''"
| "status_debug WrongResult = ''WrongResult''"
| "status_debug Timeout = ''Timeout''"
| "status_debug InvalidResponse = ''InvalidResponse''"
| "status_debug ConnectionClosed = ''ConnectionClosed''"

section \<open>The script\<close>

record frame =
  fr_msg :: "string + worker_message"
  fr_elapsed_ns :: nat
  fr_now_ms :: u64
  fr_io :: io
  fr_text :: string

record stray =
  st_reason :: string
  st_now_ms :: u64
  st_io :: io

record request_run =
  rr_strays :: "stray list"
  rr_sent :: bool
  rr_sent_elapsed_ns :: nat
  rr_frames :: "frame list"
  rr_timeout_elapsed_ns :: nat
  rr_statm :: "bytes option"
  rr_page_kb :: u64
  rr_observed_at_ms :: u64
  rr_io :: io
  rr_reject_io :: io

datatype ready_event =
    AcceptedConn "handshake option" string u64 io
  | AcceptFailed
  | TickAlive
  | TickExited

record script =
  s_executable :: "bytes option"
  s_opened_at_ms :: u64
  s_create_io :: io
  s_bound :: "string + unit"
  s_spawned :: "u32 option"
  s_run_secret :: string
  s_ready :: "ready_event list"
  s_requests :: "nat \<Rightarrow> request_run"
  s_strays :: "stray list"
  s_sealed_at_ms :: u64
  s_seal_io :: io
  s_dbg :: "worker_message \<Rightarrow> string"

section \<open>Paths\<close>

definition observation_log_path :: "string \<Rightarrow> string \<Rightarrow> string" where
  "observation_log_path rsi_root generation_id = rsi_root @ ''/canary/observations/'' @ generation_id @ ''.jsonl''"

definition generation_socket_path :: "string \<Rightarrow> string \<Rightarrow> string" where
  "generation_socket_path rsi_root generation_id = rsi_root @ ''/workers/'' @ generation_id @ ''.sock''"

section \<open>Opening the log\<close>

function stored_records :: "(bytes \<Rightarrow> log_record option) \<Rightarrow> bytes \<Rightarrow> exec_error + log_record list" where
  "stored_records from_slice rest =
     (case position (\<lambda>b. b = newline) rest of
        None \<Rightarrow> Ok []
      | Some pos \<Rightarrow>
          (case from_slice (take pos rest) of
             None \<Rightarrow> Err ExUnreadableRecord
           | Some r \<Rightarrow>
               (case stored_records from_slice (drop (pos + 1) rest) of
                  Inl e \<Rightarrow> Err e
                | Inr rs \<Rightarrow> Ok (r # rs))))"
  by pat_completeness auto
termination
  by (relation "measure (\<lambda>(fs, rest). length rest)") (auto dest!: position_SomeD)

declare stored_records.simps [simp del]

definition planned_requests :: "executor \<Rightarrow> request_spec list" where
  "planned_requests x =
     (let all = wl_requests (pw_manifest (x_workload x)) in
      case ec_request_limit (x_exec x) of Some n \<Rightarrow> take n all | None \<Rightarrow> all)"

definition open_executor_log ::
    "crates \<Rightarrow> (bytes \<Rightarrow> log_record option) \<Rightarrow> executor \<Rightarrow> script \<Rightarrow> bytes option
      \<Rightarrow> (exec_error + log_writer) \<times> bytes option" where
  "open_executor_log X from_slice x s file =
     (let wanted = new_header (id_generation_id (x_identity x)) (pw_digest (x_workload x))
                     (id_executable_digest (x_identity x)) (s_opened_at_ms s) in
      case file of
        None \<Rightarrow> (case create_log X (s_create_io s) None wanted of (r, f) \<Rightarrow> (map_err ExLog r, f))
      | Some b \<Rightarrow>
          (case stored_records from_slice b of
             Inl e \<Rightarrow> (Err e, file)
           | Inr (HeaderRec existing # _) \<Rightarrow>
               if hdr_generation_id existing \<noteq> hdr_generation_id wanted
                  \<or> hdr_workload_digest existing \<noteq> hdr_workload_digest wanted
                  \<or> hdr_executable_digest existing \<noteq> hdr_executable_digest wanted
                 then (Err ExOtherBinding, file)
               else (case reopen_log X from_slice file existing of (r, f) \<Rightarrow> (map_err ExLog r, f))
           | Inr _ \<Rightarrow> (Err ExNoHeader, file)))"

section \<open>Rejections\<close>

type_synonym logging = "(log_writer \<times> bytes) \<times> execution_summary"

definition record_rejection :: "crates \<Rightarrow> io \<Rightarrow> u64 \<Rightarrow> string \<Rightarrow> logging \<Rightarrow> logging" where
  "record_rejection X io now reason st =
     (let (log, sm) = st in
      case append_rejection X io reason now log of
        (r, log') \<Rightarrow> (log', if is_ok r then sm\<lparr>es_rejections := es_rejections sm + 1\<rparr> else sm))"

fun drain_strays :: "crates \<Rightarrow> stray list \<Rightarrow> logging \<Rightarrow> logging" where
  "drain_strays X [] st = st"
| "drain_strays X (s # ss) st = drain_strays X ss (record_rejection X (st_io s) (st_now_ms s) (st_reason s) st)"

section \<open>Waiting for one result\<close>

fun await_result ::
    "crates \<Rightarrow> string \<Rightarrow> request_spec \<Rightarrow> string set \<Rightarrow> string set \<Rightarrow> nat \<Rightarrow> frame list \<Rightarrow> logging
      \<Rightarrow> (verified_status \<times> string option \<times> nat) \<times> logging" where
  "await_result X generation_id spec issued ans timeout_ns [] st = ((Timeout, None, timeout_ns), st)"
| "await_result X generation_id spec issued ans timeout_ns (f # fs) st =
     (let continue = (\<lambda>st. await_result X generation_id spec issued ans timeout_ns fs st);
          reject = (\<lambda>reason. record_rejection X (fr_io f) (fr_now_ms f) reason st);
          foreign = (\<lambda>named. ((ConnectionClosed, None, fr_elapsed_ns f), reject (''message naming generation '' @ named)));
          unexpected = (\<lambda>_ :: unit. continue (reject (''unexpected frame on the authenticated connection: '' @ fr_text f))) in
      case fr_msg f of
        Inl e \<Rightarrow>
          if contains ''closed by peer'' e then ((ConnectionClosed, None, fr_elapsed_ns f), st)
          else if contains ''Failed to read'' e then ((ConnectionClosed, None, fr_elapsed_ns f), st)
          else ((InvalidResponse, None, fr_elapsed_ns f), st)
      | Inr (ExecuteResult v named request_id output _) \<Rightarrow>
          if request_id = spec_request_id spec then
            (if v \<noteq> CANARY_PROTOCOL_VERSION \<or> named \<noteq> generation_id
               then ((InvalidResponse, None, fr_elapsed_ns f), st)
             else ((VerifiedSuccess, Some output, fr_elapsed_ns f), st))
          else
            let why = (if request_id \<in> ans then ''already answered''
                       else if request_id \<in> issued then ''not the open request'' else ''not issued'');
                st' = reject (''ExecuteResult for request '' @ request_id @ '' which was '' @ why) in
            if named \<noteq> generation_id then ((ConnectionClosed, None, fr_elapsed_ns f), st') else continue st'
      | Inr (Heartbeat named _ _ _) \<Rightarrow> if named = generation_id then continue st else foreign named
      | Inr (CanaryReport named _ _ _ _) \<Rightarrow> if named = generation_id then continue st else foreign named
      | Inr (DrainComplete named) \<Rightarrow> if named \<noteq> generation_id then foreign named else unexpected ()
      | Inr Pong \<Rightarrow> continue st
      | Inr (ReadyMsg _ _ _ _) \<Rightarrow> unexpected ()
      | Inr (AuthResponse _) \<Rightarrow> unexpected ())"

section \<open>The request loop\<close>

record exec_state =
  xs_logging :: logging
  xs_issued :: "string set"
  xs_answered :: "string set"
  xs_recorded :: nat

datatype loop_end = AllDone | RevertNow | HaltNow | AppendFailed log_error

definition effective_deadline :: "executor \<Rightarrow> request_spec \<Rightarrow> u64" where
  "effective_deadline x spec =
     (case ec_deadline_cap_ms (x_exec x) of Some cap \<Rightarrow> min (spec_deadline_ms spec) cap | None \<Rightarrow> spec_deadline_ms spec)"

text \<open>The verdict on what came back: the executor compares the bytes and its own clock.\<close>

definition judge :: "crates \<Rightarrow> request_spec \<Rightarrow> u64 \<Rightarrow> verified_status \<times> string option \<times> nat
      \<Rightarrow> verified_status \<times> string option" where
  "judge X spec deadline_ms res =
     (let (status, output, elapsed) = res; digest = map_option (result_digest X) output in
      if status = VerifiedSuccess \<or> status = WrongResult then
        let status = (if \<not> matches_output spec (case output of None \<Rightarrow> [] | Some out \<Rightarrow> out)
                      then WrongResult else VerifiedSuccess) in
        if elapsed > unat deadline_ms * 1000000 then (Timeout, None) else (status, digest)
      else (status, digest))"

definition count_status :: "verified_status \<Rightarrow> execution_summary \<Rightarrow> execution_summary" where
  "count_status status sm =
     (case status of
        VerifiedSuccess \<Rightarrow> sm\<lparr>es_verified_success := es_verified_success sm + 1\<rparr>
      | WrongResult \<Rightarrow> sm\<lparr>es_wrong_result := es_wrong_result sm + 1\<rparr>
      | Timeout \<Rightarrow> sm\<lparr>es_timeout := es_timeout sm + 1\<rparr>
      | InvalidResponse \<Rightarrow> sm\<lparr>es_invalid_response := es_invalid_response sm + 1\<rparr>
      | ConnectionClosed \<Rightarrow> sm\<lparr>es_connection_closed := es_connection_closed sm + 1\<rparr>)"

definition executed_observation ::
    "crates \<Rightarrow> executor \<Rightarrow> request_spec \<Rightarrow> request_run \<Rightarrow> verified_status \<Rightarrow> string option \<Rightarrow> nat \<Rightarrow> observation" where
  "executed_observation X x spec rr status digest elapsed =
     new_observation X
       \<lparr>in_generation_id = id_generation_id (x_identity x), in_request_id = spec_request_id spec,
        in_request_digest = request_digest X spec (wl_workload_id (pw_manifest (x_workload x))),
        in_workload_digest = pw_digest (x_workload x),
        in_executable_digest = id_executable_digest (x_identity x), in_result_digest = digest,
        in_elapsed_us = of_nat (elapsed div 1000), in_observed_at_ms = rr_observed_at_ms rr,
        in_status = status, in_provenance = Measured\<rparr>"

definition memory_verdict :: "executor \<Rightarrow> u32 option \<Rightarrow> request_run \<Rightarrow> string option" where
  "memory_verdict x pid rr =
     (let budget = (case pid of
          Some _ \<Rightarrow> is_memory_within_budget (x_memory_limit_mb x) (rr_page_kb rr) (rr_statm rr)
        | None \<Rightarrow> Err ''no worker pid to read'') in
      case budget of
        Inr True \<Rightarrow> None
      | Inr False \<Rightarrow> Some (''resource budget exceeded: worker above '' @ dec_nat (unat (x_memory_limit_mb x)) @ '' MB'')
      | Inl e \<Rightarrow> Some (''resource budget unreadable, reverting: '' @ e))"

text \<open>Issue one request and wait for its result.\<close>

definition issue_request ::
    "crates \<Rightarrow> executor \<Rightarrow> request_run \<Rightarrow> request_spec \<Rightarrow> string set \<Rightarrow> string set \<Rightarrow> logging
      \<Rightarrow> (verified_status \<times> string option \<times> nat) \<times> logging" where
  "issue_request X x rr spec issued ans st =
     (let (log, sm) = drain_strays X (rr_strays rr) st;
          st' = (log, sm\<lparr>es_issued := es_issued sm + 1\<rparr>) in
      if \<not> rr_sent rr then ((ConnectionClosed, None, rr_sent_elapsed_ns rr), st')
      else await_result X (id_generation_id (x_identity x)) spec issued ans
             (rr_timeout_elapsed_ns rr) (rr_frames rr) st')"

text \<open>Check the memory of the worker after a success, record the observation, decide how to go on.\<close>

definition settle_request ::
    "crates \<Rightarrow> executor \<Rightarrow> u32 option \<Rightarrow> request_run \<Rightarrow> request_spec \<Rightarrow> verified_status \<Rightarrow> string option \<Rightarrow> nat
      \<Rightarrow> exec_state \<Rightarrow> loop_end option \<times> exec_state" where
  "settle_request X x pid rr spec status digest elapsed st =
     (case (if status = VerifiedSuccess then memory_verdict x pid rr else None) of
        Some reason \<Rightarrow>
          (let (log, sm) = record_rejection X (rr_reject_io rr) (rr_observed_at_ms rr) reason (xs_logging st) in
           (Some RevertNow,
            st\<lparr>xs_logging := (log, sm\<lparr>es_first_failure := Some (spec_request_id spec @ '': '' @ reason)\<rparr>)\<rparr>))
      | None \<Rightarrow>
          let (log, sm) = xs_logging st;
              ob = executed_observation X x spec rr status digest elapsed;
              st = st\<lparr>xs_answered := insert (spec_request_id spec) (xs_answered st)\<rparr> in
          (case append_observation X (rr_io rr) ob log of
             (Inl e, log') \<Rightarrow> (Some (AppendFailed e), st\<lparr>xs_logging := (log', sm)\<rparr>)
           | (Inr _, log') \<Rightarrow>
               let sm' = count_status status sm; recorded = xs_recorded st + 1;
                   st' = st\<lparr>xs_logging := (log', sm'), xs_recorded := recorded\<rparr> in
               if status \<noteq> VerifiedSuccess then
                 (Some RevertNow, st'\<lparr>xs_logging := (log', sm'\<lparr>es_first_failure :=
                      Some (spec_request_id spec @ '': '' @ status_debug status)\<rparr>)\<rparr>)
               else ((if ec_halt_after_requests (x_exec x) = Some recorded then Some HaltNow else None), st')))"

definition run_request ::
    "crates \<Rightarrow> executor \<Rightarrow> u32 option \<Rightarrow> request_run \<Rightarrow> request_spec \<Rightarrow> exec_state
      \<Rightarrow> loop_end option \<times> exec_state" where
  "run_request X x pid rr spec st =
     (let issued = insert (spec_request_id spec) (xs_issued st);
          (res, st') = issue_request X x rr spec issued (xs_answered st) (xs_logging st);
          (status, digest) = judge X spec (effective_deadline x spec) res in
      settle_request X x pid rr spec status digest (snd (snd res)) (st\<lparr>xs_issued := issued, xs_logging := st'\<rparr>))"

fun run_requests ::
    "crates \<Rightarrow> executor \<Rightarrow> u32 option \<Rightarrow> (nat \<Rightarrow> request_run) \<Rightarrow> nat \<Rightarrow> request_spec list \<Rightarrow> exec_state
      \<Rightarrow> loop_end \<times> exec_state" where
  "run_requests X x pid rrs i [] st = (AllDone, st)"
| "run_requests X x pid rrs i (spec # specs) st =
     (case run_request X x pid (rrs i) spec st of
        (Some stop, st') \<Rightarrow> (stop, st')
      | (None, st') \<Rightarrow> run_requests X x pid rrs (i + 1) specs st')"

section \<open>Readiness\<close>

fun await_readiness ::
    "crates \<Rightarrow> executor \<Rightarrow> script \<Rightarrow> ready_event list \<Rightarrow> logging \<Rightarrow> bool \<times> logging" where
  "await_readiness X x s [] st =
     (False, (fst st, (snd st)\<lparr>es_first_failure :=
        Some (''no authenticated versioned readiness within '' @ ec_readiness_text (x_exec x))\<rparr>))"
| "await_readiness X x s (AcceptedConn run nonce now io # evs) st =
     (case authenticate_worker_connection X (s_dbg s) (id_generation_id (x_identity x)) (s_run_secret s) nonce
             (ec_readiness_text (x_exec x)) run of
        Inr a \<Rightarrow> if can_execute_for a (id_generation_id (x_identity x)) then (True, st)
                 else await_readiness X x s evs st
      | Inl failure \<Rightarrow> await_readiness X x s evs (record_rejection X io now (failure_display failure) st))"
| "await_readiness X x s (AcceptFailed # evs) st = await_readiness X x s evs st"
| "await_readiness X x s (TickAlive # evs) st = await_readiness X x s evs st"
| "await_readiness X x s (TickExited # evs) st =
     (False, (fst st, (snd st)\<lparr>es_first_failure := Some ''worker exited before it became ready''\<rparr>))"

section \<open>The whole run\<close>

definition finish ::
    "crates \<Rightarrow> (bytes \<Rightarrow> log_record option) \<Rightarrow> script \<Rightarrow> bool \<Rightarrow> generation_info \<Rightarrow> logging
      \<Rightarrow> (exec_error + execution_outcome) \<times> generation_info \<times> bytes option" where
  "finish X from_slice s revert g st =
     (let ((w, b), sm) = st;
          g' = (if revert then g\<lparr>gi_state := Reverting\<rparr> else g);
          sm' = (if revert then sm\<lparr>es_reverted := True\<rparr> else sm) in
      case seal_log X from_slice (s_seal_io s) (s_sealed_at_ms s) b of
        (Inl e, b') \<Rightarrow> (Err (ExLog e), g', Some b')
      | (Inr sealed, b') \<Rightarrow> (Ok (SealedOutcome sealed sm'), g', Some b'))"

fun prior_observations :: "log_record list \<Rightarrow> observation list" where
  "prior_observations [] = []"
| "prior_observations (ObservationRec l # rs) = lo_observation l # prior_observations rs"
| "prior_observations (_ # rs) = prior_observations rs"

definition prior_failure :: "observation list \<Rightarrow> string option" where
  "prior_failure obs =
     (case List.find (\<lambda>ob. obs_status ob \<noteq> VerifiedSuccess) obs of
        None \<Rightarrow> None
      | Some ob \<Rightarrow> Some (obs_request_id ob @ '': '' @ status_debug (obs_status ob) @ '' recorded before a restart''))"

definition remaining_requests :: "crates \<Rightarrow> executor \<Rightarrow> log_writer \<Rightarrow> request_spec list" where
  "remaining_requests X x w =
     filter (\<lambda>spec. \<not> writer_contains w (observation_id X (id_generation_id (x_identity x)) (spec_request_id spec)
        (request_digest X spec (wl_workload_id (pw_manifest (x_workload x)))))) (planned_requests x)"

definition launch_and_drive ::
    "crates \<Rightarrow> (bytes \<Rightarrow> log_record option) \<Rightarrow> executor \<Rightarrow> script \<Rightarrow> request_spec list \<Rightarrow> generation_info
      \<Rightarrow> logging \<Rightarrow> (exec_error + execution_outcome) \<times> generation_info \<times> bytes option" where
  "launch_and_drive X from_slice x s todo g st =
     (case s_bound s of
        Inl e \<Rightarrow> (Err (ExBind e), g, Some (snd (fst st)))
      | Inr _ \<Rightarrow>
     (case spawn_worker_process (s_spawned s) (x_executable_text x)
             (generation_socket_path (x_rsi_root x) (id_generation_id (x_identity x))) g of
        (Inl e, g1) \<Rightarrow> (Err (ExSpawn e), g1, Some (snd (fst st)))
      | (Inr _, g1) \<Rightarrow>
     (case await_readiness X x s (s_ready s) st of
        (False, st1) \<Rightarrow> finish X from_slice s True g1 st1
      | (True, st1) \<Rightarrow>
          let st2 = (fst st1, (snd st1)\<lparr>es_ready := True\<rparr>); g2 = g1\<lparr>gi_state := CanaryActive\<rparr> in
          (case run_requests X x (gi_pid g2) (s_requests s) 0 todo
                  \<lparr>xs_logging = st2, xs_issued = {}, xs_answered = {}, xs_recorded = 0\<rparr> of
             (AppendFailed e, st3) \<Rightarrow> (Err (ExLog e), g2, Some (snd (fst (xs_logging st3))))
           | (HaltNow, st3) \<Rightarrow>
               (Ok (HaltedOutcome (snd (xs_logging st3))), g2, Some (snd (fst (xs_logging st3))))
           | (stop, st3) \<Rightarrow>
               finish X from_slice s (stop = RevertNow) g2 (drain_strays X (s_strays s) (xs_logging st3))))))"

definition run_canary ::
    "crates \<Rightarrow> (bytes \<Rightarrow> log_record option) \<Rightarrow> executor \<Rightarrow> script \<Rightarrow> generation_info \<Rightarrow> bytes option
      \<Rightarrow> (exec_error + execution_outcome) \<times> generation_info \<times> bytes option" where
  "run_canary X from_slice x s g file =
     (let identity = x_identity x; workload = x_workload x in
      case validate_identity identity of
        Inl e \<Rightarrow> (Err (ExIdentity e), g, file)
      | Inr _ \<Rightarrow>
      if gi_generation_id g \<noteq> id_generation_id identity
        then (Err (ExOtherGeneration (gi_generation_id g) (id_generation_id identity)), g, file)
      else case validate_workload (pw_manifest workload) of
        Inl e \<Rightarrow> (Err (ExWorkload e), g, file)
      | Inr _ \<Rightarrow>
      if workload_digest X (pw_manifest workload) \<noteq> pw_digest workload then (Err ExNotPinned, g, file)
      else case verify_executable X identity (s_executable s) of
        Inl e \<Rightarrow> (Err (ExIdentity e), g, file)
      | Inr _ \<Rightarrow>
      (case open_executor_log X from_slice x s file of
        (Inl e, f) \<Rightarrow> (Err e, g, f)
      | (Inr w, None) \<Rightarrow> (Err ExUnreadable, g, None)
      | (Inr w, Some b) \<Rightarrow>
      (case stored_records from_slice b of
        Inl e \<Rightarrow> (Err e, g, Some b)
      | Inr records \<Rightarrow>
          let obs = prior_observations records;
              sm = empty_summary\<lparr>es_requests_planned := length (planned_requests x), es_recovered := length obs\<rparr>;
              failure = prior_failure obs in
          if failure \<noteq> None then finish X from_slice s True g ((w, b), sm\<lparr>es_first_failure := failure\<rparr>)
          else
            let todo = remaining_requests X x w in
            if todo = [] then finish X from_slice s False g ((w, b), sm\<lparr>es_ready := True\<rparr>)
            else launch_and_drive X from_slice x s todo g ((w, b), sm))))"

end
