(* ===== verification/Executor_Safety.thy ===== *)
theory Executor_Safety
  imports Executor Supervisor_Safety
begin

text \<open>
  What a canary run guarantees (\<open>src/src/supervisor/canary_exec.rs\<close>), for every script, so for every
  behaviour of the candidate and every interruption: the observations recorded are genuine, a run that
  ends clean is admitted by the quota validator, a reverted run is refused.

  \<open>holds\<close> is the log under the writer during a run, \<open>canary_file\<close> the file between runs; \<open>request_end\<close>,
  \<open>requests_end\<close> and \<open>run_end\<close> state what one request, the loop and the whole run leave behind.
\<close>

section \<open>The log under the executor\<close>

text \<open>\<open>holds X w obs st\<close>: the log is open under the writer \<open>w\<close> with the observations \<open>obs\<close>, and the run
  is not marked reverted.\<close>

definition holds :: "crates \<Rightarrow> log_writer \<Rightarrow> observation list \<Rightarrow> logging \<Rightarrow> bool" where
  "holds X w obs st \<longleftrightarrow> fst (fst st) = w \<and> open_log X w (snd (fst st)) obs \<and> \<not> es_reverted (snd st)"

lemma record_rejection_holds [simp]:
  assumes "holds X w obs st"
  shows "holds X w obs (record_rejection X IoOk now reason st)"
proof -
  obtain b sm where st: "st = ((w, b), sm)" "open_log X w b obs" "\<not> es_reverted sm"
    using assms by (cases st) (auto simp: holds_def)
  obtain r w' b' where a: "append_rejection X IoOk reason now (w, b) = (r, w', b')" by (metis prod_cases3)
  from append_rejection_open [OF st(2) a] a st show ?thesis by (simp add: record_rejection_def holds_def)
qed

lemma drain_strays_holds:
  "holds X w obs st \<Longrightarrow> list_all (\<lambda>s. st_io s = IoOk) ss \<Longrightarrow> holds X w obs (drain_strays X ss st)"
  by (induction ss arbitrary: st) simp_all

lemma await_readiness_holds:
  "await_readiness X x s evs st = (ready, st') \<Longrightarrow> holds X w obs st \<Longrightarrow>
   list_all (\<lambda>ev. case ev of AcceptedConn _ _ _ io \<Rightarrow> io = IoOk | _ \<Rightarrow> True) evs \<Longrightarrow> holds X w obs st'"
proof (induction X x s evs st arbitrary: ready st' rule: await_readiness.induct)
  case (2 X x s run nonce now io evs st)
  then show ?case by (auto split: sum.splits if_splits)
qed (auto simp: holds_def)

lemma await_result_holds:
  "await_result X g spec issued ans t fs st = (res, st') \<Longrightarrow> holds X w obs st \<Longrightarrow>
   list_all (\<lambda>f. fr_io f = IoOk) fs \<Longrightarrow> holds X w obs st'"
proof (induction fs arbitrary: st)
  case (Cons f fs)
  then show ?case
    by (cases "fr_msg f") (auto simp: Let_def split: worker_message.splits if_splits)
qed auto

text \<open>Only a frame for the open request ends the wait with an output.\<close>

lemma await_result_shape:
  "await_result X g spec issued ans t fs st = ((status, out, elapsed), st') \<Longrightarrow>
     (status = VerifiedSuccess \<and> (\<exists>f \<in> set fs. \<exists>o' w.
        fr_msg f = Ok (ExecuteResult CANARY_PROTOCOL_VERSION g (spec_request_id spec) o' w)
       \<and> out = Some o' \<and> elapsed = fr_elapsed_ns f))
   \<or> (status \<notin> {VerifiedSuccess, WrongResult} \<and> out = None)"
proof (induction fs arbitrary: st)
  case (Cons f fs)
  have "(\<exists>st0. await_result X g spec issued ans t fs st0 = ((status, out, elapsed), st'))
    \<or> (\<exists>o' w. status = VerifiedSuccess \<and> out = Some o' \<and> elapsed = fr_elapsed_ns f
         \<and> fr_msg f = Ok (ExecuteResult CANARY_PROTOCOL_VERSION g (spec_request_id spec) o' w))
    \<or> (status \<notin> {VerifiedSuccess, WrongResult} \<and> out = None)"
    using Cons.prems
    by (cases "fr_msg f"; simp add: Let_def del: split_paired_Ex split: worker_message.splits if_splits; blast)
  with Cons.IH show ?case by (metis list.set_intros(1) list.set_intros(2))
qed auto

section \<open>The verdict\<close>

lemma matches_output_iff: "matches_output spec out \<longleftrightarrow> out = spec_expected_output spec"
  by (cases "spec_nondeterminism spec") (simp add: matches_output_def)

lemma judge_cases:
  assumes "judge X spec d (status, out, elapsed) = (status', dg)"
    and "(status = VerifiedSuccess \<and> out \<noteq> None) \<or> (status \<notin> {VerifiedSuccess, WrongResult} \<and> out = None)"
  shows "(status' = VerifiedSuccess \<and> status = VerifiedSuccess \<and> out = Some (spec_expected_output spec)
      \<and> dg = Some (expected_result_digest X spec) \<and> elapsed \<le> unat d * 1000000)
    \<or> (status' = WrongResult \<and> (\<exists>o'. out = Some o' \<and> dg = Some (result_digest X o')))
    \<or> (status' \<notin> {VerifiedSuccess, WrongResult} \<and> dg = None)"
  using assms
  by (auto simp: judge_def Let_def matches_output_iff result_digest_def expected_result_digest_def split: if_splits)

definition pinned :: "crates \<Rightarrow> executor \<Rightarrow> log_header \<Rightarrow> bool" where
  "pinned X x h \<longleftrightarrow> hex_ok X \<and> sha_ok X \<and> identity_wf (x_identity x) \<and> workload_wf (pw_manifest (x_workload x))
     \<and> pw_digest (x_workload x) = workload_digest X (pw_manifest (x_workload x))
     \<and> hdr_generation_id h = id_generation_id (x_identity x) \<and> hdr_workload_digest h = pw_digest (x_workload x)
     \<and> hdr_executable_digest h = id_executable_digest (x_identity x)"

abbreviation evidence :: "crates \<Rightarrow> executor \<Rightarrow> request_spec \<Rightarrow> observation \<Rightarrow> bool" where
  "evidence X x \<equiv> evidence_for X (x_identity x) (pw_manifest (x_workload x))"

definition request_oid :: "crates \<Rightarrow> executor \<Rightarrow> request_spec \<Rightarrow> string" where
  "request_oid X x spec = observation_id X (id_generation_id (x_identity x)) (spec_request_id spec)
     (request_digest X spec (wl_workload_id (pw_manifest (x_workload x))))"

lemma effective_deadline_le: "unat (effective_deadline x spec) \<le> unat (spec_deadline_ms spec)"
  by (cases "ec_deadline_cap_ms (x_exec x)") (simp_all add: effective_deadline_def word_le_nat_alt min_def)

lemma elapsed_us_le:
  assumes "elapsed \<le> d * 1000000"
  shows "unat (of_nat (elapsed div 1000) :: u64) \<le> d * 1000"
proof -
  have "unat (of_nat (elapsed div 1000) :: u64) \<le> elapsed div 1000" by (simp add: unat_of_nat)
  also have "\<dots> \<le> (d * 1000000) div 1000" using assms by (rule div_le_mono)
  finally show ?thesis by simp
qed


section \<open>One request\<close>

definition run_io_ok :: "request_run \<Rightarrow> bool" where
  "run_io_ok rr \<longleftrightarrow> list_all (\<lambda>s. st_io s = IoOk) (rr_strays rr) \<and> list_all (\<lambda>f. fr_io f = IoOk) (rr_frames rr)
     \<and> rr_reject_io rr = IoOk"

lemma executed_bound:
  "pinned X x h \<Longrightarrow> bound_to h (executed_observation X x spec rr status dg elapsed)"
  by (simp add: pinned_def bound_to_def executed_observation_def)

lemma executed_oid [simp]:
  "obs_observation_id (executed_observation X x spec rr status dg elapsed) = request_oid X x spec"
  "obs_status (executed_observation X x spec rr status dg elapsed) = status"
  by (simp_all add: executed_observation_def request_oid_def)

lemma executed_wf:
  assumes "pinned X x h" and "spec \<in> set (wl_requests (pw_manifest (x_workload x)))"
    and "(status \<in> {VerifiedSuccess, WrongResult} \<and> (\<exists>b. dg = Some (sha256_hex X b)))
      \<or> (status \<notin> {VerifiedSuccess, WrongResult} \<and> dg = None)"
  shows "observation_wf X (executed_observation X x spec rr status dg elapsed)"
proof -
  from assms(1) have "hex_ok X" "sha_ok X" by (simp_all add: pinned_def)
  then have hex: "is_hex_digest (domain_digest X d fs)" "is_hex_digest (sha256_hex X b)" for d fs b
    by (simp_all add: is_hex_digest_domain is_hex_digest_encode sha256_hex_def)
  from assms(1,2) have "request_wf spec" by (auto simp: pinned_def workload_wf_def list_all_iff)
  with assms(1,3) hex show ?thesis
    by (auto simp: pinned_def observation_wf_def executed_observation_def request_wf_def identity_wf_def
        request_digest_def workload_digest_def)
qed

lemma executed_evidence:
  assumes "pinned X x h" and "spec \<in> set (wl_requests (pw_manifest (x_workload x)))"
    and "elapsed \<le> unat (effective_deadline x spec) * 1000000"
  shows "evidence X x spec (executed_observation X x spec rr VerifiedSuccess (Some (expected_result_digest X spec)) elapsed)"
proof -
  have "unat (of_nat (elapsed div 1000) :: u64) \<le> unat (effective_deadline x spec) * 1000"
    using assms(3) by (rule elapsed_us_le)
  also have "\<dots> \<le> unat (spec_deadline_ms spec) * 1000" using effective_deadline_le by simp
  finally have us: "unat (of_nat (elapsed div 1000) :: u64) \<le> unat (spec_deadline_ms spec) * 1000" .
  have "observation_wf X (executed_observation X x spec rr VerifiedSuccess (Some (expected_result_digest X spec)) elapsed)"
    using assms(1,2) by (rule executed_wf) (auto simp: expected_result_digest_def)
  with us assms(1) show ?thesis
    by (simp add: evidence_for_def executed_observation_def pinned_def)
qed

lemma judged_request:
  assumes "judge X spec d res = (status, dg)"
    and "(fst res = VerifiedSuccess \<and> fst (snd res) \<noteq> None)
      \<or> (fst res \<notin> {VerifiedSuccess, WrongResult} \<and> fst (snd res) = None)"
  shows "(status = VerifiedSuccess \<longrightarrow> dg = Some (expected_result_digest X spec) \<and> snd (snd res) \<le> unat d * 1000000)
    \<and> ((status \<in> {VerifiedSuccess, WrongResult} \<and> (\<exists>b. dg = Some (sha256_hex X b)))
      \<or> (status \<notin> {VerifiedSuccess, WrongResult} \<and> dg = None))"
proof -
  obtain s out e where r: "res = (s, out, e)" by (cases res) auto
  from judge_cases [of X spec d s out e status dg] assms r show ?thesis
    by (auto simp: expected_result_digest_def result_digest_def)
qed

lemma count_status_reverted [simp]: "es_reverted (count_status status sm) = es_reverted sm"
  by (cases status) (simp_all add: count_status_def)

text \<open>A fresh observation is appended, or the append fails and the log may be torn.\<close>

lemma append_fresh:
  assumes "json_ok X" and "open_log X w b obs" and "observation_wf X ob" and "bound_to (w_header w) ob"
    and "w_seen w (obs_observation_id ob) = None" and "append_observation X io ob (w, b) = (r, w', b')"
  shows "(r = Ok Appended \<and> w' = w\<lparr>w_seen := (w_seen w)(obs_observation_id ob \<mapsto> digest_hex X ob)\<rparr>
       \<and> open_log X w' b' (obs @ [ob]))
    \<or> (\<exists>e. r = Err e \<and> (torn_log X (w_header w) b' obs \<or> torn_log X (w_header w) b' (obs @ [ob])))"
  using assms(6)
proof (cases rule: append_observation_cases)
  case (stored res0)
  from stored(5) show ?thesis
  proof
    assume ok: "res0 = Ok () \<and> r = Ok Appended \<and> w' = w\<lparr>w_seen := (w_seen w)(obs_observation_id ob \<mapsto> digest_hex X ob)\<rparr>"
    with stored(4) have "b' = b @ to_line X (ObservationRec \<lparr>lo_observation = ob, lo_observation_digest = digest_hex X ob\<rparr>)"
      by (cases io) simp_all
    with open_log_append [OF assms(2-5)] ok show ?thesis by simp
  next
    assume "\<exists>e. res0 = Err e \<and> r = Err e \<and> w' = w"
    with append_observation_torn [OF assms(1,2,6)] show ?thesis by auto
  qed
qed (use assms(3-5) in auto)


definition next_writer :: "crates \<Rightarrow> log_writer \<Rightarrow> observation \<Rightarrow> log_writer" where
  "next_writer X w ob = w\<lparr>w_seen := (w_seen w)(obs_observation_id ob \<mapsto> digest_hex X ob)\<rparr>"

lemma next_writer_simps [simp]:
  "w_header (next_writer X w ob) = w_header w"
  "w_seen (next_writer X w ob) = (w_seen w)(obs_observation_id ob \<mapsto> digest_hex X ob)"
  by (simp_all add: next_writer_def)

definition genuine :: "crates \<Rightarrow> executor \<Rightarrow> observation \<Rightarrow> bool" where
  "genuine X x ob \<longleftrightarrow> (obs_status ob = VerifiedSuccess \<longrightarrow>
     (\<exists>spec \<in> set (wl_requests (pw_manifest (x_workload x))). evidence X x spec ob))"

text \<open>What one request leaves: nothing recorded over the memory budget, a failure recorded, a success
  recorded, or an append that did not go through.\<close>

definition request_end ::
    "crates \<Rightarrow> executor \<Rightarrow> log_writer \<Rightarrow> observation list \<Rightarrow> request_spec \<Rightarrow> loop_end option \<Rightarrow> logging \<Rightarrow> bool" where
  "request_end X x w obs spec stop st \<longleftrightarrow>
     (stop = Some RevertNow \<and> holds X w obs st)
   \<or> (\<exists>ob. obs_observation_id ob = request_oid X x spec \<and> genuine X x ob \<and>
        ((stop = Some RevertNow \<and> obs_status ob \<noteq> VerifiedSuccess \<and> holds X (next_writer X w ob) (obs @ [ob]) st)
       \<or> ((stop = None \<or> stop = Some HaltNow) \<and> evidence X x spec ob \<and> holds X (next_writer X w ob) (obs @ [ob]) st)
       \<or> (\<exists>e. stop = Some (AppendFailed e) \<and>
            (torn_log X (w_header w) (snd (fst st)) obs \<or> torn_log X (w_header w) (snd (fst st)) (obs @ [ob])))))"

lemma issue_request_holds:
  assumes "issue_request X x rr spec issued ans st = (res, st')" and "holds X w obs st" and "run_io_ok rr"
  shows "holds X w obs st' \<and> ((fst res = VerifiedSuccess \<and> fst (snd res) \<noteq> None)
      \<or> (fst res \<notin> {VerifiedSuccess, WrongResult} \<and> fst (snd res) = None))"
proof -
  obtain log sm where d: "drain_strays X (rr_strays rr) st = (log, sm)" by fastforce
  from drain_strays_holds [OF assms(2), of "rr_strays rr"] assms(3) d
  have h: "holds X w obs (log, sm\<lparr>es_issued := es_issued sm + 1\<rparr>)" by (simp add: run_io_ok_def holds_def)
  show ?thesis
  proof (cases "rr_sent rr")
    case True
    then have a: "await_result X (id_generation_id (x_identity x)) spec issued ans
        (rr_timeout_elapsed_ns rr) (rr_frames rr) (log, sm\<lparr>es_issued := es_issued sm + 1\<rparr>) = (res, st')"
      using assms(1) d by (simp add: issue_request_def)
    obtain s out e where r: "res = (s, out, e)" by (cases res) auto
    from await_result_holds [OF a h] await_result_shape [OF a [unfolded r]] assms(3) r show ?thesis
      by (auto simp: run_io_ok_def)
  next
    case False
    with assms(1) d h show ?thesis by (auto simp: issue_request_def)
  qed
qed

lemma settle_request_ends:
  assumes "json_ok X" and "holds X w obs (xs_logging st)" and "rr_reject_io rr = IoOk"
    and "settle_request X x pid rr spec status dg elapsed st = (stop, st')"
    and "ob = executed_observation X x spec rr status dg elapsed"
    and "observation_wf X ob" and "bound_to (w_header w) ob" and "w_seen w (request_oid X x spec) = None"
    and "status = VerifiedSuccess \<longrightarrow> evidence X x spec ob" and "genuine X x ob"
  shows "request_end X x w obs spec stop (xs_logging st')"
proof -
  obtain log sm where ls: "xs_logging st = (log, sm)" by fastforce
  with assms(2) obtain b where b: "log = (w, b)" "open_log X w b obs" "\<not> es_reverted sm"
    by (cases log) (auto simp: holds_def)
  have oid: "obs_observation_id ob = request_oid X x spec" "obs_status ob = status" using assms(5) by simp_all
  show ?thesis
  proof (cases "if status = VerifiedSuccess then memory_verdict x pid rr else None")
    case (Some reason)
    obtain log' sm' where r: "record_rejection X IoOk (rr_observed_at_ms rr) reason (xs_logging st) = (log', sm')"
      by fastforce
    with record_rejection_holds [OF assms(2), of "rr_observed_at_ms rr" reason] assms(3,4) Some
    have "stop = Some RevertNow \<and> holds X w obs (xs_logging st')"
      by (auto simp: settle_request_def holds_def)
    then show ?thesis by (simp add: request_end_def)
  next
    case None
    obtain r w' b' where a: "append_observation X (rr_io rr) ob (w, b) = (r, w', b')" by (metis prod_cases3)
    have "(\<exists>e. r = Err e \<and> stop = Some (AppendFailed e) \<and> snd (fst (xs_logging st')) = b')
       \<or> (\<exists>v. r = Ok v \<and> fst (xs_logging st') = (w', b') \<and> \<not> es_reverted (snd (xs_logging st'))
           \<and> (if status \<noteq> VerifiedSuccess then stop = Some RevertNow else stop = None \<or> stop = Some HaltNow))"
      using assms(4,5) a None ls b
      by (cases r) (auto simp: settle_request_def Let_def split: if_splits)
    moreover have "w_seen w (obs_observation_id ob) = None" using assms(8) oid by simp
    note append_fresh [OF assms(1) b(2) assms(6,7) this a]
    ultimately show ?thesis
      using assms(9,10) oid unfolding request_end_def holds_def next_writer_def
      by (intro disjI2 exI [of _ ob]) (auto split: if_splits)
  qed
qed

lemma run_request_ends:
  assumes "json_ok X" and "pinned X x (w_header w)" and "spec \<in> set (wl_requests (pw_manifest (x_workload x)))"
    and "run_io_ok rr" and "holds X w obs (xs_logging st)" and "w_seen w (request_oid X x spec) = None"
    and "run_request X x pid rr spec st = (stop, st')"
  shows "request_end X x w obs spec stop (xs_logging st')"
proof -
  let ?issued = "insert (spec_request_id spec) (xs_issued st)"
  obtain res log where res: "issue_request X x rr spec ?issued (xs_answered st) (xs_logging st) = (res, log)" by (metis surj_pair)
  obtain status dg where j: "judge X spec (effective_deadline x spec) res = (status, dg)" by fastforce
  let ?ob = "executed_observation X x spec rr status dg (snd (snd res))"
  from issue_request_holds [OF res assms(5,4)] have h: "holds X w obs log"
    and shape: "(fst res = VerifiedSuccess \<and> fst (snd res) \<noteq> None)
      \<or> (fst res \<notin> {VerifiedSuccess, WrongResult} \<and> fst (snd res) = None)" by blast+
  note verdict = judged_request [OF j shape]
  have ev: "evidence X x spec ?ob" if "status = VerifiedSuccess"
    using executed_evidence [OF assms(2,3)] verdict that by simp
  then have gen: "genuine X x ?ob" using assms(3) by (auto simp: genuine_def)
  show ?thesis
  proof (rule settle_request_ends [OF assms(1)])
    show "settle_request X x pid rr spec status dg (snd (snd res))
        (st\<lparr>xs_issued := ?issued, xs_logging := log\<rparr>) = (stop, st')"
      using assms(7) res j by (simp add: run_request_def Let_def)
    show "observation_wf X ?ob" using executed_wf [OF assms(2,3) conjunct2 [OF verdict]] .
    show "bound_to (w_header w) ?ob" using executed_bound [OF assms(2)] .
  qed (use h gen ev assms(4,6) in \<open>simp_all add: run_io_ok_def\<close>)
qed


section \<open>All requests\<close>

text \<open>\<open>loop_ok X x h obs0 specs stop obs\<close>: how the loop over \<open>specs\<close> can leave the observations.\<close>

definition all_evidence :: "crates \<Rightarrow> executor \<Rightarrow> request_spec list \<Rightarrow> observation list \<Rightarrow> bool" where
  "all_evidence X x specs obs \<longleftrightarrow> list_all2 (evidence X x) specs obs"

definition requests_end ::
    "crates \<Rightarrow> executor \<Rightarrow> log_writer \<Rightarrow> observation list \<Rightarrow> request_spec list \<Rightarrow> loop_end \<Rightarrow> logging \<Rightarrow> bool" where
  "requests_end X x w obs specs stop st \<longleftrightarrow> (\<exists>new w'. list_all (genuine X x) new \<and> w_header w' = w_header w \<and>
     (case stop of
        AllDone \<Rightarrow> all_evidence X x specs new \<and> holds X w' (obs @ new) st
      | HaltNow \<Rightarrow> holds X w' (obs @ new) st
      | AppendFailed e \<Rightarrow> torn_log X (w_header w) (snd (fst st)) (obs @ new)
      | RevertNow \<Rightarrow> holds X w' (obs @ new) st \<and>
          (length new < length specs \<or> (\<exists>ob \<in> set new. obs_status ob \<noteq> VerifiedSuccess))))"

lemma requests_end_Cons:
  assumes "requests_end X x (next_writer X w ob) (obs @ [ob]) specs stop st" and "genuine X x ob"
    and "evidence X x spec ob"
  shows "requests_end X x w obs (spec # specs) stop st"
proof -
  from assms(1) obtain new w' where "list_all (genuine X x) new" "w_header w' = w_header w"
    "case stop of
        AllDone \<Rightarrow> all_evidence X x specs new \<and> holds X w' ((obs @ [ob]) @ new) st
      | HaltNow \<Rightarrow> holds X w' ((obs @ [ob]) @ new) st
      | AppendFailed e \<Rightarrow> torn_log X (w_header w) (snd (fst st)) ((obs @ [ob]) @ new)
      | RevertNow \<Rightarrow> holds X w' ((obs @ [ob]) @ new) st \<and>
          (length new < length specs \<or> (\<exists>ob \<in> set new. obs_status ob \<noteq> VerifiedSuccess))"
    unfolding requests_end_def next_writer_simps by blast
  with assms(2,3) show ?thesis
    unfolding requests_end_def
    by (intro exI [of _ "ob # new"] exI [of _ w']) (cases stop; auto simp: all_evidence_def)
qed

lemma requests_end_stop:
  assumes "request_end X x w obs spec (Some stop) st"
  shows "requests_end X x w obs (spec # specs) stop st"
  using assms unfolding request_end_def
proof (elim disjE exE conjE)
  assume "Some stop = Some RevertNow" "holds X w obs st"
  then show ?thesis unfolding requests_end_def by (intro exI [of _ "[]"] exI [of _ w]) simp
next
  fix ob assume "Some stop = Some RevertNow" "obs_status ob \<noteq> VerifiedSuccess" "genuine X x ob"
    "holds X (next_writer X w ob) (obs @ [ob]) st"
  then show ?thesis unfolding requests_end_def
    by (intro exI [of _ "[ob]"] exI [of _ "next_writer X w ob"]) simp
next
  fix ob assume "Some stop = Some HaltNow" "genuine X x ob" "holds X (next_writer X w ob) (obs @ [ob]) st"
  then show ?thesis unfolding requests_end_def
    by (intro exI [of _ "[ob]"] exI [of _ "next_writer X w ob"]) simp
next
  fix ob e assume "Some stop = Some (AppendFailed e)" "genuine X x ob" "torn_log X (w_header w) (snd (fst st)) obs"
  then show ?thesis unfolding requests_end_def by (intro exI [of _ "[]"] exI [of _ w]) simp
next
  fix ob e assume "Some stop = Some (AppendFailed e)" "genuine X x ob" "torn_log X (w_header w) (snd (fst st)) (obs @ [ob])"
  then show ?thesis unfolding requests_end_def by (intro exI [of _ "[ob]"] exI [of _ w]) simp
qed simp_all

lemma run_requests_ends:
  assumes "json_ok X" and "pinned X x (w_header w)" and "set specs \<subseteq> set (wl_requests (pw_manifest (x_workload x)))"
    and "\<forall>i. run_io_ok (rrs i)" and "holds X w obs (xs_logging st)"
    and "distinct (map (request_oid X x) specs)" and "\<forall>spec \<in> set specs. w_seen w (request_oid X x spec) = None"
    and "run_requests X x pid rrs i specs st = (stop, st')"
  shows "requests_end X x w obs specs stop (xs_logging st')"
  using assms(2-8)
proof (induction specs arbitrary: w obs i st)
  case Nil
  then show ?case unfolding requests_end_def all_evidence_def
    by (intro exI [of _ "[]"] exI [of _ w]) auto
next
  case (Cons spec specs)
  obtain stop1 st1 where r: "run_request X x pid (rrs i) spec st = (stop1, st1)" by fastforce
  from run_request_ends [OF assms(1) Cons.prems(1) _ _ Cons.prems(4) _ r] Cons.prems(2,3,6)
  have e: "request_end X x w obs spec stop1 (xs_logging st1)" by simp
  show ?case
  proof (cases stop1)
    case None
    with e obtain ob where ob: "obs_observation_id ob = request_oid X x spec" "genuine X x ob" "evidence X x spec ob"
      "holds X (next_writer X w ob) (obs @ [ob]) (xs_logging st1)" by (auto simp: request_end_def)
    have "requests_end X x (next_writer X w ob) (obs @ [ob]) specs stop (xs_logging st')"
    proof (rule Cons.IH)
      show "run_requests X x pid rrs (i + 1) specs st1 = (stop, st')" using Cons.prems(7) r None by simp
      show "\<forall>spec' \<in> set specs. w_seen (next_writer X w ob) (request_oid X x spec') = None"
        using Cons.prems(5,6) ob(1) by (auto simp: image_iff)
    qed (use Cons.prems ob in auto)
    then show ?thesis using ob(2,3) by (rule requests_end_Cons)
  next
    case (Some s)
    with Cons.prems(7) r have "stop = s" "st' = st1" by simp_all
    with e Some requests_end_stop show ?thesis by simp
  qed
qed


section \<open>Reading the stored records\<close>

lemma stored_records_lines:
  assumes "codec_ok X from_slice" and "newline \<notin> set torn"
  shows "stored_records from_slice (lines X rs @ torn) = Ok rs"
proof (induction rs)
  case Nil
  from assms(2) have "position (\<lambda>b. b = newline) torn = None" by (induction torn) auto
  then show ?case by (simp add: stored_records.simps)
next
  case (Cons r rs)
  let ?c = "write_canonical X (record_value r)"
  have "position (\<lambda>b. b = newline) (to_line X r @ lines X rs @ torn) = Some (length ?c)"
    using position_to_line assms(1) by (fastforce simp: codec_ok_def to_line_def)
  moreover have "from_slice ?c = Some r" using assms(1) by (simp add: codec_ok_def)
  ultimately show ?case using Cons
    by (subst stored_records.simps) (simp add: to_line_def)
qed


lemma replay_prior:
  "replay X n off p seen rs = Ok (q, seen') \<Longrightarrow>
   set (p_observations q) \<subseteq> set (p_observations p) \<union> set (prior_observations rs)"
proof (induction rs arbitrary: n off p seen)
  case (Cons r rs)
  from Cons.prems obtain p1 seen1
    where step: "parse_record X (n + 1) off r p seen = Ok (p1, seen1)"
      and rest: "replay X (n + 1) (off + length (to_line X r))
        (p1\<lparr>p_complete_end := off + length (to_line X r)\<rparr>) seen1 rs = Ok (q, seen')"
    by (auto split: if_splits sum.splits)
  from step have "set (p_observations p1) \<subseteq> set (p_observations p) \<union> set (prior_observations [r])"
    by (cases r) (auto simp: result_simps Let_def split: if_splits option.splits)
  moreover have "set (prior_observations (r # rs)) = set (prior_observations [r]) \<union> set (prior_observations rs)"
    by (cases r) auto
  ultimately show ?case using Cons.IH [OF rest] by auto
qed auto

lemma open_log_records:
  assumes "open_log X w b obs"
  shows "\<exists>rs. b = lines X (HeaderRec (w_header w) # rs) \<and> set obs \<subseteq> set (prior_observations rs)"
proof -
  from assms(1) obtain rs q where rs: "b = lines X rs" "replay X 0 0 parsed_init Map.empty rs = Ok (q, w_seen w)"
    "p_header q = Some (w_header w)" "p_observations q = obs" by (auto simp: open_log_def)
  from rs(2,3) obtain r rs' where r: "rs = r # rs'" by (cases rs) (auto simp: parsed_init_def)
  with rs(2) obtain p1 seen1 where step: "parse_record X 1 0 r parsed_init Map.empty = Ok (p1, seen1)"
    and rest: "replay X 1 (length (to_line X r)) (p1\<lparr>p_complete_end := length (to_line X r)\<rparr>) seen1 rs' = Ok (q, w_seen w)"
    by (auto split: if_splits sum.splits)
  from step obtain h where h: "r = HeaderRec h" "p_header p1 = Some h"
    by (cases r) (auto simp: parsed_init_def result_simps Let_def)
  with replay_header [OF rest] rs(3) have "r = HeaderRec (w_header w)" by simp
  moreover from replay_prior [OF rs(2)] rs(4) r h have "set obs \<subseteq> set (prior_observations rs')"
    by (simp add: parsed_init_def)
  ultimately show ?thesis using rs(1) r by blast
qed

section \<open>The file between runs\<close>

text \<open>What a canary run can leave on disk: nothing, a header that was not written to its end, an
  unsealed log perhaps with a torn last line, or a sealed log; in the last two every recorded success
  is evidence.\<close>

definition canary_file :: "crates \<Rightarrow> executor \<Rightarrow> observation list \<Rightarrow> bytes option \<Rightarrow> bool" where
  "canary_file X x obs f \<longleftrightarrow> list_all (genuine X x) obs \<and>
     ((f = None \<and> obs = [])
    \<or> (\<exists>b. f = Some b \<and> newline \<notin> set b \<and> obs = [])
    \<or> (\<exists>b h. f = Some b \<and> torn_log X h b obs)
    \<or> (\<exists>w g t. f = Some (g @ to_line X (SealRec (seal_of X t g obs))) \<and> open_log X w g obs))"

lemma canary_file_torn: "list_all (genuine X x) obs \<Longrightarrow> torn_log X h b obs \<Longrightarrow> canary_file X x obs (Some b)"
  by (auto simp: canary_file_def)

lemma canary_file_open: "list_all (genuine X x) obs \<Longrightarrow> open_log X w b obs \<Longrightarrow> canary_file X x obs (Some b)"
  using canary_file_torn torn_logI by blast

lemma canary_file_sealed:
  "list_all (genuine X x) obs \<Longrightarrow> open_log X w b obs \<Longrightarrow>
   canary_file X x obs (Some (b @ to_line X (SealRec (seal_of X t b obs))))"
  by (auto simp: canary_file_def)

lemma seal_log_any:
  assumes "open_log X w b obs" and "codec_ok X from_slice"
  shows "seal_log X from_slice io t b =
    (case write_synced io b (to_line X (SealRec (seal_of X t b obs))) of
       (Inl e, f) \<Rightarrow> (Err e, f) | (Inr _, f) \<Rightarrow> (load_sealed X from_slice (Some f), f))"
proof -
  obtain q where q: "parse_log X from_slice (b @ []) = Ok (with_tail [] q)" "p_seal q = None"
    "p_observations q = obs" "\<not> p_partial_tail q"
    using open_log_parse [OF assms, of "[]"] by (metis empty_iff list.set(1))
  then show ?thesis by (simp add: seal_log_def with_tail_def seal_of_def Let_def)
qed

lemma seal_log_file:
  assumes "open_log X w b obs" and "codec_ok X from_slice" and "list_all (genuine X x) obs"
    and "seal_log X from_slice io t b = (r, b')"
  shows "canary_file X x obs (Some b')
    \<and> (\<forall>sealed. r = Ok sealed \<longrightarrow> sl_observations sealed = obs \<and> sl_header sealed = w_header w
         \<and> verify_bytes X from_slice b' = Ok sealed)"
proof -
  let ?l = "to_line X (SealRec (seal_of X t b obs))"
  obtain q f where ws: "write_synced io b ?l = (q, f)" by fastforce
  have "json_ok X" using assms(2) by (simp add: codec_ok_def)
  note cs = write_synced_cases [OF this ws]
  have b': "b' = f" using assms(4) ws seal_log_any [OF assms(1,2), of io t] by (auto split: sum.splits)
  have "canary_file X x obs (Some b')" unfolding b'
    using cs
  proof
    assume "f = b @ ?l"
    then show "canary_file X x obs (Some f)" using canary_file_sealed [OF assms(3,1)] by simp
  next
    assume "\<exists>torn. f = b @ torn \<and> newline \<notin> set torn \<and> \<not> is_ok q"
    then have "torn_log X (w_header w) f obs" using assms(1) unfolding torn_log_def by blast
    then show "canary_file X x obs (Some f)" using canary_file_torn [OF assms(3)] by simp
  qed
  moreover have "sl_observations sealed = obs \<and> sl_header sealed = w_header w
         \<and> verify_bytes X from_slice b' = Ok sealed" if "r = Ok sealed" for sealed
  proof (cases io)
    case IoOk
    from seal_log_open [OF assms(1,2), of t] assms(4) IoOk that
    have "sl_observations sealed = obs \<and> sl_header sealed = w_header w" by auto
    moreover have "load_sealed X from_slice (Some b') = Ok sealed"
      using seal_log_any [OF assms(1,2), of io t] assms(4) IoOk that by auto
    ultimately show ?thesis by (simp add: load_sealed_def)
  qed (use that assms(4) seal_log_any [OF assms(1,2), of io t] in simp_all)
  ultimately show ?thesis by blast
qed


section \<open>Opening the log\<close>

lemma create_log_file:
  assumes "json_ok X" and "create_log X io None h = (r, f)"
  shows "(\<exists>e. r = Err e \<and> canary_file X x [] f) \<or> (\<exists>w b. r = Ok w \<and> f = Some b \<and> open_log X w b [] \<and> w_header w = h)"
proof (cases "validate_header h")
  case (Inl e)
  with assms(2) show ?thesis by (auto simp: create_log_def canary_file_def)
next
  case (Inr u)
  obtain q b where ws: "write_synced io [] (to_line X (HeaderRec h)) = (q, b)" by fastforce
  have f: "f = Some b" "r = (case q of Inl e \<Rightarrow> Err e | Inr _ \<Rightarrow> Ok \<lparr>w_header = h, w_seen = Map.empty\<rparr>)"
    using assms(2) Inr ws by (auto simp: create_log_def split: sum.splits)
  have "create_log X IoOk None h = (Ok \<lparr>w_header = h, w_seen = Map.empty\<rparr>, Some (to_line X (HeaderRec h)))"
    using Inr by (simp add: create_log_def)
  from create_log_open [OF this] have o: "open_log X \<lparr>w_header = h, w_seen = Map.empty\<rparr> (to_line X (HeaderRec h)) []"
    by simp
  from write_synced_cases [OF assms(1) ws] show ?thesis
  proof
    assume b: "b = [] @ to_line X (HeaderRec h)"
    with o canary_file_open [of X x "[]"] have "canary_file X x [] (Some b)" by simp
    with f o b show ?thesis by (cases q) auto
  next
    assume "\<exists>torn. b = [] @ torn \<and> newline \<notin> set torn \<and> \<not> is_ok q"
    then have "newline \<notin> set b" "\<not> is_ok q" by auto
    then show ?thesis using f by (cases q) (simp_all add: canary_file_def)
  qed
qed

lemma sealed_file_closed:
  assumes "codec_ok X from_slice" and "open_log X w g obs"
  shows "reopen_log X from_slice (Some (g @ to_line X (SealRec (seal_of X t g obs)))) (w_header w) =
     (Err AlreadySealed, Some (g @ to_line X (SealRec (seal_of X t g obs))))"
proof -
  obtain rejs where sl: "seal_log X from_slice IoOk t g =
     (Ok \<lparr>sl_header = w_header w, sl_observations = obs, sl_rejections = rejs, sl_seal = seal_of X t g obs\<rparr>,
      g @ to_line X (SealRec (seal_of X t g obs)))"
    using seal_log_open [OF assms(2,1)] by blast
  from seal_log_loads [OF sl] show ?thesis
    using sealed_closed(1) [OF assms(1)] by (fastforce simp: load_sealed_def)
qed

definition ready_to_run :: "crates \<Rightarrow> executor \<Rightarrow> bool" where
  "ready_to_run X x \<longleftrightarrow> hex_ok X \<and> sha_ok X \<and> identity_wf (x_identity x) \<and> workload_wf (pw_manifest (x_workload x))
     \<and> pw_digest (x_workload x) = workload_digest X (pw_manifest (x_workload x))"

lemma open_existing_log:
  assumes "codec_ok X from_slice" and "ready_to_run X x" and "list_all (genuine X x) obs"
    and "open_executor_log X from_slice x s (Some b) = (r, f')"
    and "stored_records from_slice b = Ok (HeaderRec h # rs)"
    and "(\<exists>w g. reopen_log X from_slice (Some b) h = (Ok w, Some g) \<and> open_log X w g obs \<and> w_header w = h)
       \<or> (\<exists>e. reopen_log X from_slice (Some b) h = (Err e, Some b))"
    and "canary_file X x obs (Some b)"
  shows "(\<exists>e. r = Err e \<and> canary_file X x obs f')
     \<or> (\<exists>w b. r = Ok w \<and> f' = Some b \<and> open_log X w b obs \<and> pinned X x (w_header w))"
  using assms(2-7)
  by (auto simp: open_executor_log_def Let_def map_err_def pinned_def ready_to_run_def new_header_def
      split: if_splits)

lemma open_executor_log_ends:
  assumes "codec_ok X from_slice" and "ready_to_run X x" and "canary_file X x obs f"
    and "open_executor_log X from_slice x s f = (r, f')"
  shows "(\<exists>e. r = Err e \<and> canary_file X x obs f')
     \<or> (\<exists>w b. r = Ok w \<and> f' = Some b \<and> open_log X w b obs \<and> pinned X x (w_header w))"
proof -
  have gen: "list_all (genuine X x) obs" using assms(3) by (simp add: canary_file_def)
  from assms(3) consider (none) "f = None" "obs = []"
    | (headless) b where "f = Some b" "newline \<notin> set b" "obs = []"
    | (torn) b h where "f = Some b" "torn_log X h b obs"
    | (closed) w g t where "f = Some (g @ to_line X (SealRec (seal_of X t g obs)))" "open_log X w g obs"
    unfolding canary_file_def by blast
  then show ?thesis
  proof cases
    case none
    let ?h = "new_header (id_generation_id (x_identity x)) (pw_digest (x_workload x))
       (id_executable_digest (x_identity x)) (s_opened_at_ms s)"
    obtain q f1 where c: "create_log X (s_create_io s) None ?h = (q, f1)" by fastforce
    have "json_ok X" using assms(1) by (simp add: codec_ok_def)
    from create_log_file [OF this c, of x] c none assms(2,4) show ?thesis
      by (auto simp: open_executor_log_def Let_def map_err_def pinned_def ready_to_run_def new_header_def)
  next
    case headless
    with stored_records_lines [OF assms(1), of b "[]"] assms(3,4) show ?thesis
      by (auto simp: open_executor_log_def Let_def)
  next
    case torn
    then obtain w g tn where t: "b = g @ tn" "newline \<notin> set tn" "open_log X w g obs" "w_header w = h"
      by (auto simp: torn_log_def)
    obtain rs where "g = lines X (HeaderRec h # rs)" using open_log_records [OF t(3)] t(4) by auto
    then have "stored_records from_slice b = Ok (HeaderRec h # rs)"
      using stored_records_lines [OF assms(1) t(2), of "HeaderRec h # rs"] t(1) by simp
    from open_existing_log [OF assms(1,2) gen assms(4) [unfolded torn(1)] this] reopen_torn [OF assms(1) torn(2)]
      assms(3) torn(1) show ?thesis by blast
  next
    case closed
    let ?b = "g @ to_line X (SealRec (seal_of X t g obs))"
    obtain rs where "g = lines X (HeaderRec (w_header w) # rs)" using open_log_records [OF closed(2)] by auto
    then have "?b = lines X (HeaderRec (w_header w) # rs @ [SealRec (seal_of X t g obs)])" by simp
    then have "stored_records from_slice ?b = Ok (HeaderRec (w_header w) # rs @ [SealRec (seal_of X t g obs)])"
      using stored_records_lines [OF assms(1), of "[]"] by (metis append_Nil2 empty_iff list.set(1))
    from open_existing_log [OF assms(1,2) gen assms(4) [unfolded closed(1)] this]
      sealed_file_closed [OF assms(1) closed(2)] assms(3) closed(1) show ?thesis by blast
  qed
qed


lemma replay_seen:
  "replay X n off p seen rs = Ok (q, seen') \<Longrightarrow>
   dom seen \<union> obs_observation_id ` set (prior_observations rs) \<subseteq> dom seen'"
proof (induction rs arbitrary: n off p seen)
  case (Cons r rs)
  from Cons.prems obtain p1 seen1
    where step: "parse_record X (n + 1) off r p seen = Ok (p1, seen1)"
      and rest: "replay X (n + 1) (off + length (to_line X r))
        (p1\<lparr>p_complete_end := off + length (to_line X r)\<rparr>) seen1 rs = Ok (q, seen')"
    by (auto split: if_splits sum.splits)
  from step have "dom seen \<union> obs_observation_id ` set (prior_observations [r]) \<subseteq> dom seen1"
    by (cases r) (auto simp: result_simps Let_def split: if_splits option.splits)
  moreover have "set (prior_observations (r # rs)) = set (prior_observations [r]) \<union> set (prior_observations rs)"
    by (cases r) auto
  ultimately show ?case using Cons.IH [OF rest] unfolding image_Un by blast
qed auto

lemma open_log_prior:
  assumes "open_log X w b obs" and "codec_ok X from_slice"
  shows "\<exists>rs. stored_records from_slice b = Ok rs \<and> set obs \<subseteq> set (prior_observations rs)
     \<and> (obs = [] \<longrightarrow> prior_observations rs = [])"
proof -
  from assms(1) obtain rs q where rs: "b = lines X rs" "replay X 0 0 parsed_init Map.empty rs = Ok (q, w_seen w)"
    "p_observations q = obs" by (auto simp: open_log_def)
  have "stored_records from_slice b = Ok rs"
    using stored_records_lines [OF assms(2), of "[]" rs] rs(1) by simp
  moreover have "set obs \<subseteq> set (prior_observations rs)" using replay_prior [OF rs(2)] rs(3) by (simp add: parsed_init_def)
  moreover have "prior_observations rs = []" if "obs = []"
    using replay_seen [OF rs(2)] open_log_wf(1) [OF assms(1)] that by simp
  ultimately show ?thesis by blast
qed

section \<open>The end of a run\<close>

definition script_io_ok :: "script \<Rightarrow> bool" where
  "script_io_ok s \<longleftrightarrow> list_all (\<lambda>ev. case ev of AcceptedConn _ _ _ io \<Rightarrow> io = IoOk | _ \<Rightarrow> True) (s_ready s)
     \<and> (\<forall>i. run_io_ok (s_requests s i)) \<and> list_all (\<lambda>t. st_io t = IoOk) (s_strays s)"

text \<open>\<open>covered\<close>: every planned request has its evidence and nothing but successes is recorded.
  \<open>short\<close>: fewer observations than planned requests, or a failure among them.\<close>

definition covered :: "crates \<Rightarrow> executor \<Rightarrow> observation list \<Rightarrow> bool" where
  "covered X x obs \<longleftrightarrow> (\<forall>ob \<in> set obs. obs_status ob = VerifiedSuccess)
     \<and> (\<forall>spec \<in> set (planned_requests x). \<exists>ob \<in> set obs. evidence X x spec ob)"

definition short :: "executor \<Rightarrow> observation list \<Rightarrow> bool" where
  "short x obs \<longleftrightarrow> length obs < length (planned_requests x) \<or> (\<exists>ob \<in> set obs. obs_status ob \<noteq> VerifiedSuccess)"

type_synonym run_result = "(exec_error + execution_outcome) \<times> generation_info \<times> bytes option"

definition run_end ::
    "crates \<Rightarrow> (bytes \<Rightarrow> log_record option) \<Rightarrow> executor \<Rightarrow> observation list \<Rightarrow> observation list \<Rightarrow> run_result \<Rightarrow> bool" where
  "run_end X from_slice x obs obs' res \<longleftrightarrow> (case res of (r, g', f') \<Rightarrow>
     canary_file X x obs' f' \<and>
     (\<forall>sealed sm. r = Ok (SealedOutcome sealed sm) \<longrightarrow>
        sl_observations sealed = obs' \<and> pinned X x (sl_header sealed) \<and> distinct (obs_ids obs')
        \<and> (\<exists>b. f' = Some b \<and> verify_bytes X from_slice b = Ok sealed)
        \<and> (if es_reverted sm then gi_state g' = Reverting \<and> (obs = [] \<longrightarrow> short x obs') else covered X x obs')))"

lemma run_end_Err: "canary_file X x obs' f' \<Longrightarrow> run_end X from_slice x obs obs' (Err e, g', f')"
  by (simp add: run_end_def)

lemma run_end_Halted: "canary_file X x obs' f' \<Longrightarrow> run_end X from_slice x obs obs' (Ok (HaltedOutcome sm), g', f')"
  by (simp add: run_end_def)

lemma finish_ends:
  assumes "codec_ok X from_slice" and "holds X w obs' st" and "pinned X x (w_header w)"
    and "list_all (genuine X x) obs'"
    and "if revert then obs = [] \<longrightarrow> short x obs' else covered X x obs'"
  shows "run_end X from_slice x obs obs' (finish X from_slice s revert g st)"
proof -
  obtain b sm where st: "st = ((w, b), sm)" "open_log X w b obs'" "\<not> es_reverted sm"
    using assms(2) by (cases st) (auto simp: holds_def)
  obtain r b' where sl: "seal_log X from_slice (s_seal_io s) (s_sealed_at_ms s) b = (r, b')" by fastforce
  from seal_log_file [OF st(2) assms(1,4) sl] open_log_wf(2) [OF st(2)] assms(3,5) st sl show ?thesis
    by (cases r) (auto simp: finish_def run_end_def Let_def)
qed


definition distinct_requests :: "crates \<Rightarrow> executor \<Rightarrow> bool" where
  "distinct_requests X x \<longleftrightarrow> distinct (map (request_oid X x) (wl_requests (pw_manifest (x_workload x))))"

lemma planned_subset: "set (planned_requests x) \<subseteq> set (wl_requests (pw_manifest (x_workload x)))"
  by (auto simp: planned_requests_def Let_def dest: in_set_takeD split: option.splits)

lemma distinct_planned: "distinct_requests X x \<Longrightarrow> distinct (map (request_oid X x) (planned_requests x))"
  by (auto simp: planned_requests_def Let_def distinct_requests_def take_map [symmetric] split: option.splits)

lemma remaining_requests_alt:
  "remaining_requests X x w = filter (\<lambda>spec. w_seen w (request_oid X x spec) = None) (planned_requests x)"
  by (simp add: remaining_requests_def writer_contains_def request_oid_def)

lemma evidence_oid: "evidence X x spec ob \<Longrightarrow> obs_observation_id ob = request_oid X x spec"
  by (simp add: evidence_for_def observation_wf_def request_oid_def)

text \<open>A request that is not asked again has its evidence in the log already.\<close>

lemma recorded_evidence:
  assumes "open_log X w b obs" and "list_all (genuine X x) obs" and "\<forall>ob \<in> set obs. obs_status ob = VerifiedSuccess"
    and "distinct_requests X x" and "spec \<in> set (planned_requests x)" and "spec \<notin> set (remaining_requests X x w)"
  shows "\<exists>ob \<in> set obs. evidence X x spec ob"
proof -
  from assms(5,6) have "w_seen w (request_oid X x spec) \<noteq> None" by (simp add: remaining_requests_alt)
  then have "request_oid X x spec \<in> set (obs_ids obs)"
    using open_log_wf(1) [OF assms(1)] seen_of_None by metis
  then obtain ob where ob: "ob \<in> set obs" "obs_observation_id ob = request_oid X x spec" by (auto simp: obs_ids_def)
  with assms(2,3) obtain spec' where spec': "spec' \<in> set (wl_requests (pw_manifest (x_workload x)))" "evidence X x spec' ob"
    by (auto simp: list_all_iff genuine_def)
  from evidence_oid [OF spec'(2)] ob(2) have "request_oid X x spec' = request_oid X x spec" by simp
  with assms(4,5) spec'(1) planned_subset have "spec' = spec"
    unfolding distinct_requests_def distinct_map by (metis inj_onD subsetD)
  with ob(1) spec'(2) show ?thesis by blast
qed

lemma evidence_status: "evidence X x spec ob \<Longrightarrow> obs_status ob = VerifiedSuccess"
  by (simp add: evidence_for_def)

lemma all_evidence_covers:
  assumes "all_evidence X x specs new"
  shows "(\<forall>ob \<in> set new. obs_status ob = VerifiedSuccess) \<and> (\<forall>spec \<in> set specs. \<exists>ob \<in> set new. evidence X x spec ob)"
  using assms unfolding all_evidence_def
  by (induction rule: list_all2_induct) (auto dest: evidence_status)

lemma prior_failure_None: "prior_failure obs = None \<longleftrightarrow> (\<forall>ob \<in> set obs. obs_status ob = VerifiedSuccess)"
  by (auto simp: prior_failure_def find_None_iff find_Some_iff dest: nth_mem split: option.splits)

lemma spawn_state: "spawn_worker_process p t k g = (r, g') \<Longrightarrow> gi_generation_id g' = gi_generation_id g"
  by (auto simp: spawn_worker_process_def split: option.splits)

lemma launch_ends:
  assumes "codec_ok X from_slice" and "holds X w obs st" and "pinned X x (w_header w)" and "list_all (genuine X x) obs"
    and "\<forall>ob \<in> set obs. obs_status ob = VerifiedSuccess" and "distinct_requests X x" and "script_io_ok s"
    and "todo = remaining_requests X x w" and "todo \<noteq> []"
  shows "\<exists>ext. run_end X from_slice x obs (obs @ ext) (launch_and_drive X from_slice x s todo g st)"
proof -
  have json: "json_ok X" using assms(1) by (simp add: codec_ok_def)
  have len: "length todo \<le> length (planned_requests x)" using assms(8) by (simp add: remaining_requests_alt)
  have "planned_requests x \<noteq> []" using assms(8,9) by (auto simp: remaining_requests_alt)
  then have short0: "short x []" by (simp add: short_def)
  from assms(2) have "canary_file X x obs (Some (snd (fst st)))"
    using canary_file_open [OF assms(4)] by (auto simp: holds_def)
  then have stop0: "\<exists>ext. run_end X from_slice x obs (obs @ ext) (Err e, g', Some (snd (fst st)))" for e g'
    by (intro exI [of _ "[]"]) (simp add: run_end_Err)
  obtain q g1 where sp: "spawn_worker_process (s_spawned s) (x_executable_text x)
     (generation_socket_path (x_rsi_root x) (id_generation_id (x_identity x))) g = (q, g1)" by fastforce
  obtain ready st1 where rd: "await_readiness X x s (s_ready s) st = (ready, st1)" by (metis surj_pair)
  have h1: "holds X w obs st1" using await_readiness_holds [OF rd assms(2)] assms(7) by (simp add: script_io_ok_def)
  let ?st2 = "(fst st1, (snd st1)\<lparr>es_ready := True\<rparr>)" and ?g2 = "g1\<lparr>gi_state := CanaryActive\<rparr>"
  have h2: "holds X w obs ?st2" using h1 by (simp add: holds_def)
  obtain stop st3 where rr: "run_requests X x (gi_pid ?g2) (s_requests s) 0 todo
       \<lparr>xs_logging = ?st2, xs_issued = {}, xs_answered = {}, xs_recorded = 0\<rparr> = (stop, st3)" by fastforce
  have ends: "requests_end X x w obs todo stop (xs_logging st3)"
  proof (rule run_requests_ends [OF json assms(3) _ _ _ _ _ rr])
    show "set todo \<subseteq> set (wl_requests (pw_manifest (x_workload x)))"
      using assms(8) planned_subset by (auto simp: remaining_requests_alt)
    show "distinct (map (request_oid X x) todo)"
      using distinct_planned [OF assms(6)] assms(8) by (simp add: remaining_requests_alt distinct_map_filter)
  qed (use assms(7,8) h2 in \<open>simp_all add: script_io_ok_def remaining_requests_alt\<close>)
  then obtain new w' where new: "list_all (genuine X x) new" "w_header w' = w_header w"
    "case stop of
        AllDone \<Rightarrow> all_evidence X x todo new \<and> holds X w' (obs @ new) (xs_logging st3)
      | HaltNow \<Rightarrow> holds X w' (obs @ new) (xs_logging st3)
      | AppendFailed e \<Rightarrow> torn_log X (w_header w) (snd (fst (xs_logging st3))) (obs @ new)
      | RevertNow \<Rightarrow> holds X w' (obs @ new) (xs_logging st3) \<and>
          (length new < length todo \<or> (\<exists>ob \<in> set new. obs_status ob \<noteq> VerifiedSuccess))"
    unfolding requests_end_def by blast
  have gen: "list_all (genuine X x) (obs @ new)" using assms(4) new(1) by simp
  have pin: "pinned X x (w_header w')" using assms(3) new(2) by simp
  have drained: "holds X w' (obs @ new) (drain_strays X (s_strays s) (xs_logging st3))"
    if "holds X w' (obs @ new) (xs_logging st3)"
    using drain_strays_holds [OF that] assms(7) by (simp add: script_io_ok_def)
  have driven: "run_end X from_slice x obs (obs @ new)
     (case (stop, st3) of
         (AppendFailed e, st3) \<Rightarrow> (Err (ExLog e), ?g2, Some (snd (fst (xs_logging st3))))
       | (HaltNow, st3) \<Rightarrow> (Ok (HaltedOutcome (snd (xs_logging st3))), ?g2, Some (snd (fst (xs_logging st3))))
       | (stop, st3) \<Rightarrow> finish X from_slice s (stop = RevertNow) ?g2 (drain_strays X (s_strays s) (xs_logging st3)))"
  proof (cases stop)
    case AllDone
    have "covered X x (obs @ new)"
      unfolding covered_def using all_evidence_covers new(3) AllDone assms(5)
        recorded_evidence [of X w "snd (fst st)" obs x] assms(2,4,6,8)
      by (auto simp: holds_def) blast+
    with finish_ends [OF assms(1) drained pin gen, of False] new(3) AllDone show ?thesis by simp
  next
    case RevertNow
    with new(3) len have "obs = [] \<longrightarrow> short x (obs @ new)" by (auto simp: short_def)
    with finish_ends [OF assms(1) drained pin gen, of True] new(3) RevertNow show ?thesis by simp
  next
    case HaltNow
    with new(3) canary_file_open [OF gen] show ?thesis by (auto simp: holds_def run_end_Halted)
  next
    case (AppendFailed e)
    with new(3) canary_file_torn [OF gen] show ?thesis by (auto simp: run_end_Err)
  qed
  show ?thesis
  proof (cases "s_bound s")
    case (Inl e)
    with stop0 show ?thesis by (simp add: launch_and_drive_def)
  next
    case (Inr u)
    show ?thesis
    proof (cases q)
      case (Inl e)
      with stop0 \<open>s_bound s = Inr u\<close> sp show ?thesis by (simp add: launch_and_drive_def)
    next
      case (Inr p)
      show ?thesis
      proof (cases ready)
        case True
        with driven Inr \<open>s_bound s = Inr u\<close> sp rd rr show ?thesis
          unfolding launch_and_drive_def Let_def by (intro exI [of _ new]) simp
      next
        case False
        have "run_end X from_slice x obs obs (finish X from_slice s True g1 st1)"
          by (rule finish_ends [OF assms(1) h1 assms(3,4)]) (use short0 in auto)
        with False Inr \<open>s_bound s = Inr u\<close> sp rd show ?thesis
          unfolding launch_and_drive_def by (intro exI [of _ "[]"]) simp
      qed
    qed
  qed
qed


text \<open>The state of the generation after a run.\<close>

lemma finish_generation:
  "finish X from_slice s revert g st = (r, g', f') \<Longrightarrow> g' = (if revert then g\<lparr>gi_state := Reverting\<rparr> else g)"
  by (auto simp: finish_def Let_def split: prod.splits sum.splits)

lemma launch_generation:
  assumes "launch_and_drive X from_slice x s todo g st = (r, g', f')"
  shows "gi_generation_id g' = gi_generation_id g \<and> (gi_state g' = gi_state g \<or> gi_state g' \<in> {Starting, CanaryActive, Reverting})"
  using assms
  by (auto simp: launch_and_drive_def spawn_worker_process_def Let_def dest!: finish_generation
      split: sum.splits option.splits prod.splits bool.splits loop_end.splits if_splits)

lemma run_canary_generation:
  assumes "run_canary X from_slice x s g f = (r, g', f')"
  shows "gi_generation_id g' = gi_generation_id g \<and> (gi_state g' = gi_state g \<or> gi_state g' \<in> {Starting, CanaryActive, Reverting})"
  using assms
  by (auto simp: run_canary_def Let_def dest!: finish_generation launch_generation
      split: sum.splits option.splits prod.splits if_splits)

lemma run_canary_ends:
  assumes "codec_ok X from_slice" and "hex_ok X" and "sha_ok X" and "canary_file X x obs f"
    and "distinct_requests X x" and "script_io_ok s"
  shows "\<exists>ext. run_end X from_slice x obs (obs @ ext) (run_canary X from_slice x s g f)"
proof -
  have gen: "list_all (genuine X x) obs" using assms(4) by (simp add: canary_file_def)
  have keep: "\<exists>ext. run_end X from_slice x obs (obs @ ext) (Err e, g', f1)" if "canary_file X x obs f1" for e g' f1
    using that by (intro exI [of _ "[]"]) (simp add: run_end_Err)
  show ?thesis
  proof (cases "ready_to_run X x \<and> gi_generation_id g = id_generation_id (x_identity x)
      \<and> verify_executable X (x_identity x) (s_executable s) = Ok ()")
    case False
    have "\<exists>e. run_canary X from_slice x s g f = (Err e, g, f)"
      using False assms(2,3)
      by (auto simp: run_canary_def ready_to_run_def Let_def result_simps split: sum.splits)
    with keep [OF assms(4)] show ?thesis by auto
  next
    case True
    obtain r1 f1 where o: "open_executor_log X from_slice x s f = (r1, f1)" by fastforce
    from True have start: "run_canary X from_slice x s g f = (case (r1, f1) of
        (Inl e, f) \<Rightarrow> (Err e, g, f)
      | (Inr w, None) \<Rightarrow> (Err ExUnreadable, g, None)
      | (Inr w, Some b) \<Rightarrow>
      (case stored_records from_slice b of
        Inl e \<Rightarrow> (Err e, g, Some b)
      | Inr records \<Rightarrow>
          let obs = prior_observations records;
              sm = empty_summary\<lparr>es_requests_planned := length (planned_requests x), es_recovered := length obs\<rparr>;
              failure = prior_failure obs in
          if failure \<noteq> None then finish X from_slice s True g ((w, b), sm\<lparr>es_first_failure := failure\<rparr>)
          else
            let todo = remaining_requests X x w in
            if todo = [] then finish X from_slice s False g ((w, b), sm\<lparr>es_ready := True\<rparr>)
            else launch_and_drive X from_slice x s todo g ((w, b), sm)))"
      using o validate_identity_Ok [of "x_identity x" "()"] validate_workload_Ok [of "pw_manifest (x_workload x)" "()"]
      by (simp add: run_canary_def ready_to_run_def)
    from open_executor_log_ends [OF assms(1) conjunct1 [OF True] assms(4) o] show ?thesis
    proof (elim disjE exE conjE)
      fix e assume "r1 = Err e" "canary_file X x obs f1"
      with keep start show ?thesis by simp
    next
      fix w b assume w: "r1 = Ok w" "f1 = Some b" "open_log X w b obs" "pinned X x (w_header w)"
      obtain rs where rs: "stored_records from_slice b = Ok rs" "set obs \<subseteq> set (prior_observations rs)"
        "obs = [] \<longrightarrow> prior_observations rs = []" using open_log_prior [OF w(3) assms(1)] by blast
      let ?sm = "empty_summary\<lparr>es_requests_planned := length (planned_requests x),
         es_recovered := length (prior_observations rs)\<rparr>"
      have h: "holds X w obs ((w, b), sm)" if "\<not> es_reverted sm" for sm using w(3) that by (simp add: holds_def)
      show ?thesis
      proof (cases "prior_failure (prior_observations rs)")
        case (Some reason)
        with rs(3) have "obs \<noteq> []" by (auto simp: prior_failure_def)
        with finish_ends [OF assms(1) h w(4) gen, of _ True] Some start w rs(1)
        have "run_end X from_slice x obs obs (run_canary X from_slice x s g f)"
          by (simp add: Let_def empty_summary_def)
        then show ?thesis by (intro exI [of _ "[]"]) simp
      next
        case None
        with rs(2) have succ: "\<forall>ob \<in> set obs. obs_status ob = VerifiedSuccess" by (auto simp: prior_failure_None)
        show ?thesis
        proof (cases "remaining_requests X x w")
          case Nil
          have "covered X x obs"
            using recorded_evidence [OF w(3) gen succ assms(5)] succ Nil by (simp add: covered_def)
          with finish_ends [OF assms(1) h w(4) gen, of _ False] None Nil start w rs(1)
          have "run_end X from_slice x obs obs (run_canary X from_slice x s g f)"
            by (simp add: Let_def empty_summary_def)
          then show ?thesis by (intro exI [of _ "[]"]) simp
        next
          case (Cons spec specs)
          with launch_ends [OF assms(1) h w(4) gen succ assms(5,6) refl] None start w rs(1) show ?thesis
            by (simp add: Let_def empty_summary_def)
        qed
      qed
    qed
  qed
qed


section \<open>Admission of a run\<close>

lemma covered_admitted:
  assumes "covered X x obs" and "list_all (genuine X x) obs" and "pinned X x (sl_header sealed)"
    and "sl_observations sealed = obs" and "distinct (obs_ids obs)" and "length obs < 2 ^ 64"
    and "distinct_requests X x" and "target \<noteq> 0" and "unat target \<le> length (planned_requests x)"
  shows "\<exists>d. admit_sealed_quota X sealed (x_identity x) (pw_manifest (x_workload x)) target = Ok d"
proof -
  have "quota_evidence X sealed (x_identity x) (pw_manifest (x_workload x))"
    using assms(1-4) by (auto simp: quota_evidence_def pinned_def covered_def genuine_def list_all_iff)
  moreover have "target \<le> of_nat (card (set (obs_ids obs)))"
  proof -
    have "request_oid X x ` set (planned_requests x) \<subseteq> set (obs_ids obs)"
      using assms(1) evidence_oid unfolding covered_def obs_ids_def by (auto simp: image_iff) metis
    then have "card (request_oid X x ` set (planned_requests x)) \<le> card (set (obs_ids obs))"
      by (simp add: card_mono)
    moreover have "card (request_oid X x ` set (planned_requests x)) = length (planned_requests x)"
      using distinct_card [OF distinct_planned [OF assms(7)]] by simp
    moreover have "card (set (obs_ids obs)) = length obs"
      using distinct_card [OF assms(5)] by (simp add: obs_ids_def)
    ultimately show ?thesis using assms(6,9) by (simp add: word_le_nat_alt unat_of_nat)
  qed
  ultimately show ?thesis using assms(4,8) by (simp add: admit_sealed_quota_Ok)
qed

lemma short_refused:
  assumes "short x (sl_observations sealed)" and "distinct (obs_ids (sl_observations sealed))"
    and "length (sl_observations sealed) < 2 ^ 64" and "length (planned_requests x) \<le> unat target"
  shows "\<not> is_ok (admit_sealed_quota X sealed identity workload target)"
proof
  let ?obs = "sl_observations sealed"
  assume "is_ok (admit_sealed_quota X sealed identity workload target)"
  then have q: "quota_evidence X sealed identity workload" "target \<le> of_nat (card (set (obs_ids ?obs)))"
    by (auto simp: is_ok_iff admit_sealed_quota_Ok)
  from q(1) have "\<forall>ob \<in> set ?obs. obs_status ob = VerifiedSuccess"
    by (auto simp: quota_evidence_def evidence_for_def)
  with assms(1) have "length ?obs < length (planned_requests x)" by (auto simp: short_def)
  moreover have "card (set (obs_ids ?obs)) = length ?obs"
    using distinct_card [OF assms(2)] by (simp add: obs_ids_def)
  ultimately show False using q(2) assms(3,4) by (simp add: word_le_nat_alt unat_of_nat)
qed

section \<open>A sample run\<close>

definition sample_executor :: executor where
  "sample_executor = \<lparr>x_memory_limit_mb = 64, x_rsi_root = ''/rsi'', x_executable_text = ''canary'',
     x_workload = \<lparr>pw_manifest = sample_workload, pw_digest = workload_digest sample sample_workload\<rparr>,
     x_identity = sample_identity,
     x_exec = \<lparr>ec_readiness_text = ''10s'', ec_deadline_cap_ms = None, ec_request_limit = None,
       ec_halt_after_requests = None\<rparr>\<rparr>"

definition sample_handshake :: handshake where
  "sample_handshake = \<lparr>hs_first = Ok (ReadyMsg ''gen-1'' 7 [] CANARY_PROTOCOL_VERSION), hs_sent = Ok (),
     hs_answer = Ok (AuthResponse (compute_hmac sample ''run'' (''gen-1'' @ '':'' @ ''n''))), hs_ping = Ok ()\<rparr>"

definition sample_run :: "string \<Rightarrow> request_run" where
  "sample_run output = \<lparr>rr_strays = [], rr_sent = True, rr_sent_elapsed_ns = 1,
     rr_frames = [\<lparr>fr_msg = Ok Pong, fr_elapsed_ns = 5, fr_now_ms = 8, fr_io = IoOk, fr_text = ''Pong''\<rparr>,
       \<lparr>fr_msg = Ok (ExecuteResult CANARY_PROTOCOL_VERSION ''gen-1'' ''r-1'' output None), fr_elapsed_ns = 2000,
        fr_now_ms = 8, fr_io = IoOk, fr_text = ''result''\<rparr>],
     rr_timeout_elapsed_ns = 50000000, rr_statm = Some (dec_nat (unat (9 :: u64)) @ '' '' @ dec_nat (unat (4 :: u64)) @ '' '' @ ''1''), rr_page_kb = 4, rr_observed_at_ms = 9,
     rr_io = IoOk, rr_reject_io = IoOk\<rparr>"

definition sample_script :: "ready_event list \<Rightarrow> string \<Rightarrow> script" where
  "sample_script evs output = \<lparr>s_executable = Some ''elf'', s_opened_at_ms = 7, s_create_io = IoOk, s_bound = Ok (),
     s_spawned = Some 7, s_run_secret = ''run'', s_ready = evs, s_requests = (\<lambda>_. sample_run output), s_strays = [],
     s_sealed_at_ms = 11, s_seal_io = IoOk, s_dbg = (\<lambda>_. [])\<rparr>"

definition sample_accept :: ready_event where
  "sample_accept = AcceptedConn (Some sample_handshake) ''n'' 8 IoOk"

definition start_writer :: log_writer where
  "start_writer = \<lparr>w_header = evidence_header, w_seen = Map.empty\<rparr>"

definition start_file :: bytes where
  "start_file = to_line sample (HeaderRec evidence_header)"

lemma sample_executor_simps [simp]:
  "x_identity sample_executor = sample_identity" "pw_manifest (x_workload sample_executor) = sample_workload"
  "pw_digest (x_workload sample_executor) = workload_digest sample sample_workload"
  "x_memory_limit_mb sample_executor = 64" "planned_requests sample_executor = [sample_request]"
  "ec_halt_after_requests (x_exec sample_executor) = None" "effective_deadline sample_executor sample_request = 50"
  by (simp_all add: sample_executor_def planned_requests_def sample_workload_def effective_deadline_def sample_request_def)

lemma sample_identity_simps [simp]:
  "id_generation_id sample_identity = ''gen-1''" "id_executable_digest sample_identity = sha256_hex sample ''elf''"
  by (simp_all add: sample_identity_def new_identity_def)

lemma sample_script_ok: "list_all (\<lambda>ev. case ev of AcceptedConn _ _ _ io \<Rightarrow> io = IoOk | _ \<Rightarrow> True) evs \<Longrightarrow>
   script_io_ok (sample_script evs out)"
  by (simp add: script_io_ok_def run_io_ok_def sample_script_def sample_run_def)

lemma sample_distinct: "distinct_requests sample sample_executor"
  by (simp add: distinct_requests_def sample_workload_def)

lemma sample_fresh: "canary_file sample sample_executor [] None"
  by (simp add: canary_file_def)

lemma start_opened:
  "open_executor_log sample (reread sample) sample_executor (sample_script evs out) None = (Ok start_writer, Some start_file)"
proof -
  have "new_header ''gen-1'' (workload_digest sample sample_workload) (sha256_hex sample ''elf'') 7 = evidence_header"
    by (simp add: evidence_header_def)
  moreover have "header_wf evidence_header"
    by (simp add: header_wf_def evidence_header_def new_header_def sample_names workload_digest_def)
  then have "validate_header evidence_header = Ok ()" by (simp add: validate_header_Ok)
  ultimately show ?thesis
    by (simp add: open_executor_log_def create_log_def sample_script_def map_err_def start_writer_def start_file_def)
qed

lemma start_records: "stored_records (reread sample) start_file = Ok [HeaderRec evidence_header]"
  using stored_records_lines [OF sample_codec, of "[]" "[HeaderRec evidence_header]"] by (simp add: start_file_def)

lemma start_run:
  "run_canary sample (reread sample) sample_executor (sample_script evs out) (generation ''gen-1'' Staged) None =
   launch_and_drive sample (reread sample) sample_executor (sample_script evs out) [sample_request] (generation ''gen-1'' Staged)
     ((start_writer, start_file), empty_summary\<lparr>es_requests_planned := 1\<rparr>)"
proof -
  have "validate_identity sample_identity = Ok ()" "validate_workload sample_workload = Ok ()"
    using sample_identity_wf sample_workload_wf by (simp_all add: validate_identity_Ok validate_workload_Ok)
  moreover have "verify_executable sample sample_identity (Some ''elf'') = Ok ()" by (simp add: result_simps)
  moreover have "remaining_requests sample sample_executor start_writer = [sample_request]"
    by (simp add: remaining_requests_alt start_writer_def)
  ultimately show ?thesis using start_opened start_records
    by (simp add: run_canary_def generation_def sample_script_def prior_failure_def empty_summary_def)
qed


lemma finish_sealed:
  assumes "open_log sample w b obs"
  shows "\<exists>sealed f'. finish sample (reread sample) (sample_script evs out) revert g ((w, b), sm) =
     (Ok (SealedOutcome sealed (if revert then sm\<lparr>es_reverted := True\<rparr> else sm)),
      (if revert then g\<lparr>gi_state := Reverting\<rparr> else g), f') \<and> sl_observations sealed = obs"
proof -
  obtain rejs where "seal_log sample (reread sample) IoOk 11 b =
     (Ok \<lparr>sl_header = w_header w, sl_observations = obs, sl_rejections = rejs, sl_seal = seal_of sample 11 b obs\<rparr>,
      b @ to_line sample (SealRec (seal_of sample 11 b obs)))"
    using seal_log_open [OF assms sample_codec] by blast
  then show ?thesis by (simp add: finish_def sample_script_def)
qed

lemma start_open: "open_log sample start_writer start_file []"
proof -
  have "create_log sample IoOk None evidence_header = (Ok start_writer, Some start_file)"
    using start_opened [of "[]" "[]"]
    by (auto simp: open_executor_log_def map_err_def evidence_header_def sample_script_def split: prod.splits sum.splits)
  from create_log_open [OF this] show ?thesis by simp
qed

text \<open>A worker that never becomes ready.\<close>

lemma sample_unready_run:
  "\<exists>sealed sm g' f'. run_canary sample (reread sample) sample_executor (sample_script [] out) (generation ''gen-1'' Staged) None =
     (Ok (SealedOutcome sealed sm), g', f') \<and> es_reverted sm \<and> sl_observations sealed = []"
proof -
  let ?g = "(generation ''gen-1'' Staged)\<lparr>gi_pid := Some 7, gi_socket_path := Some ''/rsi/workers/gen-1.sock'', gi_state := Starting\<rparr>"
  let ?sm = "empty_summary\<lparr>es_requests_planned := 1,
     es_first_failure := Some (''no authenticated versioned readiness within '' @ ''10s'')\<rparr>"
  have "launch_and_drive sample (reread sample) sample_executor (sample_script [] out) [sample_request]
      (generation ''gen-1'' Staged) ((start_writer, start_file), empty_summary\<lparr>es_requests_planned := 1\<rparr>) =
    finish sample (reread sample) (sample_script [] out) True ?g ((start_writer, start_file), ?sm)"
    by (simp add: launch_and_drive_def sample_script_def spawn_worker_process_def sample_executor_def
        generation_socket_path_def)
  with start_run [of "[]" out] finish_sealed [OF start_open, of "[]" out True ?g ?sm] show ?thesis by fastforce
qed

text \<open>A worker that answers the request.\<close>

lemma sample_memory: "memory_verdict sample_executor (Some 7) (sample_run out) = None"
proof -
  have "(16 :: u64) div 1024 = 0" by (simp add: word_arith_nat_div)
  then have "is_memory_within_budget 64 4 (rr_statm (sample_run out)) = Ok True"
    using statm_memory [of 4 "9 :: u64" 4 "''1''"] unfolding is_memory_within_budget_def sample_run_def
    by (simp add: and_then_def)
  then show ?thesis by (simp add: memory_verdict_def) (simp add: sample_run_def)
qed

lemma sample_pinned: "pinned sample sample_executor (w_header start_writer)"
  using sample_identity_wf sample_workload_wf
  by (simp add: pinned_def start_writer_def evidence_header_def new_header_def)

lemma sample_answered_run:
  "\<exists>sealed sm g' f'. run_canary sample (reread sample) sample_executor (sample_script [sample_accept] ''pong'')
     (generation ''gen-1'' Staged) None = (Ok (SealedOutcome sealed sm), g', f') \<and> \<not> es_reverted sm
     \<and> length (sl_observations sealed) = 1"
proof -
  let ?s = "sample_script [sample_accept] ''pong''" and ?rr = "sample_run ''pong''"
  let ?g = "(generation ''gen-1'' Staged)\<lparr>gi_pid := Some 7, gi_socket_path := Some ''/rsi/workers/gen-1.sock'', gi_state := Starting\<rparr>"
  let ?st = "((start_writer, start_file), empty_summary\<lparr>es_requests_planned := 1\<rparr>)"
  let ?st1 = "(fst ?st, (snd ?st)\<lparr>es_ready := True\<rparr>)"
  let ?x0 = "\<lparr>xs_logging = ?st1, xs_issued = {}, xs_answered = {}, xs_recorded = 0\<rparr>"
  have auth: "authenticate_worker_connection sample dbg ''gen-1'' ''run'' ''n'' t (Some sample_handshake) =
      Ok (Authenticated ''gen-1'' 7 CANARY_PROTOCOL_VERSION)" for dbg t
    by (simp add: authenticate_worker_connection_def sample_handshake_def check_ready_def and_then_def map_err_def
        challenge_worker_def verify_hmac_iff)
  have ready: "await_readiness sample sample_executor ?s (s_ready ?s) ?st = (True, ?st)"
    using auth by (simp add: sample_script_def sample_accept_def)
  obtain stop st3 where r: "run_request sample sample_executor (Some 7) ?rr sample_request ?x0 = (stop, st3)" by fastforce
  have "request_end sample sample_executor start_writer [] sample_request stop (xs_logging st3)"
  proof (rule run_request_ends [OF _ sample_pinned _ _ _ _ r])
    show "run_io_ok ?rr" by (simp add: run_io_ok_def sample_run_def)
    show "holds sample start_writer [] (xs_logging ?x0)" using start_open by (simp add: holds_def empty_summary_def)
  qed (simp_all add: sample_workload_def start_writer_def)
  moreover have stop: "stop = None"
  proof -
    let ?ob = "executed_observation sample sample_executor sample_request ?rr VerifiedSuccess
       (Some (expected_result_digest sample sample_request)) 2000"
    have "observation_wf sample ?ob"
      by (rule executed_wf [OF sample_pinned]) (auto simp: sample_workload_def expected_result_digest_def)
    then have valid: "validate_observation sample ?ob = Ok ()" by (simp add: validate_observation_Ok)
    have bound: "check_bindings evidence_header ?ob = Ok ()"
      using executed_bound [OF sample_pinned] by (simp add: check_bindings_Ok start_writer_def)
    have "append_observation sample IoOk ?ob (start_writer, start_file) =
       (Ok Appended, next_writer sample start_writer ?ob, start_file @ to_line sample (ObservationRec
          \<lparr>lo_observation = ?ob, lo_observation_digest = digest_hex sample ?ob\<rparr>))"
      using valid bound by (simp add: append_observation_def start_writer_def next_writer_def Let_def)
    moreover have "judge sample sample_request 50 (VerifiedSuccess, Some ''pong'', 2000) =
        (VerifiedSuccess, Some (expected_result_digest sample sample_request))"
      by (simp add: judge_def matches_output_iff sample_request_def result_digest_def expected_result_digest_def)
    moreover have "issue_request sample sample_executor ?rr sample_request {''r-1''} {} ?st1 =
        ((VerifiedSuccess, Some ''pong'', 2000), (start_writer, start_file), (snd ?st1)\<lparr>es_issued := 1\<rparr>)"
      by (simp add: issue_request_def sample_run_def sample_request_def empty_summary_def)
    moreover have "spec_request_id sample_request = ''r-1''" by (simp add: sample_request_def)
    moreover have "rr_io ?rr = IoOk" by (simp add: sample_run_def)
    ultimately show ?thesis using r sample_memory [of "''pong''"]
      by (simp add: run_request_def settle_request_def Let_def)
  qed
  ultimately obtain ob where ob: "holds sample (next_writer sample start_writer ob) [ob] (xs_logging st3)"
    by (auto simp: request_end_def)
  have drive: "launch_and_drive sample (reread sample) sample_executor ?s [sample_request] (generation ''gen-1'' Staged) ?st =
      finish sample (reread sample) ?s False (?g\<lparr>gi_state := CanaryActive\<rparr>) (xs_logging st3)"
    using ready r stop
    by (simp add: launch_and_drive_def sample_script_def spawn_worker_process_def sample_executor_def
        generation_socket_path_def)
  obtain b sm where st3: "xs_logging st3 = ((next_writer sample start_writer ob, b), sm)"
      "open_log sample (next_writer sample start_writer ob) b [ob]" "\<not> es_reverted sm"
    using ob by (cases "xs_logging st3") (auto simp: holds_def)
  from finish_sealed [OF st3(2), of "[sample_accept]" "''pong''" False "?g\<lparr>gi_state := CanaryActive\<rparr>" sm]
  show ?thesis using start_run [of "[sample_accept]" "''pong''"] drive st3(1,3) by fastforce
qed


section \<open>Properties of the canary executor\<close>



text \<open>C22: A sealed run that was not reverted is admitted: every planned request has its evidence in the
  sealed log, whether it was answered in this run or before a restart, and the quota validator accepts
  the log for every positive target up to the number of planned requests.\<close>

theorem clean_run_is_admitted:
  assumes "codec_ok X from_slice" and "hex_ok X" and "sha_ok X" and "canary_file X x obs f"
    and "distinct_requests X x" and "script_io_ok s"
    and "run_canary X from_slice x s g f = (Ok (SealedOutcome sealed sm), g', f')" and "\<not> es_reverted sm"
    and "length (sl_observations sealed) < 2 ^ 64" and "target \<noteq> 0" and "unat target \<le> length (planned_requests x)"
  shows "(\<forall>spec \<in> set (planned_requests x). \<exists>ob \<in> set (sl_observations sealed). evidence X x spec ob)
    \<and> (\<exists>d. admit_sealed_quota X sealed (x_identity x) (pw_manifest (x_workload x)) target = Ok d)"
proof -
  from run_canary_ends [OF assms(1-6), of g] assms(7,8) obtain ext where e:
    "canary_file X x (obs @ ext) f'" "sl_observations sealed = obs @ ext" "pinned X x (sl_header sealed)"
    "distinct (obs_ids (obs @ ext))" "covered X x (obs @ ext)"
    by (auto simp: run_end_def)
  from covered_admitted [OF e(5) _ e(3,2,4) _ assms(5,10,11)] e(1,2,5) assms(9) show ?thesis
    by (simp add: canary_file_def covered_def)
qed

theorem clean_run_is_admitted_witness:
  "\<exists>sealed sm g' f' d. run_canary sample (reread sample) sample_executor (sample_script [sample_accept] ''pong'')
     (generation ''gen-1'' Staged) None = (Ok (SealedOutcome sealed sm), g', f')
     \<and> admit_sealed_quota sample sealed sample_identity sample_workload 1 = Ok d"
proof -
  obtain sealed sm g' f' where r: "run_canary sample (reread sample) sample_executor (sample_script [sample_accept] ''pong'')
     (generation ''gen-1'' Staged) None = (Ok (SealedOutcome sealed sm), g', f')" "\<not> es_reverted sm"
     "length (sl_observations sealed) = 1" using sample_answered_run by blast
  from clean_run_is_admitted [OF sample_codec sample_hex_ok sample_sha_ok sample_fresh sample_distinct
      sample_script_ok r(1,2), of 1] r show ?thesis by (auto simp: sample_accept_def)
qed



text \<open>The executor never decides promotion: whatever happens in a run, the generation keeps its
  identity, and its state is what it was, \<open>Starting\<close>, \<open>CanaryActive\<close> or \<open>Reverting\<close>; never \<open>Durable\<close>
  unless it was already.\<close>

theorem executor_never_promotes:
  "gi_generation_id (fst (snd (run_canary X from_slice x s g f))) = gi_generation_id g
   \<and> gi_state (fst (snd (run_canary X from_slice x s g f))) \<in> {gi_state g, Starting, CanaryActive, Reverting}"
proof -
  obtain r g' f' where "run_canary X from_slice x s g f = (r, g', f')" by (metis prod_cases3)
  with run_canary_generation [OF this] show ?thesis by auto
qed

end
