(* ===== verification/Dual_Records.thy ===== *)
theory Dual_Records
  imports Prelude
begin

text \<open>
  The DUAL record codec (\<open>src/src/dual/records.rs\<close>): resources, constraint states, controllers and price
  vectors, their validation, canonical encoding and digests.

  A binary64 is the word of its bits; the comparisons the checks make are those of IEEE 754 on the
  sign and magnitude.  A digest is a list of 32 bytes.  The reader keeps its position and the first
  refusal, as the source does; the writer appends to its buffer.
\<close>

named_theorems reader_simps "one read on a buffer that starts with what is read"

type_synonym digest32 = bytes

definition DIGEST_SIZE :: nat where "DIGEST_SIZE = 32"
definition FORMAT_VERSION :: u8 where "FORMAT_VERSION = CHR 0x01"
definition MAX_RESOURCES :: u32 where "MAX_RESOURCES = 32"

definition DOMAIN_RESOURCE :: string where "DOMAIN_RESOURCE = ''omega.dual.resource.v1''"
definition DOMAIN_CONSTRAINT :: string where "DOMAIN_CONSTRAINT = ''omega.dual.constraint.v1''"
definition DOMAIN_CONTROLLER :: string where "DOMAIN_CONTROLLER = ''omega.dual.controller.v1''"
definition DOMAIN_PRICE_VECTOR :: string where "DOMAIN_PRICE_VECTOR = ''omega.dual.pricevec.v1''"

definition digest_is_zero :: "digest32 \<Rightarrow> bool" where
  "digest_is_zero d \<longleftrightarrow> list_all (\<lambda>b. b = CHR 0x00) d"

definition dual_digest :: "crates \<Rightarrow> string \<Rightarrow> bytes \<Rightarrow> digest32" where
  "dual_digest X domain encoding = sha256 X (domain @ [CHR 0x00] @ encoding)"

section \<open>Binary64 by its bits\<close>

type_synonym f64 = u64

definition f64_is_finite :: "f64 \<Rightarrow> bool" where
  "f64_is_finite b \<longleftrightarrow> take_bit 11 (drop_bit 52 b) \<noteq> 2047"

definition f64_is_nan :: "f64 \<Rightarrow> bool" where
  "f64_is_nan b \<longleftrightarrow> take_bit 11 (drop_bit 52 b) = 2047 \<and> take_bit 52 b \<noteq> 0"

text \<open>Sign and magnitude as an integer: the order of the values, both zeros at 0.\<close>

definition f64_key :: "f64 \<Rightarrow> int" where
  "f64_key b = (if bit b 63 then - uint (take_bit 63 b) else uint (take_bit 63 b))"

definition f64_lt :: "f64 \<Rightarrow> f64 \<Rightarrow> bool" where
  "f64_lt a b \<longleftrightarrow> \<not> f64_is_nan a \<and> \<not> f64_is_nan b \<and> f64_key a < f64_key b"

definition f64_le :: "f64 \<Rightarrow> f64 \<Rightarrow> bool" where
  "f64_le a b \<longleftrightarrow> \<not> f64_is_nan a \<and> \<not> f64_is_nan b \<and> f64_key a \<le> f64_key b"

definition f64_eq :: "f64 \<Rightarrow> f64 \<Rightarrow> bool" where
  "f64_eq a b \<longleftrightarrow> \<not> f64_is_nan a \<and> \<not> f64_is_nan b \<and> f64_key a = f64_key b"

definition f64_one :: f64 where "f64_one = 0x3FF0000000000000"

section \<open>Registries\<close>

datatype dual_kind = ResourceK | ConstraintK | ControllerK | PriceVectorK

fun kind_byte :: "dual_kind \<Rightarrow> u8" where
  "kind_byte ResourceK = CHR 0x01"
| "kind_byte ConstraintK = CHR 0x02"
| "kind_byte ControllerK = CHR 0x03"
| "kind_byte PriceVectorK = CHR 0x04"

datatype dual_unit =
    Ps | Pj | Bytes | BytesPerS | KvBlocks | PpmOccupancy | NsVerify | NsSynth | Ns | Watt | WattPerS
  | MilliCelsius | MilliCelsiusPerS | Dimensionless | Log2Ps

fun unit_u32 :: "dual_unit \<Rightarrow> u32" where
  "unit_u32 Ps = 1"
| "unit_u32 Pj = 2"
| "unit_u32 Bytes = 3"
| "unit_u32 BytesPerS = 4"
| "unit_u32 KvBlocks = 5"
| "unit_u32 PpmOccupancy = 6"
| "unit_u32 NsVerify = 7"
| "unit_u32 NsSynth = 8"
| "unit_u32 Ns = 9"
| "unit_u32 Watt = 10"
| "unit_u32 WattPerS = 11"
| "unit_u32 MilliCelsius = 12"
| "unit_u32 MilliCelsiusPerS = 13"
| "unit_u32 Dimensionless = 14"
| "unit_u32 Log2Ps = 15"

definition unit_from_u32 :: "u32 \<Rightarrow> dual_unit option" where
  "unit_from_u32 v =
     (if v = 1 then Some Ps else if v = 2 then Some Pj else if v = 3 then Some Bytes
      else if v = 4 then Some BytesPerS else if v = 5 then Some KvBlocks else if v = 6 then Some PpmOccupancy
      else if v = 7 then Some NsVerify else if v = 8 then Some NsSynth else if v = 9 then Some Ns
      else if v = 10 then Some Watt else if v = 11 then Some WattPerS else if v = 12 then Some MilliCelsius
      else if v = 13 then Some MilliCelsiusPerS else if v = 14 then Some Dimensionless
      else if v = 15 then Some Log2Ps else None)"

fun unit_name :: "dual_unit \<Rightarrow> string" where
  "unit_name Ps = ''PS''"
| "unit_name Pj = ''PJ''"
| "unit_name Bytes = ''BYTES''"
| "unit_name BytesPerS = ''BYTES_PER_S''"
| "unit_name KvBlocks = ''KV_BLOCKS''"
| "unit_name PpmOccupancy = ''PPM_OCCUPANCY''"
| "unit_name NsVerify = ''NS_VERIFY''"
| "unit_name NsSynth = ''NS_SYNTH''"
| "unit_name Ns = ''NS''"
| "unit_name Watt = ''WATT''"
| "unit_name WattPerS = ''WATT_PER_S''"
| "unit_name MilliCelsius = ''MILLI_CELSIUS''"
| "unit_name MilliCelsiusPerS = ''MILLI_CELSIUS_PER_S''"
| "unit_name Dimensionless = ''DIMENSIONLESS''"
| "unit_name Log2Ps = ''LOG2_PS''"

datatype dual_class = Capacity | Soft

fun class_u32 :: "dual_class \<Rightarrow> u32" where
  "class_u32 Capacity = 2"
| "class_u32 Soft = 3"

definition class_from_u32 :: "u32 \<Rightarrow> dual_class option" where
  "class_from_u32 v = (if v = 2 then Some Capacity else if v = 3 then Some Soft else None)"

datatype estimate_kind = MeasuredE | Estimated | Predicted

fun estimate_u32 :: "estimate_kind \<Rightarrow> u32" where
  "estimate_u32 MeasuredE = 1"
| "estimate_u32 Estimated = 2"
| "estimate_u32 Predicted = 3"

definition estimate_from_u32 :: "u32 \<Rightarrow> estimate_kind option" where
  "estimate_from_u32 v = (if v = 1 then Some MeasuredE else if v = 2 then Some Estimated
     else if v = 3 then Some Predicted else None)"

datatype lambda_state = Fresh | Stale | Frozen | Uncalibrated | RefusedL

fun lambda_u32 :: "lambda_state \<Rightarrow> u32" where
  "lambda_u32 Fresh = 1"
| "lambda_u32 Stale = 2"
| "lambda_u32 Frozen = 3"
| "lambda_u32 Uncalibrated = 4"
| "lambda_u32 RefusedL = 5"

definition lambda_from_u32 :: "u32 \<Rightarrow> lambda_state option" where
  "lambda_from_u32 v = (if v = 1 then Some Fresh else if v = 2 then Some Stale else if v = 3 then Some Frozen
     else if v = 4 then Some Uncalibrated else if v = 5 then Some RefusedL else None)"

fun lambda_name :: "lambda_state \<Rightarrow> string" where
  "lambda_name Fresh = ''FRESH''"
| "lambda_name Stale = ''STALE''"
| "lambda_name Frozen = ''FROZEN''"
| "lambda_name Uncalibrated = ''UNCALIBRATED''"
| "lambda_name RefusedL = ''REFUSED''"

datatype refusal =
    NonFiniteR | UnitR | ClassR | ScaleR | RangeR | KindR | EncodingR | ResourceR | DigestR | GenerationR | CalibrationR

fun c_status :: "refusal \<Rightarrow> int" where
  "c_status NonFiniteR = -2"
| "c_status UnitR = -3"
| "c_status ClassR = -4"
| "c_status ScaleR = -5"
| "c_status RangeR = -6"
| "c_status KindR = -7"
| "c_status EncodingR = -8"
| "c_status ResourceR = -9"
| "c_status DigestR = -10"
| "c_status GenerationR = -11"
| "c_status CalibrationR = -17"

section \<open>Records\<close>

record resource =
  res_resource_id :: u32
  res_unit :: dual_unit
  res_scale :: f64
  res_contract :: digest32

record constraint_state =
  cs_resource_id :: u32
  cs_unit :: dual_unit
  cs_class :: dual_class
  cs_budget :: f64
  cs_budget_contract :: digest32
  cs_observation_ref :: digest32
  cs_estimate_ref :: digest32
  cs_estimate_kind :: estimate_kind
  cs_estimate :: f64
  cs_uncertainty :: f64
  cs_calibration_ref :: digest32
  cs_lambda :: f64
  cs_lambda_state :: lambda_state
  cs_controller_id :: digest32
  cs_generation :: u64
  cs_tick :: u64
  cs_evidence_root :: digest32
  cs_parent :: digest32

definition is_fresh_calibrated :: "constraint_state \<Rightarrow> bool" where
  "is_fresh_calibrated s \<longleftrightarrow> cs_lambda_state s = Fresh \<and> \<not> digest_is_zero (cs_calibration_ref s)"

record controller =
  ct_eta :: f64
  ct_rho :: f64
  ct_k_sigma :: f64
  ct_max_age :: u64
  ct_cadence :: u64
  ct_entries :: "(u32 \<times> f64) list"

record price_vector =
  pv_generation :: u64
  pv_context :: digest32
  pv_entries :: "(u32 \<times> digest32) list"

section \<open>The reader\<close>

record reader =
  rd_p :: bytes
  rd_pos :: nat
  rd_st :: "refusal option"

definition new_reader :: "bytes \<Rightarrow> reader" where
  "new_reader p = \<lparr>rd_p = p, rd_pos = 0, rd_st = None\<rparr>"

definition read_fail :: "refusal \<Rightarrow> reader \<Rightarrow> reader" where
  "read_fail r rd = (if rd_st rd = None then rd\<lparr>rd_st := Some r\<rparr> else rd)"

definition need :: "nat \<Rightarrow> reader \<Rightarrow> bool \<times> reader" where
  "need n rd =
     (if rd_st rd \<noteq> None then (False, rd)
      else if rd_pos rd + n > length (rd_p rd) then (False, read_fail EncodingR rd)
      else (True, rd))"

text \<open>The body of every read: the next \<open>n\<close> bytes, or the default after a failed \<open>need\<close>.\<close>

definition read_slice :: "nat \<Rightarrow> (bytes \<Rightarrow> 'a) \<Rightarrow> 'a \<Rightarrow> reader \<Rightarrow> 'a \<times> reader" where
  "read_slice n f dflt rd =
     (case need n rd of
        (False, rd') \<Rightarrow> (dflt, rd')
      | (True, rd') \<Rightarrow> (f (take n (drop (rd_pos rd') (rd_p rd'))), rd'\<lparr>rd_pos := rd_pos rd' + n\<rparr>))"

definition read_u8 :: "reader \<Rightarrow> u8 \<times> reader" where
  "read_u8 = read_slice 1 hd (CHR 0x00)"

definition read_u32 :: "reader \<Rightarrow> u32 \<times> reader" where
  "read_u32 = read_slice 4 (\<lambda>b. of_nat (le_val b)) 0"

definition read_u64 :: "reader \<Rightarrow> u64 \<times> reader" where
  "read_u64 = read_slice 8 (\<lambda>b. of_nat (le_val b)) 0"

definition read_f64 :: "reader \<Rightarrow> f64 \<times> reader" where
  "read_f64 = read_u64"

definition read_dig :: "reader \<Rightarrow> digest32 \<times> reader" where
  "read_dig = read_slice DIGEST_SIZE id (replicate DIGEST_SIZE (CHR 0x00))"

definition read_hdr :: "dual_kind \<Rightarrow> reader \<Rightarrow> reader" where
  "read_hdr want rd =
     (let (k, rd) = read_u8 rd; (v, rd) = read_u8 rd in
      if rd_st rd \<noteq> None then rd
      else if k \<noteq> kind_byte want then read_fail KindR rd
      else if v \<noteq> FORMAT_VERSION then read_fail EncodingR rd
      else rd)"

definition read_end :: "reader \<Rightarrow> refusal + unit" where
  "read_end rd =
     (case rd_st rd of
        Some r \<Rightarrow> Err r
      | None \<Rightarrow> if rd_pos rd \<noteq> length (rd_p rd) then Err EncodingR else Ok ())"

fun read_entries :: "(reader \<Rightarrow> 'v \<times> reader) \<Rightarrow> nat \<Rightarrow> reader \<Rightarrow> (u32 \<times> 'v) list \<times> reader" where
  "read_entries f 0 rd = ([], rd)"
| "read_entries f (Suc n) rd =
     (let (i, rd) = read_u32 rd; (v, rd) = f rd; (es, rd) = read_entries f n rd in ((i, v) # es, rd))"

section \<open>The writer\<close>

definition write_f64 :: "f64 \<Rightarrow> bytes" where
  "write_f64 d = u64_le (if \<not> f64_eq d 0 then d else 0)"

definition write_hdr :: "dual_kind \<Rightarrow> bytes" where
  "write_hdr k = [kind_byte k, FORMAT_VERSION]"

definition ids_ascending :: "(u32 \<times> 'v) list \<Rightarrow> bool" where
  "ids_ascending entries \<longleftrightarrow> list_all (\<lambda>(a, b). fst b > fst a) (zip entries (tl entries))"

section \<open>Validation\<close>

record raw_constraint =
  rc_resource_id :: u32
  rc_unit :: u32
  rc_cls :: u32
  rc_budget :: f64
  rc_budget_contract :: digest32
  rc_observation_ref :: digest32
  rc_estimate_ref :: digest32
  rc_estimate_kind :: u32
  rc_estimate :: f64
  rc_uncertainty :: f64
  rc_calibration_ref :: digest32
  rc_lambda :: f64
  rc_lambda_state :: u32
  rc_controller_id :: digest32
  rc_generation :: u64
  rc_tick :: u64
  rc_evidence_root :: digest32
  rc_parent :: digest32

definition check_constraint :: "raw_constraint \<Rightarrow> refusal + constraint_state" where
  "check_constraint r =
     and_then (ok_or (unit_from_u32 (rc_unit r)) UnitR) (\<lambda>u.
     and_then (ok_or (class_from_u32 (rc_cls r)) ClassR) (\<lambda>c.
     if \<not> (f64_is_finite (rc_budget r) \<and> f64_is_finite (rc_estimate r) \<and> f64_is_finite (rc_uncertainty r)
            \<and> f64_is_finite (rc_lambda r)) then Err NonFiniteR
     else if f64_lt (rc_uncertainty r) 0 \<or> f64_lt (rc_lambda r) 0 then Err RangeR
     else and_then (ok_or (estimate_from_u32 (rc_estimate_kind r)) KindR) (\<lambda>ek.
     and_then (ok_or (lambda_from_u32 (rc_lambda_state r)) RangeR) (\<lambda>ls.
     if digest_is_zero (rc_budget_contract r) \<or> digest_is_zero (rc_estimate_ref r)
        \<or> digest_is_zero (rc_controller_id r) \<or> digest_is_zero (rc_evidence_root r) then Err DigestR
     else if ek = MeasuredE \<and> digest_is_zero (rc_observation_ref r) then Err DigestR
     else if digest_is_zero (rc_calibration_ref r) \<and> ls = Fresh then Err CalibrationR
     else if (rc_tick r = 0) \<noteq> digest_is_zero (rc_parent r) then Err DigestR
     else Ok \<lparr>cs_resource_id = rc_resource_id r, cs_unit = u, cs_class = c, cs_budget = rc_budget r,
       cs_budget_contract = rc_budget_contract r, cs_observation_ref = rc_observation_ref r,
       cs_estimate_ref = rc_estimate_ref r, cs_estimate_kind = ek, cs_estimate = rc_estimate r,
       cs_uncertainty = rc_uncertainty r, cs_calibration_ref = rc_calibration_ref r, cs_lambda = rc_lambda r,
       cs_lambda_state = ls, cs_controller_id = rc_controller_id r, cs_generation = rc_generation r,
       cs_tick = rc_tick r, cs_evidence_root = rc_evidence_root r, cs_parent = rc_parent r\<rparr>))))"

definition check_resource :: "u32 \<Rightarrow> u32 \<Rightarrow> f64 \<Rightarrow> digest32 \<Rightarrow> refusal + resource" where
  "check_resource resource_id u scale contract =
     and_then (ok_or (unit_from_u32 u) UnitR) (\<lambda>un.
     if \<not> f64_is_finite scale then Err NonFiniteR
     else if f64_le scale 0 then Err ScaleR
     else if digest_is_zero contract then Err DigestR
     else Ok \<lparr>res_resource_id = resource_id, res_unit = un, res_scale = scale, res_contract = contract\<rparr>)"

definition check_controller :: "controller \<Rightarrow> refusal + unit" where
  "check_controller c =
     (if \<not> (f64_is_finite (ct_eta c) \<and> f64_is_finite (ct_rho c) \<and> f64_is_finite (ct_k_sigma c)) then Err NonFiniteR
      else if f64_lt (ct_eta c) 0 \<or> f64_lt (ct_rho c) 0 \<or> f64_lt f64_one (ct_rho c) \<or> f64_lt (ct_k_sigma c) 0
        then Err RangeR
      else if ct_max_age c = 0 \<or> ct_cadence c = 0 then Err RangeR
      else if ct_entries c = [] \<or> length (ct_entries c) > unat MAX_RESOURCES then Err RangeR
      else if \<not> ids_ascending (ct_entries c) then Err ResourceR
      else check_all (\<lambda>(_, lambda_max). if \<not> f64_is_finite lambda_max then Err NonFiniteR
             else if f64_le lambda_max 0 then Err RangeR else Ok ()) (ct_entries c))"

definition check_price_vector :: "price_vector \<Rightarrow> refusal + unit" where
  "check_price_vector v =
     (if digest_is_zero (pv_context v) then Err DigestR
      else if pv_entries v = [] \<or> length (pv_entries v) > unat MAX_RESOURCES then Err RangeR
      else if \<not> ids_ascending (pv_entries v) then Err ResourceR
      else check_all (\<lambda>(_, state). if digest_is_zero state then Err DigestR else Ok ()) (pv_entries v))"

section \<open>Decoding and encoding\<close>

definition decode_resource :: "bytes \<Rightarrow> refusal + resource" where
  "decode_resource buf =
     (let rd = read_hdr ResourceK (new_reader buf);
          (resource_id, rd) = read_u32 rd;
          (u, rd) = read_u32 rd;
          (scale, rd) = read_f64 rd;
          (contract, rd) = read_dig rd in
      and_then (read_end rd) (\<lambda>_. check_resource resource_id u scale contract))"

definition encode_resource :: "resource \<Rightarrow> bytes" where
  "encode_resource x =
     write_hdr ResourceK @ u32_le (res_resource_id x) @ u32_le (unit_u32 (res_unit x)) @ write_f64 (res_scale x)
     @ res_contract x"

definition decode_constraint :: "bytes \<Rightarrow> refusal + constraint_state" where
  "decode_constraint buf =
     (let rd = read_hdr ConstraintK (new_reader buf);
          (resource_id, rd) = read_u32 rd;
          (u, rd) = read_u32 rd;
          (cls, rd) = read_u32 rd;
          (budget, rd) = read_f64 rd;
          (budget_contract, rd) = read_dig rd;
          (observation_ref, rd) = read_dig rd;
          (estimate_ref, rd) = read_dig rd;
          (estimate_kind, rd) = read_u32 rd;
          (estimate, rd) = read_f64 rd;
          (uncertainty, rd) = read_f64 rd;
          (calibration_ref, rd) = read_dig rd;
          (lam, rd) = read_f64 rd;
          (lambda_state, rd) = read_u32 rd;
          (controller_id, rd) = read_dig rd;
          (generation, rd) = read_u64 rd;
          (tick, rd) = read_u64 rd;
          (evidence_root, rd) = read_dig rd;
          (parent, rd) = read_dig rd in
      and_then (read_end rd) (\<lambda>_. check_constraint
        \<lparr>rc_resource_id = resource_id, rc_unit = u, rc_cls = cls, rc_budget = budget,
         rc_budget_contract = budget_contract, rc_observation_ref = observation_ref,
         rc_estimate_ref = estimate_ref, rc_estimate_kind = estimate_kind, rc_estimate = estimate,
         rc_uncertainty = uncertainty, rc_calibration_ref = calibration_ref, rc_lambda = lam,
         rc_lambda_state = lambda_state, rc_controller_id = controller_id, rc_generation = generation,
         rc_tick = tick, rc_evidence_root = evidence_root, rc_parent = parent\<rparr>))"

definition encode_constraint :: "constraint_state \<Rightarrow> bytes" where
  "encode_constraint s =
     write_hdr ConstraintK @ u32_le (cs_resource_id s) @ u32_le (unit_u32 (cs_unit s)) @ u32_le (class_u32 (cs_class s))
     @ write_f64 (cs_budget s) @ cs_budget_contract s @ cs_observation_ref s @ cs_estimate_ref s
     @ u32_le (estimate_u32 (cs_estimate_kind s)) @ write_f64 (cs_estimate s) @ write_f64 (cs_uncertainty s)
     @ cs_calibration_ref s @ write_f64 (cs_lambda s) @ u32_le (lambda_u32 (cs_lambda_state s))
     @ cs_controller_id s @ u64_le (cs_generation s) @ u64_le (cs_tick s) @ cs_evidence_root s @ cs_parent s"

definition decode_controller :: "bytes \<Rightarrow> refusal + controller" where
  "decode_controller buf =
     (let rd = read_hdr ControllerK (new_reader buf);
          (eta, rd) = read_f64 rd;
          (rho, rd) = read_f64 rd;
          (k_sigma, rd) = read_f64 rd;
          (max_age, rd) = read_u64 rd;
          (cadence, rd) = read_u64 rd;
          (n, rd) = read_u32 rd in
      case rd_st rd of
        Some st \<Rightarrow> Err st
      | None \<Rightarrow>
          if n = 0 \<or> n > MAX_RESOURCES then Err RangeR
          else
            let (entries, rd) = read_entries read_f64 (unat n) rd in
            and_then (read_end rd) (\<lambda>_.
            let c = \<lparr>ct_eta = eta, ct_rho = rho, ct_k_sigma = k_sigma, ct_max_age = max_age,
                     ct_cadence = cadence, ct_entries = entries\<rparr> in
            and_then (check_controller c) (\<lambda>_. Ok c)))"

definition encode_controller :: "controller \<Rightarrow> bytes" where
  "encode_controller c =
     write_hdr ControllerK @ write_f64 (ct_eta c) @ write_f64 (ct_rho c) @ write_f64 (ct_k_sigma c)
     @ u64_le (ct_max_age c) @ u64_le (ct_cadence c) @ u32_le (of_nat (length (ct_entries c)))
     @ concat (map (\<lambda>(i, lambda_max). u32_le i @ write_f64 lambda_max) (ct_entries c))"

definition decode_price_vector :: "bytes \<Rightarrow> refusal + price_vector" where
  "decode_price_vector buf =
     (let rd = read_hdr PriceVectorK (new_reader buf);
          (generation, rd) = read_u64 rd;
          (context, rd) = read_dig rd;
          (n, rd) = read_u32 rd in
      case rd_st rd of
        Some st \<Rightarrow> Err st
      | None \<Rightarrow>
          if n = 0 \<or> n > MAX_RESOURCES then Err RangeR
          else
            let (entries, rd) = read_entries read_dig (unat n) rd in
            and_then (read_end rd) (\<lambda>_.
            let v = \<lparr>pv_generation = generation, pv_context = context, pv_entries = entries\<rparr> in
            and_then (check_price_vector v) (\<lambda>_. Ok v)))"

definition encode_price_vector :: "price_vector \<Rightarrow> bytes" where
  "encode_price_vector v =
     write_hdr PriceVectorK @ u64_le (pv_generation v) @ pv_context v @ u32_le (of_nat (length (pv_entries v)))
     @ concat (map (\<lambda>(i, state). u32_le i @ state) (pv_entries v))"

section \<open>Identity\<close>

definition digest_resource :: "crates \<Rightarrow> resource \<Rightarrow> digest32" where
  "digest_resource X x = dual_digest X DOMAIN_RESOURCE (encode_resource x)"

definition digest_constraint :: "crates \<Rightarrow> constraint_state \<Rightarrow> digest32" where
  "digest_constraint X s = dual_digest X DOMAIN_CONSTRAINT (encode_constraint s)"

definition digest_controller :: "crates \<Rightarrow> controller \<Rightarrow> digest32" where
  "digest_controller X c = dual_digest X DOMAIN_CONTROLLER (encode_controller c)"

definition digest_price_vector :: "crates \<Rightarrow> price_vector \<Rightarrow> digest32" where
  "digest_price_vector X v = dual_digest X DOMAIN_PRICE_VECTOR (encode_price_vector v)"

datatype verify_error = RefusedV refusal | DigestMismatchV digest32 digest32

definition verify_digest :: "crates \<Rightarrow> dual_kind \<Rightarrow> bytes \<Rightarrow> digest32 \<Rightarrow> verify_error + unit" where
  "verify_digest X kind buf expected =
     and_then (map_err RefusedV (case kind of
         ResourceK \<Rightarrow> and_then (decode_resource buf) (\<lambda>x. Ok (digest_resource X x))
       | ConstraintK \<Rightarrow> and_then (decode_constraint buf) (\<lambda>x. Ok (digest_constraint X x))
       | ControllerK \<Rightarrow> and_then (decode_controller buf) (\<lambda>x. Ok (digest_controller X x))
       | PriceVectorK \<Rightarrow> and_then (decode_price_vector buf) (\<lambda>x. Ok (digest_price_vector X x)))) (\<lambda>actual.
     if actual = expected then Ok () else Err (DigestMismatchV expected actual))"

end
