(* ===== verification/Dual_Codec.thy ===== *)
theory Dual_Codec
  imports Dual_Records Sample
begin

text \<open>
  Exactness of the record codecs of \<open>src/src/dual/records.rs\<close>.  The interface is a locale,
  interpreted for the four record kinds; the reader's lemmas say what it does on bytes the
  writer wrote and what bytes it must have read when it succeeds.
\<close>

section \<open>The interface of a canonical codec\<close>

text \<open>What the consumers of a record kind rely on: what is encoded decodes to its canonical form, what
  decodes is valid and, if canonical, is the encoding of the result.\<close>

locale canonical_codec =
  fixes enc :: "'a \<Rightarrow> bytes" and dec :: "bytes \<Rightarrow> refusal + 'a" and valid :: "'a \<Rightarrow> bool" and canon :: "'a \<Rightarrow> 'a"
  assumes dec_enc: "valid x \<Longrightarrow> dec (enc x) = Ok (canon x)"
    and dec_valid: "dec b = Ok x \<Longrightarrow> valid x"
    and enc_dec: "dec b = Ok x \<Longrightarrow> canon x = x \<Longrightarrow> enc x = b"
    and enc_canon: "enc (canon x) = enc x"
begin

lemma enc_inj:
  assumes "valid x" and "valid y" and "enc x = enc y"
  shows "canon x = canon y"
proof -
  have "Ok (canon x) = (Ok (canon y) :: refusal + 'a)"
    using dec_enc [OF assms(1)] dec_enc [OF assms(2)] assms(3) by simp
  then show ?thesis by simp
qed

lemma canon_valid: "valid x \<Longrightarrow> valid (canon x)"
  using dec_enc dec_valid by blast

lemma canon_idem: "valid x \<Longrightarrow> canon (canon x) = canon x"
  using enc_inj canon_valid enc_canon by blast

text \<open>Decoding any accepted bytes and encoding again is stable.\<close>

lemma reencode:
  assumes "dec b = Ok x"
  shows "dec (enc x) = Ok (canon x) \<and> enc (canon x) = enc x"
  using dec_enc [OF dec_valid [OF assms]] enc_canon by simp

lemma accepted_canonical_unique:
  assumes "dec a = Ok x" and "dec b = Ok y" and "canon x = x" and "canon y = y" and "enc x = enc y"
  shows "a = b"
  using enc_dec [OF assms(1,3)] enc_dec [OF assms(2,4)] assms(5) by simp

end

section \<open>Reading what was written\<close>

definition mk :: "bytes \<Rightarrow> bytes \<Rightarrow> reader" where
  "mk pre bs = \<lparr>rd_p = pre @ bs, rd_pos = length pre, rd_st = None\<rparr>"

lemma mk_simps [simp]: "rd_st (mk pre bs) = None"
  by (simp add: mk_def)

lemma read_slice_at: "length e = n \<Longrightarrow> read_slice n f d (mk pre (e @ bs)) = (f e, mk (pre @ e) bs)"
  by (simp add: read_slice_def need_def mk_def)

lemma read_u8_at [reader_simps]: "read_u8 (mk pre (c # bs)) = (c, mk (pre @ [c]) bs)"
  using read_slice_at [of "[c]" 1 hd "CHR 0x00" pre bs] by (simp add: read_u8_def)

lemma of_nat_le_val [simp]:
  "of_nat (le_val (u32_le w)) = w" "of_nat (le_val (u64_le v)) = v"
  by (simp_all add: u32_le_val u64_le_val)

lemma read_u32_at [reader_simps]: "read_u32 (mk pre (u32_le w @ bs)) = (w, mk (pre @ u32_le w) bs)"
  by (simp add: read_u32_def read_slice_at)

lemma read_u64_at [reader_simps]: "read_u64 (mk pre (u64_le w @ bs)) = (w, mk (pre @ u64_le w) bs)"
  by (simp add: read_u64_def read_slice_at)

lemma read_dig_at [reader_simps]: "length d = 32 \<Longrightarrow> read_dig (mk pre (d @ bs)) = (d, mk (pre @ d) bs)"
  using read_slice_at [of d 32 id] by (simp add: read_dig_def DIGEST_SIZE_def)

lemma read_dig_last [reader_simps]: "length d = 32 \<Longrightarrow> read_dig (mk pre d) = (d, mk (pre @ d) [])"
  using read_dig_at [of d pre "[]"] by simp

lemma read_hdr_at [reader_simps]: "read_hdr k (new_reader (write_hdr k @ bs)) = mk (write_hdr k) bs"
proof -
  have "new_reader (write_hdr k @ bs) = mk [] (kind_byte k # FORMAT_VERSION # bs)"
    by (simp add: new_reader_def mk_def write_hdr_def)
  then show ?thesis by (simp add: read_hdr_def reader_simps write_hdr_def)
qed

lemma read_end_at [reader_simps]: "read_end (mk pre []) = Ok ()"
  by (simp add: read_end_def mk_def)

definition f64_canon :: "f64 \<Rightarrow> f64" where
  "f64_canon d = (if \<not> f64_eq d 0 then d else 0)"

lemma write_f64_canon: "write_f64 d = u64_le (f64_canon d)"
  by (simp add: write_f64_def f64_canon_def)

lemma read_f64_at [reader_simps]: "read_f64 (mk pre (write_f64 d @ bs)) = (f64_canon d, mk (pre @ write_f64 d) bs)"
  by (simp add: read_f64_def write_f64_canon reader_simps)

lemma read_f64_last [reader_simps]: "read_f64 (mk pre (write_f64 d)) = (f64_canon d, mk (pre @ write_f64 d) [])"
  using read_f64_at [of pre d "[]"] by simp

lemma read_entries_at:
  assumes "\<And>v pre bs. v \<in> snd ` set es \<Longrightarrow> f (mk pre (w v @ bs)) = (c v, mk (pre @ w v) bs)"
  shows "read_entries f (length es) (mk pre (concat (map (\<lambda>(i, v). u32_le i @ w v) es) @ bs)) =
     (map (\<lambda>(i, v). (i, c v)) es, mk (pre @ concat (map (\<lambda>(i, v). u32_le i @ w v) es)) bs)"
  using assms
proof (induction es arbitrary: pre)
  case Nil
  then show ?case by simp
next
  case (Cons e es)
  obtain i v where e: "e = (i, v)" by (cases e)
  have "f (mk p (w v @ b)) = (c v, mk (p @ w v) b)" for p b using Cons.prems e by simp
  with Cons.IH [OF Cons.prems] e show ?case by (simp add: reader_simps Let_def)
qed

section \<open>What was read was written\<close>

definition rest :: "reader \<Rightarrow> bytes" where
  "rest rd = drop (rd_pos rd) (rd_p rd)"

lemma read_slice_inv:
  assumes "read_slice n f d rd = (v, rd')" and "rd_st rd' = None"
  shows "rd_st rd = None \<and> (\<exists>e. length e = n \<and> v = f e \<and> rest rd = e @ rest rd')"
proof (cases "rd_st rd = None \<and> rd_pos rd + n \<le> length (rd_p rd)")
  case True
  then have r: "v = f (take n (rest rd))" "rd' = rd\<lparr>rd_pos := rd_pos rd + n\<rparr>"
    using assms(1) by (auto simp: read_slice_def need_def rest_def)
  from r(2) have "rest rd' = drop n (rest rd)" by (simp add: rest_def add.commute)
  moreover have "length (take n (rest rd)) = n" using True by (simp add: rest_def) arith
  ultimately show ?thesis using True r(1) by (metis append_take_drop_id)
next
  case False
  then have "rd_st rd' \<noteq> None" using assms(1)
    by (auto simp: read_slice_def need_def read_fail_def split: if_splits)
  with assms(2) show ?thesis by simp
qed

lemma read_u32_inv:
  "read_u32 rd = (v, rd') \<Longrightarrow> rd_st rd' = None \<Longrightarrow> rd_st rd = None \<and> rest rd = u32_le v @ rest rd'"
  by (auto simp: read_u32_def u32_le_of_val dest!: read_slice_inv)

lemma read_u64_inv:
  "read_u64 rd = (v, rd') \<Longrightarrow> rd_st rd' = None \<Longrightarrow> rd_st rd = None \<and> rest rd = u64_le v @ rest rd'"
  by (auto simp: read_u64_def u64_le_of_val dest!: read_slice_inv)

lemma read_f64_inv:
  "read_f64 rd = (v, rd') \<Longrightarrow> rd_st rd' = None \<Longrightarrow> rd_st rd = None \<and> rest rd = u64_le v @ rest rd'"
  unfolding read_f64_def by (rule read_u64_inv)

lemma read_dig_inv:
  "read_dig rd = (v, rd') \<Longrightarrow> rd_st rd' = None \<Longrightarrow> rd_st rd = None \<and> rest rd = v @ rest rd' \<and> length v = 32"
  by (auto simp: read_dig_def DIGEST_SIZE_def dest!: read_slice_inv)

lemma read_u8_inv:
  "read_u8 rd = (v, rd') \<Longrightarrow> rd_st rd' = None \<Longrightarrow> rd_st rd = None \<and> rest rd = v # rest rd'"
  by (auto simp: read_u8_def length_Suc_conv dest!: read_slice_inv)

lemma read_hdr_inv:
  assumes "read_hdr k rd = rd'" and "rd_st rd' = None"
  shows "rd_st rd = None \<and> rest rd = write_hdr k @ rest rd'"
proof -
  obtain a r1 where r1: "read_u8 rd = (a, r1)" by fastforce
  obtain b r2 where r2: "read_u8 r1 = (b, r2)" by fastforce
  have "rd' = r2" "a = kind_byte k" "b = FORMAT_VERSION"
    using assms r1 r2 by (auto simp: read_hdr_def read_fail_def split: if_splits)
  with read_u8_inv [OF r2] read_u8_inv [OF r1] assms(2) show ?thesis by (simp add: write_hdr_def)
qed

lemma read_end_inv: "read_end rd = Ok u \<Longrightarrow> rd_st rd = None \<and> (rd_pos rd = length (rd_p rd)) \<and> rest rd = []"
  by (auto simp: read_end_def rest_def split: option.splits if_splits)

lemma rest_new [simp]: "rest (new_reader b) = b" "rd_st (new_reader b) = None"
  by (simp_all add: rest_def new_reader_def)

lemma read_entries_inv:
  assumes "\<And>rd v rd'. f rd = (v, rd') \<Longrightarrow> rd_st rd' = None \<Longrightarrow> rd_st rd = None \<and> rest rd = w v @ rest rd' \<and> P v"
  shows "read_entries f n rd = (es, rd') \<Longrightarrow> rd_st rd' = None \<Longrightarrow>
     rd_st rd = None \<and> rest rd = concat (map (\<lambda>(i, v). u32_le i @ w v) es) @ rest rd' \<and> length es = n
     \<and> (\<forall>v \<in> snd ` set es. P v)"
proof (induction n arbitrary: rd es)
  case 0
  then show ?case by auto
next
  case (Suc n)
  obtain i r1 where r1: "read_u32 rd = (i, r1)" by fastforce
  obtain v r2 where r2: "f r1 = (v, r2)" by fastforce
  obtain es' r3 where r3: "read_entries f n r2 = (es', r3)" by fastforce
  have e: "es = (i, v) # es'" "rd' = r3" using Suc.prems(1) r1 r2 r3 by (auto simp: Let_def)
  from Suc.IH [of r2 es'] r3 e(2) Suc.prems(2)
  have t: "rd_st r2 = None" "rest r2 = concat (map (\<lambda>(i, v). u32_le i @ w v) es') @ rest rd'" "length es' = n"
    "\<forall>v \<in> snd ` set es'. P v" by simp_all
  from assms [OF r2 t(1)] read_u32_inv [OF r1] t e(1) show ?case by simp
qed

section \<open>Canonical binary64\<close>

lemma f64_key_canon [simp]: "f64_key (f64_canon d) = f64_key d"
  by (auto simp: f64_canon_def f64_eq_def f64_key_def)

lemma f64_key_zero: "f64_key d = 0 \<longleftrightarrow> take_bit 63 d = 0"
  by (simp add: f64_key_def uint_0_iff)

lemma f64_eq_zero: "f64_eq d 0 \<longleftrightarrow> take_bit 63 d = 0"
proof -
  have "take_bit 11 (drop_bit 52 d) = drop_bit 52 (take_bit 63 d)" by (simp add: drop_bit_take_bit)
  then show ?thesis
    using f64_key_zero [of d] by (auto simp: f64_eq_def f64_is_nan_def f64_key_def)
qed

lemma f64_zero_props [simp]: "f64_is_finite 0" "\<not> f64_is_nan 0" "f64_key 0 = 0"
  by (simp_all add: f64_is_finite_def f64_is_nan_def f64_key_def)

lemma f64_is_finite_canon [simp]: "f64_is_finite (f64_canon d) = f64_is_finite d"
proof -
  have "take_bit 11 (drop_bit 52 d) = drop_bit 52 (take_bit 63 d)" by (simp add: drop_bit_take_bit)
  then have "f64_is_finite d" if "take_bit 63 d = 0" using that by (simp add: f64_is_finite_def)
  then show ?thesis by (auto simp: f64_canon_def f64_eq_zero)
qed

lemma f64_is_nan_canon [simp]: "f64_is_nan (f64_canon d) = f64_is_nan d"
  by (auto simp: f64_canon_def f64_eq_def)

lemma f64_order_canon [simp]:
  "f64_lt (f64_canon a) b = f64_lt a b" "f64_lt a (f64_canon b) = f64_lt a b"
  "f64_le (f64_canon a) b = f64_le a b" "f64_le a (f64_canon b) = f64_le a b"
  "f64_eq (f64_canon a) b = f64_eq a b" "f64_eq a (f64_canon b) = f64_eq a b"
  by (simp_all add: f64_lt_def f64_le_def f64_eq_def)

lemma f64_canon_idem [simp]: "f64_canon (f64_canon d) = f64_canon d"
  by (auto simp: f64_canon_def f64_eq_def)

lemma write_f64_canon_simp [simp]: "write_f64 (f64_canon d) = write_f64 d"
  by (simp add: write_f64_canon)

lemma f64_positive_canon: "f64_is_finite d \<Longrightarrow> \<not> f64_le d 0 \<Longrightarrow> f64_canon d = d"
  by (auto simp: f64_canon_def f64_eq_def f64_le_def)


section \<open>The registries\<close>

lemma unit_from_u32_u32 [simp]: "unit_from_u32 (unit_u32 u) = Some u"
  by (cases u) (simp_all add: unit_from_u32_def)

lemma unit_from_u32_Some: "unit_from_u32 v = Some u \<longleftrightarrow> v = unit_u32 u"
proof
  assume "unit_from_u32 v = Some u"
  then show "v = unit_u32 u" by (auto simp: unit_from_u32_def split: if_splits)
qed simp

lemma class_from_u32_u32 [simp]: "class_from_u32 (class_u32 c) = Some c"
  by (cases c) (simp_all add: class_from_u32_def)

lemma class_from_u32_Some: "class_from_u32 v = Some c \<longleftrightarrow> v = class_u32 c"
proof
  assume "class_from_u32 v = Some c"
  then show "v = class_u32 c" by (auto simp: class_from_u32_def split: if_splits)
qed simp

lemma estimate_from_u32_u32 [simp]: "estimate_from_u32 (estimate_u32 e) = Some e"
  by (cases e) (simp_all add: estimate_from_u32_def)

lemma estimate_from_u32_Some: "estimate_from_u32 v = Some e \<longleftrightarrow> v = estimate_u32 e"
proof
  assume "estimate_from_u32 v = Some e"
  then show "v = estimate_u32 e" by (auto simp: estimate_from_u32_def split: if_splits)
qed simp

lemma lambda_from_u32_u32 [simp]: "lambda_from_u32 (lambda_u32 l) = Some l"
  by (cases l) (simp_all add: lambda_from_u32_def)

lemma lambda_from_u32_Some: "lambda_from_u32 v = Some l \<longleftrightarrow> v = lambda_u32 l"
proof
  assume "lambda_from_u32 v = Some l"
  then show "v = lambda_u32 l" by (auto simp: lambda_from_u32_def split: if_splits)
qed simp

section \<open>Resources\<close>

definition resource_valid :: "resource \<Rightarrow> bool" where
  "resource_valid x \<longleftrightarrow> f64_is_finite (res_scale x) \<and> \<not> f64_le (res_scale x) 0 \<and> \<not> digest_is_zero (res_contract x)
     \<and> length (res_contract x) = 32"

lemma check_resource_Ok:
  "check_resource i u s d = Ok x \<longleftrightarrow> u = unit_u32 (res_unit x) \<and> i = res_resource_id x \<and> s = res_scale x
     \<and> d = res_contract x \<and> f64_is_finite s \<and> \<not> f64_le s 0 \<and> \<not> digest_is_zero d"
  by (cases x) (auto simp: check_resource_def and_then_Ok ok_or_Ok unit_from_u32_Some split: if_splits)

lemma decode_resource_enc: "resource_valid x \<Longrightarrow> decode_resource (encode_resource x) = Ok x"
  by (simp add: decode_resource_def encode_resource_def reader_simps Let_def resource_valid_def check_resource_Ok
      f64_positive_canon)

lemma decode_resource_inv:
  assumes "decode_resource b = Ok x"
  shows "resource_valid x \<and> encode_resource x = b"
proof -
  let ?r0 = "read_hdr ResourceK (new_reader b)"
  obtain i r1 where r1: "read_u32 ?r0 = (i, r1)" by fastforce
  obtain u r2 where r2: "read_u32 r1 = (u, r2)" by fastforce
  obtain s r3 where r3: "read_f64 r2 = (s, r3)" by fastforce
  obtain d r4 where r4: "read_dig r3 = (d, r4)" by fastforce
  from assms r1 r2 r3 r4 have e: "read_end r4 = Ok ()" and c: "check_resource i u s d = Ok x"
    by (auto simp: decode_resource_def Let_def and_then_Ok)
  from read_end_inv [OF e] have "rd_st r4 = None" "rest r4 = []" by simp_all
  with read_dig_inv [OF r4] read_f64_inv [OF r3] read_u32_inv [OF r2] read_u32_inv [OF r1] read_hdr_inv [OF refl, of ResourceK "new_reader b"]
  have "b = write_hdr ResourceK @ u32_le i @ u32_le u @ u64_le s @ d" "length d = 32" by simp_all
  with c show ?thesis
    by (auto simp: check_resource_Ok resource_valid_def encode_resource_def write_f64_canon f64_positive_canon)
qed

interpretation resource_codec: canonical_codec encode_resource decode_resource resource_valid id
  by unfold_locales (simp_all add: decode_resource_enc decode_resource_inv)

section \<open>Constraint states\<close>

definition raw_of :: "constraint_state \<Rightarrow> raw_constraint" where
  "raw_of s = \<lparr>rc_resource_id = cs_resource_id s, rc_unit = unit_u32 (cs_unit s), rc_cls = class_u32 (cs_class s),
     rc_budget = cs_budget s, rc_budget_contract = cs_budget_contract s, rc_observation_ref = cs_observation_ref s,
     rc_estimate_ref = cs_estimate_ref s, rc_estimate_kind = estimate_u32 (cs_estimate_kind s),
     rc_estimate = cs_estimate s, rc_uncertainty = cs_uncertainty s, rc_calibration_ref = cs_calibration_ref s,
     rc_lambda = cs_lambda s, rc_lambda_state = lambda_u32 (cs_lambda_state s), rc_controller_id = cs_controller_id s,
     rc_generation = cs_generation s, rc_tick = cs_tick s, rc_evidence_root = cs_evidence_root s, rc_parent = cs_parent s\<rparr>"

definition constraint_wf :: "constraint_state \<Rightarrow> bool" where
  "constraint_wf s \<longleftrightarrow> f64_is_finite (cs_budget s) \<and> f64_is_finite (cs_estimate s) \<and> f64_is_finite (cs_uncertainty s)
     \<and> f64_is_finite (cs_lambda s) \<and> \<not> f64_lt (cs_uncertainty s) 0 \<and> \<not> f64_lt (cs_lambda s) 0
     \<and> \<not> digest_is_zero (cs_budget_contract s) \<and> \<not> digest_is_zero (cs_estimate_ref s)
     \<and> \<not> digest_is_zero (cs_controller_id s) \<and> \<not> digest_is_zero (cs_evidence_root s)
     \<and> (cs_estimate_kind s = MeasuredE \<longrightarrow> \<not> digest_is_zero (cs_observation_ref s))
     \<and> (cs_lambda_state s = Fresh \<longrightarrow> \<not> digest_is_zero (cs_calibration_ref s))
     \<and> (cs_tick s = 0 \<longleftrightarrow> digest_is_zero (cs_parent s))"

definition constraint_valid :: "constraint_state \<Rightarrow> bool" where
  "constraint_valid s \<longleftrightarrow> constraint_wf s \<and> list_all (\<lambda>d. length d = 32) [cs_budget_contract s, cs_observation_ref s,
     cs_estimate_ref s, cs_calibration_ref s, cs_controller_id s, cs_evidence_root s, cs_parent s]"

definition constraint_canon :: "constraint_state \<Rightarrow> constraint_state" where
  "constraint_canon s = s\<lparr>cs_budget := f64_canon (cs_budget s), cs_estimate := f64_canon (cs_estimate s),
     cs_uncertainty := f64_canon (cs_uncertainty s), cs_lambda := f64_canon (cs_lambda s)\<rparr>"

lemma check_constraint_raw: "check_constraint (raw_of s) = (if constraint_wf s then Ok s else check_constraint (raw_of s))"
  by (simp add: check_constraint_def raw_of_def constraint_wf_def)

lemma check_constraint_inv:
  assumes "check_constraint r = Ok s"
  shows "r = raw_of s \<and> constraint_wf s"
proof -
  obtain u c where u: "rc_unit r = unit_u32 u" "rc_cls r = class_u32 c"
    using assms by (auto simp: check_constraint_def and_then_Ok ok_or_Ok unit_from_u32_Some class_from_u32_Some)
  note step = assms [unfolded check_constraint_def u unit_from_u32_u32 class_from_u32_u32 ok_or_simps and_then_simps]
  obtain ek ls where e: "rc_estimate_kind r = estimate_u32 ek" "rc_lambda_state r = lambda_u32 ls"
    using step by (auto simp: and_then_Ok ok_or_Ok estimate_from_u32_Some lambda_from_u32_Some split: if_split_asm)
  note step = step [unfolded e estimate_from_u32_u32 lambda_from_u32_u32 ok_or_simps and_then_simps]
  from step have s: "s = \<lparr>cs_resource_id = rc_resource_id r, cs_unit = u, cs_class = c, cs_budget = rc_budget r,
       cs_budget_contract = rc_budget_contract r, cs_observation_ref = rc_observation_ref r,
       cs_estimate_ref = rc_estimate_ref r, cs_estimate_kind = ek, cs_estimate = rc_estimate r,
       cs_uncertainty = rc_uncertainty r, cs_calibration_ref = rc_calibration_ref r, cs_lambda = rc_lambda r,
       cs_lambda_state = ls, cs_controller_id = rc_controller_id r, cs_generation = rc_generation r,
       cs_tick = rc_tick r, cs_evidence_root = rc_evidence_root r, cs_parent = rc_parent r\<rparr>"
    by (simp split: if_split_asm)
  have "r = raw_of s" unfolding s raw_of_def using u e by (cases r) simp
  moreover have "constraint_wf s" unfolding s constraint_wf_def using step by (simp split: if_split_asm) blast
  ultimately show ?thesis ..
qed

lemma constraint_wf_canon [simp]: "constraint_wf (constraint_canon s) = constraint_wf s"
  by (simp add: constraint_wf_def constraint_canon_def)

lemma encode_constraint_canon: "encode_constraint (constraint_canon s) = encode_constraint s"
  by (simp add: encode_constraint_def constraint_canon_def)

lemma decode_constraint_enc:
  assumes "constraint_valid s"
  shows "decode_constraint (encode_constraint s) = Ok (constraint_canon s)"
proof -
  have "decode_constraint (encode_constraint s) = check_constraint (raw_of (constraint_canon s))"
    using assms unfolding decode_constraint_def encode_constraint_def constraint_valid_def
    by (simp add: reader_simps Let_def raw_of_def constraint_canon_def)
  with assms show ?thesis by (subst (asm) check_constraint_raw) (simp add: constraint_valid_def)
qed


lemma decode_constraint_inv:
  assumes "decode_constraint b = Ok x"
  shows "constraint_valid x \<and> (constraint_canon x = x \<longrightarrow> encode_constraint x = b)"
proof -
  let ?r0 = "read_hdr ConstraintK (new_reader b)"
  obtain i r1 where r1: "read_u32 ?r0 = (i, r1)" by fastforce
  obtain u r2 where r2: "read_u32 r1 = (u, r2)" by fastforce
  obtain c r3 where r3: "read_u32 r2 = (c, r3)" by fastforce
  obtain bu r4 where r4: "read_f64 r3 = (bu, r4)" by fastforce
  obtain bc r5 where r5: "read_dig r4 = (bc, r5)" by fastforce
  obtain orf r6 where r6: "read_dig r5 = (orf, r6)" by fastforce
  obtain er r7 where r7: "read_dig r6 = (er, r7)" by fastforce
  obtain ek r8 where r8: "read_u32 r7 = (ek, r8)" by fastforce
  obtain es r9 where r9: "read_f64 r8 = (es, r9)" by fastforce
  obtain un r10 where r10: "read_f64 r9 = (un, r10)" by fastforce
  obtain ca r11 where r11: "read_dig r10 = (ca, r11)" by fastforce
  obtain la r12 where r12: "read_f64 r11 = (la, r12)" by fastforce
  obtain ls r13 where r13: "read_u32 r12 = (ls, r13)" by fastforce
  obtain ci r14 where r14: "read_dig r13 = (ci, r14)" by fastforce
  obtain g r15 where r15: "read_u64 r14 = (g, r15)" by fastforce
  obtain t r16 where r16: "read_u64 r15 = (t, r16)" by fastforce
  obtain ev r17 where r17: "read_dig r16 = (ev, r17)" by fastforce
  obtain pa r18 where r18: "read_dig r17 = (pa, r18)" by fastforce
  let ?raw = "\<lparr>rc_resource_id = i, rc_unit = u, rc_cls = c, rc_budget = bu, rc_budget_contract = bc,
     rc_observation_ref = orf, rc_estimate_ref = er, rc_estimate_kind = ek, rc_estimate = es, rc_uncertainty = un,
     rc_calibration_ref = ca, rc_lambda = la, rc_lambda_state = ls, rc_controller_id = ci, rc_generation = g,
     rc_tick = t, rc_evidence_root = ev, rc_parent = pa\<rparr>"
  from assms have "and_then (read_end r18) (\<lambda>_. check_constraint ?raw) = Ok x"
    by (simp add: decode_constraint_def r1 r2 r3 r4 r5 r6 r7 r8 r9 r10 r11 r12 r13 r14 r15 r16 r17 r18)
  then have e: "read_end r18 = Ok ()" and "check_constraint ?raw = Ok x" by (auto simp: and_then_Ok)
  with check_constraint_inv have raw: "?raw = raw_of x" "constraint_wf x" by blast+
  from read_end_inv [OF e] have s18: "rd_st r18 = None" "rest r18 = []" by simp_all
  note i18 = read_dig_inv [OF r18 s18(1)] note i17 = read_dig_inv [OF r17 conjunct1 [OF i18]]
  note i16 = read_u64_inv [OF r16 conjunct1 [OF i17]] note i15 = read_u64_inv [OF r15 conjunct1 [OF i16]]
  note i14 = read_dig_inv [OF r14 conjunct1 [OF i15]] note i13 = read_u32_inv [OF r13 conjunct1 [OF i14]]
  note i12 = read_f64_inv [OF r12 conjunct1 [OF i13]] note i11 = read_dig_inv [OF r11 conjunct1 [OF i12]]
  note i10 = read_f64_inv [OF r10 conjunct1 [OF i11]] note i9 = read_f64_inv [OF r9 conjunct1 [OF i10]]
  note i8 = read_u32_inv [OF r8 conjunct1 [OF i9]] note i7 = read_dig_inv [OF r7 conjunct1 [OF i8]]
  note i6 = read_dig_inv [OF r6 conjunct1 [OF i7]] note i5 = read_dig_inv [OF r5 conjunct1 [OF i6]]
  note i4 = read_f64_inv [OF r4 conjunct1 [OF i5]] note i3 = read_u32_inv [OF r3 conjunct1 [OF i4]]
  note i2 = read_u32_inv [OF r2 conjunct1 [OF i3]] note i1 = read_u32_inv [OF r1 conjunct1 [OF i2]]
  note i0 = read_hdr_inv [OF refl conjunct1 [OF i1]]
  have b: "b = write_hdr ConstraintK @ u32_le i @ u32_le u @ u32_le c @ u64_le bu @ bc @ orf @ er @ u32_le ek
     @ u64_le es @ u64_le un @ ca @ u64_le la @ u32_le ls @ ci @ u64_le g @ u64_le t @ ev @ pa"
    using i0 i1 i2 i3 i4 i5 i6 i7 i8 i9 i10 i11 i12 i13 i14 i15 i16 i17 i18 s18 by simp
  have "constraint_valid x" using raw i5 i6 i7 i11 i14 i17 i18 by (simp add: constraint_valid_def raw_of_def)
  moreover have "encode_constraint x = b" if "constraint_canon x = x"
  proof -
    have "f64_canon (cs_budget x) = cs_budget x" "f64_canon (cs_estimate x) = cs_estimate x"
      "f64_canon (cs_uncertainty x) = cs_uncertainty x" "f64_canon (cs_lambda x) = cs_lambda x"
      using arg_cong [OF that, of cs_budget] arg_cong [OF that, of cs_estimate]
        arg_cong [OF that, of cs_uncertainty] arg_cong [OF that, of cs_lambda]
      by (simp_all add: constraint_canon_def)
    with b raw(1) show ?thesis by (simp add: encode_constraint_def write_f64_canon raw_of_def)
  qed
  ultimately show ?thesis by blast
qed

interpretation constraint_codec: canonical_codec encode_constraint decode_constraint constraint_valid constraint_canon
  by unfold_locales (simp_all add: decode_constraint_enc decode_constraint_inv encode_constraint_canon)

section \<open>Controllers and price vectors\<close>

lemma ids_ascending_map [simp]: "ids_ascending (map (\<lambda>(i, v). (i, f v)) es) = ids_ascending es"
proof -
  have "ids_ascending xs = list_all (\<lambda>(a, b). b > a) (zip (map fst xs) (tl (map fst xs)))" for xs :: "(u32 \<times> 'c) list"
    by (simp add: ids_ascending_def zip_map_map map_tl [symmetric] list_all_iff case_prod_unfold)
  moreover have "map fst (map (\<lambda>(i, v). (i, f v)) es) = map fst es" by auto
  ultimately show ?thesis
    by (simp add: ids_ascending_def zip_map_map map_tl [symmetric] list_all_iff case_prod_unfold)
qed

definition controller_canon :: "controller \<Rightarrow> controller" where
  "controller_canon c = c\<lparr>ct_eta := f64_canon (ct_eta c), ct_rho := f64_canon (ct_rho c), ct_k_sigma := f64_canon (ct_k_sigma c),
     ct_entries := map (\<lambda>(i, v). (i, f64_canon v)) (ct_entries c)\<rparr>"

definition controller_valid :: "controller \<Rightarrow> bool" where
  "controller_valid c \<longleftrightarrow> check_controller c = Ok ()"

lemma check_controller_canon: "check_controller c = Ok () \<Longrightarrow> check_controller (controller_canon c) = Ok ()"
  by (auto simp: check_controller_def controller_canon_def check_all_Ok split: if_splits)

lemma encode_controller_canon: "encode_controller (controller_canon c) = encode_controller c"
  by (simp add: encode_controller_def controller_canon_def case_prod_unfold comp_def)

lemma check_controller_length:
  "check_controller c = Ok () \<Longrightarrow> ct_entries c \<noteq> [] \<and> length (ct_entries c) \<le> 32"
  by (auto simp: check_controller_def MAX_RESOURCES_def split: if_splits)

lemma entry_count:
  assumes "0 < n" and "n \<le> 32"
  shows "unat (of_nat n :: u32) = n" and "(of_nat n :: u32) \<noteq> 0" and "\<not> (of_nat n :: u32) > MAX_RESOURCES"
proof -
  show u: "unat (of_nat n :: u32) = n" using assms by (simp add: unat_of_nat)
  then show "(of_nat n :: u32) \<noteq> 0" using assms(1) by (metis less_numeral_extra(3) unat_0)
  show "\<not> (of_nat n :: u32) > MAX_RESOURCES" using u assms(2) by (simp add: MAX_RESOURCES_def word_less_nat_alt)
qed

lemma decode_controller_enc:
  assumes "controller_valid c"
  shows "decode_controller (encode_controller c) = Ok (controller_canon c)"
proof -
  have chk: "check_controller c = Ok ()" using assms by (simp add: controller_valid_def)
  from check_controller_length [OF chk] have n: "0 < length (ct_entries c)" "length (ct_entries c) \<le> 32" by simp_all
  have e: "read_entries read_f64 (length (ct_entries c))
      (mk pre (concat (map (\<lambda>(i, v). u32_le i @ write_f64 v) (ct_entries c)))) =
     (map (\<lambda>(i, v). (i, f64_canon v)) (ct_entries c),
      mk (pre @ concat (map (\<lambda>(i, v). u32_le i @ write_f64 v) (ct_entries c))) [])" for pre
    using read_entries_at [of "ct_entries c" read_f64 write_f64 f64_canon pre "[]"] by (simp add: read_f64_at)
  have "controller_canon c = \<lparr>ct_eta = f64_canon (ct_eta c), ct_rho = f64_canon (ct_rho c),
      ct_k_sigma = f64_canon (ct_k_sigma c), ct_max_age = ct_max_age c, ct_cadence = ct_cadence c,
      ct_entries = map (\<lambda>(i, v). (i, f64_canon v)) (ct_entries c)\<rparr>"
    by (simp add: controller_canon_def)
  with check_controller_canon [OF chk] entry_count [OF n] e show ?thesis
    by (simp add: decode_controller_def encode_controller_def reader_simps Let_def)
qed


lemma entries_length: "unat (n :: u32) = length es \<Longrightarrow> n = of_nat (length es)"
  by (metis of_nat_unat ucast_id)

lemma decode_controller_inv:
  assumes "decode_controller b = Ok x"
  shows "controller_valid x \<and> (controller_canon x = x \<longrightarrow> encode_controller x = b)"
proof -
  let ?r0 = "read_hdr ControllerK (new_reader b)"
  obtain eta r1 where r1: "read_f64 ?r0 = (eta, r1)" by fastforce
  obtain rho r2 where r2: "read_f64 r1 = (rho, r2)" by fastforce
  obtain ks r3 where r3: "read_f64 r2 = (ks, r3)" by fastforce
  obtain ma r4 where r4: "read_u64 r3 = (ma, r4)" by fastforce
  obtain ca r5 where r5: "read_u64 r4 = (ca, r5)" by fastforce
  obtain n r6 where r6: "read_u32 r5 = (n, r6)" by fastforce
  obtain es r7 where r7: "read_entries read_f64 (unat n) r6 = (es, r7)" by fastforce
  let ?c = "\<lparr>ct_eta = eta, ct_rho = rho, ct_k_sigma = ks, ct_max_age = ma, ct_cadence = ca, ct_entries = es\<rparr>"
  from assms r1 r2 r3 r4 r5 r6 r7 have e: "read_end r7 = Ok ()" and c: "check_controller ?c = Ok ()" "x = ?c"
    by (auto simp: decode_controller_def Let_def and_then_Ok split: option.splits if_splits)
  from read_end_inv [OF e] have s7: "rd_st r7 = None" "rest r7 = []" by simp_all
  have i7: "rd_st r6 = None \<and> rest r6 = concat (map (\<lambda>(i, v). u32_le i @ u64_le v) es) \<and> length es = unat n"
    using read_entries_inv [of read_f64 "u64_le" "\<lambda>_. True", OF _ r7 s7(1)] read_f64_inv s7(2) by simp
  note i6 = read_u32_inv [OF r6 conjunct1 [OF i7]] note i5 = read_u64_inv [OF r5 conjunct1 [OF i6]]
  note i4 = read_u64_inv [OF r4 conjunct1 [OF i5]] note i3 = read_f64_inv [OF r3 conjunct1 [OF i4]]
  note i2 = read_f64_inv [OF r2 conjunct1 [OF i3]] note i1 = read_f64_inv [OF r1 conjunct1 [OF i2]]
  note i0 = read_hdr_inv [OF refl conjunct1 [OF i1]]
  have b: "b = write_hdr ControllerK @ u64_le eta @ u64_le rho @ u64_le ks @ u64_le ma @ u64_le ca
     @ u32_le (of_nat (length es)) @ concat (map (\<lambda>(i, v). u32_le i @ u64_le v) es)"
    using i0 i1 i2 i3 i4 i5 i6 i7 by simp
  have "encode_controller x = b" if "controller_canon x = x"
  proof -
    have canon: "f64_canon eta = eta" "f64_canon rho = rho" "f64_canon ks = ks"
      "map (\<lambda>(i, v). (i, f64_canon v)) es = es"
      using arg_cong [OF that, of ct_eta] arg_cong [OF that, of ct_rho] arg_cong [OF that, of ct_k_sigma]
        arg_cong [OF that, of ct_entries] c(2) by (simp_all add: controller_canon_def)
    have "map (\<lambda>(i, v). u32_le i @ u64_le (f64_canon v)) es =
        map (\<lambda>(i, v). u32_le i @ u64_le v) (map (\<lambda>(i, v). (i, f64_canon v)) es)"
      by (simp add: case_prod_unfold comp_def)
    then have "concat (map (\<lambda>(i, v). u32_le i @ u64_le (f64_canon v)) es) =
        concat (map (\<lambda>(i, v). u32_le i @ u64_le v) es)" unfolding canon(4) by (rule arg_cong)
    with canon b c(2) show ?thesis by (simp add: encode_controller_def write_f64_canon)
  qed
  with c show ?thesis by (simp add: controller_valid_def)
qed

interpretation controller_codec: canonical_codec encode_controller decode_controller controller_valid controller_canon
  by unfold_locales (simp_all add: decode_controller_enc decode_controller_inv encode_controller_canon)

definition price_vector_valid :: "price_vector \<Rightarrow> bool" where
  "price_vector_valid v \<longleftrightarrow> check_price_vector v = Ok () \<and> length (pv_context v) = 32
     \<and> list_all (\<lambda>(_, d). length d = 32) (pv_entries v)"

lemma check_price_vector_length:
  "check_price_vector v = Ok () \<Longrightarrow> pv_entries v \<noteq> [] \<and> length (pv_entries v) \<le> 32"
  by (auto simp: check_price_vector_def MAX_RESOURCES_def split: if_splits)

lemma decode_price_vector_enc:
  assumes "price_vector_valid v"
  shows "decode_price_vector (encode_price_vector v) = Ok v"
proof -
  have chk: "check_price_vector v = Ok ()" "length (pv_context v) = 32" "\<forall>d \<in> snd ` set (pv_entries v). length d = 32"
    using assms by (auto simp: price_vector_valid_def list_all_iff)
  from check_price_vector_length [OF chk(1)] have n: "0 < length (pv_entries v)" "length (pv_entries v) \<le> 32" by simp_all
  have e: "read_entries read_dig (length (pv_entries v))
      (mk pre (concat (map (\<lambda>(i, d). u32_le i @ d) (pv_entries v)))) =
     (pv_entries v, mk (pre @ concat (map (\<lambda>(i, d). u32_le i @ d) (pv_entries v))) [])" for pre
    using read_entries_at [of "pv_entries v" read_dig "\<lambda>d. d" "\<lambda>d. d" pre "[]"] chk(3)
    by (simp add: read_dig_at case_prod_unfold)
  with chk entry_count [OF n] show ?thesis
    by (cases v) (simp add: decode_price_vector_def encode_price_vector_def reader_simps Let_def)
qed

lemma decode_price_vector_inv:
  assumes "decode_price_vector b = Ok x"
  shows "price_vector_valid x \<and> encode_price_vector x = b"
proof -
  let ?r0 = "read_hdr PriceVectorK (new_reader b)"
  obtain g r1 where r1: "read_u64 ?r0 = (g, r1)" by fastforce
  obtain cx r2 where r2: "read_dig r1 = (cx, r2)" by fastforce
  obtain n r3 where r3: "read_u32 r2 = (n, r3)" by fastforce
  obtain es r4 where r4: "read_entries read_dig (unat n) r3 = (es, r4)" by fastforce
  let ?v = "\<lparr>pv_generation = g, pv_context = cx, pv_entries = es\<rparr>"
  from assms r1 r2 r3 r4 have e: "read_end r4 = Ok ()" and c: "check_price_vector ?v = Ok ()" "x = ?v"
    by (auto simp: decode_price_vector_def Let_def and_then_Ok split: option.splits if_splits)
  from read_end_inv [OF e] have s4: "rd_st r4 = None" "rest r4 = []" by simp_all
  have i4: "rd_st r3 = None \<and> rest r3 = concat (map (\<lambda>(i, d). u32_le i @ d) es) \<and> length es = unat n
      \<and> (\<forall>d \<in> snd ` set es. length d = 32)"
    using read_entries_inv [of read_dig "\<lambda>d. d" "\<lambda>d. length d = 32", OF _ r4 s4(1)] read_dig_inv s4(2) by simp
  note i3 = read_u32_inv [OF r3 conjunct1 [OF i4]] note i2 = read_dig_inv [OF r2 conjunct1 [OF i3]]
  note i1 = read_u64_inv [OF r1 conjunct1 [OF i2]] note i0 = read_hdr_inv [OF refl conjunct1 [OF i1]]
  have "b = write_hdr PriceVectorK @ u64_le g @ cx @ u32_le (of_nat (length es)) @ concat (map (\<lambda>(i, d). u32_le i @ d) es)"
    using i0 i1 i2 i3 i4 by simp
  with c i2 i4 show ?thesis by (auto simp: price_vector_valid_def encode_price_vector_def list_all_iff)
qed

interpretation price_vector_codec: canonical_codec encode_price_vector decode_price_vector price_vector_valid id
  by unfold_locales (simp_all add: decode_price_vector_enc decode_price_vector_inv)

section \<open>Digests commit to records\<close>

lemma dual_digest_binds:
  assumes "dual_digest X d a = dual_digest X d b"
  shows "a = b \<or> sha_collision X (d @ [CHR 0x00] @ a) (d @ [CHR 0x00] @ b)"
  using assms by (auto simp: dual_digest_def sha_collision_def)

lemma constraint_digest_binds:
  assumes "constraint_valid x" and "constraint_valid y" and "digest_constraint X x = digest_constraint X y"
  shows "constraint_canon x = constraint_canon y \<or>
     sha_collision X (DOMAIN_CONSTRAINT @ [CHR 0x00] @ encode_constraint x) (DOMAIN_CONSTRAINT @ [CHR 0x00] @ encode_constraint y)"
  using dual_digest_binds [OF assms(3) [unfolded digest_constraint_def]] constraint_codec.enc_inj [OF assms(1,2)] by blast

lemma verify_digest_constraint_iff:
  "verify_digest X ConstraintK b d = Ok () \<longleftrightarrow> (\<exists>s. decode_constraint b = Ok s \<and> d = digest_constraint X s)"
  by (auto simp: verify_digest_def and_then_Ok map_err_Ok split: if_splits)

end
