(* ===== verification/Text.thy ===== *)
theory Text
  imports Prelude
begin

text \<open>
  More of Rust's \<open>str\<close> on UTF-8 byte lists: \<open>trim\<close>, \<open>lines\<close>, \<open>trim_start_matches\<close> with a string or a
  character, ASCII case, and the decimal text of signed integers.
\<close>

text \<open>The UTF-8 bytes of a code point; \<open>chars\<close> of the prelude reads them back.\<close>

definition utf8_char :: "nat \<Rightarrow> bytes" where
  "utf8_char c =
     (if c < 128 then [char_of c]
      else if c < 2048 then [char_of (192 + c div 64), char_of (128 + c mod 64)]
      else if c < 65536 then [char_of (224 + c div 4096), char_of (128 + c div 64 mod 64), char_of (128 + c mod 64)]
      else [char_of (240 + c div 262144), char_of (128 + c div 4096 mod 64), char_of (128 + c div 64 mod 64),
            char_of (128 + c mod 64)])"

definition trim :: "string \<Rightarrow> string" where
  "trim s = concat (map utf8_char (rev (dropWhile is_whitespace (rev (dropWhile is_whitespace (chars s))))))"

definition trim_end :: "string \<Rightarrow> string" where
  "trim_end s = concat (map utf8_char (rev (dropWhile is_whitespace (rev (chars s)))))"

section \<open>UTF-8 validity\<close>

text \<open>One step of the decoder of the standard library: the number of bytes it takes and whether they
  are a well-formed sequence.\<close>

definition byte_in :: "bytes \<Rightarrow> nat \<Rightarrow> nat \<Rightarrow> nat \<Rightarrow> bool" where
  "byte_in b i lo hi \<longleftrightarrow> i < length b \<and> lo \<le> of_char (b ! i) \<and> of_char (b ! i) \<le> hi"

definition utf8_step :: "bytes \<Rightarrow> nat \<times> bool" where
  "utf8_step b =
     (let x = of_char (hd b) :: nat;
          cont = (\<lambda>i. byte_in b i 128 191);
          second =
            (if x = 224 then byte_in b 1 160 191
             else if 225 \<le> x \<and> x \<le> 236 then byte_in b 1 128 191
             else if x = 237 then byte_in b 1 128 159
             else if x = 238 \<or> x = 239 then byte_in b 1 128 191
             else if x = 240 then byte_in b 1 144 191
             else if 241 \<le> x \<and> x \<le> 243 then byte_in b 1 128 191
             else if x = 244 then byte_in b 1 128 143
             else False) in
      if x < 128 then (1, True)
      else if 194 \<le> x \<and> x \<le> 223 then (if cont 1 then (2, True) else (1, False))
      else if \<not> second then (1, False)
      else if \<not> cont 2 then (2, False)
      else if x < 240 then (3, True)
      else if cont 3 then (4, True) else (3, False))"

lemma utf8_step_pos: "0 < fst (utf8_step b)"
  by (simp add: utf8_step_def Let_def)

lemma utf8_step_shrinks: "b \<noteq> [] \<Longrightarrow> length (drop (fst (utf8_step b)) b) < length b"
  using utf8_step_pos [of b] by simp

text \<open>\<open>str::from_utf8\<close> succeeds, and \<open>String::from_utf8_lossy\<close>: each ill-formed part becomes U+FFFD.\<close>

function valid_utf8 :: "bytes \<Rightarrow> bool" where
  "valid_utf8 b =
     (if b = [] then True
      else if snd (utf8_step b) then valid_utf8 (drop (fst (utf8_step b)) b) else False)"
  by pat_completeness auto
termination
proof (relation "measure length")
  fix b :: bytes assume "b \<noteq> []"
  from utf8_step_shrinks [OF this] show "(drop (fst (utf8_step b)) b, b) \<in> measure length" by simp
qed simp

function from_utf8_lossy :: "bytes \<Rightarrow> string" where
  "from_utf8_lossy b =
     (if b = [] then []
      else (if snd (utf8_step b) then take (fst (utf8_step b)) b else [CHR 0xEF, CHR 0xBF, CHR 0xBD])
        @ from_utf8_lossy (drop (fst (utf8_step b)) b))"
  by pat_completeness auto
termination
proof (relation "measure length")
  fix b :: bytes assume "b \<noteq> []"
  from utf8_step_shrinks [OF this] show "(drop (fst (utf8_step b)) b, b) \<in> measure length" by simp
qed simp

declare valid_utf8.simps [simp del] from_utf8_lossy.simps [simp del]

lemma from_utf8_lossy_valid: "valid_utf8 b \<Longrightarrow> from_utf8_lossy b = b"
proof (induction b rule: valid_utf8.induct)
  case (1 b)
  show ?case
  proof (cases "b = []")
    case False
    have "snd (utf8_step b) \<and> valid_utf8 (drop (fst (utf8_step b)) b)"
      using "1.prems" False by (subst (asm) valid_utf8.simps) (simp split: if_splits)
    with "1.IH" False show ?thesis by (subst from_utf8_lossy.simps) simp
  qed (subst from_utf8_lossy.simps, simp)
qed

lemma valid_utf8_ascii: "list_all (\<lambda>c. (of_char c :: nat) < 128) b \<Longrightarrow> valid_utf8 b"
proof (induction b rule: valid_utf8.induct)
  case (1 b)
  show ?case
  proof (cases b)
    case Nil
    then show ?thesis by (simp add: valid_utf8.simps)
  next
    case (Cons c s)
    have step: "utf8_step b = (1, True)" using Cons "1.prems" by (simp add: utf8_step_def)
    with "1.IH" Cons "1.prems" have "valid_utf8 s" by simp
    then show ?thesis using step Cons by (subst valid_utf8.simps) simp
  qed
qed

lemma from_utf8_lossy_ascii: "list_all (\<lambda>c. (of_char c :: nat) < 128) b \<Longrightarrow> from_utf8_lossy b = b"
  by (intro from_utf8_lossy_valid valid_utf8_ascii)

text \<open>\<open>trim_start_matches(pat)\<close>: the pattern is removed as often as it is found.\<close>

function trim_start_matches :: "string \<Rightarrow> string \<Rightarrow> string" where
  "trim_start_matches pat s =
     (if pat \<noteq> [] \<and> starts_with pat s then trim_start_matches pat (drop (length pat) s) else s)"
  by pat_completeness auto
termination
proof (relation "measure (\<lambda>(pat, s). length s)")
  fix pat s :: string assume "pat \<noteq> [] \<and> starts_with pat s"
  then have "length pat > 0" "length s \<ge> length pat"
    by (auto simp: starts_with_def) (metis length_take min.cobounded1 min.commute)
  then show "((pat, drop (length pat) s), (pat, s)) \<in> measure (\<lambda>(pat, s). length s)" by (cases pat) auto
qed simp

declare trim_start_matches.simps [simp del]

text \<open>\<open>str::lines\<close>: lines end at a newline, a carriage return before it is dropped, and a last empty
  piece is no line.\<close>

definition strip_cr :: "string \<Rightarrow> string" where
  "strip_cr s = (if s \<noteq> [] \<and> last s = CHR 0x0D then butlast s else s)"

definition str_lines :: "string \<Rightarrow> string list" where
  "str_lines s =
     (let ps = split_on newline s in
      map strip_cr (butlast ps) @ (if last ps = [] then [] else [last ps]))"

definition ascii_lower :: "char \<Rightarrow> char" where
  "ascii_lower c = (let n = of_char c :: nat in if 65 \<le> n \<and> n \<le> 90 then char_of (n + 32) else c)"

definition eq_ignore_ascii_case :: "string \<Rightarrow> string \<Rightarrow> bool" where
  "eq_ignore_ascii_case a b \<longleftrightarrow> map ascii_lower a = map ascii_lower b"

definition is_ascii_alphanumeric :: "char \<Rightarrow> bool" where
  "is_ascii_alphanumeric c \<longleftrightarrow> (let n = of_char c :: nat in
     (48 \<le> n \<and> n \<le> 57) \<or> (65 \<le> n \<and> n \<le> 90) \<or> (97 \<le> n \<and> n \<le> 122))"

definition dec_int :: "int \<Rightarrow> string" where
  "dec_int i = (if i < 0 then CHR ''-'' # dec_nat (nat (- i)) else dec_nat (nat i))"

section \<open>Pieces of a split\<close>

lemma split_on_nonempty [simp]: "split_on c s \<noteq> []"
  by (induction s) (auto split: list.splits)

lemma split_on_plain: "c \<notin> set s \<Longrightarrow> split_on c s = [s]"
  by (induction s) auto

lemma split_on_append:
  "c \<notin> set p \<Longrightarrow> split_on c (p @ c # s) = p # split_on c s"
  by (induction p) auto

lemma split_on_join:
  "\<forall>p \<in> set ps. c \<notin> set p \<Longrightarrow> ps \<noteq> [] \<Longrightarrow> split_on c (join [c] ps) = ps"
proof (induction "[c]" ps rule: join.induct)
  case (3 p q ps)
  then show ?case using split_on_append [of c p] by simp
qed (auto simp: split_on_plain)

lemma split_on_pieces: "p \<in> set (split_on c s) \<Longrightarrow> c \<notin> set p"
  by (induction s arbitrary: p) (auto split: list.splits if_splits)

lemma join_split_on: "join [c] (split_on c s) = s"
proof (induction s)
  case (Cons x xs)
  obtain p ps where p: "split_on c xs = p # ps" by (cases "split_on c xs") auto
  with Cons show ?case by (cases ps) (auto split: if_splits)
qed simp

end
