(* ===== verification/Dual_Diagnostic.thy ===== *)
theory Dual_Diagnostic
  imports Dual_Codec Text
begin

text \<open>
  The scarcity diagnostic (\<open>src/src/dual/diagnostic.rs\<close>): which resource has the largest fresh,
  calibrated price in a verified price vector.  A directory is the record \<open>price_dir\<close>: what each
  read returns, the listing already filtered to \<open>*.constraint.bin\<close> and sorted by path.
\<close>

datatype unavailable_reason = Missing | StaleU | FrozenU | UncalibratedU | RefusedU | DigestMismatchU | Malformed

fun reason_name :: "unavailable_reason \<Rightarrow> string" where
  "reason_name Missing = ''MISSING''"
| "reason_name StaleU = ''STALE''"
| "reason_name FrozenU = ''FROZEN''"
| "reason_name UncalibratedU = ''UNCALIBRATED''"
| "reason_name RefusedU = ''REFUSED''"
| "reason_name DigestMismatchU = ''DIGEST_MISMATCH''"
| "reason_name Malformed = ''MALFORMED''"

record scarcity =
  sd_resource_id :: u32
  sd_unit :: dual_unit
  sd_class :: dual_class
  sd_diagnostic_only :: bool
  sd_lambda :: f64
  sd_generation :: u64
  sd_evidence_root :: string

datatype scarcity_diagnostic = Available scarcity | Unavailable unavailable_reason string

definition default_diagnostic :: scarcity_diagnostic where
  "default_diagnostic = Unavailable Missing ''no price vector configured''"

fun refusal_debug :: "refusal \<Rightarrow> string" where
  "refusal_debug NonFiniteR = ''NonFinite''"
| "refusal_debug UnitR = ''Unit''"
| "refusal_debug ClassR = ''Class''"
| "refusal_debug ScaleR = ''Scale''"
| "refusal_debug RangeR = ''Range''"
| "refusal_debug KindR = ''Kind''"
| "refusal_debug EncodingR = ''Encoding''"
| "refusal_debug ResourceR = ''Resource''"
| "refusal_debug DigestR = ''Digest''"
| "refusal_debug GenerationR = ''Generation''"
| "refusal_debug CalibrationR = ''Calibration''"

definition refusal_display :: "refusal \<Rightarrow> string" where
  "refusal_display r = refusal_debug r @ '' (RxDualStatus '' @ dec_int (c_status r) @ '')''"

definition refused_diagnostic :: "string \<Rightarrow> refusal \<Rightarrow> scarcity_diagnostic" where
  "refused_diagnostic what r =
     Unavailable (case r of KindR \<Rightarrow> Malformed | EncodingR \<Rightarrow> Malformed | _ \<Rightarrow> RefusedU)
       (what @ '' refused: '' @ refusal_display r)"

fun is_available :: "scarcity_diagnostic \<Rightarrow> bool" where
  "is_available (Available _) = True"
| "is_available (Unavailable _ _) = False"

section \<open>Selection\<close>

text \<open>The loop that keeps the best fresh state seen so far.\<close>

fun select_best :: "constraint_state option \<Rightarrow> constraint_state list \<Rightarrow> constraint_state option" where
  "select_best best [] = best"
| "select_best best (s # ss) =
     (if \<not> is_fresh_calibrated s then select_best best ss
      else select_best
        (case best of
           None \<Rightarrow> Some s
         | Some b \<Rightarrow>
             if f64_lt (cs_lambda b) (cs_lambda s)
                \<or> (f64_eq (cs_lambda s) (cs_lambda b) \<and> cs_resource_id s < cs_resource_id b)
             then Some s else Some b) ss)"

definition select_dominant :: "crates \<Rightarrow> price_vector \<Rightarrow> constraint_state list \<Rightarrow> scarcity_diagnostic" where
  "select_dominant X vector states =
     (case select_best None states of
        Some b \<Rightarrow> Available \<lparr>sd_resource_id = cs_resource_id b, sd_unit = cs_unit b, sd_class = cs_class b,
          sd_diagnostic_only = (cs_class b = Capacity), sd_lambda = cs_lambda b,
          sd_generation = pv_generation vector, sd_evidence_root = hex_encode X (cs_evidence_root b)\<rparr>
      | None \<Rightarrow>
          let has = (\<lambda>st. list_ex (\<lambda>s. cs_lambda_state s = st) states);
              (reason, state_name) =
                (if has RefusedL then (RefusedU, ''REFUSED'')
                 else if has Stale then (StaleU, ''STALE'')
                 else if has Frozen then (FrozenU, ''FROZEN'')
                 else (UncalibratedU, ''UNCALIBRATED'')) in
          Unavailable reason (''no FRESH calibrated price in a verified vector of '' @ dec_nat (length states) @
            '' at generation '' @ dec_nat (unat (pv_generation vector)) @ ''; states include '' @ state_name))"

section \<open>Verification of the records\<close>

fun decode_constraints ::
    "crates \<Rightarrow> nat \<Rightarrow> bytes list \<Rightarrow> scarcity_diagnostic + (digest32 \<times> constraint_state) list" where
  "decode_constraints X i [] = Ok []"
| "decode_constraints X i (b # bs) =
     (case decode_constraint b of
        Inl r \<Rightarrow> Err (refused_diagnostic (''constraint record '' @ dec_nat i) r)
      | Inr s \<Rightarrow> and_then (decode_constraints X (i + 1) bs) (\<lambda>ds. Ok ((digest_constraint X s, s) # ds)))"

fun match_entries ::
    "crates \<Rightarrow> price_vector \<Rightarrow> (digest32 \<times> constraint_state) list \<Rightarrow> (u32 \<times> digest32) list
      \<Rightarrow> scarcity_diagnostic + constraint_state list" where
  "match_entries X vector decoded [] = Ok []"
| "match_entries X vector decoded ((resource_id, state_digest) # es) =
     (case List.find (\<lambda>(d, _). d = state_digest) decoded of
        None \<Rightarrow> Err (Unavailable Missing (''no supplied constraint record has digest '' @ hex_encode X state_digest @
          '' (resource '' @ dec_nat (unat resource_id) @ '')''))
      | Some (_, s) \<Rightarrow>
          if cs_resource_id s \<noteq> resource_id then
            Err (Unavailable DigestMismatchU (''state digest for resource '' @ dec_nat (unat resource_id) @
              '' names a record for resource '' @ dec_nat (unat (cs_resource_id s))))
          else if cs_generation s \<noteq> pv_generation vector then
            Err (Unavailable RefusedU (''resource '' @ dec_nat (unat resource_id) @ '' generation '' @
              dec_nat (unat (cs_generation s)) @ '' differs from vector generation '' @
              dec_nat (unat (pv_generation vector)) @ '' ('' @ refusal_display GenerationR @ '')''))
          else and_then (match_entries X vector decoded es) (\<lambda>ss. Ok (s # ss)))"

definition from_records :: "crates \<Rightarrow> bytes \<Rightarrow> bytes list \<Rightarrow> digest32 option \<Rightarrow> scarcity_diagnostic" where
  "from_records X price_vector constraints expected =
     (case decode_price_vector price_vector of
        Inl r \<Rightarrow> refused_diagnostic ''price vector'' r
      | Inr vector \<Rightarrow>
          let actual = digest_price_vector X vector in
          if expected \<noteq> None \<and> expected \<noteq> Some actual then
            Unavailable DigestMismatchU (''price vector digest '' @ hex_encode X actual @
              '' does not match expected '' @ hex_encode X (the expected))
          else
            (case decode_constraints X 0 constraints of
               Inl e \<Rightarrow> e
             | Inr decoded \<Rightarrow>
                 (case match_entries X vector decoded (pv_entries vector) of
                    Inl e \<Rightarrow> e
                  | Inr states \<Rightarrow> select_dominant X vector states)))"

section \<open>Reading a directory\<close>

text \<open>What the reads of the directory return; a \<open>price_vector.sha256\<close> that cannot be read counts as
  absent, and an entry without a UTF-8 name is not listed.\<close>

record price_dir =
  pd_vector :: "string + bytes"
  pd_sha256 :: "string option"
  pd_entries :: "string + (string \<times> (string + bytes)) list"

definition constraint_names :: "(string \<times> 'a) list \<Rightarrow> (string \<times> 'a) list" where
  "constraint_names es =
     sort_key (\<lambda>(name, _). map (of_char :: char \<Rightarrow> nat) name)
       (filter (\<lambda>(name, _). ends_with ''.constraint.bin'' name) es)"

fun read_files :: "string \<Rightarrow> (string \<times> (string + bytes)) list \<Rightarrow> scarcity_diagnostic + bytes list" where
  "read_files dir [] = Ok []"
| "read_files dir ((p, Inl e) # fs) = Err (Unavailable Missing (''cannot read '' @ dir @ ''/'' @ p @ '': '' @ e))"
| "read_files dir ((p, Inr b) # fs) = and_then (read_files dir fs) (\<lambda>bs. Ok (b # bs))"

definition load_from_dir :: "crates \<Rightarrow> string \<Rightarrow> price_dir \<Rightarrow> scarcity_diagnostic" where
  "load_from_dir X path d =
     (case pd_vector d of
        Inl e \<Rightarrow> Unavailable Missing (''cannot read '' @ path @ ''/price_vector.bin: '' @ e)
      | Inr pv_bytes \<Rightarrow>
          (case (case pd_sha256 d of
                   None \<Rightarrow> Ok None
                 | Some text \<Rightarrow>
                     (case hex_decode X (trim text) of
                        Some v \<Rightarrow> if length v = 32 then Ok (Some v) else Err ()
                      | None \<Rightarrow> Err ())) of
             Inl _ \<Rightarrow> Unavailable Malformed ''price_vector.sha256 is not 32 bytes of hex''
           | Inr expected \<Rightarrow>
               (case pd_entries d of
                  Inl e \<Rightarrow> Unavailable Missing (''cannot list '' @ path @ '': '' @ e)
                | Inr entries \<Rightarrow>
                    (case read_files path (constraint_names entries) of
                       Inl u \<Rightarrow> u
                     | Inr constraint_files \<Rightarrow> from_records X pv_bytes constraint_files expected))))"

section \<open>The dominant price\<close>

lemma f64_trichotomy:
  "f64_is_finite a \<Longrightarrow> f64_is_finite b \<Longrightarrow> f64_lt a b \<longleftrightarrow> f64_key a < f64_key b"
  "f64_is_finite a \<Longrightarrow> f64_is_finite b \<Longrightarrow> f64_eq a b \<longleftrightarrow> f64_key a = f64_key b"
  by (auto simp: f64_lt_def f64_eq_def f64_is_nan_def f64_is_finite_def)

text \<open>The order of selection: larger price first, then smaller resource id.\<close>

definition dominates :: "constraint_state \<Rightarrow> constraint_state \<Rightarrow> bool" where
  "dominates a b \<longleftrightarrow> f64_key (cs_lambda b) < f64_key (cs_lambda a)
     \<or> (f64_key (cs_lambda b) = f64_key (cs_lambda a) \<and> cs_resource_id a \<le> cs_resource_id b)"

lemma dominates_trans: "dominates a b \<Longrightarrow> dominates b c \<Longrightarrow> dominates a c"
  by (auto simp: dominates_def)

lemma dominates_refl [simp]: "dominates a a"
  by (simp add: dominates_def)

lemma pick_Some:
  "\<exists>c. (case best of None \<Rightarrow> Some s | Some b \<Rightarrow> if P b then Some s else Some b) = Some c"
  by (auto split: option.split)

lemma select_best_dominates:
  assumes "\<forall>s \<in> set ss. f64_is_finite (cs_lambda s)" and "\<forall>b. best = Some b \<longrightarrow> f64_is_finite (cs_lambda b)"
  shows "(case select_best best ss of
      None \<Rightarrow> best = None \<and> (\<forall>s \<in> set ss. \<not> is_fresh_calibrated s)
    | Some b \<Rightarrow> (best = Some b \<or> (b \<in> set ss \<and> is_fresh_calibrated b))
        \<and> (\<forall>s \<in> set ss. is_fresh_calibrated s \<longrightarrow> dominates b s) \<and> (\<forall>s. best = Some s \<longrightarrow> dominates b s))"
  using assms
proof (induction best ss rule: select_best.induct)
  case (1 best)
  then show ?case by (cases best) auto
next
  case (2 best s ss)
  show ?case
  proof (cases "is_fresh_calibrated s")
    case False
    with 2 show ?thesis by (auto split: option.splits)
  next
    case True
    let ?best = "case best of None \<Rightarrow> Some s
         | Some b \<Rightarrow> if f64_lt (cs_lambda b) (cs_lambda s)
                \<or> (f64_eq (cs_lambda s) (cs_lambda b) \<and> cs_resource_id s < cs_resource_id b) then Some s else Some b"
    have fin: "\<forall>b. ?best = Some b \<longrightarrow> f64_is_finite (cs_lambda b)"
      using "2.prems" by (auto split: option.splits if_splits)
    obtain c where c: "?best = Some c" using pick_Some [where best = best and s = s and P = "\<lambda>b. f64_lt (cs_lambda b) (cs_lambda s)
        \<or> (f64_eq (cs_lambda s) (cs_lambda b) \<and> cs_resource_id s < cs_resource_id b)"] by blast
    have dom: "dominates c s" "\<forall>b. best = Some b \<longrightarrow> dominates c b" "c = s \<or> best = Some c"
      using c "2.prems" by (auto simp: dominates_def f64_trichotomy split: option.splits if_splits)
    from "2.IH"(2) [OF _ _ fin] True "2.prems"(1) c have ih: "case select_best (Some c) ss of
        None \<Rightarrow> False
      | Some b \<Rightarrow> (Some c = Some b \<or> (b \<in> set ss \<and> is_fresh_calibrated b))
        \<and> (\<forall>s \<in> set ss. is_fresh_calibrated s \<longrightarrow> dominates b s) \<and> dominates b c"
      by (auto split: option.splits)
    have step: "select_best best (s # ss) = select_best (Some c) ss" using True c by simp
    obtain d where d: "select_best (Some c) ss = Some d" "Some c = Some d \<or> (d \<in> set ss \<and> is_fresh_calibrated d)"
        "\<forall>s \<in> set ss. is_fresh_calibrated s \<longrightarrow> dominates d s" "dominates d c"
      using ih by (cases "select_best (Some c) ss") auto
    have "dominates d s" "\<forall>b. best = Some b \<longrightarrow> dominates d b"
      using dominates_trans [OF d(4)] dom(1,2) by blast+
    moreover have "best = Some d \<or> (d \<in> set (s # ss) \<and> is_fresh_calibrated d)"
      using d(2) dom(3) True by auto
    ultimately show ?thesis unfolding step d(1) using d(3) by simp
  qed
qed


section \<open>What an available reading says\<close>

definition reading :: "crates \<Rightarrow> price_vector \<Rightarrow> constraint_state \<Rightarrow> scarcity" where
  "reading X v b = \<lparr>sd_resource_id = cs_resource_id b, sd_unit = cs_unit b, sd_class = cs_class b,
     sd_diagnostic_only = (cs_class b = Capacity), sd_lambda = cs_lambda b,
     sd_generation = pv_generation v, sd_evidence_root = hex_encode X (cs_evidence_root b)\<rparr>"

text \<open>The states a vector names: one per entry, decoded from a supplied record with that digest, for
  that resource and of the vector's generation.\<close>

definition verified_states :: "crates \<Rightarrow> price_vector \<Rightarrow> bytes list \<Rightarrow> constraint_state list \<Rightarrow> bool" where
  "verified_states X v records ss \<longleftrightarrow> list_all2 (\<lambda>(rid, dg) s. (\<exists>b \<in> set records. decode_constraint b = Ok s)
     \<and> digest_constraint X s = dg \<and> cs_resource_id s = rid \<and> cs_generation s = pv_generation v) (pv_entries v) ss"

lemma decode_constraints_Ok:
  "decode_constraints X i bs = Ok ds \<Longrightarrow> (d, s) \<in> set ds \<Longrightarrow>
     (\<exists>b \<in> set bs. decode_constraint b = Ok s) \<and> d = digest_constraint X s"
proof (induction bs arbitrary: i ds)
  case (Cons b bs)
  from Cons.prems(1) obtain x ds' where "decode_constraint b = Ok x" "decode_constraints X (i + 1) bs = Ok ds'"
      "ds = (digest_constraint X x, x) # ds'"
    by (auto simp: and_then_Ok split: sum.splits)
  with Cons.IH [of "i + 1" ds'] Cons.prems(2) show ?case by auto
qed simp

lemma refused_unavailable [simp]: "\<not> is_available (refused_diagnostic what r)"
  by (simp add: refused_diagnostic_def)

lemma decode_constraints_Err: "decode_constraints X i bs = Err e \<Longrightarrow> \<not> is_available e"
  by (induction bs arbitrary: i) (auto simp: and_then_def split: sum.splits)

lemma match_entries_Err: "match_entries X v ds es = Err e \<Longrightarrow> \<not> is_available e"
  by (induction es) (auto simp: and_then_def split: sum.splits option.splits if_splits)

lemma match_entries_Ok:
  "match_entries X v ds es = Ok ss \<Longrightarrow> list_all2 (\<lambda>(rid, dg) s. (dg, s) \<in> set ds
     \<and> cs_resource_id s = rid \<and> cs_generation s = pv_generation v) es ss"
proof (induction es arbitrary: ss)
  case Nil
  then show ?case by simp
next
  case (Cons e es)
  obtain rid dg where e: "e = (rid, dg)" by (cases e)
  from Cons.prems e obtain p where p: "List.find (\<lambda>(d, _). d = dg) ds = Some p"
    by (auto split: option.splits)
  obtain d s where ps: "p = (d, s)" by (cases p)
  from p ps have mem: "(dg, s) \<in> set ds" by (auto simp: find_Some_iff) (metis nth_mem)
  from Cons.prems e p ps obtain ss' where rest: "match_entries X v ds es = Ok ss'" "ss = s # ss'"
      "cs_resource_id s = rid" "cs_generation s = pv_generation v"
    by (auto simp: and_then_Ok split: if_splits)
  with Cons.IH [OF rest(1)] mem e show ?case by simp
qed

lemma from_records_Available:
  assumes "from_records X pv records expected = Available d"
  obtains v ss b where "decode_price_vector pv = Ok v" and "expected = None \<or> expected = Some (digest_price_vector X v)"
    and "verified_states X v records ss" and "select_best None ss = Some b" and "d = reading X v b"
proof -
  obtain v where v: "decode_price_vector pv = Ok v"
    using assms by (cases "decode_price_vector pv") (auto simp: from_records_def refused_diagnostic_def)
  have ex: "expected = None \<or> expected = Some (digest_price_vector X v)"
    using assms by (auto simp: from_records_def v Let_def split: if_splits)
  obtain ds where ds: "decode_constraints X 0 records = Ok ds"
    using assms ex v decode_constraints_Err [of X 0 records]
    by (cases "decode_constraints X 0 records") (auto simp: from_records_def)
  obtain ss where ss: "match_entries X v ds (pv_entries v) = Ok ss"
    using assms ex v ds match_entries_Err [of X v ds "pv_entries v"]
    by (cases "match_entries X v ds (pv_entries v)") (auto simp: from_records_def)
  have sel: "select_dominant X v ss = Available d" using assms ex v ds ss by (auto simp: from_records_def)
  then obtain b where b: "select_best None ss = Some b" "d = reading X v b"
    by (auto simp: select_dominant_def reading_def Let_def split: option.splits prod.splits)
  have "verified_states X v records ss"
    unfolding verified_states_def using match_entries_Ok [OF ss]
    by (rule list_all2_mono) (use decode_constraints_Ok [OF ds] in auto)
  with that v ex b show ?thesis by blast
qed

lemma verified_states_valid:
  "verified_states X v records ss \<Longrightarrow> s \<in> set ss \<Longrightarrow> constraint_valid s"
  unfolding verified_states_def by (auto simp: list_all2_conv_all_nth in_set_conv_nth intro: constraint_codec.dec_valid)

lemma constraint_valid_lambda: "constraint_valid s \<Longrightarrow> f64_is_finite (cs_lambda s)"
  by (simp add: constraint_valid_def constraint_wf_def)

lemma selected_state:
  assumes "verified_states X v records ss" and "select_best None ss = Some b"
  shows "b \<in> set ss \<and> is_fresh_calibrated b \<and> (\<forall>s \<in> set ss. is_fresh_calibrated s \<longrightarrow> dominates b s)"
  using select_best_dominates [of ss None] assms verified_states_valid constraint_valid_lambda by force

section \<open>Selection sees only the canonical records\<close>

lemma canon_simps [simp]:
  "is_fresh_calibrated (constraint_canon s) = is_fresh_calibrated s"
  "cs_resource_id (constraint_canon s) = cs_resource_id s"
  "cs_lambda (constraint_canon s) = f64_canon (cs_lambda s)"
  by (simp_all add: is_fresh_calibrated_def constraint_canon_def)

lemma select_best_canon:
  "select_best (map_option constraint_canon best) (map constraint_canon ss) = map_option constraint_canon (select_best best ss)"
proof (induction best ss rule: select_best.induct)
  case (2 best s ss)
  then show ?case by (cases best) auto
qed simp

lemma reading_canon:
  "(reading X v (constraint_canon b))\<lparr>sd_lambda := l\<rparr> = (reading X v b)\<lparr>sd_lambda := l\<rparr>"
  by (simp add: reading_def constraint_canon_def)

section \<open>The pinned digest\<close>

definition price_preimages :: "bytes \<Rightarrow> bytes list \<Rightarrow> bytes list" where
  "price_preimages pv records = (DOMAIN_PRICE_VECTOR @ [CHR 0x00] @ pv) #
     concat (map (\<lambda>b. case decode_constraint b of Inl _ \<Rightarrow> []
       | Inr s \<Rightarrow> [DOMAIN_CONSTRAINT @ [CHR 0x00] @ encode_constraint s]) records)"

lemma price_preimagesI:
  "DOMAIN_PRICE_VECTOR @ [CHR 0x00] @ pv \<in> set (price_preimages pv records)"
  "b \<in> set records \<Longrightarrow> decode_constraint b = Ok s \<Longrightarrow>
     DOMAIN_CONSTRAINT @ [CHR 0x00] @ encode_constraint s \<in> set (price_preimages pv records)"
  by (auto simp: price_preimages_def intro!: bexI [of _ b])

lemma vector_digest_binds:
  assumes "decode_price_vector pv = Ok v" and "decode_price_vector pv' = Ok v'"
    and "digest_price_vector X v = digest_price_vector X v'"
  shows "v = v' \<or> sha_collision X (DOMAIN_PRICE_VECTOR @ [CHR 0x00] @ pv) (DOMAIN_PRICE_VECTOR @ [CHR 0x00] @ pv')"
proof -
  have e: "encode_price_vector v = pv" "encode_price_vector v' = pv'"
    using decode_price_vector_inv [OF assms(1)] decode_price_vector_inv [OF assms(2)] by simp_all
  have "pv = pv' \<Longrightarrow> v = v'" using assms(1,2) by simp
  with dual_digest_binds [OF assms(3) [unfolded digest_price_vector_def e]] show ?thesis by blast
qed

lemma states_binds:
  assumes "verified_states X v records ss" and "verified_states X v records' ss'"
  shows "map constraint_canon ss = map constraint_canon ss'
     \<or> (\<exists>a \<in> set (price_preimages pv records). \<exists>b \<in> set (price_preimages pv' records'). sha_collision X a b)"
proof (rule disjCI)
  assume none: "\<not> (\<exists>a \<in> set (price_preimages pv records). \<exists>b \<in> set (price_preimages pv' records'). sha_collision X a b)"
  have len: "length ss = length ss'" using assms by (simp add: verified_states_def list_all2_conv_all_nth)
  have "constraint_canon (ss ! i) = constraint_canon (ss' ! i)" if i: "i < length ss" for i
  proof -
    obtain rid dg where e: "pv_entries v ! i = (rid, dg)" by (cases "pv_entries v ! i")
    from assms(1) i e obtain a where a: "a \<in> set records" "decode_constraint a = Ok (ss ! i)" "digest_constraint X (ss ! i) = dg"
      by (auto simp: verified_states_def list_all2_conv_all_nth)
    from assms(2) i e len obtain b where b: "b \<in> set records'" "decode_constraint b = Ok (ss' ! i)"
        "digest_constraint X (ss' ! i) = dg"
      by (auto simp: verified_states_def list_all2_conv_all_nth)
    show ?thesis
      using constraint_digest_binds [OF constraint_codec.dec_valid [OF a(2)] constraint_codec.dec_valid [OF b(2)]]
        a(3) b(3) none price_preimagesI(2) [OF a(1,2)] price_preimagesI(2) [OF b(1,2)] by metis
  qed
  with len show "map constraint_canon ss = map constraint_canon ss'" by (simp add: list_eq_iff_nth_eq)
qed

section \<open>A worked price directory\<close>

definition sample_digest :: "nat \<Rightarrow> digest32" where
  "sample_digest n = replicate 31 (CHR 0x00) @ [char_of n]"

definition priced :: "u32 \<Rightarrow> f64 \<Rightarrow> constraint_state" where
  "priced rid price = \<lparr>cs_resource_id = rid, cs_unit = Bytes, cs_class = Soft, cs_budget = f64_one,
     cs_budget_contract = sample_digest 1, cs_observation_ref = sample_digest 2, cs_estimate_ref = sample_digest 3,
     cs_estimate_kind = MeasuredE, cs_estimate = f64_one, cs_uncertainty = 0, cs_calibration_ref = sample_digest 4,
     cs_lambda = price, cs_lambda_state = Fresh, cs_controller_id = sample_digest 5, cs_generation = 9, cs_tick = 0,
     cs_evidence_root = sample_digest 6, cs_parent = sample_digest 0\<rparr>"

definition priced_vector :: "crates \<Rightarrow> constraint_state list \<Rightarrow> price_vector" where
  "priced_vector X ss = \<lparr>pv_generation = 9, pv_context = sample_digest 7,
     pv_entries = map (\<lambda>s. (cs_resource_id s, digest_constraint X s)) ss\<rparr>"

lemma sample_digest_simps [simp]: "length (sample_digest n) = 32"
  by (simp add: sample_digest_def)

lemma sample_digest_zero:
  "digest_is_zero (sample_digest 0)" "n < 256 \<Longrightarrow> n \<noteq> 0 \<Longrightarrow> \<not> digest_is_zero (sample_digest n)"
  by (simp_all add: sample_digest_def digest_is_zero_def char_of_eq_iff take_bit_eq_mod list_all_iff)

text \<open>A hash that tells the resources of this directory apart and is cheap to evaluate: it reads the
  low byte of the resource id.\<close>

definition keyed :: crates where
  "keyed = sample\<lparr>sha256 := \<lambda>b. sample_digest (1 + of_char (b ! 27) mod 200)\<rparr>"

definition low_price :: constraint_state where "low_price = priced 3 f64_one"
definition high_price :: constraint_state where "high_price = priced 5 0x4000000000000000"
definition two_prices :: price_vector where "two_prices = priced_vector keyed [low_price, high_price]"

lemma constraint_key_byte:
  "(DOMAIN_CONSTRAINT @ [CHR 0x00] @ encode_constraint s) ! 27 = char_of (unat (cs_resource_id s))"
proof -
  have "u32_le w = char_of (unat w mod 256) # le_bytes 3 (unat w div 256)" for w
    by (metis u32_le_def le_bytes.simps(2) numeral_3_eq_3 numeral_eq_Suc pred_numeral_simps(2) semiring_norm(26,27,28))
  then show ?thesis
    by (simp add: encode_constraint_def DOMAIN_CONSTRAINT_def write_hdr_def nth_append)
qed

lemma priced_digest:
  "digest_constraint keyed low_price = sample_digest 4" "digest_constraint keyed high_price = sample_digest 6"
  using constraint_key_byte [of low_price] constraint_key_byte [of high_price]
  by (simp_all add: digest_constraint_def dual_digest_def keyed_def low_price_def high_price_def priced_def)

lemma f64_samples:
  "f64_is_finite f64_one" "f64_is_finite 0x4000000000000000"
  "f64_key f64_one = 0x3FF0000000000000" "f64_key 0x4000000000000000 = 0x4000000000000000"
  by (simp_all add: f64_is_finite_def f64_one_def f64_key_def)

lemma priced_valid: "constraint_valid low_price" "constraint_valid high_price"
  by (simp_all add: constraint_valid_def constraint_wf_def low_price_def high_price_def priced_def sample_digest_zero
      f64_samples f64_lt_def)

lemma priced_simps:
  "cs_resource_id low_price = 3" "cs_resource_id high_price = 5" "cs_generation low_price = 9"
  "cs_generation high_price = 9" "cs_lambda low_price = f64_one" "cs_lambda high_price = 0x4000000000000000"
  "is_fresh_calibrated low_price" "is_fresh_calibrated high_price"
  by (simp_all add: low_price_def high_price_def priced_def is_fresh_calibrated_def sample_digest_zero)

lemma two_prices_valid: "price_vector_valid two_prices"
  by (simp add: price_vector_valid_def two_prices_def priced_vector_def check_price_vector_def priced_digest
      sample_digest_zero ids_ascending_def MAX_RESOURCES_def priced_simps)

definition priced_records :: "bytes list" where
  "priced_records = [encode_constraint low_price, encode_constraint high_price]"

lemma priced_canon: "constraint_canon low_price = low_price" "constraint_canon high_price = high_price"
  by (simp_all add: constraint_canon_def low_price_def high_price_def priced_def f64_canon_def f64_eq_def f64_samples
      f64_one_def f64_key_def)

lemma priced_decode:
  "decode_constraint (encode_constraint low_price) = Ok low_price"
  "decode_constraint (encode_constraint high_price) = Ok high_price"
  "decode_price_vector (encode_price_vector two_prices) = Ok two_prices"
  using decode_constraint_enc [OF priced_valid(1)] decode_constraint_enc [OF priced_valid(2)]
    decode_price_vector_enc [OF two_prices_valid] by (simp_all add: priced_canon)

lemma sample_digest_inj: "m < 256 \<Longrightarrow> n < 256 \<Longrightarrow> sample_digest m = sample_digest n \<longleftrightarrow> m = n"
  by (simp add: sample_digest_def char_of_eq_iff take_bit_eq_mod)

lemma priced_reading:
  assumes "records = priced_records \<or> records = rev priced_records"
  shows "from_records keyed (encode_price_vector two_prices) records (Some (digest_price_vector keyed two_prices))
     = Available (reading keyed two_prices high_price)"
proof -
  let ?l = "(sample_digest 4, low_price)" and ?h = "(sample_digest 6, high_price)"
  have "decode_constraints keyed 0 records = Ok [?l, ?h] \<or> decode_constraints keyed 0 records = Ok [?h, ?l]"
    using assms by (auto simp: priced_records_def priced_decode priced_digest)
  moreover have "match_entries keyed two_prices [?l, ?h] (pv_entries two_prices) = Ok [low_price, high_price]"
    "match_entries keyed two_prices [?h, ?l] (pv_entries two_prices) = Ok [low_price, high_price]"
    by (simp_all add: two_prices_def priced_vector_def priced_digest priced_simps sample_digest_inj)
  moreover have "select_best None [low_price, high_price] = Some high_price"
    by (simp add: priced_simps f64_lt_def f64_samples f64_is_nan_def f64_one_def f64_key_def)
  ultimately show ?thesis
    by (elim disjE) (simp_all add: from_records_def priced_decode select_dominant_def reading_def)
qed

section \<open>Theorems\<close>

text \<open>an available scarcity reading is the dominant price of a verified vector.  The price vector
  decodes and has the expected digest; every entry names a supplied record that decodes, has the digest the entry
  states, is for the entry's resource and of the vector's generation; and the resource reported is one
  of them, fresh and calibrated, whose price no other fresh calibrated state exceeds, with the lowest
  id among equal prices.\<close>

theorem scarcity_reading_sound:
  assumes "from_records X pv records expected = Available d"
  shows "\<exists>v ss b. decode_price_vector pv = Ok v \<and> (expected = None \<or> expected = Some (digest_price_vector X v))
     \<and> verified_states X v records ss \<and> b \<in> set ss \<and> is_fresh_calibrated b \<and> d = reading X v b
     \<and> (\<forall>s \<in> set ss. is_fresh_calibrated s \<longrightarrow> \<not> f64_lt (cs_lambda b) (cs_lambda s)
          \<and> (f64_eq (cs_lambda b) (cs_lambda s) \<longrightarrow> cs_resource_id b \<le> cs_resource_id s))"
proof -
  obtain v ss b where v: "decode_price_vector pv = Ok v" "expected = None \<or> expected = Some (digest_price_vector X v)"
      "verified_states X v records ss" "select_best None ss = Some b" "d = reading X v b"
    by (rule from_records_Available [OF assms])
  note b = selected_state [OF v(3,4)]
  have "\<not> f64_lt (cs_lambda b) (cs_lambda s) \<and> (f64_eq (cs_lambda b) (cs_lambda s) \<longrightarrow> cs_resource_id b \<le> cs_resource_id s)"
    if "s \<in> set ss" "is_fresh_calibrated s" for s
    using b that by (auto simp: dominates_def f64_lt_def f64_eq_def)
  with v b show ?thesis by blast
qed

theorem scarcity_reading_sound_witness:
  "\<exists>v ss b. decode_price_vector (encode_price_vector two_prices) = Ok v \<and> verified_states keyed v priced_records ss
     \<and> b \<in> set ss \<and> reading keyed two_prices high_price = reading keyed v b"
  using scarcity_reading_sound [OF priced_reading [of priced_records]] by blast

text \<open>the pinned digest of the price vector fixes the reading.  Two directories that both yield
  an available reading under the same expected digest yield the same reading (up to the sign of a zero
  price, which the canonical encoding does not keep), whatever records they hold, unless
  SHA-256 collides on two of the canonical encodings they were checked against.\<close>

theorem pinned_digest_fixes_reading:
  assumes "from_records X pv records (Some e) = Available d" and "from_records X pv' records' (Some e) = Available d'"
  shows "d\<lparr>sd_lambda := f64_canon (sd_lambda d)\<rparr> = d'\<lparr>sd_lambda := f64_canon (sd_lambda d')\<rparr>
     \<or> (\<exists>a \<in> set (price_preimages pv records). \<exists>b \<in> set (price_preimages pv' records'). sha_collision X a b)"
proof (rule disjCI)
  assume none: "\<not> (\<exists>a \<in> set (price_preimages pv records). \<exists>b \<in> set (price_preimages pv' records'). sha_collision X a b)"
  obtain v ss b where v: "decode_price_vector pv = Ok v" "e = digest_price_vector X v"
      "verified_states X v records ss" "select_best None ss = Some b" "d = reading X v b"
    by (rule from_records_Available [OF assms(1)]) auto
  obtain v' ss' b' where v': "decode_price_vector pv' = Ok v'" "e = digest_price_vector X v'"
      "verified_states X v' records' ss'" "select_best None ss' = Some b'" "d' = reading X v' b'"
    by (rule from_records_Available [OF assms(2)]) auto
  have same: "v' = v" using vector_digest_binds [OF v(1) v'(1)] v(2) v'(2) none price_preimagesI(1) by metis
  have "map constraint_canon ss = map constraint_canon ss'"
    using states_binds [OF v(3) v'(3) [unfolded same]] none by blast
  then have "constraint_canon b = constraint_canon b'"
    using select_best_canon [of None ss] select_best_canon [of None ss'] v(4) v'(4) by simp
  then have "(reading X v (constraint_canon b))\<lparr>sd_lambda := f64_canon (cs_lambda b)\<rparr> =
      (reading X v (constraint_canon b'))\<lparr>sd_lambda := f64_canon (cs_lambda b')\<rparr>"
    by (metis canon_simps(3))
  then show "d\<lparr>sd_lambda := f64_canon (sd_lambda d)\<rparr> = d'\<lparr>sd_lambda := f64_canon (sd_lambda d')\<rparr>"
    unfolding reading_canon v(5) v'(5) same by (simp add: reading_def)
qed

theorem pinned_digest_fixes_reading_witness:
  "\<exists>d d'. from_records keyed (encode_price_vector two_prices) priced_records (Some (digest_price_vector keyed two_prices)) = Available d
   \<and> from_records keyed (encode_price_vector two_prices) (rev priced_records) (Some (digest_price_vector keyed two_prices)) = Available d'
   \<and> (d\<lparr>sd_lambda := f64_canon (sd_lambda d)\<rparr> = d'\<lparr>sd_lambda := f64_canon (sd_lambda d')\<rparr>
      \<or> (\<exists>a \<in> set (price_preimages (encode_price_vector two_prices) priced_records).
         \<exists>b \<in> set (price_preimages (encode_price_vector two_prices) (rev priced_records)). sha_collision keyed a b))"
  using pinned_digest_fixes_reading [OF priced_reading priced_reading, of priced_records "rev priced_records"]
    priced_reading [of priced_records] priced_reading [of "rev priced_records"] by simp

text \<open>C30: the four record codecs are exact.  What \<open>decode\<close> accepts encodes back to the same bytes for
  resources and price vectors; for constraint states and controllers it encodes to the canonical record,
  the one with every zero positive, and to the same bytes when the record is canonical already.  Every
  valid record survives encoding and decoding.\<close>

theorem dual_records_roundtrip:
  "(decode_resource b = Ok r \<longrightarrow> encode_resource r = b) \<and> (resource_valid r \<longrightarrow> decode_resource (encode_resource r) = Ok r)
   \<and> (decode_price_vector b = Ok v \<longrightarrow> encode_price_vector v = b)
   \<and> (price_vector_valid v \<longrightarrow> decode_price_vector (encode_price_vector v) = Ok v)
   \<and> (decode_constraint b = Ok s \<longrightarrow> decode_constraint (encode_constraint s) = Ok (constraint_canon s)
        \<and> (constraint_canon s = s \<longrightarrow> encode_constraint s = b))
   \<and> (constraint_valid s \<longrightarrow> decode_constraint (encode_constraint s) = Ok (constraint_canon s))
   \<and> (decode_controller b = Ok c \<longrightarrow> decode_controller (encode_controller c) = Ok (controller_canon c)
        \<and> (controller_canon c = c \<longrightarrow> encode_controller c = b))
   \<and> (controller_valid c \<longrightarrow> decode_controller (encode_controller c) = Ok (controller_canon c))"
  using resource_codec.enc_dec resource_codec.dec_enc price_vector_codec.enc_dec price_vector_codec.dec_enc
    constraint_codec.enc_dec constraint_codec.dec_enc constraint_codec.reencode
    controller_codec.enc_dec controller_codec.dec_enc controller_codec.reencode by simp

theorem dual_records_roundtrip_witness:
  "decode_constraint (encode_constraint high_price) = Ok high_price
   \<and> decode_price_vector (encode_price_vector two_prices) = Ok two_prices"
  using dual_records_roundtrip [of "encode_constraint high_price" _ two_prices high_price] priced_valid two_prices_valid
  by (simp add: priced_canon)

end
