(* ===== verification/Root_Of_Trust.thy ===== *)
theory Root_Of_Trust
  imports Identity Text
begin

text \<open>
  The root of trust (\<open>src/src/isolation/root_of_trust.rs\<close>) and the security layer of the evaluator
  (\<open>src/src/evaluator/layers/security.rs\<close>): which repository paths a candidate may not touch, and which
  patterns its text may not contain.  Messages are the constructors of \<open>path_violation\<close> and
  \<open>security_violation\<close>, with the values the code formats into them.
\<close>

type_synonym tier = "8 word"

datatype root_error = UnusableBytes string | ClimbsAboveRoot string

datatype path_violation = Unnormalized root_error | ProtectedTarget string tier

definition PROTECTED_PATHS :: "string list" where
  "PROTECTED_PATHS = [''Cargo.toml'', ''Cargo.lock'', ''.cargo'', ''src/isolation'', ''src/evaluator'',
     ''src/ledger'', ''src/governance'', ''src/supervisor'', ''src/daemon.rs'', ''tests'', ''.github'',
     ''CONSTITUTION.md'', ''LICENSE'', ''agent.json'', ''.rsi/ledger.db'', ''.rsi/active'', ''.rsi/holdouts'']"

text \<open>The loop over the components; \<open>stack\<close> has its top at the end.\<close>

fun normalize_loop :: "string \<Rightarrow> string list \<Rightarrow> string list \<Rightarrow> root_error + string list" where
  "normalize_loop path stack [] = Ok stack"
| "normalize_loop path stack (c # cs) =
     (if c = [] \<or> c = ''.'' then normalize_loop path stack cs
      else if c = ''..'' then
        (if stack = [] then Err (ClimbsAboveRoot path) else normalize_loop path (butlast stack) cs)
      else normalize_loop path (stack @ [c]) cs)"

definition normalize_strict :: "string \<Rightarrow> root_error + string" where
  "normalize_strict path =
     (if CHR 0x5C \<in> set path \<or> CHR 0x00 \<in> set path then Err (UnusableBytes path)
      else and_then (normalize_loop path [] (split_on CHR ''/'' path)) (\<lambda>stack. Ok (join ''/'' stack)))"

definition normalize_path :: "string \<Rightarrow> string" where
  "normalize_path path = (case normalize_strict path of Inr p \<Rightarrow> p | Inl _ \<Rightarrow> ''..'')"

text \<open>\<open>Path::starts_with\<close>: whole components.\<close>

definition path_starts_with :: "string \<Rightarrow> string \<Rightarrow> bool" where
  "path_starts_with p base \<longleftrightarrow>
     take (length (path_components base)) (path_components p) = path_components base"

definition is_protected_path :: "string \<Rightarrow> bool" where
  "is_protected_path path =
     (case normalize_strict path of
        Inl _ \<Rightarrow> True
      | Inr normalized \<Rightarrow>
          if normalized = [] then True
          else list_ex (\<lambda>protected. path_components normalized = path_components protected
                 \<or> path_starts_with normalized protected) PROTECTED_PATHS)"

definition assert_patch_permitted :: "string \<Rightarrow> tier \<Rightarrow> path_violation + unit" where
  "assert_patch_permitted target_file t =
     and_then (map_err Unnormalized (normalize_strict target_file)) (\<lambda>normalized.
     if is_protected_path normalized \<and> t < 2 then Err (ProtectedTarget normalized t) else Ok ())"

fun declared_violations :: "tier \<Rightarrow> string list \<Rightarrow> path_violation list" where
  "declared_violations t [] = []"
| "declared_violations t (f # fs) =
     (case assert_patch_permitted f t of Inl msg \<Rightarrow> [msg] | Inr _ \<Rightarrow> []) @ declared_violations t fs"

definition validate_declared_files :: "string list \<Rightarrow> tier \<Rightarrow> path_violation list + unit" where
  "validate_declared_files declared_files t =
     (let violations = declared_violations t declared_files in
      if violations = [] then Ok () else Err violations)"

section \<open>The security layer\<close>

datatype security_violation =
    RootViolation "path_violation list"
  | SecretSignature string
  | NetworkPrimitive string

record security_evaluation =
  root_of_trust_compliant :: bool
  zero_disk_secrets_clean :: bool
  network_isolation_compliant :: bool
  sec_passed :: bool
  sec_violations :: "security_violation list"

definition secret_signatures :: "string list" where
  "secret_signatures = [''AKIA'', ''gh'' @ ''p_'', ''github'' @ ''_pat_'', ''xox'' @ ''b-'', ''xox'' @ ''p-'',
     ''-----BEGIN '' @ ''PRIVATE KEY-----'', ''-----BEGIN '' @ ''RSA PRIVATE KEY-----'',
     ''-----BEGIN '' @ ''OPENSSH PRIVATE KEY-----'', ''eyJhbGciOi'']"

definition NETWORK_RISK_PATTERNS :: "string list" where
  "NETWORK_RISK_PATTERNS = [''std::net::TcpStream::connect'', ''std::net::TcpListener::bind'',
     ''reqwest::Client::new'', ''curl http'', ''wget http'']"

definition evaluate_candidate :: "string list \<Rightarrow> string \<Rightarrow> tier \<Rightarrow> security_evaluation" where
  "evaluate_candidate declared_target_files patch_diff candidate_tier =
     (let root_check = validate_declared_files declared_target_files candidate_tier;
          root = (case root_check of Inr _ \<Rightarrow> [] | Inl e \<Rightarrow> [RootViolation e]);
          secrets = filter (\<lambda>p. contains p patch_diff) secret_signatures;
          network = filter (\<lambda>p. contains p patch_diff) NETWORK_RISK_PATTERNS in
      \<lparr>root_of_trust_compliant = is_ok root_check,
       zero_disk_secrets_clean = (secrets = []),
       network_isolation_compliant = (network = []),
       sec_passed = (is_ok root_check \<and> secrets = [] \<and> network = []),
       sec_violations = root @ map SecretSignature secrets @ map NetworkPrimitive network\<rparr>)"

section \<open>Lemmas\<close>

lemma declared_violations_Nil:
  "declared_violations t fs = [] \<longleftrightarrow> (\<forall>f \<in> set fs. assert_patch_permitted f t = Ok ())"
  by (induction fs) (auto split: sum.splits)

lemma validate_declared_files_Ok:
  "validate_declared_files fs t = Ok () \<longleftrightarrow> (\<forall>f \<in> set fs. assert_patch_permitted f t = Ok ())"
  by (simp add: validate_declared_files_def Let_def declared_violations_Nil)

lemma sec_passed_iff:
  "sec_passed (evaluate_candidate fs d t) \<longleftrightarrow> (\<forall>f \<in> set fs. assert_patch_permitted f t = Ok ())
     \<and> (\<forall>p \<in> set (secret_signatures @ NETWORK_RISK_PATTERNS). \<not> contains p d)"
  by (auto simp: evaluate_candidate_def Let_def filter_empty_conv is_ok_iff validate_declared_files_Ok)

lemma sec_violations_Nil: "sec_passed (evaluate_candidate fs d t) \<longleftrightarrow> sec_violations (evaluate_candidate fs d t) = []"
  by (auto simp: evaluate_candidate_def Let_def is_ok_def split: sum.splits)

text \<open>Components that normalisation leaves alone.\<close>

definition plain_name :: "string \<Rightarrow> bool" where
  "plain_name c \<longleftrightarrow> c \<noteq> [] \<and> c \<noteq> ''.'' \<and> c \<noteq> ''..'' \<and> CHR ''/'' \<notin> set c"

lemma normalize_loop_plain:
  "\<forall>c \<in> set cs. plain_name c \<Longrightarrow> normalize_loop path stack cs = Ok (stack @ cs)"
  by (induction cs arbitrary: stack) (auto simp: plain_name_def)

lemma normalize_loop_Ok:
  assumes "normalize_loop path stack cs = Ok st" and "\<forall>c \<in> set stack. plain_name c" and "\<forall>c \<in> set cs. CHR ''/'' \<notin> set c"
  shows "\<forall>c \<in> set st. plain_name c"
  using assms
proof (induction path stack cs rule: normalize_loop.induct)
  case (2 path stack c cs)
  consider "c = [] \<or> c = ''.''" | "c = ''..''" | "c \<noteq> []" "c \<noteq> ''.''" "c \<noteq> ''..''" by blast
  then show ?case
  proof cases
    case 1
    with "2.IH"(1) "2.prems" show ?thesis by fastforce
  next
    case 2
    with "2.prems"(1) have ne: "stack \<noteq> []" by (cases stack) auto
    have "\<forall>c \<in> set (butlast stack). plain_name c" using "2.prems"(2) by (meson in_set_butlastD)
    with "2.IH"(2) "2.prems" 2 ne show ?thesis by simp
  next
    case 3
    have "plain_name c" using 3 "2.prems"(3) by (simp add: plain_name_def)
    with "2.IH"(3) "2.prems" 3 show ?thesis by simp
  qed
qed simp

lemma path_components_plain:
  assumes "cs \<noteq> []" and "\<forall>c \<in> set cs. plain_name c"
  shows "path_components (join ''/'' cs) = map Normal cs"
proof -
  have split: "split_on CHR ''/'' (join ''/'' cs) = cs"
    using assms split_on_join [of cs "CHR ''/''"] by (simp add: plain_name_def)
  obtain c ds where c: "cs = c # ds" using assms(1) by (cases cs) auto
  then obtain x xs where x: "c = x # xs" "x \<noteq> CHR ''/''" using assms(2) by (cases c) (auto simp: plain_name_def)
  have "\<exists>ys. join ''/'' cs = x # ys" using c x(1) by (cases ds) auto
  then have abs: "\<not> starts_with ''/'' (join ''/'' cs)" using x(2) by (auto simp: starts_with_def)
  have plain: "filter (\<lambda>c. c \<noteq> [] \<and> c \<noteq> ''.'') cs = cs" "map component_of cs = map Normal cs" "hd cs \<noteq> ''.''"
    using assms c by (auto simp: plain_name_def component_of_def intro: filter_True)
  show ?thesis unfolding path_components_def split using abs plain by simp
qed

lemma normalize_strict_plain:
  assumes "\<forall>c \<in> set cs. plain_name c \<and> CHR 0x5C \<notin> set c \<and> CHR 0x00 \<notin> set c" and "cs \<noteq> []"
  shows "normalize_strict (join ''/'' cs) = Ok (join ''/'' cs)"
proof -
  have "split_on CHR ''/'' (join ''/'' cs) = cs"
    using assms split_on_join [of cs "CHR ''/''"] by (simp add: plain_name_def)
  moreover have "b \<notin> set (join ''/'' cs)" if "b = CHR 0x5C \<or> b = CHR 0x00" for b
    using that assms(1) by (induction "''/''" cs rule: join.induct) auto
  ultimately show ?thesis using normalize_loop_plain [of cs] assms(1) by (simp add: normalize_strict_def)
qed

end
