(* ===== verification/Diff_Gate.thy ===== *)
theory Diff_Gate
  imports Root_Of_Trust
begin

text \<open>
  The real-diff gate of the ratifier (\<open>src/src/diff_gate.rs\<close>): path normalisation, the declared
  roots, the parser of \<open>git diff-tree --raw -z\<close>, the check of the real diff, and the git commands that
  stage a candidate and create its review branch.

  Git itself is not in the repository.  It is the argument \<open>exec\<close>: the standard output of a command, or
  its failure, and the repository after it.  The temporary index directory, the patch directory and
  the patch file go through \<open>exec\<close> as well.  Messages are the constructors of \<open>gate_error\<close> and
  \<open>gate_violation\<close>.
\<close>

section \<open>Paths\<close>

datatype gate_error =
    EmptyPath
  | PathHasNul string
  | PathHasBackslash string
  | AbsolutePath string
  | ParentComponent string
  | GitMetadata string
  | RepositoryRoot string
  | OutsideRoots string "string list"
  | NotPermitted path_violation
  | NonUtf8Header
  | UnexpectedHeader string
  | EmptyStatus
  | EntryWithoutPath
  | NonUtf8Path
  | CommandFailed string
  | NoBaseCommit
  | SpecialTarget string
  | UnusableId string
  | DefaultBranch string

definition RATIFIER_TIER :: tier where "RATIFIER_TIER = 1"

definition DEFAULT_RATIFY_ROOTS :: "string list" where
  "DEFAULT_RATIFY_ROOTS = [''README.md'', ''CONTRIBUTING.md'', ''docs'', ''src'']"

definition default_ratify_roots :: "string list" where
  "default_ratify_roots = DEFAULT_RATIFY_ROOTS"

fun repo_components :: "string \<Rightarrow> string list \<Rightarrow> string list \<Rightarrow> gate_error + string list" where
  "repo_components raw parts [] = Ok parts"
| "repo_components raw parts (c # cs) =
     (if c = [] \<or> c = ''.'' then repo_components raw parts cs
      else if c = ''..'' then Err (ParentComponent raw)
      else if eq_ignore_ascii_case c ''.git'' then Err (GitMetadata raw)
      else repo_components raw (parts @ [c]) cs)"

definition normalize_repo_path :: "string \<Rightarrow> gate_error + string" where
  "normalize_repo_path raw =
     (if raw = [] then Err EmptyPath
      else if CHR 0x00 \<in> set raw then Err (PathHasNul raw)
      else if CHR 0x5C \<in> set raw then Err (PathHasBackslash raw)
      else if starts_with ''/'' raw then Err (AbsolutePath raw)
      else and_then (repo_components raw [] (split_on CHR ''/'' raw)) (\<lambda>parts.
        if parts = [] then Err (RepositoryRoot raw) else Ok (join ''/'' parts)))"

definition within_roots :: "string \<Rightarrow> string list \<Rightarrow> bool" where
  "within_roots path roots =
     (let p = split_on CHR ''/'' path in
      list_ex (\<lambda>root. case normalize_repo_path root of
          Inr r \<Rightarrow> (let rs = split_on CHR ''/'' r in length p \<ge> length rs \<and> take (length rs) p = rs)
        | Inl _ \<Rightarrow> False) roots)"

definition check_declared_target :: "string \<Rightarrow> string list \<Rightarrow> gate_error + string" where
  "check_declared_target target_file roots =
     and_then (normalize_repo_path target_file) (\<lambda>normalized.
     if \<not> within_roots normalized roots then Err (OutsideRoots normalized roots)
     else and_then (map_err NotPermitted (assert_patch_permitted normalized RATIFIER_TIER)) (\<lambda>_. Ok normalized))"

section \<open>The raw diff\<close>

text \<open>The status is a code point.\<close>

record changed_entry =
  ce_old_mode :: string
  ce_new_mode :: string
  ce_status :: nat
  ce_path :: string

fun parse_fields :: "bytes list \<Rightarrow> gate_error + changed_entry list" where
  "parse_fields [] = Ok []"
| "parse_fields (meta # rest) =
     (if \<not> valid_utf8 meta then Err NonUtf8Header
      else case strip_prefix '':'' meta of
        None \<Rightarrow> Err (UnexpectedHeader meta)
      | Some meta' \<Rightarrow>
          (let cols = split_on CHR '' '' meta' in
           if length cols \<noteq> 5 then Err (UnexpectedHeader meta')
           else case chars (cols ! 4) of
             [] \<Rightarrow> Err EmptyStatus
           | status # _ \<Rightarrow>
               (case rest of
                  [] \<Rightarrow> Err EntryWithoutPath
                | path # rest' \<Rightarrow>
                    if \<not> valid_utf8 path then Err NonUtf8Path
                    else and_then (parse_fields rest') (\<lambda>entries.
                      Ok (\<lparr>ce_old_mode = cols ! 0, ce_new_mode = cols ! 1, ce_status = status, ce_path = path\<rparr>
                        # entries)))))"

definition parse_raw_diff :: "bytes \<Rightarrow> gate_error + changed_entry list" where
  "parse_raw_diff raw = parse_fields (filter (\<lambda>f. f \<noteq> []) (split_on (CHR 0x00) raw))"

section \<open>The check of the real diff\<close>

definition is_regular_mode :: "string \<Rightarrow> bool" where
  "is_regular_mode mode \<longleftrightarrow> mode = ''100644'' \<or> mode = ''100755''"

datatype gate_violation =
    EmptyDiff
  | PathRefused gate_error
  | NotCanonical string
  | TouchesOutside string "string list"
  | NotRegular string string string
  | Deletes string
  | DiffersFromTarget "string list" string
  | RootOfTrustViolation path_violation
  | ContentViolation security_violation

text \<open>The body of the loop over the entries: its violations, and the path it adds to \<open>real_paths\<close>.\<close>

definition check_entry :: "string list \<Rightarrow> changed_entry \<Rightarrow> gate_violation list \<times> string list" where
  "check_entry roots e =
     (case normalize_repo_path (ce_path e) of
        Inl err \<Rightarrow> ([PathRefused err], [])
      | Inr normalized \<Rightarrow>
          ((if normalized \<noteq> ce_path e then [NotCanonical (ce_path e)] else [])
           @ (if \<not> within_roots normalized roots then [TouchesOutside normalized roots] else [])
           @ (if \<not> (ce_old_mode e = ''000000'' \<or> is_regular_mode (ce_old_mode e))
                 \<or> \<not> (ce_new_mode e = ''000000'' \<or> is_regular_mode (ce_new_mode e))
              then [NotRegular normalized (ce_old_mode e) (ce_new_mode e)] else [])
           @ (if ce_new_mode e = ''000000'' \<or> ce_status e = of_char CHR ''D'' then [Deletes normalized] else []),
           [normalized]))"

text \<open>The added lines without their plus sign.\<close>

definition added_text :: "string \<Rightarrow> string" where
  "added_text patch_text =
     concat (map (\<lambda>l. drop 1 l @ [newline])
       (filter (\<lambda>l. starts_with ''+'' l \<and> \<not> starts_with ''+++'' l) (str_lines patch_text)))"

definition check_real_diff :: "changed_entry list \<Rightarrow> string \<Rightarrow> string \<Rightarrow> string list \<Rightarrow> gate_violation list" where
  "check_real_diff entries patch_text declared_target roots =
     (let checked = map (check_entry roots) entries;
          real_paths = concat (map snd checked);
          sec = evaluate_candidate real_paths (added_text patch_text) RATIFIER_TIER in
      (if entries = [] then [EmptyDiff] else [])
      @ concat (map fst checked)
      @ (if length real_paths \<noteq> 1 \<or> hd real_paths \<noteq> declared_target
         then [DiffersFromTarget real_paths declared_target] else [])
      @ (case validate_declared_files real_paths RATIFIER_TIER of
           Inl errs \<Rightarrow> map RootOfTrustViolation errs | Inr _ \<Rightarrow> [])
      @ (if \<not> sec_passed sec then map ContentViolation (sec_violations sec) else []))"

section \<open>Git\<close>

datatype repo_command =
    RevParseHead
  | LsTree string string
  | TempIndexDir
  | ReadTree string
  | HashObject bytes
  | UpdateIndex string string string
  | WriteTree
  | CommitTree string string string string string
  | DiffTreeRaw string string
  | DiffText string string
  | SymbolicRefHead
  | SymbolicRefOrigin
  | ConfigDefaultBranch
  | CheckRefFormat string
  | UpdateRef string string
  | FormatPatch string
  | CreateDirAll string
  | WriteFile string bytes

type_synonym 'r exec = "repo_command \<Rightarrow> 'r \<Rightarrow> (string + bytes) \<times> 'r"
type_synonym ('r, 'a) repo_action = "'r \<Rightarrow> (gate_error + 'a) \<times> 'r"

definition then_do :: "('r, 'a) repo_action \<Rightarrow> ('a \<Rightarrow> ('r, 'b) repo_action) \<Rightarrow> ('r, 'b) repo_action" where
  "then_do m f r = (case m r of (Inl e, r') \<Rightarrow> (Inl e, r') | (Inr x, r') \<Rightarrow> f x r')"

definition yield :: "gate_error + 'a \<Rightarrow> ('r, 'a) repo_action" where
  "yield x r = (x, r)"

definition stdout_of :: "'r exec \<Rightarrow> repo_command \<Rightarrow> ('r, bytes) repo_action" where
  "stdout_of exec c r = (case exec c r of (Inl e, r') \<Rightarrow> (Err (CommandFailed e), r') | (Inr b, r') \<Rightarrow> (Ok b, r'))"

definition run :: "'r exec \<Rightarrow> repo_command \<Rightarrow> ('r, string) repo_action" where
  "run exec c = then_do (stdout_of exec c) (\<lambda>b. yield (Ok (trim_end (from_utf8_lossy b))))"

definition real_diff :: "'r exec \<Rightarrow> string \<Rightarrow> string \<Rightarrow> ('r, changed_entry list) repo_action" where
  "real_diff exec base head = then_do (stdout_of exec (DiffTreeRaw base head)) (\<lambda>b. yield (parse_raw_diff b))"

definition real_patch_text :: "'r exec \<Rightarrow> string \<Rightarrow> string \<Rightarrow> ('r, string) repo_action" where
  "real_patch_text exec base head = run exec (DiffText base head)"

record staged_candidate =
  sc_base :: string
  sc_commit :: string
  sc_entries :: "changed_entry list"
  sc_patch_text :: string

text \<open>The walk over the prefixes of the target: the mode the candidate keeps.\<close>

fun inspect_base :: "'r exec \<Rightarrow> string \<Rightarrow> string list \<Rightarrow> nat list \<Rightarrow> string \<Rightarrow> ('r, string) repo_action" where
  "inspect_base exec base parts [] mode = yield (Ok mode)"
| "inspect_base exec base parts (i # js) mode =
     (let prefix = join ''/'' (take i parts) in
      then_do (run exec (LsTree base prefix)) (\<lambda>listing.
        case List.find (\<lambda>l. l \<noteq> []) (split_on (CHR 0x00) listing) of
          None \<Rightarrow> inspect_base exec base parts js mode
        | Some entry \<Rightarrow>
            (let entry_mode = hd (split_on CHR '' '' entry) in
             if entry_mode = ''120000'' \<or> entry_mode = ''160000'' then yield (Err (SpecialTarget prefix))
             else inspect_base exec base parts js
               (if i = length parts \<and> is_regular_mode entry_mode then entry_mode else mode))))"

definition stage_candidate_commit ::
    "'r exec \<Rightarrow> string \<Rightarrow> bytes \<Rightarrow> string \<Rightarrow> string \<Rightarrow> string \<Rightarrow> ('r, staged_candidate) repo_action" where
  "stage_candidate_commit exec target_path contents author_name author_email message =
     then_do (run exec RevParseHead) (\<lambda>base.
     if base = [] then yield (Err NoBaseCommit)
     else (let parts = split_on CHR ''/'' target_path in
       then_do (inspect_base exec base parts [1..<length parts + 1] ''100644'') (\<lambda>mode.
       then_do (stdout_of exec TempIndexDir) (\<lambda>_.
       then_do (run exec (ReadTree base)) (\<lambda>_.
       then_do (stdout_of exec (HashObject contents)) (\<lambda>out.
       let blob = trim (from_utf8_lossy out) in
       then_do (run exec (UpdateIndex mode blob target_path)) (\<lambda>_.
       then_do (run exec WriteTree) (\<lambda>tree.
       then_do (run exec (CommitTree author_name author_email tree base message)) (\<lambda>commit.
       then_do (real_diff exec base commit) (\<lambda>entries.
       then_do (real_patch_text exec base commit) (\<lambda>patch_text.
       yield (Ok \<lparr>sc_base = base, sc_commit = commit, sc_entries = entries, sc_patch_text = patch_text\<rparr>))))))))))))"

text \<open>\<open>if let Ok(h) = run(..)\<close>: a failing command contributes no name.\<close>

definition names_from :: "'r exec \<Rightarrow> repo_command \<Rightarrow> (string \<Rightarrow> string list) \<Rightarrow> 'r \<Rightarrow> string list \<times> 'r" where
  "names_from exec c f r = (case run exec c r of (Inr h, r') \<Rightarrow> (f h, r') | (Inl _, r') \<Rightarrow> ([], r'))"

definition default_branch_names :: "'r exec \<Rightarrow> 'r \<Rightarrow> string list \<times> 'r" where
  "default_branch_names exec r0 =
     (let nonempty = (\<lambda>h. if h \<noteq> [] then [h] else []);
          (head, r1) = names_from exec SymbolicRefHead nonempty r0;
          (origin, r2) = names_from exec SymbolicRefOrigin
            (\<lambda>h. case strip_prefix ''origin/'' h of Some b \<Rightarrow> [b] | None \<Rightarrow> []) r1;
          (init, r3) = names_from exec ConfigDefaultBranch nonempty r2 in
      ([''main'', ''master''] @ head @ origin @ init, r3))"

definition review_branch_name :: "string \<Rightarrow> gate_error + string" where
  "review_branch_name proposal_id =
     (if proposal_id = [] \<or> length proposal_id > 100
         \<or> \<not> list_all (\<lambda>c. is_ascii_alphanumeric c \<or> c = CHR ''-'' \<or> c = CHR ''_'') proposal_id
      then Err (UnusableId proposal_id) else Ok (''rsi/'' @ proposal_id))"

definition create_review_branch :: "'r exec \<Rightarrow> string \<Rightarrow> string \<Rightarrow> ('r, unit) repo_action" where
  "create_review_branch exec branch commit r =
     (let short = trim_start_matches ''refs/heads/'' branch;
          (names, r1) = default_branch_names exec r in
      if short \<in> set names then (Err (DefaultBranch short), r1)
      else (let full = ''refs/heads/'' @ short in
        then_do (run exec (CheckRefFormat full)) (\<lambda>_.
        then_do (run exec (UpdateRef full commit)) (\<lambda>_. yield (Ok ()))) r1))"

definition format_patch :: "'r exec \<Rightarrow> string \<Rightarrow> ('r, string) repo_action" where
  "format_patch exec commit = run exec (FormatPatch commit)"

end
