(* ===== verification/Ratify.thy ===== *)
theory Ratify
  imports Diff_Gate
begin

text \<open>
  The ratifier (\<open>src/src/ratify.rs\<close>): from an admitted proposal to a review branch and a patch file.
  The operator's name and email, the time and the answer of the memory service are arguments.
\<close>

datatype proposal_kind =
    Refactor | Documentation | Optimization | UnslopSanitization | InvariantFix | MetaEngineImprovement

record improvement_proposal =
  ip_id :: string
  ip_title :: string
  ip_description :: string
  ip_target_file :: string
  ip_proposed_patch :: string
  ip_kind :: proposal_kind
  ip_created_at :: string
  ip_sandbox_path :: "string option"
  ip_operator_signature :: "string option"

datatype ratify_message =
    InvariantsFailed "string list"
  | DeclaredTargetRefused gate_error
  | BadProposalId gate_error
  | CandidateRefused gate_error
  | RealDiffRefused "gate_violation list"
  | BranchRefused gate_error
  | OnReviewBranch string string string

record ratification_record =
  rr_proposal_id :: string
  rr_commit_hash :: "string option"
  rr_branch :: "string option"
  rr_patch_path :: "string option"
  rr_author :: string
  rr_cortex_receipt_id :: "string option"
  rr_cortex_recorded :: bool
  rr_timestamp :: string
  rr_status :: string
  rr_message :: ratify_message

record operator =
  op_name :: string
  op_email :: string

definition author_string :: "operator \<Rightarrow> string" where
  "author_string op = op_name op @ '' <'' @ op_email op @ ''>''"

definition rejected :: "operator \<Rightarrow> string \<Rightarrow> improvement_proposal \<Rightarrow> ratify_message \<Rightarrow> ratification_record" where
  "rejected op now p m = \<lparr>rr_proposal_id = ip_id p, rr_commit_hash = None, rr_branch = None, rr_patch_path = None,
     rr_author = author_string op, rr_cortex_receipt_id = None, rr_cortex_recorded = False, rr_timestamp = now,
     rr_status = ''Rejected'', rr_message = m\<rparr>"

text \<open>\<open>Path::join\<close> of a directory with a relative file name.\<close>

definition path_join :: "string \<Rightarrow> string \<Rightarrow> string" where
  "path_join dir name = (if dir = [] \<or> last dir = CHR ''/'' then dir @ name else dir @ ''/'' @ name)"

text \<open>Steps 4 and 5: the review branch, the patch file, the lesson and the record.\<close>

definition publish_review ::
    "'r exec \<Rightarrow> operator \<Rightarrow> string \<Rightarrow> (string option \<times> bool) \<Rightarrow> improvement_proposal \<Rightarrow> string \<Rightarrow> string
      \<Rightarrow> staged_candidate \<Rightarrow> ('r, ratification_record) repo_action" where
  "publish_review exec op now cortex p patch_dir branch staged r =
     (case create_review_branch exec branch (sc_commit staged) r of
        (Inl e, r1) \<Rightarrow> (Ok (rejected op now p (BranchRefused e)), r1)
      | (Inr _, r1) \<Rightarrow>
          then_do (format_patch exec (sc_commit staged)) (\<lambda>patch.
          then_do (stdout_of exec (CreateDirAll patch_dir)) (\<lambda>_.
          let patch_path = path_join patch_dir (ip_id p @ ''.patch'') in
          then_do (stdout_of exec (WriteFile patch_path (patch @ [newline]))) (\<lambda>_.
          yield (Ok \<lparr>rr_proposal_id = ip_id p, rr_commit_hash = Some (sc_commit staged), rr_branch = Some branch,
            rr_patch_path = Some patch_path, rr_author = author_string op, rr_cortex_receipt_id = fst cortex,
            rr_cortex_recorded = snd cortex, rr_timestamp = now, rr_status = ''ProposedForReview'',
            rr_message = OnReviewBranch (ip_title p) branch patch_path\<rparr>)))) r1)"

definition ratify_proposal ::
    "'r exec \<Rightarrow> operator \<Rightarrow> string \<Rightarrow> (string option \<times> bool) \<Rightarrow> improvement_proposal \<Rightarrow> bool \<Rightarrow> string list
      \<Rightarrow> string list \<Rightarrow> string \<Rightarrow> ('r, ratification_record) repo_action" where
  "ratify_proposal exec op now cortex p invariants_passed notes roots patch_dir r =
     (let reject = (\<lambda>m r. (Ok (rejected op now p m), r)) in
      if \<not> invariants_passed then reject (InvariantsFailed notes) r
      else case check_declared_target (ip_target_file p) roots of
        Inl e \<Rightarrow> reject (DeclaredTargetRefused e) r
      | Inr target \<Rightarrow>
          (case review_branch_name (ip_id p) of
             Inl e \<Rightarrow> reject (BadProposalId e) r
           | Inr branch \<Rightarrow>
               (case stage_candidate_commit exec target (ip_proposed_patch p) (op_name op) (op_email op)
                       (''rsi: '' @ ip_title p @ '' ('' @ ip_id p @ '')'') r of
                  (Inl e, r1) \<Rightarrow> reject (CandidateRefused e) r1
                | (Inr staged, r1) \<Rightarrow>
                    (let violations = check_real_diff (sc_entries staged) (sc_patch_text staged) target roots in
                     if violations \<noteq> [] then reject (RealDiffRefused violations) r1
                     else publish_review exec op now cortex p patch_dir branch staged r1))))"

end
