(* ===== verification/Gate_Safety.thy ===== *)
theory Gate_Safety
  imports Ratify
begin

text \<open>
  What the real-diff gate guarantees: the paths it lets through are canonical, an accepted diff is
  contained in the declared target, and the ratifier changes no branch but the one review branch it
  creates for a contained candidate.
\<close>

section \<open>Canonical repository paths\<close>

definition repo_name :: "string \<Rightarrow> bool" where
  "repo_name c \<longleftrightarrow> plain_name c \<and> CHR 0x5C \<notin> set c \<and> CHR 0x00 \<notin> set c \<and> \<not> eq_ignore_ascii_case c ''.git''"

lemma repo_components_plain:
  "\<forall>c \<in> set cs. repo_name c \<Longrightarrow> repo_components raw parts cs = Ok (parts @ cs)"
  by (induction cs arbitrary: parts) (auto simp: repo_name_def plain_name_def)

lemma repo_components_Ok:
  assumes "repo_components raw parts cs = Ok ps" and "\<forall>c \<in> set parts. repo_name c"
    and "\<forall>c \<in> set cs. CHR ''/'' \<notin> set c \<and> CHR 0x5C \<notin> set c \<and> CHR 0x00 \<notin> set c"
  shows "\<forall>c \<in> set ps. repo_name c"
  using assms
proof (induction raw parts cs rule: repo_components.induct)
  case (2 raw parts c cs)
  consider "c = [] \<or> c = ''.''" | "c \<noteq> []" "c \<noteq> ''.''" by blast
  then show ?case
  proof cases
    case 1
    with "2.IH"(1) "2.prems" show ?thesis by fastforce
  next
    case 2
    with "2.prems"(1) have d: "c \<noteq> ''..''" "\<not> eq_ignore_ascii_case c ''.git''" by (auto split: if_splits)
    have "repo_name c" using 2 d "2.prems"(3) by (simp add: repo_name_def plain_name_def)
    with "2.IH"(2) "2.prems" 2 d show ?thesis by simp
  qed
qed simp

lemma set_split_on: "c \<in> set p \<Longrightarrow> p \<in> set (split_on d s) \<Longrightarrow> c \<in> set s"
proof (induction s arbitrary: p)
  case (Cons x xs)
  obtain q qs where q: "split_on d xs = q # qs" by (cases "split_on d xs") auto
  with Cons.prems Cons.IH [of q] Cons.IH [of p] show ?case by (auto split: if_splits)
qed simp

lemma normalize_repo_path_Ok:
  assumes "normalize_repo_path raw = Ok p"
  obtains cs where "cs \<noteq> []" and "\<forall>c \<in> set cs. repo_name c" and "p = join ''/'' cs"
proof -
  from assms obtain cs where cs: "repo_components raw [] (split_on CHR ''/'' raw) = Ok cs" "cs \<noteq> []" "p = join ''/'' cs"
      "CHR 0x00 \<notin> set raw" "CHR 0x5C \<notin> set raw"
    by (auto simp: normalize_repo_path_def and_then_Ok split: if_splits)
  have "\<forall>c \<in> set (split_on CHR ''/'' raw). CHR ''/'' \<notin> set c \<and> CHR 0x5C \<notin> set c \<and> CHR 0x00 \<notin> set c"
    using split_on_pieces set_split_on cs(4,5) by blast
  with repo_components_Ok [OF cs(1)] that cs(2,3) show ?thesis by simp
qed

lemma repo_names:
  assumes "cs \<noteq> []" and "\<forall>c \<in> set cs. repo_name c"
  shows "split_on CHR ''/'' (join ''/'' cs) = cs" and "normalize_repo_path (join ''/'' cs) = Ok (join ''/'' cs)"
    and "normalize_strict (join ''/'' cs) = Ok (join ''/'' cs)" and "path_components (join ''/'' cs) = map Normal cs"
    and "join ''/'' cs \<noteq> []"
proof -
  show s: "split_on CHR ''/'' (join ''/'' cs) = cs"
    using assms split_on_join [of cs "CHR ''/''"] by (simp add: repo_name_def plain_name_def)
  obtain c ds where c: "cs = c # ds" using assms(1) by (cases cs) auto
  then obtain x xs where x: "c = x # xs" "x \<noteq> CHR ''/''" using assms(2) by (cases c) (auto simp: repo_name_def plain_name_def)
  obtain ys where ys: "join ''/'' cs = x # ys" using c x(1) by (cases ds) auto
  then show "join ''/'' cs \<noteq> []" by simp
  have abs: "\<not> starts_with ''/'' (join ''/'' cs)" using x(2) ys by (simp add: starts_with_def)
  have no: "b \<notin> set (join ''/'' cs)" if "b = CHR 0x5C \<or> b = CHR 0x00" for b
    using that assms(2) by (induction "''/''" cs rule: join.induct) (auto simp: repo_name_def)
  show "normalize_repo_path (join ''/'' cs) = Ok (join ''/'' cs)"
    using ys abs no assms repo_components_plain [OF assms(2)] s by (simp add: normalize_repo_path_def)
  show "normalize_strict (join ''/'' cs) = Ok (join ''/'' cs)"
    using assms by (intro normalize_strict_plain) (auto simp: repo_name_def)
  show "path_components (join ''/'' cs) = map Normal cs"
    using assms by (intro path_components_plain) (auto simp: repo_name_def)
qed

section \<open>An accepted diff\<close>

definition contained_change :: "string list \<Rightarrow> string \<Rightarrow> string \<Rightarrow> changed_entry \<Rightarrow> bool" where
  "contained_change roots target patch_text e \<longleftrightarrow>
     ce_path e = target \<and> normalize_repo_path target = Ok target \<and> within_roots target roots
     \<and> \<not> is_protected_path target
     \<and> is_regular_mode (ce_new_mode e) \<and> (ce_old_mode e = ''000000'' \<or> is_regular_mode (ce_old_mode e))
     \<and> ce_status e \<noteq> of_char CHR ''D''
     \<and> (\<forall>p \<in> set (secret_signatures @ NETWORK_RISK_PATTERNS). \<not> contains p (added_text patch_text))"

lemma check_entry_clean:
  "check_entry roots e = ([], ps) \<longleftrightarrow> normalize_repo_path (ce_path e) = Ok (ce_path e) \<and> within_roots (ce_path e) roots
     \<and> is_regular_mode (ce_new_mode e) \<and> (ce_old_mode e = ''000000'' \<or> is_regular_mode (ce_old_mode e))
     \<and> ce_status e \<noteq> of_char CHR ''D'' \<and> ps = [ce_path e]"
  by (auto simp: check_entry_def is_regular_mode_def split: sum.splits if_splits)

lemma permitted_ratifier:
  "normalize_strict p = Ok p \<Longrightarrow> assert_patch_permitted p RATIFIER_TIER = Ok () \<longleftrightarrow> \<not> is_protected_path p"
  by (simp add: assert_patch_permitted_def RATIFIER_TIER_def)

lemma normalized_strict: "normalize_repo_path p = Ok p \<Longrightarrow> normalize_strict p = Ok p"
  by (elim normalize_repo_path_Ok) (simp add: repo_names)

lemma check_real_diff_clean:
  "check_real_diff entries patch_text target roots = [] \<longleftrightarrow> (\<exists>e. entries = [e] \<and> contained_change roots target patch_text e)"
    (is "?lhs \<longleftrightarrow> ?rhs")
proof
  assume l: ?lhs
  let ?paths = "concat (map snd (map (check_entry roots) entries))"
  from l have each: "\<forall>e \<in> set entries. fst (check_entry roots e) = []"
    and target: "?paths = [target]"
    and root: "validate_declared_files ?paths RATIFIER_TIER = Ok ()"
    and sec: "sec_passed (evaluate_candidate ?paths (added_text patch_text) RATIFIER_TIER)"
    by (auto simp: check_real_diff_def Let_def sec_violations_Nil validate_declared_files_def length_Suc_conv split: if_splits sum.splits)
  have clean: "check_entry roots e = ([], [ce_path e])" if "e \<in> set entries" for e
    using each that check_entry_clean [of roots e "snd (check_entry roots e)"] by (cases "check_entry roots e") auto
  then have "?paths = map ce_path entries" by (induction entries) auto
  with target obtain e where e: "entries = [e]" "ce_path e = target" by (cases entries) auto
  from clean e check_entry_clean [of roots e "[ce_path e]"] have c: "normalize_repo_path target = Ok target"
      "within_roots target roots" "is_regular_mode (ce_new_mode e)"
      "ce_old_mode e = ''000000'' \<or> is_regular_mode (ce_old_mode e)" "ce_status e \<noteq> of_char CHR ''D''" by auto
  have "\<not> is_protected_path target"
    using root [unfolded target] permitted_ratifier [OF normalized_strict [OF c(1)]] by (simp add: validate_declared_files_Ok)
  with e c sec show ?rhs by (auto simp: contained_change_def sec_passed_iff)
next
  assume ?rhs
  then obtain e where e: "entries = [e]" "contained_change roots target patch_text e" by blast
  then have c: "check_entry roots e = ([], [target])" by (auto simp: contained_change_def check_entry_clean)
  have p: "assert_patch_permitted target RATIFIER_TIER = Ok ()"
    using e(2) permitted_ratifier normalized_strict by (auto simp: contained_change_def)
  have "sec_passed (evaluate_candidate [target] (added_text patch_text) RATIFIER_TIER)"
    using e(2) p by (simp add: sec_passed_iff contained_change_def)
  moreover have "validate_declared_files [target] RATIFIER_TIER = Ok ()" using p by (simp add: validate_declared_files_Ok)
  ultimately show ?lhs using e(1) c by (simp add: check_real_diff_def)
qed

section \<open>Branches\<close>

text \<open>What the ratifier relies on of git: only \<open>update-ref\<close> changes a ref, and with an empty old value it
  creates the ref it is given, which must not exist, or fails and changes nothing.\<close>

fun is_update_ref :: "repo_command \<Rightarrow> bool" where
  "is_update_ref (UpdateRef _ _) = True"
| "is_update_ref _ = False"

definition refs_ok :: "'r exec \<Rightarrow> ('r \<Rightarrow> string \<Rightarrow> string option) \<Rightarrow> bool" where
  "refs_ok exec refs \<longleftrightarrow>
     (\<forall>c r. \<not> is_update_ref c \<longrightarrow> refs (snd (exec c r)) = refs r) \<and>
     (\<forall>full commit r. (case exec (UpdateRef full commit) r of
          (Inl _, r') \<Rightarrow> refs r' = refs r
        | (Inr _, r') \<Rightarrow> refs r full = None \<and> refs r' = (refs r)(full \<mapsto> commit)))"

definition keeps :: "('r \<Rightarrow> string \<Rightarrow> string option) \<Rightarrow> ('r, 'a) repo_action \<Rightarrow> bool" where
  "keeps refs m \<longleftrightarrow> (\<forall>r. refs (snd (m r)) = refs r)"

named_theorems keeps_intros "actions that leave every ref alone"

lemma keeps_yield [keeps_intros]: "keeps refs (yield x)"
  by (simp add: keeps_def yield_def)

lemma keeps_then_do [keeps_intros]: "keeps refs m \<Longrightarrow> (\<And>x. keeps refs (f x)) \<Longrightarrow> keeps refs (then_do m f)"
  by (auto simp: keeps_def then_do_def split: prod.split sum.split) (metis snd_conv)+

lemma keeps_if [keeps_intros]: "keeps refs m \<Longrightarrow> keeps refs n \<Longrightarrow> keeps refs (if P then m else n)"
  by simp

lemma keeps_stdout: "refs_ok exec refs \<Longrightarrow> \<not> is_update_ref c \<Longrightarrow> keeps refs (stdout_of exec c)"
  by (auto simp: keeps_def stdout_of_def refs_ok_def split: prod.split sum.split) (metis snd_conv)+

lemma keeps_run: "refs_ok exec refs \<Longrightarrow> \<not> is_update_ref c \<Longrightarrow> keeps refs (run exec c)"
  unfolding run_def by (intro keeps_intros keeps_stdout)

lemma keeps_inspect_base: "refs_ok exec refs \<Longrightarrow> keeps refs (inspect_base exec base parts js mode)"
  by (induction exec base parts js mode rule: inspect_base.induct)
    (auto simp: Let_def intro!: keeps_intros keeps_run split: option.split)

lemma keeps_stage:
  "refs_ok exec refs \<Longrightarrow> keeps refs (stage_candidate_commit exec target contents name email message)"
  unfolding stage_candidate_commit_def real_diff_def real_patch_text_def Let_def
  by (intro keeps_intros keeps_inspect_base keeps_run keeps_stdout) simp_all

lemma keeps_names:
  assumes "refs_ok exec refs" and "\<not> is_update_ref c" and "names_from exec c f r = (ns, r')"
  shows "refs r' = refs r"
  using assms(3) keeps_run [OF assms(1,2)] by (auto simp: names_from_def keeps_def split: prod.splits sum.splits) (metis snd_conv)+

lemma keeps_default_names:
  assumes "refs_ok exec refs" and "default_branch_names exec r = (ns, r')"
  shows "refs r' = refs r"
  using assms by (auto simp: default_branch_names_def Let_def split: prod.splits dest!: keeps_names [OF assms(1), rotated])

lemma refs_ok_update:
  "refs_ok exec refs \<Longrightarrow> (case exec (UpdateRef full commit) r of
      (Inl _, r') \<Rightarrow> refs r' = refs r
    | (Inr _, r') \<Rightarrow> refs r full = None \<and> refs r' = (refs r)(full \<mapsto> commit))"
  unfolding refs_ok_def by (drule conjunct2) (erule allE, erule allE, erule allE, assumption)

lemma strip_rsi: "trim_start_matches ''refs/heads/'' (''rsi/'' @ p) = ''rsi/'' @ p"
  by (simp add: trim_start_matches.simps starts_with_def)

lemma run_step:
  "exec c r = (u, r') \<Longrightarrow>
     run exec c r = (case u of Inl e \<Rightarrow> Err (CommandFailed e) | Inr b \<Rightarrow> Ok (trim_end (from_utf8_lossy b)), r')"
  by (simp add: run_def then_do_def stdout_of_def yield_def split: sum.split)

lemma create_review_branch_refs:
  assumes ok: "refs_ok exec refs" and short: "trim_start_matches ''refs/heads/'' b = b"
    and create: "create_review_branch exec b commit r = (res, r')"
  shows "(\<exists>e. res = Err e) \<and> refs r' = refs r
     \<or> res = Ok () \<and> refs r (''refs/heads/'' @ b) = None \<and> refs r' = (refs r)(''refs/heads/'' @ b \<mapsto> commit)"
proof -
  define full where "full = ''refs/heads/'' @ b"
  obtain names r1 where n: "default_branch_names exec r = (names, r1)" by (metis surj_pair)
  note r1 = keeps_default_names [OF ok n]
  obtain c r2 where c: "run exec (CheckRefFormat full) r1 = (c, r2)" by (metis surj_pair)
  have r2: "refs r2 = refs r1" using keeps_run [OF ok, of "CheckRefFormat full"] c by (simp add: keeps_def) (metis snd_conv)
  obtain u r3 where u: "exec (UpdateRef full commit) r2 = (u, r3)" by (metis surj_pair)
  have r3: "case u of Inl _ \<Rightarrow> refs r3 = refs r2 | Inr _ \<Rightarrow> refs r2 full = None \<and> refs r3 = (refs r2)(full \<mapsto> commit)"
    using refs_ok_update [where full = full and commit = commit and r = r2, OF ok] unfolding u prod.case by (cases u) simp_all
  have "create_review_branch exec b commit r =
      (if b \<in> set names then (Err (DefaultBranch b), r1)
       else case c of Inl e \<Rightarrow> (Err e, r2) | Inr _ \<Rightarrow> (case u of Inl e \<Rightarrow> (Err (CommandFailed e), r3) | Inr _ \<Rightarrow> (Ok (), r3)))"
    unfolding create_review_branch_def short n Let_def prod.case full_def [symmetric]
    using c run_step [where exec = exec and c = "UpdateRef full commit" and r = r2, OF u] by (simp add: then_do_def yield_def split: sum.split)
  with create have "(res, r') = (if b \<in> set names then (Err (DefaultBranch b), r1)
       else case c of Inl e \<Rightarrow> (Err e, r2) | Inr _ \<Rightarrow> (case u of Inl e \<Rightarrow> (Err (CommandFailed e), r3) | Inr _ \<Rightarrow> (Ok (), r3)))"
    by simp
  with r1 r2 r3 show ?thesis unfolding full_def [symmetric]
    by (cases c; cases u) (simp_all split: if_splits)
qed

section \<open>The whole ratification\<close>

lemma publish_review_refs:
  assumes ok: "refs_ok exec refs" and short: "trim_start_matches ''refs/heads/'' b = b"
    and pub: "publish_review exec op now cortex p patch_dir b staged r = (res, r')"
  shows "(\<exists>m. res = Ok (rejected op now p m)) \<and> refs r' = refs r
     \<or> (\<forall>rr. res = Ok rr \<longrightarrow> rr_status rr = ''ProposedForReview'' \<and> rr_commit_hash rr = Some (sc_commit staged) \<and> rr_branch rr = Some b)
       \<and> refs r (''refs/heads/'' @ b) = None \<and> refs r' = (refs r)(''refs/heads/'' @ b \<mapsto> sc_commit staged)"
proof -
  obtain c r1 where c: "create_review_branch exec b (sc_commit staged) r = (c, r1)" by (metis surj_pair)
  show ?thesis
  proof (cases c)
    case (Inl e)
    with create_review_branch_refs [OF ok short c] pub c show ?thesis by (auto simp: publish_review_def)
  next
    case (Inr _)
    let ?pub = "then_do (format_patch exec (sc_commit staged)) (\<lambda>patch.
          then_do (stdout_of exec (CreateDirAll patch_dir)) (\<lambda>_.
          let patch_path = path_join patch_dir (ip_id p @ ''.patch'') in
          then_do (stdout_of exec (WriteFile patch_path (patch @ [newline]))) (\<lambda>_.
          yield (Ok \<lparr>rr_proposal_id = ip_id p, rr_commit_hash = Some (sc_commit staged), rr_branch = Some b,
            rr_patch_path = Some patch_path, rr_author = author_string op, rr_cortex_receipt_id = fst cortex,
            rr_cortex_recorded = snd cortex, rr_timestamp = now, rr_status = ''ProposedForReview'',
            rr_message = OnReviewBranch (ip_title p) b patch_path\<rparr>))))"
    have w: "?pub r1 = (res, r')" using pub Inr c unfolding publish_review_def by simp
    have "keeps refs ?pub" unfolding format_patch_def Let_def
      by (intro keeps_intros keeps_run keeps_stdout ok) simp_all
    then have "refs r' = refs r1" using w unfolding keeps_def by (metis snd_conv)
    moreover have "rr_status rr = ''ProposedForReview'' \<and> rr_commit_hash rr = Some (sc_commit staged) \<and> rr_branch rr = Some b"
      if "res = Ok rr" for rr
      using w that by (auto simp: then_do_def yield_def Let_def split: prod.splits sum.splits)
    ultimately show ?thesis using create_review_branch_refs [OF ok short c] Inr by auto
  qed
qed

text \<open>Where the review branch and the containment of its commit come from: the candidate that was staged
  for the normalised target, whose real diff passed every check.\<close>

definition reviewed_candidate ::
    "'r exec \<Rightarrow> operator \<Rightarrow> improvement_proposal \<Rightarrow> string list \<Rightarrow> 'r \<Rightarrow> string \<Rightarrow> bool" where
  "reviewed_candidate exec op p roots r commit \<longleftrightarrow> (\<exists>target staged e.
     normalize_repo_path (ip_target_file p) = Ok target
     \<and> fst (stage_candidate_commit exec target (ip_proposed_patch p) (op_name op) (op_email op)
         (''rsi: '' @ ip_title p @ '' ('' @ ip_id p @ '')'') r) = Ok staged
     \<and> sc_commit staged = commit \<and> sc_entries staged = [e]
     \<and> contained_change roots target (sc_patch_text staged) e)"

lemma check_declared_target_Ok:
  "check_declared_target f roots = Ok t \<Longrightarrow> normalize_repo_path f = Ok t"
  by (auto simp: check_declared_target_def and_then_Ok split: if_splits)

lemma ratify_refs:
  assumes ok: "refs_ok exec refs"
    and run: "ratify_proposal exec op now cortex p passed notes roots patch_dir r = (res, r')"
  shows "(\<exists>m. res = Ok (rejected op now p m)) \<and> refs r' = refs r
     \<or> passed \<and> (\<exists>commit. (\<forall>rr. res = Ok rr \<longrightarrow> rr_status rr = ''ProposedForReview''
             \<and> rr_commit_hash rr = Some commit \<and> rr_branch rr = Some (''rsi/'' @ ip_id p))
         \<and> refs r (''refs/heads/'' @ ''rsi/'' @ ip_id p) = None
         \<and> refs r' = (refs r)(''refs/heads/'' @ ''rsi/'' @ ip_id p \<mapsto> commit)
         \<and> reviewed_candidate exec op p roots r commit)"
proof -
  define b where "b = ''rsi/'' @ ip_id p"
  let ?msg = "''rsi: '' @ ip_title p @ '' ('' @ ip_id p @ '')''"
  consider (early) m where "res = Ok (rejected op now p m)" "r' = r"
    | (target) t where "passed" "check_declared_target (ip_target_file p) roots = Ok t" "review_branch_name (ip_id p) = Ok b"
    using run by (auto simp: ratify_proposal_def b_def review_branch_name_def split: if_splits sum.splits)
  then show ?thesis
  proof cases
    case early
    then show ?thesis by blast
  next
    case target
    obtain s r1 where s: "stage_candidate_commit exec t (ip_proposed_patch p) (op_name op) (op_email op) ?msg r = (s, r1)"
      by (metis surj_pair)
    have r1: "refs r1 = refs r" using keeps_stage [OF ok] s unfolding keeps_def by (metis snd_conv)
    note run' = run [unfolded ratify_proposal_def target(2,3) s sum.case prod.case Let_def]
    show ?thesis
    proof (cases s)
      case (Inl e)
      with run' target(1) r1 show ?thesis by auto
    next
      case (Inr staged)
      show ?thesis
      proof (cases "check_real_diff (sc_entries staged) (sc_patch_text staged) t roots = []")
        case False
        with run' target(1) Inr r1 show ?thesis by auto
      next
        case True
        then obtain e where e: "sc_entries staged = [e]" "contained_change roots t (sc_patch_text staged) e"
          by (auto simp: check_real_diff_clean)
        have cand: "reviewed_candidate exec op p roots r (sc_commit staged)"
          unfolding reviewed_candidate_def
          using check_declared_target_Ok [OF target(2)] s Inr e by (intro exI conjI) simp_all
        have pub: "publish_review exec op now cortex p patch_dir b staged r1 = (res, r')"
          using run' target(1) Inr True by simp
        show ?thesis using publish_review_refs [OF ok strip_rsi [of "ip_id p", folded b_def] pub] r1 cand target(1)
          unfolding b_def [symmetric] by auto
      qed
    qed
  qed
qed

section \<open>Lines that look like a header\<close>

lemma split_on_append_sep: "split_on c (a @ c # b) = split_on c a @ split_on c b"
proof (induction a)
  case (Cons x xs)
  obtain q qs where "split_on c xs = q # qs" by (cases "split_on c xs") auto
  with Cons show ?case by simp
qed simp

lemma str_lines_insert:
  assumes "newline \<notin> set x"
  shows "\<exists>as bs. str_lines (pre @ newline # post) = as @ bs \<and> str_lines (pre @ newline # x @ newline # post) = as @ strip_cr x # bs"
proof -
  have x: "split_on newline (x @ newline # post) = x # split_on newline post"
    using split_on_append assms by simp
  obtain y ys where y: "split_on newline post = y # ys" by (cases "split_on newline post") auto
  show ?thesis
    by (rule exI [of _ "map strip_cr (split_on newline pre)"],
        rule exI [of _ "map strip_cr (butlast (y # ys)) @ (if last (y # ys) = [] then [] else [last (y # ys)])"])
      (simp add: str_lines_def split_on_append_sep x y butlast_append split_on_plain [OF assms])
qed

lemma strip_cr_plus: "starts_with ''++'' l \<Longrightarrow> starts_with ''+++'' (strip_cr (CHR ''+'' # l))"
proof -
  assume "starts_with ''++'' l"
  then obtain k where k: "l = CHR ''+'' # CHR ''+'' # k"
    by (auto simp: starts_with_def take_Cons' split: if_splits) (metis append_take_drop_id append_Cons append_Nil)
  show ?thesis by (cases k rule: rev_cases) (auto simp: strip_cr_def starts_with_def k)
qed

section \<open>A worked repository\<close>

definition sample_raw_diff :: bytes where
  "sample_raw_diff = '':100644 100644 aaaa bbbb M'' @ [CHR 0x00] @ ''README.md'' @ [CHR 0x00]"

fun sample_exec :: "(string \<rightharpoonup> string) exec" where
  "sample_exec (UpdateRef full commit) r =
     (case r full of None \<Rightarrow> (Inr [], r(full \<mapsto> commit)) | Some _ \<Rightarrow> (Inl ''exists'', r))"
| "sample_exec RevParseHead r = (Inr (''base'' @ [newline]), r)"
| "sample_exec (CommitTree _ _ _ _ _) r = (Inr ''cafe'', r)"
| "sample_exec (DiffTreeRaw _ _) r = (Inr sample_raw_diff, r)"
| "sample_exec (DiffText _ _) r = (Inr ''+hello'', r)"
| "sample_exec _ r = (Inr [], r)"

lemma sample_refs_ok: "refs_ok sample_exec (\<lambda>r. r)"
  unfolding refs_ok_def
proof (intro conjI allI impI)
  fix c :: repo_command and r assume "\<not> is_update_ref c"
  then show "snd (sample_exec c r) = r" by (cases c) simp_all
qed (simp split: option.split)

definition sample_proposal :: improvement_proposal where
  "sample_proposal = \<lparr>ip_id = ''p1'', ip_title = ''t'', ip_description = ''d'', ip_target_file = ''./README.md'',
     ip_proposed_patch = ''hello'', ip_kind = Documentation, ip_created_at = ''now'', ip_sandbox_path = None,
     ip_operator_signature = None\<rparr>"

lemma sample_paths:
  "normalize_repo_path ''./README.md'' = Ok ''README.md''" "normalize_repo_path ''README.md'' = Ok ''README.md''"
  "within_roots ''README.md'' default_ratify_roots" "\<not> is_protected_path ''README.md''"
  by code_simp+

lemma sample_contained:
  "list_all (\<lambda>p. \<not> contains p (added_text ''+hello'')) (secret_signatures @ NETWORK_RISK_PATTERNS)"
  by code_simp

definition sample_operator :: operator where
  "sample_operator = \<lparr>op_name = ''n'', op_email = ''e''\<rparr>"

definition sample_entry :: changed_entry where
  "sample_entry = \<lparr>ce_old_mode = ''100644'', ce_new_mode = ''100644'', ce_status = 77, ce_path = ''README.md''\<rparr>"

lemma sample_trims:
  "trim_end [CHR ''b'', CHR ''a'', CHR ''s'', CHR ''e'', newline] = ''base''" "trim_end [] = []"
  "trim_end ''cafe'' = ''cafe''" "trim_end ''+hello'' = ''+hello''"
  by (simp_all add: trim_end_def utf8_char_def is_whitespace_def newline_def char_of_eq_iff take_bit_eq_mod)

lemma sample_raw: "parse_raw_diff sample_raw_diff = Ok [sample_entry]"
  by code_simp

lemma sample_run:
  "run sample_exec RevParseHead r = (Ok ''base'', r)" "run sample_exec (LsTree b p) r = (Ok [], r)"
  "run sample_exec (ReadTree b) r = (Ok [], r)" "run sample_exec (UpdateIndex m blob p) r = (Ok [], r)"
  "run sample_exec WriteTree r = (Ok [], r)" "run sample_exec (CommitTree n e t b m) r = (Ok ''cafe'', r)"
  "run sample_exec (DiffText b c) r = (Ok ''+hello'', r)"
  by (simp_all add: run_def then_do_def stdout_of_def yield_def from_utf8_lossy_ascii newline_def sample_trims [unfolded newline_def])

lemma sample_stage:
  "stage_candidate_commit sample_exec ''README.md'' contents n e m r =
     (Ok \<lparr>sc_base = ''base'', sc_commit = ''cafe'', sc_entries = [sample_entry], sc_patch_text = ''+hello''\<rparr>, r)"
proof -
  have "split_on CHR ''/'' ''README.md'' = [''README.md'']" by code_simp
  then show ?thesis
    by (simp add: stage_candidate_commit_def real_diff_def real_patch_text_def sample_run then_do_def yield_def
        stdout_of_def sample_raw upt_rec Let_def)
qed

lemma sample_change: "contained_change default_ratify_roots ''README.md'' ''+hello'' sample_entry"
  using sample_contained sample_paths
  by (simp add: contained_change_def sample_entry_def is_regular_mode_def list_all_iff)

lemma sample_publish:
  "fst (publish_review sample_exec sample_operator now cortex sample_proposal dir (''rsi/'' @ ip_id sample_proposal) staged Map.empty)
     = Ok \<lparr>rr_proposal_id = ip_id sample_proposal, rr_commit_hash = Some (sc_commit staged), rr_branch = Some (''rsi/'' @ ip_id sample_proposal),
          rr_patch_path = Some (path_join dir (ip_id sample_proposal @ ''.patch'')), rr_author = author_string sample_operator,
          rr_cortex_receipt_id = fst cortex, rr_cortex_recorded = snd cortex, rr_timestamp = now, rr_status = ''ProposedForReview'',
          rr_message = OnReviewBranch (ip_title sample_proposal) (''rsi/'' @ ip_id sample_proposal) (path_join dir (ip_id sample_proposal @ ''.patch''))\<rparr>"
proof -
  define b where "b = ''rsi/'' @ ip_id sample_proposal"
  have empty: "run sample_exec c r = (Ok [], r)"
    if "c \<in> {SymbolicRefHead, SymbolicRefOrigin, ConfigDefaultBranch, CheckRefFormat full, FormatPatch commit}" for c full commit r
    using that by (auto simp: run_def then_do_def stdout_of_def yield_def from_utf8_lossy_ascii sample_trims)
  have names: "default_branch_names sample_exec r = ([''main'', ''master''], r)" for r
    by (simp add: default_branch_names_def names_from_def empty Let_def strip_prefix_def starts_with_def)
  have upd: "run sample_exec (UpdateRef full commit) Map.empty = (Ok [], [full \<mapsto> commit])" for full commit
    by (simp add: run_def then_do_def stdout_of_def yield_def from_utf8_lossy_ascii sample_trims)
  have "b \<noteq> ''main''" "b \<noteq> ''master''" by (simp_all add: b_def)
  then have "create_review_branch sample_exec b (sc_commit staged) Map.empty =
      (Ok (), [''refs/heads/'' @ b \<mapsto> sc_commit staged])"
    unfolding create_review_branch_def strip_rsi [of "ip_id sample_proposal", folded b_def] names
    by (simp add: Let_def then_do_def yield_def empty upd)
  then show ?thesis unfolding b_def [symmetric]
    by (simp add: publish_review_def format_patch_def then_do_def yield_def empty stdout_of_def Let_def)
qed

lemma sample_ratified:
  "\<exists>rr. fst (ratify_proposal sample_exec sample_operator now cortex sample_proposal True notes default_ratify_roots dir Map.empty)
      = Ok rr \<and> rr_status rr = ''ProposedForReview''"
proof -
  have t: "check_declared_target (ip_target_file sample_proposal) default_ratify_roots = Ok ''README.md''"
    using sample_paths permitted_ratifier [OF normalized_strict [OF sample_paths(2)]]
    by (simp add: check_declared_target_def sample_proposal_def)
  have n: "review_branch_name (ip_id sample_proposal) = Ok (''rsi/'' @ ip_id sample_proposal)"
    by (simp add: review_branch_name_def sample_proposal_def is_ascii_alphanumeric_def)
  have c: "check_real_diff [sample_entry] ''+hello'' ''README.md'' default_ratify_roots = []"
    using sample_change check_real_diff_clean by blast
  have "fst (ratify_proposal sample_exec sample_operator now cortex sample_proposal True notes default_ratify_roots dir Map.empty) =
      fst (publish_review sample_exec sample_operator now cortex sample_proposal dir (''rsi/'' @ ip_id sample_proposal)
        \<lparr>sc_base = ''base'', sc_commit = ''cafe'', sc_entries = [sample_entry], sc_patch_text = ''+hello''\<rparr> Map.empty)"
    unfolding ratify_proposal_def t n by (simp add: Let_def c sample_stage)
  then show ?thesis unfolding sample_publish by simp
qed

section \<open>Theorems\<close>

text \<open>C23: the ratifier touches nothing but its review branch.  Whatever git does, every ref is left as
  it was, unless the invariants passed and \<open>refs/heads/rsi/<id>\<close> did not exist: then this one ref is created, and
  it points to the commit that was staged for the declared target, whose real diff is contained in
  that target.  A refused proposal creates no ref, and a record \<open>ProposedForReview\<close> names exactly that commit.\<close>

theorem ratifier_touches_only_its_branch:
  assumes "refs_ok exec refs"
    and "ratify_proposal exec op now cortex p passed notes roots patch_dir r = (res, r')"
  shows "(\<exists>m. res = Ok (rejected op now p m)) \<and> refs r' = refs r
     \<or> passed \<and> (\<exists>commit. (\<forall>rr. res = Ok rr \<longrightarrow> rr_status rr = ''ProposedForReview''
             \<and> rr_commit_hash rr = Some commit \<and> rr_branch rr = Some (''rsi/'' @ ip_id p))
         \<and> refs r (''refs/heads/'' @ ''rsi/'' @ ip_id p) = None
         \<and> refs r' = (refs r)(''refs/heads/'' @ ''rsi/'' @ ip_id p \<mapsto> commit)
         \<and> reviewed_candidate exec op p roots r commit)"
  by (rule ratify_refs [OF assms])

theorem ratifier_touches_only_its_branch_witness:
  "\<exists>rr r'. ratify_proposal sample_exec sample_operator ''now'' (None, False) sample_proposal True [] default_ratify_roots ''out'' Map.empty
       = (Ok rr, r') \<and> rr_status rr = ''ProposedForReview''
     \<and> (\<exists>commit. rr_commit_hash rr = Some commit \<and> r' = [''refs/heads/'' @ ''rsi/'' @ ip_id sample_proposal \<mapsto> commit]
         \<and> reviewed_candidate sample_exec sample_operator sample_proposal default_ratify_roots Map.empty commit)"
proof -
  obtain rr r' where run: "ratify_proposal sample_exec sample_operator ''now'' (None, False) sample_proposal True []
      default_ratify_roots ''out'' Map.empty = (Ok rr, r')" and st: "rr_status rr = ''ProposedForReview''"
    using sample_ratified [of "''now''" "(None, False)" "[]" "''out''"] by (metis prod.collapse)
  have "\<not> (\<exists>m. Ok rr = (Ok (rejected sample_operator ''now'' sample_proposal m) :: gate_error + ratification_record))"
    using st by (auto simp: rejected_def)
  with ratifier_touches_only_its_branch [OF sample_refs_ok run] run st show ?thesis by blast
qed


text \<open>A normalised path is canonical.  It normalises to itself, for the gate and for the root of trust,
  and its components are plain names: no empty, dot, parent or git component, no separator inside a name, and
  it is not absolute.\<close>

theorem normalized_path_is_canonical:
  assumes "normalize_repo_path raw = Ok p"
  shows "normalize_repo_path p = Ok p \<and> normalize_strict p = Ok p
     \<and> (\<exists>cs. cs \<noteq> [] \<and> path_components p = map Normal cs \<and> p = join ''/'' cs \<and> (\<forall>c \<in> set cs. repo_name c))"
proof -
  obtain cs where cs: "cs \<noteq> []" "\<forall>c \<in> set cs. repo_name c" "p = join ''/'' cs" by (rule normalize_repo_path_Ok [OF assms])
  with repo_names [OF cs(1,2)] show ?thesis by blast
qed

theorem normalized_path_is_canonical_witness:
  "\<exists>cs. path_components ''README.md'' = map Normal cs \<and> (\<forall>c \<in> set cs. repo_name c)"
  using normalized_path_is_canonical [OF sample_paths(1)] by blast

text \<open>the content check does not see an added line that begins with two plus signs.  In the diff such a
  line starts with three, like the header of the new file, and is skipped: with it or without it the verdict on
  the patch is the same, whatever secret or network primitive the line holds.\<close>

theorem plus_plus_lines_are_not_examined:
  assumes "newline \<notin> set l" and "starts_with ''++'' l"
  shows "check_real_diff entries (pre @ newline # (CHR ''+'' # l) @ newline # post) target roots =
     check_real_diff entries (pre @ newline # post) target roots"
proof -
  have n: "newline \<notin> set (CHR ''+'' # l)" using assms(1) by (simp add: newline_def)
  obtain as bs where "str_lines (pre @ newline # post) = as @ bs"
      "str_lines (pre @ newline # (CHR ''+'' # l) @ newline # post) = as @ strip_cr (CHR ''+'' # l) # bs"
    using str_lines_insert [OF n] by blast
  then have "added_text (pre @ newline # (CHR ''+'' # l) @ newline # post) = added_text (pre @ newline # post)"
    using strip_cr_plus [OF assms(2)] unfolding added_text_def by simp
  then show ?thesis unfolding check_real_diff_def by simp
qed

theorem plus_plus_lines_are_not_examined_witness:
  "check_real_diff [sample_entry] (''+hello'' @ newline # (CHR ''+'' # ''++AKIA0123'') @ newline # []) ''README.md'' default_ratify_roots = []"
proof -
  have "added_text (''+hello'' @ [newline]) = added_text ''+hello''" by code_simp
  then have "contained_change default_ratify_roots ''README.md'' (''+hello'' @ newline # []) sample_entry"
    using sample_change unfolding contained_change_def by simp
  then have "check_real_diff [sample_entry] (''+hello'' @ newline # []) ''README.md'' default_ratify_roots = []"
    using check_real_diff_clean by blast
  then show ?thesis
    using plus_plus_lines_are_not_examined [of "''++AKIA0123''" "[sample_entry]" "''+hello''" "[]" "''README.md''" default_ratify_roots]
    by (simp add: newline_def starts_with_def)
qed

end
