(* ===== verification/Layers.thy ===== *)
theory Layers
  imports F64 Root_Of_Trust
begin

text \<open>
  The evaluation layers (\<open>src/src/evaluator/layers/\<close>) that decide from texts and counts, and the layer
  result each contributes to a receipt.  A score is the bit pattern of its binary64 value.  \<open>dbg\<close> and
  \<open>lowercase\<close> are the standard library's quoting and case conversion of strings, whose Unicode tables are
  not repeated here.
\<close>

section \<open>Layer results\<close>

type_synonym f64_bits = u64

record layer_result =
  lr_layer_name :: string
  lr_is_hard_invariant :: bool
  lr_passed :: bool
  lr_score :: f64_bits
  lr_summary :: string
  lr_violations :: "string list"

text \<open>The bits of a non-negative binary64 number given as a rational: exponent and 52 bits of mantissa.\<close>

definition f64_to_bits :: "rat \<Rightarrow> f64_bits" where
  "f64_to_bits x =
     (if x \<le> 0 then 0
      else let e = ilog2 x in of_int ((e + 1022) * 2 ^ 52 + round_half_even (x / 2 powi (e - 52))))"

definition SCORE_ONE :: f64_bits where "SCORE_ONE = 0x3FF0000000000000"

definition ratio_score :: "nat \<Rightarrow> nat \<Rightarrow> f64_bits" where
  "ratio_score a b = f64_to_bits (f64_div (f64_round (of_nat a)) (f64_round (of_nat b)))"

section \<open>Correctness\<close>

record correctness_evaluation =
  cor_compilation_passed :: bool
  cor_unit_tests_passed :: nat
  cor_unit_tests_failed :: nat
  cor_integration_tests_passed :: nat
  cor_integration_tests_failed :: nat
  cor_abi_stability_passed :: bool
  cor_passed :: bool
  cor_failures :: "string list"

definition evaluate_synthetic :: "bool \<Rightarrow> nat \<Rightarrow> nat \<Rightarrow> nat \<Rightarrow> nat \<Rightarrow> bool \<Rightarrow> correctness_evaluation" where
  "evaluate_synthetic compiled unit_ok unit_bad integ_ok integ_bad abi =
     \<lparr>cor_compilation_passed = compiled, cor_unit_tests_passed = unit_ok, cor_unit_tests_failed = unit_bad,
      cor_integration_tests_passed = integ_ok, cor_integration_tests_failed = integ_bad,
      cor_abi_stability_passed = abi,
      cor_passed = (compiled \<and> unit_bad = 0 \<and> integ_bad = 0 \<and> abi),
      cor_failures =
        (if \<not> compiled then [''Compilation failed''] else [])
        @ (if unit_bad > 0 then [dec_nat unit_bad @ '' unit tests failed''] else [])
        @ (if integ_bad > 0 then [dec_nat integ_bad @ '' integration tests failed''] else [])
        @ (if \<not> abi then [''ABI stability check failed''] else [])\<rparr>"

definition correctness_layer :: "correctness_evaluation \<Rightarrow> layer_result" where
  "correctness_layer c =
     (let total_passed = cor_unit_tests_passed c + cor_integration_tests_passed c;
          total_failed = cor_unit_tests_failed c + cor_integration_tests_failed c;
          all = total_passed + total_failed in
      \<lparr>lr_layer_name = ''Correctness'', lr_is_hard_invariant = True, lr_passed = cor_passed c,
       lr_score = (if \<not> cor_compilation_passed c \<or> \<not> cor_abi_stability_passed c then 0
                   else if all = 0 then SCORE_ONE else ratio_score total_passed all),
       lr_summary = ''Correctness: compile='' @ (if cor_compilation_passed c then ''OK'' else ''FAIL'') @ '', abi='' @
         (if cor_abi_stability_passed c then ''STABLE'' else ''BROKEN'') @ '', unit='' @ dec_nat (cor_unit_tests_passed c) @ ''/'' @
         dec_nat (cor_unit_tests_passed c + cor_unit_tests_failed c) @ '', integ='' @ dec_nat (cor_integration_tests_passed c) @ ''/'' @
         dec_nat (cor_integration_tests_passed c + cor_integration_tests_failed c),
       lr_violations = cor_failures c\<rparr>)"

section \<open>Security\<close>

fun root_error_text :: "(string \<Rightarrow> string) \<Rightarrow> root_error \<Rightarrow> string" where
  "root_error_text dbg (UnusableBytes p) = ''path '' @ dbg p @ '' contains a backslash or NUL''"
| "root_error_text dbg (ClimbsAboveRoot p) = ''path '' @ dbg p @ '' climbs above the repository root''"

fun path_violation_text :: "(string \<Rightarrow> string) \<Rightarrow> path_violation \<Rightarrow> string" where
  "path_violation_text dbg (Unnormalized e) = ''SECURITY VIOLATION: '' @ root_error_text dbg e"
| "path_violation_text dbg (ProtectedTarget p t) = ''SECURITY VIOLATION: Target path '' @ [CHR 0x27] @ p @ [CHR 0x27] @
     '' is a protected root-of-trust file. Required tier: >= 2, candidate tier: '' @ dec_nat (unat t)"

fun security_violation_text :: "(string \<Rightarrow> string) \<Rightarrow> security_violation \<Rightarrow> string" where
  "security_violation_text dbg (RootViolation es) = ''Root-of-trust violation: '' @ join '', '' (map (path_violation_text dbg) es)"
| "security_violation_text dbg (SecretSignature p) = ''Hardcoded secret signature detected: '' @ p"
| "security_violation_text dbg (NetworkPrimitive p) = ''Unauthorized network primitive detected: '' @ p"

definition pass_fail :: "bool \<Rightarrow> string" where
  "pass_fail b = (if b then ''PASS'' else ''FAIL'')"

definition security_layer :: "(string \<Rightarrow> string) \<Rightarrow> security_evaluation \<Rightarrow> layer_result" where
  "security_layer dbg s =
     \<lparr>lr_layer_name = ''Security'', lr_is_hard_invariant = True, lr_passed = sec_passed s,
      lr_score = (if sec_passed s then SCORE_ONE else 0),
      lr_summary = ''Security: root_of_trust='' @ pass_fail (root_of_trust_compliant s) @ '', zero_disk_secrets='' @
        pass_fail (zero_disk_secrets_clean s) @ '', network_isolation='' @ pass_fail (network_isolation_compliant s),
      lr_violations = map (security_violation_text dbg) (sec_violations s)\<rparr>"

section \<open>Style\<close>

definition FORBIDDEN_BUZZWORDS :: "string list" where
  "FORBIDDEN_BUZZWORDS = [''delve'', ''tapestry'', ''testament'', ''beacon'', ''crucial'', ''pivotal'', ''elevate'',
     ''game-changer'', ''unleash'', ''harness'', ''seamlessly'']"

definition ANTITHESIS_TROPES :: "string list" where
  "ANTITHESIS_TROPES = [''it'' @ [CHR 0x27] @ ''s not '', ''it is not '', ''not only '', ''not just '']"

definition TRANSITIONAL_FLUFF :: "string list" where
  "TRANSITIONAL_FLUFF = [''furthermore'', ''moreover'', ''in conclusion'', ''at its core'']"

record style_evaluation =
  st_em_dash_count :: nat
  st_en_dash_count :: nat
  st_buzzword_violations :: "string list"
  st_antithesis_violations :: "string list"
  st_transitional_fluff_violations :: "string list"
  st_passed :: bool
  st_violations :: "string list"

definition quoted :: "string \<Rightarrow> string" where
  "quoted s = [CHR 0x27] @ s @ [CHR 0x27]"

definition evaluate_text :: "(string \<Rightarrow> string) \<Rightarrow> string \<Rightarrow> style_evaluation" where
  "evaluate_text lowercase content =
     (let em = length (filter (\<lambda>c. c = 0x2014) (chars content));
          en = length (filter (\<lambda>c. c = 0x2013) (chars content));
          lower = lowercase content;
          found = filter (\<lambda>p. contains p lower);
          buzz = found FORBIDDEN_BUZZWORDS; fluff = found TRANSITIONAL_FLUFF; trope = found ANTITHESIS_TROPES in
      \<lparr>st_em_dash_count = em, st_en_dash_count = en, st_buzzword_violations = buzz,
       st_antithesis_violations = trope, st_transitional_fluff_violations = fluff,
       st_passed = (em = 0 \<and> en = 0 \<and> buzz = [] \<and> trope = [] \<and> fluff = []),
       st_violations =
         (if em > 0 then [''Detected '' @ dec_nat em @ '' em dash characters ('' @ utf8_char 0x2014 @ '')''] else [])
         @ (if en > 0 then [''Detected '' @ dec_nat en @ '' en dash characters ('' @ utf8_char 0x2013 @ '')''] else [])
         @ map (\<lambda>p. ''Forbidden AI buzzword detected: '' @ quoted p) buzz
         @ map (\<lambda>p. ''Forbidden transitional fluff detected: '' @ quoted p) fluff
         @ map (\<lambda>p. ''Forbidden antithesis trope detected: '' @ quoted p) trope\<rparr>)"

definition style_layer :: "style_evaluation \<Rightarrow> layer_result" where
  "style_layer s =
     \<lparr>lr_layer_name = ''Style'', lr_is_hard_invariant = True, lr_passed = st_passed s,
      lr_score = (if st_passed s then SCORE_ONE else 0),
      lr_summary = ''Style: em_dashes='' @ dec_nat (st_em_dash_count s) @ '', en_dashes='' @ dec_nat (st_en_dash_count s) @
        '', buzzwords='' @ dec_nat (length (st_buzzword_violations s)) @ '', tropes='' @
        dec_nat (length (st_antithesis_violations s) + length (st_transitional_fluff_violations s)),
      lr_violations = st_violations s\<rparr>"

section \<open>Longitudinal replay\<close>

record defect_test_result =
  dt_defect_id :: string
  dt_title :: string
  dt_passed :: bool
  dt_details :: "string option"

record replay_evaluation =
  re_total_cases :: nat
  re_passed_cases :: nat
  re_regressions_detected :: "string list"
  re_passed :: bool

definition regression_text :: "defect_test_result \<Rightarrow> string" where
  "regression_text r = ''['' @ dt_defect_id r @ ''] '' @ dt_title r @ '': '' @
     (case dt_details r of Some d \<Rightarrow> d | None \<Rightarrow> ''Defect regression assertion failed'')"

definition evaluate_results :: "defect_test_result list \<Rightarrow> replay_evaluation" where
  "evaluate_results results =
     (let regressions = map regression_text (filter (\<lambda>r. \<not> dt_passed r) results) in
      \<lparr>re_total_cases = length results, re_passed_cases = length (filter dt_passed results),
       re_regressions_detected = regressions, re_passed = (regressions = [])\<rparr>)"

definition corpus_case :: "string \<Rightarrow> string \<Rightarrow> defect_test_result" where
  "corpus_case i t = \<lparr>dt_defect_id = i, dt_title = t, dt_passed = True, dt_details = None\<rparr>"

definition builtin_regression_corpus :: "defect_test_result list" where
  "builtin_regression_corpus = [
     corpus_case ''ROT-001'' ''Root-of-trust path tampering rejection'',
     corpus_case ''SEC-001'' ''Zero plaintext credentials in repository files'',
     corpus_case ''STY-001'' ''Strict prohibition of em dashes and en dashes'',
     corpus_case ''SUP-001'' ''Host supervisor 48 GB unified LPDDR5x budget enforcement'']"

definition replay_layer :: "replay_evaluation \<Rightarrow> layer_result" where
  "replay_layer r =
     \<lparr>lr_layer_name = ''LongitudinalReplay'', lr_is_hard_invariant = True, lr_passed = re_passed r,
      lr_score = (if re_total_cases r = 0 then SCORE_ONE else ratio_score (re_passed_cases r) (re_total_cases r)),
      lr_summary = ''LongitudinalReplay: passed='' @ dec_nat (re_passed_cases r) @ ''/'' @ dec_nat (re_total_cases r) @
        '', regressions='' @ dec_nat (length (re_regressions_detected r)),
      lr_violations = re_regressions_detected r\<rparr>"

end
