(* ===== verification/Receipt.thy ===== *)
theory Receipt
  imports Ledger Layers
begin

text \<open>
  Evaluation receipts (\<open>src/src/evaluator/mod.rs\<close>): the two digest formats, signing, the
  promotion check of a receipt, and the verdict of the six layers.  The performance and resource layers are inputs:
  \<open>measured_layer\<close> holds their layer result, and \<open>metrics_summary\<close> the numbers the receipt copies from them.
\<close>

section \<open>P-256 keys\<close>

text \<open>The operations of the \<open>p256\<close> crate on receipts: the checkpoint operations of the ledger, the
  public key of a signing key, and the SEC1 decoder.\<close>

record receipt_keys = p256 +
  ec_public :: "bytes \<Rightarrow> bytes"
  ec_from_sec1 :: "bytes \<Rightarrow> bytes option"

text \<open>A signature verifies under the public key of the key that made it.\<close>

definition keys_ok :: "receipt_keys \<Rightarrow> bool" where
  "keys_ok P \<longleftrightarrow> (\<forall>k b. ec_from_slice P (ec_sign P k b) \<and> ec_verify P (ec_public P k) b (ec_sign P k b))"

section \<open>Receipts\<close>

record metrics_summary =
  ms_latency_delta_pct :: f64_bits
  ms_p_value :: f64_bits
  ms_p95_ci_upper :: f64_bits
  ms_p99_ci_upper :: f64_bits
  ms_rss_growth_pct :: f64_bits
  ms_candidate_resident_mb :: u64

record receipt_binding =
  rb_subject_path :: string
  rb_subject_sha256 :: string
  rb_holdout_set_sha256 :: string
  rb_holdouts_total :: u64
  rb_holdouts_passed :: u64
  rb_policy_sha256 :: string
  rb_evaluator_binary_sha256 :: string

record evaluation_receipt =
  er_cycle_id :: string
  er_candidate_id :: string
  er_parent_id :: string
  er_evaluated_at :: string
  er_evaluator_version :: string
  er_passed_all_hard_invariants :: bool
  er_passed_statistical_gates :: bool
  er_admitted :: bool
  er_layer_results :: "layer_result list"
  er_metrics_summary :: "metrics_summary option"
  er_receipt_digest :: string
  er_signature :: "string option"
  er_format_version :: u32
  er_binding :: "receipt_binding option"

definition RECEIPT_V2_DOMAIN :: string where
  "RECEIPT_V2_DOMAIN = ''spark-rsi.evaluation-receipt.v2''"

definition bit_text :: "bool \<Rightarrow> bytes" where
  "bit_text b = (if b then ''1'' else ''0'')"

definition compute_digest :: "crates \<Rightarrow> string \<Rightarrow> string \<Rightarrow> string \<Rightarrow> bool \<Rightarrow> layer_result list \<Rightarrow> string" where
  "compute_digest X cycle_id candidate_id parent_id admitted layers =
     hex_encode X (sha256 X (cycle_id @ candidate_id @ parent_id @ bit_text admitted
       @ concat (map (\<lambda>lr. lr_layer_name lr @ bit_text (lr_passed lr) @ u64_le (lr_score lr) @ lr_summary lr) layers)))"

definition flag :: "bool \<Rightarrow> bytes" where
  "flag b = [if b then CHR 0x01 else CHR 0x00]"

definition count_field :: "'a list \<Rightarrow> bytes" where
  "count_field xs = u64_le (of_nat (length xs))"

definition layer_fields :: "layer_result \<Rightarrow> bytes list" where
  "layer_fields lr =
     [lr_layer_name lr, flag (lr_is_hard_invariant lr), flag (lr_passed lr), u64_le (lr_score lr), lr_summary lr,
      count_field (lr_violations lr)] @ lr_violations lr"

definition metrics_fields :: "metrics_summary option \<Rightarrow> bytes list" where
  "metrics_fields m =
     (case m of
        None \<Rightarrow> [[CHR 0x00]]
      | Some m \<Rightarrow> [[CHR 0x01], u64_le (ms_latency_delta_pct m), u64_le (ms_p_value m), u64_le (ms_p95_ci_upper m),
          u64_le (ms_p99_ci_upper m), u64_le (ms_rss_growth_pct m), u64_le (ms_candidate_resident_mb m)])"

text \<open>The fields after the domain string, in the order they are written.\<close>

definition receipt_fields :: "evaluation_receipt \<Rightarrow> receipt_binding \<Rightarrow> bytes list" where
  "receipt_fields r b =
     [er_cycle_id r, er_candidate_id r, er_parent_id r, er_evaluated_at r, er_evaluator_version r,
      rb_evaluator_binary_sha256 b, rb_subject_path b, rb_subject_sha256 b, rb_holdout_set_sha256 b, rb_policy_sha256 b]
     @ [u64_le (rb_holdouts_total b), u64_le (rb_holdouts_passed b)]
     @ map flag [er_admitted r, er_passed_all_hard_invariants r, er_passed_statistical_gates r]
     @ [count_field (er_layer_results r)]
     @ concat (map layer_fields (er_layer_results r))
     @ metrics_fields (er_metrics_summary r)"

definition compute_digest_v2 :: "crates \<Rightarrow> evaluation_receipt \<Rightarrow> string + string" where
  "compute_digest_v2 X r =
     and_then (ok_or (er_binding r) ''version 2 digest needs a binding'') (\<lambda>b.
     Ok (domain_digest X RECEIPT_V2_DOMAIN (receipt_fields r b)))"

definition verify_receipt_digest :: "crates \<Rightarrow> evaluation_receipt \<Rightarrow> bool" where
  "verify_receipt_digest X r =
     (if er_format_version r = 1 \<and> er_binding r = None then
        er_receipt_digest r = compute_digest X (er_cycle_id r) (er_candidate_id r) (er_parent_id r) (er_admitted r) (er_layer_results r)
      else if er_format_version r = 2 \<and> er_binding r \<noteq> None then compute_digest_v2 X r = Ok (er_receipt_digest r)
      else False)"

section \<open>Signatures\<close>

definition RECEIPT_SIGNATURE_PREFIX :: string where "RECEIPT_SIGNATURE_PREFIX = ''tpm2-p256:''"

definition digest_bytes :: "crates \<Rightarrow> evaluation_receipt \<Rightarrow> bytes" where
  "digest_bytes X r = (case hex_decode X (er_receipt_digest r) of Some b \<Rightarrow> b | None \<Rightarrow> er_receipt_digest r)"

definition sign_receipt :: "crates \<Rightarrow> receipt_keys \<Rightarrow> bytes \<Rightarrow> evaluation_receipt \<Rightarrow> evaluation_receipt" where
  "sign_receipt X P key r =
     r\<lparr>er_signature := Some (RECEIPT_SIGNATURE_PREFIX @ hex_encode X (ec_sign P key (digest_bytes X r)))\<rparr>"

definition verify_receipt_signature :: "crates \<Rightarrow> receipt_keys \<Rightarrow> bytes \<Rightarrow> evaluation_receipt \<Rightarrow> bool" where
  "verify_receipt_signature X P key r =
     (if \<not> verify_receipt_digest X r then False
      else case er_signature r of
        None \<Rightarrow> False
      | Some sig_str \<Rightarrow>
          let raw_hex = (case strip_prefix RECEIPT_SIGNATURE_PREFIX sig_str of Some s \<Rightarrow> s | None \<Rightarrow> sig_str) in
          (case hex_decode X raw_hex of
             None \<Rightarrow> False
           | Some sig_bytes \<Rightarrow> ec_from_slice P sig_bytes \<and> ec_verify P key (digest_bytes X r) sig_bytes))"

definition bind_and_sign_v2 ::
    "crates \<Rightarrow> receipt_keys \<Rightarrow> receipt_binding \<Rightarrow> bytes \<Rightarrow> evaluation_receipt \<Rightarrow> string + evaluation_receipt" where
  "bind_and_sign_v2 X P binding key r =
     (let r = r\<lparr>er_format_version := 2, er_binding := Some binding\<rparr> in
      and_then (compute_digest_v2 X r) (\<lambda>d. Ok (sign_receipt X P key (r\<lparr>er_receipt_digest := d\<rparr>))))"

datatype promotion_error =
    NotVersionTwo u32
  | BadSignature
  | NoBinding
  | WrongSubject string string
  | WrongPolicy
  | WrongHoldouts
  | NotAdmitted
  | StagedBytesDiffer string string string
  | NoJudgeKey
  | JudgeKeyNotHex string
  | JudgeKeyInvalid
  | JudgeIsPromoter
  | NoPolicyFile
  | WrongParent string string
  | WrongPath string string
  | TargetNotAllowed string
  | TooFewHoldouts u64 u64

definition verify_for_promotion ::
    "crates \<Rightarrow> receipt_keys \<Rightarrow> bytes \<Rightarrow> string \<Rightarrow> string \<Rightarrow> string \<Rightarrow> evaluation_receipt \<Rightarrow> promotion_error + unit" where
  "verify_for_promotion X P judge_key subject_sha256 policy_sha256 holdout_set_sha256 r =
     (if er_format_version r \<noteq> 2 then Err (NotVersionTwo (er_format_version r))
      else if \<not> verify_receipt_signature X P judge_key r then Err BadSignature
      else and_then (ok_or (er_binding r) NoBinding) (\<lambda>b.
        if rb_subject_sha256 b \<noteq> subject_sha256 then Err (WrongSubject (rb_subject_sha256 b) subject_sha256)
        else if rb_policy_sha256 b \<noteq> policy_sha256 then Err WrongPolicy
        else if rb_holdout_set_sha256 b \<noteq> holdout_set_sha256 then Err WrongHoldouts
        else if \<not> er_admitted r then Err NotAdmitted
        else Ok ()))"

section \<open>The verdict of the layers\<close>

record measured_layer =
  ml_layer :: layer_result
  ml_passed :: bool

text \<open>\<open>ObjectiveEvaluator::evaluate_candidate\<close>.\<close>

definition evaluate_layers ::
    "crates \<Rightarrow> (string \<Rightarrow> string) \<Rightarrow> string \<Rightarrow> string \<Rightarrow> string \<Rightarrow> string \<Rightarrow> string \<Rightarrow> correctness_evaluation \<Rightarrow> security_evaluation
      \<Rightarrow> style_evaluation \<Rightarrow> measured_layer \<Rightarrow> measured_layer \<Rightarrow> replay_evaluation \<Rightarrow> metrics_summary \<Rightarrow> evaluation_receipt" where
  "evaluate_layers X dbg now version cycle_id candidate_id parent_id correctness security style performance
      resource_efficiency longitudinal_replay metrics =
     (let layer_results = [correctness_layer correctness, security_layer dbg security, style_layer style,
            ml_layer performance, ml_layer resource_efficiency, replay_layer longitudinal_replay];
          hard = cor_passed correctness \<and> sec_passed security \<and> st_passed style \<and> re_passed longitudinal_replay;
          statistical = ml_passed performance \<and> ml_passed resource_efficiency;
          admitted = (hard \<and> statistical) in
      \<lparr>er_cycle_id = cycle_id, er_candidate_id = candidate_id, er_parent_id = parent_id, er_evaluated_at = now,
       er_evaluator_version = version, er_passed_all_hard_invariants = hard, er_passed_statistical_gates = statistical,
       er_admitted = admitted, er_layer_results = layer_results, er_metrics_summary = Some metrics,
       er_receipt_digest = compute_digest X cycle_id candidate_id parent_id admitted layer_results,
       er_signature = None, er_format_version = 1, er_binding = None\<rparr>)"

section \<open>The digest commits to the receipt\<close>

definition layer_fits :: "layer_result \<Rightarrow> bool" where
  "layer_fits lr \<longleftrightarrow> fits (lr_layer_name lr) \<and> fits (lr_summary lr) \<and> list_all fits (lr_violations lr)
     \<and> length (lr_violations lr) < 2 ^ 64"

definition receipt_fits :: "evaluation_receipt \<Rightarrow> bool" where
  "receipt_fits r \<longleftrightarrow> list_all fits [er_cycle_id r, er_candidate_id r, er_parent_id r, er_evaluated_at r, er_evaluator_version r]
     \<and> list_all layer_fits (er_layer_results r) \<and> length (er_layer_results r) < 2 ^ 64
     \<and> (\<forall>b. er_binding r = Some b \<longrightarrow> list_all fits [rb_evaluator_binary_sha256 b, rb_subject_path b, rb_subject_sha256 b,
          rb_holdout_set_sha256 b, rb_policy_sha256 b])"

lemma flag_inj [simp]: "flag a = flag b \<longleftrightarrow> a = b"
  by (simp add: flag_def)

lemma count_field_inj:
  assumes "length xs < 2 ^ 64" and "length ys < 2 ^ 64"
  shows "count_field xs = count_field ys \<longleftrightarrow> length xs = length ys"
proof -
  have "unat (of_nat n :: u64) = n" if "n < 2 ^ 64" for n using that by (simp add: unat_of_nat)
  with assms show ?thesis unfolding count_field_def u64_le_inj by metis
qed

lemma small_fits [simp]: "fits (u64_le w)" "fits (flag b)" "fits (count_field xs)" "fits [c]"
  by (simp_all add: fits_def flag_def count_field_def)

lemma layer_fields_unique:
  assumes "layer_fits a" and "layer_fits b" and "layer_fields a @ r = layer_fields b @ s"
  shows "a = b \<and> r = s"
proof -
  from assms have "length (lr_violations a) = length (lr_violations b)"
    using count_field_inj by (auto simp: layer_fields_def layer_fits_def)
  with assms(3) show ?thesis by (cases a; cases b) (simp add: layer_fields_def)
qed

lemma layers_unique:
  assumes "list_all layer_fits xs" and "list_all layer_fits ys" and "length xs = length ys"
    and "concat (map layer_fields xs) @ r = concat (map layer_fields ys) @ s"
  shows "xs = ys \<and> r = s"
  using assms
proof (induction xs arbitrary: ys)
  case (Cons x xs)
  then obtain y ys' where ys: "ys = y # ys'" by (cases ys) auto
  with Cons.prems have "x = y \<and> concat (map layer_fields xs) @ r = concat (map layer_fields ys') @ s"
    by (intro layer_fields_unique) simp_all
  with Cons ys show ?case by simp
qed simp

lemma metrics_fields_inj: "metrics_fields a = metrics_fields b \<Longrightarrow> a = b"
  by (cases a; cases b) (auto simp: metrics_fields_def intro!: metrics_summary.equality)

definition same_receipt :: "evaluation_receipt \<Rightarrow> evaluation_receipt \<Rightarrow> bool" where
  "same_receipt r r' \<longleftrightarrow> r\<lparr>er_receipt_digest := [], er_signature := None, er_format_version := 0\<rparr> =
     r'\<lparr>er_receipt_digest := [], er_signature := None, er_format_version := 0\<rparr>"

lemma receipt_fields_inj:
  assumes "receipt_fits r" and "receipt_fits r'" and "er_binding r = Some b" and "er_binding r' = Some b'"
    and "receipt_fields r b = receipt_fields r' b'"
  shows "same_receipt r r'"
proof -
  note eq = assms(5) [unfolded receipt_fields_def, simplified]
  have n: "length (er_layer_results r) = length (er_layer_results r')"
    using eq assms(1,2) count_field_inj by (auto simp: receipt_fits_def)
  have "er_layer_results r = er_layer_results r' \<and> metrics_fields (er_metrics_summary r) = metrics_fields (er_metrics_summary r')"
    using eq assms(1,2) n by (intro layers_unique) (simp_all add: receipt_fits_def)
  then have l: "er_layer_results r = er_layer_results r'" "er_metrics_summary r = er_metrics_summary r'"
    using metrics_fields_inj by blast+
  have "b = b'" using eq by (intro receipt_binding.equality) simp_all
  with eq l assms(3,4) show ?thesis unfolding same_receipt_def by (intro evaluation_receipt.equality) simp_all
qed

definition receipt_preimage :: "evaluation_receipt \<Rightarrow> bytes" where
  "receipt_preimage r = (case er_binding r of None \<Rightarrow> [] | Some b \<Rightarrow> domain_preimage RECEIPT_V2_DOMAIN (receipt_fields r b))"

lemma receipt_fields_fit:
  "receipt_fits r \<Longrightarrow> er_binding r = Some b \<Longrightarrow> list_all fits (receipt_fields r b)"
  by (auto simp: receipt_fits_def receipt_fields_def layer_fits_def layer_fields_def metrics_fields_def list_all_iff
      split: option.split)

lemma receipt_digest_binds:
  assumes "hex_ok X" and "receipt_fits r" and "receipt_fits r'" and "er_binding r = Some b" and "er_binding r' = Some b'"
    and "compute_digest_v2 X r = compute_digest_v2 X r'"
  shows "same_receipt r r' \<or> sha_collision X (receipt_preimage r) (receipt_preimage r')"
proof -
  have dom: "fits RECEIPT_V2_DOMAIN" by (simp add: fits_def RECEIPT_V2_DOMAIN_def)
  have "domain_digest X RECEIPT_V2_DOMAIN (receipt_fields r b) = domain_digest X RECEIPT_V2_DOMAIN (receipt_fields r' b')"
    using assms(4-6) by (simp add: compute_digest_v2_def)
  then have "receipt_fields r b = receipt_fields r' b' \<or> sha_collision X (receipt_preimage r) (receipt_preimage r')"
    using domain_digest_binds [OF assms(1) dom receipt_fields_fit [OF assms(2,4)] dom receipt_fields_fit [OF assms(3,5)]] assms(4,5)
    by (auto simp: receipt_preimage_def)
  with receipt_fields_inj [OF assms(2-5)] show ?thesis by blast
qed

end
