(* ===== verification/Judge.thy ===== *)
theory Judge
  imports Receipt
begin

text \<open>
  The blind judge (\<open>src/src/actor/judge.rs\<close>): the operator's policy, the strict loading of the holdout
  set, the strict comparison of the two trees, and the evaluation that ends in a signed receipt.

  A tree is a \<open>node\<close>.  What the judge gets from processes (the binaries, the jail, cargo, the
  benchmarks) and from reading files again is the record \<open>judge_run\<close>.
\<close>

datatype judge_error =
    CannotReadPolicy string
  | InvalidPolicy string
  | AdmissionNotRequired
  | RatioOutOfRange
  | HoldoutDigestNotHex
  | MarginOutOfRange
  | NoAllowedTargets
  | UncleanPolicyPath string
  | NoHoldoutDirectory
  | CannotReadHoldouts string
  | NonUtf8HoldoutName
  | UnexpectedHoldoutEntry string
  | NoHoldoutSuites
  | CannotReadHoldoutFile string
  | CorruptHoldoutFile string
  | NoHoldoutCases string
  | IncompleteHoldoutCase string
  | DuplicateCaseId string
  | NoSigningKey
  | HoldoutSetMismatch string string
  | UncleanSubject string
  | SubjectNotAllowed string
  | SubjectProtected string string
  | NoExecutableNamed
  | ExecutableOutsideComparison string
  | CannotReadTree
  | NonUtf8TreePath
  | NestedGit string
  | SpecialFile string
  | CannotReadTreeFile string
  | ChangesBeyondSubject string "string list"
  | RunFailed string
  | SubjectChanged
  | SignFailed string

section \<open>The policy\<close>

record evaluation_policy =
  po_policy_id :: string
  po_holdout_set_sha256 :: string
  po_min_holdout_pass_ratio :: rat
  po_require_admitted :: bool
  po_allowed_targets :: "string list"
  po_protected_paths :: "string list"
  po_non_inferiority_margin_pct :: "rat option"

definition trim_end_slashes :: "string \<Rightarrow> string" where
  "trim_end_slashes s = rev (dropWhile (\<lambda>c. c = CHR ''/'') (rev s))"

definition is_clean_relative :: "string \<Rightarrow> bool" where
  "is_clean_relative p \<longleftrightarrow> p \<noteq> [] \<and> \<not> starts_with ''/'' p
     \<and> list_all (\<lambda>c. c \<noteq> [] \<and> c \<noteq> ''.'' \<and> c \<noteq> ''..'') (split_on CHR ''/'' p)"

definition path_is_under :: "string \<Rightarrow> string \<Rightarrow> bool" where
  "path_is_under path prefix =
     (let prefix = trim_end_slashes prefix in path = prefix \<or> starts_with (prefix @ ''/'') path)"

text \<open>\<open>from_slice\<close> is serde's reader of the policy; JSON numbers are finite, and a comparison with a value below
  the smallest normal number comes out as on the rationals.\<close>

definition load_policy ::
    "crates \<Rightarrow> (bytes \<Rightarrow> string + evaluation_policy) \<Rightarrow> (string + bytes) \<Rightarrow> judge_error + (evaluation_policy \<times> string)" where
  "load_policy X from_slice contents =
     and_then (map_err CannotReadPolicy contents) (\<lambda>b.
     and_then (map_err InvalidPolicy (from_slice b)) (\<lambda>policy.
     if \<not> po_require_admitted policy then Err AdmissionNotRequired
     else if \<not> (po_min_holdout_pass_ratio policy > 0 \<and> po_min_holdout_pass_ratio policy \<le> 1) then Err RatioOutOfRange
     else if length (po_holdout_set_sha256 policy) \<noteq> 64 \<or> hex_decode X (po_holdout_set_sha256 policy) = None
       then Err HoldoutDigestNotHex
     else if (case po_non_inferiority_margin_pct policy of None \<Rightarrow> False | Some m \<Rightarrow> m < 0) then Err MarginOutOfRange
     else if po_allowed_targets policy = [] then Err NoAllowedTargets
     else case List.find (\<lambda>p. \<not> is_clean_relative (trim_end_slashes p)) (po_allowed_targets policy @ po_protected_paths policy) of
         Some p \<Rightarrow> Err (UncleanPolicyPath p)
       | None \<Rightarrow> Ok (policy, sha256_hex X b)))"

record v2_request =
  vr_subject_path :: string
  vr_policy :: evaluation_policy
  vr_policy_sha256 :: string

section \<open>The holdout set\<close>

record holdout_case =
  hc_id :: string
  hc_name :: string
  hc_input :: string
  hc_expected_output :: string
  hc_category :: string

record holdout_suite =
  hs_suite_id :: string
  hs_name :: string
  hs_cases :: "holdout_case list"

definition HOLDOUT_SET_DOMAIN :: string where "HOLDOUT_SET_DOMAIN = ''spark-rsi.holdout-set.v1''"

text \<open>A directory entry: its name, whether it is a regular file, and what reading it returns.\<close>

record dir_entry =
  de_name :: string
  de_is_file :: bool
  de_contents :: "string + bytes"

fun check_entries :: "dir_entry list \<Rightarrow> judge_error + unit" where
  "check_entries [] = Ok ()"
| "check_entries (e # es) =
     (if \<not> valid_utf8 (de_name e) then Err NonUtf8HoldoutName
      else if \<not> de_is_file e \<or> \<not> ends_with ''.json'' (de_name e) then Err (UnexpectedHoldoutEntry (de_name e))
      else check_entries es)"

fun check_cases :: "string \<Rightarrow> string list \<Rightarrow> holdout_case list \<Rightarrow> judge_error + string list" where
  "check_cases name ids [] = Ok ids"
| "check_cases name ids (c # cs) =
     (if hc_id c = [] \<or> hc_expected_output c = [] then Err (IncompleteHoldoutCase name)
      else if hc_id c \<in> set ids then Err (DuplicateCaseId (hc_id c))
      else check_cases name (hc_id c # ids) cs)"

text \<open>The loop over the sorted names: the hasher, the case ids seen, and the suites.\<close>

fun load_suites ::
    "crates \<Rightarrow> (bytes \<Rightarrow> string + holdout_suite) \<Rightarrow> hasher \<Rightarrow> string list \<Rightarrow> dir_entry list
      \<Rightarrow> judge_error + (holdout_suite list \<times> hasher)" where
  "load_suites X from_slice h ids [] = Ok ([], h)"
| "load_suites X from_slice h ids (e # es) =
     and_then (map_err (\<lambda>_. CannotReadHoldoutFile (de_name e)) (de_contents e)) (\<lambda>b.
     and_then (map_err (\<lambda>_. CorruptHoldoutFile (de_name e)) (from_slice b)) (\<lambda>suite.
     if hs_cases suite = [] then Err (NoHoldoutCases (de_name e))
     else and_then (check_cases (de_name e) ids (hs_cases suite)) (\<lambda>ids.
       and_then (load_suites X from_slice (put_field (put_field h (de_name e)) (sha256 X b)) ids es) (\<lambda>(suites, h).
       Ok (suite # suites, h)))))"

definition load_strict ::
    "crates \<Rightarrow> (bytes \<Rightarrow> string + holdout_suite) \<Rightarrow> (string + dir_entry list) option
      \<Rightarrow> judge_error + (holdout_suite list \<times> string)" where
  "load_strict X from_slice dir =
     and_then (ok_or dir NoHoldoutDirectory) (\<lambda>listing.
     and_then (map_err CannotReadHoldouts listing) (\<lambda>entries.
     and_then (check_entries entries) (\<lambda>_.
     if entries = [] then Err NoHoldoutSuites
     else (let entries = sort_key de_name entries;
               h = put_field (put_field [] HOLDOUT_SET_DOMAIN) (u64_le (of_nat (length entries))) in
       and_then (load_suites X from_slice h [] entries) (\<lambda>(suites, h). Ok (suites, hex_encode X (sha256 X h)))))))"

section \<open>The trees\<close>

datatype node =
    RegularFile "bytes option"
  | Folder entries
  | UnreadableFolder
  | SpecialEntry
and entries =
    NoEntries
  | Entry string node entries

text \<open>The walk of one tree: every regular file with its path from the root and its bytes (\<open>None\<close> when reading
  it fails).\<close>

fun walk :: "bool \<Rightarrow> string \<Rightarrow> entries \<Rightarrow> judge_error + (string \<times> bytes option) list" where
  "walk is_root prefix NoEntries = Ok []"
| "walk is_root prefix (Entry name nd es) =
     (let rel = prefix @ name in
      if \<not> valid_utf8 rel then Err NonUtf8TreePath
      else if is_root \<and> (name = ''.git'' \<or> name = ''target'') then walk is_root prefix es
      else if name = ''.git'' then Err (NestedGit rel)
      else (case nd of
          Folder sub \<Rightarrow> and_then (walk False (rel @ ''/'') sub) (\<lambda>a. and_then (walk is_root prefix es) (\<lambda>b. Ok (a @ b)))
        | RegularFile c \<Rightarrow> and_then (walk is_root prefix es) (\<lambda>b. Ok ((rel, c) # b))
        | UnreadableFolder \<Rightarrow> Err CannotReadTree
        | SpecialEntry \<Rightarrow> Err (SpecialFile rel)))"

definition walk_root :: "node \<Rightarrow> judge_error + (string \<times> bytes option) list" where
  "walk_root nd = (case nd of Folder es \<Rightarrow> walk True [] es | _ \<Rightarrow> Err CannotReadTree)"

fun compare_paths ::
    "(string \<times> bytes option) list \<Rightarrow> (string \<times> bytes option) list \<Rightarrow> string list \<Rightarrow> judge_error + string list" where
  "compare_paths p c [] = Ok []"
| "compare_paths p c (rel # rels) =
     and_then (case (map_of p rel, map_of c rel) of
         (Some a, Some b) \<Rightarrow>
           and_then (ok_or a (CannotReadTreeFile rel)) (\<lambda>x. and_then (ok_or b (CannotReadTreeFile rel)) (\<lambda>y. Ok (x = y)))
       | _ \<Rightarrow> Ok False) (\<lambda>same.
     and_then (compare_paths p c rels) (\<lambda>changed. Ok (if same then changed else rel # changed)))"

definition strict_changed_paths :: "node \<Rightarrow> node \<Rightarrow> judge_error + string list" where
  "strict_changed_paths parent candidate =
     and_then (walk_root parent) (\<lambda>p.
     and_then (walk_root candidate) (\<lambda>c.
     compare_paths p c (sort (remdups (map fst p @ map fst c)))))"

text \<open>\<open>sha256_file\<close> of a path the walk found.\<close>

definition tree_file :: "node \<Rightarrow> string \<Rightarrow> judge_error + bytes" where
  "tree_file nd path =
     (case walk_root nd of
        Inl e \<Rightarrow> Err e
      | Inr fs \<Rightarrow> (case map_of fs path of Some (Some b) \<Rightarrow> Ok b | _ \<Rightarrow> Err (CannotReadTreeFile path)))"

section \<open>The judge\<close>

record blind_judge =
  bj_signing_key :: "bytes option"
  bj_require_build_verification :: bool
  bj_executable :: "string option"
  bj_build_release :: bool
  bj_v2 :: "v2_request option"

record judge_run =
  jr_holdouts :: "(string + dir_entry list) option"
  jr_parent :: node
  jr_candidate :: node
  jr_binaries :: "string + unit"
  jr_jail :: "nat \<Rightarrow> string + (bool \<times> string \<times> string)"
  jr_diff :: "string + (string list \<times> string \<times> string)"
  jr_has_cargo_toml :: bool
  jr_repo :: correctness_evaluation
  jr_performance :: "string + measured_layer"
  jr_resources :: measured_layer
  jr_metrics :: metrics_summary
  jr_subject_after :: "string + bytes"
  jr_judge_binary :: "string + bytes"
  jr_now :: string
  jr_version :: string
  jr_save :: "string + unit"

definition v2_preflight ::
    "crates \<Rightarrow> blind_judge \<Rightarrow> v2_request \<Rightarrow> string \<Rightarrow> node \<Rightarrow> node \<Rightarrow> judge_error + string" where
  "v2_preflight X j req holdout_set_sha256 parent candidate =
     (let policy = vr_policy req; subject = vr_subject_path req in
      if holdout_set_sha256 \<noteq> po_holdout_set_sha256 policy
        then Err (HoldoutSetMismatch holdout_set_sha256 (po_holdout_set_sha256 policy))
      else if \<not> is_clean_relative subject then Err (UncleanSubject subject)
      else if subject \<notin> set (po_allowed_targets policy) then Err (SubjectNotAllowed subject)
      else (case List.find (path_is_under subject) (po_protected_paths policy) of
          Some p \<Rightarrow> Err (SubjectProtected subject p)
        | None \<Rightarrow>
            (case bj_executable j of
               None \<Rightarrow> Err NoExecutableNamed
             | Some exe \<Rightarrow>
                 if \<not> bj_build_release j \<and> (\<not> is_clean_relative exe \<or> path_is_under exe ''target''
                      \<or> ''.git'' \<in> set (split_on CHR ''/'' exe)) then Err (ExecutableOutsideComparison exe)
                 else and_then (strict_changed_paths parent candidate) (\<lambda>changed.
                   if changed \<noteq> [subject] then Err (ChangesBeyondSubject subject changed)
                   else and_then (tree_file candidate subject) (\<lambda>b. Ok (sha256_hex X b))))))"

text \<open>The holdout loop: cases passed and the violations, for the executions from the \<open>i\<close>-th on.\<close>

definition actual_output :: "string + (bool \<times> string \<times> string) \<Rightarrow> string" where
  "actual_output r =
     (case r of
        Inr (ok, out, err) \<Rightarrow> if ok then trim out else ''EXEC_FAIL:'' @ trim err
      | Inl e \<Rightarrow> ''JAIL_ERR:'' @ e)"

fun run_holdouts :: "(nat \<Rightarrow> string + (bool \<times> string \<times> string)) \<Rightarrow> nat \<Rightarrow> holdout_case list \<Rightarrow> nat \<times> string list" where
  "run_holdouts jail i [] = (0, [])"
| "run_holdouts jail i (c # cs) =
     (let actual = actual_output (jail i);
          (passed, violations) = run_holdouts jail (i + 1) cs in
      if actual = hc_expected_output c then (passed + 1, violations)
      else (passed, (''Holdout '' @ quoted (hc_name c) @ '' ('' @ hc_id c @ '') assertion failed: expected '' @
             quoted (hc_expected_output c) @ '', got '' @ quoted actual) # violations))"

definition holdout_failure :: "string \<Rightarrow> defect_test_result" where
  "holdout_failure v = \<lparr>dt_defect_id = ''HOLD-FAIL'', dt_title = ''Blind holdout test suite assertion failure'',
     dt_passed = False, dt_details = Some v\<rparr>"

definition STYLE_DEFAULT :: string where
  "STYLE_DEFAULT = ''Native compiled Rust execution running on DGX Spark GB10.''"

definition pass_ratio_failed :: "u64 \<Rightarrow> u64 \<Rightarrow> rat \<Rightarrow> bool" where
  "pass_ratio_failed passed n ratio \<longleftrightarrow> n = 0 \<or> f64_of_u64 passed < f64_round (ratio * f64_of_u64 n)"

text \<open>Step 6 of \<open>evaluate_cycle\<close>: what is signed.\<close>

definition sign_cycle ::
    "crates \<Rightarrow> receipt_keys \<Rightarrow> bytes \<Rightarrow> judge_run \<Rightarrow> (v2_request \<times> string) option \<Rightarrow> string \<Rightarrow> nat \<Rightarrow> nat
      \<Rightarrow> evaluation_receipt \<Rightarrow> judge_error + evaluation_receipt" where
  "sign_cycle X P key run v2 holdout_set_sha256 n passed receipt =
     (case v2 of
        None \<Rightarrow> Ok (sign_receipt X P key receipt)
      | Some (req, subject_sha256) \<Rightarrow>
          and_then (map_err RunFailed (jr_subject_after run)) (\<lambda>after.
          if sha256_hex X after \<noteq> subject_sha256 then Err SubjectChanged
          else
            let total' = of_nat n; passed' = of_nat passed;
                receipt = (if pass_ratio_failed passed' total' (po_min_holdout_pass_ratio (vr_policy req))
                           then receipt\<lparr>er_admitted := False\<rparr> else receipt) in
            and_then (map_err RunFailed (jr_judge_binary run)) (\<lambda>exe.
            map_err SignFailed (bind_and_sign_v2 X P
              \<lparr>rb_subject_path = vr_subject_path req, rb_subject_sha256 = subject_sha256,
               rb_holdout_set_sha256 = holdout_set_sha256, rb_holdouts_total = total', rb_holdouts_passed = passed',
               rb_policy_sha256 = vr_policy_sha256 req, rb_evaluator_binary_sha256 = sha256_hex X exe\<rparr> key receipt))))"

definition judge_correctness :: "blind_judge \<Rightarrow> judge_run \<Rightarrow> nat \<Rightarrow> nat \<Rightarrow> correctness_evaluation" where
  "judge_correctness j run n passed =
     (if \<not> bj_require_build_verification j then evaluate_synthetic True 1 0 0 0 True
      else if jr_has_cargo_toml run then jr_repo run
      else evaluate_synthetic True passed (n - passed) 8 0 True)"

definition evaluate_cycle ::
    "crates \<Rightarrow> receipt_keys \<Rightarrow> (bytes \<Rightarrow> string + holdout_suite) \<Rightarrow> (string \<Rightarrow> string) \<Rightarrow> (string \<Rightarrow> string) \<Rightarrow> blind_judge
      \<Rightarrow> judge_run \<Rightarrow> string \<Rightarrow> string \<Rightarrow> string \<Rightarrow> judge_error + evaluation_receipt" where
  "evaluate_cycle X P from_slice dbg lowercase j run cycle_id candidate_id parent_id =
     and_then (ok_or (bj_signing_key j) NoSigningKey) (\<lambda>key.
     and_then (load_strict X from_slice (jr_holdouts run)) (\<lambda>(suites, holdout_set_sha256).
     and_then (case bj_v2 j of
         None \<Rightarrow> Ok None
       | Some req \<Rightarrow> and_then (v2_preflight X j req holdout_set_sha256 (jr_parent run) (jr_candidate run)) (\<lambda>s. Ok (Some (req, s)))) (\<lambda>v2.
     and_then (map_err RunFailed (jr_binaries run)) (\<lambda>_.
     let cases = concat (map hs_cases suites); n = length cases;
         (passed, violations) = run_holdouts (jr_jail run) 0 cases in
     and_then (map_err RunFailed (jr_diff run)) (\<lambda>(modified_files, patch_diff, style_text).
     and_then (map_err RunFailed (jr_performance run)) (\<lambda>performance.
     let correctness = judge_correctness j run n passed;
         security = evaluate_candidate modified_files patch_diff 0;
         style = evaluate_text lowercase (if style_text = [] then STYLE_DEFAULT else style_text);
         replay = evaluate_results (builtin_regression_corpus @ map holdout_failure violations);
         receipt = evaluate_layers X dbg (jr_now run) (jr_version run) cycle_id candidate_id parent_id correctness
           security style performance (jr_resources run) replay (jr_metrics run) in
     and_then (sign_cycle X P key run v2 holdout_set_sha256 n passed receipt) (\<lambda>receipt.
     and_then (map_err RunFailed (jr_save run)) (\<lambda>_. Ok receipt))))))))"

end
