(* ===== verification/Judge_Safety.thy ===== *)
theory Judge_Safety
  imports Judge
begin

text \<open>
  What the judge's inputs and its receipt guarantee: the strict comparison of the trees finds exactly the
  files that differ, the holdout digest commits to the holdout files, and a receipt says what was run.
\<close>

section \<open>The comparison of the trees\<close>

definition proper_name :: "string \<Rightarrow> bool" where
  "proper_name c \<longleftrightarrow> c \<noteq> [] \<and> CHR ''/'' \<notin> set c"

fun entry_names :: "entries \<Rightarrow> string list" where
  "entry_names NoEntries = []"
| "entry_names (Entry name nd es) = name # entry_names es"

text \<open>A directory's names are distinct and hold no separator.\<close>

fun tree_ok :: "entries \<Rightarrow> bool" where
  "tree_ok NoEntries = True"
| "tree_ok (Entry name nd es) = (proper_name name \<and> name \<notin> set (entry_names es) \<and> tree_ok es \<and>
     (case nd of Folder sub \<Rightarrow> tree_ok sub | _ \<Rightarrow> True))"

text \<open>The regular file a path names, component by component.\<close>

fun file_at :: "entries \<Rightarrow> string list \<Rightarrow> bytes option option" where
  "file_at NoEntries cs = None"
| "file_at (Entry name nd es) [] = None"
| "file_at (Entry name nd es) (c # cs) =
     (if name \<noteq> c then file_at es (c # cs)
      else case nd of
          RegularFile b \<Rightarrow> if cs = [] then Some b else None
        | Folder sub \<Rightarrow> file_at sub cs
        | _ \<Rightarrow> None)"

lemma join_proper_inj:
  assumes "cs \<noteq> []" and "ds \<noteq> []" and "\<forall>c \<in> set cs. proper_name c" and "\<forall>c \<in> set ds. proper_name c"
  shows "join ''/'' cs = join ''/'' ds \<longleftrightarrow> cs = ds"
proof -
  have "split_on CHR ''/'' (join ''/'' xs) = xs" if "xs \<noteq> []" "\<forall>c \<in> set xs. proper_name c" for xs
    using split_on_join [of xs "CHR ''/''"] that by (simp add: proper_name_def)
  with assms show ?thesis by metis
qed

lemma join_Cons_ne: "cs \<noteq> [] \<Longrightarrow> join ''/'' (c # cs) = c @ ''/'' @ join ''/'' cs"
  by (cases cs) simp_all

lemma file_at_other: "c \<notin> set (entry_names es) \<Longrightarrow> file_at es (c # cs) = None"
  by (induction es rule: entry_names.induct) auto

lemma walk_Entry:
  assumes "walk r prefix (Entry name nd es) = Ok fs"
  obtains (skipped) "r" "name = ''.git'' \<or> name = ''target''" "walk r prefix es = Ok fs"
    | (regular) rest b where "\<not> (r \<and> (name = ''.git'' \<or> name = ''target''))" "nd = RegularFile b"
        "walk r prefix es = Ok rest" "fs = (prefix @ name, b) # rest"
    | (subfolder) rest sub a where "\<not> (r \<and> (name = ''.git'' \<or> name = ''target''))" "nd = Folder sub"
        "walk r prefix es = Ok rest" "walk False (prefix @ name @ ''/'') sub = Ok a" "fs = a @ rest"
proof (cases "r \<and> (name = ''.git'' \<or> name = ''target'')")
  case True
  with assms skipped show ?thesis by (auto simp: Let_def split: if_splits)
next
  case False
  with assms have "name \<noteq> ''.git''" "valid_utf8 (prefix @ name)" by (auto simp: Let_def split: if_splits)
  with assms False regular subfolder show ?thesis
    by (cases nd) (auto simp: Let_def and_then_Ok)
qed

text \<open>The paths of a walk are joined components below the prefix.\<close>

lemma walk_keys:
  "walk r prefix es = Ok fs \<Longrightarrow> tree_ok es \<Longrightarrow> k \<in> fst ` set fs \<Longrightarrow>
     \<exists>c cs. c \<in> set (entry_names es) \<and> k = prefix @ join ''/'' (c # cs) \<and> (\<forall>d \<in> set (c # cs). proper_name d)"
proof (induction es arbitrary: r prefix fs k rule: measure_induct_rule [of size])
  case (less es)
  show ?case
  proof (cases es)
    case NoEntries
    with less.prems show ?thesis by simp
  next
    case (Entry name nd es')
    note ok = less.prems(2) [unfolded Entry tree_ok.simps]
    have rest: "\<exists>c cs. c \<in> set (entry_names es) \<and> k = prefix @ join ''/'' (c # cs) \<and> (\<forall>d \<in> set (c # cs). proper_name d)"
      if "walk r prefix es' = Ok fs'" "k \<in> fst ` set fs'" for fs'
      using less.IH [of es', OF _ that(1) _ that(2)] ok Entry by auto
    from less.prems(1) [unfolded Entry] show ?thesis
    proof (cases rule: walk_Entry)
      case skipped
      with rest less.prems(3) show ?thesis by blast
    next
      case (regular fs' b)
      show ?thesis
      proof (cases "k = prefix @ name")
        case True
        with ok Entry show ?thesis by (intro exI [of _ name] exI [of _ "[]"]) simp
      next
        case False
        with regular less.prems(3) have "k \<in> fst ` set fs'" by auto
        with rest regular(3) show ?thesis by blast
      qed
    next
      case (subfolder fs' sub a)
      show ?thesis
      proof (cases "k \<in> fst ` set a")
        case True
        have sub: "size sub < size es" "tree_ok sub" using Entry subfolder(2) ok by auto
        from less.IH [OF sub(1) subfolder(4) sub(2) True] obtain d ds where
            "k = (prefix @ name @ ''/'') @ join ''/'' (d # ds)" "\<forall>x \<in> set (d # ds). proper_name x" by blast
        with ok Entry show ?thesis by (intro exI [of _ name] exI [of _ "d # ds"]) (simp add: join_Cons_ne)
      next
        case False
        with subfolder(5) less.prems(3) have "k \<in> fst ` set fs'" by auto
        with rest subfolder(3) show ?thesis by blast
      qed
    qed
  qed
qed

text \<open>The walk finds exactly the regular files, except below the two names it skips at the root.\<close>

lemma walk_file_at:
  "walk r prefix es = Ok fs \<Longrightarrow> tree_ok es \<Longrightarrow> \<forall>d \<in> set (c # cs). proper_name d \<Longrightarrow>
     \<not> (r \<and> (c = ''.git'' \<or> c = ''target'')) \<Longrightarrow> map_of fs (prefix @ join ''/'' (c # cs)) = file_at es (c # cs)"
proof (induction es arbitrary: r prefix fs c cs rule: measure_induct_rule [of size])
  case (less es)
  show ?case
  proof (cases es)
    case NoEntries
    with less.prems show ?thesis by simp
  next
    case (Entry name nd es')
    note ok = less.prems(2) [unfolded Entry tree_ok.simps]
    have rest: "map_of fs' (prefix @ join ''/'' (c # cs)) = file_at es' (c # cs)" if "walk r prefix es' = Ok fs'" for fs'
      using less.IH [of es', OF _ that _ less.prems(3,4)] ok Entry by auto
    from less.prems(1) [unfolded Entry] show ?thesis
    proof (cases rule: walk_Entry)
      case skipped
      then have "name \<noteq> c" using less.prems(4) by auto
      with rest [OF skipped(3)] Entry show ?thesis by simp
    next
      case (regular fs' b)
      have key: "prefix @ join ''/'' (c # cs) = prefix @ name \<longleftrightarrow> c = name \<and> cs = []"
        using join_proper_inj [of "c # cs" "[name]"] less.prems(3) ok by simp
      show ?thesis
      proof (cases "c = name")
        case True
        have "map_of fs' (prefix @ join ''/'' (c # cs)) = None" if "cs \<noteq> []"
          using rest [OF regular(3)] file_at_other [of c es' cs] ok True by simp
        with True key regular Entry show ?thesis by auto
      next
        case False
        with key regular Entry rest [OF regular(3)] show ?thesis by auto
      qed
    next
      case (subfolder fs' sub a)
      have sub: "size sub < size es" "tree_ok sub" using Entry subfolder(2) ok by auto
      show ?thesis
      proof (cases "c = name \<and> cs \<noteq> []")
        case True
        then obtain d ds where cs: "cs = d # ds" by (cases cs) auto
        have "map_of a ((prefix @ name @ ''/'') @ join ''/'' (d # ds)) = file_at sub (d # ds)"
          using less.IH [OF sub(1) subfolder(4) sub(2), of d ds] less.prems(3) cs by simp
        moreover have "map_of fs' (prefix @ join ''/'' (c # cs)) = None"
          using rest [OF subfolder(3)] file_at_other [of c es' cs] ok True by simp
        ultimately show ?thesis using True cs subfolder Entry
          by (simp add: join_Cons_ne map_add_def split: option.splits)
      next
        case False
        have "prefix @ join ''/'' (c # cs) \<notin> fst ` set a"
        proof
          assume "prefix @ join ''/'' (c # cs) \<in> fst ` set a"
          from walk_keys [OF subfolder(4) sub(2) this] obtain d ds where
              "prefix @ join ''/'' (c # cs) = (prefix @ name @ ''/'') @ join ''/'' (d # ds)"
              "\<forall>x \<in> set (d # ds). proper_name x" by blast
          then have "join ''/'' (c # cs) = join ''/'' (name # d # ds)" "\<forall>x \<in> set (d # ds). proper_name x"
            by (simp_all add: join_Cons_ne)
          with join_proper_inj [of "c # cs" "name # d # ds"] less.prems(3) ok have "c # cs = name # d # ds" by simp
          with False show False by simp
        qed
        then have "map_of a (prefix @ join ''/'' (c # cs)) = None" by (simp add: map_of_eq_None_iff)
        with rest [OF subfolder(3)] have "map_of fs (prefix @ join ''/'' (c # cs)) = file_at es' (c # cs)"
          using subfolder(5) by (simp add: map_add_def split: option.splits)
        moreover have "file_at es (c # cs) = file_at es' (c # cs)"
        proof (cases "c = name")
          case True
          with False file_at_other [of c es' cs] ok subfolder(2) Entry show ?thesis by (cases sub) auto
        qed (use Entry in simp)
        ultimately show ?thesis by simp
      qed
    qed
  qed
qed

lemma compare_paths_Ok:
  "compare_paths p c rels = Ok changed \<Longrightarrow> \<forall>rel \<in> set rels. rel \<in> fst ` set p \<union> fst ` set c \<Longrightarrow>
     changed = filter (\<lambda>rel. map_of p rel \<noteq> map_of c rel) rels"
proof (induction rels arbitrary: changed)
  case (Cons rel rels)
  from Cons.prems(1) obtain same ch where same: "(case (map_of p rel, map_of c rel) of
         (Some a, Some b) \<Rightarrow>
           and_then (ok_or a (CannotReadTreeFile rel)) (\<lambda>x. and_then (ok_or b (CannotReadTreeFile rel)) (\<lambda>y. Ok (x = y)))
       | _ \<Rightarrow> Ok False) = Ok same"
      and ch: "compare_paths p c rels = Ok ch" "changed = (if same then ch else rel # ch)"
    by (auto simp: and_then_Ok)
  have "map_of p rel \<noteq> None \<or> map_of c rel \<noteq> None" using Cons.prems(2) by (auto simp: map_of_eq_None_iff)
  with same have "same \<longleftrightarrow> map_of p rel = map_of c rel"
    by (auto simp: and_then_Ok ok_or_Ok split: option.splits)
  with ch Cons.IH [OF ch(1)] Cons.prems(2) show ?case by auto
qed simp

lemma strict_changed_paths_Ok:
  assumes "strict_changed_paths (Folder es) (Folder es') = Ok changed"
  obtains p c where "walk True [] es = Ok p" and "walk True [] es' = Ok c"
    and "changed = filter (\<lambda>rel. map_of p rel \<noteq> map_of c rel) (sort (remdups (map fst p @ map fst c)))"
proof -
  from assms obtain p c where pc: "walk True [] es = Ok p" "walk True [] es' = Ok c"
      "compare_paths p c (sort (remdups (map fst p @ map fst c))) = Ok changed"
    by (auto simp: strict_changed_paths_def walk_root_def and_then_Ok)
  with that compare_paths_Ok [OF pc(3)] show ?thesis by auto
qed

text \<open>A path the comparison covers: proper components, not below the two names skipped at the root.\<close>

definition compared_path :: "string list \<Rightarrow> bool" where
  "compared_path cs \<longleftrightarrow> cs \<noteq> [] \<and> (\<forall>c \<in> set cs. proper_name c) \<and> hd cs \<noteq> ''.git'' \<and> hd cs \<noteq> ''target''"

lemma changed_exact:
  assumes "strict_changed_paths (Folder es) (Folder es') = Ok changed" and "tree_ok es" and "tree_ok es'" and "compared_path cs"
  shows "join ''/'' cs \<in> set changed \<longleftrightarrow> file_at es cs \<noteq> file_at es' cs"
proof -
  obtain p c where pc: "walk True [] es = Ok p" "walk True [] es' = Ok c"
      "changed = filter (\<lambda>rel. map_of p rel \<noteq> map_of c rel) (sort (remdups (map fst p @ map fst c)))"
    by (rule strict_changed_paths_Ok [OF assms(1)])
  obtain d ds where cs: "cs = d # ds" using assms(4) by (cases cs) (auto simp: compared_path_def)
  have m: "map_of p (join ''/'' cs) = file_at es cs" "map_of c (join ''/'' cs) = file_at es' cs"
    using walk_file_at [OF pc(1) assms(2), of d ds] walk_file_at [OF pc(2) assms(3), of d ds] assms(4) cs
    by (auto simp: compared_path_def)
  have "join ''/'' cs \<in> set changed \<longleftrightarrow> (join ''/'' cs \<in> fst ` set p \<union> fst ` set c) \<and> file_at es cs \<noteq> file_at es' cs"
    unfolding pc(3) by (simp add: m)
  moreover have "join ''/'' cs \<in> fst ` set p \<union> fst ` set c" if "file_at es cs \<noteq> file_at es' cs"
    using that m by (metis UnI1 UnI2 map_of_eq_None_iff)
  ultimately show ?thesis by blast
qed

lemma changed_sorted:
  assumes "strict_changed_paths (Folder es) (Folder es') = Ok changed"
  shows "sorted changed \<and> distinct changed"
  by (rule strict_changed_paths_Ok [OF assms]) (simp add: sorted_wrt_filter)

section \<open>The holdout digest\<close>

fun file_fields :: "crates \<Rightarrow> (string \<times> bytes) list \<Rightarrow> bytes list" where
  "file_fields X [] = []"
| "file_fields X ((n, b) # fs) = n # sha256 X b # file_fields X fs"

text \<open>The files of a directory by name, where every read succeeds.\<close>

definition holdout_files :: "dir_entry list \<Rightarrow> (string \<times> bytes) list" where
  "holdout_files es = map (\<lambda>e. (de_name e, case de_contents e of Inr b \<Rightarrow> b | Inl _ \<Rightarrow> [])) (sort_key de_name es)"

lemma load_suites_Ok:
  "load_suites X from_slice h ids es = Ok (suites, h') \<Longrightarrow>
     (\<forall>e \<in> set es. \<exists>b. de_contents e = Ok b)
     \<and> h' = foldl put_field h (file_fields X (map (\<lambda>e. (de_name e, case de_contents e of Inr b \<Rightarrow> b | Inl _ \<Rightarrow> [])) es))
     \<and> length suites = length es \<and> (\<forall>s \<in> set suites. hs_cases s \<noteq> [])"
proof (induction es arbitrary: h ids suites h')
  case (Cons e es)
  from Cons.prems obtain b suite ids' suites' where b: "de_contents e = Ok b"
      "load_suites X from_slice (put_field (put_field h (de_name e)) (sha256 X b)) ids' es = Ok (suites', h')"
      "suites = suite # suites'" "hs_cases suite \<noteq> []"
    by (auto simp: and_then_Ok map_err_Ok split: if_splits)
  from Cons.IH [OF b(2)] b show ?case by simp
qed simp

definition holdout_preimage :: "crates \<Rightarrow> dir_entry list \<Rightarrow> bytes" where
  "holdout_preimage X es = domain_preimage HOLDOUT_SET_DOMAIN (u64_le (of_nat (length es)) # file_fields X (holdout_files es))"

lemma load_strict_Ok:
  assumes "load_strict X from_slice dir = Ok (suites, d)"
  obtains es where "dir = Some (Ok es)" and "d = hex_encode X (sha256 X (holdout_preimage X es))"
    and "\<forall>e \<in> set es. \<exists>b. de_contents e = Ok b" and "suites \<noteq> []" and "\<forall>s \<in> set suites. hs_cases s \<noteq> []"
proof -
  from assms obtain es where es: "dir = Some (Ok es)" "es \<noteq> []"
    by (auto simp: load_strict_def and_then_Ok ok_or_Ok map_err_Ok split: if_splits)
  with assms obtain h where h: "load_suites X from_slice
      (put_field (put_field [] HOLDOUT_SET_DOMAIN) (u64_le (of_nat (length es)))) [] (sort_key de_name es) = Ok (suites, h)"
      "d = hex_encode X (sha256 X h)"
    by (auto simp: load_strict_def and_then_Ok ok_or_Ok map_err_Ok Let_def split: if_splits prod.splits)
  from load_suites_Ok [OF h(1)] have s: "\<forall>e \<in> set es. \<exists>b. de_contents e = Ok b" "length suites = length es"
      "\<forall>s \<in> set suites. hs_cases s \<noteq> []" "h = holdout_preimage X es"
    by (simp_all add: holdout_preimage_def domain_preimage_def holdout_files_def)
  have "suites \<noteq> []" using s(2) es(2) by auto
  with that es(1) s h(2) show ?thesis by blast
qed

lemma file_fields_inj:
  "file_fields X a = file_fields X b \<Longrightarrow> length a = length b \<Longrightarrow>
     a = b \<or> (\<exists>x \<in> snd ` set a. \<exists>y \<in> snd ` set b. sha_collision X x y)"
proof (induction a arbitrary: b)
  case (Cons f a)
  obtain n x where f: "f = (n, x)" by (cases f)
  from Cons.prems(2) obtain g b' where b: "b = g # b'" by (cases b) auto
  obtain m y where g: "g = (m, y)" by (cases g)
  from Cons.prems f b g have "n = m" "sha256 X x = sha256 X y" "file_fields X a = file_fields X b'" "length a = length b'" by simp_all
  with Cons.IH [of b'] f b g show ?case by (auto simp: sha_collision_def)
qed simp

lemma holdout_digest_binds:
  assumes "hex_ok X" and "sha_ok X" and "load_strict X p (Some (Ok es)) = Ok (suites, d)"
    and "load_strict X p' (Some (Ok es')) = Ok (suites', d)"
    and "list_all (fits \<circ> de_name) es" and "list_all (fits \<circ> de_name) es'" and "length es < 2 ^ 64" and "length es' < 2 ^ 64"
  shows "holdout_files es = holdout_files es' \<or> sha_collision X (holdout_preimage X es) (holdout_preimage X es')
     \<or> (\<exists>x \<in> snd ` set (holdout_files es). \<exists>y \<in> snd ` set (holdout_files es'). sha_collision X x y)"
proof -
  have small: "fits b" if "length b \<le> 32" for b using that by (simp add: fits_def)
  have ff: "list_all fits (file_fields X fs)" if "list_all (fits \<circ> fst) fs" for fs
    using that assms(2) by (induction fs rule: file_fields.induct [where ?a0.0 = X]) (auto simp: small sha_ok_def)
  have f: "list_all fits (u64_le (of_nat (length xs)) # file_fields X (holdout_files xs))" if "list_all (fits \<circ> de_name) xs" for xs
    using that ff [of "holdout_files xs"] by (simp add: holdout_files_def list_all_iff small)
  have dom: "fits HOLDOUT_SET_DOMAIN" by (simp add: fits_def HOLDOUT_SET_DOMAIN_def)
  have "d = hex_encode X (sha256 X (holdout_preimage X es))" by (rule load_strict_Ok [OF assms(3)]) simp
  moreover have "d = hex_encode X (sha256 X (holdout_preimage X es'))" by (rule load_strict_Ok [OF assms(4)]) simp
  ultimately have "domain_digest X HOLDOUT_SET_DOMAIN (u64_le (of_nat (length es)) # file_fields X (holdout_files es)) =
      domain_digest X HOLDOUT_SET_DOMAIN (u64_le (of_nat (length es')) # file_fields X (holdout_files es'))"
    by (simp add: domain_digest_preimage holdout_preimage_def)
  from domain_digest_binds [OF assms(1) dom f [OF assms(5)] dom f [OF assms(6)] this]
  consider "u64_le (of_nat (length es)) = u64_le (of_nat (length es'))" "file_fields X (holdout_files es) = file_fields X (holdout_files es')"
    | "sha_collision X (holdout_preimage X es) (holdout_preimage X es')"
    by (auto simp: holdout_preimage_def)
  then show ?thesis
  proof cases
    case 1
    have "length es = length es'"
      using 1(1) count_field_inj [OF assms(7,8)] by (simp add: count_field_def)
    then have "length (holdout_files es) = length (holdout_files es')" by (simp add: holdout_files_def)
    with file_fields_inj [OF 1(2)] show ?thesis by blast
  qed blast
qed

end
