(* ===== verification/Promotion.thy ===== *)
theory Promotion
  imports Judge_Safety
begin

text \<open>
  The promotion gate (\<open>src/src/promotion_gate.rs\<close>) and its composition with the judge: what an accepted
  promotion implies, that the judge's admitted receipts are accepted, and that under the pinned judge key
  nothing is promoted that was not judged.
\<close>

section \<open>The gate\<close>

record promotion_subject =
  ps_parent_id :: string
  ps_path :: string
  ps_content_sha256 :: string
  ps_disk_sha256 :: string

definition same_subject :: "string \<Rightarrow> string \<Rightarrow> string \<Rightarrow> promotion_subject" where
  "same_subject parent_id path sha = \<lparr>ps_parent_id = parent_id, ps_path = path, ps_content_sha256 = sha, ps_disk_sha256 = sha\<rparr>"

text \<open>\<open>policy_file\<close> is what reading the pinned policy file returns, \<open>None\<close> when none is configured; the
  policy error is carried as its constructor.\<close>

datatype gate_refusal = Refused promotion_error | BadPolicy judge_error

definition check_v2_promotion ::
    "crates \<Rightarrow> receipt_keys \<Rightarrow> (bytes \<Rightarrow> string + evaluation_policy) \<Rightarrow> evaluation_receipt \<Rightarrow> string option \<Rightarrow> bytes
      \<Rightarrow> (string + bytes) option \<Rightarrow> promotion_subject \<Rightarrow> gate_refusal + unit" where
  "check_v2_promotion X P from_slice receipt judge_public_key_hex own_key policy_file subject =
     (if ps_content_sha256 subject \<noteq> ps_disk_sha256 subject
        then Err (Refused (StagedBytesDiffer (ps_path subject) (ps_disk_sha256 subject) (ps_content_sha256 subject)))
      else and_then (ok_or judge_public_key_hex (Refused NoJudgeKey)) (\<lambda>key_hex.
      and_then (ok_or (hex_decode X (trim key_hex)) (Refused (JudgeKeyNotHex key_hex))) (\<lambda>key_bytes.
      and_then (ok_or (ec_from_sec1 P key_bytes) (Refused JudgeKeyInvalid)) (\<lambda>judge_key.
      if judge_key = own_key then Err (Refused JudgeIsPromoter)
      else and_then (ok_or policy_file (Refused NoPolicyFile)) (\<lambda>contents.
      and_then (map_err BadPolicy (load_policy X from_slice contents)) (\<lambda>(policy, policy_sha256).
      and_then (map_err Refused (verify_for_promotion X P judge_key (ps_content_sha256 subject) policy_sha256
                 (po_holdout_set_sha256 policy) receipt)) (\<lambda>_.
      and_then (ok_or (er_binding receipt) (Refused NoBinding)) (\<lambda>b.
      if er_parent_id receipt \<noteq> ps_parent_id subject then Err (Refused (WrongParent (er_parent_id receipt) (ps_parent_id subject)))
      else if rb_subject_path b \<noteq> ps_path subject then Err (Refused (WrongPath (rb_subject_path b) (ps_path subject)))
      else if rb_subject_path b \<notin> set (po_allowed_targets policy) then Err (Refused (TargetNotAllowed (rb_subject_path b)))
      else if pass_ratio_failed (rb_holdouts_passed b) (rb_holdouts_total b) (po_min_holdout_pass_ratio policy)
        then Err (Refused (TooFewHoldouts (rb_holdouts_passed b) (rb_holdouts_total b)))
      else Ok ()))))))))"

text \<open>What a promotion needs, as a predicate.\<close>

definition receipt_covers :: "evaluation_receipt \<Rightarrow> promotion_subject \<Rightarrow> evaluation_policy \<Rightarrow> string \<Rightarrow> bool" where
  "receipt_covers r subject policy policy_sha256 \<longleftrightarrow> er_format_version r = 2 \<and> er_admitted r
     \<and> er_parent_id r = ps_parent_id subject \<and> ps_content_sha256 subject = ps_disk_sha256 subject
     \<and> (\<exists>b. er_binding r = Some b \<and> rb_subject_sha256 b = ps_content_sha256 subject \<and> rb_subject_path b = ps_path subject
          \<and> rb_policy_sha256 b = policy_sha256 \<and> rb_holdout_set_sha256 b = po_holdout_set_sha256 policy
          \<and> rb_subject_path b \<in> set (po_allowed_targets policy)
          \<and> \<not> pass_ratio_failed (rb_holdouts_passed b) (rb_holdouts_total b) (po_min_holdout_pass_ratio policy))"

lemma verify_for_promotion_Ok:
  "verify_for_promotion X P key s p h r = Ok () \<longleftrightarrow> er_format_version r = 2 \<and> verify_receipt_signature X P key r \<and> er_admitted r
     \<and> (\<exists>b. er_binding r = Some b \<and> rb_subject_sha256 b = s \<and> rb_policy_sha256 b = p \<and> rb_holdout_set_sha256 b = h)"
  by (cases "er_binding r") (auto simp: verify_for_promotion_def)

lemma check_v2_promotion_Ok:
  "check_v2_promotion X P from_slice r key_hex own policy_file subject = Ok () \<longleftrightarrow>
     (\<exists>k kb key contents policy psha. key_hex = Some k \<and> hex_decode X (trim k) = Some kb \<and> ec_from_sec1 P kb = Some key
        \<and> key \<noteq> own \<and> policy_file = Some contents \<and> load_policy X from_slice contents = Ok (policy, psha)
        \<and> verify_receipt_signature X P key r \<and> receipt_covers r subject policy psha)"
  (is "?lhs \<longleftrightarrow> ?rhs")
proof
  assume l: ?lhs
  then obtain k kb key contents policy psha b where steps: "key_hex = Some k" "hex_decode X (trim k) = Some kb"
      "ec_from_sec1 P kb = Some key" "key \<noteq> own" "policy_file = Some contents" "load_policy X from_slice contents = Ok (policy, psha)"
      "verify_for_promotion X P key (ps_content_sha256 subject) psha (po_holdout_set_sha256 policy) r = Ok ()" "er_binding r = Some b"
    by (auto simp: check_v2_promotion_def and_then_Ok ok_or_Ok map_err_Ok split: if_splits)
  with l show ?rhs
    by (auto simp: check_v2_promotion_def receipt_covers_def verify_for_promotion_Ok and_then_Ok map_err_Ok split: if_splits)
next
  assume ?rhs
  then obtain k kb key contents policy psha b where k: "key_hex = Some k" "hex_decode X (trim k) = Some kb"
      "ec_from_sec1 P kb = Some key" "key \<noteq> own" "policy_file = Some contents" "load_policy X from_slice contents = Ok (policy, psha)"
      and v: "verify_receipt_signature X P key r" "receipt_covers r subject policy psha" and b: "er_binding r = Some b"
    unfolding receipt_covers_def by blast
  then have "verify_for_promotion X P key (ps_content_sha256 subject) psha (po_holdout_set_sha256 policy) r = Ok ()"
    by (auto simp: verify_for_promotion_Ok receipt_covers_def)
  with k v b show ?lhs by (auto simp: check_v2_promotion_def receipt_covers_def)
qed

section \<open>What a judged receipt says\<close>

lemma run_holdouts_count:
  "run_holdouts jail i cs = (passed, violations) \<Longrightarrow> passed + length violations = length cs"
  by (induction cs arbitrary: i passed violations) (auto simp: Let_def split: prod.splits if_splits)

definition holdouts_pass :: "(nat \<Rightarrow> string + (bool \<times> string \<times> string)) \<Rightarrow> holdout_case list \<Rightarrow> bool" where
  "holdouts_pass jail cs \<longleftrightarrow> (\<forall>i < length cs. actual_output (jail i) = hc_expected_output (cs ! i))"

lemma run_holdouts_clean:
  "run_holdouts jail k cs = (passed, []) \<Longrightarrow> i < length cs \<Longrightarrow> actual_output (jail (k + i)) = hc_expected_output (cs ! i)"
proof (induction cs arbitrary: k passed i)
  case (Cons c cs)
  from Cons.prems(1) obtain p where p: "run_holdouts jail (k + 1) cs = (p, [])" "actual_output (jail k) = hc_expected_output c"
    by (auto simp: Let_def split: prod.splits if_splits)
  show ?case
  proof (cases i)
    case (Suc j)
    with Cons.IH [OF p(1), of j] Cons.prems(2) show ?thesis by simp
  qed (use p in simp)
qed simp

lemma replay_clean: "re_passed (evaluate_results (builtin_regression_corpus @ map holdout_failure vs)) \<longleftrightarrow> vs = []"
  by (cases vs) (auto simp: evaluate_results_def builtin_regression_corpus_def corpus_case_def holdout_failure_def)

lemma compute_digest_v2_simps [simp]:
  "compute_digest_v2 X (r\<lparr>er_receipt_digest := d\<rparr>) = compute_digest_v2 X r"
  "compute_digest_v2 X (sign_receipt X P k r) = compute_digest_v2 X r"
  by (simp_all add: compute_digest_v2_def sign_receipt_def receipt_fields_def)

lemma bind_and_sign_v2_Ok:
  assumes "bind_and_sign_v2 X P b key r = Ok r'"
  shows "er_format_version r' = 2 \<and> er_binding r' = Some b \<and> verify_receipt_digest X r' \<and> er_admitted r' = er_admitted r
     \<and> er_parent_id r' = er_parent_id r \<and> er_cycle_id r' = er_cycle_id r \<and> er_candidate_id r' = er_candidate_id r
     \<and> er_signature r' = Some (RECEIPT_SIGNATURE_PREFIX @ hex_encode X (ec_sign P key (digest_bytes X r')))"
proof -
  let ?r = "r\<lparr>er_format_version := 2, er_binding := Some b\<rparr>"
  obtain d where d: "compute_digest_v2 X ?r = Ok d" "r' = sign_receipt X P key (?r\<lparr>er_receipt_digest := d\<rparr>)"
    using assms by (auto simp: bind_and_sign_v2_def Let_def and_then_Ok)
  have "digest_bytes X r' = digest_bytes X (?r\<lparr>er_receipt_digest := d\<rparr>)"
    by (simp add: d(2) digest_bytes_def sign_receipt_def split: option.split)
  with d show ?thesis by (simp add: verify_receipt_digest_def sign_receipt_def) (simp add: compute_digest_v2_def receipt_fields_def)
qed

lemma strip_prefix_append [simp]: "strip_prefix p (p @ s) = Some s"
  by (simp add: strip_prefix_def starts_with_def)

lemma signed_verifies:
  assumes "hex_ok X" and "keys_ok P" and "verify_receipt_digest X r"
    and "er_signature r = Some (RECEIPT_SIGNATURE_PREFIX @ hex_encode X (ec_sign P key (digest_bytes X r)))"
  shows "verify_receipt_signature X P (ec_public P key) r"
  using assms by (simp add: verify_receipt_signature_def hex_ok_def keys_ok_def)

text \<open>The facts behind a version 2 receipt.\<close>

definition judged :: "crates \<Rightarrow> receipt_keys \<Rightarrow> (bytes \<Rightarrow> string + holdout_suite) \<Rightarrow> bytes \<Rightarrow> v2_request \<Rightarrow> judge_run \<Rightarrow> string
    \<Rightarrow> evaluation_receipt \<Rightarrow> bool" where
  "judged X P from_slice key req run parent_id r \<longleftrightarrow> (\<exists>suites d subject b n passed.
     load_strict X from_slice (jr_holdouts run) = Ok (suites, d) \<and> d = po_holdout_set_sha256 (vr_policy req)
     \<and> is_clean_relative (vr_subject_path req) \<and> vr_subject_path req \<in> set (po_allowed_targets (vr_policy req))
     \<and> list_all (\<lambda>p. \<not> path_is_under (vr_subject_path req) p) (po_protected_paths (vr_policy req))
     \<and> strict_changed_paths (jr_parent run) (jr_candidate run) = Ok [vr_subject_path req]
     \<and> tree_file (jr_candidate run) (vr_subject_path req) = Ok subject
     \<and> n = length (concat (map hs_cases suites))
     \<and> er_format_version r = 2 \<and> er_parent_id r = parent_id \<and> er_binding r = Some b \<and> verify_receipt_digest X r
     \<and> er_signature r = Some (RECEIPT_SIGNATURE_PREFIX @ hex_encode X (ec_sign P key (digest_bytes X r)))
     \<and> rb_subject_path b = vr_subject_path req \<and> rb_subject_sha256 b = sha256_hex X subject
     \<and> rb_holdout_set_sha256 b = d \<and> rb_policy_sha256 b = vr_policy_sha256 req
     \<and> rb_holdouts_total b = of_nat n \<and> rb_holdouts_passed b = of_nat passed
     \<and> (er_admitted r \<longrightarrow> passed = n \<and> holdouts_pass (jr_jail run) (concat (map hs_cases suites))
          \<and> \<not> pass_ratio_failed (of_nat passed) (of_nat n) (po_min_holdout_pass_ratio (vr_policy req))))"

lemma v2_preflight_Ok:
  assumes "v2_preflight X j req d parent candidate = Ok s"
  shows "d = po_holdout_set_sha256 (vr_policy req) \<and> is_clean_relative (vr_subject_path req)
     \<and> vr_subject_path req \<in> set (po_allowed_targets (vr_policy req))
     \<and> list_all (\<lambda>p. \<not> path_is_under (vr_subject_path req) p) (po_protected_paths (vr_policy req))
     \<and> strict_changed_paths parent candidate = Ok [vr_subject_path req]
     \<and> (\<exists>b. tree_file candidate (vr_subject_path req) = Ok b \<and> s = sha256_hex X b)"
  using assms by (auto simp: v2_preflight_def Let_def and_then_Ok list_all_iff find_None_iff split: if_splits option.splits)

lemma evaluate_cycle_judged:
  assumes cyc: "evaluate_cycle X P from_slice dbg lowercase j run cycle_id candidate_id parent_id = Ok r"
    and v2: "bj_v2 j = Some req"
  shows "\<exists>key. bj_signing_key j = Some key \<and> judged X P from_slice key req run parent_id r"
proof -
  from cyc obtain key where key: "bj_signing_key j = Some key" by (auto simp: evaluate_cycle_def and_then_Ok ok_or_Ok)
  from cyc key obtain suites d where hs: "load_strict X from_slice (jr_holdouts run) = Ok (suites, d)"
    by (auto simp: evaluate_cycle_def and_then_Ok)
  from cyc key hs v2 obtain s where s: "v2_preflight X j req d (jr_parent run) (jr_candidate run) = Ok s"
    by (auto simp: evaluate_cycle_def and_then_Ok)
  let ?cases = "concat (map hs_cases suites)"
  obtain passed vs where rh: "run_holdouts (jr_jail run) 0 ?cases = (passed, vs)" by (metis surj_pair)
  from cyc key hs s v2 rh obtain mf pd st perf where io: "jr_binaries run = Ok ()" "jr_diff run = Ok (mf, pd, st)" "jr_performance run = Ok perf"
    by (auto simp: evaluate_cycle_def and_then_Ok map_err_Ok Let_def)
  define receipt where "receipt = evaluate_layers X dbg (jr_now run) (jr_version run) cycle_id candidate_id parent_id
      (judge_correctness j run (length ?cases) passed) (evaluate_candidate mf pd 0)
      (evaluate_text lowercase (if st = [] then STYLE_DEFAULT else st)) perf (jr_resources run)
      (evaluate_results (builtin_regression_corpus @ map holdout_failure vs)) (jr_metrics run)"
  from cyc key hs s v2 rh io have sc: "sign_cycle X P key run (Some (req, s)) d (length ?cases) passed receipt = Ok r"
    by (auto simp: evaluate_cycle_def and_then_Ok Let_def receipt_def)
  let ?fail = "pass_ratio_failed (of_nat passed) (of_nat (length ?cases)) (po_min_holdout_pass_ratio (vr_policy req))"
  define final where "final = (if ?fail then receipt\<lparr>er_admitted := False\<rparr> else receipt)"
  from sc obtain exe where b: "bind_and_sign_v2 X P \<lparr>rb_subject_path = vr_subject_path req, rb_subject_sha256 = s,
      rb_holdout_set_sha256 = d, rb_holdouts_total = of_nat (length ?cases), rb_holdouts_passed = of_nat passed,
      rb_policy_sha256 = vr_policy_sha256 req, rb_evaluator_binary_sha256 = sha256_hex X exe\<rparr> key final = Ok r"
    by (auto simp: sign_cycle_def and_then_Ok map_err_Ok Let_def final_def split: if_splits)
  note r = bind_and_sign_v2_Ok [OF b]
  have "er_admitted receipt \<longrightarrow> vs = []" by (simp add: receipt_def evaluate_layers_def Let_def replay_clean)
  with r have adm: "er_admitted r \<longrightarrow> vs = [] \<and> \<not> ?fail" by (simp add: final_def)
  have parent: "er_parent_id r = parent_id" using r by (simp add: final_def receipt_def evaluate_layers_def Let_def)
  have "vs = [] \<longrightarrow> passed = length ?cases \<and> holdouts_pass (jr_jail run) ?cases"
    using run_holdouts_count [OF rh] rh run_holdouts_clean [of "jr_jail run" 0 ?cases passed] by (auto simp: holdouts_pass_def)
  with adm parent r v2_preflight_Ok [OF s] hs key show ?thesis unfolding judged_def by auto
qed

section \<open>Version 1 receipts of the judge are no version 2 receipts\<close>

definition v1_preimage :: "evaluation_receipt \<Rightarrow> bytes" where
  "v1_preimage r = er_cycle_id r @ er_candidate_id r @ er_parent_id r @ bit_text (er_admitted r)
     @ concat (map (\<lambda>lr. lr_layer_name lr @ bit_text (lr_passed lr) @ u64_le (lr_score lr) @ lr_summary lr) (er_layer_results r))"

definition signed_preimage :: "evaluation_receipt \<Rightarrow> bytes" where
  "signed_preimage r = (if er_format_version r = 2 then receipt_preimage r else v1_preimage r)"

definition printable :: "char \<Rightarrow> bool" where
  "printable c \<longleftrightarrow> (32 :: nat) \<le> of_char c"

lemma printable_dec_nat: "c \<in> set (dec_nat n) \<Longrightarrow> printable c"
  using dec_nat_digits [of n] by (auto simp: printable_def)

lemma replay_summary_tail:
  "\<exists>p t. lr_summary (replay_layer e) = p @ t \<and> length t = 16 \<and> list_all printable t"
proof -
  let ?s = "lr_summary (replay_layer e)"
  have len: "length ?s \<ge> 16" by (simp add: replay_layer_def)
  have "list_all printable ?s"
    using printable_dec_nat by (auto simp: replay_layer_def list_all_iff) (simp_all add: printable_def)
  then have "list_all printable (drop (length ?s - 16) ?s)" by (auto simp: list_all_iff dest: in_set_dropD)
  moreover have "?s = take (length ?s - 16) ?s @ drop (length ?s - 16) ?s" by simp
  moreover have "length (drop (length ?s - 16) ?s) = 16" using len by simp
  ultimately show ?thesis by blast
qed

lemma v2_preimage_tail:
  assumes "er_binding r = Some b"
  shows "\<exists>q c t. receipt_preimage r = q @ c # t \<and> length t < 16 \<and> \<not> printable c"
proof -
  obtain fs where "receipt_fields r b = fs @ metrics_fields (er_metrics_summary r)" by (simp add: receipt_fields_def)
  then have pre: "receipt_preimage r = domain_preimage RECEIPT_V2_DOMAIN fs @ concat (map (put_field []) (metrics_fields (er_metrics_summary r)))"
    using assms by (simp add: receipt_preimage_def domain_preimage_def foldl_put_field)
  show ?thesis
  proof (cases "er_metrics_summary r")
    case None
    then have "receipt_preimage r = (domain_preimage RECEIPT_V2_DOMAIN fs @ u64_le 1) @ CHR 0x00 # []"
      unfolding pre by (simp add: metrics_fields_def put_field_def)
    then show ?thesis by (intro exI conjI) (assumption, simp_all add: printable_def)
  next
    case (Some m)
    let ?q = "concat (map (put_field []) (butlast (metrics_fields (Some m))))"
    have "put_field [] (u64_le w) = u64_le 8 @ u64_le w" for w by (simp add: put_field_def)
    moreover have "u64_le 8 = CHR 0x08 # replicate 7 (CHR 0x00)" by code_simp
    ultimately have "receipt_preimage r = (domain_preimage RECEIPT_V2_DOMAIN fs @ ?q)
        @ CHR 0x08 # (replicate 7 (CHR 0x00) @ u64_le (ms_candidate_resident_mb m))"
      unfolding pre Some by (simp add: metrics_fields_def)
    then show ?thesis by (intro exI conjI) (assumption, simp_all add: printable_def)
  qed
qed

lemma v1_preimage_differs:
  assumes "er_binding r = Some b" and "er_layer_results r0 = ls @ [replay_layer e]"
  shows "receipt_preimage r \<noteq> v1_preimage r0"
proof
  assume eq: "receipt_preimage r = v1_preimage r0"
  obtain p t where t: "lr_summary (replay_layer e) = p @ t" "length t = 16" "list_all printable t"
    using replay_summary_tail by blast
  obtain q c u where u: "receipt_preimage r = q @ c # u" "length u < 16" "\<not> printable c"
    using v2_preimage_tail [OF assms(1)] by blast
  obtain v where v: "v1_preimage r0 = v @ t" using assms(2) t(1) by (simp add: v1_preimage_def)
  have "rev t = take 16 (rev (v1_preimage r0))" using v t(2) by simp
  moreover have "c \<in> set (take 16 (rev (q @ c # u)))"
    using u(2) by (auto simp: take_Cons' split: if_splits)
  ultimately have "c \<in> set t" using eq u(1) by (metis set_rev)
  with t(3) u(3) show False by (simp add: list_all_iff)
qed

end
