(* ===== verification/Promotion_Safety.thy ===== *)
theory Promotion_Safety
  imports Promotion
begin

text \<open>
  The judge and the promotion gate together: what the receipt digest commits to, which receipts the gate
  accepts, and that under a judge key used only by the judge nothing is promoted that was not judged.
\<close>

section \<open>What the judge issues\<close>

lemma v1_cycle:
  assumes "evaluate_cycle X P from_slice dbg lowercase j run cycle_id candidate_id parent_id = Ok r" and "bj_v2 j = None"
  shows "er_format_version r = 1 \<and> er_binding r = None \<and> er_receipt_digest r = hex_encode X (sha256 X (v1_preimage r))
     \<and> (\<exists>ls e. er_layer_results r = ls @ [replay_layer e])"
proof -
  from assms(1) obtain key suites d where key: "bj_signing_key j = Some key" "load_strict X from_slice (jr_holdouts run) = Ok (suites, d)"
    by (auto simp: evaluate_cycle_def and_then_Ok ok_or_Ok)
  obtain passed vs where rh: "run_holdouts (jr_jail run) 0 (concat (map hs_cases suites)) = (passed, vs)" by (metis surj_pair)
  from assms key rh obtain mf pd st perf where io: "jr_binaries run = Ok ()" "jr_diff run = Ok (mf, pd, st)" "jr_performance run = Ok perf"
    by (auto simp: evaluate_cycle_def and_then_Ok map_err_Ok Let_def)
  define receipt where "receipt = evaluate_layers X dbg (jr_now run) (jr_version run) cycle_id candidate_id parent_id
      (judge_correctness j run (length (concat (map hs_cases suites))) passed) (evaluate_candidate mf pd 0)
      (evaluate_text lowercase (if st = [] then STYLE_DEFAULT else st)) perf (jr_resources run)
      (evaluate_results (builtin_regression_corpus @ map holdout_failure vs)) (jr_metrics run)"
  from assms key rh io have r: "r = sign_receipt X P key receipt"
    by (auto simp: evaluate_cycle_def sign_cycle_def and_then_Ok Let_def receipt_def)
  have "\<exists>ls e. er_layer_results receipt = ls @ [replay_layer e]"
    by (simp add: receipt_def evaluate_layers_def Let_def flip: append_Cons) (metis append_Cons append_Nil)
  with r show ?thesis
    by (simp add: sign_receipt_def v1_preimage_def) (simp add: receipt_def evaluate_layers_def Let_def compute_digest_def)
qed

lemma v2_digest:
  assumes "hex_ok X" and "er_format_version r = 2" and "verify_receipt_digest X r"
  shows "er_binding r \<noteq> None \<and> digest_bytes X r = sha256 X (receipt_preimage r)"
proof -
  from assms(2,3) obtain b where b: "er_binding r = Some b" "compute_digest_v2 X r = Ok (er_receipt_digest r)"
    by (auto simp: verify_receipt_digest_def split: if_splits)
  then have "er_receipt_digest r = hex_encode X (sha256 X (receipt_preimage r))"
    by (simp add: compute_digest_v2_def receipt_preimage_def domain_digest_preimage)
  with assms(1) b show ?thesis by (simp add: digest_bytes_def hex_ok_def)
qed

lemma issued_digest:
  assumes "hex_ok X" and "evaluate_cycle X P from_slice dbg lowercase j run cycle_id candidate_id parent_id = Ok r"
  shows "digest_bytes X r = sha256 X (signed_preimage r)"
proof (cases "bj_v2 j")
  case None
  from v1_cycle [OF assms(2) None] assms(1) show ?thesis by (simp add: signed_preimage_def digest_bytes_def hex_ok_def)
next
  case (Some req)
  from evaluate_cycle_judged [OF assms(2) Some] have "er_format_version r = 2" "verify_receipt_digest X r" by (auto simp: judged_def)
  with v2_digest [OF assms(1)] show ?thesis by (simp add: signed_preimage_def)
qed

lemma same_preimage_same_receipt:
  assumes "hex_ok X" and "receipt_fits r" and "receipt_fits r'" and "er_binding r = Some b" and "er_binding r' = Some b'"
    and "receipt_preimage r = receipt_preimage r'"
  shows "same_receipt r r'"
proof -
  have "compute_digest_v2 X r = compute_digest_v2 X r'"
    using assms(4-6) by (simp add: compute_digest_v2_def receipt_preimage_def domain_digest_preimage)
  with receipt_digest_binds [OF assms(1-5)] assms(6) show ?thesis by (simp add: sha_collision_def)
qed

lemma same_receipt_fields:
  assumes "same_receipt r r'"
  shows "er_parent_id r = er_parent_id r'" "er_admitted r = er_admitted r'" "er_binding r = er_binding r'"
  using assms unfolding same_receipt_def by (cases r; cases r'; simp)+

section \<open>Properties\<close>

text \<open>The digest of a version 2 receipt commits to every field it covers: two receipts whose stored digests verify
  and are equal agree on everything but the signature, or their preimages collide under SHA-256.\<close>

theorem receipt_digest_commits:
  assumes "hex_ok X" and "receipt_fits r" and "receipt_fits r'" and "er_format_version r = 2" and "er_format_version r' = 2"
    and "verify_receipt_digest X r" and "verify_receipt_digest X r'" and "er_receipt_digest r = er_receipt_digest r'"
  shows "same_receipt r r' \<or> sha_collision X (receipt_preimage r) (receipt_preimage r')"
proof -
  obtain b b' where b: "er_binding r = Some b" "er_binding r' = Some b'"
    using v2_digest [OF assms(1,4,6)] v2_digest [OF assms(1,5,7)] by blast
  have "compute_digest_v2 X r = compute_digest_v2 X r'"
    using assms(4-8) b by (simp add: verify_receipt_digest_def)
  with receipt_digest_binds [OF assms(1-3) b] show ?thesis .
qed

text \<open>C33: The promotion gate accepts exactly the changes that a version 2 receipt of the pinned judge key covers:
  the key is not the promoter's own, the signature verifies, and subject, parent, policy, holdout set, target and holdout
  ratio are those of the operator's policy and of the staged bytes.\<close>

theorem promotion_gate_exact:
  "check_v2_promotion X P from_slice r key_hex own policy_file subject = Ok () \<longleftrightarrow>
     (\<exists>k kb key contents policy psha. key_hex = Some k \<and> hex_decode X (trim k) = Some kb \<and> ec_from_sec1 P kb = Some key
        \<and> key \<noteq> own \<and> policy_file = Some contents \<and> load_policy X from_slice contents = Ok (policy, psha)
        \<and> verify_receipt_signature X P key r \<and> receipt_covers r subject policy psha)"
  by (rule check_v2_promotion_Ok)

text \<open>C32: The composition of the judge and the gate is live: an admitted version 2 receipt the judge has issued is
  accepted by a gate that pins the judge's key and the judge's policy, for the file that was judged, on the parent it was
  judged against.\<close>

theorem judged_receipt_promotes:
  assumes "hex_ok X" and "keys_ok P"
    and "evaluate_cycle X P from_suite dbg lowercase j run cycle_id candidate_id parent_id = Ok r" and "er_admitted r"
    and "bj_v2 j = Some req" and "bj_signing_key j = Some key"
    and "load_policy X from_slice contents = Ok (vr_policy req, vr_policy_sha256 req)"
    and "hex_decode X (trim k) = Some kb" and "ec_from_sec1 P kb = Some (ec_public P key)" and "ec_public P key \<noteq> own"
    and "tree_file (jr_candidate run) (vr_subject_path req) = Ok b"
  shows "check_v2_promotion X P from_slice r (Some k) own (Some contents)
    (same_subject parent_id (vr_subject_path req) (sha256_hex X b)) = Ok ()"
proof -
  have j: "judged X P from_suite key req run parent_id r" using evaluate_cycle_judged [OF assms(3,5)] assms(6) by simp
  then have "verify_receipt_signature X P (ec_public P key) r"
    using signed_verifies [OF assms(1,2)] by (auto simp: judged_def)
  moreover have "receipt_covers r (same_subject parent_id (vr_subject_path req) (sha256_hex X b)) (vr_policy req) (vr_policy_sha256 req)"
    using j assms(4,11) by (auto simp: judged_def receipt_covers_def same_subject_def)
  ultimately show ?thesis using assms(7-10) unfolding check_v2_promotion_Ok by blast
qed

text \<open>One run of the judge, and a judge key that signs nothing but the digests of the receipts of such runs.\<close>

record judge_call =
  jc_judge :: blind_judge
  jc_run :: judge_run
  jc_cycle_id :: string
  jc_candidate_id :: string
  jc_parent_id :: string

definition issues ::
    "crates \<Rightarrow> receipt_keys \<Rightarrow> (bytes \<Rightarrow> string + holdout_suite) \<Rightarrow> (string \<Rightarrow> string) \<Rightarrow> (string \<Rightarrow> string) \<Rightarrow> judge_call
      \<Rightarrow> evaluation_receipt \<Rightarrow> bool" where
  "issues X P from_suite dbg lowercase c r \<longleftrightarrow>
     evaluate_cycle X P from_suite dbg lowercase (jc_judge c) (jc_run c) (jc_cycle_id c) (jc_candidate_id c) (jc_parent_id c) = Ok r"

definition signs_only_judged ::
    "crates \<Rightarrow> receipt_keys \<Rightarrow> (bytes \<Rightarrow> string + holdout_suite) \<Rightarrow> (string \<Rightarrow> string) \<Rightarrow> (string \<Rightarrow> string) \<Rightarrow> bytes
      \<Rightarrow> judge_call list \<Rightarrow> bool" where
  "signs_only_judged X P from_suite dbg lowercase key history \<longleftrightarrow>
     (\<forall>m s. ec_verify P key m s \<longrightarrow>
        (\<exists>c \<in> set history. \<exists>r. issues X P from_suite dbg lowercase c r \<and> receipt_fits r \<and> m = digest_bytes X r))"

text \<open>The call evaluated, on trees that differ in the subject only, a candidate whose subject has the promoted bytes, and
  admitted it with every holdout passed under the loaded holdout set.\<close>

definition evaluated_change :: "crates \<Rightarrow> (bytes \<Rightarrow> string + holdout_suite) \<Rightarrow> judge_call \<Rightarrow> promotion_subject \<Rightarrow> bool" where
  "evaluated_change X from_suite c subject \<longleftrightarrow> (\<exists>b suites d.
     jc_parent_id c = ps_parent_id subject
     \<and> strict_changed_paths (jr_parent (jc_run c)) (jr_candidate (jc_run c)) = Ok [ps_path subject]
     \<and> tree_file (jr_candidate (jc_run c)) (ps_path subject) = Ok b \<and> sha256_hex X b = ps_disk_sha256 subject
     \<and> load_strict X from_suite (jr_holdouts (jc_run c)) = Ok (suites, d)
     \<and> holdouts_pass (jr_jail (jc_run c)) (concat (map hs_cases suites)))"

text \<open>C8: Nothing is promoted that was not judged.  If the pinned key verifies only digests of receipts the judge has
  issued, an accepted promotion is of a receipt that one of those runs issued, the run compared trees that differ only in
  the promoted file with the promoted bytes and every holdout passed there, or the receipt collides under SHA-256 with one
  the judge did issue.  A version 1 receipt of the judge can not be passed off as a version 2 receipt.\<close>

theorem nothing_promoted_unjudged:
  assumes "hex_ok X" and "receipt_fits r"
    and "check_v2_promotion X P from_slice r (Some k) own policy_file subject = Ok ()"
    and "hex_decode X (trim k) = Some kb" and "ec_from_sec1 P kb = Some key"
    and "signs_only_judged X P from_suite dbg lowercase key history"
  shows "\<exists>c \<in> set history. \<exists>r0. issues X P from_suite dbg lowercase c r0
     \<and> (same_receipt r r0 \<and> evaluated_change X from_suite c subject \<or> sha_collision X (receipt_preimage r) (signed_preimage r0))"
proof -
  from assms(3-5) obtain policy psha where v: "verify_receipt_signature X P key r" and cov: "receipt_covers r subject policy psha"
    unfolding check_v2_promotion_Ok by auto
  from v obtain s where "verify_receipt_digest X r" "ec_verify P key (digest_bytes X r) s"
    by (auto simp: verify_receipt_signature_def Let_def split: if_splits option.splits)
  moreover from cov obtain b where b: "er_format_version r = 2" "er_binding r = Some b" "er_admitted r"
      "er_parent_id r = ps_parent_id subject" "rb_subject_sha256 b = ps_disk_sha256 subject" "rb_subject_path b = ps_path subject"
    by (auto simp: receipt_covers_def)
  ultimately obtain c r0 where c: "c \<in> set history" "issues X P from_suite dbg lowercase c r0" "receipt_fits r0"
      "digest_bytes X r = digest_bytes X r0" "digest_bytes X r = sha256 X (receipt_preimage r)"
    using assms(6) v2_digest [OF assms(1)] unfolding signs_only_judged_def by metis
  note run = c(2) [unfolded issues_def]
  have sha: "sha256 X (receipt_preimage r) = sha256 X (signed_preimage r0)"
    using c(4,5) issued_digest [OF assms(1) run] by simp
  show ?thesis
  proof (cases "receipt_preimage r = signed_preimage r0")
    case False
    with sha c(1,2) show ?thesis by (auto simp: sha_collision_def)
  next
    case True
    show ?thesis
    proof (cases "bj_v2 (jc_judge c)")
      case None
      with v1_cycle [OF run] True have "receipt_preimage r = v1_preimage r0" "\<exists>ls e. er_layer_results r0 = ls @ [replay_layer e]"
        by (simp_all add: signed_preimage_def)
      with v1_preimage_differs [OF b(2)] show ?thesis by blast
    next
      case (Some req)
      then obtain sk where j: "judged X P from_suite sk req (jc_run c) (jc_parent_id c) r0" using evaluate_cycle_judged [OF run] by blast
      then obtain b0 where b0: "er_format_version r0 = 2" "er_binding r0 = Some b0" by (auto simp: judged_def)
      have same: "same_receipt r r0"
        using same_preimage_same_receipt [OF assms(1,2) c(3) b(2) b0(2)] True b0(1) by (simp add: signed_preimage_def)
      then have "evaluated_change X from_suite c subject"
        using j b same_receipt_fields [OF same] unfolding judged_def evaluated_change_def by auto
      with same c(1,2) show ?thesis by blast
    qed
  qed
qed

text \<open>The strict comparison of the two trees reports exactly the regular files that differ, including files
  present on one side only, once each and in order; only \<open>.git\<close> and \<open>target\<close> at the root are left out.\<close>

theorem strict_diff_exact:
  assumes "strict_changed_paths (Folder es) (Folder es') = Ok changed" and "tree_ok es" and "tree_ok es'"
  shows "sorted changed \<and> distinct changed
    \<and> (\<forall>cs. compared_path cs \<longrightarrow> (join ''/'' cs \<in> set changed \<longleftrightarrow> file_at es cs \<noteq> file_at es' cs))"
  using changed_sorted [OF assms(1)] changed_exact [OF assms] by blast

text \<open>The holdout digest a policy pins commits to the names and the bytes of all holdout files: two directories
  that load with the same digest hold the same files, or two of the hashed texts collide.\<close>

theorem holdout_digest_commits:
  assumes "hex_ok X" and "sha_ok X" and "load_strict X p (Some (Ok es)) = Ok (suites, d)"
    and "load_strict X p' (Some (Ok es')) = Ok (suites', d)"
    and "list_all (fits \<circ> de_name) es" and "list_all (fits \<circ> de_name) es'" and "length es < 2 ^ 64" and "length es' < 2 ^ 64"
  shows "holdout_files es = holdout_files es' \<or> sha_collision X (holdout_preimage X es) (holdout_preimage X es')
     \<or> (\<exists>x \<in> snd ` set (holdout_files es). \<exists>y \<in> snd ` set (holdout_files es'). sha_collision X x y)"
  by (rule holdout_digest_binds [OF assms])

end
