(* ===== verification/Promotion_Examples.thy ===== *)
theory Promotion_Examples
  imports Promotion_Safety Sample
begin

text \<open>
  The judge and the gate on concrete inputs: one run of the judge over two small trees and one holdout file, its
  signed receipt, and the gate that accepts it.  They show that the hypotheses of the properties hold together.
\<close>

section \<open>A run of the judge\<close>

definition sample_keys :: receipt_keys where
  "sample_keys = \<lparr>ec_sign = (\<lambda>k b. k @ b), ec_from_slice = (\<lambda>_. True), ec_verify = (\<lambda>pk b s. s = pk @ b),
     ec_public = (\<lambda>k. k), ec_from_sec1 = Some\<rparr>"

definition sample_suite :: holdout_suite where
  "sample_suite = \<lparr>hs_suite_id = ''s'', hs_name = ''s'', hs_cases = [\<lparr>hc_id = ''1'', hc_name = ''n'', hc_input = ''i'',
     hc_expected_output = ''ok'', hc_category = ''c''\<rparr>]\<rparr>"

definition sample_dir :: "bytes \<Rightarrow> dir_entry list" where
  "sample_dir b = [\<lparr>de_name = ''a.json'', de_is_file = True, de_contents = Ok b\<rparr>]"

definition sample_digest :: string where
  "sample_digest = hex_encode sample (sha256 sample (holdout_preimage sample (sample_dir ''suite'')))"

definition sample_policy :: evaluation_policy where
  "sample_policy = \<lparr>po_policy_id = ''p'', po_holdout_set_sha256 = sample_digest, po_min_holdout_pass_ratio = 1,
     po_require_admitted = True, po_allowed_targets = [''README.md''], po_protected_paths = [''src/evaluator''],
     po_non_inferiority_margin_pct = None\<rparr>"

definition sample_request :: v2_request where
  "sample_request = \<lparr>vr_subject_path = ''README.md'', vr_policy = sample_policy, vr_policy_sha256 = sha256_hex sample ''policy''\<rparr>"

definition sample_judge :: blind_judge where
  "sample_judge = \<lparr>bj_signing_key = Some ''judge'', bj_require_build_verification = False, bj_executable = Some ''bin/app'',
     bj_build_release = False, bj_v2 = Some sample_request\<rparr>"

definition sample_tree :: "bytes \<Rightarrow> entries" where
  "sample_tree b = Entry ''LICENSE'' (RegularFile (Some ''mit'')) (Entry ''README.md'' (RegularFile (Some b)) NoEntries)"

definition sample_measured :: measured_layer where
  "sample_measured = \<lparr>ml_layer = \<lparr>lr_layer_name = ''Performance'', lr_is_hard_invariant = False, lr_passed = True,
     lr_score = SCORE_ONE, lr_summary = ''stable'', lr_violations = []\<rparr>, ml_passed = True\<rparr>"

definition sample_run :: judge_run where
  "sample_run = \<lparr>jr_holdouts = Some (Ok (sample_dir ''suite'')), jr_parent = Folder (sample_tree ''old''),
     jr_candidate = Folder (sample_tree ''new''), jr_binaries = Ok (), jr_jail = (\<lambda>_. Ok (True, ''ok'', [])),
     jr_diff = Ok ([''README.md''], ''new'', ''new''), jr_has_cargo_toml = False,
     jr_repo = evaluate_synthetic True 1 0 0 0 True, jr_performance = Ok sample_measured, jr_resources = sample_measured,
     jr_metrics = \<lparr>ms_latency_delta_pct = 0, ms_p_value = 0, ms_p95_ci_upper = 0, ms_p99_ci_upper = 0, ms_rss_growth_pct = 0,
       ms_candidate_resident_mb = 1\<rparr>,
     jr_subject_after = Ok ''new'', jr_judge_binary = Ok ''judge'', jr_now = ''t'', jr_version = ''0.1'', jr_save = Ok ()\<rparr>"

lemma sample_keys_ok: "keys_ok sample_keys"
  by (simp add: keys_ok_def sample_keys_def)

lemma sample_load: "load_strict sample (\<lambda>_. Ok sample_suite) (Some (Ok (sample_dir ''suite''))) = Ok ([sample_suite], sample_digest)"
proof -
  have "valid_utf8 ''a.json''" "ends_with ''.json'' ''a.json''" by code_simp+
  then show ?thesis
    by (simp add: load_strict_def sample_dir_def sample_suite_def sample_digest_def holdout_preimage_def domain_preimage_def
        holdout_files_def sha256_hex_def)
qed

lemma sample_walk: "walk True [] (sample_tree b) = Ok [(''LICENSE'', Some ''mit''), (''README.md'', Some b)]"
proof -
  have "valid_utf8 ''LICENSE''" "valid_utf8 ''README.md''" by code_simp+
  then show ?thesis by (simp add: sample_tree_def Let_def)
qed

lemma sample_changed: "strict_changed_paths (Folder (sample_tree ''old'')) (Folder (sample_tree ''new'')) = Ok [''README.md'']"
proof -
  have "sort (remdups ([''LICENSE'', ''README.md''] @ [''LICENSE'', ''README.md''])) = [''LICENSE'', ''README.md'']" by code_simp
  then show ?thesis by (simp add: strict_changed_paths_def walk_root_def sample_walk)
qed

lemma sample_subject: "tree_file (Folder (sample_tree b)) ''README.md'' = Ok b"
  by (simp add: tree_file_def walk_root_def sample_walk)

lemma sample_preflight:
  "v2_preflight sample sample_judge sample_request sample_digest (jr_parent sample_run) (jr_candidate sample_run) = Ok (sha256_hex sample ''new'')"
proof -
  have "is_clean_relative ''README.md''" "is_clean_relative ''bin/app''" "\<not> path_is_under ''README.md'' ''src/evaluator''"
    "\<not> path_is_under ''bin/app'' ''target''" "''.git'' \<notin> set (split_on CHR ''/'' ''bin/app'')" by code_simp+
  then show ?thesis
    by (simp add: v2_preflight_def Let_def sample_judge_def sample_request_def sample_policy_def sample_run_def sample_changed sample_subject)
qed

lemma f64_round_one: "f64_round 1 = 1"
  by code_simp

lemma sample_ratio: "\<not> pass_ratio_failed 1 1 1"
  by (simp add: pass_ratio_failed_def f64_of_u64_def f64_round_one)

lemma sample_style: "st_passed (evaluate_text (\<lambda>s. s) ''new'')"
  by code_simp

lemma sample_security: "sec_passed (evaluate_candidate [''README.md''] ''new'' 0)"
  by code_simp

lemma sample_load_policy: "load_policy sample (\<lambda>_. Ok sample_policy) (Ok ''policy'') = Ok (sample_policy, sha256_hex sample ''policy'')"
proof -
  have "length (hex_encode sample b) = 2 * length b \<and> hex_decode sample (hex_encode sample b) = Some b" for b
    using sample_hex_ok by (simp add: hex_ok_def)
  moreover have "length (sha256 sample b) = 32" for b using sample_sha_ok by (simp add: sha_ok_def)
  moreover have "is_clean_relative (trim_end_slashes ''README.md'')" "is_clean_relative (trim_end_slashes ''src/evaluator'')" by code_simp+
  ultimately show ?thesis by (simp add: load_policy_def sample_policy_def sample_digest_def)
qed

definition sample_call :: judge_call where
  "sample_call = \<lparr>jc_judge = sample_judge, jc_run = sample_run, jc_cycle_id = ''c'', jc_candidate_id = ''new'', jc_parent_id = ''old''\<rparr>"

definition sample_unsigned :: evaluation_receipt where
  "sample_unsigned = evaluate_layers sample (\<lambda>s. s) ''t'' ''0.1'' ''c'' ''new'' ''old'' (evaluate_synthetic True 1 0 0 0 True)
     (evaluate_candidate [''README.md''] ''new'' 0) (evaluate_text (\<lambda>s. s) ''new'') sample_measured sample_measured
     (evaluate_results builtin_regression_corpus) (jr_metrics sample_run)"

definition sample_binding :: receipt_binding where
  "sample_binding = \<lparr>rb_subject_path = ''README.md'', rb_subject_sha256 = sha256_hex sample ''new'', rb_holdout_set_sha256 = sample_digest,
     rb_holdouts_total = 1, rb_holdouts_passed = 1, rb_policy_sha256 = sha256_hex sample ''policy'',
     rb_evaluator_binary_sha256 = sha256_hex sample ''judge''\<rparr>"

definition sample_receipt :: evaluation_receipt where
  "sample_receipt = (case bind_and_sign_v2 sample sample_keys sample_binding ''judge'' sample_unsigned of Inr r \<Rightarrow> r | Inl _ \<Rightarrow> sample_unsigned)"

lemma sample_signed: "bind_and_sign_v2 sample sample_keys sample_binding ''judge'' sample_unsigned = Ok sample_receipt"
  by (simp add: sample_receipt_def bind_and_sign_v2_def compute_digest_v2_def Let_def)

lemma sample_run_admitted: "er_admitted sample_receipt"
proof -
  have "er_admitted sample_unsigned"
    using sample_style sample_security
    by (simp add: sample_unsigned_def evaluate_layers_def Let_def evaluate_synthetic_def sample_measured_def replay_clean [of "[]", simplified])
  with bind_and_sign_v2_Ok [OF sample_signed] show ?thesis by simp
qed

lemma sample_cycle: "evaluate_cycle sample sample_keys (\<lambda>_. Ok sample_suite) (\<lambda>s. s) (\<lambda>s. s) sample_judge sample_run ''c'' ''new'' ''old'' = Ok sample_receipt"
proof -
  have t: "trim ''ok'' = ''ok''" by code_simp
  have io: "jr_holdouts sample_run = Some (Ok (sample_dir ''suite''))" "jr_binaries sample_run = Ok ()" "jr_jail sample_run = (\<lambda>_. Ok (True, ''ok'', []))"
    "jr_diff sample_run = Ok ([''README.md''], ''new'', ''new'')" "jr_performance sample_run = Ok sample_measured"
    "jr_resources sample_run = sample_measured" "jr_subject_after sample_run = Ok ''new''" "jr_judge_binary sample_run = Ok ''judge''"
    "jr_now sample_run = ''t''" "jr_version sample_run = ''0.1''" "jr_save sample_run = Ok ()"
    by (simp_all add: sample_run_def)
  have j: "bj_signing_key sample_judge = Some ''judge''" "bj_v2 sample_judge = Some sample_request" "\<not> bj_require_build_verification sample_judge"
    by (simp_all add: sample_judge_def)
  have q: "vr_policy sample_request = sample_policy" "po_min_holdout_pass_ratio sample_policy = 1" "vr_subject_path sample_request = ''README.md''"
    "vr_policy_sha256 sample_request = sha256_hex sample ''policy''" by (simp_all add: sample_request_def sample_policy_def)
  have rh: "run_holdouts (\<lambda>_. Ok (True, ''ok'', [])) 0 (hs_cases sample_suite) = (1, [])" "length (hs_cases sample_suite) = 1"
    by (simp_all add: sample_suite_def actual_output_def t)
  show ?thesis
    using sample_signed
    by (simp add: evaluate_cycle_def j io sample_load sample_preflight rh sign_cycle_def sample_ratio q judge_correctness_def
        sample_binding_def sample_unsigned_def)
qed

section \<open>Receipts\<close>

lemma layer_fits_bound:
  "length (lr_layer_name lr) < 1000 \<Longrightarrow> length (lr_summary lr) < 1000 \<Longrightarrow> lr_violations lr = [] \<Longrightarrow> layer_fits lr"
  by (simp add: layer_fits_def fits_def)

lemma fits_sha [simp]: "fits (sha256_hex sample b)"
  using sample_sha_ok sample_hex_ok by (simp add: fits_def sha256_hex_def sha_ok_def hex_ok_def)

lemma sample_receipt_fits: "receipt_fits sample_receipt"
proof -
  let ?u = "sample_unsigned\<lparr>er_format_version := 2, er_binding := Some sample_binding\<rparr>"
  have "receipt_fits ?u"
  proof -
    have "layer_fits (correctness_layer (evaluate_synthetic True 1 0 0 0 True))"
      by (rule layer_fits_bound; code_simp)
    moreover have "layer_fits (security_layer (\<lambda>s. s) (evaluate_candidate [''README.md''] ''new'' 0))"
      by (rule layer_fits_bound; code_simp)
    moreover have "layer_fits (style_layer (evaluate_text (\<lambda>s. s) ''new''))"
      by (rule layer_fits_bound; code_simp)
    moreover have "layer_fits (replay_layer (evaluate_results builtin_regression_corpus))"
      by (rule layer_fits_bound; code_simp)
    moreover have "layer_fits (ml_layer sample_measured)" by (rule layer_fits_bound) (simp_all add: sample_measured_def)
    moreover have "fits sample_digest" by (simp add: sample_digest_def flip: sha256_hex_def)
    ultimately show ?thesis
      by (simp add: receipt_fits_def sample_unsigned_def evaluate_layers_def Let_def sample_binding_def) (simp add: fits_def)
  qed
  moreover have "receipt_fits (sign_receipt X P k (r\<lparr>er_receipt_digest := d\<rparr>)) = receipt_fits r" for X P k r d
    by (simp add: sign_receipt_def receipt_fits_def)
  then have "receipt_fits sample_receipt = receipt_fits ?u"
    by (simp add: sample_receipt_def bind_and_sign_v2_def compute_digest_v2_def Let_def)
  ultimately show ?thesis by simp
qed

definition small_receipt :: "bool \<Rightarrow> evaluation_receipt" where
  "small_receipt a = \<lparr>er_cycle_id = ''c'', er_candidate_id = ''new'', er_parent_id = ''old'', er_evaluated_at = ''t'',
     er_evaluator_version = ''0.1'', er_passed_all_hard_invariants = a, er_passed_statistical_gates = True, er_admitted = a,
     er_layer_results = [], er_metrics_summary = None, er_receipt_digest = hex_encode colliding (replicate 32 (CHR 0x00)),
     er_signature = None, er_format_version = 2, er_binding = Some sample_binding\<rparr>"

lemma small_receipt_fits: "receipt_fits (small_receipt a)"
proof -
  have "fits sample_digest" by (simp add: sample_digest_def flip: sha256_hex_def)
  then show ?thesis by (simp add: receipt_fits_def small_receipt_def sample_binding_def) (simp add: fits_def)
qed

lemma small_receipt_digest: "verify_receipt_digest colliding (small_receipt a)"
  by (simp add: verify_receipt_digest_def small_receipt_def compute_digest_v2_def domain_digest_def colliding_def)

theorem receipt_digest_commits_witness:
  "sha_collision colliding (receipt_preimage (small_receipt True)) (receipt_preimage (small_receipt False))"
proof -
  have "\<not> same_receipt (small_receipt True) (small_receipt False)" by (simp add: same_receipt_def small_receipt_def)
  moreover have "er_format_version (small_receipt a) = 2" "er_receipt_digest (small_receipt a) = er_receipt_digest (small_receipt b)" for a b
    by (simp_all add: small_receipt_def)
  ultimately show ?thesis
    using receipt_digest_commits [OF colliding_hex_ok small_receipt_fits small_receipt_fits _ _ small_receipt_digest small_receipt_digest]
    by blast
qed

definition judge_hex :: string where
  "judge_hex = hex_encode sample ''judge''"

lemma judge_hex_decodes: "hex_decode sample (trim judge_hex) = Some ''judge''"
proof -
  have "trim judge_hex = judge_hex" by code_simp
  with sample_hex_ok show ?thesis by (simp add: judge_hex_def hex_ok_def)
qed

theorem judged_receipt_promotes_witness:
  "check_v2_promotion sample sample_keys (\<lambda>_. Ok sample_policy) sample_receipt (Some judge_hex) ''own'' (Some (Ok ''policy''))
     (same_subject ''old'' ''README.md'' (sha256_hex sample ''new'')) = Ok ()"
proof -
  have "bj_v2 sample_judge = Some sample_request" "bj_signing_key sample_judge = Some ''judge''" "jr_candidate sample_run = Folder (sample_tree ''new'')"
      "vr_subject_path sample_request = ''README.md''" "vr_policy sample_request = sample_policy" "vr_policy_sha256 sample_request = sha256_hex sample ''policy''"
      "ec_from_sec1 sample_keys ''judge'' = Some (ec_public sample_keys ''judge'')" "ec_public sample_keys ''judge'' \<noteq> ''own''"
    by (simp_all add: sample_judge_def sample_request_def sample_keys_def sample_run_def)
  then show ?thesis
    using judged_receipt_promotes [OF sample_hex_ok sample_keys_ok sample_cycle sample_run_admitted, of sample_request "''judge''"
        "\<lambda>_. Ok sample_policy" "Ok ''policy''" judge_hex "''judge''" "''own''" "''new''"]
      sample_load_policy sample_subject judge_hex_decodes by simp
qed

text \<open>A judge key that verifies nothing but the one digest the judge has signed.\<close>

definition pinned_keys :: receipt_keys where
  "pinned_keys = sample_keys\<lparr>ec_verify := \<lambda>_ m _. m = digest_bytes sample sample_receipt\<rparr>"

lemma pinned_cycle:
  "evaluate_cycle X pinned_keys from_slice dbg lowercase j run c d e = evaluate_cycle X sample_keys from_slice dbg lowercase j run c d e"
proof -
  have sign: "sign_receipt X pinned_keys = sign_receipt X sample_keys" for X
    by (intro ext) (simp add: sign_receipt_def pinned_keys_def)
  have "bind_and_sign_v2 X pinned_keys = bind_and_sign_v2 X sample_keys" for X
    by (intro ext) (simp only: bind_and_sign_v2_def sign)
  then have "sign_cycle X pinned_keys = sign_cycle X sample_keys" for X
    by (intro ext) (simp only: sign_cycle_def sign)
  then show ?thesis by (simp only: evaluate_cycle_def)
qed

lemma sample_issues: "issues sample pinned_keys (\<lambda>_. Ok sample_suite) (\<lambda>s. s) (\<lambda>s. s) sample_call sample_receipt"
  using sample_cycle by (simp add: issues_def sample_call_def pinned_cycle)

lemma pinned_gate:
  "check_v2_promotion sample pinned_keys (\<lambda>_. Ok sample_policy) sample_receipt (Some judge_hex) ''own'' (Some (Ok ''policy''))
     (same_subject ''old'' ''README.md'' (sha256_hex sample ''new'')) = Ok ()"
proof -
  from bind_and_sign_v2_Ok [OF sample_signed] have s: "verify_receipt_digest sample sample_receipt"
      "er_signature sample_receipt = Some (RECEIPT_SIGNATURE_PREFIX @ hex_encode sample (ec_sign sample_keys ''judge'' (digest_bytes sample sample_receipt)))"
    by simp_all
  have "hex_decode sample (hex_encode sample b) = Some b" for b using sample_hex_ok by (simp add: hex_ok_def)
  with s have "verify_receipt_signature sample pinned_keys ''judge'' sample_receipt"
    by (simp add: verify_receipt_signature_def pinned_keys_def sample_keys_def)
  moreover have "receipt_covers sample_receipt (same_subject ''old'' ''README.md'' (sha256_hex sample ''new'')) sample_policy (sha256_hex sample ''policy'')"
    using evaluate_cycle_judged [OF sample_cycle, of sample_request] sample_run_admitted sample_subject
    by (auto simp: judged_def receipt_covers_def same_subject_def sample_request_def sample_judge_def sample_run_def)
  ultimately show ?thesis
    unfolding check_v2_promotion_Ok using sample_load_policy judge_hex_decodes by (simp add: pinned_keys_def sample_keys_def)
qed

theorem nothing_promoted_unjudged_witness:
  "\<exists>r0. issues sample pinned_keys (\<lambda>_. Ok sample_suite) (\<lambda>s. s) (\<lambda>s. s) sample_call r0 \<and> (same_receipt sample_receipt r0
     \<and> evaluated_change sample (\<lambda>_. Ok sample_suite) sample_call (same_subject ''old'' ''README.md'' (sha256_hex sample ''new''))
     \<or> sha_collision sample (receipt_preimage sample_receipt) (signed_preimage r0))"
proof -
  have "signs_only_judged sample pinned_keys (\<lambda>_. Ok sample_suite) (\<lambda>s. s) (\<lambda>s. s) ''judge'' [sample_call]"
    using sample_issues sample_receipt_fits by (auto simp: signs_only_judged_def pinned_keys_def)
  moreover have "ec_from_sec1 pinned_keys ''judge'' = Some ''judge''" by (simp add: pinned_keys_def sample_keys_def)
  ultimately show ?thesis
    using nothing_promoted_unjudged [OF sample_hex_ok sample_receipt_fits pinned_gate judge_hex_decodes, of "''judge''"
        "\<lambda>_. Ok sample_suite" "\<lambda>s. s" "\<lambda>s. s" "[sample_call]"] by simp
qed

theorem strict_diff_exact_witness:
  "file_at (sample_tree ''old'') [''README.md''] \<noteq> file_at (sample_tree ''new'') [''README.md'']
     \<and> file_at (sample_tree ''old'') [''LICENSE''] = file_at (sample_tree ''new'') [''LICENSE'']"
proof -
  have "tree_ok (sample_tree b)" for b by (simp add: sample_tree_def proper_name_def)
  moreover have "compared_path [''README.md'']" "compared_path [''LICENSE'']" by (simp_all add: compared_path_def proper_name_def)
  ultimately show ?thesis
    using strict_diff_exact [OF sample_changed] by fastforce
qed

theorem holdout_digest_commits_witness:
  "sha_collision colliding (holdout_preimage colliding (sample_dir ''a'')) (holdout_preimage colliding (sample_dir ''b''))
     \<or> sha_collision colliding ''a'' ''b''"
proof -
  let ?d = "hex_encode colliding (replicate 32 (CHR 0x00))"
  have names: "valid_utf8 ''a.json''" "ends_with ''.json'' ''a.json''" by code_simp+
  have load: "load_strict colliding (\<lambda>_. Ok sample_suite) (Some (Ok (sample_dir b))) = Ok ([sample_suite], ?d)" for b
    using names by (simp add: load_strict_def sample_dir_def sample_suite_def colliding_def)
  have "list_all (fits \<circ> de_name) (sample_dir b)" "length (sample_dir b) < 2 ^ 64" "holdout_files (sample_dir b) = [(''a.json'', b)]" for b
    by (simp_all add: sample_dir_def fits_def holdout_files_def)
  then show ?thesis
    using holdout_digest_commits [OF colliding_hex_ok _ load load, of "''a''" "''b''"] by (simp add: sha_ok_def colliding_def)
qed

end
