(* ===== verification/Governance.thy ===== *)
theory Governance
  imports Ratify Receipt Sample
begin

text \<open>
  Who may change what: the claim policy (\<open>src/src/measure/claims.rs\<close>), the tiers and the operator's
  authorisation (\<open>src/src/meta/tier.rs\<close>), the developmental benchmark (\<open>src/src/meta/benchmark_suite.rs\<close>), the three
  criteria (\<open>src/src/meta/three_criteria.rs\<close>), the judgement of a candidate engine (\<open>src/src/meta/ab_fork.rs\<close>) and
  the balance kernel (\<open>src/src/balance.rs\<close>).

  Binary64 values are the rationals they stand for; signed results round as their absolute values do.  The texts that
  print such values are arguments.
\<close>

section \<open>The claim policy\<close>

datatype claim_error = LatencyClaim | OptimizationClaim

definition requires_measured_diagnosis :: "proposal_kind \<Rightarrow> bool \<Rightarrow> bool" where
  "requires_measured_diagnosis kind require_latency_improvement \<longleftrightarrow> require_latency_improvement \<or> kind = Optimization"

definition check_claim :: "proposal_kind \<Rightarrow> bool \<Rightarrow> bool \<Rightarrow> claim_error + unit" where
  "check_claim kind require_latency_improvement diagnosis_measured =
     (if requires_measured_diagnosis kind require_latency_improvement \<and> \<not> diagnosis_measured
        then Err (if require_latency_improvement then LatencyClaim else OptimizationClaim)
      else Ok ())"

section \<open>Tiers\<close>

datatype candidate_tier = Tier1Target | Tier2Engine

definition ENGINE_PREFIXES :: "string list" where
  "ENGINE_PREFIXES = [''src/daemon.rs'', ''src/models.rs'', ''src/observe.rs'', ''src/propose'', ''src/graph'', ''src/balance'',
     ''src/meta'', ''src/ratify.rs'', ''src/supervisor'', ''src/actor'', ''src/evaluator'', ''src/isolation'', ''src/ledger'',
     ''src/verifier'']"

definition IMMUTABLE_ENGINE_BOUNDARIES :: "string list" where
  "IMMUTABLE_ENGINE_BOUNDARIES = [''tests'', ''src/evaluator'', ''src/isolation'', ''src/ledger'', ''.rsi/holdouts'',
     ''CONSTITUTION.md'', ''LICENSE'']"

definition trim_target :: "string \<Rightarrow> string" where
  "trim_target target_file = trim_start_matches ''/'' (trim_start_matches ''./'' target_file)"

definition classify_proposal :: "improvement_proposal \<Rightarrow> candidate_tier" where
  "classify_proposal p =
     (if ip_kind p = MetaEngineImprovement then Tier2Engine
      else let target = trim_target (ip_target_file p) in
        if list_ex (\<lambda>prefix. target = prefix \<or> starts_with prefix target) ENGINE_PREFIXES then Tier2Engine
        else Tier1Target)"

datatype tier_error =
    ImmutableBoundary string
  | SignatureNotHex string
  | SignatureMalformed
  | SignatureUnverified
  | NoOperatorKey
  | NoOperatorSignature

definition validate_tier2_candidate_boundaries :: "string \<Rightarrow> tier_error + unit" where
  "validate_tier2_candidate_boundaries target_file =
     (let normalized = trim_target target_file in
      case List.find (\<lambda>boundary. normalized = boundary \<or> starts_with boundary normalized) IMMUTABLE_ENGINE_BOUNDARIES of
        Some boundary \<Rightarrow> Err (ImmutableBoundary boundary)
      | None \<Rightarrow> Ok ())"

definition verify_operator_authorization ::
    "crates \<Rightarrow> receipt_keys \<Rightarrow> bytes \<Rightarrow> string \<Rightarrow> bytes \<Rightarrow> tier_error + bool" where
  "verify_operator_authorization X P proposal_digest signature_hex verifying_key =
     and_then (ok_or (hex_decode X signature_hex) (SignatureNotHex signature_hex)) (\<lambda>sig_bytes.
     if \<not> ec_from_slice P sig_bytes then Err SignatureMalformed
     else if ec_verify P verifying_key proposal_digest sig_bytes then Ok True
     else Err SignatureUnverified)"

section \<open>The developmental benchmark\<close>

definition f64_signed :: "rat \<Rightarrow> rat" where
  "f64_signed x = (if x < 0 then - f64_round (- x) else f64_round x)"

record meta_metrics =
  mm_discovery_rate_per_sec :: rat
  mm_hypothesis_validity_ratio :: rat
  mm_compute_efficiency_score :: rat
  mm_cycle_latency_ms :: rat
  mm_memory_peak_rss_kb :: u64

record meta_comparison =
  mc_parent_metrics :: meta_metrics
  mc_candidate_metrics :: meta_metrics
  mc_discovery_rate_delta_pct :: rat
  mc_hypothesis_validity_delta_pct :: rat
  mc_latency_delta_pct :: rat
  mc_passed_non_inferiority :: bool
  mc_passed_amplification :: bool

definition delta_pct :: "rat \<Rightarrow> rat \<Rightarrow> rat" where
  "delta_pct parent candidate =
     (if parent > 0 then f64_signed (f64_signed (f64_signed (candidate - parent) / parent) * 100) else 0)"

definition meta_evaluate :: "meta_metrics \<Rightarrow> meta_metrics \<Rightarrow> rat \<Rightarrow> meta_comparison" where
  "meta_evaluate parent candidate margin =
     (let discovery = delta_pct (mm_discovery_rate_per_sec parent) (mm_discovery_rate_per_sec candidate);
          validity = delta_pct (mm_hypothesis_validity_ratio parent) (mm_hypothesis_validity_ratio candidate);
          latency = delta_pct (mm_cycle_latency_ms parent) (mm_cycle_latency_ms candidate) in
      \<lparr>mc_parent_metrics = parent, mc_candidate_metrics = candidate, mc_discovery_rate_delta_pct = discovery,
       mc_hypothesis_validity_delta_pct = validity, mc_latency_delta_pct = latency,
       mc_passed_non_inferiority = (validity \<ge> - margin \<and> latency \<le> margin),
       mc_passed_amplification = (discovery \<ge> 5 \<or> validity \<ge> 5 \<or> latency \<le> - 5)\<rparr>)"

section \<open>The three criteria\<close>

record criterion_result =
  cr_criterion_name :: string
  cr_passed :: bool
  cr_evidence :: string

record true_rsi_verdict =
  tv_novel_discovery :: criterion_result
  tv_self_capability_improvement :: criterion_result
  tv_recursive_persistence :: criterion_result
  tv_overall_classification :: string
  tv_evidence_payload :: "promotion_evidence option"

definition CRITERION_1 :: string where "CRITERION_1 = ''Criterion 1: Novel Discovery''"
definition CRITERION_2 :: string where "CRITERION_2 = ''Criterion 2: Self-Capability Improvement''"
definition CRITERION_3 :: string where "CRITERION_3 = ''Criterion 3: Recursive Persistence & Compounding''"

definition criterion_1 :: "string \<Rightarrow> bool \<Rightarrow> string list \<Rightarrow> criterion_result" where
  "criterion_1 observed_problem is_dynamic_telemetry hardcoded_rules =
     (let is_hardcoded = list_ex (\<lambda>r. contains r observed_problem) hardcoded_rules;
          passed = (is_dynamic_telemetry \<and> \<not> is_hardcoded) in
      \<lparr>cr_criterion_name = CRITERION_1, cr_passed = passed,
       cr_evidence = (if passed then ''Novel discovery confirmed: problem '' @ quoted observed_problem @
           '' derived dynamically from capability graph rather than static rules''
         else ''Novel discovery rejected: problem matches hardcoded static heuristics or lacks empirical dynamic telemetry'')\<rparr>)"

definition criterion_2 :: "bool \<Rightarrow> string \<Rightarrow> criterion_result" where
  "criterion_2 amplification_passed metrics_summary =
     \<lparr>cr_criterion_name = CRITERION_2, cr_passed = amplification_passed,
      cr_evidence = (if amplification_passed
        then ''Self-capability improvement verified: candidate Engine N+1 measurably amplifies future developmental capacity: '' @ metrics_summary
        else ''Self-capability improvement rejected: candidate fails developmental amplification threshold (requires >= 5.0% gain)'')\<rparr>"

definition criterion_3 :: "string option \<Rightarrow> string option \<Rightarrow> string option \<Rightarrow> string option
      \<Rightarrow> criterion_result \<times> promotion_evidence option" where
  "criterion_3 meta_block_hash downstream_cycle_id downstream_block_hash compounding_proof =
     (case (meta_block_hash, downstream_cycle_id, downstream_block_hash, compounding_proof) of
        (Some meta_hash, Some down_cycle, Some down_hash, Some proof) \<Rightarrow>
          (\<lparr>cr_criterion_name = CRITERION_3, cr_passed = True,
            cr_evidence = ''Downstream compounding verified: cycle '' @ quoted down_cycle @ '' successfully deployed primitive from '' @ meta_hash\<rparr>,
           Some \<lparr>pe_meta_candidate_block_hash = meta_hash, pe_downstream_cycle_id = down_cycle,
             pe_downstream_ledger_block_hash = down_hash, pe_capability_improvement_proof = proof,
             pe_final_classification = ''TRUE_RSI''\<rparr>)
      | _ \<Rightarrow>
          (\<lparr>cr_criterion_name = CRITERION_3, cr_passed = False,
            cr_evidence = ''Downstream compounding pending: requires subsequent downstream cycle evidence block''\<rparr>, None))"

definition evaluate_full ::
    "criterion_result \<Rightarrow> criterion_result \<Rightarrow> criterion_result \<times> promotion_evidence option \<Rightarrow> true_rsi_verdict" where
  "evaluate_full c1 c2 c3 =
     (let (c3_res, evidence_payload) = c3 in
      \<lparr>tv_novel_discovery = c1, tv_self_capability_improvement = c2, tv_recursive_persistence = c3_res,
       tv_overall_classification =
         (if cr_passed c1 \<and> cr_passed c2 \<and> cr_passed c3_res then ''TRUE_RSI''
          else if cr_passed c1 \<and> cr_passed c2 then ''META_CANDIDATE'' else ''REJECTED''),
       tv_evidence_payload = evidence_payload\<rparr>)"

section \<open>A candidate engine\<close>

definition regressed_verdict :: true_rsi_verdict where
  "regressed_verdict =
     \<lparr>tv_novel_discovery = \<lparr>cr_criterion_name = CRITERION_1, cr_passed = False,
        cr_evidence = ''Candidate regressed beyond non-inferiority margins''\<rparr>,
      tv_self_capability_improvement = \<lparr>cr_criterion_name = CRITERION_2, cr_passed = False,
        cr_evidence = ''Candidate regressed on developmental latency or validity''\<rparr>,
      tv_recursive_persistence = \<lparr>cr_criterion_name = CRITERION_3, cr_passed = False,
        cr_evidence = ''Evaluation aborted due to developmental regression''\<rparr>,
      tv_overall_classification = ''REJECTED'', tv_evidence_payload = None\<rparr>"

definition evaluate_tier2_candidate ::
    "crates \<Rightarrow> receipt_keys \<Rightarrow> (meta_comparison \<Rightarrow> string) \<Rightarrow> improvement_proposal \<Rightarrow> meta_metrics \<Rightarrow> meta_metrics
      \<Rightarrow> bytes option \<Rightarrow> rat \<Rightarrow> (string \<times> string \<times> string \<times> string) option \<Rightarrow> tier_error + true_rsi_verdict" where
  "evaluate_tier2_candidate X P summary_text p parent_metrics candidate_metrics operator_key margin downstream_evidence =
     and_then (validate_tier2_candidate_boundaries (ip_target_file p)) (\<lambda>_.
     and_then (ok_or operator_key NoOperatorKey) (\<lambda>op_key.
     and_then (ok_or (ip_operator_signature p) NoOperatorSignature) (\<lambda>sig_hex.
     and_then (verify_operator_authorization X P (sha256 X (ip_proposed_patch p)) sig_hex op_key) (\<lambda>_.
     let comparison = meta_evaluate parent_metrics candidate_metrics margin in
     if \<not> mc_passed_non_inferiority comparison then Ok regressed_verdict
     else
       let c1 = criterion_1 (ip_description p) True [''hardcoded_fix'', ''static_rule''];
           c2 = criterion_2 (mc_passed_amplification comparison) (summary_text comparison);
           c3 = (case downstream_evidence of
               Some (meta_hash, down_cycle, down_hash, proof) \<Rightarrow> criterion_3 (Some meta_hash) (Some down_cycle) (Some down_hash) (Some proof)
             | None \<Rightarrow> criterion_3 None None None None) in
       Ok (evaluate_full c1 c2 c3)))))"

section \<open>Balance\<close>

record balance_verdict =
  bv_mode :: string
  bv_drive :: rat
  bv_humanity :: rat
  bv_ratio :: rat
  bv_score :: rat
  bv_verdict :: string
  bv_guidance :: string

text \<open>The scores are numbers of matched terms, so neither is negative.  \<open>0.1\<close> is the binary64 number next to one tenth.\<close>

definition balance_scalar :: "rat \<Rightarrow> rat \<Rightarrow> balance_verdict" where
  "balance_scalar drive humanity =
     (if drive = 0 \<and> humanity = 0 then
        \<lparr>bv_mode = ''scalar'', bv_drive = 0, bv_humanity = 0, bv_ratio = 0, bv_score = 0, bv_verdict = ''dormant'',
         bv_guidance = ''Baseline absent. Both drive and humanity are zero.''\<rparr>
      else if humanity = 0 then
        \<lparr>bv_mode = ''scalar'', bv_drive = drive, bv_humanity = 0, bv_ratio = 999, bv_score = f64_round (1 / 10),
         bv_verdict = ''drive_dominant'', bv_guidance = ''Humanity absent. Restraint and ethics required.''\<rparr>
      else if drive = 0 then
        \<lparr>bv_mode = ''scalar'', bv_drive = 0, bv_humanity = humanity, bv_ratio = 0, bv_score = f64_round (1 / 10),
         bv_verdict = ''humanity_dominant'', bv_guidance = ''Drive absent. Ambition and curiosity required.''\<rparr>
      else
        let ratio = f64_div drive humanity;
            (verdict, guidance, score) =
              (if ratio > 2 then (''drive_dominant'', ''Drive exceeds humanity threshold. Slow down and verify discipline.'', f64_div 2 ratio)
               else if ratio < 1 / 2 then (''humanity_dominant'', ''Humanity suppresses drive. Increase problem-solving velocity.'', f64_round (ratio * 2))
               else (''balanced'', ''Tension harmonized. Proceed with atomic ratification.'', if ratio \<le> 1 then ratio else f64_div 1 ratio)) in
        \<lparr>bv_mode = ''scalar'', bv_drive = drive, bv_humanity = humanity, bv_ratio = ratio, bv_score = score, bv_verdict = verdict,
         bv_guidance = guidance\<rparr>)"

section \<open>Lemmas\<close>

lemma check_claim_Ok: "check_claim kind require measured = Ok () \<longleftrightarrow> measured \<or> \<not> require \<and> kind \<noteq> Optimization"
  by (auto simp: check_claim_def requires_measured_diagnosis_def)

lemma validate_boundaries_Ok:
  "validate_tier2_candidate_boundaries t = Ok () \<longleftrightarrow> (\<forall>b \<in> set IMMUTABLE_ENGINE_BOUNDARIES. \<not> starts_with b (trim_target t))"
proof (cases "List.find (\<lambda>b. trim_target t = b \<or> starts_with b (trim_target t)) IMMUTABLE_ENGINE_BOUNDARIES")
  case None
  then have "validate_tier2_candidate_boundaries t = Ok ()" by (simp add: validate_tier2_candidate_boundaries_def)
  with None show ?thesis by (auto simp: find_None_iff)
next
  case (Some b)
  then have "b \<in> set IMMUTABLE_ENGINE_BOUNDARIES" "trim_target t = b \<or> starts_with b (trim_target t)"
    by (auto simp: find_Some_iff)
  moreover from this(2) have "starts_with b (trim_target t)" by (auto simp: starts_with_def)
  ultimately show ?thesis using Some by (auto simp: validate_tier2_candidate_boundaries_def)
qed

lemma verify_operator_Ok:
  "verify_operator_authorization X P d s k = Ok v \<longleftrightarrow>
     v \<and> (\<exists>b. hex_decode X s = Some b \<and> ec_from_slice P b \<and> ec_verify P k d b)"
  by (auto simp: verify_operator_authorization_def and_then_Ok ok_or_Ok)

text \<open>A candidate engine is a candidate for anything but rejection only with the operator's signature on its exact patch,
  outside the immutable boundaries, with a measured gain and without the measured regressions.\<close>

lemma evaluate_tier2_Ok:
  assumes "evaluate_tier2_candidate X P txt p parent candidate key margin down = Ok v"
  shows "\<exists>k s. key = Some k \<and> ip_operator_signature p = Some s \<and> verify_operator_authorization X P (sha256 X (ip_proposed_patch p)) s k = Ok True
     \<and> validate_tier2_candidate_boundaries (ip_target_file p) = Ok ()
     \<and> (tv_overall_classification v \<noteq> ''REJECTED'' \<longrightarrow> mc_passed_non_inferiority (meta_evaluate parent candidate margin)
          \<and> mc_passed_amplification (meta_evaluate parent candidate margin)
          \<and> \<not> contains ''hardcoded_fix'' (ip_description p) \<and> \<not> contains ''static_rule'' (ip_description p))
     \<and> (tv_overall_classification v = ''TRUE_RSI'' \<longleftrightarrow> tv_overall_classification v \<noteq> ''REJECTED'' \<and> down \<noteq> None)
     \<and> (tv_evidence_payload v \<noteq> None \<longrightarrow> down \<noteq> None)"
proof -
  from assms obtain k s a where ks: "key = Some k" "ip_operator_signature p = Some s"
      "verify_operator_authorization X P (sha256 X (ip_proposed_patch p)) s k = Ok a"
      "validate_tier2_candidate_boundaries (ip_target_file p) = Ok ()"
    by (auto simp: evaluate_tier2_candidate_def and_then_Ok ok_or_Ok)
  moreover have "a" using ks(3) by (simp add: verify_operator_Ok)
  ultimately show ?thesis using assms
    by (cases down) (auto simp: evaluate_tier2_candidate_def evaluate_full_def criterion_1_def criterion_2_def criterion_3_def
        regressed_verdict_def Let_def split: if_splits)
qed

text \<open>A change to the engine itself is judged only with the operator's signature on the exact patch and outside the
  immutable boundaries; it is classified as anything but rejected only if the benchmark shows no regression and a gain, and as
  a true self-improvement exactly when the evidence of a later cycle is there as well.\<close>

theorem engine_change_needs_operator:
  assumes "evaluate_tier2_candidate X P txt p parent candidate key margin down = Ok v"
  shows "\<exists>k s b. key = Some k \<and> ip_operator_signature p = Some s \<and> hex_decode X s = Some b
     \<and> ec_verify P k (sha256 X (ip_proposed_patch p)) b
     \<and> (\<forall>b \<in> set IMMUTABLE_ENGINE_BOUNDARIES. \<not> starts_with b (trim_target (ip_target_file p)))
     \<and> (tv_overall_classification v \<noteq> ''REJECTED'' \<longrightarrow> mc_passed_non_inferiority (meta_evaluate parent candidate margin)
          \<and> mc_passed_amplification (meta_evaluate parent candidate margin))
     \<and> (tv_overall_classification v = ''TRUE_RSI'' \<longleftrightarrow> tv_overall_classification v \<noteq> ''REJECTED'' \<and> down \<noteq> None)"
  using evaluate_tier2_Ok [OF assms] unfolding verify_operator_Ok validate_boundaries_Ok by blast

definition sample_proposal :: "string \<Rightarrow> improvement_proposal" where
  "sample_proposal target = \<lparr>ip_id = ''prop-1'', ip_title = ''t'', ip_description = ''slow'', ip_target_file = target,
     ip_proposed_patch = ''patch'', ip_kind = Refactor, ip_created_at = ''now'', ip_sandbox_path = None,
     ip_operator_signature = Some []\<rparr>"

definition permissive_keys :: receipt_keys where
  "permissive_keys = \<lparr>ec_sign = (\<lambda>k b. []), ec_from_slice = (\<lambda>_. True), ec_verify = (\<lambda>pk b s. s = []),
     ec_public = (\<lambda>k. k), ec_from_sec1 = Some\<rparr>"

definition sample_meta :: "rat \<Rightarrow> meta_metrics" where
  "sample_meta latency = \<lparr>mm_discovery_rate_per_sec = 0, mm_hypothesis_validity_ratio = 0, mm_compute_efficiency_score = 0,
     mm_cycle_latency_ms = latency, mm_memory_peak_rss_kb = 0\<rparr>"

theorem engine_change_needs_operator_witness:
  "mc_passed_amplification (meta_evaluate (sample_meta 4) (sample_meta 2) 1)
    \<and> (\<forall>b \<in> set IMMUTABLE_ENGINE_BOUNDARIES. \<not> starts_with b (trim_target ''src/graph/mod.rs''))"
proof -
  let ?e = "evaluate_tier2_candidate sample permissive_keys (\<lambda>_. []) (sample_proposal ''src/graph/mod.rs'') (sample_meta 4) (sample_meta 2)
     (Some []) 1 None"
  have r: "delta_pct 4 2 = - 50" "delta_pct 0 0 = 0" by code_simp+
  have b: "validate_tier2_candidate_boundaries ''src/graph/mod.rs'' = Ok ()"
      "\<not> contains ''hardcoded_fix'' ''slow''" "\<not> contains ''static_rule'' ''slow''" by code_simp+
  have d: "hex_decode sample [] = Some []" by (simp add: sample_def)
  have "?e = Ok (evaluate_full (criterion_1 ''slow'' True [''hardcoded_fix'', ''static_rule'']) (criterion_2 True []) (criterion_3 None None None None))"
    by (simp add: evaluate_tier2_candidate_def sample_proposal_def permissive_keys_def b verify_operator_authorization_def d
        meta_evaluate_def sample_meta_def r)
  then obtain v where v: "?e = Ok v" "tv_overall_classification v \<noteq> ''REJECTED''"
    using b by (simp add: evaluate_full_def criterion_1_def criterion_2_def criterion_3_def)
  from engine_change_needs_operator [OF v(1)] v(2) show ?thesis by (auto simp: sample_proposal_def)
qed

text \<open>The tier of a proposal depends on the spelling of its target.  The declared-target gate accepts
  \<open>src/./graph/mod.rs\<close> under the default roots as the engine file \<open>src/graph/mod.rs\<close>, but the tier is taken from the raw text,
  which matches no engine prefix, so no operator signature is asked for; the canonical spelling of the same file is Tier 2.  The
  gate \<open>src/promotion_gate.rs\<close> itself is Tier 1 under any spelling.\<close>

theorem tier_depends_on_spelling:
  "check_declared_target ''src/./graph/mod.rs'' default_ratify_roots = Ok ''src/graph/mod.rs''
     \<and> classify_proposal (sample_proposal ''src/./graph/mod.rs'') = Tier1Target
     \<and> classify_proposal (sample_proposal ''src/graph/mod.rs'') = Tier2Engine
     \<and> check_declared_target ''src/promotion_gate.rs'' default_ratify_roots = Ok ''src/promotion_gate.rs''
     \<and> classify_proposal (sample_proposal ''src/promotion_gate.rs'') = Tier1Target"
  by code_simp

text \<open>The comment of the benchmark promises that the discovery rate must not regress beyond the margin; the verdict
  does not depend on it.\<close>

lemma discovery_rate_is_not_compared:
  "mc_passed_non_inferiority (meta_evaluate parent (candidate\<lparr>mm_discovery_rate_per_sec := r\<rparr>) margin)
     = mc_passed_non_inferiority (meta_evaluate parent candidate margin)"
  by (simp add: meta_evaluate_def Let_def)

end
