(* ===== verification/Measure.thy ===== *)
theory Measure
  imports Obs_Log Text F64 Sample "HOL-Library.List_Lexorder" "HOL-Library.Char_ord"
begin

text \<open>
  Stage measurements (\<open>src/src/measure/\<close>): the stages and the clock of one cycle (\<open>mod.rs\<close>), the execution profile that
  makes samples comparable (\<open>profile.rs\<close>), the sample log (\<open>log.rs\<close>), the percentiles (\<open>stats.rs\<close>) and the selection
  of compatible samples (\<open>select.rs\<close>).

  Durations are whole microseconds, so a sample is a non-negative finite binary64 number and is written as the rational it
  stands for.
\<close>

section \<open>Stages\<close>

datatype stage = Observe | Propose | BuildJail | JudgeEvaluation | SupervisorCanary | CortexCommit

datatype stage_outcome = StageOk | StageRefused | StageFailed

definition STAGES :: "stage list" where
  "STAGES = [Observe, Propose, BuildJail, JudgeEvaluation, SupervisorCanary, CortexCommit]"

fun stage_id :: "stage \<Rightarrow> string" where
  "stage_id Observe = ''Observe''"
| "stage_id Propose = ''Propose''"
| "stage_id BuildJail = ''BuildJail''"
| "stage_id JudgeEvaluation = ''JudgeEvaluation''"
| "stage_id SupervisorCanary = ''SupervisorCanary''"
| "stage_id CortexCommit = ''CortexCommit''"

text \<open>The outcomes are ordered, the worst last.\<close>

fun outcome_rank :: "stage_outcome \<Rightarrow> nat" where
  "outcome_rank StageOk = 0"
| "outcome_rank StageRefused = 1"
| "outcome_rank StageFailed = 2"

lemma outcome_rank_inj [simp]: "outcome_rank a = outcome_rank b \<longleftrightarrow> a = b"
  by (cases a; cases b) simp_all

instantiation stage_outcome :: linorder
begin

definition less_eq_stage_outcome :: "stage_outcome \<Rightarrow> stage_outcome \<Rightarrow> bool" where
  "less_eq_stage_outcome a b \<longleftrightarrow> outcome_rank a \<le> outcome_rank b"

definition less_stage_outcome :: "stage_outcome \<Rightarrow> stage_outcome \<Rightarrow> bool" where
  "less_stage_outcome a b \<longleftrightarrow> outcome_rank a < outcome_rank b"

instance
  by standard (auto simp: less_eq_stage_outcome_def less_stage_outcome_def simp flip: outcome_rank_inj)

end

section \<open>The clock\<close>

record stage_sample =
  ss_stage :: stage
  ss_duration_us :: u64
  ss_outcome :: stage_outcome
  ss_canary_protocol_version :: "u16 option"

type_synonym stage_clock = "stage \<rightharpoonup> u64 \<times> stage_outcome"

text \<open>\<open>elapsed\<close> in microseconds, a 128-bit count.\<close>

definition record_stage :: "stage \<Rightarrow> nat \<Rightarrow> stage_outcome \<Rightarrow> stage_clock \<Rightarrow> stage_clock" where
  "record_stage stage elapsed outcome clock =
     (let us = (if elapsed < 2 ^ 64 then of_nat elapsed else - 1);
          (d, worst) = (case clock stage of Some e \<Rightarrow> e | None \<Rightarrow> (0, outcome)) in
      clock(stage \<mapsto> (saturating_add d us, max worst outcome)))"

definition clock_samples :: "stage_clock \<Rightarrow> stage_sample list" where
  "clock_samples clock = List.map_filter (\<lambda>st. map_option (\<lambda>(d, out).
     \<lparr>ss_stage = st, ss_duration_us = d, ss_outcome = out,
      ss_canary_protocol_version = (if st = SupervisorCanary then Some CANARY_PROTOCOL_VERSION else None)\<rparr>) (clock st)) STAGES"

section \<open>The execution profile\<close>

record execution_config =
  xc_model_url :: string
  xc_holdouts_dir :: string
  xc_canary_target :: u64
  xc_cortex_url :: string
  xc_cortex_space :: string
  xc_ratify_roots :: "string list"

record execution_profile =
  xp_model :: string
  xp_execution_config :: execution_config
  xp_cpu_count :: "nat option"
  xp_memory_total_kib :: "u64 option"
  xp_gpu :: string

definition from_config :: "string \<Rightarrow> string option \<Rightarrow> string \<Rightarrow> u64 \<Rightarrow> string \<Rightarrow> string \<Rightarrow> string list \<Rightarrow> execution_config" where
  "from_config model_url holdouts_dir rsi_root canary_target cortex_url cortex_space ratify_roots =
     \<lparr>xc_model_url = model_url,
      xc_holdouts_dir = (case holdouts_dir of Some d \<Rightarrow> d | None \<Rightarrow> rsi_root @ ''/holdouts''),
      xc_canary_target = canary_target, xc_cortex_url = cortex_url, xc_cortex_space = cortex_space,
      xc_ratify_roots = remdups_adj (sort ratify_roots)\<rparr>"

definition config_lines :: "execution_config \<Rightarrow> string list" where
  "config_lines c = [''model_url='' @ xc_model_url c, ''holdouts_dir='' @ xc_holdouts_dir c,
     ''canary_target='' @ dec_nat (unat (xc_canary_target c)), ''cortex_url='' @ xc_cortex_url c,
     ''cortex_space='' @ xc_cortex_space c, ''ratify_roots='' @ join '','' (xc_ratify_roots c)]"

text \<open>Every line of the fingerprint's text ends with a newline.\<close>

definition as_lines :: "string list \<Rightarrow> string" where
  "as_lines ls = concat (map (\<lambda>l. l @ [newline]) ls)"

definition opt_text :: "nat option \<Rightarrow> string" where
  "opt_text v = (case v of Some n \<Rightarrow> dec_nat n | None \<Rightarrow> ''unknown'')"

definition measure_digest :: "crates \<Rightarrow> string \<Rightarrow> string \<Rightarrow> string" where
  "measure_digest X domain body = hex_encode X (sha256 X (domain @ [newline] @ body))"

definition profile_text :: "execution_profile \<Rightarrow> string" where
  "profile_text p = as_lines ([''model='' @ xp_model p] @ config_lines (xp_execution_config p) @
     [''cpu_count='' @ opt_text (xp_cpu_count p), ''memory_total_kib='' @ opt_text (map_option unat (xp_memory_total_kib p)),
      ''gpu='' @ xp_gpu p])"

definition PROFILE_DOMAIN :: string where "PROFILE_DOMAIN = ''spark-rsi/measure/execution-profile/v1''"
definition WORKLOAD_KEY_DOMAIN :: string where "WORKLOAD_KEY_DOMAIN = ''spark-rsi/measure/workload-key/v1''"

definition fingerprint :: "crates \<Rightarrow> execution_profile \<Rightarrow> string" where
  "fingerprint X p = measure_digest X PROFILE_DOMAIN (profile_text p)"

record measure_context =
  ctx_workload_key :: string
  ctx_profile :: execution_profile
  ctx_fingerprint :: string
  ctx_source_commit :: "string option"

definition from_parts :: "crates \<Rightarrow> string \<Rightarrow> execution_profile \<Rightarrow> string option \<Rightarrow> measure_context" where
  "from_parts X repo_identity profile source_commit =
     \<lparr>ctx_workload_key = measure_digest X WORKLOAD_KEY_DOMAIN (as_lines ([''repo='' @ repo_identity]
        @ config_lines (xp_execution_config profile) @ [''model='' @ xp_model profile])),
      ctx_profile = profile, ctx_fingerprint = fingerprint X profile, ctx_source_commit = source_commit\<rparr>"

section \<open>The sample log\<close>

definition SCHEMA_VERSION :: u32 where "SCHEMA_VERSION = 2"

record cycle_record =
  cr_schema_version :: u32
  cr_cycle_id :: string
  cr_workload_key :: string
  cr_fingerprint :: string
  cr_execution_profile :: execution_profile
  cr_stages :: "stage_sample list"
  cr_source_commit :: "string option"
  cr_recorded_at :: string

datatype sample_error =
    RefusedSchema u32
  | TailUnreadable
  | SampleWrite log_error
  | SamplesUnreadable
  | SamplesNotUtf8
  | BadSampleLine nat
  | UnsupportedSchema nat u32

text \<open>The length of the file up to and including its last newline.\<close>

definition complete_len :: "bytes \<Rightarrow> nat" where
  "complete_len b = length b - length (takeWhile (\<lambda>c. c \<noteq> newline) (rev b))"

definition drop_torn_tail :: "bytes \<Rightarrow> bytes" where
  "drop_torn_tail b = (if b = [] \<or> last b = newline then b else take (complete_len b) b)"

text \<open>\<open>to_string\<close> is serde's printer; \<open>tail\<close> says whether the file could be read and cut before the write.\<close>

definition append_samples ::
    "(cycle_record \<Rightarrow> string) \<Rightarrow> bool \<Rightarrow> io \<Rightarrow> cycle_record \<Rightarrow> bytes \<Rightarrow> (sample_error + unit) \<times> bytes" where
  "append_samples to_string tail io r b =
     (if cr_schema_version r \<noteq> SCHEMA_VERSION then (Err (RefusedSchema (cr_schema_version r)), b)
      else if \<not> tail then (Err TailUnreadable, b)
      else let (res, b') = write_synced io (drop_torn_tail b) (to_string r @ [newline]) in (map_err SampleWrite res, b'))"

fun parse_samples :: "(string \<Rightarrow> cycle_record option) \<Rightarrow> nat \<Rightarrow> string list \<Rightarrow> sample_error + cycle_record list" where
  "parse_samples from_str i [] = Ok []"
| "parse_samples from_str i (l # ls) =
     and_then (ok_or (from_str l) (BadSampleLine (i + 1))) (\<lambda>r.
     if cr_schema_version r \<noteq> SCHEMA_VERSION then Err (UnsupportedSchema (i + 1) (cr_schema_version r))
     else and_then (parse_samples from_str (i + 1) ls) (\<lambda>rs. Ok (r # rs)))"

datatype sample_file = NoSamples | UnreadableSamples | Samples bytes

definition read_records :: "(string \<Rightarrow> cycle_record option) \<Rightarrow> sample_file \<Rightarrow> sample_error + cycle_record list" where
  "read_records from_str f =
     (case f of
        NoSamples \<Rightarrow> Ok []
      | UnreadableSamples \<Rightarrow> Err SamplesUnreadable
      | Samples b \<Rightarrow>
          let body = take (complete_len b) b in
          if \<not> valid_utf8 body then Err SamplesNotUtf8 else parse_samples from_str 0 (str_lines body))"

section \<open>Percentiles\<close>

datatype stats_error = NoSampleValues | NegativeSample nat | BadPercentile rat

definition validate_samples :: "rat list \<Rightarrow> stats_error + unit" where
  "validate_samples values =
     (if values = [] then Err NoSampleValues
      else case position (\<lambda>v. v < 0) values of Some i \<Rightarrow> Err (NegativeSample i) | None \<Rightarrow> Ok ())"

definition percentile_nearest_rank :: "rat list \<Rightarrow> rat \<Rightarrow> stats_error + rat" where
  "percentile_nearest_rank values p =
     and_then (validate_samples values) (\<lambda>_.
     if \<not> (0 \<le> p \<and> p \<le> 100) then Err (BadPercentile p)
     else
       let sorted = sort values; n = length sorted;
           rank = \<lceil>f64_div (f64_round (p * f64_round (of_nat n))) 100\<rceil> - 1;
           index = nat (min (max rank 0) (int n - 1)) in
       Ok (sorted ! index))"

definition sample_median :: "rat list \<Rightarrow> stats_error + rat" where
  "sample_median values = percentile_nearest_rank values 50"

definition p95_if_sufficient :: "rat list \<Rightarrow> nat \<Rightarrow> stats_error + rat option" where
  "p95_if_sufficient values min_samples =
     and_then (validate_samples values) (\<lambda>_.
     if length values < min_samples then Ok None
     else and_then (percentile_nearest_rank values 95) (\<lambda>v. Ok (Some v)))"

section \<open>Selection\<close>

datatype stage_measurement =
    MeasuredStage rat "rat option" rat nat
  | UnavailableStage string nat

datatype measure_error = StatsFailed stats_error | StageTwice string stage | RejectedSamples sample_error

fun first_of_cycle :: "string set \<Rightarrow> cycle_record list \<Rightarrow> cycle_record list" where
  "first_of_cycle seen [] = []"
| "first_of_cycle seen (r # rs) =
     (if cr_cycle_id r \<in> seen then first_of_cycle seen rs else r # first_of_cycle (insert (cr_cycle_id r) seen) rs)"

definition compatible_records :: "string \<Rightarrow> measure_context \<Rightarrow> cycle_record list \<Rightarrow> cycle_record list" where
  "compatible_records current ctx records = first_of_cycle {} (filter (\<lambda>r. cr_cycle_id r \<noteq> current
     \<and> cr_workload_key r = ctx_workload_key ctx \<and> cr_fingerprint r = ctx_fingerprint ctx) records)"

text \<open>The samples of one stage over the window: durations and failures.\<close>

fun stage_samples :: "stage \<Rightarrow> cycle_record list \<Rightarrow> measure_error + (rat list \<times> nat)" where
  "stage_samples st [] = Ok ([], 0)"
| "stage_samples st (r # rs) =
     (case filter (\<lambda>s. ss_stage s = st) (cr_stages r) of
        [] \<Rightarrow> stage_samples st rs
      | [s] \<Rightarrow> and_then (stage_samples st rs) (\<lambda>(ds, failed).
          Ok (f64_of_u64 (ss_duration_us s) # ds, if ss_outcome s = StageFailed then failed + 1 else failed))
      | _ \<Rightarrow> Err (StageTwice (cr_cycle_id r) st))"

definition too_few :: "nat \<Rightarrow> nat \<Rightarrow> nat \<Rightarrow> string" where
  "too_few min_samples window n = ''fewer than '' @ dec_nat min_samples @ '' compatible completed samples in the last '' @
     dec_nat window @ '' cycles (found '' @ dec_nat n @ '')''"

definition measure_stage :: "nat \<Rightarrow> nat \<Rightarrow> nat \<Rightarrow> cycle_record list \<Rightarrow> stage \<Rightarrow> measure_error + stage_measurement" where
  "measure_stage min_samples window_cycles p95_min_samples window st =
     and_then (stage_samples st window) (\<lambda>(durations, failed).
     let n = length durations in
     if n < min_samples then Ok (UnavailableStage (too_few min_samples window_cycles n) n)
     else and_then (map_err StatsFailed (sample_median durations)) (\<lambda>med.
       and_then (map_err StatsFailed (p95_if_sufficient durations p95_min_samples)) (\<lambda>p95.
       Ok (MeasuredStage med p95 (f64_div (f64_round (of_nat failed)) (f64_round (of_nat n))) n))))"

fun measure_all :: "(stage \<Rightarrow> measure_error + stage_measurement) \<Rightarrow> stage list \<Rightarrow> measure_error + (stage \<rightharpoonup> stage_measurement)" where
  "measure_all f [] = Ok Map.empty"
| "measure_all f (st # sts) = and_then (f st) (\<lambda>m. and_then (measure_all f sts) (\<lambda>out. Ok (out(st \<mapsto> m))))"

definition try_measure ::
    "cycle_record list \<Rightarrow> string \<Rightarrow> measure_context \<Rightarrow> nat \<Rightarrow> nat \<Rightarrow> nat \<Rightarrow> measure_error + (stage \<rightharpoonup> stage_measurement)" where
  "try_measure records current ctx min_samples window_cycles p95_min_samples =
     (let compatible = compatible_records current ctx records;
          window = drop (length compatible - window_cycles) compatible in
      measure_all (measure_stage min_samples window_cycles p95_min_samples window) STAGES)"

definition measure_stages ::
    "(measure_error \<Rightarrow> string) \<Rightarrow> sample_error + cycle_record list \<Rightarrow> string \<Rightarrow> measure_context \<Rightarrow> nat \<Rightarrow> nat \<Rightarrow> nat
      \<Rightarrow> stage \<rightharpoonup> stage_measurement" where
  "measure_stages txt records current ctx min_samples window_cycles p95_min_samples =
     (case and_then (map_err RejectedSamples records) (\<lambda>r. try_measure r current ctx min_samples window_cycles p95_min_samples) of
        Inr m \<Rightarrow> m
      | Inl e \<Rightarrow> (\<lambda>st. if st \<in> set STAGES then Some (UnavailableStage (''stage samples were rejected: '' @ txt e) 0) else None))"

end
