(* ===== verification/Utf8.thy ===== *)
theory Utf8
  imports Text
begin

text \<open>Well-formed UTF-8 is closed under concatenation.\<close>

lemma utf8_step_append:
  assumes "b \<noteq> []" and "snd (utf8_step b)"
  shows "utf8_step (b @ c) = utf8_step b \<and> fst (utf8_step b) \<le> length b"
proof -
  define x where "x = (of_char (hd b) :: nat)"
  define second where "second = (\<lambda>b.
      if x = 224 then byte_in b 1 160 191
      else if 225 \<le> x \<and> x \<le> 236 then byte_in b 1 128 191
      else if x = 237 then byte_in b 1 128 159
      else if x = 238 \<or> x = 239 then byte_in b 1 128 191
      else if x = 240 then byte_in b 1 144 191
      else if 241 \<le> x \<and> x \<le> 243 then byte_in b 1 128 191
      else if x = 244 then byte_in b 1 128 143
      else False)"
  have step: "utf8_step d =
     (if x < 128 then (1, True)
      else if 194 \<le> x \<and> x \<le> 223 then (if byte_in d 1 128 191 then (2, True) else (1, False))
      else if \<not> second d then (1, False)
      else if \<not> byte_in d 2 128 191 then (2, False)
      else if x < 240 then (3, True)
      else if byte_in d 3 128 191 then (4, True) else (3, False))" if "hd d = hd b" for d
    unfolding utf8_step_def Let_def that x_def [symmetric] second_def by (rule refl)
  have mono: "byte_in (b @ c) i lo hi" "i < length b" if "byte_in b i lo hi" for i lo hi
    using that by (simp_all add: byte_in_def nth_append)
  have sec: "second (b @ c)" if "second b" using that mono(1) unfolding second_def by (auto split: if_splits)
  have hd: "hd (b @ c) = hd b" and len: "1 \<le> length b" using assms(1) by (cases b; simp)+
  note st = step [OF refl] step [OF hd]
  consider "x < 128" | "\<not> x < 128" "194 \<le> x \<and> x \<le> 223" "byte_in b 1 128 191"
    | "\<not> x < 128" "\<not> (194 \<le> x \<and> x \<le> 223)" "second b" "byte_in b 2 128 191" "x < 240 \<or> byte_in b 3 128 191"
    using assms(2) unfolding st(1) by (auto split: if_splits)
  then show ?thesis
  proof cases
    case 1
    then show ?thesis unfolding st using len by simp
  next
    case 2
    then show ?thesis unfolding st using mono [OF 2(3)] by simp
  next
    case 3
    have "3 < length b" if "\<not> x < 240" using mono(2) that 3(5) by blast
    with 3 sec [OF 3(3)] mono [OF 3(4)] mono(1) show ?thesis unfolding st by auto
  qed
qed

lemma valid_utf8_append: "valid_utf8 a \<Longrightarrow> valid_utf8 b \<Longrightarrow> valid_utf8 (a @ b)"
proof (induction a rule: valid_utf8.induct)
  case (1 a)
  show ?case
  proof (cases "a = []")
    case False
    with "1.prems"(1) have s: "snd (utf8_step a)" "valid_utf8 (drop (fst (utf8_step a)) a)"
      by (subst (asm) valid_utf8.simps, simp split: if_splits)+
    with "1.IH" False "1.prems"(2) have "valid_utf8 (drop (fst (utf8_step a)) a @ b)" by simp
    with utf8_step_append [OF False s(1)] s(1) False show ?thesis by (subst valid_utf8.simps) simp
  qed (use "1.prems" in simp)
qed

end
