(* ===== verification/Measure_Safety.thy ===== *)
theory Measure_Safety
  imports Measure Utf8 "HOL-Library.Sublist"
begin

text \<open>
  What the measurements guarantee: percentiles are exact in spite of binary64 rounding, the sample log recovers from torn
  writes, the fingerprint separates execution profiles, and a measured stage rests on enough comparable samples.
\<close>

section \<open>Rounding\<close>

lemma ilog2_upper:
  assumes "x > 0"
  shows "x < 2 powi (ilog2 x + 1)"
proof -
  obtain a b where q: "quotient_of x = (a, b)" by (cases "quotient_of x")
  have b: "b > 0" using quotient_of_denom_pos [OF q] .
  have x: "x = of_int a / of_int b" using quotient_of_div [OF q] .
  with assms b have a: "a > 0" by (simp add: zero_less_divide_iff)
  let ?k = "bitlen a - bitlen b"
  have la: "bitlen a \<ge> 1" and lb: "bitlen b \<ge> 1" using a b by (auto simp: bitlen_alt_def)
  have "a < 2 ^ nat (bitlen a)" using bitlen_bounds [OF a] by simp
  then have upper: "of_int a < (2::rat) powi bitlen a"
    using la by (metis of_int_less_iff of_int_numeral of_int_power order_trans power_int_def zero_le_one)
  have "2 ^ nat (bitlen b - 1) \<le> b" using bitlen_bounds [OF b] by simp
  then have lower: "(2::rat) powi (bitlen b - 1) \<le> of_int b"
    using lb by (metis diff_ge_0_iff_ge of_int_le_iff of_int_numeral of_int_power power_int_def)
  have "x < 2 powi bitlen a / 2 powi (bitlen b - 1)"
    unfolding x using upper lower a b by (intro frac_less) auto
  also have "\<dots> = 2 powi (?k + 1)" by (simp flip: power_int_diff) (simp add: algebra_simps)
  finally show ?thesis by (simp add: ilog2_def q Let_def)
qed

lemma round_half_even_int: "round_half_even (of_int n) = n"
  by (simp add: round_half_even_def)

lemma round_half_even_error: "\<bar>of_int (round_half_even q) - q\<bar> \<le> 1 / 2"
proof -
  have "of_int \<lfloor>q\<rfloor> \<le> q" "q < of_int \<lfloor>q\<rfloor> + 1" by linarith+
  then show ?thesis by (auto simp: round_half_even_def Let_def)
qed

lemma powi_pos [simp]: "(0::rat) < 2 powi e" by simp

lemma f64_round_int:
  assumes "0 \<le> n" and "n < 2 ^ 53"
  shows "f64_round (of_int n) = of_int n"
proof (cases "n = 0")
  case False
  define x where "x = (of_int n :: rat)"
  define e where "e = ilog2 x - 52"
  have x: "x > 0" using assms(1) False by (simp add: x_def)
  have "x < 2 ^ 53" using assms(2) by (simp add: x_def)
  then have "2 powi ilog2 x < (2::rat) powi 53" using ilog2_bound [OF x] by simp
  then have "ilog2 x < 53" using power_int_increasing [of 53 "ilog2 x" "2 :: rat"] by (meson not_le one_le_numeral)
  then have e: "e \<le> 0" by (simp add: e_def)
  then obtain k where "e = - int k" by (metis nonpos_int_cases)
  then have pow: "(2::rat) powi e = 1 / 2 ^ k" by (simp add: power_int_minus divide_inverse)
  have "x / 2 powi e = of_int (n * 2 ^ k)" by (simp add: pow x_def)
  then have "round_half_even (x / 2 powi e) = n * 2 ^ k" using round_half_even_int by metis
  moreover have "of_int (n * 2 ^ k) * 2 powi e = x" by (simp add: pow x_def)
  ultimately show ?thesis using x by (simp add: f64_round_def Let_def flip: x_def e_def)
qed simp

lemma f64_round_error:
  assumes "x > 0"
  shows "\<bar>f64_round x - x\<bar> \<le> x / 2 ^ 53"
proof -
  define e where "e = ilog2 x - 52"
  have "f64_round x - x = (of_int (round_half_even (x / 2 powi e)) - x / 2 powi e) * 2 powi e"
    using assms by (simp add: f64_round_def Let_def e_def algebra_simps)
  then have "\<bar>f64_round x - x\<bar> \<le> 1 / 2 * 2 powi e"
    using round_half_even_error [of "x / 2 powi e"] by (simp add: abs_mult)
  also have "\<dots> = 2 powi ilog2 x / 2 ^ 53"
    by (simp add: e_def power_int_diff)
  also have "\<dots> \<le> x / 2 ^ 53" using ilog2_bound [OF assms] by (intro divide_right_mono) auto
  finally show ?thesis .
qed

text \<open>The quotient of an integer below \<open>2 ^ 46\<close> by 100 rounds to the same side of every integer.\<close>

lemma ceiling_hundredths:
  assumes "0 \<le> m" and "m < 2 ^ 46"
  shows "\<lceil>f64_div (of_int m) 100\<rceil> = \<lceil>of_int m / (100 :: rat)\<rceil>"
proof (cases "100 dvd m")
  case True
  then obtain k where k: "m = 100 * k" by (rule dvdE)
  with assms have "0 \<le> k" "k < 2 ^ 53" by auto
  then show ?thesis using f64_round_int [of k] by (simp add: f64_div_def k)
next
  case False
  define x where "x = (of_int m / 100 :: rat)"
  define c where "c = \<lceil>x\<rceil>"
  have "m > 0" using assms(1) False by (cases "m = 0") auto
  then have x: "x > 0" by (simp add: x_def)
  have "x < 2 ^ 46 / 100" using assms(2) unfolding x_def
    by (intro divide_strict_right_mono) (metis of_int_less_iff of_int_numeral of_int_power, simp)
  then have small: "x / 2 ^ 53 < 1 / 100" by simp
  have c: "100 * (c - 1) < m" "m \<le> 100 * c"
  proof -
    have "of_int (c - 1) < x" "x \<le> of_int c" unfolding c_def by linarith+
    then have "of_int (100 * (c - 1)) < (of_int m :: rat)" "(of_int m :: rat) \<le> of_int (100 * c)" by (simp_all add: x_def)
    then show "100 * (c - 1) < m" "m \<le> 100 * c" unfolding of_int_less_iff of_int_le_iff by simp_all
  qed
  with False have "m \<noteq> 100 * c" by auto
  with c have "m \<le> 100 * c - 1" "100 * (c - 1) + 1 \<le> m" by linarith+
  then have "(of_int m :: rat) \<le> of_int (100 * c - 1)" "of_int (100 * (c - 1) + 1) \<le> (of_int m :: rat)"
    unfolding of_int_le_iff by simp_all
  then have gap: "x \<le> of_int c - 1 / 100" "of_int c - 1 + 1 / 100 \<le> x" by (simp_all add: x_def)
  have "\<bar>f64_round x - x\<bar> < 1 / 100" using f64_round_error [OF x] small by linarith
  then have "f64_round x - x < 1 / 100" "x - f64_round x < 1 / 100" by linarith+
  with gap have "of_int c - 1 < f64_round x" "f64_round x \<le> of_int c" by linarith+
  then have "\<lceil>f64_round x\<rceil> = c" by (simp add: ceiling_eq_iff)
  then show ?thesis by (simp add: f64_div_def c_def x_def)
qed


section \<open>Percentiles\<close>

text \<open>The nearest rank in exact arithmetic, as an index into the ascending values.\<close>

definition nearest_rank_index :: "nat \<Rightarrow> nat \<Rightarrow> nat" where
  "nearest_rank_index p n = nat \<lceil>of_nat (p * n) / (100 :: rat)\<rceil> - 1"

lemma validate_samples_Ok: "validate_samples values = Ok () \<longleftrightarrow> values \<noteq> [] \<and> list_all (\<lambda>v. 0 \<le> v) values"
proof (cases "position (\<lambda>v. v < 0) values")
  case None
  then have "validate_samples values = (if values = [] then Err NoSampleValues else Ok ())" by (simp add: validate_samples_def)
  moreover from None have "list_all (\<lambda>v. 0 \<le> v) values" by (auto simp: position_None list_all_iff not_less)
  ultimately show ?thesis by simp
next
  case (Some i)
  then have "i < length values \<and> values ! i < 0" by (auto dest: position_SomeD)
  then have "\<not> list_all (\<lambda>v. 0 \<le> v) values" by (metis list_all_length not_less)
  with Some show ?thesis by (auto simp: validate_samples_def)
qed

lemma percentile_rank:
  assumes "values \<noteq> []" and "list_all (\<lambda>v. 0 \<le> v) values" and "p \<le> 100" and "length values < 2 ^ 39"
  shows "percentile_nearest_rank values (of_nat p) = Ok (sort values ! nearest_rank_index p (length values))
     \<and> nearest_rank_index p (length values) < length values"
proof -
  let ?n = "length values"
  have n: "0 < ?n" using assms(1) by simp
  define m where "m = int (p * ?n)"
  have le: "p * ?n \<le> 100 * ?n" using assms(3) by simp
  have "100 * ?n < 2 ^ 46" using assms(4) by simp
  with le have lt: "p * ?n < 2 ^ 46" by (rule le_less_trans)
  have m: "0 \<le> m" "m < 2 ^ 46" "m \<le> 100 * int ?n"
    using le lt unfolding m_def by (simp, metis of_nat_less_iff of_nat_numeral of_nat_power, linarith)
  have "f64_round (of_nat ?n) = of_nat ?n" using f64_round_int [of "int ?n"] assms(4) by simp
  then have prod: "f64_round (of_nat p * f64_round (of_nat ?n)) = of_int m"
    using f64_round_int [of m] m(1,2) by (simp add: m_def)
  define c where "c = \<lceil>of_int m / (100 :: rat)\<rceil>"
  have "of_int m / (100 :: rat) \<le> of_int (int ?n)" using m(3) by (simp flip: of_int_le_iff [where ?'a = rat])
  then have c: "0 \<le> c" "c \<le> int ?n" using m(1) by (auto simp: c_def ceiling_le_iff)
  have ceil: "\<lceil>f64_div (of_int m) 100\<rceil> = c" using ceiling_hundredths [OF m(1,2)] by (simp add: c_def)
  have idx: "nearest_rank_index p ?n = nat c - 1"
    by (simp add: nearest_rank_index_def c_def m_def)
  have clamp: "nat (min (max (c - 1) 0) (int ?n - 1)) = nat c - 1" using c n by auto
  have "validate_samples values = Ok ()" using assms(1,2) validate_samples_Ok by blast
  moreover have "(0::rat) \<le> of_nat p \<and> of_nat p \<le> (100::rat)" using assms(3) by simp
  ultimately have "percentile_nearest_rank values (of_nat p) = Ok (sort values ! (nat c - 1))"
    by (simp add: percentile_nearest_rank_def prod ceil clamp Let_def)
  moreover have "nat c - 1 < ?n" using c n by linarith
  ultimately show ?thesis by (simp add: idx)
qed

section \<open>The sample log\<close>

text \<open>What is relied on of serde: a printed record is one line of UTF-8 and is read back.\<close>

definition samples_codec :: "(cycle_record \<Rightarrow> string) \<Rightarrow> (string \<Rightarrow> cycle_record option) \<Rightarrow> bool" where
  "samples_codec to_string from_str \<longleftrightarrow> (\<forall>r. from_str (to_string r) = Some r \<and> newline \<notin> set (to_string r)
     \<and> CHR 0x0D \<notin> set (to_string r) \<and> valid_utf8 (to_string r))"

definition sample_lines :: "(cycle_record \<Rightarrow> string) \<Rightarrow> cycle_record list \<Rightarrow> bytes" where
  "sample_lines to_string rs = concat (map (\<lambda>r. to_string r @ [newline]) rs)"

lemma sample_lines_simps [simp]:
  "sample_lines to_string [] = []"
  "sample_lines to_string (rs @ [r]) = sample_lines to_string rs @ to_string r @ [newline]"
  by (simp_all add: sample_lines_def)

lemma last_sample_lines: "rs \<noteq> [] \<Longrightarrow> last (sample_lines to_string rs) = newline \<and> sample_lines to_string rs \<noteq> []"
  by (induction rs rule: rev_induct) auto

lemma complete_len_tail:
  assumes "newline \<notin> set t"
  shows "take (complete_len (sample_lines to_string rs @ t)) (sample_lines to_string rs @ t) = sample_lines to_string rs"
proof -
  have "takeWhile (\<lambda>c. c \<noteq> newline) (rev (sample_lines to_string rs @ t)) = rev t"
  proof (cases "rs = []")
    case False
    then obtain p where p: "sample_lines to_string rs = p @ [newline]"
      using last_sample_lines [OF False] by (metis append_butlast_last_id)
    from assms show ?thesis unfolding p by (subst rev_append, subst takeWhile_append2) auto
  qed (use assms in auto)
  then show ?thesis by (simp add: complete_len_def)
qed

lemma drop_torn_tail_lines:
  assumes "newline \<notin> set t"
  shows "drop_torn_tail (sample_lines to_string rs @ t) = sample_lines to_string rs"
proof (cases "t = []")
  case True
  then show ?thesis using last_sample_lines [of rs to_string] by (cases "rs = []") (auto simp: drop_torn_tail_def)
next
  case False
  then have "last (sample_lines to_string rs @ t) \<noteq> newline" using assms by (metis last_appendR last_in_set)
  with False complete_len_tail [OF assms] show ?thesis by (simp add: drop_torn_tail_def)
qed

lemma read_sample_lines:
  assumes "samples_codec to_string from_str" and "newline \<notin> set t" and "\<forall>r \<in> set rs. cr_schema_version r = SCHEMA_VERSION"
  shows "read_records from_str (Samples (sample_lines to_string rs @ t)) = Ok rs"
proof -
  have codec: "from_str (to_string r) = Some r" "newline \<notin> set (to_string r)" "CHR 0x0D \<notin> set (to_string r)" "valid_utf8 (to_string r)" for r
    using assms(1) by (simp_all add: samples_codec_def)
  have nl: "valid_utf8 [newline]" by (rule valid_utf8_ascii) (simp add: newline_def)
  have utf8: "valid_utf8 (sample_lines to_string rs)" for rs
  proof (induction rs)
    case (Cons r rs)
    then show ?case using codec(4) [of r] nl by (simp add: sample_lines_def valid_utf8_append flip: append_Cons)
  qed (simp add: valid_utf8.simps)
  have split: "split_on newline (sample_lines to_string rs) = map to_string rs @ [[]]" for rs
    using codec(2) by (induction rs) (simp_all add: sample_lines_def split_on_append)
  have "strip_cr (to_string r) = to_string r" for r
    using codec(3) [of r] by (auto simp: strip_cr_def dest: last_in_set)
  then have lines: "str_lines (sample_lines to_string rs) = map to_string rs" for rs
    by (simp add: str_lines_def split Let_def butlast_append)
  have "parse_samples from_str i (map to_string rs) = Ok rs" for i
    using assms(3) by (induction rs arbitrary: i) (simp_all add: codec(1))
  with utf8 lines complete_len_tail [OF assms(2)] show ?thesis by (simp add: read_records_def)
qed

text \<open>One append with any outcome: the file, the records offered so far and the records acknowledged.\<close>

inductive samples_step ::
    "(cycle_record \<Rightarrow> string) \<Rightarrow> bytes \<times> cycle_record list \<times> cycle_record list \<Rightarrow> bytes \<times> cycle_record list \<times> cycle_record list \<Rightarrow> bool"
  for to_string where
  append: "append_samples to_string tail io r b = (res, b') \<Longrightarrow>
     samples_step to_string (b, offered, acked) (b', offered @ [r], if res = Ok () then acked @ [r] else acked)"

definition samples_inv :: "(cycle_record \<Rightarrow> string) \<Rightarrow> bytes \<times> cycle_record list \<times> cycle_record list \<Rightarrow> bool" where
  "samples_inv to_string s \<longleftrightarrow> (\<exists>rs t. fst s = sample_lines to_string rs @ t \<and> newline \<notin> set t
     \<and> (\<forall>r \<in> set rs. cr_schema_version r = SCHEMA_VERSION) \<and> subseq (snd (snd s)) rs \<and> subseq rs (fst (snd s)))"

lemma append_samples_cases:
  assumes "\<And>r. newline \<notin> set (to_string r)" and "append_samples to_string tail io r (sample_lines to_string rs @ t) = (res, b')"
    and "newline \<notin> set t"
  shows "(b' = sample_lines to_string rs @ t \<and> res \<noteq> Ok ())
     \<or> (\<exists>t'. b' = sample_lines to_string rs @ t' \<and> newline \<notin> set t' \<and> res \<noteq> Ok ())
     \<or> (b' = sample_lines to_string (rs @ [r]) \<and> cr_schema_version r = SCHEMA_VERSION)"
proof (cases io)
  case (IoWriteFails n)
  let ?line = "to_string r @ [newline]"
  have "take n ?line = ?line \<or> newline \<notin> set (take n ?line)"
    using assms(1) [of r] by (cases "n \<le> length (to_string r)") (auto dest: in_set_takeD)
  with IoWriteFails assms(2,3) show ?thesis
    by (auto simp: append_samples_def drop_torn_tail_lines Let_def split: if_splits)
qed (use assms in \<open>auto simp: append_samples_def drop_torn_tail_lines Let_def split: if_splits\<close>)

lemma samples_step_inv:
  assumes "\<And>r. newline \<notin> set (to_string r)" and "samples_step to_string s s'" and "samples_inv to_string s"
  shows "samples_inv to_string s'"
  using assms(2)
proof cases
  case (append tail io r b res b' offered acked)
  from assms(3) obtain rs t where rs: "b = sample_lines to_string rs @ t" "newline \<notin> set t"
      "\<forall>r \<in> set rs. cr_schema_version r = SCHEMA_VERSION" "subseq acked rs" "subseq rs offered"
    by (auto simp: samples_inv_def append)
  have more: "subseq rs (offered @ [r])" "subseq (rs @ [r]) (offered @ [r])"
      "subseq (if res = Ok () then acked @ [r] else acked) (rs @ [r])"
    using list_emb_append_mono [OF rs(5), of "[]" "[r]"] list_emb_append_mono [OF rs(5), of "[r]" "[r]"]
      list_emb_append_mono [OF rs(4), of "[r]" "[r]"] list_emb_append_mono [OF rs(4), of "[]" "[r]"] by simp_all
  from append_samples_cases [OF assms(1) append(3) [unfolded rs(1)] rs(2)] show ?thesis
  proof (elim disjE exE conjE)
    assume "b' = sample_lines to_string (rs @ [r])" "cr_schema_version r = SCHEMA_VERSION"
    with more rs(3) show ?thesis unfolding samples_inv_def append
      by (intro exI [of _ "rs @ [r]"] exI [of _ "[]"]) simp
  qed (use rs more in \<open>auto simp: samples_inv_def append\<close>)
qed

section \<open>The fingerprint\<close>

text \<open>A profile whose texts hold no line break and whose roots hold no comma.\<close>

definition plain_config :: "execution_config \<Rightarrow> bool" where
  "plain_config c \<longleftrightarrow> newline \<notin> set (xc_model_url c) \<and> newline \<notin> set (xc_holdouts_dir c) \<and> newline \<notin> set (xc_cortex_url c)
     \<and> newline \<notin> set (xc_cortex_space c) \<and> xc_ratify_roots c \<noteq> []
     \<and> (\<forall>r \<in> set (xc_ratify_roots c). newline \<notin> set r \<and> CHR '','' \<notin> set r)"

definition plain_profile :: "execution_profile \<Rightarrow> bool" where
  "plain_profile p \<longleftrightarrow> newline \<notin> set (xp_model p) \<and> newline \<notin> set (xp_gpu p) \<and> plain_config (xp_execution_config p)"

lemma split_as_lines: "\<forall>l \<in> set ls. newline \<notin> set l \<Longrightarrow> split_on newline (as_lines ls) = ls @ [[]]"
  by (induction ls) (simp_all add: as_lines_def split_on_append)

lemma as_lines_inj:
  "\<forall>l \<in> set ls. newline \<notin> set l \<Longrightarrow> \<forall>l \<in> set ms. newline \<notin> set l \<Longrightarrow> as_lines ls = as_lines ms \<Longrightarrow> ls = ms"
  using split_as_lines by (metis append1_eq_conv)

lemma newline_notin_join': "\<forall>r \<in> set rs. newline \<notin> set r \<Longrightarrow> newline \<notin> set (join '','' rs)"
  by (rule newline_notin_join) (auto simp: newline_def)

lemma config_lines_plain: "plain_config c \<Longrightarrow> l \<in> set (config_lines c) \<Longrightarrow> newline \<notin> set l"
  using newline_notin_join' [of "xc_ratify_roots c"] newline_notin_dec_nat [of "unat (xc_canary_target c)"]
  unfolding plain_config_def config_lines_def newline_def by auto

lemma dec_nat_eq: "dec_nat m = dec_nat n \<longleftrightarrow> m = n"
  using dec_nat_inj by blast

lemma config_lines_inj:
  assumes "plain_config c" and "plain_config d" and "config_lines c = config_lines d"
  shows "c = d"
proof -
  have roots: "split_on CHR '','' (join '','' (xc_ratify_roots e)) = xc_ratify_roots e" if "plain_config e" for e
    using that split_on_join [of "xc_ratify_roots e" "CHR '',''"] by (auto simp: plain_config_def)
  have "join '','' (xc_ratify_roots c) = join '','' (xc_ratify_roots d)" using assms(3) by (simp add: config_lines_def)
  with roots [OF assms(1)] roots [OF assms(2)] have "xc_ratify_roots c = xc_ratify_roots d" by metis
  with assms(3) show ?thesis by (intro execution_config.equality) (simp_all add: config_lines_def dec_nat_eq)
qed

lemma opt_text_plain: "newline \<notin> set (opt_text v)"
  using newline_notin_dec_nat unfolding opt_text_def newline_def by (auto split: option.split)

lemma opt_text_inj: "opt_text a = opt_text b \<longleftrightarrow> a = b"
proof -
  have "dec_nat n \<noteq> ''unknown''" for n
  proof
    assume "dec_nat n = ''unknown''"
    then have "CHR ''u'' \<in> set (dec_nat n)" by simp
    then show False using dec_nat_digits [of n] by auto
  qed
  then show ?thesis by (cases a; cases b) (auto simp: opt_text_def dec_nat_eq dest: sym)
qed

lemma profile_text_inj:
  assumes "plain_profile p" and "plain_profile q" and "profile_text p = profile_text q"
  shows "p = q"
proof -
  let ?ls = "\<lambda>p. [''model='' @ xp_model p] @ config_lines (xp_execution_config p) @
     [''cpu_count='' @ opt_text (xp_cpu_count p), ''memory_total_kib='' @ opt_text (map_option unat (xp_memory_total_kib p)),
      ''gpu='' @ xp_gpu p]"
  have plain: "\<forall>l \<in> set (?ls p). newline \<notin> set l" if "plain_profile p" for p
    using that config_lines_plain [of "xp_execution_config p"] opt_text_plain
    unfolding plain_profile_def newline_def by auto
  have eq: "?ls p = ?ls q"
    using as_lines_inj [OF plain [OF assms(1)] plain [OF assms(2)]] assms(3) by (simp add: profile_text_def)
  from eq have "config_lines (xp_execution_config p) = config_lines (xp_execution_config q)" "xp_model p = xp_model q"
      "opt_text (xp_cpu_count p) = opt_text (xp_cpu_count q)" "xp_gpu p = xp_gpu q"
      "opt_text (map_option unat (xp_memory_total_kib p)) = opt_text (map_option unat (xp_memory_total_kib q))"
    by (simp_all add: config_lines_def)
  then have "xp_execution_config p = xp_execution_config q" "xp_cpu_count p = xp_cpu_count q"
      "map_option unat (xp_memory_total_kib p) = map_option unat (xp_memory_total_kib q)" "xp_model p = xp_model q" "xp_gpu p = xp_gpu q"
    using config_lines_inj assms(1,2) by (auto simp: opt_text_inj plain_profile_def)
  moreover have "a = b" if "map_option unat a = map_option unat b" for a b :: "u64 option"
    using that by (cases a; cases b) (simp_all add: unsigned_word_eqI)
  ultimately show ?thesis by (intro execution_profile.equality) simp_all
qed

interpretation fp: committed "\<lambda>p. PROFILE_DOMAIN @ [newline] @ profile_text p" plain_profile
  by unfold_locales (auto dest: profile_text_inj)

section \<open>Selection\<close>

lemma first_of_cycle_props:
  "distinct (map cr_cycle_id (first_of_cycle seen rs)) \<and> set (first_of_cycle seen rs) \<subseteq> set rs
     \<and> (\<forall>r \<in> set (first_of_cycle seen rs). cr_cycle_id r \<notin> seen)"
  by (induction rs arbitrary: seen) (auto, (metis image_iff insertI1)+)

text \<open>The samples of one stage in one record, and the records that have one.\<close>

definition samples_of :: "stage \<Rightarrow> cycle_record \<Rightarrow> stage_sample list" where
  "samples_of st r = filter (\<lambda>s. ss_stage s = st) (cr_stages r)"

definition sampled :: "stage \<Rightarrow> cycle_record list \<Rightarrow> cycle_record list" where
  "sampled st rs = filter (\<lambda>r. samples_of st r \<noteq> []) rs"

definition duration_at :: "stage \<Rightarrow> cycle_record \<Rightarrow> rat" where
  "duration_at st r = f64_of_u64 (ss_duration_us (hd (samples_of st r)))"

definition failures :: "stage \<Rightarrow> cycle_record list \<Rightarrow> nat" where
  "failures st rs = length (filter (\<lambda>r. ss_outcome (hd (samples_of st r)) = StageFailed) rs)"

lemma stage_samples_Ok:
  "stage_samples st rs = Ok (ds, failed) \<Longrightarrow> ds = map (duration_at st) (sampled st rs) \<and> failed = failures st (sampled st rs)
     \<and> (\<forall>r \<in> set (sampled st rs). length (samples_of st r) = 1)"
proof (induction rs arbitrary: ds failed)
  case (Cons r rs)
  show ?case
  proof (cases "samples_of st r")
    case Nil
    with Cons show ?thesis by (simp add: samples_of_def sampled_def)
  next
    case (Cons s ss)
    then have one: "ss = []" "stage_samples st (r # rs) = and_then (stage_samples st rs) (\<lambda>(ds, failed).
          Ok (f64_of_u64 (ss_duration_us s) # ds, if ss_outcome s = StageFailed then failed + 1 else failed))"
      using Cons.prems by (cases ss; simp add: samples_of_def)+
    then obtain ds' f' where rest: "stage_samples st rs = Ok (ds', f')" "ds = f64_of_u64 (ss_duration_us s) # ds'"
        "failed = (if ss_outcome s = StageFailed then f' + 1 else f')"
      using Cons.prems by (auto simp: and_then_Ok)
    from Cons.IH [OF rest(1)] rest Cons one(1) show ?thesis
      by (simp add: sampled_def failures_def duration_at_def)
  qed
qed (simp add: sampled_def failures_def)

lemma percentile_in: "percentile_nearest_rank values p = Ok v \<Longrightarrow> v \<in> set values"
proof -
  assume "percentile_nearest_rank values p = Ok v"
  then obtain i where "values \<noteq> []" "v = sort values ! nat (min (max i 0) (int (length values) - 1))"
    by (auto simp: percentile_nearest_rank_def and_then_Ok validate_samples_Ok Let_def split: if_splits)
  moreover from this have "nat (min (max i 0) (int (length values) - 1)) < length (sort values)"
    by (cases "values") (auto simp: min_def)
  ultimately show ?thesis using nth_mem [of _ "sort values"] by simp
qed

lemma measure_all_Ok: "measure_all f sts = Ok m \<Longrightarrow> m st = Some x \<Longrightarrow> st \<in> set sts \<and> f st = Ok x"
  by (induction sts arbitrary: m) (auto simp: and_then_Ok split: if_splits)

lemma compatible_recordsD:
  "distinct (map cr_cycle_id (compatible_records current ctx rs))"
  "r \<in> set (compatible_records current ctx rs) \<Longrightarrow> r \<in> set rs \<and> cr_cycle_id r \<noteq> current
     \<and> cr_workload_key r = ctx_workload_key ctx \<and> cr_fingerprint r = ctx_fingerprint ctx"
  using first_of_cycle_props unfolding compatible_records_def by (blast, fastforce)

lemma measure_stage_Measured:
  assumes "measure_stage k wc p95 window st = Ok (MeasuredStage med tail err n)"
  shows "n = length (sampled st window) \<and> k \<le> n \<and> med \<in> duration_at st ` set (sampled st window)
     \<and> (\<forall>t. tail = Some t \<longrightarrow> p95 \<le> n \<and> t \<in> duration_at st ` set (sampled st window))
     \<and> err = f64_div (f64_round (of_nat (failures st (sampled st window)))) (f64_round (of_nat n))
     \<and> (\<forall>r \<in> set (sampled st window). length (samples_of st r) = 1)"
proof -
  from assms obtain ds failed where s: "stage_samples st window = Ok (ds, failed)" "length ds = n" "k \<le> n"
      "sample_median ds = Ok med" "p95_if_sufficient ds p95 = Ok tail"
      "err = f64_div (f64_round (of_nat failed)) (f64_round (of_nat n))"
    by (auto simp: measure_stage_def and_then_Ok map_err_Ok Let_def split: if_splits)
  have "p95 \<le> n \<and> t \<in> set ds" if "tail = Some t" for t
    using s(2,5) that percentile_in by (auto simp: p95_if_sufficient_def and_then_Ok split: if_splits)
  with stage_samples_Ok [OF s(1)] s percentile_in [OF s(4) [unfolded sample_median_def]] show ?thesis by simp
qed

section \<open>Theorems\<close>

lemma sorted_counts:
  fixes xs :: "rat list"
  assumes "sorted xs" and "i < length xs"
  shows "i < length (filter (\<lambda>x. x \<le> xs ! i) xs)" and "length (filter (\<lambda>x. x < xs ! i) xs) \<le> i"
proof -
  have split: "filter P xs = filter P (take k xs) @ filter P (drop k xs)" for P k
    by (metis append_take_drop_id filter_append)
  have "\<forall>x \<in> set (take (Suc i) xs). x \<le> xs ! i"
    using assms sorted_nth_mono [OF assms(1)] by (fastforce simp: in_set_conv_nth)
  then have "filter (\<lambda>x. x \<le> xs ! i) (take (Suc i) xs) = take (Suc i) xs" by (rule filter_True)
  then show "i < length (filter (\<lambda>x. x \<le> xs ! i) xs)" using assms(2) by (subst split [of _ "Suc i"]) simp
  have "\<forall>x \<in> set (drop i xs). \<not> x < xs ! i"
    using sorted_nth_mono [OF assms(1), of i] by (auto simp: in_set_conv_nth not_less)
  then have "filter (\<lambda>x. x < xs ! i) (drop i xs) = []" by simp
  then have "length (filter (\<lambda>x. x < xs ! i) xs) \<le> length (take i xs)"
    using length_filter_le [of "\<lambda>x. x < xs ! i" "take i xs"] by (subst split [of _ i]) simp
  then show "length (filter (\<lambda>x. x < xs ! i) xs) \<le> i" by simp
qed

lemma nearest_rank_bounds:
  assumes "0 < n"
  shows "p * n \<le> 100 * (nearest_rank_index p n + 1)" and "0 < p \<Longrightarrow> 100 * nearest_rank_index p n < p * n"
proof -
  define c where "c = \<lceil>of_nat (p * n) / (100 :: rat)\<rceil>"
  have "of_nat (p * n) / (100 :: rat) \<le> of_int c" "of_int c - 1 < of_nat (p * n) / (100 :: rat)"
    unfolding c_def by linarith+
  then have "(of_int (int (p * n)) :: rat) \<le> of_int (100 * c)" "(of_int (100 * (c - 1)) :: rat) < of_int (int (p * n))" by simp_all
  then have c: "int (p * n) \<le> 100 * c" "100 * (c - 1) < int (p * n)" unfolding of_int_le_iff of_int_less_iff by simp_all
  have idx: "nearest_rank_index p n = nat c - 1" by (simp add: nearest_rank_index_def c_def)
  define q where "q = p * n"
  note c = c [folded q_def]
  show "p * n \<le> 100 * (nearest_rank_index p n + 1)" using c unfolding idx q_def [symmetric] by (cases "1 \<le> c") (auto simp: nat_le_iff)
  assume "0 < p"
  with assms have "0 < q" by (simp add: q_def)
  with c have "c > 0" by linarith
  then obtain k where "c = int k" "0 < k" using zero_less_imp_eq_int by auto
  with c show "100 * nearest_rank_index p n < p * n" unfolding idx q_def [symmetric] by (cases k) auto
qed

text \<open>C34: Percentiles are exact.  For a whole percentage \<open>p\<close> and fewer than \<open>2 ^ 39\<close> non-negative samples, the binary64
  computation of the rank is not off by one: the returned value is a sample, at least \<open>p\<close> per cent of the samples are at
  most that value, and fewer than \<open>p\<close> per cent are below it.\<close>

theorem percentile_is_nearest_rank:
  assumes "values \<noteq> []" and "list_all (\<lambda>v. 0 \<le> v) values" and "p \<le> 100" and "length values < 2 ^ 39"
  shows "\<exists>v \<in> set values. percentile_nearest_rank values (of_nat p) = Ok v
     \<and> p * length values \<le> 100 * length (filter (\<lambda>x. x \<le> v) values)
     \<and> (0 < p \<longrightarrow> 100 * length (filter (\<lambda>x. x < v) values) < p * length values)"
proof -
  let ?n = "length values" and ?i = "nearest_rank_index p (length values)"
  define v where "v = sort values ! ?i"
  note rank = percentile_rank [OF assms, folded v_def]
  have i: "?i < length (sort values)" using rank by simp
  have "length (filter P (sort values)) = length (filter P values)" for P by (metis filter_sort length_sort)
  with sorted_counts [OF sorted_sort i] have "?i < length (filter (\<lambda>x. x \<le> v) values)" "length (filter (\<lambda>x. x < v) values) \<le> ?i"
    by (simp_all add: v_def)
  moreover have "v \<in> set values" using rank percentile_in by blast
  moreover have "0 < ?n" using assms(1) by simp
  ultimately show ?thesis using nearest_rank_bounds [of ?n p] rank by (intro bexI [of _ v]) auto
qed

theorem percentile_is_nearest_rank_witness:
  "\<exists>v \<in> {3, 1, 2 :: rat}. percentile_nearest_rank [3, 1, 2] 50 = Ok v
     \<and> 150 \<le> 100 * length (filter (\<lambda>x. x \<le> v) [3, 1, 2]) \<and> 100 * length (filter (\<lambda>x. x < v) [3, 1, 2]) < (150::nat)"
  using percentile_is_nearest_rank [of "[3, 1, 2]" 50] by simp

text \<open>C21: A measurement is backed by comparable cycles.  When a stage is reported as measured, the sample log was read, and
  the report rests on records of it from the window: of pairwise different cycles, none of them the current one, all of the
  current workload and execution profile, each with exactly one sample of the stage; there are at least the configured
  number, the median (and the 95th percentile, if given) is the duration of one of them, and the error rate is the rounded
  share of failed ones.\<close>

theorem measured_stage_is_backed:
  assumes "measure_stages txt records current ctx k wc p95 st = Some (MeasuredStage med tail err n)"
  shows "\<exists>rs ws. records = Ok rs \<and> set ws \<subseteq> set rs \<and> distinct (map cr_cycle_id ws) \<and> length ws = n \<and> k \<le> n \<and> n \<le> wc
     \<and> (\<forall>r \<in> set ws. cr_cycle_id r \<noteq> current \<and> cr_workload_key r = ctx_workload_key ctx
          \<and> cr_fingerprint r = ctx_fingerprint ctx \<and> length (samples_of st r) = 1)
     \<and> med \<in> duration_at st ` set ws \<and> (\<forall>t. tail = Some t \<longrightarrow> p95 \<le> n \<and> t \<in> duration_at st ` set ws)
     \<and> err = f64_div (f64_round (of_nat (failures st ws))) (f64_round (of_nat n))"
proof -
  obtain rs where rs: "records = Ok rs" using assms by (cases records) (auto simp: measure_stages_def split: if_splits)
  let ?all = "compatible_records current ctx rs"
  let ?window = "drop (length ?all - wc) ?all"
  from assms rs obtain m where "try_measure rs current ctx k wc p95 = Ok m" "m st = Some (MeasuredStage med tail err n)"
    by (auto simp: measure_stages_def split: sum.splits if_splits)
  then have "measure_stage k wc p95 ?window st = Ok (MeasuredStage med tail err n)"
    using measure_all_Ok by (fastforce simp: try_measure_def Let_def)
  note m = measure_stage_Measured [OF this]
  have "length (sampled st ?window) \<le> length ?window" unfolding sampled_def by (rule length_filter_le)
  then have "length (sampled st ?window) \<le> wc" by simp
  moreover have "distinct (map cr_cycle_id (sampled st ?window))"
    unfolding sampled_def by (intro distinct_map_filter) (simp add: drop_map [symmetric] compatible_recordsD(1))
  moreover have "set (sampled st ?window) \<subseteq> set ?all" by (auto simp: sampled_def dest: in_set_dropD)
  ultimately show ?thesis using rs m compatible_recordsD(2) by (intro exI [of _ rs] exI [of _ "sampled st ?window"]) blast
qed

text \<open>C11: The sample log survives torn writes.  After any sequence of appends in which a write may fail after any number of
  bytes, or be refused, the log reads back: the records read are offered ones in the order they were offered, and every
  acknowledged append is among them.\<close>

theorem sample_log_recovers:
  assumes "samples_codec to_string from_str" and "(samples_step to_string)\<^sup>*\<^sup>* ([], [], []) (b, offered, acked)"
  shows "\<exists>rs. read_records from_str (Samples b) = Ok rs \<and> subseq acked rs \<and> subseq rs offered"
proof -
  have line: "newline \<notin> set (to_string r)" for r using assms(1) by (simp add: samples_codec_def)
  have "samples_inv to_string ([], [], [])" unfolding samples_inv_def by (intro exI [of _ "[]"]) simp
  with assms(2) have "samples_inv to_string (b, offered, acked)"
    by (induction rule: rtranclp_induct) (auto intro: samples_step_inv [OF line])
  then obtain rs t where "b = sample_lines to_string rs @ t" "newline \<notin> set t"
      "\<forall>r \<in> set rs. cr_schema_version r = SCHEMA_VERSION" "subseq acked rs" "subseq rs offered"
    by (auto simp: samples_inv_def)
  with read_sample_lines [OF assms(1)] show ?thesis by blast
qed

text \<open>The fingerprint separates execution profiles.  Two profiles without line breaks in their texts and without commas
  in their ratification roots have the same fingerprint only if they are equal, or their texts are a collision of SHA-256.\<close>

theorem fingerprint_commits:
  assumes "hex_ok X" and "plain_profile p" and "plain_profile q" and "fingerprint X p = fingerprint X q"
  shows "p = q \<or> sha_collision X (PROFILE_DOMAIN @ [newline] @ profile_text p) (PROFILE_DOMAIN @ [newline] @ profile_text q)"
  using fp.digest_binds [OF assms(1-3)] assms(4) by (simp add: fingerprint_def measure_digest_def)

section \<open>Examples\<close>

text \<open>A printer with the properties relied on: every field as a JSON literal, the whole in hexadecimal.\<close>

definition pack :: "string list \<Rightarrow> string" where
  "pack ls = concat (map json_literal ls)"

definition stage_parts :: "stage_sample \<Rightarrow> string list" where
  "stage_parts s = [stage_id (ss_stage s), dec_nat (unat (ss_duration_us s)), dec_nat (outcome_rank (ss_outcome s)),
     opt_text (map_option unat (ss_canary_protocol_version s))]"

definition record_parts :: "cycle_record \<Rightarrow> string list list" where
  "record_parts r = (let p = cr_execution_profile r; c = xp_execution_config p in
     [[dec_nat (unat (cr_schema_version r)), cr_cycle_id r, cr_workload_key r, cr_fingerprint r, cr_recorded_at r,
       case cr_source_commit r of None \<Rightarrow> [] | Some s \<Rightarrow> CHR ''c'' # s,
       xp_model p, opt_text (xp_cpu_count p), opt_text (map_option unat (xp_memory_total_kib p)), xp_gpu p,
       xc_model_url c, xc_holdouts_dir c, dec_nat (unat (xc_canary_target c)), xc_cortex_url c, xc_cortex_space c],
      xc_ratify_roots c, map (pack \<circ> stage_parts) (cr_stages r)])"

definition cycle_text :: "cycle_record \<Rightarrow> string" where
  "cycle_text r = hex_of (pack (map pack (record_parts r)))"

definition reread_cycle :: "string \<Rightarrow> cycle_record option" where
  "reread_cycle s = (if s \<in> range cycle_text then Some (inv cycle_text s) else None)"

lemma pack_inj: "pack ls = pack ms \<longleftrightarrow> ls = ms"
proof (induction ls arbitrary: ms)
  case Nil
  show ?case by (cases ms) (simp_all add: pack_def json_literal_def)
next
  case (Cons l ls)
  have step: "json_literal l @ r = json_literal m @ u \<Longrightarrow> l = m \<and> r = u" for m r u
    using sample_json_unique unfolding json_unique_def sample_def crates.select_convs by blast
  have packs: "pack (l # ls) = json_literal l @ pack ls" "pack [] = []" for l ls by (simp_all add: pack_def)
  show ?case
  proof (cases ms)
    case Nil
    then show ?thesis by (simp add: packs json_literal_def)
  next
    case (Cons m ms')
    then show ?thesis using step [of "pack ls" m "pack ms'"] Cons.IH [of ms'] by (simp only: packs list.inject) metis
  qed
qed

lemma stage_id_inj: "stage_id a = stage_id b \<longleftrightarrow> a = b"
  by (cases a; cases b) simp_all

lemma map_unat_inj: "map_option unat a = map_option unat b \<longleftrightarrow> a = (b :: 'a :: len word option)"
  by (cases a; cases b) (auto intro: unsigned_word_eqI)

lemma stage_parts_inj: "stage_parts s = stage_parts t \<longleftrightarrow> s = t"
  by (auto simp: stage_parts_def stage_id_inj dec_nat_eq opt_text_inj map_unat_inj intro: stage_sample.equality)

lemma record_parts_inj: "record_parts r = record_parts q \<Longrightarrow> r = q"
proof -
  assume eq: "record_parts r = record_parts q"
  have "inj (pack \<circ> stage_parts)" by (auto intro: injI simp: pack_inj stage_parts_inj)
  from inj_mapI [OF this] eq have "cr_stages r = cr_stages q" by (simp add: record_parts_def Let_def inj_eq)
  moreover have "cr_source_commit r = cr_source_commit q"
    using eq by (simp add: record_parts_def Let_def split: option.splits)
  moreover have "xp_execution_config (cr_execution_profile r) = xp_execution_config (cr_execution_profile q)"
    using eq by (intro execution_config.equality) (simp_all add: record_parts_def Let_def dec_nat_eq)
  then have "cr_execution_profile r = cr_execution_profile q"
    using eq by (intro execution_profile.equality) (simp_all add: record_parts_def Let_def opt_text_inj map_unat_inj)
  ultimately show "r = q" using eq by (intro cycle_record.equality) (simp_all add: record_parts_def Let_def dec_nat_eq)
qed

lemma cycle_text_codec: "samples_codec cycle_text reread_cycle"
proof -
  have "inj cycle_text"
  proof (rule injI)
    fix r q
    assume "cycle_text r = cycle_text q"
    then have "map pack (record_parts r) = map pack (record_parts q)" by (simp add: cycle_text_def hex_of_inj pack_inj)
    then have "record_parts r = record_parts q" using inj_mapI [of pack] pack_inj by (metis injD injI)
    then show "r = q" by (rule record_parts_inj)
  qed
  then have read: "reread_cycle (cycle_text r) = Some r" for r by (simp add: reread_cycle_def)
  have hex: "set (cycle_text r) \<subseteq> hex_digits" for r using hex_of_digits by (simp add: cycle_text_def)
  have ascii: "newline \<notin> hex_digits" "CHR 0x0D \<notin> hex_digits" "\<forall>c \<in> hex_digits. (of_char c :: nat) < 128"
    by (simp_all add: hex_digits_def newline_def)
  have "list_all (\<lambda>c. (of_char c :: nat) < 128) (cycle_text r)" for r
    unfolding list_all_iff using hex [of r] ascii(3) by blast
  then have "valid_utf8 (cycle_text r)" for r by (rule valid_utf8_ascii)
  with read hex ascii(1,2) show ?thesis unfolding samples_codec_def by blast
qed

definition sample_config :: execution_config where
  "sample_config = from_config ''http://model'' None ''/rsi'' 10 ''http://cortex'' ''rsi'' [''b'', ''a'', ''b'']"

definition sample_profile :: execution_profile where
  "sample_profile = \<lparr>xp_model = ''m'', xp_execution_config = sample_config, xp_cpu_count = Some 8,
     xp_memory_total_kib = Some 1024, xp_gpu = ''none''\<rparr>"

definition sample_cycle :: "string \<Rightarrow> u64 \<Rightarrow> cycle_record" where
  "sample_cycle cycle d = \<lparr>cr_schema_version = 2, cr_cycle_id = cycle, cr_workload_key = ''w'', cr_fingerprint = ''f'',
     cr_execution_profile = sample_profile,
     cr_stages = clock_samples (record_stage Propose (unat d) StageOk Map.empty),
     cr_source_commit = None, cr_recorded_at = ''t''\<rparr>"

definition sample_context :: measure_context where
  "sample_context = \<lparr>ctx_workload_key = ''w'', ctx_profile = sample_profile, ctx_fingerprint = ''f'', ctx_source_commit = None\<rparr>"

theorem sample_log_recovers_witness:
  "\<exists>rs. read_records reread_cycle (Samples (cycle_text (sample_cycle ''c1'' 3) @ [newline])) = Ok rs
     \<and> subseq [sample_cycle ''c1'' 3] rs \<and> subseq rs [sample_cycle ''c0'' 1, sample_cycle ''c1'' 3]"
proof -
  let ?torn = "take 3 (cycle_text (sample_cycle ''c0'' 1))"
  have hex: "newline \<notin> set (cycle_text r)" for r using cycle_text_codec by (simp add: samples_codec_def)
  then have torn: "newline \<notin> set ?torn" by (meson in_set_takeD)
  have len: "3 \<le> length (cycle_text r)" for r
    using hex_of_digits by (simp add: cycle_text_def record_parts_def pack_def json_literal_def Let_def)
  have "append_samples cycle_text True (IoWriteFails 3) (sample_cycle ''c0'' 1) [] = (Err (SampleWrite WriteFailed), ?torn)"
    using len [of "sample_cycle ''c0'' 1"] by (simp add: append_samples_def sample_cycle_def SCHEMA_VERSION_def drop_torn_tail_def)
  from samples_step.append [OF this, of "[]" "[]"]
  have first: "samples_step cycle_text ([], [], []) (?torn, [sample_cycle ''c0'' 1], [])" by simp
  have "drop_torn_tail ?torn = []" using drop_torn_tail_lines [OF torn, of cycle_text "[]"] by simp
  then have "append_samples cycle_text True IoOk (sample_cycle ''c1'' 3) ?torn
      = (Ok (), cycle_text (sample_cycle ''c1'' 3) @ [newline])"
    by (simp add: append_samples_def SCHEMA_VERSION_def sample_cycle_def)
  from samples_step.append [OF this, of "[sample_cycle ''c0'' 1]" "[]"]
  have "samples_step cycle_text (?torn, [sample_cycle ''c0'' 1], [])
      (cycle_text (sample_cycle ''c1'' 3) @ [newline], [sample_cycle ''c0'' 1, sample_cycle ''c1'' 3], [sample_cycle ''c1'' 3])" by simp
  with first show ?thesis by (intro sample_log_recovers [OF cycle_text_codec]) (rule converse_rtranclp_into_rtranclp, auto)
qed

theorem fingerprint_commits_witness:
  "sha_collision colliding (PROFILE_DOMAIN @ [newline] @ profile_text sample_profile)
     (PROFILE_DOMAIN @ [newline] @ profile_text (sample_profile\<lparr>xp_model := ''n''\<rparr>))"
proof -
  have "plain_profile sample_profile" "plain_profile (sample_profile\<lparr>xp_model := ''n''\<rparr>)"
    by (simp_all add: plain_profile_def plain_config_def sample_profile_def sample_config_def from_config_def newline_def)
  moreover have "fingerprint colliding sample_profile = fingerprint colliding (sample_profile\<lparr>xp_model := ''n''\<rparr>)"
    by (simp add: fingerprint_def measure_digest_def colliding_def)
  ultimately show ?thesis
    using fingerprint_commits [OF colliding_hex_ok, of sample_profile "sample_profile\<lparr>xp_model := ''n''\<rparr>"]
    by (simp add: sample_profile_def)
qed

theorem measured_stage_is_backed_witness:
  "\<exists>rs ws. Ok [sample_cycle ''c1'' 3, sample_cycle ''c2'' 4] = Ok rs \<and> set ws \<subseteq> set rs \<and> length ws = 2
     \<and> 3 \<in> duration_at Propose ` set ws"
proof -
  have f: "f64_of_u64 3 = 3" "f64_of_u64 4 = 4" "f64_round 2 = 2"
    using f64_round_int [of 3] f64_round_int [of 4] f64_round_int [of 2] by (simp_all add: f64_of_u64_def)
  have med: "sample_median [3, 4] = Ok 3"
    using percentile_rank [of "[3, 4]" 50] by (simp add: sample_median_def nearest_rank_index_def)
  have samples: "stage_samples st [sample_cycle ''c1'' 3, sample_cycle ''c2'' 4] = Ok (if st = Propose then [3, 4] else [], 0)" for st
    by (simp add: sample_cycle_def clock_samples_def record_stage_def STAGES_def f map_filter_simps saturating_add_def)
  have stage: "measure_stage 2 10 3 [sample_cycle ''c1'' 3, sample_cycle ''c2'' 4] st = Ok
      (if st = Propose then MeasuredStage 3 None 0 2 else UnavailableStage (too_few 2 10 0) 0)" for st
    unfolding measure_stage_def samples by (simp add: med p95_if_sufficient_def validate_samples_def position.simps f f64_div_def)
  have "compatible_records ''now'' sample_context [sample_cycle ''c1'' 3, sample_cycle ''c2'' 4] = [sample_cycle ''c1'' 3, sample_cycle ''c2'' 4]"
    by (simp add: compatible_records_def sample_cycle_def sample_context_def)
  then have "measure_stages (\<lambda>_. []) (Ok [sample_cycle ''c1'' 3, sample_cycle ''c2'' 4]) ''now'' sample_context 2 10 3 Propose
      = Some (MeasuredStage 3 None 0 2)"
    by (simp add: measure_stages_def try_measure_def stage STAGES_def)
  from measured_stage_is_backed [OF this] show ?thesis by blast
qed

end
