(* ===== verification/Graph.thy ===== *)
theory Graph
  imports Measure_Safety "HOL-Library.AList" "HOL-Library.Product_Lexorder"
begin

text \<open>
  The capability graph (\<open>src/src/graph/mod.rs\<close>) and the pipeline graph built from the stage measurements
  (\<open>build_capability_graph\<close> of \<open>src/src/measure/select.rs\<close>): breadth-first betweenness centrality and the ranking of
  bottlenecks.

  The \<open>HashMap\<close> of nodes is the list of its entries in iteration order, which the program does not control.  All maps of
  one search have the keys of the graph: looking up another key panics, which is \<open>None\<close>.  The distance -1 of an undiscovered
  node is \<open>None\<close> of an optional number.  Scores are binary64 values of the exact rationals, without bounds on the exponent.
\<close>

section \<open>Nodes\<close>

datatype measurement = MeasuredNode | UnavailableNode

datatype ranking_basis = StructuralBasis | MeasuredBasis

record capability_node =
  cn_id :: string
  cn_name :: string
  cn_subsystem :: string
  cn_latency_p95_us :: rat
  cn_memory_rss_kb :: u64
  cn_error_rate :: rat
  cn_weight :: rat
  cn_measurement :: measurement
  cn_latency_median_us :: "rat option"
  cn_latency_p95_us_measured :: "rat option"
  cn_error_rate_measured :: "rat option"
  cn_sample_count :: nat
  cn_unavailable_reason :: "string option"

datatype graph_error = BadValue string rat | ErrorRateAboveOne rat | NotMeasured string | NoMedianOrRate

definition check_finite_nonneg :: "string \<Rightarrow> rat \<Rightarrow> graph_error + unit" where
  "check_finite_nonneg name v = (if v \<ge> 0 then Ok () else Err (BadValue name v))"

definition new_node :: "string \<Rightarrow> string \<Rightarrow> string \<Rightarrow> capability_node" where
  "new_node i name subsystem =
     \<lparr>cn_id = i, cn_name = name, cn_subsystem = subsystem, cn_latency_p95_us = 0, cn_memory_rss_kb = 0, cn_error_rate = 0,
      cn_weight = 1, cn_measurement = UnavailableNode, cn_latency_median_us = None, cn_latency_p95_us_measured = None,
      cn_error_rate_measured = None, cn_sample_count = 0,
      cn_unavailable_reason = Some ''no measurement was supplied for this node''\<rparr>"

definition with_resource_metrics :: "rat \<Rightarrow> u64 \<Rightarrow> rat \<Rightarrow> capability_node \<Rightarrow> capability_node" where
  "with_resource_metrics p95_us rss_kb error_rate n =
     n\<lparr>cn_latency_p95_us := p95_us, cn_memory_rss_kb := rss_kb, cn_error_rate := error_rate\<rparr>"

definition with_measured_latency ::
    "rat \<Rightarrow> rat option \<Rightarrow> rat \<Rightarrow> nat \<Rightarrow> capability_node \<Rightarrow> graph_error + capability_node" where
  "with_measured_latency median_us p95_us error_rate sample_count n =
     and_then (check_finite_nonneg ''latency_median_us'' median_us) (\<lambda>_.
     and_then (case p95_us of Some p \<Rightarrow> check_finite_nonneg ''latency_p95_us_measured'' p | None \<Rightarrow> Ok ()) (\<lambda>_.
     and_then (check_finite_nonneg ''error_rate_measured'' error_rate) (\<lambda>_.
     if error_rate > 1 then Err (ErrorRateAboveOne error_rate)
     else Ok (n\<lparr>cn_measurement := MeasuredNode, cn_latency_median_us := Some median_us, cn_latency_p95_us_measured := p95_us,
       cn_error_rate_measured := Some error_rate, cn_sample_count := sample_count,
       cn_unavailable_reason := (if p95_us \<noteq> None then None
         else Some ''p95 is unavailable: too few valid compatible samples'')\<rparr>))))"

definition with_unavailable :: "string \<Rightarrow> nat \<Rightarrow> capability_node \<Rightarrow> capability_node" where
  "with_unavailable reason sample_count n =
     n\<lparr>cn_measurement := UnavailableNode, cn_latency_median_us := None, cn_latency_p95_us_measured := None,
       cn_error_rate_measured := None, cn_sample_count := sample_count, cn_unavailable_reason := Some reason\<rparr>"

definition scoring_inputs :: "capability_node \<Rightarrow> graph_error + (rat \<times> rat)" where
  "scoring_inputs n =
     (if cn_measurement n \<noteq> MeasuredNode then Err (NotMeasured (case cn_unavailable_reason n of Some r \<Rightarrow> r | None \<Rightarrow> ''no measurement''))
      else case (cn_latency_median_us n, cn_error_rate_measured n) of
          (Some median, Some err) \<Rightarrow>
            and_then (check_finite_nonneg ''latency_median_us'' median) (\<lambda>_.
            and_then (check_finite_nonneg ''error_rate_measured'' err) (\<lambda>_.
            if err > 1 then Err (ErrorRateAboveOne err) else Ok (median, err)))
        | _ \<Rightarrow> Err NoMedianOrRate)"

section \<open>The graph\<close>

record capability_edge =
  ce_from :: string
  ce_to :: string
  ce_latency_impact_us :: rat
  ce_call_frequency :: rat

record capability_graph =
  cg_nodes :: "(string \<times> capability_node) list"
  cg_edges :: "capability_edge list"

definition new_graph :: capability_graph where
  "new_graph = \<lparr>cg_nodes = [], cg_edges = []\<rparr>"

definition add_node :: "capability_node \<Rightarrow> capability_graph \<Rightarrow> capability_graph" where
  "add_node n g = g\<lparr>cg_nodes := AList.update (cn_id n) n (cg_nodes g)\<rparr>"

definition add_edge :: "string \<Rightarrow> string \<Rightarrow> rat \<Rightarrow> rat \<Rightarrow> capability_graph \<Rightarrow> capability_graph" where
  "add_edge from to latency frequency g =
     g\<lparr>cg_edges := cg_edges g @ [\<lparr>ce_from = from, ce_to = to, ce_latency_impact_us = latency, ce_call_frequency = frequency\<rparr>]\<rparr>"

definition node_ids :: "capability_graph \<Rightarrow> string list" where
  "node_ids g = map fst (cg_nodes g)"

definition adjacency_list :: "capability_graph \<Rightarrow> string \<Rightarrow> string list" where
  "adjacency_list g v = (if v \<in> set (node_ids g) then map ce_to (filter (\<lambda>e. ce_from e = v) (cg_edges g)) else [])"

section \<open>Breadth-first search from one source\<close>

definition f64_add :: "rat \<Rightarrow> rat \<Rightarrow> rat" where "f64_add a b = f64_round (a + b)"
definition f64_mul :: "rat \<Rightarrow> rat \<Rightarrow> rat" where "f64_mul a b = f64_round (a * b)"

record search =
  se_stack :: "string list"
  se_pred :: "string \<Rightarrow> string list"
  se_sigma :: "string \<Rightarrow> rat"
  se_dist :: "string \<Rightarrow> nat option"
  se_queue :: "string list"

definition start_search :: "string \<Rightarrow> search" where
  "start_search s = \<lparr>se_stack = [], se_pred = (\<lambda>_. []), se_sigma = (\<lambda>_. 0)(s := 1), se_dist = (\<lambda>_. None)(s := Some 0),
     se_queue = [s]\<rparr>"

definition relax :: "string \<Rightarrow> nat \<Rightarrow> string \<Rightarrow> search \<Rightarrow> search" where
  "relax v next w st =
     (let st = (if se_dist st w = None then st\<lparr>se_dist := (se_dist st)(w := Some next), se_queue := se_queue st @ [w]\<rparr> else st) in
      if se_dist st w = Some next
        then st\<lparr>se_sigma := (se_sigma st)(w := f64_add (se_sigma st w) (se_sigma st v)),
                se_pred := (se_pred st)(w := se_pred st w @ [v])\<rparr>
      else st)"

fun relax_all :: "string set \<Rightarrow> string \<Rightarrow> nat \<Rightarrow> string list \<Rightarrow> search \<Rightarrow> search option" where
  "relax_all ids v next [] st = Some st"
| "relax_all ids v next (w # ws) st = (if w \<notin> ids then None else relax_all ids v next ws (relax v next w st))"

definition undiscovered :: "string list \<Rightarrow> search \<Rightarrow> nat" where
  "undiscovered ids st = length (filter (\<lambda>w. se_dist st w = None) ids)"

lemma undiscovered_less:
  assumes "w \<in> set ids" and "se_dist st w = None"
  shows "undiscovered ids (st\<lparr>se_dist := (se_dist st)(w := Some d), se_queue := q\<rparr>) < undiscovered ids st"
proof -
  obtain as bs where ids: "ids = as @ w # bs" using assms(1) by (meson split_list)
  have "undiscovered xs (st\<lparr>se_dist := (se_dist st)(w := Some d), se_queue := q\<rparr>) \<le> undiscovered xs st" for xs
    by (induction xs) (auto simp: undiscovered_def)
  from this [of as] this [of bs] assms(2) show ?thesis by (simp add: undiscovered_def ids)
qed

lemma undiscovered_other [simp]:
  "undiscovered ids (st\<lparr>se_sigma := a, se_pred := b\<rparr>) = undiscovered ids st"
  "undiscovered ids (st\<lparr>se_queue := q, se_stack := k\<rparr>) = undiscovered ids st"
  by (simp_all add: undiscovered_def)

lemma relax_all_measure:
  "relax_all (set ids) v next ws st = Some st' \<Longrightarrow>
     length (se_queue st') + undiscovered ids st' \<le> length (se_queue st) + undiscovered ids st"
proof (induction ws arbitrary: st)
  case (Cons w ws)
  have "length (se_queue (relax v next w st)) + undiscovered ids (relax v next w st) \<le> length (se_queue st) + undiscovered ids st"
    if "w \<in> set ids"
    using undiscovered_less [OF that, where st = st and d = "next" and q = "se_queue st @ [w]"] by (auto simp: relax_def Let_def)
  with Cons show ?case by (fastforce split: if_splits)
qed simp

function bfs :: "string list \<Rightarrow> (string \<Rightarrow> string list) \<Rightarrow> search \<Rightarrow> search option" where
  "bfs ids adj st =
     (case se_queue st of
        [] \<Rightarrow> Some st
      | v # queue \<Rightarrow>
          (let d = (case se_dist st v of None \<Rightarrow> 0 | Some d \<Rightarrow> d + 1) in
           case relax_all (set ids) v d (adj v) (st\<lparr>se_queue := queue, se_stack := se_stack st @ [v]\<rparr>) of
             None \<Rightarrow> None
           | Some st' \<Rightarrow> bfs ids adj st'))"
  by pat_completeness auto
termination
proof (relation "measure (\<lambda>(ids, adj, st). length (se_queue st) + undiscovered ids st)")
  fix ids adj st v queue d st'
  assume "se_queue st = v # queue" and "relax_all (set ids) v d (adj v) (st\<lparr>se_queue := queue, se_stack := se_stack st @ [v]\<rparr>) = Some st'"
  from relax_all_measure [OF this(2)] this(1)
  show "((ids, adj, st'), (ids, adj, st)) \<in> measure (\<lambda>(ids, adj, st). length (se_queue st) + undiscovered ids st)"
    by (simp add: undiscovered_def)
qed simp

declare bfs.simps [simp del]

fun spread :: "search \<Rightarrow> string \<Rightarrow> string list \<Rightarrow> (string \<Rightarrow> rat) \<Rightarrow> string \<Rightarrow> rat" where
  "spread st w [] delta = delta"
| "spread st w (v # vs) delta =
     spread st w vs (delta(v := f64_add (delta v) (f64_mul (f64_div (se_sigma st v) (se_sigma st w)) (f64_add 1 (delta w)))))"

fun accumulate :: "search \<Rightarrow> string \<Rightarrow> string list \<Rightarrow> (string \<Rightarrow> rat) \<Rightarrow> (string \<Rightarrow> rat) \<Rightarrow> string \<Rightarrow> rat" where
  "accumulate st s [] delta centrality = centrality"
| "accumulate st s (w # ws) delta centrality =
     (let delta = spread st w (se_pred st w) delta in
      accumulate st s ws delta (if w \<noteq> s then centrality(w := f64_add (centrality w) (delta w)) else centrality))"

fun from_sources :: "string list \<Rightarrow> (string \<Rightarrow> string list) \<Rightarrow> string list \<Rightarrow> (string \<Rightarrow> rat) \<Rightarrow> (string \<Rightarrow> rat) option" where
  "from_sources ids adj [] centrality = Some centrality"
| "from_sources ids adj (s # ss) centrality =
     (case bfs ids adj (start_search s) of
        None \<Rightarrow> None
      | Some st \<Rightarrow> from_sources ids adj ss (accumulate st s (rev (se_stack st)) (\<lambda>_. 0) centrality))"

definition calculate_betweenness_centrality :: "capability_graph \<Rightarrow> (string \<Rightarrow> rat) option" where
  "calculate_betweenness_centrality g =
     (let ids = node_ids g; n = length ids in
      if n \<le> 2 then Some (\<lambda>_. 0)
      else case from_sources ids (adjacency_list g) (sort ids) (\<lambda>_. 0) of
          None \<Rightarrow> None
        | Some centrality \<Rightarrow>
            let scale = f64_div 1 (f64_round (of_nat ((n - 1) * (n - 2)))) in
            Some (\<lambda>w. f64_mul (centrality w) scale))"

section \<open>The ranking\<close>

datatype explanation = StructuralText rat | MeasuredText rat rat rat

record bottleneck_rank =
  br_rank :: nat
  br_node_id :: string
  br_node_name :: string
  br_subsystem :: string
  br_bottleneck_score :: rat
  br_centrality :: rat
  br_latency_p95_us :: rat
  br_error_rate :: rat
  br_causal_explanation :: explanation
  br_measurement :: measurement
  br_latency_median_us :: "rat option"
  br_latency_p95_us_measured :: "rat option"
  br_error_rate_measured :: "rat option"
  br_sample_count :: nat
  br_unavailable_reason :: "graph_error + string option"
  br_ranking_basis :: ranking_basis

definition measured_basis :: "capability_graph \<Rightarrow> bool" where
  "measured_basis g \<longleftrightarrow> cg_nodes g \<noteq> [] \<and> list_all (\<lambda>(_, n). is_ok (scoring_inputs n)) (cg_nodes g)"

definition f64_const :: "rat \<Rightarrow> rat" where "f64_const = f64_round"

text \<open>The medians are summed in the order of the ids.\<close>

definition avg_latency :: "capability_graph \<Rightarrow> rat" where
  "avg_latency g =
     (if measured_basis g
      then let medians = map (\<lambda>i. case map_of (cg_nodes g) i of Some n \<Rightarrow> (case scoring_inputs n of Inr (m, _) \<Rightarrow> m | Inl _ \<Rightarrow> 0) | None \<Rightarrow> 0)
                 (sort (node_ids g)) in
           max (f64_div (foldl f64_add 0 medians) (f64_round (of_nat (length (cg_nodes g))))) 1
      else 1)"

definition score_node :: "bool \<Rightarrow> rat \<Rightarrow> rat \<Rightarrow> capability_node \<Rightarrow> rat \<times> explanation" where
  "score_node basis avg c n =
     (case scoring_inputs n of
        Inr (median, err) \<Rightarrow>
          if basis then
            let lat_ratio = min (f64_div median avg) 10; err_factor = min (f64_mul err 5) 5 in
            (f64_add (f64_add (f64_mul c (f64_const (4 / 10))) (f64_mul lat_ratio (f64_const (4 / 10))))
               (f64_mul err_factor (f64_const (2 / 10))),
             MeasuredText c lat_ratio (f64_mul err 100))
          else (c, StructuralText c)
      | Inl _ \<Rightarrow> (c, StructuralText c))"

definition rank_node :: "capability_graph \<Rightarrow> (string \<Rightarrow> rat) \<Rightarrow> string \<times> capability_node \<Rightarrow> bottleneck_rank" where
  "rank_node g centrality entry =
     (let (i, n) = entry; c = centrality i; (score, explanation) = score_node (measured_basis g) (avg_latency g) c n;
          ok = is_ok (scoring_inputs n); only = (\<lambda>v. if ok then v else None) in
      \<lparr>br_rank = 0, br_node_id = i, br_node_name = cn_name n, br_subsystem = cn_subsystem n, br_bottleneck_score = score,
       br_centrality = c, br_latency_p95_us = cn_latency_p95_us n, br_error_rate = cn_error_rate n,
       br_causal_explanation = explanation, br_measurement = (if ok then MeasuredNode else UnavailableNode),
       br_latency_median_us = only (cn_latency_median_us n), br_latency_p95_us_measured = only (cn_latency_p95_us_measured n),
       br_error_rate_measured = only (cn_error_rate_measured n), br_sample_count = cn_sample_count n,
       br_unavailable_reason = (case scoring_inputs n of Inl e \<Rightarrow> Inl e | Inr _ \<Rightarrow> Inr (cn_unavailable_reason n)),
       br_ranking_basis = (if measured_basis g then MeasuredBasis else StructuralBasis)\<rparr>)"

text \<open>Scores are compared in units of \<open>1e-9\<close>, rounded half up; the cast to \<open>i64\<close> saturates.\<close>

definition quantize :: "rat \<Rightarrow> int" where
  "quantize s = min \<lfloor>f64_mul s 1000000000 + 1 / 2\<rfloor> (2 ^ 63 - 1)"

definition rank_key :: "bottleneck_rank \<Rightarrow> int \<times> string" where
  "rank_key r = (- quantize (br_bottleneck_score r), br_node_id r)"

fun number_from :: "nat \<Rightarrow> bottleneck_rank list \<Rightarrow> bottleneck_rank list" where
  "number_from i [] = []"
| "number_from i (r # rs) = r\<lparr>br_rank := i\<rparr> # number_from (i + 1) rs"

definition rank_bottlenecks :: "capability_graph \<Rightarrow> bottleneck_rank list option" where
  "rank_bottlenecks g = map_option (\<lambda>centrality. number_from 1 (sort_key rank_key (map (rank_node g centrality) (cg_nodes g))))
     (calculate_betweenness_centrality g)"

definition top_bottleneck :: "capability_graph \<Rightarrow> bottleneck_rank option option" where
  "top_bottleneck g = map_option (\<lambda>rs. case rs of [] \<Rightarrow> None | r # _ \<Rightarrow> Some r) (rank_bottlenecks g)"

section \<open>The pipeline\<close>

fun node_meta :: "stage \<Rightarrow> string \<times> string" where
  "node_meta Observe = (''Observe Subsystem'', ''observe'')"
| "node_meta Propose = (''Propose Subsystem'', ''propose'')"
| "node_meta BuildJail = (''Build Jail'', ''isolation'')"
| "node_meta JudgeEvaluation = (''Judge Evaluation'', ''actor'')"
| "node_meta SupervisorCanary = (''Supervisor Canary'', ''supervisor'')"
| "node_meta CortexCommit = (''Cortex Commit'', ''ratify'')"

definition stage_node :: "(stage \<rightharpoonup> stage_measurement) \<Rightarrow> stage \<Rightarrow> graph_error + capability_node" where
  "stage_node measurements st =
     (let (name, subsystem) = node_meta st; n = new_node (stage_id st) name subsystem in
      case measurements st of
        Some (MeasuredStage median p95 error_rate samples) \<Rightarrow> with_measured_latency median p95 error_rate samples n
      | Some (UnavailableStage reason samples) \<Rightarrow> Ok (with_unavailable reason samples n)
      | None \<Rightarrow> Ok (with_unavailable ''stage was not measured'' 0 n))"

fun add_stages :: "(stage \<rightharpoonup> stage_measurement) \<Rightarrow> stage list \<Rightarrow> capability_graph \<Rightarrow> graph_error + capability_graph" where
  "add_stages measurements [] g = Ok g"
| "add_stages measurements (st # sts) g =
     and_then (stage_node measurements st) (\<lambda>n. add_stages measurements sts (add_node n g))"

fun add_chain :: "stage list \<Rightarrow> capability_graph \<Rightarrow> capability_graph" where
  "add_chain (a # b # sts) g = add_chain (b # sts) (add_edge (stage_id a) (stage_id b) 0 1 g)"
| "add_chain _ g = g"

definition build_capability_graph :: "(stage \<rightharpoonup> stage_measurement) \<Rightarrow> graph_error + capability_graph" where
  "build_capability_graph measurements = and_then (add_stages measurements STAGES new_graph) (\<lambda>g. Ok (add_chain STAGES g))"

end
