(* ===== verification/Graph_Safety.thy ===== *)
theory Graph_Safety
  imports Graph
begin

text \<open>
  The search ends with the shortest distances, the ranking is defined for every graph whose edges stay inside it and does not
  depend on the iteration order of the node map, and the pipeline graph of measured stages always has a top bottleneck.
\<close>

section \<open>Shortest distances\<close>

definition links :: "(string \<Rightarrow> string list) \<Rightarrow> (string \<times> string) set" where
  "links adj = {(v, w). w \<in> set (adj v)}"

definition search_inv :: "(string \<Rightarrow> string list) \<Rightarrow> string \<Rightarrow> search \<Rightarrow> bool" where
  "search_inv adj s st \<longleftrightarrow> se_dist st s = Some 0
     \<and> (\<forall>w d. se_dist st w = Some d \<longrightarrow> (s, w) \<in> links adj ^^ d \<and> w \<in> set (se_stack st) \<union> set (se_queue st))
     \<and> (\<forall>v \<in> set (se_stack st). \<exists>dv. se_dist st v = Some dv \<and> (\<forall>w \<in> set (adj v). \<exists>d \<le> dv + 1. se_dist st w = Some d))
     \<and> (\<forall>u \<in> set (se_queue st). \<exists>du. se_dist st u = Some du \<and> (\<forall>w d. se_dist st w = Some d \<longrightarrow> d \<le> du + 1))
     \<and> sorted (map (the \<circ> se_dist st) (se_queue st))"

lemma relax_result:
  "se_stack (relax v d w st) = se_stack st"
  "se_dist (relax v d w st) = (\<lambda>x. if se_dist st x = None \<and> x = w then Some d else se_dist st x)"
  "se_queue (relax v d w st) = se_queue st @ (if se_dist st w = None then [w] else [])"
  by (auto simp: relax_def Let_def fun_eq_iff)

lemma relax_all_result:
  "relax_all ids v d ws st = Some st' \<Longrightarrow> se_stack st' = se_stack st
     \<and> se_dist st' = (\<lambda>w. if se_dist st w = None \<and> w \<in> set ws then Some d else se_dist st w)
     \<and> (\<exists>new. se_queue st' = se_queue st @ new \<and> set new = {w \<in> set ws. se_dist st w = None})"
proof (induction ws arbitrary: st)
  case (Cons w ws)
  then have "relax_all ids v d ws (relax v d w st) = Some st'" by (simp split: if_splits)
  from Cons.IH [OF this] obtain new where
      r: "se_stack st' = se_stack st" "se_queue st' = (se_queue st @ (if se_dist st w = None then [w] else [])) @ new"
         "set new = {x \<in> set ws. (if se_dist st x = None \<and> x = w then Some d else se_dist st x) = None}"
         "se_dist st' = (\<lambda>x. if (if se_dist st x = None \<and> x = w then Some d else se_dist st x) = None \<and> x \<in> set ws then Some d
            else if se_dist st x = None \<and> x = w then Some d else se_dist st x)"
    unfolding relax_result by blast
  then have "set ((if se_dist st w = None then [w] else []) @ new) = {x \<in> set (w # ws). se_dist st x = None}" by auto
  moreover have "se_queue st' = se_queue st @ (if se_dist st w = None then [w] else []) @ new" using r(2) by simp
  moreover have "se_dist st' = (\<lambda>x. if se_dist st x = None \<and> x \<in> set (w # ws) then Some d else se_dist st x)"
    unfolding r(4) by auto
  ultimately show ?case using r(1) by blast
qed auto

lemma search_step:
  assumes inv: "search_inv adj s st" and q: "se_queue st = v # queue" and d: "se_dist st v = Some dv"
    and step: "relax_all ids v (dv + 1) (adj v) (st\<lparr>se_queue := queue, se_stack := se_stack st @ [v]\<rparr>) = Some st'"
  shows "search_inv adj s st'"
proof -
  from relax_all_result [OF step] obtain new where
      r: "se_stack st' = se_stack st @ [v]" "se_queue st' = queue @ new" "set new = {w \<in> set (adj v). se_dist st w = None}"
         "se_dist st' = (\<lambda>w. if se_dist st w = None \<and> w \<in> set (adj v) then Some (dv + 1) else se_dist st w)" by (auto cong: if_cong)
  have grow: "se_dist st w = Some e \<Longrightarrow> se_dist st' w = Some e" for w e by (simp add: r(4))
  have cases': "se_dist st' w = Some e \<Longrightarrow> se_dist st w = Some e \<or> (w \<in> set new \<and> e = dv + 1)" for w e
    by (auto simp: r(3,4) split: if_splits)
  from inv q d have i: "se_dist st s = Some 0"
      "\<And>w e. se_dist st w = Some e \<Longrightarrow> (s, w) \<in> links adj ^^ e \<and> (w \<in> set (se_stack st) \<or> w = v \<or> w \<in> set queue)"
      "\<And>u. u \<in> set (se_stack st) \<Longrightarrow> \<exists>du. se_dist st u = Some du \<and> (\<forall>w \<in> set (adj u). \<exists>e \<le> du + 1. se_dist st w = Some e)"
      "\<And>w e. se_dist st w = Some e \<Longrightarrow> e \<le> dv + 1"
      "\<And>u. u \<in> set queue \<Longrightarrow> \<exists>du. se_dist st u = Some du \<and> (\<forall>w e. se_dist st w = Some e \<longrightarrow> e \<le> du + 1)"
      "sorted (map (the \<circ> se_dist st) queue)" "\<And>u. u \<in> set queue \<Longrightarrow> dv \<le> the (se_dist st u)"
    by (auto simp: search_inv_def)
  have "se_dist st' s = Some 0" using grow i(1) by blast
  moreover have "(s, w) \<in> links adj ^^ e \<and> w \<in> set (se_stack st') \<union> set (se_queue st')" if "se_dist st' w = Some e" for w e
    using cases' [OF that]
  proof
    assume "w \<in> set new \<and> e = dv + 1"
    moreover from this have "(v, w) \<in> links adj" by (simp add: r(3) links_def)
    ultimately show ?thesis using i(2) [OF d] by (auto simp: r)
  qed (use i(2) r in auto)
  moreover have "\<exists>du. se_dist st' u = Some du \<and> (\<forall>w \<in> set (adj u). \<exists>e \<le> du + 1. se_dist st' w = Some e)"
    if "u \<in> set (se_stack st')" for u
  proof (cases "u \<in> set (se_stack st)")
    case True
    with i(3) grow show ?thesis by meson
  next
    case False
    with that r(1) have "u = v" by simp
    moreover have "\<exists>e \<le> dv + 1. se_dist st' w = Some e" if "w \<in> set (adj v)" for w
      using that i(4) by (cases "se_dist st w") (auto simp: r(4))
    ultimately show ?thesis using grow [OF d] by blast
  qed
  moreover have "\<exists>du. se_dist st' u = Some du \<and> (\<forall>w e. se_dist st' w = Some e \<longrightarrow> e \<le> du + 1)" if "u \<in> set (se_queue st')" for u
  proof -
    have le: "e \<le> dv + 1" if "se_dist st' w = Some e" for w e using cases' [OF that] i(4) by blast
    show ?thesis
    proof (cases "u \<in> set queue")
      case True
      with i(5,7) obtain du where "se_dist st u = Some du" "dv \<le> du" by fastforce
      with grow le show ?thesis by (intro exI [of _ du]) force
    next
      case False
      with that have "se_dist st' u = Some (dv + 1)" by (simp add: r)
      with le show ?thesis by (intro exI [of _ "dv + 1"]) force
    qed
  qed
  moreover have "sorted (map (the \<circ> se_dist st') (se_queue st'))"
  proof -
    have old: "map (the \<circ> se_dist st') queue = map (the \<circ> se_dist st) queue"
      using i(5) grow by (intro map_cong) fastforce+
    moreover have "\<forall>w \<in> set new. the (se_dist st' w) = dv + 1" by (simp add: r(3,4))
    moreover have "\<forall>u \<in> set queue. the (se_dist st u) \<le> dv + 1" using i(4,5) by fastforce
    moreover from calculation(2) have "map (the \<circ> se_dist st') new = replicate (length new) (dv + 1)"
      by (simp add: map_replicate_const [symmetric])
    ultimately show ?thesis using i(6) unfolding r(2) map_append sorted_append old by simp
  qed
  ultimately show ?thesis unfolding search_inv_def by blast
qed

lemma bfs_inv: "bfs ids adj st = Some st' \<Longrightarrow> search_inv adj s st \<Longrightarrow> search_inv adj s st' \<and> se_queue st' = []"
proof (induction ids adj st rule: bfs.induct)
  case (1 ids adj st)
  show ?case
  proof (cases "se_queue st")
    case Nil
    with 1(2,3) show ?thesis by (simp add: bfs.simps [of ids adj st])
  next
    case (Cons v queue)
    with 1(3) obtain dv where dv: "se_dist st v = Some dv" by (auto simp: search_inv_def)
    let ?st = "st\<lparr>se_queue := queue, se_stack := se_stack st @ [v]\<rparr>"
    from 1(2) Cons dv obtain st1 where st1: "relax_all (set ids) v (dv + 1) (adj v) ?st = Some st1" "bfs ids adj st1 = Some st'"
      by (auto simp: bfs.simps [of ids adj st] split: option.splits)
    with 1(1) [OF Cons refl, of st1] search_step [OF 1(3) Cons dv st1(1)] dv show ?thesis by simp
  qed
qed

lemma start_inv: "search_inv adj s (start_search s)"
  by (simp add: search_inv_def start_search_def)

lemma reached_within:
  assumes "search_inv adj s st" and "se_queue st = []" and "(s, w) \<in> links adj ^^ k"
  shows "\<exists>d \<le> k. se_dist st w = Some d"
  using assms(3)
proof (induction k arbitrary: w)
  case (Suc k)
  then obtain v where v: "(s, v) \<in> links adj ^^ k" "w \<in> set (adj v)" by (auto simp: links_def)
  from Suc.IH [OF v(1)] obtain d where "d \<le> k" "se_dist st v = Some d" by blast
  with assms(1,2) v(2) show ?case unfolding search_inv_def by (metis Suc_eq_plus1 Un_iff add_le_mono1 empty_iff empty_set le_trans option.inject)
qed (use assms(1) in \<open>auto simp: search_inv_def\<close>)

lemma relax_all_total: "set ws \<subseteq> ids \<Longrightarrow> \<exists>st'. relax_all ids v d ws st = Some st'"
  by (induction ws arbitrary: st) auto

lemma bfs_total: "(\<And>v. set (adj v) \<subseteq> set ids) \<Longrightarrow> \<exists>st'. bfs ids adj st = Some st'"
proof (induction ids adj st rule: bfs.induct)
  case (1 ids adj st)
  show ?case
  proof (cases "se_queue st")
    case Nil
    then show ?thesis by (simp add: bfs.simps [of ids adj st])
  next
    case (Cons v queue)
    obtain d where d: "d = (case se_dist st v of None \<Rightarrow> 0 | Some d \<Rightarrow> d + 1)" by blast
    from relax_all_total [OF 1(2)] obtain st1 where
      st1: "relax_all (set ids) v d (adj v) (st\<lparr>se_queue := queue, se_stack := se_stack st @ [v]\<rparr>) = Some st1" by blast
    with 1(1) [OF Cons d st1 1(2)] Cons d show ?thesis by (simp add: bfs.simps [of ids adj st] Let_def)
  qed
qed

section \<open>The iteration order of the node map\<close>

definition closed_graph :: "capability_graph \<Rightarrow> bool" where
  "closed_graph g \<longleftrightarrow> list_all (\<lambda>e. ce_from e \<in> set (node_ids g) \<longrightarrow> ce_to e \<in> set (node_ids g)) (cg_edges g)"

definition same_graph :: "capability_graph \<Rightarrow> capability_graph \<Rightarrow> bool" where
  "same_graph g h \<longleftrightarrow> cg_edges g = cg_edges h \<and> distinct (node_ids g) \<and> mset (cg_nodes g) = mset (cg_nodes h)"

lemma bfs_ids: "set ids = set ids' \<Longrightarrow> bfs ids adj st = bfs ids' adj st"
proof (induction ids adj st rule: bfs.induct)
  case (1 ids adj st)
  show ?case
  proof (cases "se_queue st")
    case Nil
    then show ?thesis by (simp add: bfs.simps [of ids adj st] bfs.simps [of ids' adj st])
  next
    case (Cons v queue)
    from 1(1) [OF Cons refl] 1(2) Cons show ?thesis
      by (simp add: bfs.simps [of ids adj st] bfs.simps [of ids' adj st] Let_def split: option.split)
  qed
qed

lemma from_sources_ids:
  assumes "set ids = set ids'"
  shows "from_sources ids adj ss c = from_sources ids' adj ss c"
  by (induction ss arbitrary: c) (simp_all add: bfs_ids [OF assms] split: option.split)

lemma same_graphD:
  assumes "same_graph g h"
  shows "mset (node_ids g) = mset (node_ids h)" and "set (node_ids g) = set (node_ids h)" and "sort (node_ids g) = sort (node_ids h)"
    and "length (node_ids g) = length (node_ids h)" and "distinct (node_ids h)"
    and "map_of (cg_nodes g) = map_of (cg_nodes h)" and "length (cg_nodes g) = length (cg_nodes h)"
    and "set (cg_nodes g) = set (cg_nodes h)"
proof -
  from assms have m: "mset (cg_nodes g) = mset (cg_nodes h)" "distinct (node_ids g)" by (simp_all add: same_graph_def)
  then show ids: "mset (node_ids g) = mset (node_ids h)" by (simp add: node_ids_def)
  then show "set (node_ids g) = set (node_ids h)" "length (node_ids g) = length (node_ids h)"
    by (rule mset_eq_setD, rule mset_eq_length)
  show d: "distinct (node_ids h)" using ids m(2) mset_eq_imp_distinct_iff by blast
  show "sort (node_ids g) = sort (node_ids h)" using ids by (metis mset_sort properties_for_sort sorted_sort)
  show s: "set (cg_nodes g) = set (cg_nodes h)" "length (cg_nodes g) = length (cg_nodes h)"
    using m(1) by (rule mset_eq_setD, rule mset_eq_length)
  show "map_of (cg_nodes g) = map_of (cg_nodes h)"
    using map_of_inject_set m(2) d s(1) unfolding node_ids_def by blast
qed

lemma centrality_order:
  assumes "same_graph g h"
  shows "calculate_betweenness_centrality g = calculate_betweenness_centrality h"
proof -
  note s = same_graphD [OF assms]
  have adj: "adjacency_list g = adjacency_list h"
    using s(2) assms by (auto simp: fun_eq_iff adjacency_list_def same_graph_def)
  show ?thesis unfolding calculate_betweenness_centrality_def Let_def adj s(3,4) from_sources_ids [OF s(2)] by (rule refl)
qed

lemma rank_node_order:
  assumes "same_graph g h"
  shows "rank_node g = rank_node h"
proof -
  note s = same_graphD [OF assms]
  have b: "measured_basis g = measured_basis h" using s(7,8) by (auto simp: measured_basis_def list_all_iff)
  have "avg_latency g = avg_latency h" using b s(3,6,7) by (simp add: avg_latency_def)
  with b show ?thesis by (simp add: fun_eq_iff rank_node_def)
qed

lemma rank_node_id: "br_node_id (rank_node g c e) = fst e"
  by (simp add: rank_node_def Let_def split: prod.splits)

lemma rank_keys_inj: "distinct (map fst es) \<Longrightarrow> inj_on rank_key (set (map (rank_node g c) es))"
  by (auto simp: inj_on_def rank_key_def rank_node_id) (metis eq_key_imp_eq_value prod.collapse)

lemma ranking_order:
  assumes "same_graph g h"
  shows "rank_bottlenecks g = rank_bottlenecks h"
proof -
  have sort: "sort_key rank_key (map (rank_node h c) (cg_nodes g)) = sort_key rank_key (map (rank_node h c) (cg_nodes h))" for c
    using assms rank_keys_inj [of "cg_nodes g" h c]
    by (intro sort_key_inj_key_eq) (simp_all add: same_graph_def node_ids_def)
  show ?thesis
    by (simp add: rank_bottlenecks_def centrality_order [OF assms] rank_node_order [OF assms] sort)
qed

section \<open>Every closed graph is ranked\<close>

lemma adjacency_closed: "closed_graph g \<Longrightarrow> set (adjacency_list g v) \<subseteq> set (node_ids g)"
  by (auto simp: adjacency_list_def closed_graph_def list_all_iff)

lemma from_sources_total: "(\<And>v. set (adj v) \<subseteq> set ids) \<Longrightarrow> \<exists>c'. from_sources ids adj ss c = Some c'"
proof (induction ss arbitrary: c)
  case (Cons s ss)
  from bfs_total [of adj ids "start_search s"] Cons.prems obtain st' where "bfs ids adj (start_search s) = Some st'" by blast
  with Cons.IH [OF Cons.prems] show ?case by simp
qed simp

lemma centrality_total: "closed_graph g \<Longrightarrow> \<exists>c. calculate_betweenness_centrality g = Some c"
  using from_sources_total [of "adjacency_list g" "node_ids g" "sort (node_ids g)" "\<lambda>_. 0"] adjacency_closed by (auto simp: calculate_betweenness_centrality_def Let_def split: option.split)

lemma number_from_props:
  "map br_rank (number_from i rs) = [i..<i + length rs]" "map br_node_id (number_from i rs) = map br_node_id rs"
  "map rank_key (number_from i rs) = map rank_key rs" "map br_ranking_basis (number_from i rs) = map br_ranking_basis rs"
  by (induction rs arbitrary: i) (simp_all add: rank_key_def upt_conv_Cons del: upt_Suc)

lemma ranking_props:
  assumes "closed_graph g"
  shows "\<exists>rs. rank_bottlenecks g = Some rs \<and> mset (map br_node_id rs) = mset (node_ids g)
     \<and> map br_rank rs = [1..<length (cg_nodes g) + 1] \<and> sorted (map rank_key rs)
     \<and> (\<forall>r \<in> set rs. br_ranking_basis r = (if measured_basis g then MeasuredBasis else StructuralBasis))"
proof -
  from centrality_total [OF assms] obtain c where c: "calculate_betweenness_centrality g = Some c" by blast
  let ?l = "map (rank_node g c) (cg_nodes g)" and ?s = "sort_key rank_key (map (rank_node g c) (cg_nodes g))"
  have "mset (map br_node_id ?s) = mset (map br_node_id ?l)" by (simp only: mset_map mset_sort)
  then have ids: "mset (map br_node_id ?s) = mset (node_ids g)" by (simp add: node_ids_def rank_node_id o_def)
  have "set (map br_ranking_basis (number_from 1 ?s)) = br_ranking_basis ` set ?l"
    by (simp only: number_from_props set_map set_sort)
  then have "\<forall>r \<in> set (number_from 1 ?s). br_ranking_basis r = (if measured_basis g then MeasuredBasis else StructuralBasis)"
    by (auto simp: rank_node_def Let_def image_iff split: prod.splits)
  with c ids show ?thesis
    by (simp add: rank_bottlenecks_def number_from_props mset_map del: mset_map)
qed

section \<open>Pipeline measurements\<close>

lemma round_half_even_le: "q \<le> of_int n \<Longrightarrow> round_half_even q \<le> n"
  using round_half_even_error [of q] by (simp add: round_half_even_def Let_def) linarith

lemma f64_round_le_one:
  assumes "x \<le> 1"
  shows "f64_round x \<le> 1"
proof (cases "0 < x \<and> x < 1")
  case True
  have "2 powi ilog2 x \<le> x" using ilog2_bound True by blast
  then have "(2::rat) powi ilog2 x < 1" using True by simp
  moreover have "(1::rat) \<le> 2 powi k" if "0 \<le> k" for k using that by (simp add: power_int_def)
  ultimately have neg: "ilog2 x < 0" by (metis linorder_not_less)
  define k where "k = nat (52 - ilog2 x)"
  have e: "2 powi (ilog2 x - 52) = (1 / 2 ^ k :: rat)"
  proof -
    have "ilog2 x - 52 = - int k" using neg by (simp add: k_def)
    then show ?thesis by (simp add: power_int_minus divide_inverse)
  qed
  have "x / 2 powi (ilog2 x - 52) \<le> of_int (2 ^ k)" using True by (simp add: e)
  then have "round_half_even (x / 2 powi (ilog2 x - 52)) \<le> 2 ^ k" by (rule round_half_even_le)
  then have "(of_int (round_half_even (x / 2 powi (ilog2 x - 52))) :: rat) \<le> 2 ^ k"
    by (metis of_int_le_iff of_int_numeral of_int_power)
  then have "of_int (round_half_even (x / 2 powi (ilog2 x - 52))) * (1 / 2 ^ k :: rat) \<le> 1" by (simp add: field_simps)
  with True show ?thesis by (simp add: f64_round_def Let_def e)
next
  case False
  with assms consider "x \<le> 0" | "x = 1" by linarith
  then show ?thesis using f64_round_int [of 1] by cases (simp_all add: f64_round_def)
qed

lemma f64_round_nonneg: "0 \<le> f64_round x"
  using f64_round_pos [of x] by (cases "x \<le> 0") (simp_all add: f64_round_def)

lemma error_rate_bounds:
  assumes "failed \<le> n" and "n < 2 ^ 53"
  shows "0 \<le> f64_div (f64_round (of_nat failed)) (f64_round (of_nat n))"
    and "f64_div (f64_round (of_nat failed)) (f64_round (of_nat n)) \<le> 1"
proof -
  have "f64_round (of_nat m) = (of_nat m :: rat)" if "m \<le> n" for m
    using f64_round_int [of "int m"] that assms(2) by simp
  moreover have "(of_nat failed / of_nat n :: rat) \<le> 1" using assms(1) by (cases "n = 0") simp_all
  ultimately show "0 \<le> f64_div (f64_round (of_nat failed)) (f64_round (of_nat n))"
      "f64_div (f64_round (of_nat failed)) (f64_round (of_nat n)) \<le> 1"
    using assms(1) f64_round_le_one f64_round_nonneg by (simp_all add: f64_div_def)
qed

text \<open>Measurements a graph can be built from.\<close>

definition sound_measurements :: "(stage \<rightharpoonup> stage_measurement) \<Rightarrow> bool" where
  "sound_measurements m \<longleftrightarrow> (\<forall>st med p95 err n. m st = Some (MeasuredStage med p95 err n) \<longrightarrow>
     0 \<le> med \<and> (\<forall>p. p95 = Some p \<longrightarrow> 0 \<le> p) \<and> 0 \<le> err \<and> err \<le> 1)"

lemma duration_nonneg: "0 \<le> duration_at st r"
  by (simp add: duration_at_def f64_of_u64_def f64_round_nonneg)

lemma first_of_cycle_length: "length (first_of_cycle seen rs) \<le> length rs"
  by (induction rs arbitrary: seen) (auto simp: le_SucI)

lemma measure_stages_sound:
  assumes "length rs < 2 ^ 53"
  shows "sound_measurements (measure_stages txt (Ok rs) current ctx k wc p95)"
  unfolding sound_measurements_def
proof (intro allI impI)
  fix st med tail err n
  assume m: "measure_stages txt (Ok rs) current ctx k wc p95 st = Some (MeasuredStage med tail err n)"
  let ?all = "compatible_records current ctx rs"
  let ?window = "drop (length ?all - wc) ?all"
  from m obtain f where "try_measure rs current ctx k wc p95 = Ok f" "f st = Some (MeasuredStage med tail err n)"
    by (auto simp: measure_stages_def split: sum.splits if_splits)
  then have "measure_stage k wc p95 ?window st = Ok (MeasuredStage med tail err n)"
    using measure_all_Ok by (fastforce simp: try_measure_def Let_def)
  note w = measure_stage_Measured [OF this]
  have "length (sampled st ?window) \<le> length ?window" unfolding sampled_def by (rule length_filter_le)
  also have "\<dots> \<le> length ?all" by simp
  also have "\<dots> \<le> length rs" unfolding compatible_records_def using first_of_cycle_length length_filter_le le_trans by blast
  finally have "n < 2 ^ 53" using assms w by simp
  moreover have "failures st (sampled st ?window) \<le> n" using w by (simp add: failures_def)
  ultimately have "0 \<le> err" "err \<le> 1" using w error_rate_bounds by simp_all
  with w duration_nonneg show "0 \<le> med \<and> (\<forall>p. tail = Some p \<longrightarrow> 0 \<le> p) \<and> 0 \<le> err \<and> err \<le> 1" by auto
qed

lemma stage_node_Ok:
  assumes "sound_measurements m"
  shows "\<exists>n. stage_node m st = Ok n \<and> cn_id n = stage_id st
     \<and> (is_ok (scoring_inputs n) \<longleftrightarrow> (\<exists>med p95 err k. m st = Some (MeasuredStage med p95 err k)))"
proof -
  obtain name sub where meta: "node_meta st = (name, sub)" by (metis surj_pair)
  note unf = stage_node_def meta new_node_def with_unavailable_def scoring_inputs_def
  show ?thesis
  proof (cases "m st")
    case (Some e)
    show ?thesis
    proof (cases e)
      case (MeasuredStage med p95 err k)
      with Some have "m st = Some (MeasuredStage med p95 err k)" by simp
      with assms have "0 \<le> med \<and> (\<forall>p. p95 = Some p \<longrightarrow> 0 \<le> p) \<and> 0 \<le> err \<and> err \<le> 1"
        unfolding sound_measurements_def by blast
      with Some MeasuredStage show ?thesis
        by (cases p95) (simp_all add: unf with_measured_latency_def check_finite_nonneg_def)
    qed (simp add: unf Some)
  qed (simp add: unf)
qed

lemma pipeline_graph:
  assumes "sound_measurements m"
  shows "\<exists>g. build_capability_graph m = Ok g \<and> node_ids g = map stage_id STAGES \<and> closed_graph g
     \<and> (measured_basis g \<longleftrightarrow> (\<forall>st. \<exists>med p95 err k. m st = Some (MeasuredStage med p95 err k)))"
proof -
  from stage_node_Ok [OF assms] obtain f where
    f: "\<And>st. stage_node m st = Ok (f st) \<and> cn_id (f st) = stage_id st
     \<and> (is_ok (scoring_inputs (f st)) \<longleftrightarrow> (\<exists>med p95 err k. m st = Some (MeasuredStage med p95 err k)))" by metis
  have all: "(\<forall>st. P st) \<longleftrightarrow> P Observe \<and> P Propose \<and> P BuildJail \<and> P JudgeEvaluation \<and> P SupervisorCanary \<and> P CortexCommit" for P
    by (metis stage.exhaust)
  have "\<exists>g. build_capability_graph m = Ok g \<and> cg_nodes g = map (\<lambda>st. (stage_id st, f st)) STAGES
     \<and> map ce_to (cg_edges g) = map stage_id (List.tl STAGES)"
    by (simp add: build_capability_graph_def STAGES_def f add_node_def new_graph_def add_edge_def)
  then obtain g where g: "build_capability_graph m = Ok g" "cg_nodes g = map (\<lambda>st. (stage_id st, f st)) STAGES"
      "map ce_to (cg_edges g) = map stage_id (List.tl STAGES)" by blast
  have ids: "node_ids g = map stage_id STAGES" by (simp add: node_ids_def g(2))
  have "closed_graph g" unfolding closed_graph_def list_all_iff
  proof (intro ballI impI)
    fix e assume "e \<in> set (cg_edges g)"
    then have "ce_to e \<in> set (map stage_id (List.tl STAGES))" unfolding g(3) [symmetric] by simp
    then show "ce_to e \<in> set (node_ids g)" unfolding ids STAGES_def by auto
  qed
  moreover have "measured_basis g \<longleftrightarrow> (\<forall>st. \<exists>med p95 err k. m st = Some (MeasuredStage med p95 err k))"
    unfolding all by (simp add: measured_basis_def g(2) STAGES_def f)
  ultimately show ?thesis using g(1) ids by blast
qed

section \<open>Theorems\<close>

text \<open>C12: The breadth-first search ends, and its distances are the shortest ones: from any source of a graph whose edges stay
  inside it the search returns, with an empty queue, a distance for exactly the nodes that a path reaches, and that distance
  is the length of a path and of no longer one.\<close>

theorem search_finds_shortest_paths:
  assumes "closed_graph g"
  shows "\<exists>st. bfs (node_ids g) (adjacency_list g) (start_search s) = Some st \<and> se_queue st = []
     \<and> (\<forall>w d. se_dist st w = Some d \<longleftrightarrow> (s, w) \<in> links (adjacency_list g) ^^ d \<and> (\<forall>k < d. (s, w) \<notin> links (adjacency_list g) ^^ k))"
proof -
  let ?adj = "adjacency_list g"
  from bfs_total [of ?adj "node_ids g" "start_search s"] adjacency_closed [OF assms] obtain st where
    st: "bfs (node_ids g) ?adj (start_search s) = Some st" by blast
  note inv = bfs_inv [OF st start_inv]
  have path: "(s, w) \<in> links ?adj ^^ d" if "se_dist st w = Some d" for w d using inv that by (auto simp: search_inv_def)
  have least: "\<exists>d \<le> k. se_dist st w = Some d" if "(s, w) \<in> links ?adj ^^ k" for w k using reached_within inv that by blast
  have "se_dist st w = Some d \<longleftrightarrow> (s, w) \<in> links ?adj ^^ d \<and> (\<forall>k < d. (s, w) \<notin> links ?adj ^^ k)" for w d
  proof
    assume d: "se_dist st w = Some d"
    have "(s, w) \<notin> links ?adj ^^ k" if "k < d" for k
    proof
      assume "(s, w) \<in> links ?adj ^^ k"
      from least [OF this] d that show False by auto
    qed
    with path [OF d] show "(s, w) \<in> links ?adj ^^ d \<and> (\<forall>k < d. (s, w) \<notin> links ?adj ^^ k)" by blast
  next
    assume w: "(s, w) \<in> links ?adj ^^ d \<and> (\<forall>k < d. (s, w) \<notin> links ?adj ^^ k)"
    then obtain e where "e \<le> d" "se_dist st w = Some e" using least by blast
    with path w show "se_dist st w = Some d" using le_neq_implies_less by blast
  qed
  with st inv show ?thesis by blast
qed

text \<open>The ranking does not depend on the iteration order of the node map: two runs over the same nodes and edges, whose
  maps iterate in different orders, give the same list of bottlenecks.\<close>

theorem ranking_ignores_map_order:
  assumes "same_graph g h"
  shows "rank_bottlenecks g = rank_bottlenecks h \<and> top_bottleneck g = top_bottleneck h"
  using ranking_order [OF assms] by (simp add: top_bottleneck_def)

text \<open>The daemon's diagnosis always completes.  From any readable sample log the six-stage graph is built, the ranking
  returns every stage once, numbered from one and sorted by score and then by name, and its scores use latencies and error
  rates exactly when all six stages are measured; a stage without a measurement is never read as a zero.\<close>

theorem pipeline_is_ranked:
  assumes "length rs < 2 ^ 53"
  shows "\<exists>g ranks. build_capability_graph (measure_stages txt (Ok rs) current ctx k wc p95) = Ok g \<and> rank_bottlenecks g = Some ranks
     \<and> mset (map br_node_id ranks) = mset (map stage_id STAGES) \<and> map br_rank ranks = [1, 2, 3, 4, 5, 6]
     \<and> sorted (map rank_key ranks)
     \<and> (\<forall>r \<in> set ranks. br_ranking_basis r = MeasuredBasis \<longleftrightarrow>
          (\<forall>st. \<exists>med tail err n. measure_stages txt (Ok rs) current ctx k wc p95 st = Some (MeasuredStage med tail err n)))"
proof -
  let ?m = "measure_stages txt (Ok rs) current ctx k wc p95"
  from pipeline_graph [OF measure_stages_sound [OF assms]] obtain g where
    g: "build_capability_graph ?m = Ok g" "node_ids g = map stage_id STAGES" "closed_graph g"
       "measured_basis g \<longleftrightarrow> (\<forall>st. \<exists>med tail err n. ?m st = Some (MeasuredStage med tail err n))" by blast
  from ranking_props [OF g(3)] obtain ranks where
    r: "rank_bottlenecks g = Some ranks" "mset (map br_node_id ranks) = mset (node_ids g)"
       "map br_rank ranks = [1..<length (cg_nodes g) + 1]" "sorted (map rank_key ranks)"
       "\<forall>r \<in> set ranks. br_ranking_basis r = (if measured_basis g then MeasuredBasis else StructuralBasis)" by blast
  have "length (cg_nodes g) = 6" using arg_cong [OF g(2), of length] by (simp add: node_ids_def STAGES_def)
  then have numbers: "map br_rank ranks = [1, 2, 3, 4, 5, 6]" unfolding r(3) by (simp add: upt_rec)
  have "br_ranking_basis r = MeasuredBasis \<longleftrightarrow> (\<forall>st. \<exists>med tail err n. ?m st = Some (MeasuredStage med tail err n))"
    if "r \<in> set ranks" for r using r(5) that unfolding g(4) by simp
  with g(1,2) r(1,2,4) numbers show ?thesis by (intro exI [of _ g] exI [of _ ranks]) simp
qed

definition dangling_graph :: capability_graph where
  "dangling_graph = add_edge ''a'' ''d'' 0 1 (add_node (new_node ''c'' [] []) (add_node (new_node ''b'' [] [])
     (add_node (new_node ''a'' [] []) new_graph)))"

text \<open>An edge to a node that was never added makes the centrality computation panic: \<open>dist[w]\<close> looks up a key the map
  does not have.  With three nodes and one edge out of the graph there is no ranking at all.\<close>

theorem dangling_edge_panics:
  "calculate_betweenness_centrality dangling_graph = None \<and> rank_bottlenecks dangling_graph = None"
proof -
  have ids: "node_ids dangling_graph = [''a'', ''b'', ''c'']" "adjacency_list dangling_graph ''a'' = [''d'']"
    by (simp_all add: dangling_graph_def node_ids_def adjacency_list_def add_edge_def add_node_def new_graph_def new_node_def)
  have srt: "sort [''a'', ''b'', ''c''] = [''a'', ''b'', ''c'']" by code_simp
  have "bfs [''a'', ''b'', ''c''] (adjacency_list dangling_graph) (start_search ''a'') = None"
    by (subst bfs.simps) (simp add: start_search_def ids)
  then have "calculate_betweenness_centrality dangling_graph = None"
    by (simp add: calculate_betweenness_centrality_def ids srt)
  then show ?thesis by (simp add: rank_bottlenecks_def)
qed

definition chain_graph :: "(string \<times> capability_node) list \<Rightarrow> capability_graph" where
  "chain_graph nodes = add_edge ''b'' ''c'' 0 1 (add_edge ''a'' ''b'' 0 1 \<lparr>cg_nodes = nodes, cg_edges = []\<rparr>)"

definition chain_nodes :: "(string \<times> capability_node) list" where
  "chain_nodes = map (\<lambda>i. (i, new_node i i [])) [''a'', ''b'', ''c'']"

theorem search_finds_shortest_paths_witness:
  "\<exists>st. bfs (node_ids (chain_graph chain_nodes)) (adjacency_list (chain_graph chain_nodes)) (start_search ''a'') = Some st \<and> se_queue st = []"
proof -
  have "closed_graph (chain_graph chain_nodes)"
    by (simp add: closed_graph_def chain_graph_def chain_nodes_def add_edge_def node_ids_def)
  from search_finds_shortest_paths [OF this, of "''a''"] show ?thesis by blast
qed

theorem ranking_ignores_map_order_witness:
  "rank_bottlenecks (chain_graph chain_nodes) = rank_bottlenecks (chain_graph (rev chain_nodes))"
proof -
  have "same_graph (chain_graph chain_nodes) (chain_graph (rev chain_nodes))"
    by (simp add: same_graph_def chain_graph_def chain_nodes_def add_edge_def node_ids_def)
  from ranking_ignores_map_order [OF this] show ?thesis by blast
qed

theorem pipeline_is_ranked_witness:
  "\<exists>g ranks. build_capability_graph (measure_stages (\<lambda>_. []) (Ok []) ''now'' sample_context 2 10 3) = Ok g
     \<and> rank_bottlenecks g = Some ranks \<and> map br_rank ranks = [1, 2, 3, 4, 5, 6]"
proof -
  have "length ([] :: cycle_record list) < 2 ^ 53" by simp
  from pipeline_is_ranked [OF this, of "\<lambda>_. []" "''now''" sample_context 2 10 3] show ?thesis by (elim exE conjE) (intro exI conjI, assumption+)
qed

end
