(* ===== verification/Artifacts.thy ===== *)
theory Artifacts
  imports Utf8 Judge_Safety Sample
begin

text \<open>
  Artifact manifests and the source digest (\<open>src/src/isolation/manifest.rs\<close>, \<open>tree_digest\<close> of
  \<open>src/src/canary/identity.rs\<close>), over the file trees of the judge: the sorted listing of a directory that leaves out
  \<open>target\<close>, \<open>.git\<close> and \<open>node_modules\<close>, the digest of a source tree, and the manifest of a build's output directory with its
  integrity check.  A directory that does not exist is \<open>None\<close>.
\<close>

datatype artifact_error = CannotListFolder | CannotReadArtifact string

definition skipped_name :: "string \<Rightarrow> bool" where
  "skipped_name name \<longleftrightarrow> name = ''target'' \<or> name = ''.git'' \<or> name = ''node_modules''"

fun in_sequence :: "(string \<times> (artifact_error + 'a list)) list \<Rightarrow> artifact_error + 'a list" where
  "in_sequence [] = Ok []"
| "in_sequence ((_, r) # rs) = and_then r (\<lambda>a. and_then (in_sequence rs) (\<lambda>b. Ok (a @ b)))"

text \<open>The listing of every entry of a folder, each under its name, then in the order of the names.\<close>

fun collect_each :: "string \<Rightarrow> entries \<Rightarrow> (string \<times> (artifact_error + (string \<times> bytes option) list)) list" where
  "collect_each prefix NoEntries = []"
| "collect_each prefix (Entry name nd es) =
     (name, if skipped_name name then Ok []
        else case nd of
            Folder sub \<Rightarrow> in_sequence (sort_key fst (collect_each (prefix @ name @ ''/'') sub))
          | UnreadableFolder \<Rightarrow> Err CannotListFolder
          | RegularFile c \<Rightarrow> Ok [(from_utf8_lossy (prefix @ name), c)]
          | SpecialEntry \<Rightarrow> Ok []) # collect_each prefix es"

definition collect_files_sorted :: "node option \<Rightarrow> artifact_error + (string \<times> bytes option) list" where
  "collect_files_sorted dir =
     (case dir of
        None \<Rightarrow> Ok []
      | Some (Folder es) \<Rightarrow> in_sequence (sort_key fst (collect_each [] es))
      | Some _ \<Rightarrow> Err CannotListFolder)"

definition compute_file_sha256 :: "crates \<Rightarrow> string \<Rightarrow> bytes option \<Rightarrow> artifact_error + string" where
  "compute_file_sha256 X path contents =
     (case contents of None \<Rightarrow> Err (CannotReadArtifact path) | Some b \<Rightarrow> Ok (hex_encode X (sha256 X b)))"

fun source_preimage :: "crates \<Rightarrow> (string \<times> bytes option) list \<Rightarrow> artifact_error + bytes" where
  "source_preimage X [] = Ok []"
| "source_preimage X ((rel, c) # fs) =
     and_then (compute_file_sha256 X rel c) (\<lambda>h. and_then (source_preimage X fs) (\<lambda>b. Ok (rel @ h @ b)))"

definition compute_source_digest :: "crates \<Rightarrow> node option \<Rightarrow> artifact_error + string" where
  "compute_source_digest X dir =
     and_then (collect_files_sorted dir) (\<lambda>fs. and_then (source_preimage X fs) (\<lambda>b. Ok (hex_encode X (sha256 X b))))"

definition tree_digest :: "crates \<Rightarrow> node option \<Rightarrow> artifact_error + string" where
  "tree_digest X dir = compute_source_digest X dir"

record artifact_record =
  af_relative_path :: string
  af_sha256 :: string
  af_size_bytes :: u64
  af_is_executable :: bool

record artifact_manifest =
  mf_manifest_version :: string
  mf_candidate_id :: string
  mf_builder_image_digest :: string
  mf_source_bundle_digest :: string
  mf_artifacts :: "artifact_record list"
  mf_manifest_digest :: string
  mf_timestamp_utc :: string

definition u64_be :: "u64 \<Rightarrow> bytes" where "u64_be w = rev (u64_le w)"

text \<open>\<open>exec\<close> tells whether a file has an execute bit.\<close>

fun artifact_records ::
    "crates \<Rightarrow> (string \<Rightarrow> bool) \<Rightarrow> (string \<times> bytes option) list \<Rightarrow> artifact_error + (artifact_record list \<times> bytes)" where
  "artifact_records X exec [] = Ok ([], [])"
| "artifact_records X exec ((rel, c) # fs) =
     and_then (compute_file_sha256 X rel c) (\<lambda>sha.
     let size = of_nat (length (the c)) in
     and_then (artifact_records X exec fs) (\<lambda>(rs, b).
     Ok (\<lparr>af_relative_path = rel, af_sha256 = sha, af_size_bytes = size, af_is_executable = exec rel\<rparr> # rs,
         rel @ sha @ u64_be size @ b)))"

definition generate_from_output_dir ::
    "crates \<Rightarrow> (string \<Rightarrow> bool) \<Rightarrow> string \<Rightarrow> string \<Rightarrow> string \<Rightarrow> string \<Rightarrow> node option \<Rightarrow> artifact_error + artifact_manifest" where
  "generate_from_output_dir X exec now candidate_id builder_image_digest source_bundle_digest output_dir =
     and_then (collect_files_sorted output_dir) (\<lambda>fs.
     and_then (artifact_records X exec fs) (\<lambda>(records, b).
     Ok \<lparr>mf_manifest_version = ''1.0.0'', mf_candidate_id = candidate_id, mf_builder_image_digest = builder_image_digest,
         mf_source_bundle_digest = source_bundle_digest, mf_artifacts = records,
         mf_manifest_digest = hex_encode X (sha256 X (candidate_id @ builder_image_digest @ source_bundle_digest @ b)),
         mf_timestamp_utc = now\<rparr>))"

text \<open>\<open>named\<close> is what the path of a record names when it is joined to the output directory; reading a directory fails.\<close>

fun check_records :: "crates \<Rightarrow> (string \<Rightarrow> node option) \<Rightarrow> artifact_record list \<Rightarrow> artifact_error + bool" where
  "check_records X named [] = Ok True"
| "check_records X named (r # rs) =
     (case named (af_relative_path r) of
        None \<Rightarrow> Ok False
      | Some nd \<Rightarrow>
          and_then (compute_file_sha256 X (af_relative_path r) (case nd of RegularFile c \<Rightarrow> c | _ \<Rightarrow> None)) (\<lambda>actual.
          if actual \<noteq> af_sha256 r then Ok False else check_records X named rs))"

definition verify_artifacts ::
    "crates \<Rightarrow> artifact_manifest \<Rightarrow> (string \<Rightarrow> node option) \<Rightarrow> node option \<Rightarrow> artifact_error + bool" where
  "verify_artifacts X m named output_dir =
     and_then (check_records X named (mf_artifacts m)) (\<lambda>ok.
     if \<not> ok then Ok False
     else and_then (collect_files_sorted output_dir) (\<lambda>fs.
       Ok (list_all (\<lambda>(rel, _). rel \<in> af_relative_path ` set (mf_artifacts m)) fs)))"

section \<open>Listings\<close>

fun node_at :: "entries \<Rightarrow> string list \<Rightarrow> node option" where
  "node_at NoEntries cs = None"
| "node_at (Entry name nd es) [] = None"
| "node_at (Entry name nd es) (c # cs) =
     (if name \<noteq> c then node_at es (c # cs)
      else if cs = [] then Some nd
      else case nd of Folder sub \<Rightarrow> node_at sub cs | _ \<Rightarrow> None)"

lemma in_sequence_Ok:
  "in_sequence rs = Ok xs \<Longrightarrow> (\<forall>(n, r) \<in> set rs. \<exists>a. r = Ok a) \<and> set xs = (\<Union>(n, r) \<in> set rs. set (projr r))"
  by (induction rs arbitrary: xs) (fastforce simp: and_then_Ok)+

lemma in_sequence_all: "\<forall>(n, r) \<in> set rs. \<exists>a. r = Ok a \<Longrightarrow> \<exists>xs. in_sequence rs = Ok xs"
  by (induction rs) fastforce+

text \<open>Trees with UTF-8 names.\<close>

fun utf8_tree :: "entries \<Rightarrow> bool" where
  "utf8_tree NoEntries = True"
| "utf8_tree (Entry name nd es) = (valid_utf8 name \<and> utf8_tree es \<and> (case nd of Folder sub \<Rightarrow> utf8_tree sub | _ \<Rightarrow> True))"


text \<open>The files a listing covers: no component of their path is left out.\<close>

definition listed_path :: "string list \<Rightarrow> bool" where
  "listed_path cs \<longleftrightarrow> cs \<noteq> [] \<and> (\<forall>c \<in> set cs. \<not> skipped_name c)"

lemma file_at_Nil: "file_at es [] = None"
  by (cases es) simp_all

lemma node_at_file: "node_at es cs = Some (RegularFile c) \<longleftrightarrow> file_at es cs = Some c"
proof (induction es cs rule: node_at.induct)
  case (3 name nd es c cs)
  then show ?case by (cases "cs = []") (auto simp: file_at_Nil split: node.split)
qed simp_all

lemma file_at_proper: "tree_ok es \<Longrightarrow> file_at es cs = Some c \<Longrightarrow> cs \<noteq> [] \<and> (\<forall>d \<in> set cs. proper_name d)"
  by (induction es cs rule: file_at.induct) (auto split: if_splits node.splits)

lemma listing_entries:
  assumes "tree_ok es" and "utf8_tree es" and "valid_utf8 prefix" and "\<forall>(n, r) \<in> set (collect_each prefix es). \<exists>a. r = Ok a"
  shows "(\<exists>(n, r) \<in> set (collect_each prefix es). (p, c) \<in> set (projr r)) \<longleftrightarrow>
     (\<exists>cs. listed_path cs \<and> p = prefix @ join ''/'' cs \<and> file_at es cs = Some c)"
  using assms
proof (induction prefix es arbitrary: p c rule: collect_each.induct)
  case (1 prefix)
  then show ?case by simp
next
  case (2 prefix name nd es)
  let ?first = "if skipped_name name then Ok []
        else case nd of
            Folder sub \<Rightarrow> in_sequence (sort_key fst (collect_each (prefix @ name @ ''/'') sub))
          | UnreadableFolder \<Rightarrow> Err CannotListFolder
          | RegularFile c \<Rightarrow> Ok [(from_utf8_lossy (prefix @ name), c)]
          | SpecialEntry \<Rightarrow> Ok []"
  have ok: "proper_name name" "name \<notin> set (entry_names es)" "tree_ok es" "utf8_tree es" "valid_utf8 name"
      "\<forall>(n, r) \<in> set (collect_each prefix es). \<exists>a. r = Ok a" "\<exists>a. ?first = Ok a"
    using "2.prems" by auto
  have rest: "(\<exists>(n, r) \<in> set (collect_each prefix es). (p, c) \<in> set (projr r)) \<longleftrightarrow>
     (\<exists>cs. listed_path cs \<and> p = prefix @ join ''/'' cs \<and> file_at es cs = Some c)"
    using "2.IH"(2) ok "2.prems"(3) by blast
  have first: "(p, c) \<in> set (projr ?first) \<longleftrightarrow>
     (\<exists>cs. listed_path (name # cs) \<and> p = prefix @ join ''/'' (name # cs) \<and> file_at (Entry name nd es) (name # cs) = Some c)"
  proof (cases "skipped_name name")
    case True
    then show ?thesis by (simp add: listed_path_def)
  next
    case False
    have utf8: "valid_utf8 (prefix @ name)" using "2.prems"(3) ok(5) by (rule valid_utf8_append)
    show ?thesis
    proof (cases nd)
      case (RegularFile b)
      then show ?thesis using False by (auto simp: listed_path_def from_utf8_lossy_valid [OF utf8])
    next
      case (Folder sub)
      have "valid_utf8 ''/''" by (rule valid_utf8_ascii) simp
      with utf8 have slash: "valid_utf8 (prefix @ name @ ''/'')" using valid_utf8_append [of "prefix @ name" "''/''"] by simp
      from ok(7) False Folder obtain a where a: "in_sequence (sort_key fst (collect_each (prefix @ name @ ''/'') sub)) = Ok a" by auto
      from in_sequence_Ok [OF a] have all: "\<forall>(n, r) \<in> set (collect_each (prefix @ name @ ''/'') sub). \<exists>a. r = Ok a"
          "set a = (\<Union>(n, r) \<in> set (collect_each (prefix @ name @ ''/'') sub). set (projr r))" by simp_all
      have "(p, c) \<in> set a \<longleftrightarrow> (\<exists>(n, r) \<in> set (collect_each (prefix @ name @ ''/'') sub). (p, c) \<in> set (projr r))"
        unfolding all(2) by auto
      also have "\<dots> \<longleftrightarrow> (\<exists>cs. listed_path cs \<and> p = (prefix @ name @ ''/'') @ join ''/'' cs \<and> file_at sub cs = Some c)"
        using "2.IH"(1) [OF False Folder _ _ slash all(1)] "2.prems"(1,2) Folder by simp
      finally have inside: "(p, c) \<in> set a \<longleftrightarrow>
          (\<exists>cs. listed_path cs \<and> p = (prefix @ name @ ''/'') @ join ''/'' cs \<and> file_at sub cs = Some c)" .
      have "listed_path (name # cs) \<and> p = prefix @ join ''/'' (name # cs) \<and> file_at (Entry name nd es) (name # cs) = Some c
          \<longleftrightarrow> listed_path cs \<and> p = (prefix @ name @ ''/'') @ join ''/'' cs \<and> file_at sub cs = Some c" for cs
        using False by (cases "cs = []") (auto simp: Folder listed_path_def file_at_Nil join_Cons_ne)
      then show ?thesis using inside False Folder a by simp
    qed (use ok(7) False in auto)
  qed
  have other: "file_at (Entry name nd es) (d # cs) = file_at es (d # cs)" if "d \<noteq> name" for d cs using that by simp
  have "(\<exists>(n, r) \<in> set (collect_each prefix (Entry name nd es)). (p, c) \<in> set (projr r)) \<longleftrightarrow>
     (p, c) \<in> set (projr ?first) \<or> (\<exists>(n, r) \<in> set (collect_each prefix es). (p, c) \<in> set (projr r))" by simp
  also have "\<dots> \<longleftrightarrow> (\<exists>cs. listed_path cs \<and> p = prefix @ join ''/'' cs \<and> file_at (Entry name nd es) cs = Some c)"
    unfolding first rest
  proof (intro iffI; elim disjE exE conjE)
    fix cs assume cs: "listed_path cs" "p = prefix @ join ''/'' cs" "file_at es cs = Some c"
    then obtain d ds where d: "cs = d # ds" by (cases cs) (auto simp: listed_path_def)
    have "d \<noteq> name" using cs(3) d ok(2) file_at_other by force
    with cs d other show "\<exists>cs. listed_path cs \<and> p = prefix @ join ''/'' cs \<and> file_at (Entry name nd es) cs = Some c" by metis
  next
    fix cs assume cs: "listed_path cs" "p = prefix @ join ''/'' cs" "file_at (Entry name nd es) cs = Some c"
    then obtain d ds where d: "cs = d # ds" by (cases cs) (auto simp: listed_path_def)
    show "(\<exists>cs. listed_path (name # cs) \<and> p = prefix @ join ''/'' (name # cs) \<and> file_at (Entry name nd es) (name # cs) = Some c)
       \<or> (\<exists>cs. listed_path cs \<and> p = prefix @ join ''/'' cs \<and> file_at es cs = Some c)"
      using cs d other by (cases "d = name") metis+
  qed blast
  finally show ?case .
qed

lemma listing:
  assumes "tree_ok es" and "utf8_tree es" and "collect_files_sorted (Some (Folder es)) = Ok fs"
  shows "(p, c) \<in> set fs \<longleftrightarrow> (\<exists>cs. listed_path cs \<and> p = join ''/'' cs \<and> file_at es cs = Some c)"
proof -
  from in_sequence_Ok [of "sort_key fst (collect_each [] es)" fs] assms(3)
  have all: "\<forall>(n, r) \<in> set (collect_each [] es). \<exists>a. r = Ok a" "set fs = (\<Union>(n, r) \<in> set (collect_each [] es). set (projr r))"
    by (simp_all add: collect_files_sorted_def)
  have "valid_utf8 []" by (simp add: valid_utf8.simps)
  from listing_entries [OF assms(1,2) this all(1), of p c] show ?thesis unfolding all(2) by auto
qed

section \<open>Manifests\<close>

lemma artifact_records_Ok:
  "artifact_records X exec fs = Ok (rs, b) \<Longrightarrow> (\<forall>(p, c) \<in> set fs. \<exists>d. c = Some d)
     \<and> (\<lambda>r. (af_relative_path r, af_sha256 r)) ` set rs = (\<lambda>(p, c). (p, hex_encode X (sha256 X (the c)))) ` set fs"
proof (induction fs arbitrary: rs b)
  case (Cons f fs)
  obtain p c where f: "f = (p, c)" by (metis surj_pair)
  from Cons.prems f obtain d rs' b' where d: "c = Some d" "artifact_records X exec fs = Ok (rs', b')"
      "rs = \<lparr>af_relative_path = p, af_sha256 = hex_encode X (sha256 X d), af_size_bytes = of_nat (length d), af_is_executable = exec p\<rparr> # rs'"
    by (cases c) (auto simp: compute_file_sha256_def and_then_Ok Let_def)
  from Cons.IH [OF d(2)] d f show ?case by simp
qed simp

lemma check_records_True:
  "check_records X named rs = Ok True \<longleftrightarrow>
     (\<forall>r \<in> set rs. \<exists>d. named (af_relative_path r) = Some (RegularFile (Some d)) \<and> af_sha256 r = hex_encode X (sha256 X d))"
  by (induction rs) (auto simp: compute_file_sha256_def and_then_Ok split: option.splits node.splits if_splits)

text \<open>What a record's path names in the output directory.\<close>

definition named_in :: "entries \<Rightarrow> string \<Rightarrow> node option" where
  "named_in es p = node_at es (split_on CHR ''/'' p)"

lemma named_in_join: "cs \<noteq> [] \<Longrightarrow> \<forall>c \<in> set cs. proper_name c \<Longrightarrow> named_in es (join ''/'' cs) = node_at es cs"
  using split_on_join [of cs "CHR ''/''"] by (simp add: named_in_def proper_name_def)

lemma generated_records:
  assumes "generate_from_output_dir X exec now cand img src (Some (Folder es)) = Ok m"
  shows "\<exists>fs. collect_files_sorted (Some (Folder es)) = Ok fs \<and> (\<forall>(p, c) \<in> set fs. \<exists>d. c = Some d)
     \<and> (\<lambda>r. (af_relative_path r, af_sha256 r)) ` set (mf_artifacts m) = (\<lambda>(p, c). (p, hex_encode X (sha256 X (the c)))) ` set fs"
proof -
  from assms obtain fs rs b where "collect_files_sorted (Some (Folder es)) = Ok fs" "artifact_records X exec fs = Ok (rs, b)" "mf_artifacts m = rs"
    by (auto simp: generate_from_output_dir_def and_then_Ok)
  with artifact_records_Ok show ?thesis by blast
qed

lemma image_fst_pair: "(\<lambda>r. (f r, g r)) ` A = h ` B \<Longrightarrow> f ` A = (fst \<circ> h) ` B"
  by (metis (no_types, lifting) fst_conv image_cong image_image comp_apply)

section \<open>Theorems\<close>

text \<open>A manifest that is generated for an output directory verifies against it.\<close>

theorem fresh_manifest_verifies:
  assumes "tree_ok es" and "utf8_tree es" and "generate_from_output_dir X exec now cand img src (Some (Folder es)) = Ok m"
  shows "verify_artifacts X m (named_in es) (Some (Folder es)) = Ok True"
proof -
  from generated_records [OF assms(3)] obtain fs where fs: "collect_files_sorted (Some (Folder es)) = Ok fs"
      "\<forall>(p, c) \<in> set fs. \<exists>d. c = Some d"
      "(\<lambda>r. (af_relative_path r, af_sha256 r)) ` set (mf_artifacts m) = (\<lambda>(p, c). (p, hex_encode X (sha256 X (the c)))) ` set fs" by blast
  have "\<exists>d. named_in es (af_relative_path r) = Some (RegularFile (Some d)) \<and> af_sha256 r = hex_encode X (sha256 X d)"
    if "r \<in> set (mf_artifacts m)" for r
  proof -
    from that have "(af_relative_path r, af_sha256 r) \<in> (\<lambda>r. (af_relative_path r, af_sha256 r)) ` set (mf_artifacts m)" by (rule imageI)
    then obtain c where c: "(af_relative_path r, c) \<in> set fs" "af_sha256 r = hex_encode X (sha256 X (the c))" unfolding fs(3) by auto
    from listing [OF assms(1,2) fs(1)] c(1) obtain cs where
      cs: "listed_path cs" "af_relative_path r = join ''/'' cs" "file_at es cs = Some c" by blast
    from file_at_proper [OF assms(1) cs(3)] cs(2,3) have "named_in es (af_relative_path r) = Some (RegularFile c)"
      by (simp add: named_in_join node_at_file)
    with c fs(2) show ?thesis by fastforce
  qed
  then have "check_records X (named_in es) (mf_artifacts m) = Ok True" unfolding check_records_True by blast
  moreover have "list_all (\<lambda>(p, _). p \<in> af_relative_path ` set (mf_artifacts m)) fs"
    unfolding image_fst_pair [OF fs(3)] by (force simp: list_all_iff)
  ultimately show ?thesis by (simp add: verify_artifacts_def fs(1))
qed

text \<open>A manifest detects tampering.  If a manifest generated for one directory verifies against another, then the two hold
  the same files with the same bytes, apart from \<open>target\<close>, \<open>.git\<close> and \<open>node_modules\<close> anywhere in the tree, unless two files
  collide under SHA-256.\<close>

theorem manifest_detects_tampering:
  assumes "hex_ok X" and "tree_ok es" and "utf8_tree es" and "tree_ok es'" and "utf8_tree es'"
    and "generate_from_output_dir X exec now cand img src (Some (Folder es)) = Ok m"
    and "verify_artifacts X m (named_in es') (Some (Folder es')) = Ok True" and "listed_path cs"
  shows "file_at es cs = file_at es' cs
     \<or> (\<exists>a b. file_at es cs = Some (Some a) \<and> file_at es' cs = Some (Some b) \<and> sha_collision X a b)"
proof -
  from generated_records [OF assms(6)] obtain fs where fs: "collect_files_sorted (Some (Folder es)) = Ok fs"
      "\<forall>(p, c) \<in> set fs. \<exists>d. c = Some d"
      "(\<lambda>r. (af_relative_path r, af_sha256 r)) ` set (mf_artifacts m) = (\<lambda>(p, c). (p, hex_encode X (sha256 X (the c)))) ` set fs" by blast
  from assms(7) obtain fs' where v: "check_records X (named_in es') (mf_artifacts m) = Ok True"
      "collect_files_sorted (Some (Folder es')) = Ok fs'" "list_all (\<lambda>(p, _). p \<in> af_relative_path ` set (mf_artifacts m)) fs'"
    by (auto simp: verify_artifacts_def and_then_Ok split: if_splits)
  show ?thesis
  proof (cases "file_at es cs")
    case None
    show ?thesis
    proof (cases "file_at es' cs")
      case (Some c)
      with listing [OF assms(4,5) v(2)] assms(8) have "(join ''/'' cs, c) \<in> set fs'" by blast
      with v(3) have "join ''/'' cs \<in> af_relative_path ` set (mf_artifacts m)" by (auto simp: list_all_iff)
      then obtain c' where "(join ''/'' cs, c') \<in> set fs" unfolding image_fst_pair [OF fs(3)] by auto
      with listing [OF assms(2,3) fs(1)] obtain ds where
        ds: "listed_path ds" "join ''/'' cs = join ''/'' ds" "file_at es ds = Some c'" by blast
      with join_proper_inj [of cs ds] file_at_proper [OF assms(2) ds(3)] file_at_proper [OF assms(4) Some] None show ?thesis by auto
    qed (simp add: None)
  next
    case (Some c)
    with listing [OF assms(2,3) fs(1)] assms(8) have in_fs: "(join ''/'' cs, c) \<in> set fs" by blast
    with fs(2) obtain a where a: "c = Some a" by fastforce
    from in_fs have "(join ''/'' cs, hex_encode X (sha256 X a)) \<in> (\<lambda>r. (af_relative_path r, af_sha256 r)) ` set (mf_artifacts m)"
      unfolding fs(3) using a by force
    then obtain r where r: "r \<in> set (mf_artifacts m)" "af_relative_path r = join ''/'' cs" "af_sha256 r = hex_encode X (sha256 X a)" by auto
    with v(1) obtain b where b: "named_in es' (join ''/'' cs) = Some (RegularFile (Some b))" "hex_encode X (sha256 X a) = hex_encode X (sha256 X b)"
      unfolding check_records_True by force
    from b(1) file_at_proper [OF assms(2) Some] have "file_at es' cs = Some (Some b)" by (simp add: named_in_join node_at_file)
    moreover have "a = b \<or> sha_collision X a b" using b(2) assms(1) by (auto simp: sha_collision_def hex_ok_def) (metis option.inject)
    ultimately show ?thesis using Some a by auto
  qed
qed

text \<open>The source digest does not determine the tree.  It hashes the concatenation of relative paths and file digests with
  nothing between them, so a file whose name swallows another file's name and digest gives the same digest: the tree with
  files \<open>a\<close> and \<open>b\<close>, and the tree with the single file named \<open>a\<close>, the hexadecimal digest of \<open>a\<close>'s contents, and \<open>b\<close>.\<close>

theorem source_digest_is_ambiguous:
  assumes "hex_ok X"
  shows "tree_digest X (Some (Folder (Entry ''a'' (RegularFile (Some x)) (Entry ''b'' (RegularFile (Some y)) NoEntries))))
     = tree_digest X (Some (Folder (Entry (''a'' @ hex_encode X (sha256 X x) @ ''b'') (RegularFile (Some y)) NoEntries)))"
proof -
  let ?name = "''a'' @ hex_encode X (sha256 X x) @ ''b''"
  have "set (hex_encode X (sha256 X x)) \<subseteq> hex_digits" using assms by (simp add: hex_ok_def)
  moreover have "\<forall>c \<in> hex_digits. (of_char c :: nat) < 128" by (simp add: hex_digits_def)
  ultimately have "from_utf8_lossy ?name = ?name" by (intro from_utf8_lossy_ascii) (auto simp: list_all_iff)
  moreover have "from_utf8_lossy [c] = [c]" if "c \<in> set ''ab''" for c using that by (intro from_utf8_lossy_ascii) auto
  moreover have "\<not> skipped_name ?name" "\<not> skipped_name ''a''" "\<not> skipped_name ''b''" by (simp_all add: skipped_name_def)
  ultimately show ?thesis
    by (simp add: tree_digest_def compute_source_digest_def collect_files_sorted_def compute_file_sha256_def)
qed

section \<open>Examples\<close>

definition build_output :: "bytes \<Rightarrow> entries" where
  "build_output b = Entry ''bin'' (RegularFile (Some b)) NoEntries"

lemma build_output_ok: "tree_ok (build_output b)" "utf8_tree (build_output b)"
proof -
  have "valid_utf8 ''bin''" by (rule valid_utf8_ascii) simp
  then show "tree_ok (build_output b)" "utf8_tree (build_output b)" by (simp_all add: build_output_def proper_name_def)
qed

lemma build_output_listing: "collect_files_sorted (Some (Folder (build_output b))) = Ok [(''bin'', Some b)]"
proof -
  have "from_utf8_lossy ''bin'' = ''bin''" by (rule from_utf8_lossy_ascii) simp
  then show ?thesis by (simp add: collect_files_sorted_def build_output_def skipped_name_def)
qed

lemma build_output_manifest:
  "\<exists>m. generate_from_output_dir X exec now cand img src (Some (Folder (build_output b))) = Ok m
     \<and> map (\<lambda>r. (af_relative_path r, af_sha256 r)) (mf_artifacts m) = [(''bin'', hex_encode X (sha256 X b))]"
  by (simp add: generate_from_output_dir_def build_output_listing compute_file_sha256_def Let_def)

theorem fresh_manifest_verifies_witness:
  "\<exists>m. verify_artifacts sample m (named_in (build_output ''elf'')) (Some (Folder (build_output ''elf''))) = Ok True
     \<and> length (mf_artifacts m) = 1"
proof -
  obtain m where m: "generate_from_output_dir sample (\<lambda>_. True) [] [] [] [] (Some (Folder (build_output ''elf''))) = Ok m"
      "map (\<lambda>r. (af_relative_path r, af_sha256 r)) (mf_artifacts m) = [(''bin'', hex_encode sample (sha256 sample ''elf''))]"
    using build_output_manifest [of sample "\<lambda>_. True" "[]" "[]" "[]" "[]" "''elf''"] by auto
  from fresh_manifest_verifies [OF build_output_ok m(1)] m(2) show ?thesis by auto
qed

text \<open>Under a hash that collides everywhere a replaced binary verifies, and the theorem names the collision.\<close>

theorem manifest_detects_tampering_witness: "sha_collision colliding ''elf'' ''evil''"
proof -
  obtain m where m: "generate_from_output_dir colliding (\<lambda>_. True) [] [] [] [] (Some (Folder (build_output ''elf''))) = Ok m"
      "map (\<lambda>r. (af_relative_path r, af_sha256 r)) (mf_artifacts m) = [(''bin'', hex_encode colliding (sha256 colliding ''elf''))]"
    using build_output_manifest [of colliding "\<lambda>_. True" "[]" "[]" "[]" "[]" "''elf''"] by auto
  from m(2) obtain r where r: "mf_artifacts m = [r]" "af_relative_path r = ''bin''" "af_sha256 r = hex_encode colliding (sha256 colliding ''elf'')" by auto
  have named: "named_in (build_output ''evil'') ''bin'' = Some (RegularFile (Some ''evil''))"
    using named_in_join [of "[''bin'']"] by (simp add: build_output_def proper_name_def)
  have "verify_artifacts colliding m (named_in (build_output ''evil'')) (Some (Folder (build_output ''evil''))) = Ok True"
    by (simp add: verify_artifacts_def r named build_output_listing compute_file_sha256_def) (simp add: colliding_def)
  from manifest_detects_tampering [OF colliding_hex_ok build_output_ok build_output_ok m(1) this, of "[''bin'']"]
  show ?thesis by (auto simp: listed_path_def skipped_name_def build_output_def)
qed

theorem source_digest_is_ambiguous_witness:
  "tree_digest sample (Some (Folder (Entry ''a'' (RegularFile (Some ''x'')) (Entry ''b'' (RegularFile (Some ''y'')) NoEntries))))
     = tree_digest sample (Some (Folder (Entry (''a'' @ hex_encode sample (sha256 sample ''x'') @ ''b'') (RegularFile (Some ''y'')) NoEntries)))"
  using source_digest_is_ambiguous [OF sample_hex_ok, of "''x''" "''y''"] .

end
