(* ===== verification/Engine.thy ===== *)
theory Engine
  imports Governance Graph_Safety Artifacts Admission Executor
    Ratify Promotion Supervisor Ledger
begin

text \<open>
  The cycle of the engine (\<open>src/src/daemon.rs\<close>): the gauntlet of one candidate up to its evaluation receipt, the supervised
  block from the staged canary to the promotion, and the cycle around them.

  \<open>engine\<close> holds the crates and the printers of error values; \<open>candidate_run\<close> and \<open>supervised_run\<close> hold what the outside
  world answers (the sandbox copy, the build jail, the verifier, the judge's environment, the canary's script, the safety
  envelope, the file system).  The world is what the cycle changes: the ledger, the host's generations and its active link,
  the observation log of the generation, the repository, the stage clock and the pinned workload.  The ledger's clock is a
  function of the database.  Lessons recorded in Cortex leave the machine and are not part of the world.
\<close>

section \<open>Configuration, printers and crates\<close>

record engine_config =
  cf_rsi_root :: string
  cf_signing_key_hex :: "string option"
  cf_operator_key_hex :: "string option"
  cf_ratify_roots :: "string list"
  cf_canary_exempt_kinds :: "proposal_kind list"
  cf_require_latency_improvement :: bool
  cf_canary_target :: u64
  cf_canary_workload_sha256 :: "string option"
  cf_judge_public_key_hex :: "string option"
  cf_judge_policy_file :: "(string + bytes) option"
  cf_measure_min_samples :: nat
  cf_measure_window_cycles :: nat
  cf_measure_p95_min_samples :: nat

record texts =
  tx_claim :: "claim_error \<Rightarrow> string"
  tx_gate :: "gate_error \<Rightarrow> string"
  tx_tier :: "tier_error \<Rightarrow> string"
  tx_adapter :: "adapter_error \<Rightarrow> string"
  tx_workload :: "workload_error \<Rightarrow> string"
  tx_judge :: "judge_error \<Rightarrow> string"
  tx_identity :: "identity_error \<Rightarrow> string"
  tx_artifact :: "artifact_error \<Rightarrow> string"
  tx_exec :: "exec_error \<Rightarrow> string"
  tx_admission :: "admission_error \<Rightarrow> string"
  tx_refusal :: "gate_refusal \<Rightarrow> string"
  tx_ledger :: "ledger_error \<Rightarrow> string"
  tx_measure :: "measure_error \<Rightarrow> string"
  tx_graph :: "graph_error \<Rightarrow> string"
  tx_kind :: "proposal_kind \<Rightarrow> string"
  tx_path :: "string list \<Rightarrow> string"
  tx_receipt_json :: "evaluation_receipt \<Rightarrow> string"

record engine =
  en_X :: crates
  en_P :: receipt_keys
  en_signing_key_ok :: "bytes \<Rightarrow> bool"
  en_strings :: "string \<Rightarrow> string list option"
  en_now :: "ledger_db \<Rightarrow> string"
  en_policy :: "bytes \<Rightarrow> string + evaluation_policy"
  en_suite :: "bytes \<Rightarrow> string + holdout_suite"
  en_adapter :: "string \<Rightarrow> adapter_manifest option"
  en_workload :: "bytes \<Rightarrow> workload_manifest option"
  en_record :: "bytes \<Rightarrow> log_record option"
  en_sample_text :: "cycle_record \<Rightarrow> string"
  en_sample_record :: "string \<Rightarrow> cycle_record option"
  en_debug :: "string \<Rightarrow> string"
  en_lowercase :: "string \<Rightarrow> string"
  en_texts :: texts

record quota_record =
  qr_admitted :: bool
  qr_counted :: "u64 option"
  qr_target :: u64
  qr_refusal :: "string option"

record gate_record =
  gr_passed :: bool
  gr_detail :: string

record canary_summary =
  su_applicable :: bool
  su_exemption :: "string option"
  su_eligible :: bool
  su_refusal :: "string option"
  su_identity_binding_digest :: "string option"
  su_executable_digest :: "string option"
  su_workload_digest :: "string option"
  su_log_digest :: "string option"
  su_commitment_block_hash :: "string option"
  su_execution :: "execution_summary option"
  su_quota :: "quota_record option"
  su_envelope :: "gate_record option"
  su_envelope_note :: "string option"
  su_promotion_gate :: "gate_record option"

definition empty_canary_summary :: canary_summary where
  "empty_canary_summary = \<lparr>su_applicable = False, su_exemption = None, su_eligible = False, su_refusal = None,
     su_identity_binding_digest = None, su_executable_digest = None, su_workload_digest = None, su_log_digest = None,
     su_commitment_block_hash = None, su_execution = None, su_quota = None, su_envelope = None, su_envelope_note = None,
     su_promotion_gate = None\<rparr>"

record invariant_report =
  iv_passed :: bool
  iv_notes :: "string list"
  iv_compilation_error :: "string option"
  iv_test_output_summary :: "string option"

record candidate_run =
  cw_sandbox :: "string + entries"
  cw_stale :: "(string + unit) option"
  cw_build :: "string + (bool \<times> string \<times> string)"
  cw_built_is_file :: bool
  cw_report :: invariant_report
  cw_judge :: judge_run
  cw_build_us :: nat
  cw_eval_us :: nat

record 'r world =
  wd_db :: ledger_db
  wd_host :: host
  wd_log :: "bytes option"
  wd_repo :: 'r
  wd_clock :: stage_clock
  wd_pinned :: "pinned_workload option"
  wd_workload_file :: "bytes option"
  wd_samples :: sample_file
  wd_partial :: sample_file

section \<open>Writing to the ledger and the clock\<close>

text \<open>\<open>let _ = ledger.append_block(BlockType::Evaluation, text, vec![])\<close>: a failed append is ignored.\<close>

definition noted :: "engine \<Rightarrow> string \<Rightarrow> 'r world \<Rightarrow> 'r world" where
  "noted E text w =
     (case append_block (en_X E) (en_strings E) (en_now E (wd_db w)) EvaluationB text [] (wd_db w) of
        Inl _ \<Rightarrow> w
      | Inr (_, db) \<Rightarrow> w\<lparr>wd_db := db\<rparr>)"

definition timed :: "stage \<Rightarrow> nat \<Rightarrow> stage_outcome \<Rightarrow> 'r world \<Rightarrow> 'r world" where
  "timed st us out w = w\<lparr>wd_clock := record_stage st us out (wd_clock w)\<rparr>"

fun opt_json :: "string option \<Rightarrow> json" where
  "opt_json None = JNull"
| "opt_json (Some s) = JString s"

fun gate_json :: "gate_record option \<Rightarrow> json" where
  "gate_json None = JNull"
| "gate_json (Some g) = JObject [(''passed'', JBool (gr_passed g)), (''detail'', JString (gr_detail g))]"

fun quota_json :: "quota_record option \<Rightarrow> json" where
  "quota_json None = JNull"
| "quota_json (Some q) = JObject [(''admitted'', JBool (qr_admitted q)),
     (''counted'', case qr_counted q of None \<Rightarrow> JNull | Some n \<Rightarrow> JNumber (unat n)),
     (''target'', JNumber (unat (qr_target q))), (''refusal'', opt_json (qr_refusal q))]"

definition record_decision :: "engine \<Rightarrow> string \<Rightarrow> canary_summary \<Rightarrow> 'r world \<Rightarrow> 'r world" where
  "record_decision E generation_id su =
     noted E (write_canonical (en_X E) (JObject [(''canary_decision'', JObject
       [(''generation_id'', JString generation_id),
        (''identity_binding_digest'', opt_json (su_identity_binding_digest su)),
        (''log_digest'', opt_json (su_log_digest su)),
        (''commitment_block_hash'', opt_json (su_commitment_block_hash su)),
        (''quota'', quota_json (su_quota su)), (''envelope'', gate_json (su_envelope su)),
        (''envelope_note'', opt_json (su_envelope_note su)), (''promotion_gate'', gate_json (su_promotion_gate su))])]))"

section \<open>Before anything is staged\<close>

definition tier_refusal :: "engine \<Rightarrow> engine_config \<Rightarrow> improvement_proposal \<Rightarrow> string option" where
  "tier_refusal E cf p =
     (if classify_proposal p \<noteq> Tier2Engine then None
      else case cf_operator_key_hex cf of
          None \<Rightarrow> Some ''Tier 2 candidate refused: no operator key configured''
        | Some key_hex \<Rightarrow>
      (case validate_tier2_candidate_boundaries (ip_target_file p) of
          Inl e \<Rightarrow> Some (''Tier 2 Invariant Rejected: '' @ tx_tier (en_texts E) e)
        | Inr _ \<Rightarrow>
      (case hex_decode (en_X E) key_hex of
          None \<Rightarrow> Some ''Invalid operator_key_hex''
        | Some key_bytes \<Rightarrow>
      (case ec_from_sec1 (en_P E) key_bytes of
          None \<Rightarrow> Some ''Invalid operator verifying key''
        | Some op_key \<Rightarrow>
            if is_ok (verify_operator_authorization (en_X E) (en_P E) (sha256 (en_X E) (ip_proposed_patch p))
                 (case ip_operator_signature p of Some s \<Rightarrow> s | None \<Rightarrow> []) op_key)
              then None else Some ''Operator signature unauthorized''))))"

definition unstaged_refusal :: "engine \<Rightarrow> engine_config \<Rightarrow> bool \<Rightarrow> improvement_proposal \<Rightarrow> string option" where
  "unstaged_refusal E cf diagnosis_measured p =
     (case check_claim (ip_kind p) (cf_require_latency_improvement cf) diagnosis_measured of
        Inl e \<Rightarrow> Some (tx_claim (en_texts E) e)
      | Inr _ \<Rightarrow>
     (case check_declared_target (ip_target_file p) (cf_ratify_roots cf) of
        Inl e \<Rightarrow> Some (''Declared target refused: '' @ tx_gate (en_texts E) e)
      | Inr _ \<Rightarrow> tier_refusal E cf p))"

section \<open>Canary applicability and eligibility\<close>

definition is_code_change :: "improvement_proposal \<Rightarrow> bool" where
  "is_code_change p \<longleftrightarrow> ends_with ''.rs'' (ip_target_file p) \<or> ends_with ''.toml'' (ip_target_file p)
     \<or> ends_with ''Cargo.lock'' (ip_target_file p)"

definition ADAPTER_MANIFEST_FILE :: string where "ADAPTER_MANIFEST_FILE = ''canary-adapter.toml''"

definition adapter_file :: "entries \<Rightarrow> manifest_file" where
  "adapter_file es =
     (case node_at es [ADAPTER_MANIFEST_FILE] of
        Some (RegularFile (Some b)) \<Rightarrow> if valid_utf8 b then TextFile b else UnreadableFile
      | Some (RegularFile None) \<Rightarrow> UnreadableFile
      | _ \<Rightarrow> NoFile)"

definition is_declared :: "entries \<Rightarrow> bool" where
  "is_declared es \<longleftrightarrow> adapter_file es \<noteq> NoFile"

definition heuristic_build :: "improvement_proposal \<Rightarrow> entries \<Rightarrow> bool" where
  "heuristic_build p es \<longleftrightarrow> node_at es [''Cargo.toml''] \<noteq> None
     \<and> (node_at es [''spark-rsi''] = None \<or> ends_with ''.rs'' (ip_target_file p))"

definition is_exempt :: "engine_config \<Rightarrow> improvement_proposal \<Rightarrow> entries \<Rightarrow> bool" where
  "is_exempt cf p es \<longleftrightarrow> \<not> (is_code_change p \<or> heuristic_build p es \<or> is_declared es) \<and> ip_kind p \<in> set (cf_canary_exempt_kinds cf)"

definition BUILD_OUTPUT_ROOT :: "string list" where "BUILD_OUTPUT_ROOT = [''tmp'', ''spark-rsi-target'']"

definition load_pinned_workload :: "engine \<Rightarrow> engine_config \<Rightarrow> 'r world \<Rightarrow> string + pinned_workload" where
  "load_pinned_workload E cf w =
     (case cf_canary_workload_sha256 cf of
        None \<Rightarrow> Err ''canary_workload_sha256 is not set: the operator must pin the canary workload''
      | Some pin \<Rightarrow> map_err (tx_workload (en_texts E)) (load_pinned (en_X E) (en_workload E) (wd_workload_file w) pin))"

definition pin_workload :: "engine \<Rightarrow> engine_config \<Rightarrow> 'r world \<Rightarrow> (string + pinned_workload) \<times> 'r world" where
  "pin_workload E cf w =
     (case wd_pinned w of
        Some p \<Rightarrow> (Ok p, w)
      | None \<Rightarrow>
          (case load_pinned_workload E cf w of
             Inr p \<Rightarrow> (Ok p, w\<lparr>wd_pinned := Some p\<rparr>)
           | Inl e \<Rightarrow> (Err (''Fatal: canary workload refused: '' @ e), noted E (''Canary workload refused: '' @ e) w)))"

text \<open>The eligibility block: an error ends the cycle, a refusal is left in the summary.\<close>

definition check_eligibility ::
    "engine \<Rightarrow> engine_config \<Rightarrow> candidate_run \<Rightarrow> entries \<Rightarrow> canary_summary \<Rightarrow> 'r world
      \<Rightarrow> (string + canary_summary \<times> (loaded_adapter \<times> string list) option) \<times> 'r world" where
  "check_eligibility E cf att es su w =
     (case load_from_tree (en_X E) (en_adapter E) (adapter_file es) of
        Inl e \<Rightarrow> (Ok (su\<lparr>su_refusal := Some (tx_adapter (en_texts E) e)\<rparr>, None),
          noted E (''Canary refused, candidate not eligible: '' @ tx_adapter (en_texts E) e) w)
      | Inr adapter \<Rightarrow>
     (case pin_workload E cf w of
        (Inl e, w) \<Rightarrow> (Err e, w)
      | (Inr workload, w) \<Rightarrow>
          let su = su\<lparr>su_workload_digest := Some (pw_digest workload)\<rparr>;
              named = am_workload_id (la_manifest adapter); pinned = wl_workload_id (pw_manifest workload) in
          if named \<noteq> pinned then
            let e = ''adapter names workload '' @ quoted named @ '', the pinned workload is '' @ quoted pinned in
            (Ok (su\<lparr>su_refusal := Some e\<rparr>, None), noted E (''Canary refused, candidate not eligible: '' @ e) w)
          else
            let built = executable_path BUILD_OUTPUT_ROOT (la_manifest adapter) in
            (case cw_stale att of
               Some (Inl e) \<Rightarrow>
                 let e = ''cannot clear stale executable '' @ tx_path (en_texts E) built @ '': '' @ e in
                 (Ok (su\<lparr>su_refusal := Some e\<rparr>, None), noted E e w)
             | _ \<Rightarrow> (Ok (su\<lparr>su_eligible := True\<rparr>, Some (adapter, built)), w))))"

definition initial_summary :: "engine \<Rightarrow> engine_config \<Rightarrow> improvement_proposal \<Rightarrow> entries \<Rightarrow> canary_summary" where
  "initial_summary E cf p es =
     (let exempt = is_exempt cf p es in
      empty_canary_summary\<lparr>su_applicable := \<not> exempt, su_exemption := (if exempt
        then Some (''kind '' @ tx_kind (en_texts E) (ip_kind p) @ '' is exempt by configuration and the change is not executable'')
        else None)\<rparr>)"

definition canary_eligibility ::
    "engine \<Rightarrow> engine_config \<Rightarrow> improvement_proposal \<Rightarrow> candidate_run \<Rightarrow> entries \<Rightarrow> 'r world
      \<Rightarrow> (string + canary_summary \<times> (loaded_adapter \<times> string list) option) \<times> 'r world" where
  "canary_eligibility E cf p att es w =
     (if is_exempt cf p es then (Ok (initial_summary E cf p es, None), w)
      else check_eligibility E cf att es (initial_summary E cf p es) w)"

section \<open>Build, verification and judgement\<close>

definition build_candidate :: "engine \<Rightarrow> improvement_proposal \<Rightarrow> candidate_run \<Rightarrow> bool \<Rightarrow> 'r world \<Rightarrow> bool \<times> 'r world" where
  "build_candidate E p att needs_build w =
     (if \<not> needs_build then (True, w)
      else case cw_build att of
          Inl e \<Rightarrow> (False, noted E (''Build Jail exec error: '' @ e) (timed BuildJail (cw_build_us att) StageFailed w))
        | Inr (True, out, err) \<Rightarrow> (True, timed BuildJail (cw_build_us att) StageOk w)
        | Inr (False, out, err) \<Rightarrow>
            (False, noted E (write_canonical (en_X E) (JObject [(''proposal_id'', JString (ip_id p)), (''stage'', JString ''build_jail''),
               (''error'', JString (''Candidate failed to compile in Build Jail:'' @ [newline] @ err)), (''stdout'', JString out)]))
               (timed BuildJail (cw_build_us att) StageFailed w)))"

definition missing_executable ::
    "engine \<Rightarrow> candidate_run \<Rightarrow> canary_summary \<Rightarrow> (loaded_adapter \<times> string list) option \<Rightarrow> 'r world
      \<Rightarrow> canary_summary \<times> (loaded_adapter \<times> string list) option \<times> 'r world" where
  "missing_executable E att su build w =
     (case build of
        Some (_, built) \<Rightarrow>
          if cw_built_is_file att then (su, build, w)
          else let e = ''the build did not produce the adapter executable '' @ tx_path (en_texts E) built @ ''; not eligible for canary'' in
               (su\<lparr>su_eligible := False, su_refusal := Some e\<rparr>, None, noted E e w)
      | None \<Rightarrow> (su, None, w))"

record winner =
  wi_proposal :: improvement_proposal
  wi_report :: invariant_report
  wi_receipt :: evaluation_receipt
  wi_block :: ledger_block
  wi_summary :: canary_summary
  wi_build :: "(loaded_adapter \<times> string list) option"
  wi_sandbox :: entries

definition cycle_judge :: "improvement_proposal \<Rightarrow> bytes \<Rightarrow> blind_judge" where
  "cycle_judge p key = \<lparr>bj_signing_key = Some key, bj_require_build_verification = is_code_change p, bj_executable = None,
     bj_build_release = False, bj_v2 = None\<rparr>"

text \<open>The judge stage: verification, the balance reading, the evaluation and its ledger block.\<close>

definition judge_candidate ::
    "engine \<Rightarrow> string \<Rightarrow> bytes \<Rightarrow> bool \<Rightarrow> improvement_proposal \<Rightarrow> candidate_run \<Rightarrow> entries \<Rightarrow> canary_summary
      \<Rightarrow> (loaded_adapter \<times> string list) option \<Rightarrow> 'r world \<Rightarrow> (string + winner option) \<times> 'r world" where
  "judge_candidate E cycle_id key is_balanced p att es su build w =
     (let report = cw_report att in
      if \<not> iv_passed report \<or> \<not> is_balanced then
        (Ok None, noted E (write_canonical (en_X E) (JObject [(''proposal_id'', JString (ip_id p)),
           (''invariants_passed'', JBool (iv_passed report)), (''is_balanced'', JBool is_balanced),
           (''notes'', JArray (map JString (iv_notes report))), (''compile_error'', opt_json (iv_compilation_error report)),
           (''test_summary'', opt_json (iv_test_output_summary report))]))
           (timed JudgeEvaluation (cw_eval_us att) StageRefused w))
      else case evaluate_cycle (en_X E) (en_P E) (en_suite E) (en_debug E) (en_lowercase E) (cycle_judge p key) (cw_judge att)
             cycle_id (ip_id p) ''parent'' of
          Inl e \<Rightarrow> (Ok None, noted E (''Judge evaluation error: '' @ tx_judge (en_texts E) e)
             (timed JudgeEvaluation (cw_eval_us att) StageFailed w))
        | Inr receipt \<Rightarrow>
            let json = tx_receipt_json (en_texts E) receipt in
            (case append_evaluation (en_X E) (en_strings E) (en_now E (wd_db w)) json (Some json) (wd_db w) of
               (Inl e, db) \<Rightarrow> (Err (''Fatal: Failed to append evaluation to ledger: '' @ tx_ledger (en_texts E) e), w\<lparr>wd_db := db\<rparr>)
             | (Inr blk, db) \<Rightarrow>
                 let w = timed JudgeEvaluation (cw_eval_us att) (if er_admitted receipt then StageOk else StageRefused) (w\<lparr>wd_db := db\<rparr>) in
                 (Ok (if er_admitted receipt
                    then Some \<lparr>wi_proposal = p, wi_report = report, wi_receipt = receipt, wi_block = blk, wi_summary = su,
                      wi_build = build, wi_sandbox = es\<rparr> else None), w)))"

definition candidate_gauntlet ::
    "engine \<Rightarrow> engine_config \<Rightarrow> string \<Rightarrow> bytes \<Rightarrow> bool \<Rightarrow> bool \<Rightarrow> improvement_proposal \<times> candidate_run \<Rightarrow> 'r world
      \<Rightarrow> (string + winner option) \<times> 'r world" where
  "candidate_gauntlet E cf cycle_id key diagnosis_measured is_balanced candidate w =
     (let (p, att) = candidate in
      case unstaged_refusal E cf diagnosis_measured p of
        Some text \<Rightarrow> (Ok None, noted E text w)
      | None \<Rightarrow>
     (case cw_sandbox att of
        Inl e \<Rightarrow> (Ok None, noted E (''Stage failed: '' @ e) w)
      | Inr es \<Rightarrow>
          (case canary_eligibility E cf p att es w of
             (Inl e, w) \<Rightarrow> (Err e, w)
           | (Inr (su, build), w) \<Rightarrow>
          (case build_candidate E p att (heuristic_build p es \<or> build \<noteq> None) w of
             (False, w) \<Rightarrow> (Ok None, w)
           | (True, w) \<Rightarrow>
               let (su, build, w) = missing_executable E att su build w in
               judge_candidate E cycle_id key is_balanced p att es su build w))))"

fun try_candidates ::
    "engine \<Rightarrow> engine_config \<Rightarrow> string \<Rightarrow> bytes \<Rightarrow> bool \<Rightarrow> bool \<Rightarrow> (improvement_proposal \<times> candidate_run) list \<Rightarrow> 'r world
      \<Rightarrow> (string + winner option) \<times> 'r world" where
  "try_candidates E cf cycle_id key diagnosis_measured is_balanced [] w = (Ok None, w)"
| "try_candidates E cf cycle_id key diagnosis_measured is_balanced (c # cs) w =
     (case candidate_gauntlet E cf cycle_id key diagnosis_measured is_balanced c w of
        (Inr None, w) \<Rightarrow> try_candidates E cf cycle_id key diagnosis_measured is_balanced cs w
      | r \<Rightarrow> r)"

section \<open>The supervised block\<close>

record supervised_run =
  pr_copied :: "tree \<times> (string + unit)"
  pr_staged_at :: string
  pr_generation_tree :: "node option"
  pr_exe_dir :: "string + unit"
  pr_exe_copy :: "string + bytes"
  pr_script :: script
  pr_env :: env
  pr_envelope :: "string + unit"
  pr_disk :: "string + bytes"
  pr_swapped :: "string + unit"
  pr_operator :: operator
  pr_ratified_at :: string
  pr_cortex :: "string option \<times> bool"
  pr_canary_us :: nat
  pr_commit_us :: nat

definition fresh_daemon :: "host \<Rightarrow> daemon" where
  "fresh_daemon h = \<lparr>d_host = h, d_active_generation = None, d_canary_generation = None, d_observation_log = None\<rparr>"

definition cycle_supervisor :: "engine_config \<Rightarrow> string \<Rightarrow> supervisor_config" where
  "cycle_supervisor cf secret = \<lparr>sc_rsi_root = cf_rsi_root cf, sc_memory_limit_mb = 49152, sc_max_latency_us = 1000000,
     sc_max_error_rate = 0, sc_shared_secret = secret\<rparr>"

text \<open>\<open>roll_back\<close>: the supervisor's rollback may fail and end the cycle; a failed ledger append is ignored.\<close>

definition roll_back ::
    "engine \<Rightarrow> engine_config \<Rightarrow> supervised_run \<Rightarrow> string \<Rightarrow> string \<Rightarrow> daemon \<Rightarrow> 'r world \<Rightarrow> (string + unit) \<times> 'r world" where
  "roll_back E cf sr proposal_id reason d w =
     (case trigger_instant_rollback (cycle_supervisor cf []) (pr_env sr) (cf_rsi_root cf @ ''/active.sock'') d of
        (Inl e, d) \<Rightarrow> (Err e, w\<lparr>wd_host := d_host d\<rparr>)
      | (Inr _, d) \<Rightarrow>
          (let w = w\<lparr>wd_host := d_host d\<rparr> in
           case append_rollback (en_X E) (en_strings E) (en_now E (wd_db w)) proposal_id reason (wd_db w) of
             Inl _ \<Rightarrow> (Ok (), w)
           | Inr (_, db) \<Rightarrow> (Ok (), w\<lparr>wd_db := db\<rparr>)))"

text \<open>The identity chain: the evaluated tree is the staged tree, and the executable of the build is copied into the generation.\<close>

definition stage_identity ::
    "engine \<Rightarrow> supervised_run \<Rightarrow> winner \<Rightarrow> string list \<Rightarrow> string + candidate_identity" where
  "stage_identity E sr win built =
     (let X = en_X E; T = en_texts E in
      and_then (map_err (tx_artifact T) (tree_digest X (Some (Folder (wi_sandbox win))))) (\<lambda>evaluated_tree.
      and_then (map_err (tx_artifact T) (tree_digest X (pr_generation_tree sr))) (\<lambda>staged_tree.
      if staged_tree \<noteq> evaluated_tree then Err (''staged tree digest '' @ staged_tree @ '' differs from the evaluated tree digest '' @ evaluated_tree)
      else if built = [] then Err (''adapter executable path '' @ tx_path T built @ '' has no file name'')
      else and_then (pr_exe_dir sr) (\<lambda>_.
      and_then (pr_exe_copy sr) (\<lambda>exe.
      and_then (map_err (tx_identity T) (digest_file X (Some exe))) (\<lambda>exe_digest.
      let identity = new_identity (hex_encode X (sha256 X (ip_proposed_patch (wi_proposal win)))) evaluated_tree exe_digest
            (ip_id (wi_proposal win)) in
      and_then (map_err (tx_identity T) (validate_identity identity)) (\<lambda>_. Ok identity)))))))"

definition canary_executor :: "engine \<Rightarrow> engine_config \<Rightarrow> pinned_workload \<Rightarrow> candidate_identity \<Rightarrow> generation_info \<Rightarrow> string list \<Rightarrow> executor" where
  "canary_executor E cf workload identity g built =
     \<lparr>x_memory_limit_mb = 49152, x_rsi_root = cf_rsi_root cf, x_executable_text = tx_path (en_texts E) [gi_installed_path g, ''.rsi-canary'', last built],
      x_workload = workload, x_identity = identity,
      x_exec = \<lparr>ec_readiness_text = ''10s'', ec_deadline_cap_ms = None, ec_request_limit = None, ec_halt_after_requests = None\<rparr>\<rparr>"

definition commitment_payload ::
    "engine \<Rightarrow> candidate_identity \<Rightarrow> pinned_workload \<Rightarrow> loaded_adapter \<Rightarrow> string \<Rightarrow> sealed_log \<Rightarrow> string" where
  "commitment_payload E identity workload adapter log_path sealed =
     write_canonical (en_X E) (JObject [(''canary_commitment'', JObject
       [(''generation_id'', JString (id_generation_id identity)), (''patch_digest'', JString (id_patch_digest identity)),
        (''tree_digest'', JString (id_tree_digest identity)), (''executable_digest'', JString (id_executable_digest identity)),
        (''identity_binding_digest'', JString (binding_digest (en_X E) identity)),
        (''workload_id'', JString (wl_workload_id (pw_manifest workload))), (''workload_digest'', JString (pw_digest workload)),
        (''adapter_manifest_digest'', JString (la_digest adapter)), (''sealed_log_path'', JString log_path),
        (''log_digest'', JString (seal_log_digest (sl_seal sealed))),
        (''observation_count'', JNumber (unat (seal_observation_count (sl_seal sealed)))),
        (''qualifying_count'', JNumber (unat (seal_qualifying_count (sl_seal sealed)))),
        (''rejection_count'', JNumber (length (sl_rejections sealed)))])])"

text \<open>Quota admission of a sealed log after its commitment, and the subject of the envelope.\<close>

definition admit_sealed ::
    "engine \<Rightarrow> engine_config \<Rightarrow> pinned_workload \<Rightarrow> candidate_identity \<Rightarrow> sealed_log \<Rightarrow> execution_summary \<Rightarrow> canary_summary
      \<Rightarrow> (string + bytes) \<times> canary_summary" where
  "admit_sealed E cf workload identity sealed exec_summary su =
     (case admit_sealed_quota (en_X E) sealed identity (pw_manifest workload) (cf_canary_target cf) of
        Inl e \<Rightarrow>
          let reason = tx_admission (en_texts E) e @
                (case es_first_failure exec_summary of Some f \<Rightarrow> '' (first failure: '' @ f @ '')'' | None \<Rightarrow> []) in
          (Err reason, su\<lparr>su_quota := Some \<lparr>qr_admitted = False, qr_counted = None, qr_target = cf_canary_target cf,
             qr_refusal = Some reason\<rparr>\<rparr>)
      | Inr decision \<Rightarrow>
          (case hex_decode (en_X E) (binding_digest (en_X E) identity) of
             Some b \<Rightarrow> if length b = 32 then Ok b else Err ''identity binding digest is not 32 bytes of hex''
           | None \<Rightarrow> Err ''identity binding digest is not 32 bytes of hex'',
           su\<lparr>su_quota := Some \<lparr>qr_admitted = True, qr_counted = Some (qd_counted decision), qr_target = qd_target decision,
             qr_refusal = None\<rparr>\<rparr>))"

definition run_and_admit ::
    "engine \<Rightarrow> engine_config \<Rightarrow> supervised_run \<Rightarrow> loaded_adapter \<Rightarrow> string list \<Rightarrow> pinned_workload \<Rightarrow> candidate_identity
      \<Rightarrow> generation_info \<Rightarrow> canary_summary \<Rightarrow> 'r world
      \<Rightarrow> (string + bytes) \<times> generation_info \<times> canary_summary \<times> 'r world" where
  "run_and_admit E cf sr adapter built workload identity g su w =
     (let (res, g, log) = run_canary (en_X E) (en_record E) (canary_executor E cf workload identity g built) (pr_script sr) g (wd_log w);
          w = w\<lparr>wd_log := log\<rparr> in
      case res of
        Inl e \<Rightarrow> (Err (tx_exec (en_texts E) e), g, su, w)
      | Inr (HaltedOutcome _) \<Rightarrow> (Err ''canary run halted without sealing; refusing'', g, su, w)
      | Inr (SealedOutcome sealed exec_summary) \<Rightarrow>
          let su = su\<lparr>su_execution := Some exec_summary, su_log_digest := Some (seal_log_digest (sl_seal sealed))\<rparr>;
              log_path = observation_log_path (cf_rsi_root cf) (id_generation_id identity) in
          (case append_block (en_X E) (en_strings E) (en_now E (wd_db w)) EvaluationB
                  (commitment_payload E identity workload adapter log_path sealed) [] (wd_db w) of
             Inl e \<Rightarrow> (Err (''cannot commit the sealed log to the ledger: '' @ tx_ledger (en_texts E) e), g, su, w)
           | Inr (block, db) \<Rightarrow>
               let (res, su) = admit_sealed E cf workload identity sealed exec_summary
                     (su\<lparr>su_commitment_block_hash := Some (lb_block_hash block)\<rparr>) in
               (res, g, su, w\<lparr>wd_db := db\<rparr>)))"

definition admit_canary ::
    "engine \<Rightarrow> engine_config \<Rightarrow> supervised_run \<Rightarrow> winner \<Rightarrow> generation_info \<Rightarrow> 'r world
      \<Rightarrow> (string + bytes) \<times> generation_info \<times> canary_summary \<times> 'r world" where
  "admit_canary E cf sr win g w =
     (let su = wi_summary win in
      if su_applicable su \<and> su_refusal su \<noteq> None
        then (Err (''canary refused, candidate not eligible: '' @ the (su_refusal su)), g, su, w)
      else if \<not> su_applicable su then (Ok (sha256 (en_X E) (ip_proposed_patch (wi_proposal win))), g, su, w)
      else case (wi_build win, wd_pinned w) of
          (Some (adapter, built), Some workload) \<Rightarrow>
            (case stage_identity E sr win built of
               Inl e \<Rightarrow> (Err e, g, su, w)
             | Inr identity \<Rightarrow>
                 run_and_admit E cf sr adapter built workload identity g
                   (su\<lparr>su_identity_binding_digest := Some (binding_digest (en_X E) identity),
                       su_executable_digest := Some (id_executable_digest identity)\<rparr>) w)
        | _ \<Rightarrow> (Err ''canary applies but no adapter or pinned workload was resolved'', g, su, w))"

definition ENVELOPE_REFERENCE_NOTE :: string where
  "ENVELOPE_REFERENCE_NOTE = ''the safety envelope evaluated through aien_probe::DeterministicReferenceBackend; this is a reference evaluation and does not establish production safety''"

definition cycle_subject :: "engine \<Rightarrow> supervised_run \<Rightarrow> improvement_proposal \<Rightarrow> promotion_subject" where
  "cycle_subject E sr p =
     \<lparr>ps_parent_id = ''parent'', ps_path = ip_target_file p,
      ps_content_sha256 = hex_encode (en_X E) (sha256 (en_X E) (ip_proposed_patch p)),
      ps_disk_sha256 = (case pr_disk sr of Inr b \<Rightarrow> hex_encode (en_X E) (sha256 (en_X E) b) | Inl e \<Rightarrow> ''unreadable: '' @ e)\<rparr>"

definition promotion_gate :: "engine \<Rightarrow> engine_config \<Rightarrow> bytes \<Rightarrow> supervised_run \<Rightarrow> winner \<Rightarrow> gate_refusal + unit" where
  "promotion_gate E cf key sr win =
     check_v2_promotion (en_X E) (en_P E) (en_policy E) (wi_receipt win) (cf_judge_public_key_hex cf) (ec_public (en_P E) key)
       (cf_judge_policy_file cf) (cycle_subject E sr (wi_proposal win))"

record promotion_end =
  pn_success :: bool
  pn_summary :: canary_summary
  pn_block :: "ledger_block option"
  pn_generation :: "generation_info option"
  pn_ratification :: "ratification_record option"

definition refused_end :: "canary_summary \<Rightarrow> promotion_end" where
  "refused_end su = \<lparr>pn_success = False, pn_summary = su, pn_block = None, pn_generation = None, pn_ratification = None\<rparr>"

definition refuse_promotion ::
    "engine \<Rightarrow> engine_config \<Rightarrow> supervised_run \<Rightarrow> string \<Rightarrow> string \<Rightarrow> canary_summary \<Rightarrow> daemon \<Rightarrow> 'r world
      \<Rightarrow> (string + promotion_end) \<times> 'r world" where
  "refuse_promotion E cf sr proposal_id reason su d w =
     (case roll_back E cf sr proposal_id reason d w of
        (Inl e, w) \<Rightarrow> (Err e, w)
      | (Inr _, w) \<Rightarrow> (Ok (refused_end su), record_decision E proposal_id su w))"

text \<open>Quota, envelope and gate have passed: the swap, the promotion block and the ratification.\<close>

definition make_durable ::
    "engine \<Rightarrow> engine_config \<Rightarrow> 'r exec \<Rightarrow> supervised_run \<Rightarrow> winner \<Rightarrow> generation_info \<Rightarrow> canary_summary \<Rightarrow> 'r world
      \<Rightarrow> (string + promotion_end) \<times> 'r world" where
  "make_durable E cf git sr win g su w =
     (let p = wi_proposal win; w = record_decision E (ip_id p) su w in
      case atomic_symlink_swap (ip_id p) (pr_swapped sr) (wd_host w) of
        (Inl e, h) \<Rightarrow> (Err e, w\<lparr>wd_host := h\<rparr>)
      | (Inr _, h) \<Rightarrow>
          (let w = w\<lparr>wd_host := h\<rparr>; g = g\<lparr>gi_state := Durable\<rparr> in
           case append_promotion (en_X E) (en_strings E) (en_now E (wd_db w)) g (er_receipt_digest (wi_receipt win)) (wd_db w) of
             Inl e \<Rightarrow> (Err (''Fatal: Failed to append promotion to ledger: '' @ tx_ledger (en_texts E) e), w)
           | Inr (block, db) \<Rightarrow>
               (case ratify_proposal git (pr_operator sr) (pr_ratified_at sr) (pr_cortex sr) p (iv_passed (wi_report win))
                       (iv_notes (wi_report win)) (cf_ratify_roots cf) (cf_rsi_root cf @ ''/patches'') (wd_repo w) of
                  (Inl e, r) \<Rightarrow> (Err (tx_gate (en_texts E) e), w\<lparr>wd_db := db, wd_repo := r\<rparr>)
                | (Inr rat, r) \<Rightarrow>
                    (Ok \<lparr>pn_success = True, pn_summary = su, pn_block = Some block, pn_generation = Some g,
                       pn_ratification = Some rat\<rparr>,
                     timed CortexCommit (pr_commit_us sr) (if rr_cortex_recorded rat then StageOk else StageFailed)
                       (w\<lparr>wd_db := db, wd_repo := r\<rparr>)))))"

text \<open>Collect, seal, verify, quota admission, safety envelope, promotion gate, durable.\<close>

definition supervise ::
    "engine \<Rightarrow> engine_config \<Rightarrow> 'r exec \<Rightarrow> bytes \<Rightarrow> supervised_run \<Rightarrow> winner \<Rightarrow> 'r world \<Rightarrow> (string + promotion_end) \<times> 'r world" where
  "supervise E cf git key sr win w =
     (let p = wi_proposal win in
      case stage_canary (cf_rsi_root cf @ ''/generations'') (ip_id p) (er_receipt_digest (wi_receipt win)) (pr_staged_at sr)
             (pr_copied sr) (fresh_daemon (wd_host w)) of
        (Inl e, d) \<Rightarrow> (Err e, w\<lparr>wd_host := d_host d\<rparr>)
      | (Inr g, d) \<Rightarrow>
     (case admit_canary E cf sr win g (w\<lparr>wd_host := d_host d\<rparr>) of
        (Inl reason, g, su, w) \<Rightarrow> refuse_promotion E cf sr (ip_id p) reason su d w
      | (Inr subject, g, su, w) \<Rightarrow>
          let su = su\<lparr>su_envelope_note := Some ENVELOPE_REFERENCE_NOTE\<rparr> in
          (case pr_envelope sr of
             Inl e \<Rightarrow>
               refuse_promotion E cf sr (ip_id p) (''Safety envelope rejected promotion: '' @ e)
                 (su\<lparr>su_envelope := Some \<lparr>gr_passed = False, gr_detail = e\<rparr>\<rparr>) d w
           | Inr _ \<Rightarrow>
               let su = su\<lparr>su_envelope := Some \<lparr>gr_passed = True, gr_detail = ''signed canary evaluation receipt issued''\<rparr>\<rparr> in
               (case promotion_gate E cf key sr win of
                  Inl e \<Rightarrow>
                    let detail = tx_refusal (en_texts E) e in
                    refuse_promotion E cf sr (ip_id p) (''Promotion gate refused: '' @ detail)
                      (su\<lparr>su_promotion_gate := Some \<lparr>gr_passed = False, gr_detail = detail\<rparr>\<rparr>) d w
                | Inr _ \<Rightarrow>
                    make_durable E cf git sr win g
                      (su\<lparr>su_promotion_gate := Some \<lparr>gr_passed = True, gr_detail = ''version 2 judge receipt accepted''\<rparr>\<rparr>) w))))"

section \<open>The cycle\<close>

datatype cycle_error = Failed string | Panicked

record cycle_result =
  rs_proposal :: "improvement_proposal option"
  rs_receipt :: "evaluation_receipt option"
  rs_generation :: "generation_info option"
  rs_ledger_block :: "ledger_block option"
  rs_ratification :: "ratification_record option"
  rs_success :: bool
  rs_canary :: "canary_summary option"

record cycle_run =
  cc_opened_at :: string
  cc_holdouts_exist :: bool
  cc_observed :: "string + (rat \<times> rat)"
  cc_context :: measure_context
  cc_candidates :: "(improvement_proposal \<times> candidate_run) list"
  cc_propose_outcome :: stage_outcome
  cc_observe_us :: nat
  cc_propose_us :: nat
  cc_supervised :: supervised_run
  cc_recorded_at :: string
  cc_tail_ok :: bool
  cc_sample_io :: io

definition cycle_signing_key :: "engine \<Rightarrow> engine_config \<Rightarrow> string + bytes" where
  "cycle_signing_key E cf =
     (case cf_signing_key_hex cf of
        None \<Rightarrow> Err ''Fatal: Missing cryptographic signing key (signing_key_hex). Production evaluation fails closed.''
      | Some hex \<Rightarrow>
          (case hex_decode (en_X E) hex of
             None \<Rightarrow> Err ''Fatal: Invalid signing_key_hex''
           | Some b \<Rightarrow> if en_signing_key_ok E b then Ok b else Err ''Fatal: Invalid P-256 signing key''))"

text \<open>Whether the top bottleneck is a measured stage; \<open>None\<close> is a panic of the ranking.\<close>

definition diagnosis_measured ::
    "engine \<Rightarrow> engine_config \<Rightarrow> string \<Rightarrow> measure_context \<Rightarrow> sample_file \<Rightarrow> (graph_error + bool) option" where
  "diagnosis_measured E cf cycle_id ctx samples =
     (let m = measure_stages (tx_measure (en_texts E)) (read_records (en_sample_record E) samples) cycle_id ctx
            (cf_measure_min_samples cf) (cf_measure_window_cycles cf) (cf_measure_p95_min_samples cf) in
      case build_capability_graph m of
        Inl e \<Rightarrow> Some (Err e)
      | Inr g \<Rightarrow> map_option (\<lambda>found. Ok (case found of
            None \<Rightarrow> False
          | Some b \<Rightarrow> list_ex (\<lambda>st. stage_id st = br_node_id b \<and>
              (case m st of Some (MeasuredStage _ _ _ _) \<Rightarrow> True | _ \<Rightarrow> False)) STAGES)) (top_bottleneck g))"

definition supervised_cycle ::
    "engine \<Rightarrow> engine_config \<Rightarrow> 'r exec \<Rightarrow> bytes \<Rightarrow> supervised_run \<Rightarrow> winner option \<Rightarrow> 'r world
      \<Rightarrow> (cycle_error + cycle_result) \<times> 'r world" where
  "supervised_cycle E cf git key sr found w =
     (case found of
        None \<Rightarrow> (Ok \<lparr>rs_proposal = None, rs_receipt = None, rs_generation = None, rs_ledger_block = None,
            rs_ratification = None, rs_success = True, rs_canary = None\<rparr>, w)
      | Some win \<Rightarrow>
          (case supervise E cf git key sr win w of
             (Inl e, w) \<Rightarrow> (Err (Failed e), w)
           | (Inr e, w) \<Rightarrow>
               (Ok \<lparr>rs_proposal = Some (wi_proposal win), rs_receipt = Some (wi_receipt win), rs_generation = pn_generation e,
                  rs_ledger_block = (case pn_block e of None \<Rightarrow> Some (wi_block win) | b \<Rightarrow> b),
                  rs_ratification = pn_ratification e, rs_success = pn_success e, rs_canary = Some (pn_summary e)\<rparr>,
                timed SupervisorCanary (pr_canary_us sr - unat (case wd_clock w CortexCommit of Some (d, _) \<Rightarrow> d | None \<Rightarrow> 0))
                  (if pn_success e then StageOk else StageRefused) w)))"

definition checkpointed :: "engine \<Rightarrow> bytes \<Rightarrow> 'r world \<Rightarrow> 'r world" where
  "checkpointed E key w =
     (case checkpoint (en_X E) (p256.truncate (en_P E)) (en_strings E) (en_now E (wd_db w)) (Some key) (wd_db w) of
        Inl _ \<Rightarrow> w
      | Inr (_, db) \<Rightarrow> w\<lparr>wd_db := db\<rparr>)"

definition run_cycle_inner ::
    "engine \<Rightarrow> engine_config \<Rightarrow> 'r exec \<Rightarrow> string \<Rightarrow> cycle_run \<Rightarrow> 'r world \<Rightarrow> (cycle_error + cycle_result) \<times> 'r world" where
  "run_cycle_inner E cf git cycle_id cy w =
     (case open_ledger (en_X E) (en_strings E) (cc_opened_at cy) (wd_db w) of
        Inl e \<Rightarrow> (Err (Failed (''Fatal: Improvement Ledger must be active and accessible: '' @ tx_ledger (en_texts E) e)), w)
      | Inr db \<Rightarrow>
     let w = w\<lparr>wd_db := db\<rparr> in
     if \<not> cc_holdouts_exist cy then (Err (Failed ''Fatal: Missing holdouts directory. Production evaluation fails closed.''), w)
     else case cycle_signing_key E cf of
        Inl e \<Rightarrow> (Err (Failed e), w)
      | Inr key \<Rightarrow>
     (case cc_observed cy of
        Inl e \<Rightarrow> (Err (Failed e), timed Observe (cc_observe_us cy) StageFailed w)
      | Inr (drive, humanity) \<Rightarrow>
     let w = timed Observe (cc_observe_us cy) StageOk w in
     (case diagnosis_measured E cf cycle_id (cc_context cy) (wd_samples w) of
        None \<Rightarrow> (Err Panicked, w)
      | Some (Inl e) \<Rightarrow> (Err (Failed (tx_graph (en_texts E) e)), w)
      | Some (Inr measured) \<Rightarrow>
     let w = timed Propose (cc_propose_us cy) (cc_propose_outcome cy) w;
         is_balanced = (bv_verdict (balance_scalar drive humanity) = ''balanced'') in
     (case try_candidates E cf cycle_id key measured is_balanced (cc_candidates cy) (w\<lparr>wd_pinned := None\<rparr>) of
        (Inl e, w) \<Rightarrow> (Err (Failed e), w)
      | (Inr found, w) \<Rightarrow>
     (case supervised_cycle E cf git key (cc_supervised cy) found w of
        (Inl e, w) \<Rightarrow> (Err e, w)
      | (Inr r, w) \<Rightarrow> (Ok r, checkpointed E key w))))))"

definition append_to :: "engine \<Rightarrow> cycle_run \<Rightarrow> cycle_record \<Rightarrow> sample_file \<Rightarrow> sample_file" where
  "append_to E cy r f =
     (case f of
        UnreadableSamples \<Rightarrow> f
      | NoSamples \<Rightarrow> Samples (snd (append_samples (en_sample_text E) (cc_tail_ok cy) (cc_sample_io cy) r []))
      | Samples b \<Rightarrow> Samples (snd (append_samples (en_sample_text E) (cc_tail_ok cy) (cc_sample_io cy) r b)))"

text \<open>Samples of a cycle that ended in an error go to the partial log.\<close>

definition record_stage_samples :: "engine \<Rightarrow> cycle_run \<Rightarrow> string \<Rightarrow> bool \<Rightarrow> 'r world \<Rightarrow> 'r world" where
  "record_stage_samples E cy cycle_id completed w =
     (if wd_clock w = Map.empty then w
      else
        let ctx = cc_context cy;
            r = \<lparr>cr_schema_version = SCHEMA_VERSION, cr_cycle_id = cycle_id, cr_workload_key = ctx_workload_key ctx,
                 cr_fingerprint = ctx_fingerprint ctx, cr_execution_profile = ctx_profile ctx,
                 cr_stages = clock_samples (wd_clock w), cr_source_commit = ctx_source_commit ctx,
                 cr_recorded_at = cc_recorded_at cy\<rparr> in
        if completed then w\<lparr>wd_samples := append_to E cy r (wd_samples w)\<rparr>
        else w\<lparr>wd_partial := append_to E cy r (wd_partial w)\<rparr>)"

definition run_cycle ::
    "engine \<Rightarrow> engine_config \<Rightarrow> 'r exec \<Rightarrow> string \<Rightarrow> cycle_run \<Rightarrow> 'r world \<Rightarrow> (cycle_error + cycle_result) \<times> 'r world" where
  "run_cycle E cf git cycle_id cy w =
     (case run_cycle_inner E cf git cycle_id cy (w\<lparr>wd_clock := Map.empty\<rparr>) of
        (Inl Panicked, w) \<Rightarrow> (Err Panicked, w)
      | (res, w) \<Rightarrow> (res, record_stage_samples E cy cycle_id (is_ok res) w))"

end
