(* ===== verification/Engine_Safety.thy ===== *)
theory Engine_Safety
  imports Engine Ledger_Chain Promotion_Examples
begin

text \<open>
  What a cycle can change.  A frame is a relation between worlds that every step short of a promotion respects; the gauntlet
  and the supervised block respect every frame as long as the promotion gate refuses.  Two frames are interpreted: nothing is
  promoted, and the ledger only takes steps of its API.
\<close>

section \<open>Frames\<close>

locale gauntlet_frame =
  fixes E :: engine and R :: "'r world \<Rightarrow> 'r world \<Rightarrow> bool"
  assumes refl: "R w w"
    and trans: "R u v \<Longrightarrow> R v w \<Longrightarrow> R u w"
    and clocked: "R w (w\<lparr>wd_clock := c\<rparr>)"
    and pinned: "R w (w\<lparr>wd_pinned := p\<rparr>)"
    and evaluated: "append_evaluation (en_X E) (en_strings E) now text raw (wd_db w) = (res, db) \<Longrightarrow> R w (w\<lparr>wd_db := db\<rparr>)"
begin

lemma appended:
  assumes "append_block (en_X E) (en_strings E) now EvaluationB text [] (wd_db w) = Inr (b, db)"
  shows "R w (w\<lparr>wd_db := db\<rparr>)"
  using assms by (intro evaluated [of now "text" None]) (simp add: append_evaluation_def)

lemma noted: "R w (noted E text w)"
  using refl appended by (auto simp: noted_def split: sum.split)

lemma timed: "R w (timed st us out w)"
  unfolding timed_def by (rule clocked)

lemma noted_timed: "R w (noted E text (timed st us out w))"
  using trans [OF timed noted] .

lemma pin_workload: "R w (snd (pin_workload E cf w))"
  using refl pinned noted by (auto simp: pin_workload_def split: option.split sum.split)

lemma check_eligibility: "R w (snd (check_eligibility E cf att es su w))"
proof (cases "load_from_tree (en_X E) (en_adapter E) (adapter_file es)")
  case (Inr adapter)
  obtain r w' where pin: "pin_workload E cf w = (r, w')" by (metis surj_pair)
  then have w': "R w w'" using pin_workload [of w cf] by simp
  then have "R w (noted E t w')" for t using trans noted by blast
  with w' show ?thesis
    by (auto simp: check_eligibility_def Inr pin Let_def split: sum.split option.split)
qed (simp add: check_eligibility_def noted)

lemma canary_eligibility: "R w (snd (canary_eligibility E cf p att es w))"
  using refl check_eligibility by (simp add: canary_eligibility_def)

lemma build_candidate: "R w (snd (build_candidate E p att n w))"
  using refl timed noted_timed by (auto simp: build_candidate_def split: sum.split bool.split)

lemma missing_executable: "R w (snd (snd (missing_executable E att su build w)))"
  using refl noted by (auto simp: missing_executable_def Let_def split: option.split)

lemma judge_candidate: "R w (snd (judge_candidate E cycle_id key bal p att es su build w))"
proof -
  have "R w (timed st us out (w\<lparr>wd_db := db\<rparr>))" if "append_evaluation (en_X E) (en_strings E) now t raw (wd_db w) = (res, db)"
    for now t raw res db st us out using trans [OF evaluated [OF that] timed] .
  with evaluated noted_timed show ?thesis
    by (auto simp: judge_candidate_def Let_def split: sum.split prod.split)
qed

lemma candidate_gauntlet: "R w (snd (candidate_gauntlet E cf cycle_id key m bal c w))"
proof -
  obtain p att where c: "c = (p, att)" by (metis surj_pair)
  show ?thesis
  proof (cases "unstaged_refusal E cf m p")
    case None
    show ?thesis
    proof (cases "cw_sandbox att")
      case (Inr es)
      obtain r w1 where r: "canary_eligibility E cf p att es w = (r, w1)" by (metis surj_pair)
      then have w1: "R w w1" using canary_eligibility [of w cf p att es] by simp
      show ?thesis
      proof (cases r)
        case (Inl e)
        with None \<open>cw_sandbox att = Inr es\<close> r w1 show ?thesis by (simp add: candidate_gauntlet_def c)
      next
        case (Inr x)
        obtain su' build where x: "x = (su', build)" by (metis surj_pair)
        obtain ok w2 where b: "build_candidate E p att (heuristic_build p es \<or> build \<noteq> None) w1 = (ok, w2)" by (metis surj_pair)
        then have w2: "R w w2" using trans [OF w1] build_candidate [of w1 p att] by (metis snd_conv)
        obtain su'' build' w3 where m: "missing_executable E att su' build w2 = (su'', build', w3)" by (metis surj_pair)
        then have w3: "R w w3" using trans [OF w2] missing_executable [of w2 att su' build] by simp
        have "R w (snd (judge_candidate E cycle_id key bal p att es su'' build' w3))" using trans [OF w3 judge_candidate] .
        with None \<open>cw_sandbox att = Inr es\<close> r Inr x b m w2 show ?thesis
          by (cases ok) (simp_all add: candidate_gauntlet_def c)
      qed
    qed (use None in \<open>simp add: candidate_gauntlet_def c noted\<close>)
  qed (simp add: candidate_gauntlet_def c noted)
qed

lemma try_candidates: "R w (snd (try_candidates E cf cycle_id key m bal cs w))"
proof (induction cs arbitrary: w)
  case (Cons c cs)
  obtain r w1 where r: "candidate_gauntlet E cf cycle_id key m bal c w = (r, w1)" by (metis surj_pair)
  then have w1: "R w w1" using candidate_gauntlet [of w cf cycle_id key m bal c] by simp
  with trans [OF w1 Cons.IH [of w1]] r show ?case by (auto split: sum.split option.split)
qed (simp add: refl)

end

section \<open>The daemon's own receipts\<close>

lemma cycle_receipt:
  assumes "evaluate_cycle X P fs dbg lc (cycle_judge p key) jr cid cand par = Ok r"
  shows "er_format_version r = 1 \<and> er_binding r = None \<and> er_cycle_id r = cid \<and> er_candidate_id r = cand \<and> er_parent_id r = par"
  using assms
  by (auto simp: evaluate_cycle_def cycle_judge_def and_then_Ok Let_def case_prod_unfold sign_cycle_def sign_receipt_def evaluate_layers_def)

text \<open>What is known of a winner.\<close>

definition passed_gauntlet :: "engine \<Rightarrow> engine_config \<Rightarrow> string \<Rightarrow> bool \<Rightarrow> bool \<Rightarrow> winner \<Rightarrow> bool" where
  "passed_gauntlet E cf cid measured bal win \<longleftrightarrow> unstaged_refusal E cf measured (wi_proposal win) = None
     \<and> iv_passed (wi_report win) \<and> bal \<and> er_admitted (wi_receipt win) \<and> er_format_version (wi_receipt win) = 1
     \<and> er_cycle_id (wi_receipt win) = cid \<and> er_candidate_id (wi_receipt win) = ip_id (wi_proposal win)
     \<and> er_parent_id (wi_receipt win) = ''parent''
     \<and> su_applicable (wi_summary win) = (\<not> is_exempt cf (wi_proposal win) (wi_sandbox win))"

lemma judge_candidate_winner:
  assumes "judge_candidate E cid key bal p att es su build w = (Ok (Some win), w')"
  shows "wi_proposal win = p \<and> wi_sandbox win = es \<and> wi_summary win = su \<and> iv_passed (wi_report win) \<and> bal
     \<and> er_admitted (wi_receipt win) \<and> er_format_version (wi_receipt win) = 1 \<and> er_cycle_id (wi_receipt win) = cid
     \<and> er_candidate_id (wi_receipt win) = ip_id p \<and> er_parent_id (wi_receipt win) = ''parent''"
  using assms cycle_receipt
  by (auto simp: judge_candidate_def Let_def split: if_splits sum.splits prod.splits)

lemma eligibility_applicable:
  assumes "canary_eligibility E cf p att es w = (Ok (su, build), w')"
  shows "su_applicable su = (\<not> is_exempt cf p es)"
  using assms
  by (auto simp: canary_eligibility_def initial_summary_def check_eligibility_def Let_def split: if_splits sum.splits prod.splits option.splits)

lemma missing_applicable:
  assumes "missing_executable E att su build w = (su', build', w')"
  shows "su_applicable su' = su_applicable su"
  using assms by (auto simp: missing_executable_def Let_def split: option.splits if_splits)

lemma candidate_gauntlet_winner:
  assumes "candidate_gauntlet E cf cid key m bal (p, att) w = (Ok (Some win), w')"
  shows "wi_proposal win = p \<and> passed_gauntlet E cf cid m bal win"
proof -
  have none: "unstaged_refusal E cf m p = None" using assms by (auto simp: candidate_gauntlet_def split: option.splits)
  with assms obtain es where es: "cw_sandbox att = Inr es" by (auto simp: candidate_gauntlet_def split: sum.splits)
  with none assms obtain su build w1 where el: "canary_eligibility E cf p att es w = (Ok (su, build), w1)"
    by (auto simp: candidate_gauntlet_def split: sum.splits prod.splits)
  with none es assms obtain w2 where b: "build_candidate E p att (heuristic_build p es \<or> build \<noteq> None) w1 = (True, w2)"
    by (auto simp: candidate_gauntlet_def split: prod.splits bool.splits)
  obtain su' build' w3 where m: "missing_executable E att su build w2 = (su', build', w3)" by (metis surj_pair)
  from none es el b m assms have "judge_candidate E cid key bal p att es su' build' w3 = (Ok (Some win), w')"
    by (simp add: candidate_gauntlet_def)
  from judge_candidate_winner [OF this] eligibility_applicable [OF el] missing_applicable [OF m] none show ?thesis
    by (simp add: passed_gauntlet_def)
qed

lemma try_candidates_winner:
  "try_candidates E cf cid key m bal cs w = (Ok (Some win), w') \<Longrightarrow> wi_proposal win \<in> fst ` set cs \<and> passed_gauntlet E cf cid m bal win"
proof (induction cs arbitrary: w)
  case (Cons c cs)
  obtain p att where c: "c = (p, att)" by (metis surj_pair)
  obtain r w1 where r: "candidate_gauntlet E cf cid key m bal c w = (r, w1)" by (metis surj_pair)
  consider e where "r = Err e" | "r = Ok None" | x where "r = Ok (Some x)" by (metis old.sum.exhaust option.exhaust)
  then show ?case
  proof cases
    case 1
    with Cons.prems r show ?thesis by simp
  next
    case 2
    with Cons.prems r have "try_candidates E cf cid key m bal cs w1 = (Ok (Some win), w')" by simp
    from Cons.IH [OF this] show ?thesis by auto
  next
    case 3
    with Cons.prems r have "candidate_gauntlet E cf cid key m bal (p, att) w = (Ok (Some win), w')" by (simp add: c)
    from candidate_gauntlet_winner [OF this] c show ?thesis by auto
  qed
qed simp

lemma tier_refusal_None:
  "tier_refusal E cf p = None \<longleftrightarrow> (classify_proposal p = Tier2Engine \<longrightarrow> (\<exists>k kb op. cf_operator_key_hex cf = Some k
     \<and> hex_decode (en_X E) k = Some kb \<and> ec_from_sec1 (en_P E) kb = Some op
     \<and> validate_tier2_candidate_boundaries (ip_target_file p) = Ok ()
     \<and> is_ok (verify_operator_authorization (en_X E) (en_P E) (sha256 (en_X E) (ip_proposed_patch p))
          (case ip_operator_signature p of Some s \<Rightarrow> s | None \<Rightarrow> []) op)))"
  by (auto simp: tier_refusal_def split: option.splits sum.splits if_splits)

lemma gate_refuses_v1:
  assumes "er_format_version (wi_receipt win) = 1"
  shows "\<exists>e. promotion_gate E cf key sr win = Err e"
proof (cases "promotion_gate E cf key sr win")
  case (Inr u)
  then have "\<exists>k a b c. verify_for_promotion (en_X E) (en_P E) k a b c (wi_receipt win) = Ok ()"
    unfolding promotion_gate_def check_v2_promotion_def by (auto simp: and_then_Ok map_err_Ok ok_or_Ok split: if_splits)
  with assms show ?thesis by (auto simp: verify_for_promotion_def)
qed simp

text \<open>What a promotion needs: the gate, the envelope, and an admission for the winner and the pinned workload.\<close>

definition gates_open :: "engine \<Rightarrow> engine_config \<Rightarrow> bytes \<Rightarrow> supervised_run \<Rightarrow> winner \<Rightarrow> 'r world \<Rightarrow> bool" where
  "gates_open E cf key sr win w \<longleftrightarrow> promotion_gate E cf key sr win = Ok () \<and> pr_envelope sr = Ok ()
     \<and> (\<exists>g h. is_ok (fst (admit_canary E cf sr win g (w\<lparr>wd_host := h\<rparr>))))"

locale cycle_frame = gauntlet_frame +
  assumes hosted: "h_active h = h_active (wd_host w) \<Longrightarrow> R w (w\<lparr>wd_host := h\<rparr>)"
    and logged: "R w (w\<lparr>wd_log := l\<rparr>)"
    and sampled: "R w (w\<lparr>wd_samples := f\<rparr>)" "R w (w\<lparr>wd_partial := f\<rparr>)"
    and rolled: "append_rollback (en_X E) (en_strings E) now gen reason (wd_db w) = Inr (b, db) \<Longrightarrow> R w (w\<lparr>wd_db := db\<rparr>)"
    and checked: "checkpoint (en_X E) (p256.truncate (en_P E)) (en_strings E) now key (wd_db w) = Inr (c, db) \<Longrightarrow> R w (w\<lparr>wd_db := db\<rparr>)"
    and opened: "open_ledger (en_X E) (en_strings E) now (wd_db w) = Inr db \<Longrightarrow> R w (w\<lparr>wd_db := db\<rparr>)"
begin

lemma record_decision: "R w (record_decision E gid su w)"
  unfolding record_decision_def by (rule noted)

lemma roll_back:
  assumes "d_active_generation d = None" and "h_active (d_host d) = h_active (wd_host w)"
  shows "R w (snd (roll_back E cf sr pid reason d w))"
proof -
  have same: "d_host (snd (trigger_instant_rollback c e l d)) = d_host d" for c e l
    using assms(1) by (simp add: trigger_instant_rollback_def)
  obtain r d' where r: "trigger_instant_rollback (cycle_supervisor cf []) (pr_env sr) (cf_rsi_root cf @ ''/active.sock'') d = (r, d')"
    by (metis surj_pair)
  then have "d_host d' = d_host d" using same by (metis snd_conv)
  then have h: "R w (w\<lparr>wd_host := d_host d'\<rparr>)" using hosted assms(2) by simp
  have "R w (w\<lparr>wd_host := d_host d', wd_db := db\<rparr>)"
    if "append_rollback (en_X E) (en_strings E) now gen reason (wd_db w) = Inr (b, db)" for now gen reason b db
    using trans [OF h rolled [of now gen reason "w\<lparr>wd_host := d_host d'\<rparr>" b db]] that by simp
  with h r show ?thesis by (auto simp: roll_back_def Let_def split: sum.split)
qed

lemma refuse_promotion:
  assumes "d_active_generation d = None" and "h_active (d_host d) = h_active (wd_host w)"
  shows "R w (snd (refuse_promotion E cf sr pid reason su d w))"
proof -
  obtain r w' where r: "roll_back E cf sr pid reason d w = (r, w')" by (metis surj_pair)
  then have "R w w'" using roll_back [OF assms, of cf sr pid reason] by simp
  with trans [OF this record_decision] r show ?thesis by (auto simp: refuse_promotion_def split: sum.split)
qed

lemma run_and_admit: "R w (snd (snd (snd (run_and_admit E cf sr adapter built workload identity g su w))))"
proof -
  obtain res g' f where r: "run_canary (en_X E) (en_record E) (canary_executor E cf workload identity g built) (pr_script sr) g (wd_log w) = (res, g', f)"
    by (metis surj_pair)
  have "R w (w\<lparr>wd_log := f, wd_db := db\<rparr>)"
    if "append_block (en_X E) (en_strings E) now EvaluationB t [] (wd_db w) = Inr (b, db)" for now t b db
    using trans [OF logged [of w f] appended [of now t "w\<lparr>wd_log := f\<rparr>" b db]] that by simp
  with logged [of w f] show ?thesis
    by (auto simp: run_and_admit_def r Let_def split: sum.split execution_outcome.split prod.split)
qed

lemma admit_canary: "R w (snd (snd (snd (admit_canary E cf sr win g w))))"
  using refl run_and_admit by (auto simp: admit_canary_def Let_def split: option.split sum.split prod.split)


lemma admit_keeps_host: "wd_host (snd (snd (snd (admit_canary E cf sr win g w)))) = wd_host w"
  by (auto simp: admit_canary_def run_and_admit_def Let_def split: option.split sum.split prod.split execution_outcome.split)

lemma supervise_refused:
  assumes "\<not> gates_open E cf key sr win w"
  shows "R w (snd (supervise E cf git key sr win w)) \<and> (\<forall>x. fst (supervise E cf git key sr win w) = Ok x \<longrightarrow>
     pn_generation x = None \<and> pn_ratification x = None \<and> pn_block x = None)"
proof -
  let ?p = "wi_proposal win"
  obtain r d where r: "stage_canary (cf_rsi_root cf @ ''/generations'') (ip_id ?p) (er_receipt_digest (wi_receipt win)) (pr_staged_at sr)
      (pr_copied sr) (fresh_daemon (wd_host w)) = (r, d)" by (metis surj_pair)
  then have d: "h_active (d_host d) = h_active (wd_host w)" "d_active_generation d = None"
    by (auto simp: stage_canary_def stage_generation_def fresh_daemon_def Let_def split: sum.splits prod.splits)
  let ?w = "w\<lparr>wd_host := d_host d\<rparr>"
  have w: "R w ?w" using hosted d(1) by blast
  show ?thesis
  proof (cases r)
    case (Inr g)
    obtain res g' su w1 where a: "admit_canary E cf sr win g ?w = (res, g', su, w1)" by (metis surj_pair)
    then have w1: "R w w1" "wd_host w1 = d_host d"
      using trans [OF w admit_canary [of ?w cf sr win g]] admit_keeps_host [of cf sr win g ?w] by simp_all
    have refuse: "R w (snd (refuse_promotion E cf sr pid reason su d w1)) \<and>
        (\<forall>x. fst (refuse_promotion E cf sr pid reason su d w1) = Ok x \<longrightarrow> pn_generation x = None \<and> pn_ratification x = None \<and> pn_block x = None)"
      for pid reason su
      using trans [OF w1(1) refuse_promotion [OF d(2), of w1]] w1(2)
      by (auto simp: refuse_promotion_def refused_end_def split: sum.splits prod.splits)
    have "\<not> (promotion_gate E cf key sr win = Ok () \<and> pr_envelope sr = Ok () \<and> is_ok res)"
      using assms a unfolding gates_open_def by (metis fst_conv)
    with refuse r Inr a show ?thesis
      by (auto simp: supervise_def Let_def split: sum.split)
  qed (use r w in \<open>simp add: supervise_def\<close>)
qed

lemma supervised_cycle:
  assumes "\<And>win. found = Some win \<Longrightarrow> \<exists>e. promotion_gate E cf key sr win = Err e"
  shows "R w (snd (supervised_cycle E cf git key sr found w)) \<and> (\<forall>x. fst (supervised_cycle E cf git key sr found w) = Ok x \<longrightarrow>
     rs_generation x = None \<and> rs_ratification x = None)"
proof (cases found)
  case (Some win)
  obtain r w1 where r: "supervise E cf git key sr win w = (r, w1)" by (metis surj_pair)
  from assms [OF Some] have "\<not> gates_open E cf key sr win w" by (auto simp: gates_open_def)
  note s = supervise_refused [OF this, of git, unfolded r]
  from s have w1: "R w w1" by simp
  from s trans [OF w1 timed] show ?thesis by (auto simp: supervised_cycle_def Some r split: sum.split)
qed (simp add: supervised_cycle_def refl)

lemma checkpointed: "R w (checkpointed E key w)"
  using refl checked by (auto simp: checkpointed_def split: sum.split)

lemma record_stage_samples: "R w (record_stage_samples E cy cycle_id ok w)"
  using refl sampled by (auto simp: record_stage_samples_def Let_def)


lemma run_cycle_inner:
  "R w (snd (run_cycle_inner E cf git cid cy w)) \<and> (\<forall>x. fst (run_cycle_inner E cf git cid cy w) = Ok x \<longrightarrow>
     rs_generation x = None \<and> rs_ratification x = None)"
proof (cases "open_ledger (en_X E) (en_strings E) (cc_opened_at cy) (wd_db w)")
  case (Inr db)
  let ?w0 = "w\<lparr>wd_db := db\<rparr>"
  have w0: "R w ?w0" using opened [OF Inr] .
  show ?thesis
  proof (cases "cc_holdouts_exist cy \<and> (\<exists>key. cycle_signing_key E cf = Ok key)")
    case True
    then obtain key where key: "cc_holdouts_exist cy" "cycle_signing_key E cf = Ok key" by blast
    show ?thesis
    proof (cases "cc_observed cy")
      case (Inr tension)
      obtain drive humanity where t: "tension = (drive, humanity)" by (metis surj_pair)
      let ?w1 = "timed Observe (cc_observe_us cy) StageOk ?w0"
      let ?w2 = "(timed Propose (cc_propose_us cy) (cc_propose_outcome cy) ?w1)\<lparr>wd_pinned := None\<rparr>"
      have w1: "R w ?w1" using trans [OF w0 timed] .
      have w2: "R w ?w2" using trans [OF trans [OF w1 timed] pinned] .
      show ?thesis
      proof (cases "diagnosis_measured E cf cid (cc_context cy) (wd_samples ?w1)")
        case (Some found)
        show ?thesis
        proof (cases found)
          case (Inr measured)
          let ?bal = "bv_verdict (balance_scalar drive humanity) = ''balanced''"
          obtain r w3 where r: "try_candidates E cf cid key measured ?bal (cc_candidates cy) ?w2 = (r, w3)" by (metis surj_pair)
          then have w3: "R w w3" using trans [OF w2] try_candidates [of ?w2 cf cid key measured ?bal "cc_candidates cy"] by simp
          show ?thesis
          proof (cases r)
            case (Inl e)
            with Some key t \<open>cc_observed cy = Inr tension\<close> \<open>found = Inr measured\<close> \<open>open_ledger _ _ _ _ = Inr db\<close> r w3
            show ?thesis by (simp add: run_cycle_inner_def Let_def)
          next
            case (Inr win)
            have "\<exists>e. promotion_gate E cf key (cc_supervised cy) x = Err e" if "win = Some x" for x
            proof -
              from try_candidates_winner [OF r [unfolded Inr that]] have "er_format_version (wi_receipt x) = 1" by (simp add: passed_gauntlet_def)
              then show ?thesis by (rule gate_refuses_v1)
            qed
            note sup = supervised_cycle [of win cf key "cc_supervised cy" w3 git, OF this]
            obtain q w4 where q: "supervised_cycle E cf git key (cc_supervised cy) win w3 = (q, w4)" by (metis surj_pair)
            with sup have w4: "R w w4" "\<forall>x. q = Ok x \<longrightarrow> rs_generation x = None \<and> rs_ratification x = None"
              using trans [OF w3] by auto
            from w4 trans [OF w4(1) checkpointed [of w4 key]]
              Some key t \<open>cc_observed cy = Inr tension\<close> \<open>found = Inr measured\<close> \<open>open_ledger _ _ _ _ = Inr db\<close> r Inr q
            show ?thesis by (cases q) (simp_all add: run_cycle_inner_def Let_def)
          qed
        qed (use Some key t \<open>cc_observed cy = Inr tension\<close> \<open>open_ledger _ _ _ _ = Inr db\<close> w1 in \<open>simp add: run_cycle_inner_def Let_def\<close>)
      qed (use key t \<open>cc_observed cy = Inr tension\<close> \<open>open_ledger _ _ _ _ = Inr db\<close> w1 in \<open>simp add: run_cycle_inner_def Let_def\<close>)
    qed (use key \<open>open_ledger _ _ _ _ = Inr db\<close> trans [OF w0 timed] in \<open>simp add: run_cycle_inner_def Let_def\<close>)
  next
    case False
    then show ?thesis using w0 Inr by (auto simp: run_cycle_inner_def Let_def split: sum.split)
  qed
qed (simp add: run_cycle_inner_def refl)

lemma run_cycle:
  "R w (snd (run_cycle E cf git cid cy w)) \<and> (\<forall>x. fst (run_cycle E cf git cid cy w) = Ok x \<longrightarrow>
     rs_generation x = None \<and> rs_ratification x = None)"
proof -
  obtain r w1 where r: "run_cycle_inner E cf git cid cy (w\<lparr>wd_clock := Map.empty\<rparr>) = (r, w1)" by (metis surj_pair)
  with run_cycle_inner [of "w\<lparr>wd_clock := Map.empty\<rparr>" cf git cid cy] trans [OF clocked [of w Map.empty]]
  have w1: "R w w1" "\<forall>x. r = Ok x \<longrightarrow> rs_generation x = None \<and> rs_ratification x = None" by auto
  from w1 trans [OF w1(1) record_stage_samples] r show ?thesis
    by (auto simp: run_cycle_def split: sum.split cycle_error.split)
qed

end

section \<open>Nothing is promoted\<close>

definition promotion_rows :: "ledger_db \<Rightarrow> block_row list" where
  "promotion_rows db = filter (\<lambda>r. row_block_type r = block_type_str PromotionB) (db_blocks db)"

definition nothing_promoted :: "'r world \<Rightarrow> 'r world \<Rightarrow> bool" where
  "nothing_promoted w w' \<longleftrightarrow> h_active (wd_host w') = h_active (wd_host w) \<and> promotion_rows (wd_db w') = promotion_rows (wd_db w)
     \<and> wd_repo w' = wd_repo w"

lemma insert_block_rows: "insert_block X b db = Inr db' \<Longrightarrow> db_blocks db' = db_blocks db @ [block_row_of X b]"
  by (auto simp: insert_block_def Let_def split: if_splits)

lemma append_block_rows:
  "append_block X fs now bt t hs db = Inr (b, db') \<Longrightarrow> db_blocks db' = db_blocks db @ [block_row_of X b] \<and> lb_block_type b = bt"
  by (auto simp: append_block_def and_then_Ok Let_def new_block_def insert_block_rows)

lemma append_evaluation_rows:
  "append_evaluation X fs now t raw db = (res, db') \<Longrightarrow>
     db_blocks db' = db_blocks db @ (case res of Inl _ \<Rightarrow> [] | Inr b \<Rightarrow> [block_row_of X b]) \<and> (\<forall>b. res = Inr b \<longrightarrow> lb_block_type b = EvaluationB)"
  by (auto simp: append_evaluation_def Let_def dest!: append_block_rows split: option.splits prod.splits sum.splits)

lemma checkpoint_rows: "checkpoint X P fs now key db = Inr (c, db') \<Longrightarrow> db_blocks db' = db_blocks db"
  by (auto simp: checkpoint_def Let_def split: if_splits)

lemma open_ledger_rows:
  "open_ledger X fs now db = Inr db' \<Longrightarrow> db' = db \<or> (\<exists>b. db_blocks db' = db_blocks db @ [block_row_of X b] \<and> lb_block_type b = GenesisB)"
  by (auto simp: open_ledger_def and_then_Ok init_genesis_def new_block_def Let_def dest!: insert_block_rows split: option.splits)

interpretation quiet: cycle_frame E nothing_promoted for E
proof unfold_locales
  fix now t raw res db and w :: "'b world"
  assume "append_evaluation (en_X E) (en_strings E) now t raw (wd_db w) = (res, db)"
  from append_evaluation_rows [OF this] show "nothing_promoted w (w\<lparr>wd_db := db\<rparr>)"
    by (cases res) (simp_all add: nothing_promoted_def promotion_rows_def block_row_of_def)
next
  fix now gen reason b db and w :: "'b world"
  assume "append_rollback (en_X E) (en_strings E) now gen reason (wd_db w) = Inr (b, db)"
  from append_block_rows [OF this [unfolded append_rollback_def]] show "nothing_promoted w (w\<lparr>wd_db := db\<rparr>)"
    by (simp add: nothing_promoted_def promotion_rows_def block_row_of_def)
next
  fix now db and w :: "'b world"
  assume "open_ledger (en_X E) (en_strings E) now (wd_db w) = Inr db"
  from open_ledger_rows [OF this] show "nothing_promoted w (w\<lparr>wd_db := db\<rparr>)"
    by (auto simp: nothing_promoted_def promotion_rows_def block_row_of_def)
qed (auto simp: nothing_promoted_def promotion_rows_def dest: checkpoint_rows)

section \<open>The ledger of a cycle\<close>

text \<open>Below the bound of the sequence numbers the ledger has only taken steps of its API.\<close>

definition ledger_path :: "engine \<Rightarrow> 'r world \<Rightarrow> 'r world \<Rightarrow> bool" where
  "ledger_path E w w' \<longleftrightarrow> length (db_blocks (wd_db w)) \<le> length (db_blocks (wd_db w'))
     \<and> (length (db_blocks (wd_db w')) < max_blocks \<longrightarrow>
          (ledger_step (en_X E) (p256.truncate (en_P E)) (en_strings E))\<^sup>*\<^sup>* (wd_db w) (wd_db w'))"

interpretation recorded: cycle_frame E "ledger_path E" for E
proof unfold_locales
  fix u v w :: "'b world"
  assume "ledger_path E u v" "ledger_path E v w"
  then show "ledger_path E u w" unfolding ledger_path_def by (meson le_less_trans le_trans rtranclp_trans)
next
  fix now t raw res db and w :: "'b world"
  assume a: "append_evaluation (en_X E) (en_strings E) now t raw (wd_db w) = (res, db)"
  from append_evaluation_rows [OF this] have "length (db_blocks (wd_db w)) \<le> length (db_blocks db)" by simp
  with ledger_step.evaluation [OF a] show "ledger_path E w (w\<lparr>wd_db := db\<rparr>)" by (auto simp: ledger_path_def)
next
  fix now gen reason b db and w :: "'b world"
  assume a: "append_rollback (en_X E) (en_strings E) now gen reason (wd_db w) = Inr (b, db)"
  from append_block_rows [OF this [unfolded append_rollback_def]] have "length (db_blocks (wd_db w)) \<le> length (db_blocks db)" by simp
  with ledger_step.rollback [OF a] show "ledger_path E w (w\<lparr>wd_db := db\<rparr>)" by (auto simp: ledger_path_def)
next
  fix now key c db and w :: "'b world"
  assume a: "checkpoint (en_X E) (p256.truncate (en_P E)) (en_strings E) now key (wd_db w) = Inr (c, db)"
  from checkpoint_rows [OF this] ledger_step.checkpointed [OF a] show "ledger_path E w (w\<lparr>wd_db := db\<rparr>)" by (auto simp: ledger_path_def)
next
  fix now db and w :: "'b world"
  assume a: "open_ledger (en_X E) (en_strings E) now (wd_db w) = Inr db"
  from open_ledger_rows [OF this] ledger_step.reopened [OF a] show "ledger_path E w (w\<lparr>wd_db := db\<rparr>)" by (auto simp: ledger_path_def)
qed (auto simp: ledger_path_def)

lemma reachable_steps: "step\<^sup>*\<^sup>* s s' \<Longrightarrow> reachable init step s \<Longrightarrow> reachable init step s'"
  by (induction rule: rtranclp_induct) (auto intro: reachable.follow)

lemma ledger_steps_hold:
  assumes "strings_ok X fs" and "(ledger_step X P fs)\<^sup>*\<^sup>* db db'" and "ledger_holds X db bs"
  shows "\<exists>ext. ledger_holds X db' (bs @ ext)"
  using assms(2)
proof (induction rule: rtranclp_induct)
  case base
  from assms(3) show ?case by (metis append_Nil2)
next
  case (step y z)
  then show ?case using ledger_step_holds [OF assms(1)] by (metis append_assoc)
qed

section \<open>Theorems\<close>

text \<open>C1: The engine never promotes its own work.  Whatever the proposals, the build, the verifier, the judge's environment, the
  canary and the envelope answer, one cycle of the daemon leaves the active generation and the repository as they were, writes
  no promotion block, and reports neither a generation nor a ratification: the receipts its own judge writes are of version 1,
  and the gate accepts only version 2.\<close>

theorem no_self_promotion:
  "h_active (wd_host (snd (run_cycle E cf git cid cy w))) = h_active (wd_host w)
     \<and> wd_repo (snd (run_cycle E cf git cid cy w)) = wd_repo w
     \<and> promotion_rows (wd_db (snd (run_cycle E cf git cid cy w))) = promotion_rows (wd_db w)
     \<and> (case fst (run_cycle E cf git cid cy w) of Inr r \<Rightarrow> rs_generation r = None \<and> rs_ratification r = None | Inl _ \<Rightarrow> True)"
  using quiet.run_cycle [of w E cf git cid cy] unfolding nothing_promoted_def by (auto split: sum.split)

text \<open>C10: A cycle keeps the ledger sound.  Started on a ledger that its API has built, a cycle leaves one that audits clean, in
  which the blocks of before are a prefix, as long as the sequence numbers do not overflow; and this holds on every path,
  failures included.\<close>

theorem cycle_keeps_the_ledger:
  assumes "strings_ok (en_X E) (en_strings E)" and "run_cycle E cf git cid cy w = (res, w')"
    and "reachable (ledger_init (en_X E) (en_strings E)) (ledger_step (en_X E) (p256.truncate (en_P E)) (en_strings E)) (wd_db w)"
    and "length (db_blocks (wd_db w')) < max_blocks"
  shows "verify_chain_integrity (en_X E) (p256.truncate (en_P E)) (en_strings E) now None (wd_db w') =
       Ok (clean_report (en_X E) now False (latest_checkpoint (wd_db w')) (all_blocks (en_strings E) (wd_db w')))
     \<and> (\<exists>ext. all_blocks (en_strings E) (wd_db w') = all_blocks (en_strings E) (wd_db w) @ ext)"
proof -
  let ?step = "ledger_step (en_X E) (p256.truncate (en_P E)) (en_strings E)"
  have steps: "?step\<^sup>*\<^sup>* (wd_db w) (wd_db w')"
    using recorded.run_cycle [of E w cf git cid cy] assms(2,4) by (simp add: ledger_path_def)
  obtain bs where bs: "ledger_holds (en_X E) (wd_db w) bs"
    using ledger.reachable_inv [OF assms(3)] assms(1) by blast
  from ledger_steps_hold [OF assms(1) steps bs] obtain ext where ext: "ledger_holds (en_X E) (wd_db w') (bs @ ext)" ..
  show ?thesis
    using audit_clean [OF ext assms(1), of None] ledger_all_blocks [OF bs assms(1)] ledger_all_blocks [OF ext assms(1)] by simp
qed

text \<open>The evidence behind an admission that is not an exemption.\<close>

definition quota_evidence :: "engine \<Rightarrow> engine_config \<Rightarrow> supervised_run \<Rightarrow> winner \<Rightarrow> pinned_workload option \<Rightarrow> bool" where
  "quota_evidence E cf sr win pinned \<longleftrightarrow> (\<exists>adapter built workload identity sealed decision.
     su_refusal (wi_summary win) = None \<and> wi_build win = Some (adapter, built) \<and> pinned = Some workload
     \<and> stage_identity E sr win built = Ok identity
     \<and> (\<exists>g g' log log' sm. run_canary (en_X E) (en_record E) (canary_executor E cf workload identity g built) (pr_script sr) g log
          = (Ok (SealedOutcome sealed sm), g', log'))
     \<and> admit_sealed_quota (en_X E) sealed identity (pw_manifest workload) (cf_canary_target cf) = Ok decision)"

lemma run_and_admit_Ok:
  assumes "fst (run_and_admit E cf sr adapter built workload identity g su w) = Ok s"
  shows "\<exists>sealed decision sm g' log'. run_canary (en_X E) (en_record E) (canary_executor E cf workload identity g built) (pr_script sr) g (wd_log w)
          = (Ok (SealedOutcome sealed sm), g', log')
     \<and> admit_sealed_quota (en_X E) sealed identity (pw_manifest workload) (cf_canary_target cf) = Ok decision"
proof -
  obtain res g' f where r: "run_canary (en_X E) (en_record E) (canary_executor E cf workload identity g built) (pr_script sr) g (wd_log w) = (res, g', f)"
    by (metis surj_pair)
  have adm: "\<exists>decision. admit_sealed_quota (en_X E) sealed identity (pw_manifest workload) (cf_canary_target cf) = Ok decision"
    if "admit_sealed E cf workload identity sealed sm su' = (Ok s, su'')" for sealed sm su' su''
    using that by (auto simp: admit_sealed_def Let_def split: sum.splits)
  from assms r show ?thesis
    by (auto simp: run_and_admit_def Let_def split: sum.splits execution_outcome.splits prod.splits dest!: adm)
qed

lemma admit_canary_Ok:
  assumes "fst (admit_canary E cf sr win g w) = Ok s"
  shows "\<not> su_applicable (wi_summary win) \<or> quota_evidence E cf sr win (wd_pinned w)"
proof (cases "su_applicable (wi_summary win)")
  case True
  with assms obtain adapter built workload identity su where
    a: "su_refusal (wi_summary win) = None" "wi_build win = Some (adapter, built)" "wd_pinned w = Some workload" "stage_identity E sr win built = Ok identity"
       "fst (run_and_admit E cf sr adapter built workload identity g su w) = Ok s"
    by (auto simp: admit_canary_def Let_def split: if_splits option.splits sum.splits)
  from run_and_admit_Ok [OF a(5)] a(1-4) show ?thesis unfolding quota_evidence_def by blast
qed simp

text \<open>C2: A promotion needs every gate, whoever wrote the receipt.  If the supervised block changes the active generation or
  the repository or writes a promotion block, then the promotion gate accepted the receipt for the staged bytes, the safety
  envelope passed, and either the change was exempt by the operator's configuration, or a canary of the staged executable,
  bound to the patch, the evaluated tree and the generation, sealed a log that meets the quota on the pinned workload.\<close>

theorem promotion_needs_every_gate:
  assumes "supervise E cf git key sr win w = (res, w')" and "\<not> nothing_promoted w w'"
  shows "promotion_gate E cf key sr win = Ok () \<and> pr_envelope sr = Ok ()
     \<and> (\<not> su_applicable (wi_summary win) \<or> quota_evidence E cf sr win (wd_pinned w))"
proof -
  have "gates_open E cf key sr win w"
    using quiet.supervise_refused [of E cf key sr win w git] assms by auto
  then obtain g h s where "promotion_gate E cf key sr win = Ok ()" "pr_envelope sr = Ok ()" "fst (admit_canary E cf sr win g (w\<lparr>wd_host := h\<rparr>)) = Ok s"
    by (auto simp: gates_open_def is_ok_iff)
  with admit_canary_Ok [of E cf sr win g "w\<lparr>wd_host := h\<rparr>" s] show ?thesis by simp
qed

text \<open>C3: The winner of a cycle has passed the whole gauntlet: it is one of the proposals; a performance claim had a measured
  diagnosis; its declared target is inside the ratification roots; a change to the engine carries the operator's signature over
  the exact patch and stays outside the immutable boundaries; verification and balance passed; the judge admitted it in a
  receipt for this cycle and this candidate; and canary admission is left out only for an exempt kind whose change and tree
  hold nothing executable.\<close>

theorem winner_passed_every_check:
  assumes "try_candidates E cf cid key measured bal cs w = (Ok (Some win), w')" and "wi_proposal win = p"
  shows "p \<in> fst ` set cs \<and> iv_passed (wi_report win) \<and> bal \<and> er_admitted (wi_receipt win)
     \<and> er_cycle_id (wi_receipt win) = cid \<and> er_candidate_id (wi_receipt win) = ip_id p
     \<and> (measured \<or> \<not> requires_measured_diagnosis (ip_kind p) (cf_require_latency_improvement cf))
     \<and> (\<exists>t. check_declared_target (ip_target_file p) (cf_ratify_roots cf) = Ok t)
     \<and> (classify_proposal p = Tier2Engine \<longrightarrow> (\<exists>k kb op. cf_operator_key_hex cf = Some k
          \<and> hex_decode (en_X E) k = Some kb \<and> ec_from_sec1 (en_P E) kb = Some op
          \<and> validate_tier2_candidate_boundaries (ip_target_file p) = Ok ()
          \<and> is_ok (verify_operator_authorization (en_X E) (en_P E) (sha256 (en_X E) (ip_proposed_patch p))
               (case ip_operator_signature p of Some s \<Rightarrow> s | None \<Rightarrow> []) op)))
     \<and> (su_applicable (wi_summary win) \<or> ip_kind p \<in> set (cf_canary_exempt_kinds cf) \<and> \<not> is_code_change p
          \<and> \<not> heuristic_build p (wi_sandbox win) \<and> \<not> is_declared (wi_sandbox win))"
proof -
  from try_candidates_winner [OF assms(1)] assms(2) have w: "p \<in> fst ` set cs" "passed_gauntlet E cf cid measured bal win" by auto
  from w(2) assms(2) have u: "unstaged_refusal E cf measured p = None" by (simp add: passed_gauntlet_def)
  then have "check_claim (ip_kind p) (cf_require_latency_improvement cf) measured = Ok ()"
      "\<exists>t. check_declared_target (ip_target_file p) (cf_ratify_roots cf) = Ok t" "tier_refusal E cf p = None"
    by (auto simp: unstaged_refusal_def split: sum.splits)
  moreover from this(1) have "measured \<or> \<not> requires_measured_diagnosis (ip_kind p) (cf_require_latency_improvement cf)"
    by (auto simp: check_claim_def split: if_splits)
  moreover have "su_applicable (wi_summary win) \<or> ip_kind p \<in> set (cf_canary_exempt_kinds cf) \<and> \<not> is_code_change p
      \<and> \<not> heuristic_build p (wi_sandbox win) \<and> \<not> is_declared (wi_sandbox win)"
    using w(2) assms(2) by (auto simp: passed_gauntlet_def is_exempt_def)
  moreover have "iv_passed (wi_report win) \<and> bal \<and> er_admitted (wi_receipt win) \<and> er_cycle_id (wi_receipt win) = cid
      \<and> er_candidate_id (wi_receipt win) = ip_id p" using w(2) assms(2) by (simp add: passed_gauntlet_def)
  ultimately show ?thesis using w(1) unfolding tier_refusal_None by blast
qed

end
