(* ===== verification/Engine_Examples.thy ===== *)
theory Engine_Examples
  imports Engine_Safety Executor_Safety
begin

text \<open>
  A concrete engine: a documentation change that the operator exempts from the canary, with a version 2 receipt of a separate
  judge, is promoted; and a cycle that finds the holdouts missing.
\<close>

definition plain_texts :: texts where
  "plain_texts = \<lparr>tx_claim = (\<lambda>_. []), tx_gate = (\<lambda>_. []), tx_tier = (\<lambda>_. []), tx_adapter = (\<lambda>_. []), tx_workload = (\<lambda>_. []),
     tx_judge = (\<lambda>_. []), tx_identity = (\<lambda>_. []), tx_artifact = (\<lambda>_. []), tx_exec = (\<lambda>_. []), tx_admission = (\<lambda>_. []),
     tx_refusal = (\<lambda>_. []), tx_ledger = (\<lambda>_. []), tx_measure = (\<lambda>_. []), tx_graph = (\<lambda>_. []), tx_kind = (\<lambda>_. []),
     tx_path = (\<lambda>_. []), tx_receipt_json = (\<lambda>_. [])\<rparr>"

definition sample_engine :: engine where
  "sample_engine = \<lparr>en_X = sample, en_P = sample_keys, en_signing_key_ok = (\<lambda>_. True), en_strings = reread_strings sample,
     en_now = (\<lambda>_. sample_now), en_policy = (\<lambda>_. Ok sample_policy), en_suite = (\<lambda>_. Ok sample_suite), en_adapter = (\<lambda>_. None),
     en_workload = (\<lambda>_. None), en_record = (\<lambda>_. None), en_sample_text = (\<lambda>_. []), en_sample_record = (\<lambda>_. None),
     en_debug = (\<lambda>s. s), en_lowercase = (\<lambda>s. s), en_texts = plain_texts\<rparr>"

definition sample_engine_config :: engine_config where
  "sample_engine_config = \<lparr>cf_rsi_root = ''/rsi'', cf_signing_key_hex = None, cf_operator_key_hex = None,
     cf_ratify_roots = [''README.md''], cf_canary_exempt_kinds = [Documentation], cf_require_latency_improvement = False,
     cf_canary_target = 1, cf_canary_workload_sha256 = None, cf_judge_public_key_hex = Some judge_hex,
     cf_judge_policy_file = Some (Ok ''policy''), cf_measure_min_samples = 1, cf_measure_window_cycles = 1,
     cf_measure_p95_min_samples = 1\<rparr>"

definition readme_change :: improvement_proposal where
  "readme_change = \<lparr>ip_id = ''p1'', ip_title = ''t'', ip_description = ''d'', ip_target_file = ''README.md'', ip_proposed_patch = ''new'',
     ip_kind = Documentation, ip_created_at = ''t'', ip_sandbox_path = None, ip_operator_signature = None\<rparr>"

text \<open>The judge's receipt for this change, against the parent the daemon names.\<close>

definition parent_receipt :: evaluation_receipt where
  "parent_receipt = (case bind_and_sign_v2 sample sample_keys sample_binding ''judge'' (sample_unsigned\<lparr>er_parent_id := ''parent''\<rparr>) of
     Inr r \<Rightarrow> r | Inl _ \<Rightarrow> sample_unsigned)"

lemma parent_receipt_signed:
  "bind_and_sign_v2 sample sample_keys sample_binding ''judge'' (sample_unsigned\<lparr>er_parent_id := ''parent''\<rparr>) = Ok parent_receipt"
  by (simp add: parent_receipt_def bind_and_sign_v2_def compute_digest_v2_def Let_def)

definition sample_winner :: winner where
  "sample_winner = \<lparr>wi_proposal = readme_change,
     wi_report = \<lparr>iv_passed = True, iv_notes = [], iv_compilation_error = None, iv_test_output_summary = None\<rparr>,
     wi_receipt = parent_receipt, wi_block = genesis_of sample,
     wi_summary = initial_summary sample_engine sample_engine_config readme_change (sample_tree ''new''),
     wi_build = None, wi_sandbox = sample_tree ''new''\<rparr>"

definition sample_supervised :: supervised_run where
  "sample_supervised = \<lparr>pr_copied = (Map.empty, Ok ()), pr_staged_at = ''t'', pr_generation_tree = None, pr_exe_dir = Ok (),
     pr_exe_copy = Ok [], pr_script = sample_script [] [], pr_env = sample_env, pr_envelope = Ok (), pr_disk = Ok ''new'',
     pr_swapped = Ok (), pr_operator = \<lparr>op_name = ''o'', op_email = ''e''\<rparr>, pr_ratified_at = ''t'', pr_cortex = (None, False),
     pr_canary_us = 1, pr_commit_us = 1\<rparr>"

definition sample_world :: "unit world" where
  "sample_world = \<lparr>wd_db = fresh_db sample, wd_host = \<lparr>h_generations = Map.empty, h_active = None, h_socket_links = Map.empty\<rparr>,
     wd_log = None, wd_repo = (), wd_clock = Map.empty, wd_pinned = None, wd_workload_file = None, wd_samples = NoSamples,
     wd_partial = NoSamples\<rparr>"

lemma sample_gate: "promotion_gate sample_engine sample_engine_config ''promoter'' sample_supervised sample_winner = Ok ()"
proof -
  note r = bind_and_sign_v2_Ok [OF parent_receipt_signed]
  have admitted: "er_admitted parent_receipt" using r sample_run_admitted bind_and_sign_v2_Ok [OF sample_signed] by simp
  have "verify_receipt_signature sample sample_keys (ec_public sample_keys ''judge'') parent_receipt"
    using signed_verifies [OF sample_hex_ok sample_keys_ok] r by blast
  moreover have "receipt_covers parent_receipt (cycle_subject sample_engine sample_supervised readme_change) sample_policy (sha256_hex sample ''policy'')"
    using r admitted sample_ratio
    by (simp add: receipt_covers_def cycle_subject_def sample_engine_def sample_supervised_def readme_change_def sample_binding_def
        sample_policy_def sha256_hex_def)
  moreover have "ec_from_sec1 sample_keys ''judge'' = Some (ec_public sample_keys ''judge'')" "ec_public sample_keys ''judge'' \<noteq> ec_public sample_keys ''promoter''"
    by (simp_all add: sample_keys_def)
  ultimately show ?thesis
    unfolding promotion_gate_def check_v2_promotion_Ok
    using judge_hex_decodes sample_load_policy by (simp add: sample_engine_def sample_engine_config_def sample_winner_def)
qed

lemma sample_exempt: "su_applicable (wi_summary sample_winner) = False"
proof -
  have "\<not> ends_with ''.rs'' ''README.md''" "\<not> ends_with ''.toml'' ''README.md''" "\<not> ends_with ''Cargo.lock'' ''README.md''" by code_simp+
  then show ?thesis
    by (simp add: sample_winner_def initial_summary_def is_exempt_def is_code_change_def heuristic_build_def is_declared_def
        adapter_file_def sample_tree_def ADAPTER_MANIFEST_FILE_def readme_change_def sample_engine_config_def)
qed

lemma sample_promoted:
  "h_active (wd_host (snd (supervise sample_engine sample_engine_config git ''promoter'' sample_supervised sample_winner sample_world))) = Some ''p1''"
proof -
  have e: "pr_envelope sample_supervised = Ok ()" "pr_swapped sample_supervised = Ok ()" "snd (pr_copied sample_supervised) = Ok ()"
    by (simp_all add: sample_supervised_def)
  have p: "ip_id (wi_proposal sample_winner) = ''p1''" by (simp add: sample_winner_def readme_change_def)
  have noted: "wd_host (noted E t w) = wd_host w" for E t and w :: "unit world"
    by (simp add: noted_def split: sum.split prod.split)
  show ?thesis
    by (simp add: supervise_def stage_canary_def stage_generation_def e p Let_def admit_canary_def sample_exempt sample_gate
        make_durable_def record_decision_def noted atomic_symlink_swap_def fresh_daemon_def timed_def split: sum.split prod.split)
qed

theorem promotion_needs_every_gate_witness:
  "\<exists>res w'. supervise sample_engine sample_engine_config (\<lambda>c r. (Err [], r)) ''promoter'' sample_supervised sample_winner sample_world = (res, w')
     \<and> nothing_promoted sample_world w' = False
     \<and> promotion_gate sample_engine sample_engine_config ''promoter'' sample_supervised sample_winner = Ok () \<and> pr_envelope sample_supervised = Ok ()"
proof -
  let ?git = "\<lambda>c r. (Err [], r)"
  obtain res w' where r: "supervise sample_engine sample_engine_config ?git ''promoter'' sample_supervised sample_winner sample_world = (res, w')"
    by (metis surj_pair)
  then have "\<not> nothing_promoted sample_world w'" using sample_promoted [of ?git] by (simp add: nothing_promoted_def sample_world_def)
  with promotion_needs_every_gate [OF r this] r show ?thesis by blast
qed

definition sample_cycle_run :: cycle_run where
  "sample_cycle_run = \<lparr>cc_opened_at = ''t'', cc_holdouts_exist = False, cc_observed = Err [], cc_context = sample_context,
     cc_candidates = [], cc_propose_outcome = StageOk, cc_observe_us = 1, cc_propose_us = 1, cc_supervised = sample_supervised,
     cc_recorded_at = ''t'', cc_tail_ok = True, cc_sample_io = IoOk\<rparr>"

theorem cycle_keeps_the_ledger_witness:
  "\<exists>res w'. run_cycle sample_engine sample_engine_config (\<lambda>c r. (Err [], r)) ''cycle-1'' sample_cycle_run sample_world = (res, w')
     \<and> verify_chain_integrity sample (p256.truncate sample_keys) (reread_strings sample) sample_now None (wd_db w') =
       Ok (clean_report sample sample_now False (latest_checkpoint (wd_db w')) (all_blocks (reread_strings sample) (wd_db w')))"
proof -
  let ?git = "\<lambda>c r. (Err [], r)"
  have opened: "open_ledger sample (reread_strings sample) now (fresh_db sample) = Ok (fresh_db sample)" for now
    using ledger_latest_block [OF fresh_holds sample_strings] by (simp add: open_ledger_def)
  obtain res w' where r: "run_cycle sample_engine sample_engine_config ?git ''cycle-1'' sample_cycle_run sample_world = (res, w')"
    by (metis surj_pair)
  then have db: "wd_db w' = fresh_db sample"
    by (auto simp: run_cycle_def run_cycle_inner_def sample_engine_def sample_world_def sample_cycle_run_def opened record_stage_samples_def Let_def)
  have E: "en_X sample_engine = sample" "en_P sample_engine = sample_keys" "en_strings sample_engine = reread_strings sample" "wd_db sample_world = fresh_db sample"
    by (simp_all add: sample_engine_def sample_world_def)
  have "length (db_blocks (wd_db w')) < max_blocks" by (simp add: db fresh_db_def max_blocks_def)
  from cycle_keeps_the_ledger [OF _ r _ this, of sample_now, unfolded E, OF sample_strings fresh_reachable] r show ?thesis by blast
qed

text \<open>A candidate that reaches the judge and is admitted; the hash is the identity, so that block hashes differ.\<close>

definition clear_engine :: engine where
  "clear_engine = sample_engine\<lparr>en_X := transparent, en_strings := reread_strings transparent\<rparr>"

definition clear_world :: "unit world" where
  "clear_world = sample_world\<lparr>wd_db := fresh_db transparent\<rparr>"

definition sample_candidate_run :: candidate_run where
  "sample_candidate_run = \<lparr>cw_sandbox = Ok (sample_tree ''new''), cw_stale = None, cw_build = Err [], cw_built_is_file = False,
     cw_report = wi_report sample_winner, cw_judge = Promotion_Examples.sample_run, cw_build_us = 1, cw_eval_us = 1\<rparr>"

lemma not_code: "\<not> is_code_change readme_change"
proof -
  have "\<not> ends_with ''.rs'' ''README.md''" "\<not> ends_with ''.toml'' ''README.md''" "\<not> ends_with ''Cargo.lock'' ''README.md''" by code_simp+
  then show ?thesis by (simp add: is_code_change_def readme_change_def)
qed

lemma readme_judged:
  "\<exists>r. evaluate_cycle X P (\<lambda>_. Ok sample_suite) (\<lambda>s. s) (\<lambda>s. s) (cycle_judge readme_change ''promoter'')
     Promotion_Examples.sample_run ''c1'' ''p1'' ''parent'' = Ok r \<and> er_admitted r"
proof -
  have t: "trim ''ok'' = ''ok''" by code_simp
  let ?r = "Promotion_Examples.sample_run"
  have io: "jr_holdouts ?r = Some (Ok (sample_dir ''suite''))" "jr_binaries ?r = Ok ()" "jr_jail ?r = (\<lambda>_. Ok (True, ''ok'', []))"
    "jr_diff ?r = Ok ([''README.md''], ''new'', ''new'')" "jr_performance ?r = Ok sample_measured"
    "jr_resources ?r = sample_measured" "jr_save ?r = Ok ()"
    by (simp_all add: Promotion_Examples.sample_run_def)
  have rh: "run_holdouts (\<lambda>_. Ok (True, ''ok'', [])) 0 (hs_cases sample_suite) = (1, [])" "length (hs_cases sample_suite) = 1"
    by (simp_all add: sample_suite_def actual_output_def t)
  have "valid_utf8 ''a.json''" "ends_with ''.json'' ''a.json''" by code_simp+
  then obtain d where load: "load_strict X (\<lambda>_. Ok sample_suite) (Some (Ok (sample_dir ''suite''))) = Ok ([sample_suite], d)"
    by (simp add: load_strict_def sample_dir_def sample_suite_def)
  show ?thesis
    using sample_style sample_security
    by (simp add: evaluate_cycle_def cycle_judge_def io load rh sign_cycle_def judge_correctness_def not_code sign_receipt_def
        evaluate_layers_def Let_def evaluate_synthetic_def sample_measured_def replay_clean [of "[]", simplified])
qed

lemma clear_append:
  "\<exists>b db. append_evaluation transparent (reread_strings transparent) sample_now [] (Some []) (fresh_db transparent) = (Ok b, db)"
proof -
  let ?X = transparent
  have str: "strings_ok ?X (reread_strings ?X)" by (simp add: reread_strings_ok)
  have blobs: "latest_block fs (db\<lparr>db_blobs := s, db_blobs_index := i\<rparr>) = latest_block fs db" for fs db s i
    by (simp add: latest_block_def rows_by_sequence_def)
  have seq: "lb_sequence (genesis_of ?X) = 0" by (simp add: new_block_def genesis_of_def Let_def)
  have "lb_block_hash (new_block ?X 1 EvaluationB sample_now (lb_block_hash (genesis_of ?X)) [] hs) \<noteq> lb_block_hash (genesis_of ?X)" for hs
  proof -
    let ?b = "new_block ?X 1 EvaluationB sample_now (lb_block_hash (genesis_of ?X)) [] hs"
    have "preimage_of ?b \<noteq> preimage_of (genesis_of ?X)"
    proof
      assume eq: "preimage_of ?b = preimage_of (genesis_of ?X)"
      have "take 8 (preimage_of c) = u64_le (lb_sequence c)" for c by (simp add: preimage_of_def block_preimage_def)
      moreover have "lb_sequence ?b = 1" by (simp add: new_block_def Let_def)
      ultimately show False using eq seq by (metis u64_le_inj zero_neq_one)
    qed
    then show ?thesis
      by (simp add: new_block_def genesis_of_def Let_def compute_block_hash_def preimage_of_def transparent_crates hex_of_inj)
  qed
  moreover have "lb_sequence (new_block X n bt t p pl hs) = n" for X n bt t p pl hs by (simp add: new_block_def Let_def)
  moreover have "db_blocks (fresh_db ?X) = [block_row_of ?X (genesis_of ?X)]" by (simp add: fresh_db_def)
  moreover have "row_sequence (block_row_of ?X c) = lb_sequence c" "row_block_hash (block_row_of ?X c) = lb_block_hash c" for c
    by (simp_all add: block_row_of_def)
  moreover have "db_blobs (fresh_db ?X) = Map.empty" by (simp add: fresh_db_def)
  ultimately show ?thesis
    using ledger_latest_block [OF fresh_holds str] seq
    by (simp add: append_evaluation_def put_blob_def append_block_def insert_block_def Let_def blobs)
qed

lemma readme_wins:
  "\<exists>win w'. try_candidates clear_engine sample_engine_config ''c1'' ''promoter'' False True [(readme_change, sample_candidate_run)] clear_world
     = (Ok (Some win), w') \<and> wi_proposal win = readme_change"
proof -
  have refusal: "unstaged_refusal clear_engine sample_engine_config False readme_change = None"
  proof -
    have "classify_proposal readme_change = Tier1Target" "is_ok (check_declared_target ''README.md'' [''README.md''])"
      "check_claim Documentation False False = Ok ()" by code_simp+
    then show ?thesis
      by (auto simp: unstaged_refusal_def tier_refusal_def readme_change_def sample_engine_config_def is_ok_iff)
  qed
  have exempt: "is_exempt sample_engine_config readme_change (sample_tree ''new'')"
    using sample_exempt by (simp add: sample_winner_def initial_summary_def Let_def)
  then have nobuild: "\<not> heuristic_build readme_change (sample_tree ''new'')" by (simp add: is_exempt_def)
  have fields: "cw_sandbox sample_candidate_run = Ok (sample_tree ''new'')" "iv_passed (cw_report sample_candidate_run)"
      "cw_judge sample_candidate_run = Promotion_Examples.sample_run" "ip_id readme_change = ''p1''"
      "en_X clear_engine = transparent" "en_P clear_engine = sample_keys" "en_suite clear_engine = (\<lambda>_. Ok sample_suite)"
      "en_debug clear_engine = (\<lambda>s. s)" "en_lowercase clear_engine = (\<lambda>s. s)" "en_strings clear_engine = reread_strings transparent"
      "en_now clear_engine = (\<lambda>_. sample_now)" "tx_receipt_json (en_texts clear_engine) = (\<lambda>_. [])" "wd_db clear_world = fresh_db transparent"
    by (simp_all add: sample_candidate_run_def sample_winner_def readme_change_def clear_engine_def sample_engine_def plain_texts_def clear_world_def)
  from readme_judged [of transparent sample_keys] obtain r where "evaluate_cycle transparent sample_keys (\<lambda>_. Ok sample_suite) (\<lambda>s. s) (\<lambda>s. s)
     (cycle_judge readme_change ''promoter'') Promotion_Examples.sample_run ''c1'' ''p1'' ''parent'' = Ok r" "er_admitted r" by blast
  moreover from clear_append obtain b db where
    "append_evaluation transparent (reread_strings transparent) sample_now [] (Some []) (fresh_db transparent) = (Ok b, db)" by blast
  ultimately show ?thesis
    using refusal exempt nobuild
    by (simp add: candidate_gauntlet_def fields canary_eligibility_def build_candidate_def missing_executable_def judge_candidate_def)
qed

theorem winner_passed_every_check_witness:
  "\<exists>win w'. try_candidates clear_engine sample_engine_config ''c1'' ''promoter'' False True [(readme_change, sample_candidate_run)] clear_world
     = (Ok (Some win), w') \<and> er_admitted (wi_receipt win) \<and> er_candidate_id (wi_receipt win) = ''p1''"
proof -
  from readme_wins obtain win w' where w: "try_candidates clear_engine sample_engine_config ''c1'' ''promoter'' False True
      [(readme_change, sample_candidate_run)] clear_world = (Ok (Some win), w')" "wi_proposal win = readme_change" by blast
  moreover have "ip_id readme_change = ''p1''" by (simp add: readme_change_def)
  ultimately show ?thesis using winner_passed_every_check [OF w] by auto
qed

end
