(* ===== verification/Hypothesis.thy ===== *)
theory Hypothesis
  imports Graph_Safety Receipt
begin

text \<open>
  Hypothesis contracts and diagnostic contexts (\<open>src/src/propose/hypothesis.rs\<close>, \<open>src/src/propose/diagnose.rs\<close>): how a cycle
  states what it wants to improve, when a contract is valid, and the prompt that the proposer receives.

  \<open>fixed k x\<close> is the text of \<open>format!("{:.k}", x)\<close>, a parameter; nothing below depends on the digits.  Fields that a caller may
  fill with any \<open>f64\<close> have the type \<open>float64\<close>; values that come from measurements are rationals.
\<close>

datatype float64 = Finite rat | Infinite bool | NotANumber

definition is_finite :: "float64 \<Rightarrow> bool" where
  "is_finite x \<longleftrightarrow> (case x of Finite _ \<Rightarrow> True | _ \<Rightarrow> False)"

text \<open>IEEE comparison: a NaN is neither below nor above nor equal to anything; \<open>Infinite True\<close> is the positive infinity.\<close>

fun float_less :: "float64 \<Rightarrow> float64 \<Rightarrow> bool" where
  "float_less (Finite a) (Finite b) = (a < b)"
| "float_less (Finite _) (Infinite p) = p"
| "float_less (Infinite p) (Finite _) = (\<not> p)"
| "float_less (Infinite p) (Infinite q) = (\<not> p \<and> q)"
| "float_less _ _ = False"

fun float_eq :: "float64 \<Rightarrow> float64 \<Rightarrow> bool" where
  "float_eq NotANumber _ = False"
| "float_eq _ NotANumber = False"
| "float_eq x y = (x = y)"

fun float_abs :: "float64 \<Rightarrow> float64" where
  "float_abs (Finite a) = Finite \<bar>a\<bar>"
| "float_abs (Infinite _) = Infinite True"
| "float_abs NotANumber = NotANumber"

section \<open>Contracts\<close>

record protected_metric =
  pm_name :: string
  pm_max_allowed_degradation_pct :: float64

definition EXPLORATORY_TARGET_METRIC :: string where
  "EXPLORATORY_TARGET_METRIC = ''structural_ranking''"

record hypothesis_contract =
  hc_id :: string
  hc_cycle_id :: string
  hc_observed_problem :: string
  hc_suspected_root_cause :: string
  hc_target_metric :: string
  hc_baseline_value :: float64
  hc_predicted_delta_pct :: float64
  hc_protected_metrics :: "protected_metric list"
  hc_falsification_test :: string
  hc_confidence_score :: float64

definition protects :: "string \<Rightarrow> rat \<Rightarrow> protected_metric" where
  "protects name pct = \<lparr>pm_name = name, pm_max_allowed_degradation_pct = Finite pct\<rparr>"

definition new_contract ::
    "string \<Rightarrow> string \<Rightarrow> string \<Rightarrow> string \<Rightarrow> string \<Rightarrow> float64 \<Rightarrow> float64 \<Rightarrow> hypothesis_contract" where
  "new_contract i cycle_id problem cause metric baseline delta =
     \<lparr>hc_id = i, hc_cycle_id = cycle_id, hc_observed_problem = problem, hc_suspected_root_cause = cause,
      hc_target_metric = metric, hc_baseline_value = baseline, hc_predicted_delta_pct = delta,
      hc_protected_metrics = [protects ''p95_latency'' 1, protects ''p99_latency'' 1, protects ''max_rss_kb'' 2],
      hc_falsification_test = [], hc_confidence_score = Finite (f64_const (85 / 100))\<rparr>"

definition exploratory :: "string \<Rightarrow> string \<Rightarrow> string \<Rightarrow> string \<Rightarrow> hypothesis_contract" where
  "exploratory i cycle_id problem cause =
     (new_contract i cycle_id problem cause EXPLORATORY_TARGET_METRIC (Finite 0) (Finite 0))\<lparr>hc_confidence_score := Finite 0\<rparr>"

text \<open>The text that the ranking stores with a bottleneck.\<close>

definition explanation_text :: "(nat \<Rightarrow> rat \<Rightarrow> string) \<Rightarrow> explanation \<Rightarrow> string" where
  "explanation_text fixed e =
     (case e of
        MeasuredText c lat err \<Rightarrow>
          ''Centrality='' @ fixed 3 c @ '', LatencyRatio='' @ fixed 2 lat @ ''x (median), ErrorRate='' @ fixed 1 err @ ''%''
      | StructuralText c \<Rightarrow>
          ''Centrality='' @ fixed 3 c @ ''; latency and error terms unavailable (structural ranking)'')"

definition apostrophe :: char where "apostrophe = CHR 0x27"

definition in_quotes :: "string \<Rightarrow> string" where
  "in_quotes s = [apostrophe] @ s @ [apostrophe]"

definition from_bottleneck ::
    "(nat \<Rightarrow> rat \<Rightarrow> string) \<Rightarrow> string \<Rightarrow> string \<Rightarrow> bottleneck_rank \<Rightarrow> float64 \<Rightarrow> hypothesis_contract" where
  "from_bottleneck fixed i cycle_id b target_improvement_pct =
     (case br_latency_median_us b of
        Some median \<Rightarrow>
          new_contract i cycle_id
            (''Stage '' @ in_quotes (br_node_name b) @ '' has measured median latency '' @ fixed 1 median @ '' us (centrality=''
               @ fixed 4 (br_centrality b) @ '')'')
            (''Latency on '' @ in_quotes (br_node_name b) @ '': '' @ explanation_text fixed (br_causal_explanation b))
            ''latency_median_us'' (Finite median) target_improvement_pct
      | None \<Rightarrow>
          exploratory i cycle_id
            (''Stage '' @ in_quotes (br_node_name b) @ '' ranks first by structural position (centrality=''
               @ fixed 4 (br_centrality b) @ ''); no latency is measured'')
            (''Structural ranking: '' @ explanation_text fixed (br_causal_explanation b)))"

definition is_exploratory :: "hypothesis_contract \<Rightarrow> bool" where
  "is_exploratory h \<longleftrightarrow> hc_target_metric h = EXPLORATORY_TARGET_METRIC"

definition latency_claim :: "hypothesis_contract \<Rightarrow> (float64 \<times> float64) option" where
  "latency_claim h = (if is_exploratory h then None else Some (hc_baseline_value h, hc_predicted_delta_pct h))"

definition with_falsification_test :: "string \<Rightarrow> hypothesis_contract \<Rightarrow> hypothesis_contract" where
  "with_falsification_test test h = h\<lparr>hc_falsification_test := test\<rparr>"

definition with_protected_metric :: "string \<Rightarrow> float64 \<Rightarrow> hypothesis_contract \<Rightarrow> hypothesis_contract" where
  "with_protected_metric name pct h =
     h\<lparr>hc_protected_metrics := hc_protected_metrics h @ [\<lparr>pm_name = name, pm_max_allowed_degradation_pct = pct\<rparr>]\<rparr>"

datatype contract_error = NoProblem | NoRootCause | NoTargetMetric | ExploratoryNumbers | NotFinite | ZeroDelta | BadConfidence

definition validate_contract :: "hypothesis_contract \<Rightarrow> contract_error + unit" where
  "validate_contract h =
     (if is_blank (hc_observed_problem h) then Err NoProblem
      else if is_blank (hc_suspected_root_cause h) then Err NoRootCause
      else if is_blank (hc_target_metric h) then Err NoTargetMetric
      else if is_exploratory h then
        (if \<not> float_eq (hc_baseline_value h) (Finite 0) \<or> \<not> float_eq (hc_predicted_delta_pct h) (Finite 0)
           then Err ExploratoryNumbers else Ok ())
      else if \<not> is_finite (hc_baseline_value h) \<or> \<not> is_finite (hc_predicted_delta_pct h) then Err NotFinite
      else if float_less (float_abs (hc_predicted_delta_pct h)) (Finite (f64_const (1 / 1000000))) then Err ZeroDelta
      else if float_less (hc_confidence_score h) (Finite 0) \<or> float_less (Finite 1) (hc_confidence_score h) then Err BadConfidence
      else Ok ())"

fun contract_error_text :: "contract_error \<Rightarrow> string" where
  "contract_error_text NoProblem = ''HypothesisContract must specify a non-empty observed_problem''"
| "contract_error_text NoRootCause = ''HypothesisContract must specify a non-empty suspected_root_cause''"
| "contract_error_text NoTargetMetric = ''HypothesisContract must specify a target_metric''"
| "contract_error_text ExploratoryNumbers = ''an exploratory HypothesisContract must carry no baseline and no predicted delta''"
| "contract_error_text NotFinite = ''HypothesisContract baseline and predicted delta must be finite''"
| "contract_error_text ZeroDelta = ''HypothesisContract predicted_delta_pct cannot be zero''"
| "contract_error_text BadConfidence = ''HypothesisContract confidence_score must be in [0.0, 1.0]''"

text \<open>\<open>number\<close> prints any \<open>f64\<close> with a number of decimals.\<close>

definition format_prompt_directive :: "(nat \<Rightarrow> float64 \<Rightarrow> string) \<Rightarrow> hypothesis_contract \<Rightarrow> string" where
  "format_prompt_directive number h =
     (let goal = (case latency_claim h of
            Some (baseline, delta) \<Rightarrow>
              hc_target_metric h @ '' (Baseline: '' @ number 2 baseline @ '', Expected Improvement: '' @ number 1 delta @ ''%)''
          | None \<Rightarrow> hc_target_metric h @ '' (exploratory, no performance claim: no latency was measured)'');
        line = (\<lambda>s. s @ [newline]) in
      line (''FALSIFIABLE HYPOTHESIS CONTRACT (ID: '' @ hc_id h @ ''):'')
        @ line (''- Observed Problem: '' @ hc_observed_problem h)
        @ line (''- Suspected Root Cause: '' @ hc_suspected_root_cause h)
        @ line (''- Target Metric: '' @ goal)
        @ line ''- Protected Non-Target Metrics:''
        @ concat (map (\<lambda>pm. line (''  * '' @ pm_name pm @ '' <= +'' @ number 1 (pm_max_allowed_degradation_pct pm) @ ''% max degradation''))
            (hc_protected_metrics h))
        @ (if hc_falsification_test h \<noteq> [] then line (''- Falsification Condition: '' @ hc_falsification_test h) else []))"

section \<open>Diagnoses\<close>

datatype defect_category = CompilationFailure | HoldoutFailure | InvariantViolation | PerformanceRegression
  | ResourceViolation | StyleViolation | SoulTensionDominance

fun defect_debug :: "defect_category \<Rightarrow> string" where
  "defect_debug CompilationFailure = ''CompilationFailure''"
| "defect_debug HoldoutFailure = ''HoldoutFailure''"
| "defect_debug InvariantViolation = ''InvariantViolation''"
| "defect_debug PerformanceRegression = ''PerformanceRegression''"
| "defect_debug ResourceViolation = ''ResourceViolation''"
| "defect_debug StyleViolation = ''StyleViolation''"
| "defect_debug SoulTensionDominance = ''SoulTensionDominance''"

record diagnostic_context =
  dc_cycle_id :: string
  dc_target_file :: string
  dc_current_content :: string
  dc_primary_defect :: defect_category
  dc_violations :: "string list"
  dc_past_lessons :: "string list"
  dc_hypothesis :: "hypothesis_contract option"

definition defect_of_layer :: "string \<Rightarrow> defect_category option" where
  "defect_of_layer name =
     (if name = ''Correctness'' then Some CompilationFailure
      else if name = ''Security'' then Some InvariantViolation
      else if name = ''Style'' then Some StyleViolation
      else if name = ''Performance'' then Some PerformanceRegression
      else if name = ''ResourceEfficiency'' then Some ResourceViolation
      else if name = ''LongitudinalReplay'' then Some HoldoutFailure
      else None)"

fun diagnose_layers :: "layer_result list \<Rightarrow> defect_category \<times> string list \<Rightarrow> defect_category \<times> string list" where
  "diagnose_layers [] acc = acc"
| "diagnose_layers (l # ls) (defect, violations) =
     (if lr_passed l then diagnose_layers ls (defect, violations)
      else diagnose_layers ls (case defect_of_layer (lr_layer_name l) of Some d \<Rightarrow> d | None \<Rightarrow> defect,
             violations @ map (\<lambda>v. ''['' @ lr_layer_name l @ ''] '' @ v) (lr_violations l)))"

definition from_receipt :: "string \<Rightarrow> evaluation_receipt \<Rightarrow> string \<Rightarrow> string \<Rightarrow> string list \<Rightarrow> diagnostic_context" where
  "from_receipt cycle_id r target_file current_content past_lessons =
     (let (defect, violations) = diagnose_layers (er_layer_results r) (HoldoutFailure, []) in
      \<lparr>dc_cycle_id = cycle_id, dc_target_file = target_file, dc_current_content = current_content, dc_primary_defect = defect,
       dc_violations = (if violations = [] \<and> \<not> er_admitted r
         then [''Evaluator rejected candidate without explicit layer violations.''] else violations),
       dc_past_lessons = past_lessons, dc_hypothesis = None\<rparr>)"

definition from_violations ::
    "string \<Rightarrow> string \<Rightarrow> string \<Rightarrow> defect_category \<Rightarrow> string list \<Rightarrow> string list \<Rightarrow> diagnostic_context" where
  "from_violations cycle_id target_file current_content defect violations past_lessons =
     \<lparr>dc_cycle_id = cycle_id, dc_target_file = target_file, dc_current_content = current_content, dc_primary_defect = defect,
      dc_violations = violations, dc_past_lessons = past_lessons, dc_hypothesis = None\<rparr>"

definition with_hypothesis :: "hypothesis_contract \<Rightarrow> diagnostic_context \<Rightarrow> diagnostic_context" where
  "with_hypothesis h d = d\<lparr>dc_hypothesis := Some h\<rparr>"

text \<open>The hypothesis of a cycle as the daemon builds it (\<open>src/src/daemon.rs\<close>).\<close>

definition cycle_hypothesis ::
    "(nat \<Rightarrow> rat \<Rightarrow> string) \<Rightarrow> string \<Rightarrow> string \<Rightarrow> bottleneck_rank option \<Rightarrow> float64 \<Rightarrow> hypothesis_contract option" where
  "cycle_hypothesis fixed uuid cycle_id found pct =
     map_option (\<lambda>b. with_falsification_test ''assert!(receipt.passed_all_hard_invariants)''
       (with_protected_metric ''correctness'' (Finite 0) (from_bottleneck fixed (''hypo-'' @ uuid) cycle_id b pct))) found"

section \<open>Properties\<close>

lemma validate_contract_Ok:
  "validate_contract h = Ok () \<longleftrightarrow>
     \<not> is_blank (hc_observed_problem h) \<and> \<not> is_blank (hc_suspected_root_cause h) \<and> \<not> is_blank (hc_target_metric h)
     \<and> (if is_exploratory h then hc_baseline_value h = Finite 0 \<and> hc_predicted_delta_pct h = Finite 0
        else (\<exists>b d. hc_baseline_value h = Finite b \<and> hc_predicted_delta_pct h = Finite d \<and> f64_const (1 / 1000000) \<le> \<bar>d\<bar>)
          \<and> (\<forall>c. hc_confidence_score h = Finite c \<longrightarrow> 0 \<le> c \<and> c \<le> 1) \<and> (\<forall>p. hc_confidence_score h \<noteq> Infinite p))"
proof -
  have eq: "float_eq x (Finite 0) \<longleftrightarrow> x = Finite 0" for x by (cases x) auto
  show ?thesis
    by (cases "hc_baseline_value h"; cases "hc_predicted_delta_pct h"; cases "hc_confidence_score h")
       (auto simp: validate_contract_def eq is_finite_def)
qed

lemma not_blank:
  "(of_char c :: nat) < 128 \<Longrightarrow> \<not> is_whitespace (of_char c) \<Longrightarrow> \<not> is_blank (c # s)"
  by (simp add: is_blank_def)

lemma contract_confidence: "0 \<le> f64_const (85 / 100)" "f64_const (85 / 100) \<le> 1"
  by (simp_all add: f64_const_def f64_round_nonneg f64_round_le_one)

lemma from_bottleneck_valid:
  assumes "\<And>m. br_latency_median_us b = Some m \<Longrightarrow> \<exists>d. pct = Finite d \<and> f64_const (1 / 1000000) \<le> \<bar>d\<bar>"
  shows "validate_contract (from_bottleneck fixed i cycle_id b pct) = Ok ()"
proof -
  have blank: "\<not> is_blank (CHR ''S'' # s)" "\<not> is_blank (CHR ''L'' # s)" "\<not> is_blank (CHR ''l'' # s)" "\<not> is_blank (CHR ''s'' # s)" for s
    by (intro not_blank; simp add: is_whitespace_def)+
  show ?thesis
  proof (cases "br_latency_median_us b")
    case None
    then show ?thesis
      by (simp add: validate_contract_Ok from_bottleneck_def exploratory_def new_contract_def is_exploratory_def
          EXPLORATORY_TARGET_METRIC_def blank)
  next
    case (Some m)
    with assms obtain d where "pct = Finite d" "f64_const (1 / 1000000) \<le> \<bar>d\<bar>" by blast
    with Some contract_confidence show ?thesis
      by (simp add: validate_contract_Ok from_bottleneck_def new_contract_def is_exploratory_def
          EXPLORATORY_TARGET_METRIC_def blank)
  qed
qed

end
