(* ===== verification/Explain.thy ===== *)
theory Explain
  imports Hypothesis Ratify
begin

text \<open>
  The evidence graph of a cycle (\<open>src/src/explain.rs\<close>): the document that says why the engine wants a change, with a node per
  artifact, links to the nodes it rests on, and a declaration for every link that has no artifact.

  Every section of \<open>evidence_graph\<close> is a definition that returns the nodes it pushes.  The texts of numbers, of the errors
  that the ranking stores and of the ratifier's message are printers, parameters of the model.
\<close>

record printers =
  pf_fixed :: "nat \<Rightarrow> rat \<Rightarrow> string"
  pf_number :: "nat \<Rightarrow> float64 \<Rightarrow> string"
  pf_bits :: "nat \<Rightarrow> f64_bits \<Rightarrow> string"
  pf_graph_error :: "graph_error \<Rightarrow> string"
  pf_message :: "ratify_message \<Rightarrow> string"

type_synonym status_code = "8 word"

definition FORMAT :: string where "FORMAT = ''aien.explain.evidence-graph''"
definition EXPLAIN_VERSION :: u16 where "EXPLAIN_VERSION = 1"
definition PRODUCER :: string where "PRODUCER = ''spark-rsi/explain''"

definition STATUS_UNCLASSIFIED :: status_code where "STATUS_UNCLASSIFIED = 0"
definition STATUS_DIRECT_OBSERVATION :: status_code where "STATUS_DIRECT_OBSERVATION = 1"
definition STATUS_VERIFIED_FACT :: status_code where "STATUS_VERIFIED_FACT = 2"
definition STATUS_INFERENCE :: status_code where "STATUS_INFERENCE = 3"
definition STATUS_HYPOTHESIS :: status_code where "STATUS_HYPOTHESIS = 4"

lemmas status_codes = STATUS_UNCLASSIFIED_def STATUS_DIRECT_OBSERVATION_def STATUS_VERIFIED_FACT_def STATUS_INFERENCE_def STATUS_HYPOTHESIS_def

definition KIND_CAPABILITY_METRIC :: u16 where "KIND_CAPABILITY_METRIC = 2"
definition KIND_CAPABILITY_ANALYSIS :: u16 where "KIND_CAPABILITY_ANALYSIS = 3"
definition KIND_DIAGNOSTIC :: u16 where "KIND_DIAGNOSTIC = 4"
definition KIND_HYPOTHESIS :: u16 where "KIND_HYPOTHESIS = 5"
definition KIND_PREDICTION :: u16 where "KIND_PREDICTION = 6"
definition KIND_FALSIFICATION :: u16 where "KIND_FALSIFICATION = 7"
definition KIND_EVALUATION_RECEIPT :: u16 where "KIND_EVALUATION_RECEIPT = 8"
definition KIND_PROMOTION_STATE :: u16 where "KIND_PROMOTION_STATE = 9"
definition KIND_CONCLUSION :: u16 where "KIND_CONCLUSION = 12"
definition KIND_ALTERNATIVE :: u16 where "KIND_ALTERNATIVE = 13"

definition REL_SUPPORTED_BY :: u16 where "REL_SUPPORTED_BY = 1"
definition REL_PART_OF :: u16 where "REL_PART_OF = 3"
definition REL_ALTERNATIVE_TO :: u16 where "REL_ALTERNATIVE_TO = 5"
definition REL_REFERENCES :: u16 where "REL_REFERENCES = 6"

definition MAX_ALTERNATIVES :: nat where "MAX_ALTERNATIVES = 3"
definition MAX_PARENTS :: nat where "MAX_PARENTS = 1024"

section \<open>Documents\<close>

record source_ref_doc =
  sd_system :: string
  sd_artifact :: string
  sd_reference :: string
  sd_digest :: "string option"

record measurement_doc =
  md_name :: string
  md_value :: string
  md_unit :: string

record edge_doc =
  ed_to :: string
  ed_relation :: u16

record missing_doc =
  xd_expected :: string
  xd_reason :: string

record node_doc =
  nd_id :: string
  nd_kind :: u16
  nd_status :: status_code
  nd_statement :: string
  nd_source :: source_ref_doc
  nd_confidence_permille :: "u16 option"
  nd_confidence_basis :: "string option"
  nd_recorded_at_utc :: "u64 option"
  nd_parents :: "edge_doc list"
  nd_measurements :: "measurement_doc list"
  nd_missing :: "missing_doc list"
  nd_notes :: "string list"

record evidence_graph_doc =
  gd_format :: string
  gd_version :: u16
  gd_producer :: string
  gd_nodes :: "node_doc list"
  gd_truncated_at :: "string list"

record cycle_evidence =
  ev_cycle_id :: string
  ev_graph :: "capability_graph option"
  ev_bottlenecks :: "bottleneck_rank list"
  ev_hypothesis :: "hypothesis_contract option"
  ev_diagnostic :: "diagnostic_context option"
  ev_receipt :: "evaluation_receipt option"
  ev_ratification :: "ratification_record option"

definition source_doc :: "string \<Rightarrow> string \<Rightarrow> string option \<Rightarrow> source_ref_doc" where
  "source_doc artifact reference digest =
     \<lparr>sd_system = ''spark-rsi'', sd_artifact = artifact, sd_reference = reference, sd_digest = digest\<rparr>"

definition measured_doc :: "string \<Rightarrow> string \<Rightarrow> string \<Rightarrow> measurement_doc" where
  "measured_doc name v unit = \<lparr>md_name = name, md_value = v, md_unit = unit\<rparr>"

definition missing_link :: "string \<Rightarrow> string \<Rightarrow> missing_doc" where
  "missing_link expected reason = \<lparr>xd_expected = expected, xd_reason = reason\<rparr>"

definition plain_node :: "string \<Rightarrow> u16 \<Rightarrow> status_code \<Rightarrow> string \<Rightarrow> source_ref_doc \<Rightarrow> node_doc" where
  "plain_node i kind status statement source =
     \<lparr>nd_id = i, nd_kind = kind, nd_status = status, nd_statement = statement, nd_source = source,
      nd_confidence_permille = None, nd_confidence_basis = None, nd_recorded_at_utc = None,
      nd_parents = [], nd_measurements = [], nd_missing = [], nd_notes = []\<rparr>"

definition edge_to :: "string \<Rightarrow> u16 \<Rightarrow> edge_doc" where
  "edge_to i relation = \<lparr>ed_to = i, ed_relation = relation\<rparr>"

definition capability_node_id :: "string \<Rightarrow> string" where "capability_node_id i = ''rsi:capability:'' @ i"
definition analysis_id :: "string \<Rightarrow> string" where "analysis_id cycle = ''rsi:bottleneck:'' @ cycle"
definition hypothesis_node_id :: "hypothesis_contract \<Rightarrow> string" where "hypothesis_node_id h = ''rsi:hypothesis:'' @ hc_id h"
definition diagnostic_id :: "string \<Rightarrow> string" where "diagnostic_id cycle = ''rsi:diagnostic:'' @ cycle"
definition receipt_node_id :: "evaluation_receipt \<Rightarrow> string" where
  "receipt_node_id r = ''rsi:receipt:'' @ er_cycle_id r @ '':'' @ er_candidate_id r"
definition ratification_id :: "ratification_record \<Rightarrow> string" where "ratification_id r = ''rsi:ratification:'' @ rr_proposal_id r"
definition conclusion_id :: "string \<Rightarrow> string" where "conclusion_id cycle = ''rsi:conclusion:'' @ cycle"

definition hypothesis_derived_from :: "hypothesis_contract \<Rightarrow> bottleneck_rank \<Rightarrow> bool" where
  "hypothesis_derived_from h b \<longleftrightarrow>
     (let name = in_quotes (br_node_name b) in
      (contains name (hc_observed_problem h) \<or> contains name (hc_suspected_root_cause h))
      \<and> (case (latency_claim h, br_latency_median_us b) of
           (Some (baseline, _), Some median) \<Rightarrow> float_eq baseline (Finite median)
         | (None, None) \<Rightarrow> True
         | _ \<Rightarrow> False))"

section \<open>The sections of the graph\<close>

definition bool_text :: "bool \<Rightarrow> string" where "bool_text b = (if b then ''true'' else ''false'')"

definition capability_doc :: "printers \<Rightarrow> capability_node \<Rightarrow> node_doc" where
  "capability_doc pf c =
     (let why = (case cn_unavailable_reason c of Some r \<Rightarrow> r | None \<Rightarrow> ''no measurement'');
          n = (\<lambda>status statement. plain_node (capability_node_id (cn_id c)) KIND_CAPABILITY_METRIC status statement
                 (source_doc ''CapabilityNode'' (cn_id c) None)) in
      case (cn_measurement c, cn_latency_median_us c) of
        (MeasuredNode, Some median) \<Rightarrow>
          (n STATUS_DIRECT_OBSERVATION (in_quotes (cn_name c) @ '' ('' @ cn_subsystem c @ '') has measured median latency ''
               @ pf_fixed pf 1 median @ '' us over '' @ dec_nat (cn_sample_count c) @ '' samples''))
          \<lparr>nd_measurements := [measured_doc ''latency_median_us'' (pf_fixed pf 3 median) ''us'',
              measured_doc ''sample_count'' (dec_nat (cn_sample_count c)) []]
             @ (case cn_error_rate_measured c of
                  Some e \<Rightarrow> [measured_doc ''error_rate_measured'' (pf_fixed pf 6 e) ''fraction''] | None \<Rightarrow> [])
             @ (case cn_latency_p95_us_measured c of
                  Some p \<Rightarrow> [measured_doc ''latency_p95_us_measured'' (pf_fixed pf 3 p) ''us''] | None \<Rightarrow> []),
           nd_missing := (case cn_latency_p95_us_measured c of
                  Some p \<Rightarrow> []
                | None \<Rightarrow> [missing_link (''measured p95 latency of stage '' @ in_quotes (cn_name c)) why])\<rparr>
      | _ \<Rightarrow>
          (n STATUS_UNCLASSIFIED (in_quotes (cn_name c) @ '' ('' @ cn_subsystem c @ '') has no measured latency (unavailable)''))
          \<lparr>nd_missing := [missing_link (''measured median latency of stage '' @ in_quotes (cn_name c)) why,
              missing_link (''measured error rate of stage '' @ in_quotes (cn_name c)) why]\<rparr>)"

definition capability_docs :: "printers \<Rightarrow> capability_graph option \<Rightarrow> node_doc list" where
  "capability_docs pf g =
     (case g of None \<Rightarrow> [] | Some g \<Rightarrow> map (capability_doc pf) (sort_key cn_id (map snd (cg_nodes g))))"

definition reason_text :: "printers \<Rightarrow> bottleneck_rank \<Rightarrow> string" where
  "reason_text pf b =
     (case br_unavailable_reason b of Inl e \<Rightarrow> pf_graph_error pf e | Inr (Some r) \<Rightarrow> r | Inr None \<Rightarrow> ''no measurement'')"

definition basis_text :: "ranking_basis \<Rightarrow> string" where
  "basis_text b = (case b of StructuralBasis \<Rightarrow> ''structural'' | MeasuredBasis \<Rightarrow> ''measured'')"

definition analysis_doc :: "printers \<Rightarrow> string \<Rightarrow> string list \<Rightarrow> nat \<Rightarrow> bottleneck_rank \<Rightarrow> node_doc" where
  "analysis_doc pf cycle metric_ids ranked b =
     (plain_node (analysis_id cycle) KIND_CAPABILITY_ANALYSIS STATUS_INFERENCE
        (''The capability graph ranks '' @ in_quotes (br_node_name b) @ '' ('' @ br_subsystem b @ '') as bottleneck #'' @ dec_nat (br_rank b)
          @ '' of '' @ dec_nat ranked @ '' ('' @ explanation_text (pf_fixed pf) (br_causal_explanation b) @ '')'')
        (source_doc ''BottleneckRank'' (br_node_id b) None))
     \<lparr>nd_measurements := [measured_doc ''bottleneck_score'' (pf_fixed pf 4 (br_bottleneck_score b)) [],
         measured_doc ''centrality'' (pf_fixed pf 4 (br_centrality b)) [],
         measured_doc ''ranking_basis'' (basis_text (br_ranking_basis b)) []]
        @ (case br_latency_median_us b of Some v \<Rightarrow> [measured_doc ''latency_median_us'' (pf_fixed pf 3 v) ''us''] | None \<Rightarrow> []),
      nd_missing := (case br_latency_median_us b of
            Some v \<Rightarrow> []
          | None \<Rightarrow> [missing_link (''measured median latency of the top-ranked stage '' @ in_quotes (br_node_name b)) (reason_text pf b)])
        @ (if br_ranking_basis b = StructuralBasis
           then [missing_link ''latency and error terms of the bottleneck score''
                   ''at least one stage is unavailable, so the ranking uses betweenness centrality only''] else [])
        @ (if metric_ids = []
           then [missing_link ''capability metrics the ranking was computed from'' ''no capability graph was supplied with this cycle''] else []),
      nd_parents := map (\<lambda>i. edge_to i REL_SUPPORTED_BY) (take MAX_PARENTS metric_ids),
      nd_notes := (if MAX_PARENTS < length metric_ids
          then [''only the first '' @ dec_nat MAX_PARENTS @ '' of '' @ dec_nat (length metric_ids)
                  @ '' capability metrics are linked (contract cap)''] else [])
        @ [''ranking computed by CapabilityGraph::rank_bottlenecks'']\<rparr>"

definition alternative_doc :: "printers \<Rightarrow> string \<Rightarrow> bottleneck_rank \<Rightarrow> node_doc" where
  "alternative_doc pf cycle b =
     (plain_node (''rsi:alternative:'' @ cycle @ '':'' @ br_node_id b) KIND_ALTERNATIVE STATUS_INFERENCE
        (''Alternative bottleneck candidate #'' @ dec_nat (br_rank b) @ '': '' @ in_quotes (br_node_name b) @ '' ('' @ br_subsystem b
          @ ''), score '' @ pf_fixed pf 4 (br_bottleneck_score b))
        (source_doc ''BottleneckRank'' (br_node_id b) None))
     \<lparr>nd_parents := [edge_to (analysis_id cycle) REL_ALTERNATIVE_TO],
      nd_measurements := [measured_doc ''bottleneck_score'' (pf_fixed pf 4 (br_bottleneck_score b)) []]\<rparr>"

definition ranking_docs :: "printers \<Rightarrow> string \<Rightarrow> string list \<Rightarrow> bottleneck_rank list \<Rightarrow> node_doc list" where
  "ranking_docs pf cycle metric_ids bottlenecks =
     (case bottlenecks of
        [] \<Rightarrow> []
      | b # rest \<Rightarrow> analysis_doc pf cycle metric_ids (length bottlenecks) b # map (alternative_doc pf cycle) (take MAX_ALTERNATIVES rest))"

definition permille :: "rat \<Rightarrow> u16" where
  "permille c = of_int \<lfloor>f64_mul (min (max c 0) 1) 1000 + 1 / 2\<rfloor>"

definition hypothesis_doc :: "string \<Rightarrow> bottleneck_rank list \<Rightarrow> hypothesis_contract \<Rightarrow> node_doc" where
  "hypothesis_doc cycle bottlenecks h =
     (let confidence = (case hc_confidence_score h of Finite c \<Rightarrow> if is_exploratory h then None else Some (permille c) | _ \<Rightarrow> None);
          linked = (case bottlenecks of b # _ \<Rightarrow> if hypothesis_derived_from h b then Some b else None | [] \<Rightarrow> None) in
      (plain_node (hypothesis_node_id h) KIND_HYPOTHESIS STATUS_HYPOTHESIS
         (''Suspected root cause: '' @ hc_suspected_root_cause h @ ''. Observed problem: '' @ hc_observed_problem h)
         (source_doc ''HypothesisContract'' (hc_id h) None))
      \<lparr>nd_confidence_permille := confidence,
       nd_confidence_basis := (if confidence = None then None else Some ''declared in the HypothesisContract, not measured''),
       nd_parents := (case linked of Some _ \<Rightarrow> [edge_to (analysis_id cycle) REL_REFERENCES] | None \<Rightarrow> []),
       nd_missing := [case linked of
           Some b \<Rightarrow> missing_link ''a recorded reference from the hypothesis to the bottleneck ranking''
             (''linked only because the hypothesis text names '' @ in_quotes (br_node_name b)
                @ '' and its baseline equals that bottleneck'' @ [apostrophe] @ ''s p95 latency'')
         | None \<Rightarrow> missing_link ''the system analysis this hypothesis was derived from''
             ''the HypothesisContract carries no bottleneck reference and does not match the top-ranked bottleneck''],
       nd_notes := (case validate_contract h of
           Inl e \<Rightarrow> [''hypothesis contract fails validation: '' @ contract_error_text e] | Inr _ \<Rightarrow> [])\<rparr>)"

definition prediction_id :: "hypothesis_contract \<Rightarrow> string" where "prediction_id h = hypothesis_node_id h @ '':prediction''"
definition falsification_id :: "hypothesis_contract \<Rightarrow> string" where "falsification_id h = hypothesis_node_id h @ '':falsification''"

definition prediction_doc :: "printers \<Rightarrow> hypothesis_contract \<Rightarrow> node_doc" where
  "prediction_doc pf h =
     (let n = (\<lambda>statement. plain_node (prediction_id h) KIND_PREDICTION STATUS_HYPOTHESIS statement
                 (source_doc ''HypothesisContract'' (hc_id h) None)\<lparr>nd_parents := [edge_to (hypothesis_node_id h) REL_PART_OF]\<rparr>) in
      case latency_claim h of
        Some (baseline, delta) \<Rightarrow>
          n (''Predicts '' @ hc_target_metric h @ '' improves by '' @ pf_number pf 1 delta @ ''% from baseline '' @ pf_number pf 3 baseline)
          \<lparr>nd_measurements := [measured_doc ''target_metric'' (hc_target_metric h) [],
             measured_doc ''baseline_value'' (pf_number pf 3 baseline) [], measured_doc ''predicted_delta_pct'' (pf_number pf 3 delta) ''%'']\<rparr>
      | None \<Rightarrow>
          n ''Exploratory hypothesis: no performance prediction is made''
          \<lparr>nd_measurements := [measured_doc ''target_metric'' (hc_target_metric h) []],
           nd_missing := [missing_link ''a measured latency baseline and a predicted improvement''
             ''the top-ranked stage has no measured latency, so no performance claim is made'']\<rparr>)"

definition falsification_doc :: "printers \<Rightarrow> hypothesis_contract \<Rightarrow> node_doc" where
  "falsification_doc pf h =
     (let protected = join ''; '' (map (\<lambda>pm. pm_name pm @ '' may degrade at most '' @ pf_number pf 1 (pm_max_allowed_degradation_pct pm) @ ''%'')
            (hc_protected_metrics h));
          test = hc_falsification_test h in
      (plain_node (falsification_id h) KIND_FALSIFICATION STATUS_HYPOTHESIS
         (if test = [] then ''Protected metrics: '' @ protected
          else ''Refuted if this check fails: '' @ test @ ''. Protected metrics: '' @ protected)
         (source_doc ''HypothesisContract'' (hc_id h) None))
      \<lparr>nd_parents := [edge_to (hypothesis_node_id h) REL_PART_OF],
       nd_measurements := map (\<lambda>pm. measured_doc (''protected.'' @ pm_name pm @ ''.max_degradation_pct'')
           (pf_number pf 3 (pm_max_allowed_degradation_pct pm)) ''%'') (hc_protected_metrics h),
       nd_missing := (if test = []
         then [missing_link ''a falsification test'' ''the HypothesisContract has an empty falsification_test''] else [])\<rparr>)"

definition hypothesis_docs :: "printers \<Rightarrow> string \<Rightarrow> bottleneck_rank list \<Rightarrow> hypothesis_contract option \<Rightarrow> node_doc list" where
  "hypothesis_docs pf cycle bottlenecks hypothesis =
     (case hypothesis of None \<Rightarrow> [] | Some h \<Rightarrow> [hypothesis_doc cycle bottlenecks h, prediction_doc pf h, falsification_doc pf h])"

definition diagnostic_doc :: "string \<Rightarrow> hypothesis_contract option \<Rightarrow> diagnostic_context \<Rightarrow> node_doc" where
  "diagnostic_doc cycle hypothesis d =
     (let linked = (case (dc_hypothesis d, hypothesis) of (Some dh, Some h) \<Rightarrow> if hc_id h = hc_id dh then Some h else None | _ \<Rightarrow> None) in
      (plain_node (diagnostic_id cycle) KIND_DIAGNOSTIC STATUS_INFERENCE
         (''Diagnosis for '' @ dc_target_file d @ '': primary defect '' @ defect_debug (dc_primary_defect d) @ ''; ''
            @ (if dc_violations d = [] then ''no violations listed'' else join ''; '' (dc_violations d)))
         (source_doc ''DiagnosticContext'' (dc_cycle_id d) None))
      \<lparr>nd_parents := (case linked of Some h \<Rightarrow> [edge_to (hypothesis_node_id h) REL_SUPPORTED_BY] | None \<Rightarrow> []),
       nd_missing := (case (linked, dc_hypothesis d) of
           (Some _, _) \<Rightarrow> []
         | (None, Some dh) \<Rightarrow> [missing_link (''hypothesis '' @ hc_id dh) ''the diagnostic names a hypothesis that was not supplied'']
         | (None, None) \<Rightarrow> [missing_link ''the hypothesis behind this diagnosis'' ''the DiagnosticContext carries no hypothesis'']),
       nd_notes := (if dc_past_lessons d = [] then []
         else [dec_nat (length (dc_past_lessons d))
                 @ '' recalled lesson(s) from the outside memory service were left out: they are free text, not evidence''])\<rparr>)"

definition layer_measurements :: "printers \<Rightarrow> layer_result \<Rightarrow> measurement_doc list" where
  "layer_measurements pf l =
     [measured_doc (''layer.'' @ lr_layer_name l @ ''.passed'') (bool_text (lr_passed l)) [],
      measured_doc (''layer.'' @ lr_layer_name l @ ''.score'') (pf_bits pf 4 (lr_score l)) []]"

definition receipt_doc :: "crates \<Rightarrow> printers \<Rightarrow> evaluation_receipt \<Rightarrow> node_doc" where
  "receipt_doc X pf r =
     (let digest_ok = verify_receipt_digest X r in
      (plain_node (receipt_node_id r) KIND_EVALUATION_RECEIPT (if digest_ok then STATUS_VERIFIED_FACT else STATUS_UNCLASSIFIED)
         (''Evaluation of candidate '' @ er_candidate_id r @ '' (parent '' @ er_parent_id r @ ''): admitted='' @ bool_text (er_admitted r)
            @ '', '' @ dec_nat (length (er_layer_results r)) @ '' evaluation layer result(s)'')
         (source_doc ''EvaluationReceipt'' (er_candidate_id r) (Some (er_receipt_digest r))))
      \<lparr>nd_measurements := concat (map (layer_measurements pf) (er_layer_results r)),
       nd_notes := (if digest_ok then [] else [''the receipt digest does not match its contents''])
         @ [if er_signature r \<noteq> None
            then ''receipt is signed; the signature was not checked here (needs the evaluator public key)''
            else ''receipt is unsigned'']\<rparr>)"

definition summary_id :: "evaluation_receipt \<Rightarrow> string" where "summary_id r = receipt_node_id r @ '':summary''"

definition summary_doc :: "printers \<Rightarrow> evaluation_receipt \<Rightarrow> node_doc" where
  "summary_doc pf r =
     (plain_node (summary_id r) KIND_EVALUATION_RECEIPT STATUS_UNCLASSIFIED
        (''The evaluator reports: hard invariants passed='' @ bool_text (er_passed_all_hard_invariants r)
           @ '', statistical gates passed='' @ bool_text (er_passed_statistical_gates r))
        (source_doc ''EvaluationReceipt'' (er_candidate_id r) None))
     \<lparr>nd_parents := [edge_to (receipt_node_id r) REL_PART_OF],
      nd_measurements := (case er_metrics_summary r of
          None \<Rightarrow> []
        | Some ms \<Rightarrow>
            [measured_doc ''latency_delta_pct'' (pf_bits pf 3 (ms_latency_delta_pct ms)) ''%'',
             measured_doc ''p_value'' (pf_bits pf 6 (ms_p_value ms)) [],
             measured_doc ''p95_ci_upper_degradation_pct'' (pf_bits pf 3 (ms_p95_ci_upper ms)) ''%'',
             measured_doc ''p99_ci_upper_degradation_pct'' (pf_bits pf 3 (ms_p99_ci_upper ms)) ''%'',
             measured_doc ''rss_growth_pct'' (pf_bits pf 3 (ms_rss_growth_pct ms)) ''%'']),
      nd_notes := [''these fields are not covered by the receipt digest, so they are reported, not verified'']\<rparr>"

definition ratification_doc :: "printers \<Rightarrow> evaluation_receipt \<Rightarrow> ratification_record \<Rightarrow> node_doc" where
  "ratification_doc pf rc r =
     (plain_node (ratification_id r) KIND_PROMOTION_STATE STATUS_DIRECT_OBSERVATION
        (''Ratification record for proposal '' @ rr_proposal_id r @ '': status '' @ rr_status r @ '' ('' @ pf_message pf (rr_message r) @ '')'')
        (source_doc ''RatificationRecord'' (rr_proposal_id r) (rr_commit_hash r)))
     \<lparr>nd_parents := [edge_to (receipt_node_id rc) REL_SUPPORTED_BY]\<rparr>"

section \<open>The whole graph\<close>

text \<open>Artifacts of another cycle are left out and declared.\<close>

definition foreign_doc :: "string \<Rightarrow> string \<Rightarrow> string \<Rightarrow> string \<Rightarrow> missing_doc" where
  "foreign_doc cycle what i their_cycle =
     missing_link (''the '' @ what @ '' for cycle '' @ cycle)
       (''the supplied '' @ what @ '' '' @ i @ '' belongs to cycle '' @ their_cycle @ ''; it was left out'')"

definition own :: "string \<Rightarrow> ('a \<Rightarrow> string) \<Rightarrow> 'a option \<Rightarrow> 'a option" where
  "own cycle cycle_of x = (case x of Some a \<Rightarrow> if cycle_of a = cycle then Some a else None | None \<Rightarrow> None)"

definition foreign_artifact :: "string \<Rightarrow> string \<Rightarrow> ('a \<Rightarrow> string) \<Rightarrow> ('a \<Rightarrow> string) \<Rightarrow> 'a option \<Rightarrow> missing_doc list" where
  "foreign_artifact cycle what name_of cycle_of x =
     (case x of Some a \<Rightarrow> if cycle_of a = cycle then [] else [foreign_doc cycle what (name_of a) (cycle_of a)] | None \<Rightarrow> [])"

definition own_ratification :: "evaluation_receipt option \<Rightarrow> ratification_record option \<Rightarrow> (evaluation_receipt \<times> ratification_record) option" where
  "own_ratification receipt rat =
     (case (receipt, rat) of (Some rc, Some r) \<Rightarrow> if er_candidate_id rc = rr_proposal_id r then Some (rc, r) else None | _ \<Rightarrow> None)"

definition foreign_ratification :: "string \<Rightarrow> evaluation_receipt option \<Rightarrow> ratification_record option \<Rightarrow> missing_doc list" where
  "foreign_ratification cycle receipt rat =
     (case (rat, own_ratification receipt rat) of
        (Some r, None) \<Rightarrow>
          [missing_link (''an evaluation receipt of cycle '' @ cycle @ '' for proposal '' @ rr_proposal_id r)
             ''the supplied ratification matches no receipt of this cycle; it was left out'']
      | _ \<Rightarrow> [])"

definition conclusion_parents ::
    "string \<Rightarrow> hypothesis_contract option \<Rightarrow> diagnostic_context option \<Rightarrow> evaluation_receipt option
      \<Rightarrow> (evaluation_receipt \<times> ratification_record) option \<Rightarrow> edge_doc list" where
  "conclusion_parents cycle hypothesis diagnostic receipt rat =
     map (\<lambda>i. edge_to i REL_SUPPORTED_BY)
       ((case (diagnostic, hypothesis) of (Some _, _) \<Rightarrow> [diagnostic_id cycle] | (None, Some h) \<Rightarrow> [hypothesis_node_id h] | (None, None) \<Rightarrow> [])
        @ (case hypothesis of Some h \<Rightarrow> [prediction_id h, falsification_id h] | None \<Rightarrow> [])
        @ (case receipt of Some r \<Rightarrow> [receipt_node_id r, summary_id r] | None \<Rightarrow> [])
        @ (case rat of Some (_, r) \<Rightarrow> [ratification_id r] | None \<Rightarrow> []))"

definition conclusion_doc ::
    "string \<Rightarrow> hypothesis_contract option \<Rightarrow> diagnostic_context option \<Rightarrow> evaluation_receipt option
      \<Rightarrow> (evaluation_receipt \<times> ratification_record) option \<Rightarrow> missing_doc list \<Rightarrow> node_doc" where
  "conclusion_doc cycle hypothesis diagnostic receipt rat left_out =
     (plain_node (conclusion_id cycle) KIND_CONCLUSION
        (case rat of Some (_, r) \<Rightarrow> if rr_status r = ''Ratified'' then STATUS_INFERENCE else STATUS_HYPOTHESIS | None \<Rightarrow> STATUS_HYPOTHESIS)
        (case (diagnostic, hypothesis) of
           (Some d, _) \<Rightarrow> ''RSI proposes changing '' @ dc_target_file d @ '' to address '' @ defect_debug (dc_primary_defect d)
             @ '' (cycle '' @ cycle @ '')''
         | (None, Some h) \<Rightarrow> ''RSI proposes improving '' @ hc_target_metric h @ '' (cycle '' @ cycle @ '')''
         | (None, None) \<Rightarrow> ''RSI recorded no proposal rationale for cycle '' @ cycle)
        (source_doc ''RsiCycle'' cycle None))
     \<lparr>nd_parents := conclusion_parents cycle hypothesis diagnostic receipt rat,
      nd_missing := (case (receipt, hypothesis) of
           (Some r, Some h) \<Rightarrow>
             [missing_link (''an artifact linking candidate '' @ er_candidate_id r @ '' to hypothesis '' @ hc_id h)
                (''both belong to cycle '' @ er_cycle_id r @ '', but no RSI artifact records that the candidate was generated from this hypothesis, so the evaluation is not shown as testing it'')]
         | (None, _) \<Rightarrow> [missing_link (''an evaluation receipt for cycle '' @ cycle) ''none was supplied; the evaluation is incomplete'']
         | _ \<Rightarrow> [])
        @ left_out
        @ (if hypothesis = None then [missing_link ''a hypothesis contract'' ''none was supplied for this cycle''] else []),
      nd_notes := [''this explanation is observational; it does not authorize promotion or any change'']\<rparr>"

definition diagnostic_docs :: "string \<Rightarrow> hypothesis_contract option \<Rightarrow> diagnostic_context option \<Rightarrow> node_doc list" where
  "diagnostic_docs cycle hypothesis diagnostic = (case diagnostic of Some d \<Rightarrow> [diagnostic_doc cycle hypothesis d] | None \<Rightarrow> [])"

definition receipt_docs :: "crates \<Rightarrow> printers \<Rightarrow> evaluation_receipt option \<Rightarrow> node_doc list" where
  "receipt_docs X pf receipt = (case receipt of Some r \<Rightarrow> [receipt_doc X pf r, summary_doc pf r] | None \<Rightarrow> [])"

definition ratification_docs :: "printers \<Rightarrow> (evaluation_receipt \<times> ratification_record) option \<Rightarrow> node_doc list" where
  "ratification_docs pf rat = (case rat of Some (rc, r) \<Rightarrow> [ratification_doc pf rc r] | None \<Rightarrow> [])"

definition own_hypothesis :: "cycle_evidence \<Rightarrow> hypothesis_contract option" where
  "own_hypothesis ev = own (ev_cycle_id ev) hc_cycle_id (ev_hypothesis ev)"

definition own_diagnostic :: "cycle_evidence \<Rightarrow> diagnostic_context option" where
  "own_diagnostic ev = own (ev_cycle_id ev) dc_cycle_id (ev_diagnostic ev)"

definition own_receipt :: "cycle_evidence \<Rightarrow> evaluation_receipt option" where
  "own_receipt ev = own (ev_cycle_id ev) er_cycle_id (ev_receipt ev)"

definition left_out :: "cycle_evidence \<Rightarrow> missing_doc list" where
  "left_out ev =
     foreign_artifact (ev_cycle_id ev) ''hypothesis'' hc_id hc_cycle_id (ev_hypothesis ev)
     @ foreign_artifact (ev_cycle_id ev) ''diagnostic'' dc_target_file dc_cycle_id (ev_diagnostic ev)
     @ foreign_artifact (ev_cycle_id ev) ''evaluation receipt'' er_candidate_id er_cycle_id (ev_receipt ev)
     @ foreign_ratification (ev_cycle_id ev) (own_receipt ev) (ev_ratification ev)"

definition artifact_nodes :: "crates \<Rightarrow> printers \<Rightarrow> cycle_evidence \<Rightarrow> node_doc list" where
  "artifact_nodes X pf ev =
     capability_docs pf (ev_graph ev)
     @ ranking_docs pf (ev_cycle_id ev) (map nd_id (capability_docs pf (ev_graph ev))) (ev_bottlenecks ev)
     @ hypothesis_docs pf (ev_cycle_id ev) (ev_bottlenecks ev) (own_hypothesis ev)
     @ diagnostic_docs (ev_cycle_id ev) (own_hypothesis ev) (own_diagnostic ev)
     @ receipt_docs X pf (own_receipt ev)
     @ ratification_docs pf (own_ratification (own_receipt ev) (ev_ratification ev))"

definition evidence_nodes :: "crates \<Rightarrow> printers \<Rightarrow> cycle_evidence \<Rightarrow> node_doc list" where
  "evidence_nodes X pf ev =
     artifact_nodes X pf ev
     @ [conclusion_doc (ev_cycle_id ev) (own_hypothesis ev) (own_diagnostic ev) (own_receipt ev)
          (own_ratification (own_receipt ev) (ev_ratification ev)) (left_out ev)]"

definition evidence_graph :: "crates \<Rightarrow> printers \<Rightarrow> cycle_evidence \<Rightarrow> evidence_graph_doc" where
  "evidence_graph X pf ev =
     \<lparr>gd_format = FORMAT, gd_version = EXPLAIN_VERSION, gd_producer = PRODUCER, gd_nodes = evidence_nodes X pf ev, gd_truncated_at = []\<rparr>"

end
