(* ===== verification/Explain_Safety.thy ===== *)
theory Explain_Safety
  imports Explain
begin

text \<open>
  What a reader of the evidence graph may rely on: its ids name one node each, every link leads to a node written before, and
  a node is marked verified or observed only for an artifact of this cycle that earns it.
\<close>

section \<open>Links lead backwards\<close>

text \<open>A list of nodes is grounded on a set of ids if every link of a node leads into the set or to a node before it.\<close>

fun grounded_on :: "string set \<Rightarrow> node_doc list \<Rightarrow> bool" where
  "grounded_on K [] = True"
| "grounded_on K (n # ns) \<longleftrightarrow> ed_to ` set (nd_parents n) \<subseteq> K \<and> grounded_on (insert (nd_id n) K) ns"

lemma grounded_append: "grounded_on K (ms @ ns) \<longleftrightarrow> grounded_on K ms \<and> grounded_on (K \<union> nd_id ` set ms) ns"
  by (induction ms arbitrary: K) auto

lemma grounded_free: "\<forall>n \<in> set ns. ed_to ` set (nd_parents n) \<subseteq> K \<Longrightarrow> grounded_on K ns"
proof (induction ns arbitrary: K)
  case (Cons n ns)
  then have "\<forall>m \<in> set ns. ed_to ` set (nd_parents m) \<subseteq> insert (nd_id n) K" by (meson list.set_intros(2) subset_insertI2)
  with Cons show ?case by simp
qed simp

lemma grounded_nth:
  assumes "grounded_on K ns" and "i < length ns" and "e \<in> set (nd_parents (ns ! i))" and "ed_to e \<notin> K"
  shows "\<exists>j < i. nd_id (ns ! j) = ed_to e"
  using assms
proof (induction ns arbitrary: K i)
  case (Cons n ns)
  show ?case
  proof (cases i)
    case 0
    with Cons.prems show ?thesis by auto
  next
    case (Suc k)
    show ?thesis
    proof (cases "ed_to e = nd_id n")
      case True
      with Suc show ?thesis by (intro exI [of _ 0]) simp
    next
      case False
      have "grounded_on (insert (nd_id n) K) ns" "k < length ns" "e \<in> set (nd_parents (ns ! k))" using Cons.prems Suc by simp_all
      moreover have "ed_to e \<notin> insert (nd_id n) K" using False Cons.prems(4) by simp
      ultimately obtain j where "j < k" "nd_id (ns ! j) = ed_to e" using Cons.IH by blast
      with Suc show ?thesis by (intro exI [of _ "Suc j"]) simp
    qed
  qed
qed simp

lemmas doc_simps = plain_node_def edge_to_def Let_def

lemma capability_doc_simps [simp]:
  "nd_id (capability_doc pf c) = capability_node_id (cn_id c)" "nd_parents (capability_doc pf c) = []"
  by (auto simp: capability_doc_def doc_simps split: measurement.splits option.splits)

lemma ranking_doc_simps [simp]:
  "nd_id (analysis_doc pf cycle ids k b) = analysis_id cycle"
  "ed_to ` set (nd_parents (analysis_doc pf cycle ids k b)) = set (take MAX_PARENTS ids)"
  "length (nd_parents (analysis_doc pf cycle ids k b)) \<le> MAX_PARENTS"
  "nd_status (analysis_doc pf cycle ids k b) = STATUS_INFERENCE"
  "nd_id (alternative_doc pf cycle b) = ''rsi:alternative:'' @ cycle @ '':'' @ br_node_id b"
  "nd_parents (alternative_doc pf cycle b) = [edge_to (analysis_id cycle) REL_ALTERNATIVE_TO]"
  "nd_status (alternative_doc pf cycle b) = STATUS_INFERENCE"
  by (simp_all add: analysis_doc_def alternative_doc_def doc_simps image_image)

lemma hypothesis_doc_simps [simp]:
  "nd_id (hypothesis_doc cycle bs h) = hypothesis_node_id h"
  "nd_parents (hypothesis_doc cycle bs h) = (case bs of b # _ \<Rightarrow> if hypothesis_derived_from h b
     then [edge_to (analysis_id cycle) REL_REFERENCES] else [] | [] \<Rightarrow> [])"
  "nd_status (hypothesis_doc cycle bs h) = STATUS_HYPOTHESIS"
  "nd_id (prediction_doc pf h) = prediction_id h" "nd_parents (prediction_doc pf h) = [edge_to (hypothesis_node_id h) REL_PART_OF]"
  "nd_status (prediction_doc pf h) = STATUS_HYPOTHESIS"
  "nd_id (falsification_doc pf h) = falsification_id h" "nd_parents (falsification_doc pf h) = [edge_to (hypothesis_node_id h) REL_PART_OF]"
  "nd_status (falsification_doc pf h) = STATUS_HYPOTHESIS"
  by (auto simp: hypothesis_doc_def prediction_doc_def falsification_doc_def doc_simps split: option.splits list.splits)

lemma other_doc_simps [simp]:
  "nd_id (diagnostic_doc cycle hyp d) = diagnostic_id cycle" "nd_status (diagnostic_doc cycle hyp d) = STATUS_INFERENCE"
  "nd_id (receipt_doc X pf r) = receipt_node_id r" "nd_parents (receipt_doc X pf r) = []"
  "nd_status (receipt_doc X pf r) = (if verify_receipt_digest X r then STATUS_VERIFIED_FACT else STATUS_UNCLASSIFIED)"
  "nd_id (summary_doc pf r) = summary_id r" "nd_parents (summary_doc pf r) = [edge_to (receipt_node_id r) REL_PART_OF]"
  "nd_status (summary_doc pf r) = STATUS_UNCLASSIFIED"
  "nd_id (ratification_doc pf rc q) = ratification_id q" "nd_parents (ratification_doc pf rc q) = [edge_to (receipt_node_id rc) REL_SUPPORTED_BY]"
  "nd_status (ratification_doc pf rc q) = STATUS_DIRECT_OBSERVATION"
  "nd_id (conclusion_doc cycle hyp dia rec rat out) = conclusion_id cycle"
  "nd_parents (conclusion_doc cycle hyp dia rec rat out) = conclusion_parents cycle hyp dia rec rat"
  by (simp_all add: diagnostic_doc_def receipt_doc_def summary_doc_def ratification_doc_def conclusion_doc_def doc_simps)

lemma edge_to_simps [simp]: "ed_to (edge_to i rel) = i"
  by (simp add: edge_to_def)

lemma diagnostic_parents:
  "length (nd_parents (diagnostic_doc cycle hyp d)) \<le> 1"
  "ed_to ` set (nd_parents (diagnostic_doc cycle hyp d)) \<subseteq> (case hyp of Some h \<Rightarrow> {hypothesis_node_id h} | None \<Rightarrow> {})"
  by (auto simp: diagnostic_doc_def doc_simps split: option.splits if_splits)

lemma conclusion_parents_simps:
  "length (conclusion_parents cycle hyp dia rec rat) \<le> 6"
  "ed_to ` set (conclusion_parents cycle hyp dia rec rat) \<subseteq>
     (case dia of Some _ \<Rightarrow> {diagnostic_id cycle} | None \<Rightarrow> {})
     \<union> (case hyp of Some h \<Rightarrow> {hypothesis_node_id h, prediction_id h, falsification_id h} | None \<Rightarrow> {})
     \<union> (case rec of Some r \<Rightarrow> {receipt_node_id r, summary_id r} | None \<Rightarrow> {})
     \<union> (case rat of Some (_, q) \<Rightarrow> {ratification_id q} | None \<Rightarrow> {})"
  by (auto simp: conclusion_parents_def split: option.splits)

lemma own_ratification_receipt: "own_ratification rec q = Some (rc, r) \<Longrightarrow> rec = Some rc \<and> q = Some r \<and> er_candidate_id rc = rr_proposal_id r"
  by (auto simp: own_ratification_def split: option.splits if_splits)

lemma ranking_grounded:
  "set ids \<subseteq> K \<Longrightarrow> grounded_on K (ranking_docs pf cycle ids bs)"
  "nd_id ` set (ranking_docs pf cycle ids bs) \<supseteq> (if bs = [] then {} else {analysis_id cycle})"
proof -
  show "grounded_on K (ranking_docs pf cycle ids bs)" if "set ids \<subseteq> K"
    using that set_take_subset [of MAX_PARENTS ids]
    by (cases bs) (auto simp: ranking_docs_def intro!: grounded_free)
  show "nd_id ` set (ranking_docs pf cycle ids bs) \<supseteq> (if bs = [] then {} else {analysis_id cycle})"
    by (cases bs) (auto simp: ranking_docs_def)
qed

lemma hypothesis_grounded:
  assumes "bs \<noteq> [] \<Longrightarrow> analysis_id cycle \<in> K"
  shows "grounded_on K (hypothesis_docs pf cycle bs hyp)"
  using assms by (cases bs) (auto simp: hypothesis_docs_def split: option.split)

lemma hypothesis_ids:
  "nd_id ` set (hypothesis_docs pf cycle bs hyp) =
     (case hyp of Some h \<Rightarrow> {hypothesis_node_id h, prediction_id h, falsification_id h} | None \<Rightarrow> {})"
  by (cases hyp) (simp_all add: hypothesis_docs_def)

lemma other_ids:
  "nd_id ` set (diagnostic_docs cycle hyp dia) = (case dia of Some _ \<Rightarrow> {diagnostic_id cycle} | None \<Rightarrow> {})"
  "nd_id ` set (receipt_docs X pf rec) = (case rec of Some r \<Rightarrow> {receipt_node_id r, summary_id r} | None \<Rightarrow> {})"
  "nd_id ` set (ratification_docs pf rat) = (case rat of Some (_, q) \<Rightarrow> {ratification_id q} | None \<Rightarrow> {})"
  by (cases dia; cases rec; cases rat; auto simp: diagnostic_docs_def receipt_docs_def ratification_docs_def)+

lemma evidence_grounded: "grounded_on {} (evidence_nodes X pf ev)"
proof -
  define caps hyp dia rec where "caps = capability_docs pf (ev_graph ev)" "hyp = own_hypothesis ev" "dia = own_diagnostic ev" "rec = own_receipt ev"
  define rat where "rat = own_ratification rec (ev_ratification ev)"
  let ?cy = "ev_cycle_id ev" and ?bs = "ev_bottlenecks ev"
  let ?rank = "ranking_docs pf ?cy (map nd_id caps) ?bs" and ?hyps = "hypothesis_docs pf ?cy ?bs hyp"
  let ?dias = "diagnostic_docs ?cy hyp dia" and ?recs = "receipt_docs X pf rec" and ?rats = "ratification_docs pf rat"
  have nodes: "evidence_nodes X pf ev = caps @ ?rank @ ?hyps @ ?dias @ ?recs @ ?rats @ [conclusion_doc ?cy hyp dia rec rat (left_out ev)]"
    by (simp add: evidence_nodes_def artifact_nodes_def caps_hyp_dia_rec_def rat_def)
  have caps: "grounded_on {} caps" by (intro grounded_free) (auto simp: caps_hyp_dia_rec_def capability_docs_def split: option.splits)
  have rank: "grounded_on K ?rank" if "nd_id ` set caps \<subseteq> K" for K using that by (intro ranking_grounded(1)) simp
  have hyps: "grounded_on K ?hyps" if "nd_id ` set ?rank \<subseteq> K" for K
    using that ranking_grounded(2) [of ?bs ?cy pf "map nd_id caps"] by (intro hypothesis_grounded) auto
  have dias: "grounded_on K ?dias" if "nd_id ` set ?hyps \<subseteq> K" for K
  proof (cases dia)
    case (Some d)
    have "(case hyp of Some h \<Rightarrow> {hypothesis_node_id h} | None \<Rightarrow> {}) \<subseteq> K" using that by (cases hyp) (simp_all add: hypothesis_ids)
    with diagnostic_parents(2) [of ?cy hyp d] have "ed_to ` set (nd_parents (diagnostic_doc ?cy hyp d)) \<subseteq> K" by (rule order_trans)
    with Some show ?thesis by (simp add: diagnostic_docs_def)
  qed (simp add: diagnostic_docs_def)
  have recs: "grounded_on K ?recs" for K by (simp add: receipt_docs_def split: option.split)
  have rats: "grounded_on K ?rats" if "nd_id ` set ?recs \<subseteq> K" for K
    using that own_ratification_receipt [of rec "ev_ratification ev"]
    by (auto simp: rat_def other_ids ratification_docs_def split: option.splits prod.splits)
  have "ed_to ` set (conclusion_parents ?cy hyp dia rec rat) \<subseteq> nd_id ` set ?dias \<union> nd_id ` set ?hyps \<union> nd_id ` set ?recs \<union> nd_id ` set ?rats"
    using conclusion_parents_simps(2) [of ?cy hyp dia rec rat] unfolding hypothesis_ids other_ids by blast
  then have conc: "ed_to ` set (conclusion_parents ?cy hyp dia rec rat) \<subseteq> K"
    if "nd_id ` set ?dias \<union> nd_id ` set ?hyps \<union> nd_id ` set ?recs \<union> nd_id ` set ?rats \<subseteq> K" for K using that by blast
  show ?thesis
    unfolding nodes grounded_append grounded_on.simps other_doc_simps
    by (intro conjI caps rank hyps dias recs rats conc TrueI) blast+
qed

section \<open>Ids are unique\<close>

lemmas id_defs = capability_node_id_def analysis_id_def hypothesis_node_id_def prediction_id_def falsification_id_def
  diagnostic_id_def receipt_node_id_def summary_id_def ratification_id_def conclusion_id_def

text \<open>The node map of a graph is keyed by the ids of its nodes, as \<open>add_node\<close> leaves it.\<close>

definition keyed_graph :: "capability_graph \<Rightarrow> bool" where
  "keyed_graph g \<longleftrightarrow> distinct (node_ids g) \<and> list_all (\<lambda>(i, n). cn_id n = i) (cg_nodes g)"

lemma capability_ids:
  assumes "\<And>g. ev_graph ev = Some g \<Longrightarrow> keyed_graph g"
  shows "distinct (map nd_id (capability_docs pf (ev_graph ev)))"
    and "nd_id ` set (capability_docs pf (ev_graph ev)) \<subseteq> range capability_node_id"
proof -
  show "distinct (map nd_id (capability_docs pf (ev_graph ev)))"
  proof (cases "ev_graph ev")
    case (Some g)
    have "map (cn_id \<circ> snd) (cg_nodes g) = node_ids g"
      using assms [OF Some] by (auto simp: keyed_graph_def node_ids_def list_all_iff)
    moreover have "mset (map cn_id (sort_key cn_id (map snd (cg_nodes g)))) = mset (map (cn_id \<circ> snd) (cg_nodes g))"
      by (simp add: multiset.map_comp)
    ultimately have "distinct (map cn_id (sort_key cn_id (map snd (cg_nodes g))))"
      using assms [OF Some] by (metis keyed_graph_def mset_eq_imp_distinct_iff)
    then have "distinct (map (\<lambda>c. capability_node_id (cn_id c)) (sort_key cn_id (map snd (cg_nodes g))))"
      unfolding distinct_map by (auto simp: inj_on_def capability_node_id_def)
    with Some show ?thesis by (simp add: capability_docs_def o_def)
  qed (simp add: capability_docs_def)
  show "nd_id ` set (capability_docs pf (ev_graph ev)) \<subseteq> range capability_node_id"
    by (auto simp: capability_docs_def split: option.splits)
qed

lemma ranking_ids:
  assumes "distinct (map br_node_id bs)"
  shows "distinct (map nd_id (ranking_docs pf cycle ids bs))"
    and "nd_id ` set (ranking_docs pf cycle ids bs) \<subseteq> {analysis_id cycle} \<union> range (\<lambda>i. ''rsi:alternative:'' @ i)"
proof -
  show "distinct (map nd_id (ranking_docs pf cycle ids bs))"
  proof (cases bs)
    case (Cons b rest)
    with assms have "distinct (map br_node_id (take MAX_ALTERNATIVES rest))" by (simp add: distinct_take flip: take_map)
    then have "distinct (map (\<lambda>b. ''rsi:alternative:'' @ cycle @ '':'' @ br_node_id b) (take MAX_ALTERNATIVES rest))"
      unfolding distinct_map by (auto simp: inj_on_def)
    with Cons show ?thesis by (auto simp: ranking_docs_def o_def analysis_id_def)
  qed (simp add: ranking_docs_def)
  show "nd_id ` set (ranking_docs pf cycle ids bs) \<subseteq> {analysis_id cycle} \<union> range (\<lambda>i. ''rsi:alternative:'' @ i)"
    by (cases bs) (auto simp: ranking_docs_def)
qed

text \<open>Ids of different sections differ in their first six characters.\<close>

definition tagged :: "string set \<Rightarrow> string list \<Rightarrow> bool" where
  "tagged T is \<longleftrightarrow> distinct is \<and> (\<forall>i \<in> set is. take 6 i \<in> T)"

lemma tagged_append: "tagged S xs \<Longrightarrow> tagged T ys \<Longrightarrow> S \<inter> T = {} \<Longrightarrow> tagged (S \<union> T) (xs @ ys)"
  unfolding tagged_def by auto

lemma section_tags:
  "tagged {''rsi:hy''} (map nd_id (hypothesis_docs pf cycle bs hyp))"
  "tagged {''rsi:di''} (map nd_id (diagnostic_docs cycle hyp dia))"
  "tagged {''rsi:re''} (map nd_id (receipt_docs X pf rec))"
  "tagged {''rsi:ra''} (map nd_id (ratification_docs pf rat))"
  "tagged {''rsi:co''} [conclusion_id cycle]"
  by (auto simp: tagged_def hypothesis_docs_def diagnostic_docs_def receipt_docs_def ratification_docs_def id_defs split: option.split)

lemma distinct_ids:
  assumes "\<And>g. ev_graph ev = Some g \<Longrightarrow> keyed_graph g" and "distinct (map br_node_id (ev_bottlenecks ev))"
  shows "distinct (map nd_id (evidence_nodes X pf ev))"
proof -
  note caps = capability_ids [of ev pf, OF assms(1), simplified]
  note rank = ranking_ids [OF assms(2), of pf "ev_cycle_id ev" "map nd_id (capability_docs pf (ev_graph ev))"]
  have cap_tag: "tagged {''rsi:ca''} (map nd_id (capability_docs pf (ev_graph ev)))"
    using caps by (auto simp: tagged_def capability_node_id_def)
  have rank_tag: "tagged {''rsi:bo'', ''rsi:al''} (map nd_id (ranking_docs pf (ev_cycle_id ev) (map nd_id (capability_docs pf (ev_graph ev))) (ev_bottlenecks ev)))"
    using rank by (auto simp: tagged_def analysis_id_def)
  have "tagged ({''rsi:ca''} \<union> ({''rsi:bo'', ''rsi:al''} \<union> ({''rsi:hy''} \<union> ({''rsi:di''} \<union> ({''rsi:re''} \<union> ({''rsi:ra''} \<union> {''rsi:co''}))))))
      (map nd_id (evidence_nodes X pf ev))"
    unfolding evidence_nodes_def artifact_nodes_def map_append append_assoc list.map other_doc_simps
    by (intro tagged_append section_tags cap_tag rank_tag) simp_all
  then show ?thesis by (auto simp: tagged_def)
qed

section \<open>Properties\<close>

lemma parents_bounded: "n \<in> set (evidence_nodes X pf ev) \<Longrightarrow> length (nd_parents n) \<le> MAX_PARENTS"
proof -
  have six: "k \<le> 6 \<Longrightarrow> k \<le> MAX_PARENTS" for k by (simp add: MAX_PARENTS_def)
  assume "n \<in> set (evidence_nodes X pf ev)"
  then show ?thesis
    unfolding evidence_nodes_def artifact_nodes_def
    using diagnostic_parents(1) conclusion_parents_simps(1) ranking_doc_simps(3)
    by (fastforce simp: capability_docs_def ranking_docs_def hypothesis_docs_def diagnostic_docs_def receipt_docs_def ratification_docs_def
        intro: six le_trans split: option.splits list.splits prod.splits if_splits)
qed

lemma contains_here: "contains p (p @ b)"
  by (cases "p @ b") (auto simp: starts_with_def, metis append_eq_conv_conj)

lemma bottleneck_hypothesis_derived: "hypothesis_derived_from (from_bottleneck fixed i cycle b pct) b"
  by (simp add: hypothesis_derived_from_def from_bottleneck_def exploratory_def new_contract_def latency_claim_def Let_def
      is_exploratory_def EXPLORATORY_TARGET_METRIC_def contains_here split: option.split)

text \<open>The engine's own graph and ranking meet the hypotheses of the properties.\<close>

lemma keyed_add_node: "keyed_graph g \<Longrightarrow> keyed_graph (add_node n g)"
  unfolding keyed_graph_def add_node_def node_ids_def
proof -
  have "set (AList.update k v al) \<subseteq> insert (k, v) (set al)" for k :: string and v :: capability_node and al by (induction al) auto
  then show "distinct (map fst (cg_nodes g)) \<and> list_all (\<lambda>(i, n). cn_id n = i) (cg_nodes g) \<Longrightarrow>
    distinct (map fst (cg_nodes (g\<lparr>cg_nodes := AList.update (cn_id n) n (cg_nodes g)\<rparr>)))
    \<and> list_all (\<lambda>(i, n). cn_id n = i) (cg_nodes (g\<lparr>cg_nodes := AList.update (cn_id n) n (cg_nodes g)\<rparr>))"
    by (fastforce simp: distinct_update list_all_iff)
qed

lemma keyed_pipeline:
  assumes "build_capability_graph m = Ok g"
  shows "keyed_graph g"
proof -
  have stages: "keyed_graph h \<Longrightarrow> add_stages m sts h = Ok g' \<Longrightarrow> keyed_graph g'" for sts h g'
    by (induction sts arbitrary: h) (auto simp: and_then_Ok intro: keyed_add_node)
  have chain: "keyed_graph h \<Longrightarrow> keyed_graph (add_chain sts h)" for sts h
    by (induction sts h rule: add_chain.induct) (simp_all add: add_edge_def keyed_graph_def node_ids_def)
  have "keyed_graph new_graph" by (simp add: keyed_graph_def new_graph_def node_ids_def)
  with assms show ?thesis by (auto simp: build_capability_graph_def and_then_Ok intro: stages chain)
qed

lemma capability_status:
  "nd_status (capability_doc pf c) = (if cn_measurement c = MeasuredNode \<and> cn_latency_median_us c \<noteq> None
     then STATUS_DIRECT_OBSERVATION else STATUS_UNCLASSIFIED)"
  by (auto simp: capability_doc_def doc_simps split: measurement.splits option.splits)

lemma conclusion_status: "nd_status (conclusion_doc cycle hyp dia rec rat out) \<in> {STATUS_INFERENCE, STATUS_HYPOTHESIS}"
  by (auto simp: conclusion_doc_def plain_node_def split: option.splits)

text \<open>The nodes that are marked verified or observed.\<close>

lemma evidence_cases:
  assumes "n \<in> set (evidence_nodes X pf ev)"
  obtains g c where "ev_graph ev = Some g" "c \<in> snd ` set (cg_nodes g)" "n = capability_doc pf c"
  | r where "own_receipt ev = Some r" "n = receipt_doc X pf r"
  | rc r where "own_receipt ev = Some rc" "ev_ratification ev = Some r" "er_candidate_id rc = rr_proposal_id r" "n = ratification_doc pf rc r"
  | "nd_status n \<in> {STATUS_UNCLASSIFIED, STATUS_INFERENCE, STATUS_HYPOTHESIS}"
proof -
  consider "n \<in> set (capability_docs pf (ev_graph ev))"
    | ids where "n \<in> set (ranking_docs pf (ev_cycle_id ev) ids (ev_bottlenecks ev))"
    | "n \<in> set (hypothesis_docs pf (ev_cycle_id ev) (ev_bottlenecks ev) (own_hypothesis ev))"
    | "n \<in> set (diagnostic_docs (ev_cycle_id ev) (own_hypothesis ev) (own_diagnostic ev))"
    | "n \<in> set (receipt_docs X pf (own_receipt ev))"
    | "n \<in> set (ratification_docs pf (own_ratification (own_receipt ev) (ev_ratification ev)))"
    | hyp dia rec rat out where "n = conclusion_doc (ev_cycle_id ev) hyp dia rec rat out"
    using assms unfolding evidence_nodes_def artifact_nodes_def by fastforce
  then show thesis
  proof cases
    case 1
    then obtain g where "ev_graph ev = Some g" "n \<in> capability_doc pf ` snd ` set (cg_nodes g)"
      by (cases "ev_graph ev") (auto simp: capability_docs_def image_image)
    then show ?thesis using that(1) by blast
  next
    case 2
    then show ?thesis by (intro that(4)) (auto simp: ranking_docs_def split: list.splits)
  next
    case 3
    then show ?thesis by (intro that(4)) (auto simp: hypothesis_docs_def split: option.splits)
  next
    case 4
    then show ?thesis by (intro that(4)) (auto simp: diagnostic_docs_def split: option.splits)
  next
    case 5
    then obtain r where "own_receipt ev = Some r" "n = receipt_doc X pf r \<or> n = summary_doc pf r"
      by (cases "own_receipt ev") (auto simp: receipt_docs_def)
    then show ?thesis using that(2,4) by auto
  next
    case 6
    then obtain rc r where "own_ratification (own_receipt ev) (ev_ratification ev) = Some (rc, r)" "n = ratification_doc pf rc r"
      by (cases "own_ratification (own_receipt ev) (ev_ratification ev)") (auto simp: ratification_docs_def)
    then show ?thesis using that(3) own_ratification_receipt by blast
  next
    case 7
    then show ?thesis using conclusion_status by (intro that(4)) auto
  qed
qed

lemma own_receipt_Some: "own_receipt ev = Some r \<longleftrightarrow> ev_receipt ev = Some r \<and> er_cycle_id r = ev_cycle_id ev"
  by (auto simp: own_receipt_def own_def split: option.splits)

text \<open>C35: The evidence graph is well formed.  Every node has its own id and at most the contract's number of links, every link
  leads to a node that comes before it, so the graph has no cycles and no dangling links, and the last node is the
  conclusion of the cycle.  The capability graph must be keyed by the ids of its nodes and the ranking must name every
  capability once, as the engine's own are.\<close>

theorem evidence_graph_is_grounded:
  assumes "\<And>g. ev_graph ev = Some g \<Longrightarrow> keyed_graph g" and "distinct (map br_node_id (ev_bottlenecks ev))"
    and "nodes = gd_nodes (evidence_graph X pf ev)"
  shows "distinct (map nd_id nodes) \<and> nd_id (last nodes) = conclusion_id (ev_cycle_id ev)
     \<and> (\<forall>i < length nodes. length (nd_parents (nodes ! i)) \<le> MAX_PARENTS
          \<and> (\<forall>e \<in> set (nd_parents (nodes ! i)). \<exists>j < i. nd_id (nodes ! j) = ed_to e))"
proof -
  have nodes: "nodes = evidence_nodes X pf ev" using assms(3) by (simp add: evidence_graph_def)
  moreover have "nd_id (last (evidence_nodes X pf ev)) = conclusion_id (ev_cycle_id ev)" by (simp add: evidence_nodes_def)
  ultimately show ?thesis
    using distinct_ids [OF assms(1,2)] grounded_nth [OF evidence_grounded] by (auto intro: parents_bounded nth_mem)
qed

text \<open>C20: Evidence is marked no stronger than it is.  A node marked as verified is the receipt of this very cycle, its digest
  matches its contents, and the node names that digest; a node marked as observed is a stage with a measured latency or the
  ratification of the candidate that this cycle's receipt is for.  Nothing else in the graph has either mark.\<close>

theorem evidence_status_is_earned:
  assumes "n \<in> set (gd_nodes (evidence_graph X pf ev))"
    and "nd_status n = STATUS_VERIFIED_FACT \<or> nd_status n = STATUS_DIRECT_OBSERVATION"
  shows "(\<exists>r. ev_receipt ev = Some r \<and> er_cycle_id r = ev_cycle_id ev \<and> verify_receipt_digest X r
        \<and> n = receipt_doc X pf r \<and> sd_digest (nd_source n) = Some (er_receipt_digest r) \<and> nd_status n = STATUS_VERIFIED_FACT)
     \<or> (\<exists>g c. ev_graph ev = Some g \<and> c \<in> snd ` set (cg_nodes g) \<and> cn_measurement c = MeasuredNode
        \<and> cn_latency_median_us c \<noteq> None \<and> n = capability_doc pf c \<and> nd_status n = STATUS_DIRECT_OBSERVATION)
     \<or> (\<exists>rc r. ev_receipt ev = Some rc \<and> er_cycle_id rc = ev_cycle_id ev \<and> ev_ratification ev = Some r
        \<and> er_candidate_id rc = rr_proposal_id r \<and> n = ratification_doc pf rc r \<and> nd_status n = STATUS_DIRECT_OBSERVATION)"
proof -
  have "n \<in> set (evidence_nodes X pf ev)" using assms(1) by (simp add: evidence_graph_def)
  then show ?thesis
  proof (cases rule: evidence_cases)
    case (1 g c)
    with assms(2) show ?thesis by (auto simp: capability_status status_codes split: if_splits)
  next
    case (2 r)
    moreover have "sd_digest (nd_source (receipt_doc X pf r)) = Some (er_receipt_digest r)"
      by (simp add: receipt_doc_def doc_simps source_doc_def)
    ultimately show ?thesis using assms(2) by (auto simp: own_receipt_Some status_codes split: if_splits)
  next
    case (3 rc r)
    then show ?thesis by (auto simp: own_receipt_Some)
  next
    case 4
    with assms(2) show ?thesis by (auto simp: status_codes)
  qed
qed

text \<open>Artifacts of other cycles are left out: the graph is the one without them, except that the conclusion declares each.\<close>

definition without_foreign :: "cycle_evidence \<Rightarrow> cycle_evidence" where
  "without_foreign ev = ev\<lparr>ev_hypothesis := own_hypothesis ev, ev_diagnostic := own_diagnostic ev, ev_receipt := own_receipt ev,
     ev_ratification := map_option snd (own_ratification (own_receipt ev) (ev_ratification ev))\<rparr>"

lemma without_foreign_own:
  "own_hypothesis (without_foreign ev) = own_hypothesis ev" "own_diagnostic (without_foreign ev) = own_diagnostic ev"
  "own_receipt (without_foreign ev) = own_receipt ev" "left_out (without_foreign ev) = []"
  "own_ratification (own_receipt ev) (ev_ratification (without_foreign ev)) =
     own_ratification (own_receipt ev) (ev_ratification ev)"
  by (auto simp: without_foreign_def own_hypothesis_def own_diagnostic_def own_receipt_def own_def own_ratification_def
      left_out_def foreign_artifact_def foreign_ratification_def split: option.splits if_splits)

theorem foreign_artifacts_are_left_out:
  "artifact_nodes X pf ev = artifact_nodes X pf (without_foreign ev)
     \<and> nd_parents (last (evidence_nodes X pf ev)) = nd_parents (last (evidence_nodes X pf (without_foreign ev)))
     \<and> set (left_out ev) \<subseteq> set (nd_missing (last (evidence_nodes X pf ev)))
     \<and> (\<forall>h. ev_hypothesis ev = Some h \<and> hc_cycle_id h \<noteq> ev_cycle_id ev \<longrightarrow>
          foreign_doc (ev_cycle_id ev) ''hypothesis'' (hc_id h) (hc_cycle_id h) \<in> set (left_out ev))
     \<and> (\<forall>d. ev_diagnostic ev = Some d \<and> dc_cycle_id d \<noteq> ev_cycle_id ev \<longrightarrow>
          foreign_doc (ev_cycle_id ev) ''diagnostic'' (dc_target_file d) (dc_cycle_id d) \<in> set (left_out ev))
     \<and> (\<forall>r. ev_receipt ev = Some r \<and> er_cycle_id r \<noteq> ev_cycle_id ev \<longrightarrow>
          foreign_doc (ev_cycle_id ev) ''evaluation receipt'' (er_candidate_id r) (er_cycle_id r) \<in> set (left_out ev))"
proof -
  have same: "ev_cycle_id (without_foreign ev) = ev_cycle_id ev" "ev_graph (without_foreign ev) = ev_graph ev"
      "ev_bottlenecks (without_foreign ev) = ev_bottlenecks ev"
    by (simp_all add: without_foreign_def)
  show ?thesis
    by (auto simp: artifact_nodes_def evidence_nodes_def same without_foreign_own conclusion_doc_def left_out_def foreign_artifact_def)
qed

text \<open>The hypothesis that the daemon builds from the top bottleneck is valid and linked to the ranking.\<close>

theorem cycle_hypothesis_is_linked:
  assumes "cycle_hypothesis fixed uuid cycle (Some b) pct = Some h"
    and "ev_cycle_id ev = cycle" and "ev_hypothesis ev = Some h" and "ev_bottlenecks ev = b # rest"
  shows "\<exists>n \<in> set (gd_nodes (evidence_graph X pf ev)). nd_id n = hypothesis_node_id h
     \<and> nd_parents n = [edge_to (analysis_id cycle) REL_REFERENCES]"
proof -
  from assms(1) have h: "hypothesis_derived_from h b" "hc_cycle_id h = cycle"
    using bottleneck_hypothesis_derived [of fixed "''hypo-'' @ uuid" cycle b pct]
    by (auto simp: cycle_hypothesis_def with_falsification_test_def with_protected_metric_def hypothesis_derived_from_def
        latency_claim_def is_exploratory_def from_bottleneck_def exploratory_def new_contract_def split: option.splits)
  then have "own_hypothesis ev = Some h" using assms by (simp add: own_hypothesis_def own_def)
  then have "hypothesis_doc cycle (b # rest) h \<in> set (gd_nodes (evidence_graph X pf ev))"
    using assms by (simp add: evidence_graph_def evidence_nodes_def artifact_nodes_def hypothesis_docs_def)
  with h show ?thesis by (intro bexI [of _ "hypothesis_doc cycle (b # rest) h"]) simp_all
qed

section \<open>An example\<close>

definition told_receipt :: evaluation_receipt where
  "told_receipt = \<lparr>er_cycle_id = ''c1'', er_candidate_id = ''p1'', er_parent_id = ''parent'', er_evaluated_at = [], er_evaluator_version = [],
     er_passed_all_hard_invariants = True, er_passed_statistical_gates = True, er_admitted = True, er_layer_results = [],
     er_metrics_summary = None, er_receipt_digest = compute_digest sample ''c1'' ''p1'' ''parent'' True [], er_signature = None,
     er_format_version = 1, er_binding = None\<rparr>"

definition told_evidence :: cycle_evidence where
  "told_evidence = \<lparr>ev_cycle_id = ''c1'', ev_graph = Some (add_node (new_node ''a'' [] []) (add_node (new_node ''b'' [] []) new_graph)),
     ev_bottlenecks = [], ev_hypothesis = Some (exploratory ''h1'' ''c1'' ''slow'' ''unknown''), ev_diagnostic = None,
     ev_receipt = Some told_receipt, ev_ratification = None\<rparr>"

definition plain_printers :: printers where
  "plain_printers = \<lparr>pf_fixed = (\<lambda>_ _. []), pf_number = (\<lambda>_ _. []), pf_bits = (\<lambda>_ _. []), pf_graph_error = (\<lambda>_. []), pf_message = (\<lambda>_. [])\<rparr>"

theorem evidence_graph_is_grounded_witness:
  "distinct (map nd_id (gd_nodes (evidence_graph sample plain_printers told_evidence)))
     \<and> nd_id (last (gd_nodes (evidence_graph sample plain_printers told_evidence))) = ''rsi:conclusion:c1''"
proof -
  have "keyed_graph g" if "ev_graph told_evidence = Some g" for g
  proof -
    have "keyed_graph new_graph" by (simp add: keyed_graph_def new_graph_def node_ids_def)
    with that show ?thesis by (auto simp: told_evidence_def intro!: keyed_add_node)
  qed
  then show ?thesis
    using evidence_graph_is_grounded [OF _ _ refl, of told_evidence sample plain_printers]
    by (simp add: told_evidence_def conclusion_id_def)
qed

theorem evidence_status_is_earned_witness:
  "nd_status (receipt_doc sample plain_printers told_receipt) = STATUS_VERIFIED_FACT
     \<and> (\<exists>r. ev_receipt told_evidence = Some r \<and> er_cycle_id r = ''c1'' \<and> verify_receipt_digest sample r)"
proof -
  have ok: "verify_receipt_digest sample told_receipt" by (simp add: verify_receipt_digest_def told_receipt_def)
  have own: "own_receipt told_evidence = Some told_receipt" by (simp add: own_receipt_Some told_evidence_def told_receipt_def)
  then have "receipt_doc sample plain_printers told_receipt \<in> set (gd_nodes (evidence_graph sample plain_printers told_evidence))"
    by (simp add: evidence_graph_def evidence_nodes_def artifact_nodes_def receipt_docs_def)
  from evidence_status_is_earned [OF this] ok show ?thesis
    by (auto simp: told_evidence_def status_codes)
qed

end
