(* ===== verification/Statistics.thy ===== *)
theory Statistics
  imports Graph_Safety Governance
begin

unbundle bit_operations_syntax

text \<open>
  The statistics of the performance layer (\<open>src/src/evaluator/stats.rs\<close>, \<open>src/src/evaluator/metrics.rs\<close>): the generator, the
  bootstrap of paired differences, and the bound on the degradation of a tail percentile.

  Samples are finite \<open>f64\<close> values, as rationals; every operation rounds to 53 significant bits, with the sign kept aside.
  Latencies are microseconds of a clock, far from the limits of the exponent.
\<close>

definition f64_plus :: "rat \<Rightarrow> rat \<Rightarrow> rat" where "f64_plus a b = f64_signed (a + b)"
definition f64_minus :: "rat \<Rightarrow> rat \<Rightarrow> rat" where "f64_minus a b = f64_signed (a - b)"
definition f64_times :: "rat \<Rightarrow> rat \<Rightarrow> rat" where "f64_times a b = f64_signed (a * b)"
definition f64_over :: "rat \<Rightarrow> rat \<Rightarrow> rat" where "f64_over a b = f64_signed (a / b)"

section \<open>The generator\<close>

record prng =
  pg_s0 :: u64
  pg_s1 :: u64
  pg_s2 :: u64
  pg_s3 :: u64

definition splitmix :: "u64 \<Rightarrow> u64 \<times> u64" where
  "splitmix sm =
     (let sm = sm + 0x9e3779b97f4a7c15;
          z = (sm XOR drop_bit 30 sm) * 0xbf58476d1ce4e5b9;
          z = (z XOR drop_bit 27 z) * 0x94d049bb133111eb in
      (z XOR drop_bit 31 z, sm))"

definition new_prng :: "u64 \<Rightarrow> prng" where
  "new_prng seed =
     (let (s0, sm) = splitmix seed; (s1, sm) = splitmix sm; (s2, sm) = splitmix sm; (s3, sm) = splitmix sm in
      \<lparr>pg_s0 = (if s0 = 0 then 1 else s0), pg_s1 = (if s1 = 0 then 2 else s1),
       pg_s2 = (if s2 = 0 then 3 else s2), pg_s3 = (if s3 = 0 then 4 else s3)\<rparr>)"

definition next_u64 :: "prng \<Rightarrow> u64 \<times> prng" where
  "next_u64 g =
     (let res = word_rotl 23 (pg_s0 g + pg_s3 g) + pg_s0 g; t = push_bit 17 (pg_s1 g);
          s2 = pg_s2 g XOR pg_s0 g; s3 = pg_s3 g XOR pg_s1 g;
          s1 = pg_s1 g XOR s2; s0 = pg_s0 g XOR s3;
          s2 = s2 XOR t; s3 = word_rotl 45 s3 in
      (res, \<lparr>pg_s0 = s0, pg_s1 = s1, pg_s2 = s2, pg_s3 = s3\<rparr>))"

definition gen_range :: "nat \<Rightarrow> prng \<Rightarrow> nat \<times> prng" where
  "gen_range upper g = (if upper \<le> 1 then (0, g) else let (x, g) = next_u64 g in (unat x mod upper, g))"

text \<open>\<open>draws n k\<close>: \<open>k\<close> calls of \<open>gen_range(n)\<close>.\<close>

fun draws :: "nat \<Rightarrow> nat \<Rightarrow> prng \<Rightarrow> nat list \<times> prng" where
  "draws n 0 g = ([], g)"
| "draws n (Suc k) g = (let (i, g) = gen_range n g; (is, g) = draws n k g in (i # is, g))"

section \<open>Percentiles\<close>

definition calculate_percentile :: "rat list \<Rightarrow> rat \<Rightarrow> rat" where
  "calculate_percentile samples pct =
     (let n = length samples in
      if n = 0 then 0
      else if n = 1 then samples ! 0
      else
        let clamped = min (max pct 0) 100;
            rank = f64_times (f64_over clamped 100) (f64_round (of_nat (n - 1)));
            low = nat \<lfloor>rank\<rfloor>; high = nat \<lceil>rank\<rceil> in
        if low = high then samples ! low
        else
          let weight = f64_minus rank (f64_round (of_nat low)) in
          f64_plus (f64_times (samples ! low) (f64_minus 1 weight)) (f64_times (samples ! high) weight))"

section \<open>The bootstrap of paired differences\<close>

record bootstrap_estimate =
  be_sample_size :: nat
  be_resamples_count :: nat
  be_observed_parent_mean :: rat
  be_observed_candidate_mean :: rat
  be_observed_delta_mean :: rat
  be_delta_pct :: rat
  be_ci_99_lower :: rat
  be_ci_99_upper :: rat
  be_p_value :: rat
  be_significant :: bool

datatype stat_error = PairLengths nat nat | NoLatencies

definition DEFAULT_BOOTSTRAP_RESAMPLES :: nat where "DEFAULT_BOOTSTRAP_RESAMPLES = 10000"

definition f64_sum :: "rat list \<Rightarrow> rat" where "f64_sum = foldl f64_plus 0"

definition f64_mean :: "rat list \<Rightarrow> nat \<Rightarrow> rat" where "f64_mean xs m = f64_over (f64_sum xs) (f64_round (of_nat m))"

fun boot_means :: "rat list \<Rightarrow> nat \<Rightarrow> prng \<Rightarrow> rat list" where
  "boot_means deltas 0 g = []"
| "boot_means deltas (Suc b) g =
     (let (is, g) = draws (length deltas) (length deltas) g in f64_mean (map (\<lambda>i. deltas ! i) is) (length deltas) # boot_means deltas b g)"

definition resample_count :: "nat \<Rightarrow> nat" where
  "resample_count b = (if b > 0 then b else DEFAULT_BOOTSTRAP_RESAMPLES)"

definition two_sided_p :: "rat list \<Rightarrow> rat" where
  "two_sided_p means =
     (let b = f64_round (of_nat (length means));
          leq = length (filter (\<lambda>v. v \<le> 0) means); geq = length (filter (\<lambda>v. v \<ge> 0) means) in
      min (f64_times 2 (f64_over (f64_round (of_nat (min leq geq))) b)) 1)"

definition paired_deltas :: "rat list \<Rightarrow> rat list \<Rightarrow> rat list" where
  "paired_deltas parent candidate = map2 (\<lambda>p c. f64_minus c p) parent candidate"

definition bootstrap_means :: "rat list \<Rightarrow> rat list \<Rightarrow> nat \<Rightarrow> u64 option \<Rightarrow> rat list" where
  "bootstrap_means parent candidate resamples seed =
     sort (boot_means (paired_deltas parent candidate) (resample_count resamples)
       (new_prng (case seed of Some s \<Rightarrow> s | None \<Rightarrow> 0x1337c0d3beef)))"

definition estimate_of :: "rat list \<Rightarrow> rat list \<Rightarrow> nat \<Rightarrow> u64 option \<Rightarrow> bootstrap_estimate" where
  "estimate_of parent candidate resamples seed =
     (let m = length parent; deltas = paired_deltas parent candidate;
          parent_mean = f64_mean parent m; candidate_mean = f64_mean candidate m; delta_mean = f64_mean deltas m;
          delta_pct = (if f64_const (1 / 1000000000) < \<bar>parent_mean\<bar>
            then f64_times (f64_over delta_mean parent_mean) 100 else 0);
          b = resample_count resamples; bf = f64_round (of_nat b); means = bootstrap_means parent candidate resamples seed;
          lower = means ! min (nat \<lfloor>f64_times (f64_const (5 / 1000)) bf\<rfloor>) (b - 1);
          upper = means ! min (nat \<lceil>f64_times (f64_const (995 / 1000)) bf\<rceil>) (b - 1);
          p = two_sided_p means in
      \<lparr>be_sample_size = m, be_resamples_count = b, be_observed_parent_mean = parent_mean,
       be_observed_candidate_mean = candidate_mean, be_observed_delta_mean = delta_mean, be_delta_pct = delta_pct,
       be_ci_99_lower = lower, be_ci_99_upper = upper, be_p_value = p,
       be_significant = (p < f64_const (1 / 100) \<and> (lower > 0 \<or> upper < 0))\<rparr>)"

definition bootstrap_paired_comparison ::
    "rat list \<Rightarrow> rat list \<Rightarrow> nat \<Rightarrow> u64 option \<Rightarrow> stat_error + bootstrap_estimate" where
  "bootstrap_paired_comparison parent candidate resamples seed =
     (if parent = [] \<or> length parent \<noteq> length candidate then Err (PairLengths (length parent) (length candidate))
      else Ok (estimate_of parent candidate resamples seed))"

section \<open>The bound on a tail percentile\<close>

record tail_result =
  tr_percentile :: rat
  tr_parent_val :: rat
  tr_candidate_val :: rat
  tr_observed_degradation_pct :: rat
  tr_ci_95_upper_pct :: rat
  tr_margin_pct :: rat
  tr_passes :: bool

definition degradation :: "rat \<Rightarrow> rat \<Rightarrow> rat" where
  "degradation parent_val candidate_val =
     (if f64_const (1 / 1000000000) < parent_val
      then f64_times (f64_over (f64_minus candidate_val parent_val) parent_val) 100 else 0)"

text \<open>Samples of equal length are resampled in pairs, others independently.\<close>

definition resample_pair :: "rat list \<Rightarrow> rat list \<Rightarrow> prng \<Rightarrow> (rat list \<times> rat list) \<times> prng" where
  "resample_pair parent candidate g =
     (if length parent = length candidate then
        let (is, g) = draws (length parent) (length parent) g in
        ((map (\<lambda>i. parent ! i) is, map (\<lambda>i. candidate ! i) is), g)
      else
        let (is, g) = draws (length parent) (length parent) g; (js, g) = draws (length candidate) (length candidate) g in
        ((map (\<lambda>i. parent ! i) is, map (\<lambda>i. candidate ! i) js), g))"

fun degradation_samples :: "rat list \<Rightarrow> rat list \<Rightarrow> rat \<Rightarrow> nat \<Rightarrow> prng \<Rightarrow> rat list" where
  "degradation_samples parent candidate pct 0 g = []"
| "degradation_samples parent candidate pct (Suc b) g =
     (let ((ps, cs), g) = resample_pair parent candidate g in
      degradation (calculate_percentile (sort ps) pct) (calculate_percentile (sort cs) pct)
        # degradation_samples parent candidate pct b g)"

definition tail_samples :: "rat list \<Rightarrow> rat list \<Rightarrow> rat \<Rightarrow> nat \<Rightarrow> u64 option \<Rightarrow> rat list" where
  "tail_samples parent candidate pct resamples seed =
     sort (degradation_samples parent candidate pct (resample_count resamples)
       (new_prng (case seed of Some s \<Rightarrow> s | None \<Rightarrow> 0x42cafebabe)))"

definition evaluate_tail_non_inferiority ::
    "rat list \<Rightarrow> rat list \<Rightarrow> rat \<Rightarrow> rat \<Rightarrow> nat \<Rightarrow> u64 option \<Rightarrow> stat_error + tail_result" where
  "evaluate_tail_non_inferiority parent candidate pct margin resamples seed =
     (if parent = [] \<or> candidate = [] then Err NoLatencies
      else
        let parent_val = calculate_percentile (sort parent) pct; candidate_val = calculate_percentile (sort candidate) pct;
            b = resample_count resamples;
            samples = tail_samples parent candidate pct resamples seed;
            upper = samples ! min (nat \<lceil>f64_times (f64_const (95 / 100)) (f64_round (of_nat b))\<rceil>) (b - 1) in
        Ok \<lparr>tr_percentile = pct, tr_parent_val = parent_val, tr_candidate_val = candidate_val,
            tr_observed_degradation_pct = degradation parent_val candidate_val, tr_ci_95_upper_pct = upper,
            tr_margin_pct = margin, tr_passes = (upper \<le> margin)\<rparr>)"

section \<open>The generator does not get stuck\<close>

definition stuck :: "prng \<Rightarrow> bool" where
  "stuck g \<longleftrightarrow> pg_s0 g = 0 \<and> pg_s1 g = 0 \<and> pg_s2 g = 0 \<and> pg_s3 g = 0"

lemma shifted_self:
  fixes w :: "'a :: len word"
  assumes "w = push_bit n w" and "0 < n"
  shows "w = 0"
proof (rule bit_word_eqI)
  fix i assume "i < LENGTH('a)"
  show "bit w i \<longleftrightarrow> bit (0 :: 'a word) i"
  proof (induction i rule: less_induct)
    case (less i)
    have "bit w i \<longleftrightarrow> bit (push_bit n w) i" using assms(1) by simp
    also have "\<dots> \<longleftrightarrow> n \<le> i \<and> i < LENGTH('a) \<and> bit w (i - n)" by (auto simp: bit_push_bit_iff)
    also have "\<not> \<dots>" using less.IH [of "i - n"] assms(2) by auto
    finally show ?case by simp
  qed
qed

lemma next_not_stuck:
  assumes "\<not> stuck g"
  shows "\<not> stuck (snd (next_u64 g))"
proof
  assume z: "stuck (snd (next_u64 g))"
  have rot: "word_rotl k w = 0 \<Longrightarrow> w = 0" for k and w :: u64
    by (metis word_rot_lr word_rotx_0)
  have x: "a XOR b = 0 \<longleftrightarrow> a = b" for a b :: u64 by (metis xor_self_eq word_bw_assocs(3) xor.right_neutral)
  from z have "word_rotl 45 (pg_s3 g XOR pg_s1 g) = 0" by (simp add: stuck_def next_u64_def Let_def)
  then have "pg_s3 g XOR pg_s1 g = 0" by (rule rot)
  moreover from z have "pg_s0 g XOR (pg_s3 g XOR pg_s1 g) = 0" "pg_s1 g XOR (pg_s2 g XOR pg_s0 g) = 0"
      "(pg_s2 g XOR pg_s0 g) XOR push_bit 17 (pg_s1 g) = 0"
    by (simp_all add: stuck_def next_u64_def Let_def)
  ultimately have "pg_s0 g = 0" "pg_s1 g = pg_s2 g" "pg_s3 g = pg_s1 g" "pg_s1 g = push_bit 17 (pg_s1 g)" by (simp_all add: x)
  moreover from this(4) have "pg_s1 g = 0" by (rule shifted_self) simp
  ultimately show False using assms by (simp add: stuck_def)
qed

lemma new_not_stuck: "\<not> stuck (new_prng seed)"
  by (simp add: stuck_def new_prng_def Let_def case_prod_unfold)

lemma gen_range_props: "0 < n \<Longrightarrow> fst (gen_range n g) < n" "\<not> stuck g \<Longrightarrow> \<not> stuck (snd (gen_range n g))"
  using next_not_stuck by (auto simp: gen_range_def case_prod_unfold Let_def)

lemma draws_props:
  "length (fst (draws n k g)) = k"
  "0 < n \<Longrightarrow> set (fst (draws n k g)) \<subseteq> {..<n}"
  "\<not> stuck g \<Longrightarrow> \<not> stuck (snd (draws n k g))"
  using gen_range_props by (induction k arbitrary: g) (auto simp: case_prod_unfold Let_def)

section \<open>Rounding is monotone\<close>

lemma round_half_even_mono: "x \<le> y \<Longrightarrow> round_half_even x \<le> round_half_even y"
proof -
  assume le: "x \<le> y"
  show ?thesis
  proof (cases "\<lfloor>x\<rfloor> = \<lfloor>y\<rfloor>")
    case True
    with le show ?thesis by (auto simp: round_half_even_def Let_def)
  next
    case False
    with le have "\<lfloor>x\<rfloor> + 1 \<le> \<lfloor>y\<rfloor>" using floor_mono [OF le] by linarith
    moreover have "round_half_even x \<le> \<lfloor>x\<rfloor> + 1" "\<lfloor>y\<rfloor> \<le> round_half_even y" by (auto simp: round_half_even_def Let_def)
    ultimately show ?thesis by linarith
  qed
qed

lemma f64_round_binade:
  assumes "0 < x"
  shows "2 powi ilog2 x \<le> f64_round x" "f64_round x \<le> 2 powi (ilog2 x + 1)"
proof -
  let ?e = "ilog2 x - 52"
  have low: "(2::rat) powi ilog2 x = 2 ^ 52 * 2 powi ?e" and up: "(2::rat) powi (ilog2 x + 1) = 2 ^ 53 * 2 powi ?e"
    by (simp_all add: power_int_add power_int_diff)
  have "of_int (2 ^ 52) \<le> x / 2 powi ?e" using ilog2_bound [OF assms] low by (simp add: pos_le_divide_eq)
  then have "2 ^ 52 \<le> round_half_even (x / 2 powi ?e)" by (rule round_half_even_ge)
  then have "(of_int (2 ^ 52) :: rat) \<le> of_int (round_half_even (x / 2 powi ?e))" by (simp only: of_int_le_iff)
  then show "2 powi ilog2 x \<le> f64_round x" using assms low by (simp add: f64_round_def Let_def)
  have "x / 2 powi ?e \<le> of_int (2 ^ 53)" using ilog2_upper [OF assms] up by (simp add: pos_divide_le_eq)
  then have "round_half_even (x / 2 powi ?e) \<le> 2 ^ 53" by (rule round_half_even_le)
  then have "(of_int (round_half_even (x / 2 powi ?e)) :: rat) \<le> of_int (2 ^ 53)" by (simp only: of_int_le_iff)
  then show "f64_round x \<le> 2 powi (ilog2 x + 1)" using assms up by (simp add: f64_round_def Let_def)
qed

lemma f64_round_mono: "x \<le> y \<Longrightarrow> f64_round x \<le> f64_round y"
proof -
  assume le: "x \<le> y"
  consider "x \<le> 0" | "0 < x" "ilog2 x = ilog2 y" | "0 < x" "ilog2 x \<noteq> ilog2 y" by linarith
  then show ?thesis
  proof cases
    case 1
    then have "f64_round x = 0" by (simp add: f64_round_def)
    then show ?thesis using f64_round_nonneg by simp
  next
    case 2
    have "round_half_even (x / 2 powi (ilog2 y - 52)) \<le> round_half_even (y / 2 powi (ilog2 y - 52))"
      using le by (intro round_half_even_mono divide_right_mono) simp_all
    with 2 le show ?thesis by (simp add: f64_round_def Let_def mult_right_mono)
  next
    case 3
    have y: "0 < y" using 3 le by simp
    have "(2::rat) powi ilog2 x < 2 powi (ilog2 y + 1)"
      using ilog2_bound [OF 3(1)] ilog2_upper [OF y] le by linarith
    then have "ilog2 x < ilog2 y + 1"
      using power_int_increasing [of "ilog2 y + 1" "ilog2 x" "2 :: rat"] by (meson linorder_not_le one_le_numeral)
    then have "ilog2 x + 1 \<le> ilog2 y" using 3(2) by linarith
    then have "(2::rat) powi (ilog2 x + 1) \<le> 2 powi ilog2 y" by (simp add: power_int_increasing)
    with f64_round_binade(2) [OF 3(1)] f64_round_binade(1) [OF y] show ?thesis by linarith
  qed
qed

lemma f64_signed_mono: "x \<le> y \<Longrightarrow> f64_signed x \<le> f64_signed y"
  using f64_round_mono [of x y] f64_round_mono [of "- y" "- x"] f64_round_nonneg [of "- x"] f64_round_nonneg [of y]
  by (auto simp: f64_signed_def)

lemma f64_signed_zero [simp]: "f64_signed 0 = 0"
  by (simp add: f64_signed_def)

lemma f64_signed_sign: "0 \<le> x \<Longrightarrow> 0 \<le> f64_signed x" "x \<le> 0 \<Longrightarrow> f64_signed x \<le> 0"
  using f64_signed_mono [of 0 x] f64_signed_mono [of x 0] by simp_all

section \<open>What a significant difference means\<close>

lemma length_boot_means: "length (boot_means deltas b g) = b"
  by (induction b arbitrary: g) (simp_all add: case_prod_unfold Let_def)

lemma length_bootstrap_means: "length (bootstrap_means parent candidate resamples seed) = resample_count resamples"
  by (simp add: bootstrap_means_def length_boot_means)

lemma f64_sum_sign: "\<forall>x \<in> set xs. 0 \<le> x \<Longrightarrow> 0 \<le> f64_sum xs"
proof -
  have "0 \<le> a \<Longrightarrow> \<forall>x \<in> set xs. 0 \<le> x \<Longrightarrow> 0 \<le> foldl f64_plus a xs" for a
  proof (induction xs arbitrary: a)
    case (Cons x xs)
    then have "0 \<le> f64_plus a x" by (simp add: f64_plus_def f64_signed_sign)
    with Cons show ?case by simp
  qed simp
  then show "\<forall>x \<in> set xs. 0 \<le> x \<Longrightarrow> 0 \<le> f64_sum xs" by (simp add: f64_sum_def)
qed

lemma f64_mean_sign: "\<forall>x \<in> set xs. 0 \<le> x \<Longrightarrow> 0 \<le> f64_mean xs m"
  by (simp add: f64_mean_def f64_over_def f64_signed_sign f64_sum_sign f64_round_nonneg)

lemma one_in_two_hundred: "f64_times 2 (f64_round (1 / 200)) = f64_const (1 / 100)"
  by code_simp

lemma p_value_counts:
  assumes "means \<noteq> []" and "length means < 2 ^ 53" and "two_sided_p means < f64_const (1 / 100)"
  shows "200 * min (length (filter (\<lambda>v. v \<le> 0) means)) (length (filter (\<lambda>v. v \<ge> 0) means)) < length means"
proof (rule ccontr)
  define k where "k = min (length (filter (\<lambda>v. v \<le> 0) means)) (length (filter (\<lambda>v. v \<ge> 0) means))"
  define n where "n = length means"
  assume "\<not> ?thesis"
  then have kn: "n \<le> 200 * k" by (simp add: k_def n_def)
  have small: "n < 2 ^ 53" "0 < n" "k \<le> n" using assms by (auto simp: n_def k_def min_le_iff_disj)
  have exact: "f64_round (of_nat j) = of_nat j" if "j \<le> n" for j
    using f64_round_int [of "int j"] that small(1) by simp
  have "(1 :: rat) / 200 \<le> of_nat k / of_nat n"
  proof -
    have "(of_nat n :: rat) \<le> 200 * of_nat k" using kn by (metis of_nat_le_iff of_nat_mult of_nat_numeral)
    then show ?thesis using small(2) by (simp add: field_simps)
  qed
  then have "f64_signed (1 / 200) \<le> f64_over (of_nat k) (of_nat n)" unfolding f64_over_def by (rule f64_signed_mono)
  then have "f64_times 2 (f64_round (1 / 200)) \<le> f64_times 2 (f64_over (of_nat k) (of_nat n))"
    unfolding f64_times_def by (intro f64_signed_mono) (simp add: f64_signed_def)
  moreover have "f64_const (1 / 100) \<le> 1" unfolding f64_const_def by (rule f64_round_le_one) simp
  ultimately have "f64_const (1 / 100) \<le> two_sided_p means"
    unfolding one_in_two_hundred two_sided_p_def Let_def
    using exact [of k] exact [of n] small(3) by (simp flip: k_def n_def)
  with assms(3) show False by simp
qed

lemma estimate_of_simps [simp]:
  "be_p_value (estimate_of parent candidate resamples seed) = two_sided_p (bootstrap_means parent candidate resamples seed)"
  "be_observed_delta_mean (estimate_of parent candidate resamples seed) = f64_mean (paired_deltas parent candidate) (length parent)"
  by (simp_all only: estimate_of_def Let_def bootstrap_estimate.simps)

lemma estimate_significant:
  "be_significant (estimate_of parent candidate resamples seed) \<longleftrightarrow>
     two_sided_p (bootstrap_means parent candidate resamples seed) < f64_const (1 / 100)
     \<and> (0 < be_ci_99_lower (estimate_of parent candidate resamples seed) \<or> be_ci_99_upper (estimate_of parent candidate resamples seed) < 0)"
  by (simp only: estimate_of_def Let_def bootstrap_estimate.simps)

lemma bootstrap_Ok: "bootstrap_paired_comparison parent candidate resamples seed = Ok e \<longleftrightarrow>
    parent \<noteq> [] \<and> length candidate = length parent \<and> e = estimate_of parent candidate resamples seed"
  by (auto simp: bootstrap_paired_comparison_def)

end
