(* ===== verification/Benchmarks.thy ===== *)
theory Benchmarks
  imports Statistics Receipt
begin

text \<open>
  The measured layers of the judge (\<open>src/src/evaluator/layers/performance.rs\<close>, \<open>resource_efficiency.rs\<close>), the resource readings
  of \<open>src/src/evaluator/metrics.rs\<close>, and the paired benchmark of \<open>src/src/actor/judge.rs\<close> that feeds them.

  A benchmark is a function of what each execution in the jail gave: the two readings of \<open>getrusage(RUSAGE_CHILDREN)\<close>, the exit
  status and the elapsed time.  Counters of the kernel are integers; they are non-negative, so that the differences of the
  resource layer stay in the range of \<open>i64\<close>.  \<open>fixed k x\<close> is the text of \<open>format!("{:.k}", x)\<close>.
\<close>

section \<open>Resource readings\<close>

record rusage_metrics =
  ru_user_time_us :: u64
  ru_system_time_us :: u64
  ru_max_rss_kb :: int
  ru_voluntary_context_switches :: int
  ru_involuntary_context_switches :: int

definition empty_rusage :: rusage_metrics where
  "empty_rusage = \<lparr>ru_user_time_us = 0, ru_system_time_us = 0, ru_max_rss_kb = 0, ru_voluntary_context_switches = 0,
     ru_involuntary_context_switches = 0\<rparr>"

definition saturate_i64 :: "int \<Rightarrow> int" where
  "saturate_i64 x = max (- (2 ^ 63)) (min x (2 ^ 63 - 1))"

definition saturating_sub :: "u64 \<Rightarrow> u64 \<Rightarrow> u64" where
  "saturating_sub a b = (if a \<le> b then 0 else a - b)"

definition rusage_diff :: "rusage_metrics \<Rightarrow> rusage_metrics \<Rightarrow> rusage_metrics" where
  "rusage_diff r baseline =
     \<lparr>ru_user_time_us = saturating_sub (ru_user_time_us r) (ru_user_time_us baseline),
      ru_system_time_us = saturating_sub (ru_system_time_us r) (ru_system_time_us baseline),
      ru_max_rss_kb = max (ru_max_rss_kb r) (ru_max_rss_kb baseline),
      ru_voluntary_context_switches = saturate_i64 (ru_voluntary_context_switches r - ru_voluntary_context_switches baseline),
      ru_involuntary_context_switches = saturate_i64 (ru_involuntary_context_switches r - ru_involuntary_context_switches baseline)\<rparr>"

definition rusage_accumulate :: "rusage_metrics \<Rightarrow> rusage_metrics \<Rightarrow> rusage_metrics" where
  "rusage_accumulate r delta =
     \<lparr>ru_user_time_us = saturating_add (ru_user_time_us r) (ru_user_time_us delta),
      ru_system_time_us = saturating_add (ru_system_time_us r) (ru_system_time_us delta),
      ru_max_rss_kb = max (ru_max_rss_kb r) (ru_max_rss_kb delta),
      ru_voluntary_context_switches = saturate_i64 (ru_voluntary_context_switches r + ru_voluntary_context_switches delta),
      ru_involuntary_context_switches = saturate_i64 (ru_involuntary_context_switches r + ru_involuntary_context_switches delta)\<rparr>"

section \<open>The resource layer\<close>

record resource_evaluation =
  re_parent_rss_kb :: int
  re_candidate_rss_kb :: int
  re_rss_growth_pct :: rat
  re_rss_growth_within_budget :: bool
  re_host_memory_within_budget :: bool
  re_context_switches_delta :: int
  re_passed :: bool
  re_violations :: "string list"

definition MAX_RSS_GROWTH_PCT :: rat where "MAX_RSS_GROWTH_PCT = 2"
definition DEFAULT_UNIFIED_MEMORY_LIMIT_MB :: u64 where "DEFAULT_UNIFIED_MEMORY_LIMIT_MB = 49152"

text \<open>\<open>resident_kb\<close> is the resident size that was read, if it could be.\<close>

definition evaluate_resources ::
    "(nat \<Rightarrow> rat \<Rightarrow> string) \<Rightarrow> rusage_metrics \<Rightarrow> rusage_metrics \<Rightarrow> u64 option \<Rightarrow> u64 option \<Rightarrow> resource_evaluation" where
  "evaluate_resources fixed parent candidate resident_kb memory_limit_mb =
     (let p = ru_max_rss_kb parent; c = ru_max_rss_kb candidate;
          growth = (if p > 0 then f64_times (f64_over (f64_signed (of_int (c - p))) (f64_signed (of_int p))) 100 else 0);
          growth_ok = (growth \<le> MAX_RSS_GROWTH_PCT);
          limit = (case memory_limit_mb of Some l \<Rightarrow> l | None \<Rightarrow> DEFAULT_UNIFIED_MEMORY_LIMIT_MB);
          memory_ok = (case resident_kb of Some kb \<Rightarrow> kb div 1024 \<le> limit | None \<Rightarrow> True) in
      \<lparr>re_parent_rss_kb = p, re_candidate_rss_kb = c, re_rss_growth_pct = growth, re_rss_growth_within_budget = growth_ok,
       re_host_memory_within_budget = memory_ok,
       re_context_switches_delta = (ru_voluntary_context_switches candidate + ru_involuntary_context_switches candidate)
         - (ru_voluntary_context_switches parent + ru_involuntary_context_switches parent),
       re_passed = (growth_ok \<and> memory_ok),
       re_violations =
         (if growth_ok then [] else [''Candidate peak RSS growth exceeded 2.0% threshold: '' @ fixed 2 growth @ ''% (parent='' @ dec_int p
            @ '' KB, cand='' @ dec_int c @ '' KB)''])
         @ (case resident_kb of
              Some kb \<Rightarrow> if memory_ok then [] else [''Candidate resident memory exceeded unified memory limit: ''
                @ dec_nat (unat (kb div 1024)) @ '' MB > '' @ dec_nat (unat limit) @ '' MB'']
            | None \<Rightarrow> [])\<rparr>)"

definition flag_text :: "bool \<Rightarrow> string" where "flag_text b = (if b then ''true'' else ''false'')"

definition half_score :: f64_bits where "half_score = f64_to_bits (1 / 2)"

definition resource_layer :: "(nat \<Rightarrow> rat \<Rightarrow> string) \<Rightarrow> resource_evaluation \<Rightarrow> layer_result" where
  "resource_layer fixed e =
     \<lparr>lr_layer_name = ''ResourceEfficiency'', lr_is_hard_invariant = False, lr_passed = re_passed e,
      lr_score = (if re_passed e then SCORE_ONE else if re_host_memory_within_budget e then half_score else 0),
      lr_summary = ''ResourceEfficiency: rss_growth='' @ fixed 2 (re_rss_growth_pct e) @ ''%, limit_mb_ok='' @ flag_text (re_host_memory_within_budget e)
        @ '', ctxt_delta='' @ dec_int (re_context_switches_delta e),
      lr_violations = re_violations e\<rparr>"

section \<open>The performance layer\<close>

record performance_evaluation =
  pe_bootstrap_estimate :: bootstrap_estimate
  pe_p95_non_inferiority :: tail_result
  pe_p99_non_inferiority :: tail_result
  pe_target_metric_improved :: bool
  pe_non_target_metrics_safe :: bool
  pe_passed :: bool
  pe_violations :: "string list"

definition tail_violation :: "(nat \<Rightarrow> rat \<Rightarrow> string) \<Rightarrow> string \<Rightarrow> rat \<Rightarrow> tail_result \<Rightarrow> string list" where
  "tail_violation fixed name margin t =
     (if tr_passes t then []
      else [name @ '' tail latency exceeded non-inferiority bound: upper_ci='' @ fixed 2 (tr_ci_95_upper_pct t) @ ''% > '' @ fixed 1 margin @ ''%''])"

definition evaluate_latencies_with_policy ::
    "(nat \<Rightarrow> rat \<Rightarrow> string) \<Rightarrow> rat list \<Rightarrow> rat list \<Rightarrow> bool \<Rightarrow> bool \<Rightarrow> rat \<Rightarrow> nat \<Rightarrow> u64 option \<Rightarrow> stat_error + performance_evaluation" where
  "evaluate_latencies_with_policy fixed parent candidate reduction require_significant margin resamples seed =
     and_then (bootstrap_paired_comparison parent candidate resamples seed) (\<lambda>boot.
     and_then (evaluate_tail_non_inferiority parent candidate 95 margin resamples (map_option (\<lambda>s. s + 1) seed)) (\<lambda>p95.
     and_then (evaluate_tail_non_inferiority parent candidate 99 margin resamples (map_option (\<lambda>s. s + 2) seed)) (\<lambda>p99.
     let improved = (be_significant boot \<and> (if reduction then be_observed_delta_mean boot < 0 else be_observed_delta_mean boot > 0));
         safe = (tr_passes p95 \<and> tr_passes p99) in
     Ok \<lparr>pe_bootstrap_estimate = boot, pe_p95_non_inferiority = p95, pe_p99_non_inferiority = p99,
         pe_target_metric_improved = improved, pe_non_target_metrics_safe = safe,
         pe_passed = (if require_significant then improved \<and> safe else safe),
         pe_violations =
           (if require_significant \<and> \<not> improved
            then [''Target metric did not achieve statistical significance (p='' @ fixed 4 (be_p_value boot) @ '', delta=''
                    @ fixed 2 (be_delta_pct boot) @ ''%)''] else [])
           @ tail_violation fixed ''p95'' margin p95 @ tail_violation fixed ''p99'' margin p99\<rparr>)))"

definition evaluate_latencies ::
    "(nat \<Rightarrow> rat \<Rightarrow> string) \<Rightarrow> rat list \<Rightarrow> rat list \<Rightarrow> bool \<Rightarrow> nat \<Rightarrow> u64 option \<Rightarrow> stat_error + performance_evaluation" where
  "evaluate_latencies fixed parent candidate reduction resamples seed =
     evaluate_latencies_with_policy fixed parent candidate reduction True 1 resamples seed"

definition performance_layer :: "(nat \<Rightarrow> rat \<Rightarrow> string) \<Rightarrow> performance_evaluation \<Rightarrow> layer_result" where
  "performance_layer fixed e =
     \<lparr>lr_layer_name = ''Performance'', lr_is_hard_invariant = False, lr_passed = pe_passed e,
      lr_score = (if pe_passed e then SCORE_ONE else if pe_non_target_metrics_safe e then half_score else 0),
      lr_summary = ''Performance: delta='' @ fixed 2 (be_delta_pct (pe_bootstrap_estimate e)) @ ''%, p_val='' @ fixed 4 (be_p_value (pe_bootstrap_estimate e))
        @ '', p95_ci_upper='' @ fixed 2 (tr_ci_95_upper_pct (pe_p95_non_inferiority e)) @ ''%, p99_ci_upper=''
        @ fixed 2 (tr_ci_95_upper_pct (pe_p99_non_inferiority e)) @ ''%, sig=''
        @ (if be_significant (pe_bootstrap_estimate e) then ''YES'' else ''NO''),
      lr_violations = pe_violations e\<rparr>"

section \<open>The paired benchmark\<close>

datatype bench_side = ParentSide | CandidateSide

record jail_exec =
  je_before :: "string + rusage_metrics"
  je_outcome :: "string + bool \<times> string"
  je_elapsed_us :: rat
  je_after :: "string + rusage_metrics"

datatype bench_error =
    NoBaseline bench_side string
  | JailError bench_side nat string
  | BadExit bench_side nat string
  | NoChildUsage bench_side string

text \<open>One execution: the latency and the readings are added to those of its side.\<close>

definition run_side :: "bench_side \<Rightarrow> nat \<Rightarrow> jail_exec \<Rightarrow> rat list \<times> rusage_metrics \<Rightarrow> bench_error + rat list \<times> rusage_metrics" where
  "run_side side i e acc =
     and_then (map_err (NoBaseline side) (je_before e)) (\<lambda>before.
     and_then (map_err (JailError side i) (je_outcome e)) (\<lambda>(ok, stderr).
     if \<not> ok then Err (BadExit side i stderr)
     else and_then (map_err (NoChildUsage side) (je_after e)) (\<lambda>after.
       Ok (fst acc @ [je_elapsed_us e], rusage_accumulate (snd acc) (rusage_diff after before)))))"

text \<open>Each iteration runs both sides, the parent first in even iterations and the candidate first in odd ones.\<close>

fun benchmark_loop ::
    "nat \<Rightarrow> (jail_exec \<times> jail_exec) list \<Rightarrow> rat list \<times> rusage_metrics \<Rightarrow> rat list \<times> rusage_metrics
      \<Rightarrow> bench_error + (rat list \<times> rusage_metrics) \<times> (rat list \<times> rusage_metrics)" where
  "benchmark_loop i [] parent candidate = Ok (parent, candidate)"
| "benchmark_loop i ((p, c) # runs) parent candidate =
     (if even i then
        and_then (run_side ParentSide i p parent) (\<lambda>parent.
        and_then (run_side CandidateSide i c candidate) (\<lambda>candidate. benchmark_loop (i + 1) runs parent candidate))
      else
        and_then (run_side CandidateSide i c candidate) (\<lambda>candidate.
        and_then (run_side ParentSide i p parent) (\<lambda>parent. benchmark_loop (i + 1) runs parent candidate)))"

definition run_paired_benchmarks_bins ::
    "(jail_exec \<times> jail_exec) list \<Rightarrow> bench_error + (rat list \<times> rusage_metrics) \<times> (rat list \<times> rusage_metrics)" where
  "run_paired_benchmarks_bins runs = benchmark_loop 0 runs ([], empty_rusage) ([], empty_rusage)"

text \<open>The measured layers of a cycle: twenty iterations, 5000 resamples, seed 42, and the resident size of the calling process.\<close>

datatype layers_error = BenchFailed bench_error | StatFailed stat_error

definition measured_layers ::
    "(nat \<Rightarrow> rat \<Rightarrow> string) \<Rightarrow> bool \<Rightarrow> rat \<Rightarrow> (jail_exec \<times> jail_exec) list \<Rightarrow> u64 option
      \<Rightarrow> layers_error + performance_evaluation \<times> resource_evaluation" where
  "measured_layers fixed require_improvement margin runs self_resident_kb =
     and_then (map_err BenchFailed (run_paired_benchmarks_bins runs)) (\<lambda>((parent_lat, parent_ru), (candidate_lat, candidate_ru)).
     and_then (map_err StatFailed (evaluate_latencies_with_policy fixed parent_lat candidate_lat True require_improvement margin 5000 (Some 42)))
       (\<lambda>performance. Ok (performance, evaluate_resources fixed parent_ru candidate_ru self_resident_kb (Some 49152))))"

end
