(* ===== verification/Benchmark_Safety.thy ===== *)
theory Benchmark_Safety
  imports Benchmarks
begin

text \<open>
  What a verdict of the measured layers says about the runs: a performance pass is backed by the resampled distributions, an
  unchanged candidate is neutral, and the memory of the candidate is not measured at all.
\<close>

section \<open>Readings of the children's usage\<close>

text \<open>The peak sizes read for one execution, and those of a benchmark in the order in which they are read.\<close>

definition usage_of :: "jail_exec \<Rightarrow> int list" where
  "usage_of e = (case (je_before e, je_after e) of (Inr a, Inr b) \<Rightarrow> [ru_max_rss_kb a, ru_max_rss_kb b] | _ \<Rightarrow> [])"

fun usage_readings :: "nat \<Rightarrow> (jail_exec \<times> jail_exec) list \<Rightarrow> int list" where
  "usage_readings i [] = []"
| "usage_readings i ((p, c) # runs) =
     (if even i then usage_of p @ usage_of c else usage_of c @ usage_of p) @ usage_readings (i + 1) runs"

text \<open>\<open>getrusage\<close> with \<open>RUSAGE_CHILDREN\<close> reports the peak of the largest child waited for so far, so readings never decrease.\<close>

definition children_peaks :: "(jail_exec \<times> jail_exec) list \<Rightarrow> bool" where
  "children_peaks runs \<longleftrightarrow> sorted (usage_readings 0 runs) \<and> (\<forall>x \<in> set (usage_readings 0 runs). 0 \<le> x)"

lemma run_side_peak:
  assumes "run_side side i e acc = Ok acc'"
  shows "\<exists>a b. usage_of e = [a, b] \<and> ru_max_rss_kb (snd acc') = max (ru_max_rss_kb (snd acc)) (max b a)"
    and "length (fst acc') = Suc (length (fst acc))"
  using assms by (auto simp: run_side_def and_then_Ok map_err_Ok usage_of_def rusage_accumulate_def rusage_diff_def split: if_splits)

lemma loop_bound:
  assumes "benchmark_loop i runs P C = Ok (P', C')" and "ru_max_rss_kb (snd C) \<le> B" and "\<forall>x \<in> set (usage_readings i runs). x \<le> B"
  shows "ru_max_rss_kb (snd C') \<le> B"
  using assms
proof (induction i runs P C rule: benchmark_loop.induct)
  case (2 i p c runs P C)
  from "2.prems"(1) obtain P1 C1 where run: "run_side CandidateSide i c C = Ok C1" "benchmark_loop (i + 1) runs P1 C1 = Ok (P', C')"
      "run_side ParentSide i p P = Ok P1"
    by (auto simp: and_then_Ok split: if_splits)
  obtain a b where ab: "usage_of c = [a, b]" "ru_max_rss_kb (snd C1) = max (ru_max_rss_kb (snd C)) (max b a)"
    using run_side_peak(1) [OF run(1)] by blast
  have "ru_max_rss_kb (snd C1) \<le> B" using ab "2.prems"(2,3) by (auto split: if_splits)
  moreover have "\<forall>x \<in> set (usage_readings (i + 1) runs). x \<le> B" using "2.prems"(3) by auto
  ultimately show ?case using run "2.IH" by (cases "even i") auto
qed simp

lemma loop_last:
  assumes "benchmark_loop i runs P C = Ok (P', C')" and "runs \<noteq> []" and "even (i + length runs)"
  shows "usage_readings i runs \<noteq> [] \<and> last (usage_readings i runs) \<le> ru_max_rss_kb (snd P')"
  using assms
proof (induction i runs P C rule: benchmark_loop.induct)
  case (2 i p c runs P C)
  from "2.prems"(1) obtain P1 C1 where run: "run_side CandidateSide i c C = Ok C1" "benchmark_loop (i + 1) runs P1 C1 = Ok (P', C')"
      "run_side ParentSide i p P = Ok P1"
    by (auto simp: and_then_Ok split: if_splits)
  show ?case
  proof (cases runs)
    case Nil
    obtain a b where "usage_of p = [a, b]" "ru_max_rss_kb (snd P1) = max (ru_max_rss_kb (snd P)) (max b a)"
      using run_side_peak(1) [OF run(3)] by blast
    with Nil run(2) "2.prems"(3) show ?thesis by auto
  next
    case (Cons r rs)
    then have "usage_readings (i + 1) runs \<noteq> [] \<and> last (usage_readings (i + 1) runs) \<le> ru_max_rss_kb (snd P')"
      using "2.IH" run "2.prems"(3) by (cases "even i") auto
    then show ?thesis by simp
  qed
qed simp

lemma sorted_last: "sorted xs \<Longrightarrow> x \<in> set xs \<Longrightarrow> x \<le> last xs"
  by (induction xs) auto

lemma candidate_peak_hidden:
  assumes "run_paired_benchmarks_bins runs = Ok (P, C)" and "children_peaks runs" and "runs \<noteq> []" and "even (length runs)"
  shows "ru_max_rss_kb (snd C) \<le> ru_max_rss_kb (snd P)"
proof -
  note loop = assms(1) [unfolded run_paired_benchmarks_bins_def]
  have last: "usage_readings 0 runs \<noteq> []" "last (usage_readings 0 runs) \<le> ru_max_rss_kb (snd P)"
    using loop_last [OF loop] assms(3,4) by auto
  then have "0 \<le> last (usage_readings 0 runs)" using assms(2) by (simp add: children_peaks_def)
  then have "ru_max_rss_kb (snd C) \<le> last (usage_readings 0 runs)"
    using assms(2) by (intro loop_bound [OF loop]) (auto simp: empty_rusage_def children_peaks_def intro: sorted_last)
  with last(2) show ?thesis by simp
qed

lemma no_growth:
  assumes "ru_max_rss_kb C \<le> ru_max_rss_kb P"
  shows "re_rss_growth_within_budget (evaluate_resources fixed P C kb limit)"
proof -
  let ?c = "ru_max_rss_kb C" and ?p = "ru_max_rss_kb P"
  have "f64_signed (of_int (?c - ?p)) \<le> 0" using assms by (intro f64_signed_sign(2)) simp
  moreover have "0 \<le> f64_signed (of_int ?p)" if "0 < ?p" using that by (intro f64_signed_sign(1)) simp
  ultimately have "f64_over (f64_signed (of_int (?c - ?p))) (f64_signed (of_int ?p)) \<le> 0" if "0 < ?p"
    using that unfolding f64_over_def by (intro f64_signed_sign(2)) (simp add: divide_nonpos_nonneg)
  then have "f64_times (f64_over (f64_signed (of_int (?c - ?p))) (f64_signed (of_int ?p))) 100 \<le> 0" if "0 < ?p"
    using that unfolding f64_times_def by (intro f64_signed_sign(2)) (simp add: mult_nonpos_nonneg)
  then show ?thesis by (force simp: evaluate_resources_def Let_def MAX_RSS_GROWTH_PCT_def)
qed

lemma measured_layers_Ok:
  "measured_layers fixed req margin runs kb = Ok (perf, res) \<longleftrightarrow>
     (\<exists>P C. run_paired_benchmarks_bins runs = Ok (P, C)
        \<and> evaluate_latencies_with_policy fixed (fst P) (fst C) True req margin 5000 (Some 42) = Ok perf
        \<and> res = evaluate_resources fixed (snd P) (snd C) kb (Some 49152))"
  by (auto simp: measured_layers_def and_then_Ok map_err_Ok case_prod_unfold)

section \<open>Tail bounds\<close>

lemma length_tail_samples: "length (tail_samples parent candidate pct resamples seed) = resample_count resamples"
proof -
  have "length (degradation_samples parent candidate pct b g) = b" for b g
    by (induction b arbitrary: g) (simp_all add: case_prod_unfold Let_def)
  then show ?thesis by (simp add: tail_samples_def)
qed

lemma sorted_prefix_count:
  assumes "sorted xs" and "i < length xs" and "xs ! i \<le> m"
  shows "i < length (filter (\<lambda>x. x \<le> m) xs)"
proof -
  have "\<forall>x \<in> set (take (Suc i) xs). x \<le> m"
    using assms by (auto simp: in_set_conv_nth less_Suc_eq_le) (meson le_trans order_trans sorted_nth_mono)
  then have "filter (\<lambda>x. x \<le> m) (take (Suc i) xs) = take (Suc i) xs" by (simp add: filter_id_conv)
  then have "Suc i \<le> length (filter (\<lambda>x. x \<le> m) (take (Suc i) xs))" using assms(2) by simp
  also have "\<dots> \<le> length (filter (\<lambda>x. x \<le> m) (take (Suc i) xs)) + length (filter (\<lambda>x. x \<le> m) (drop (Suc i) xs))" by simp
  also have "\<dots> = length (filter (\<lambda>x. x \<le> m) xs)" by (metis append_take_drop_id filter_append length_append)
  finally show ?thesis by simp
qed


lemma ninety_five: "95 / 100 - 1 / 2 ^ 53 \<le> f64_const (95 / 100)"
  by code_simp

lemma tail_margin:
  fixes x y :: rat
  assumes "100 * x + 1 \<le> 95 * y" and "y \<le> 70368744177664"
  shows "x \<le> (95 / 100 - 1 / 2 ^ 53) * y"
  using assms by simp

lemma tail_index:
  assumes "b \<le> 2 ^ 46" and "min (nat \<lceil>f64_times (f64_const (95 / 100)) (f64_round (of_nat b))\<rceil>) (b - 1) < n"
  shows "19 * b \<le> 20 * n"
proof (cases "b - 1 < n")
  case False
  then have b: "0 < b" using assms(2) by linarith
  define j where "j = (95 * b - 1) div 100"
  have "of_nat j \<le> f64_const (95 / 100) * of_nat b"
  proof -
    have "(of_nat (100 * j + 1) :: rat) \<le> of_nat (95 * b)" using b by (subst of_nat_le_iff) (simp add: j_def; linarith)
    then have j: "100 * (of_nat j :: rat) + 1 \<le> 95 * of_nat b" by simp
    have "(of_nat b :: rat) \<le> of_nat (2 ^ 46)" by (subst of_nat_le_iff) (rule assms(1))
    then have big: "(of_nat b :: rat) \<le> 70368744177664" by simp
    have "(95 / 100 - 1 / 2 ^ 53) * of_nat b \<le> f64_const (95 / 100) * of_nat b"
      by (intro mult_right_mono ninety_five of_nat_0_le_iff)
    moreover have "of_nat j \<le> (95 / 100 - 1 / 2 ^ 53) * (of_nat b :: rat)" using j big by (rule tail_margin)
    ultimately show ?thesis by (rule order_trans [rotated])
  qed
  then have "f64_signed (of_nat j) \<le> f64_times (f64_const (95 / 100)) (of_nat b)" unfolding f64_times_def by (rule f64_signed_mono)
  moreover have "j \<le> b" by (simp add: j_def)
  then have "f64_signed (of_nat j) = of_nat j" "f64_round (of_nat b) = of_nat b"
    using f64_round_int [of "int j"] f64_round_int [of "int b"] assms(1) by (simp_all add: f64_signed_def)
  ultimately have "j \<le> nat \<lceil>f64_times (f64_const (95 / 100)) (f64_round (of_nat b))\<rceil>"
    by (metis (no_types, lifting) ceiling_mono ceiling_of_nat nat_int nat_mono)
  with False assms(2) have "j < n" by linarith
  then show ?thesis by (simp add: j_def; linarith)
qed simp

lemma tail_passes_count:
  assumes "evaluate_tail_non_inferiority parent candidate pct margin resamples seed = Ok t" and "tr_passes t"
    and "resample_count resamples \<le> 2 ^ 46"
  shows "19 * resample_count resamples \<le> 20 * length (filter (\<lambda>x. x \<le> margin) (tail_samples parent candidate pct resamples seed))"
proof (rule tail_index [OF assms(3)], rule sorted_prefix_count)
  show "sorted (tail_samples parent candidate pct resamples seed)" by (simp add: tail_samples_def)
qed (use assms(1,2) in \<open>auto simp: length_tail_samples evaluate_tail_non_inferiority_def Let_def resample_count_def DEFAULT_BOOTSTRAP_RESAMPLES_def split: if_splits\<close>)


section \<open>Verdicts of the measured layers\<close>

lemma latencies_Ok:
  "evaluate_latencies_with_policy fixed parent candidate True req margin resamples (Some seed) = Ok e \<Longrightarrow>
     parent \<noteq> [] \<and> length candidate = length parent \<and> pe_bootstrap_estimate e = estimate_of parent candidate resamples (Some seed)
     \<and> evaluate_tail_non_inferiority parent candidate 95 margin resamples (Some (seed + 1)) = Ok (pe_p95_non_inferiority e)
     \<and> evaluate_tail_non_inferiority parent candidate 99 margin resamples (Some (seed + 2)) = Ok (pe_p99_non_inferiority e)
     \<and> (pe_target_metric_improved e \<longleftrightarrow> be_significant (pe_bootstrap_estimate e) \<and> be_observed_delta_mean (pe_bootstrap_estimate e) < 0)
     \<and> (pe_passed e \<longleftrightarrow> (req \<longrightarrow> pe_target_metric_improved e) \<and> tr_passes (pe_p95_non_inferiority e) \<and> tr_passes (pe_p99_non_inferiority e))"
  unfolding evaluate_latencies_with_policy_def and_then_Ok bootstrap_Ok Let_def by (auto split: if_splits)

lemma latencies_total:
  assumes "parent \<noteq> []" and "length candidate = length parent"
  shows "\<exists>e. evaluate_latencies_with_policy fixed parent candidate reduction req margin resamples seed = Ok e"
proof -
  have "candidate \<noteq> []" using assms by auto
  then have "\<exists>t. evaluate_tail_non_inferiority parent candidate pct margin resamples s = Ok t" for pct s
    using assms(1) by (simp add: evaluate_tail_non_inferiority_def Let_def)
  moreover have "\<exists>t. bootstrap_paired_comparison parent candidate resamples seed = Ok t" using assms by (simp add: bootstrap_Ok)
  ultimately show ?thesis unfolding evaluate_latencies_with_policy_def and_then_Ok Let_def by blast
qed

text \<open>An execution that ran and exited well, with both readings; a benchmark of such executions returns.\<close>

definition clean_exec :: "jail_exec \<Rightarrow> bool" where
  "clean_exec e \<longleftrightarrow> (case (je_before e, je_outcome e, je_after e) of (Inr _, Inr (ok, _), Inr _) \<Rightarrow> ok | _ \<Rightarrow> False)"

lemma run_side_clean:
  assumes "clean_exec e"
  obtains acc' where "run_side side i e acc = Ok acc'" "length (fst acc') = Suc (length (fst acc))"
  using assms by (auto simp: clean_exec_def run_side_def split: sum.splits)

lemma benchmark_loop_clean:
  assumes "\<forall>(p, c) \<in> set runs. clean_exec p \<and> clean_exec c"
  shows "\<exists>P' C'. benchmark_loop i runs P C = Ok (P', C') \<and> length (fst P') = length (fst P) + length runs
    \<and> length (fst C') = length (fst C) + length runs"
  using assms
proof (induction runs arbitrary: i P C)
  case (Cons r runs)
  obtain p c where r: "r = (p, c)" by (cases r)
  with Cons.prems have clean: "clean_exec p" "clean_exec c" by auto
  obtain P1 where P1: "run_side ParentSide i p P = Ok P1" "length (fst P1) = Suc (length (fst P))" using run_side_clean [OF clean(1)] .
  obtain C1 where C1: "run_side CandidateSide i c C = Ok C1" "length (fst C1) = Suc (length (fst C))" using run_side_clean [OF clean(2)] .
  from Cons.IH [of "i + 1" P1 C1] Cons.prems P1 C1 show ?case by (auto simp: r)
qed simp

lemma measured_layers_total:
  assumes "\<forall>(p, c) \<in> set runs. clean_exec p \<and> clean_exec c" and "runs \<noteq> []"
  shows "\<exists>perf res. measured_layers fixed req margin runs kb = Ok (perf, res)"
proof -
  obtain P C where bench: "run_paired_benchmarks_bins runs = Ok (P, C)" and len: "length (fst P) = length runs" "length (fst C) = length runs"
    using benchmark_loop_clean [OF assms(1), of 0 "([], empty_rusage)" "([], empty_rusage)"]
    by (auto simp: run_paired_benchmarks_bins_def)
  from len assms(2) have "fst P \<noteq> []" "length (fst C) = length (fst P)" by auto
  from latencies_total [OF this] bench show ?thesis unfolding measured_layers_Ok by blast
qed

text \<open>C36: The memory gate of the judge cannot see the candidate.  Peaks are read with \<open>RUSAGE_CHILDREN\<close>, which reports the largest
  child waited for so far, and a difference of readings keeps the larger peak; the last execution of the twenty iterations is the
  parent's, so its total contains every earlier peak of the candidate.  Whatever the candidate uses, the growth is within budget,
  and the layer passes exactly when the judge's own resident size is within 48 GiB.\<close>

theorem memory_growth_is_never_seen:
  assumes "measured_layers fixed req margin runs kb = Ok (perf, res)" and "length runs = 20" and "children_peaks runs"
  shows "re_rss_growth_within_budget res \<and> (re_passed res \<longleftrightarrow> (case kb of Some k \<Rightarrow> k div 1024 \<le> 49152 | None \<Rightarrow> True))"
proof -
  obtain P C where bench: "run_paired_benchmarks_bins runs = Ok (P, C)"
    and res: "res = evaluate_resources fixed (snd P) (snd C) kb (Some 49152)"
    using assms(1) by (auto simp: measured_layers_Ok)
  have "runs \<noteq> []" "even (length runs)" using assms(2) by auto
  with bench assms(3) have "ru_max_rss_kb (snd C) \<le> ru_max_rss_kb (snd P)" by (intro candidate_peak_hidden)
  then have "re_rss_growth_within_budget res" unfolding res by (rule no_growth)
  moreover from this have "re_passed res \<longleftrightarrow> (case kb of Some k \<Rightarrow> k div 1024 \<le> 49152 | None \<Rightarrow> True)"
    unfolding res by (simp add: evaluate_resources_def Let_def)
  ultimately show ?thesis ..
qed

text \<open>C16: A performance pass is backed by the resampled runs.  In at least 19 of 20 resamples the degradation of the p95 and of the p99
  latency is within the margin; and where an improvement is required, fewer than one in two hundred resampled means lie on the
  wrong side of zero, the observed mean difference is negative, and some pair of runs has the candidate strictly faster.\<close>

theorem performance_pass_is_backed:
  assumes "evaluate_latencies_with_policy fixed parent candidate True req margin resamples (Some seed) = Ok e" and "pe_passed e"
    and "resample_count resamples \<le> 2 ^ 46"
  shows "(\<forall>(pct, s) \<in> {(95, seed + 1), (99, seed + 2)}.
            19 * resample_count resamples \<le> 20 * length (filter (\<lambda>x. x \<le> margin) (tail_samples parent candidate pct resamples (Some s))))
       \<and> (req \<longrightarrow> (let means = bootstrap_means parent candidate resamples (Some seed) in
            200 * min (length (filter (\<lambda>v. v \<le> 0) means)) (length (filter (\<lambda>v. v \<ge> 0) means)) < resample_count resamples)
          \<and> f64_mean (paired_deltas parent candidate) (length parent) < 0 \<and> (\<exists>i < length parent. candidate ! i < parent ! i))"
proof (intro conjI impI)
  note ok = latencies_Ok [OF assms(1)]
  show "\<forall>(pct, s) \<in> {(95, seed + 1), (99, seed + 2)}.
      19 * resample_count resamples \<le> 20 * length (filter (\<lambda>x. x \<le> margin) (tail_samples parent candidate pct resamples (Some s)))"
    using ok assms(2) tail_passes_count [OF _ _ assms(3)] by blast
  assume req
  with ok assms(2) have sig: "be_significant (estimate_of parent candidate resamples (Some seed))"
    and mean: "f64_mean (paired_deltas parent candidate) (length parent) < 0" by auto
  have "bootstrap_means parent candidate resamples (Some seed) \<noteq> []"
    using length_bootstrap_means [of parent candidate resamples "Some seed"]
    by (auto simp: resample_count_def DEFAULT_BOOTSTRAP_RESAMPLES_def split: if_splits)
  with sig assms(3) show "let means = bootstrap_means parent candidate resamples (Some seed) in
      200 * min (length (filter (\<lambda>v. v \<le> 0) means)) (length (filter (\<lambda>v. v \<ge> 0) means)) < resample_count resamples"
    unfolding Let_def estimate_significant
    using p_value_counts [of "bootstrap_means parent candidate resamples (Some seed)"] by (simp add: length_bootstrap_means)
  show "f64_mean (paired_deltas parent candidate) (length parent) < 0" by (rule mean)
  then obtain d where "d \<in> set (paired_deltas parent candidate)" "d < 0" using f64_mean_sign by (meson linorder_not_le)
  then obtain i where "i < length parent" "f64_minus (candidate ! i) (parent ! i) < 0"
    by (auto simp: paired_deltas_def set_zip)
  moreover from this(2) have "candidate ! i < parent ! i"
    using f64_signed_sign(1) [of "candidate ! i - parent ! i"] by (auto simp: f64_minus_def not_le [symmetric])
  ultimately show "\<exists>i < length parent. candidate ! i < parent ! i" by blast
qed


lemma one_pair:
  "bootstrap_means [p] [c] 1 seed = [f64_mean [f64_minus c p] 1]"
  "tail_samples [p] [c] pct 1 seed = [degradation p c]"
  by (simp_all add: bootstrap_means_def tail_samples_def resample_count_def paired_deltas_def resample_pair_def gen_range_def
      calculate_percentile_def)

theorem performance_pass_is_backed_witness:
  "(\<exists>e. evaluate_latencies_with_policy (\<lambda>_ _. []) [10] [5] True True 1 1 (Some 42) = Ok e \<and> pe_passed e)
   \<and> f64_mean (paired_deltas [10] [5]) 1 < 0 \<and> 19 \<le> 20 * length (filter (\<lambda>x. x \<le> 1) (tail_samples [10] [5] 95 1 (Some 43)))"
proof -
  obtain e where ok: "evaluate_latencies_with_policy (\<lambda>_ _. []) [10] [5] True True 1 1 (Some 42) = Ok e"
    using latencies_total [of "[10]" "[5]"] by fastforce
  have num: "f64_mean [f64_minus 5 10] 1 = - 5" "degradation 10 5 = - 50" by code_simp+
  have p: "two_sided_p [- 5] < f64_const (1 / 100)" by code_simp
  have "be_significant (estimate_of [10] [5] 1 (Some 42))"
    unfolding estimate_significant one_pair num
    by (simp add: p estimate_of_def Let_def one_pair num resample_count_def del: One_nat_def)
  moreover have "tr_passes t" if "evaluate_tail_non_inferiority [10] [5] pct 1 1 s = Ok t" for t pct s
    using that by (auto simp: evaluate_tail_non_inferiority_def Let_def one_pair num resample_count_def simp del: One_nat_def)
  ultimately have pass: "pe_passed e" using latencies_Ok [OF ok] by (auto simp: paired_deltas_def num num(1) [unfolded One_nat_def] simp del: One_nat_def)
  show ?thesis using performance_pass_is_backed [OF ok pass] ok pass by (simp add: resample_count_def)
qed

definition witness_exec :: "int \<Rightarrow> int \<Rightarrow> rat \<Rightarrow> jail_exec" where
  "witness_exec before after us =
     \<lparr>je_before = Inr (empty_rusage\<lparr>ru_max_rss_kb := before\<rparr>), je_outcome = Inr (True, []), je_elapsed_us = us,
      je_after = Inr (empty_rusage\<lparr>ru_max_rss_kb := after\<rparr>)\<rparr>"

lemma witness_exec_clean [simp]: "clean_exec (witness_exec before after us)"
  by (simp add: clean_exec_def witness_exec_def)

text \<open>The parent needs 2 MB and the candidate a thousand times more.\<close>

definition witness_runs :: "(jail_exec \<times> jail_exec) list" where
  "witness_runs = (witness_exec 0 2048 100, witness_exec 2048 2048000 99)
     # replicate 19 (witness_exec 2048000 2048000 100, witness_exec 2048000 2048000 99)"

theorem memory_growth_is_never_seen_witness:
  "\<exists>perf res. measured_layers (\<lambda>_ _. []) False 1 witness_runs None = Ok (perf, res) \<and> re_passed res"
proof -
  have "length witness_runs = 20" "children_peaks witness_runs" by code_simp+
  moreover have "\<forall>(p, c) \<in> set witness_runs. clean_exec p \<and> clean_exec c" by (simp add: witness_runs_def)
  ultimately obtain perf res where "measured_layers (\<lambda>_ _. []) False 1 witness_runs None = Ok (perf, res)"
    using measured_layers_total [of witness_runs] by (metis list.size(3) zero_neq_numeral)
  with memory_growth_is_never_seen [OF this] \<open>length witness_runs = 20\<close> \<open>children_peaks witness_runs\<close> show ?thesis by auto
qed

end
