(* ===== verification/Soak.thy ===== *)
theory Soak
  imports Engine Explain
begin

unbundle bit_operations_syntax

text \<open>
  Soak runs (\<open>src/src/soak/manifest.rs\<close>, \<open>src/src/soak/runner.rs\<close>): a bounded series of cycles that tries a fixed number of
  candidates per cycle against one bottleneck, stages the best admitted one for a human, and never promotes.

  The world and the crates are those of the engine; a soak run changes the ledger only.  What the outside answers in a cycle
  (telemetry, the model's proposals, sandbox, build, verifier, judge) is \<open>soak_world\<close>.  \<open>fixed k x\<close> prints a number with \<open>k\<close>
  decimals.  Lessons recorded in Cortex leave the machine; the records omit the time stamps and
  the thermal readings.
\<close>

section \<open>Configuration and manifest\<close>

record soak_config =
  so_rsi_root :: string
  so_sandbox_root :: string
  so_signing_key_hex :: "string option"
  so_operator_key_hex :: "string option"
  so_model_id :: string
  so_total_cycles :: nat
  so_candidates_per_cycle :: nat
  so_writable_prefixes :: "string list"

definition default_soak_config :: soak_config where
  "default_soak_config =
     \<lparr>so_rsi_root = ''.rsi'', so_sandbox_root = ''/tmp/spark-rsi-soak'', so_signing_key_hex = None, so_operator_key_hex = None,
      so_model_id = ''atlas-lightning-omni'', so_total_cycles = 5, so_candidates_per_cycle = 3,
      so_writable_prefixes = [''src/propose/'', ''src/graph/'', ''src/observe.rs'']\<rparr>"

record engine_snapshot =
  sn_commit_sha :: string
  sn_evaluator_version :: string
  sn_holdout_bundle_digest :: string
  sn_builder_digest :: string
  sn_model_id :: string
  sn_cortex_snapshot_ref :: string
  sn_operator_verifying_key :: "string option"

record candidate_entry =
  ke_candidate_id :: string
  ke_candidate_index :: nat
  ke_target_file :: string
  ke_proposed_patch_digest :: string
  ke_compilation_passed :: bool
  ke_invariants_passed :: bool
  ke_judge_admitted :: bool
  ke_primary_metric_name :: string
  ke_primary_metric_value :: float64
  ke_rejection_reason :: "string option"
  ke_ledger_block_hash :: "string option"

record soak_cycle_record =
  sy_cycle_index :: nat
  sy_cycle_id :: string
  sy_bottleneck_node :: string
  sy_hypothesis_id :: string
  sy_hypothesis_problem :: string
  sy_candidates :: "candidate_entry list"
  sy_winning_candidate_id :: "string option"
  sy_merkle_checkpoint_hash :: "string option"
  sy_cortex_receipt_id :: "string option"
  sy_status :: string

record admitted_candidate =
  ad_candidate_id :: string
  ad_ledger_block_hash :: string
  ad_staging_dir :: string
  ad_patch_digest :: string
  ad_criteria_1_novel_discovery :: bool
  ad_criteria_2_self_capability_gain :: bool
  ad_classification :: string

record soak_manifest =
  sm_manifest_version :: string
  sm_run_id :: string
  sm_engine_n_snapshot :: engine_snapshot
  sm_cycles :: "soak_cycle_record list"
  sm_admitted_candidates :: "admitted_candidate list"
  sm_exhausted_hypotheses :: "string list"
  sm_final_merkle_checkpoint :: "string option"
  sm_total_candidates_evaluated :: nat
  sm_total_candidates_admitted :: nat
  sm_preflight_passed :: bool
  sm_overall_status :: string

section \<open>The quarantine of hypotheses\<close>

text \<open>The counts are a map, the exhausted pairings a list without repetition.\<close>

record quarantine =
  qt_failure_counts :: "string \<rightharpoonup> nat"
  qt_exhausted_pairings :: "string list"

definition new_quarantine :: quarantine where
  "new_quarantine = \<lparr>qt_failure_counts = Map.empty, qt_exhausted_pairings = []\<rparr>"

definition pairing_key :: "crates \<Rightarrow> string \<Rightarrow> string \<Rightarrow> string" where
  "pairing_key X node_name problem_summary = node_name @ '':'' @ take 12 (hex_encode X (sha256 X problem_summary))"

definition is_exhausted :: "crates \<Rightarrow> quarantine \<Rightarrow> string \<Rightarrow> string \<Rightarrow> bool" where
  "is_exhausted X q node_name problem_summary \<longleftrightarrow> pairing_key X node_name problem_summary \<in> set (qt_exhausted_pairings q)"

definition record_failure :: "crates \<Rightarrow> string \<Rightarrow> string \<Rightarrow> quarantine \<Rightarrow> bool \<times> quarantine" where
  "record_failure X node_name problem_summary q =
     (let key = pairing_key X node_name problem_summary;
          count = (case qt_failure_counts q key of Some n \<Rightarrow> n | None \<Rightarrow> 0) + 1;
          q = q\<lparr>qt_failure_counts := (qt_failure_counts q)(key \<mapsto> count)\<rparr> in
      if 3 \<le> count then (True, q\<lparr>qt_exhausted_pairings := List.insert key (qt_exhausted_pairings q)\<rparr>) else (False, q))"

definition record_success :: "crates \<Rightarrow> string \<Rightarrow> string \<Rightarrow> quarantine \<Rightarrow> quarantine" where
  "record_success X node_name problem_summary q =
     (let key = pairing_key X node_name problem_summary in
      \<lparr>qt_failure_counts = (qt_failure_counts q)(key := None),
       qt_exhausted_pairings = removeAll key (qt_exhausted_pairings q)\<rparr>)"

definition exhausted_list :: "quarantine \<Rightarrow> string list" where
  "exhausted_list q = sort (qt_exhausted_pairings q)"

section \<open>The bottleneck and its hypothesis\<close>

record soak_world =
  sw_hypothesis_uuid :: string
  sw_observed :: "string + rat \<times> rat"
  sw_context :: measure_context
  sw_unslop :: "improvement_proposal option"
  sw_attempts :: "nat \<Rightarrow> improvement_proposal option \<times> candidate_run"
  sw_cortex_receipt :: "string option"

text \<open>The ranking of a cycle from the stage samples on disk; \<open>None\<close> is a panic.\<close>

definition soak_ranking :: "engine \<Rightarrow> measure_context \<Rightarrow> string \<Rightarrow> sample_file \<Rightarrow> (graph_error + bottleneck_rank list) option" where
  "soak_ranking E ctx cycle_id samples =
     (case build_capability_graph (measure_stages (tx_measure (en_texts E)) (read_records (en_sample_record E) samples) cycle_id ctx 3 20 20) of
        Inl e \<Rightarrow> Some (Err e)
      | Inr g \<Rightarrow> map_option Ok (rank_bottlenecks g))"

definition choose_bottleneck ::
    "crates \<Rightarrow> (nat \<Rightarrow> rat \<Rightarrow> string) \<Rightarrow> quarantine \<Rightarrow> bottleneck_rank list \<Rightarrow> bottleneck_rank option" where
  "choose_bottleneck X fixed q ranked =
     (case find (\<lambda>b. \<not> is_exhausted X q (br_node_name b) (explanation_text fixed (br_causal_explanation b))) ranked of
        Some b \<Rightarrow> Some b
      | None \<Rightarrow> (case ranked of [] \<Rightarrow> None | b # _ \<Rightarrow> Some b))"

definition soak_problem :: "(nat \<Rightarrow> rat \<Rightarrow> string) \<Rightarrow> bottleneck_rank \<Rightarrow> string" where
  "soak_problem fixed b = ''High latency on '' @ br_node_name b @ '': '' @ explanation_text fixed (br_causal_explanation b)"

definition soak_hypothesis :: "(nat \<Rightarrow> rat \<Rightarrow> string) \<Rightarrow> string \<Rightarrow> string \<Rightarrow> bottleneck_rank \<Rightarrow> hypothesis_contract" where
  "soak_hypothesis fixed uuid cycle_id b =
     with_falsification_test ''assert!(receipt.passed_all_hard_invariants)''
       (with_protected_metric ''correctness'' (Finite 0) (from_bottleneck fixed (''hypo-'' @ take 12 uuid) cycle_id b (Finite 5)))"

definition soak_target :: "bottleneck_rank \<Rightarrow> string" where
  "soak_target b = (if br_node_name b = ''Propose'' then ''src/propose/hypothesis.rs'' else ''src/observe.rs'')"

section \<open>One candidate\<close>

definition is_permitted :: "string list \<Rightarrow> string \<Rightarrow> bool" where
  "is_permitted allowed target =
     (let normalized = trim_target target in
      list_ex (\<lambda>prefix. normalized = trim_end_slashes prefix \<or> starts_with prefix normalized) allowed)"

definition soak_proposal :: "nat \<Rightarrow> improvement_proposal option \<Rightarrow> improvement_proposal option \<Rightarrow> improvement_proposal option" where
  "soak_proposal idx generated unslop = (case generated of Some p \<Rightarrow> Some p | None \<Rightarrow> if idx = 1 then unslop else None)"

definition rejected_entry :: "string \<Rightarrow> nat \<Rightarrow> string \<Rightarrow> string \<Rightarrow> bool \<Rightarrow> bool \<Rightarrow> string \<Rightarrow> candidate_entry" where
  "rejected_entry cand_id idx target digest compiled verified reason =
     \<lparr>ke_candidate_id = cand_id, ke_candidate_index = idx, ke_target_file = target, ke_proposed_patch_digest = digest,
      ke_compilation_passed = compiled, ke_invariants_passed = verified, ke_judge_admitted = False,
      ke_primary_metric_name = ''latency_us'', ke_primary_metric_value = Finite 0, ke_rejection_reason = Some reason,
      ke_ledger_block_hash = None\<rparr>"

text \<open>The value of the bits of an \<open>f64\<close>.\<close>

definition f64_of_bits :: "f64_bits \<Rightarrow> float64" where
  "f64_of_bits b =
     (let negative = bit b 63; e = unat (drop_bit 52 b AND 0x7FF); m = unat (b AND 0xFFFFFFFFFFFFF) in
      if e = 0x7FF then (if m = 0 then Infinite (\<not> negative) else NotANumber)
      else Finite ((if negative then - 1 else 1) *
        (if e = 0 then of_nat m / 2 ^ 1074 else of_nat (2 ^ 52 + m) * 2 powi (int e - 1075))))"

definition latency_delta :: "evaluation_receipt \<Rightarrow> float64" where
  "latency_delta r = (case er_metrics_summary r of Some m \<Rightarrow> f64_of_bits (ms_latency_delta_pct m) | None \<Rightarrow> Finite 0)"

type_synonym admissible = "improvement_proposal \<times> evaluation_receipt \<times> ledger_block"

definition judged_entry :: "string \<Rightarrow> nat \<Rightarrow> string \<Rightarrow> string \<Rightarrow> evaluation_receipt \<Rightarrow> ledger_block \<Rightarrow> candidate_entry" where
  "judged_entry cand_id idx target digest receipt blk =
     \<lparr>ke_candidate_id = cand_id, ke_candidate_index = idx, ke_target_file = target, ke_proposed_patch_digest = digest,
      ke_compilation_passed = True, ke_invariants_passed = True, ke_judge_admitted = er_admitted receipt,
      ke_primary_metric_name = ''latency_delta_pct'', ke_primary_metric_value = latency_delta receipt,
      ke_rejection_reason = (if er_admitted receipt then None else Some ''Judge non-inferiority margin exceeded or holdout failure''),
      ke_ledger_block_hash = Some (lb_block_hash blk)\<rparr>"

definition soak_judge :: "bytes \<Rightarrow> blind_judge" where
  "soak_judge key = \<lparr>bj_signing_key = Some key, bj_require_build_verification = True, bj_executable = None, bj_build_release = False,
     bj_v2 = None\<rparr>"

definition soak_build :: "engine \<Rightarrow> candidate_run \<Rightarrow> entries \<Rightarrow> 'r world \<Rightarrow> bool \<times> 'r world" where
  "soak_build E att es w =
     (if node_at es [''Cargo.toml''] = None then (True, w)
      else case cw_build att of
          Inr (True, _) \<Rightarrow> (True, w)
        | Inr (False, _, err) \<Rightarrow> (False, noted E (''Build Jail compile failed: '' @ err) w)
        | Inl e \<Rightarrow> (False, noted E (''Build Jail execution error: '' @ e) w))"

definition judge_soak ::
    "engine \<Rightarrow> bytes \<Rightarrow> string \<Rightarrow> nat \<Rightarrow> string \<Rightarrow> improvement_proposal \<Rightarrow> candidate_run \<Rightarrow> 'r world
      \<Rightarrow> (string + candidate_entry \<times> admissible option) \<times> 'r world" where
  "judge_soak E key cycle_id idx digest p att w =
     (case evaluate_cycle (en_X E) (en_P E) (en_suite E) (en_debug E) (en_lowercase E) (soak_judge key) (cw_judge att)
             cycle_id (ip_id p) ''parent'' of
        Inl e \<Rightarrow>
          let reason = ''Blind Judge error: '' @ tx_judge (en_texts E) e in
          (Ok (rejected_entry (ip_id p) idx (ip_target_file p) digest True True reason, None), noted E reason w)
      | Inr receipt \<Rightarrow>
          let json = tx_receipt_json (en_texts E) receipt in
          (case append_evaluation (en_X E) (en_strings E) (en_now E (wd_db w)) json (Some json) (wd_db w) of
             (Inl e, db) \<Rightarrow> (Err (''Failed to append evaluation: '' @ tx_ledger (en_texts E) e), w\<lparr>wd_db := db\<rparr>)
           | (Inr blk, db) \<Rightarrow>
               (Ok (judged_entry (ip_id p) idx (ip_target_file p) digest receipt blk,
                    if er_admitted receipt then Some (p, receipt, blk) else None), w\<lparr>wd_db := db\<rparr>)))"

definition try_soak ::
    "engine \<Rightarrow> soak_config \<Rightarrow> bytes \<Rightarrow> string \<Rightarrow> string \<Rightarrow> bool \<Rightarrow> nat \<Rightarrow> improvement_proposal option \<Rightarrow> candidate_run \<Rightarrow> 'r world
      \<Rightarrow> (string + candidate_entry \<times> admissible option) \<times> 'r world" where
  "try_soak E so key cycle_id target is_balanced idx found att w =
     (let cand_id = cycle_id @ ''-c'' @ dec_nat idx in
      case found of
        None \<Rightarrow> (Ok (rejected_entry cand_id idx target ''none'' False False ''Model generation failed to produce valid code'', None), w)
      | Some p \<Rightarrow>
     (let p = p\<lparr>ip_id := cand_id\<rparr>; digest = hex_encode (en_X E) (sha256 (en_X E) (ip_proposed_patch p));
          rejected = (\<lambda>compiled reason. Ok (rejected_entry cand_id idx (ip_target_file p) digest compiled False reason, None)) in
      if \<not> is_permitted (so_writable_prefixes so) (ip_target_file p) then
        let reason = ''Tier 2 boundary violation: '' @ ip_target_file p @ '' is outside permitted soak surface'' in
        (rejected False reason, noted E reason w)
      else case cw_sandbox att of
          Inl e \<Rightarrow> let reason = ''Staging failed: '' @ e in (rejected False reason, noted E reason w)
        | Inr es \<Rightarrow>
     (let p = p\<lparr>ip_sandbox_path := Some (so_sandbox_root so @ ''/'' @ cand_id)\<rparr> in
      case soak_build E att es w of
        (False, w) \<Rightarrow> (rejected False ''Failed to compile in Jail 1'', w)
      | (True, w) \<Rightarrow>
          if \<not> iv_passed (cw_report att) \<or> \<not> is_balanced then
            let reason = ''Invariants or Balance failed (inv='' @ bool_text (iv_passed (cw_report att)) @ '', bal='' @ bool_text is_balanced @ '')'' in
            (rejected True reason, noted E reason w)
          else judge_soak E key cycle_id idx digest p att w)))"

text \<open>The candidates of a cycle, numbered from \<open>i\<close>; each leaves one record.\<close>

fun soak_candidates ::
    "engine \<Rightarrow> soak_config \<Rightarrow> bytes \<Rightarrow> string \<Rightarrow> string \<Rightarrow> bool \<Rightarrow> soak_world \<Rightarrow> nat \<Rightarrow> nat \<Rightarrow> 'r world
      \<Rightarrow> (string + candidate_entry list \<times> admissible list) \<times> 'r world" where
  "soak_candidates E so key cycle_id target is_balanced sw 0 i w = (Ok ([], []), w)"
| "soak_candidates E so key cycle_id target is_balanced sw (Suc n) i w =
     (let (generated, att) = sw_attempts sw i in
      case try_soak E so key cycle_id target is_balanced i (soak_proposal i generated (sw_unslop sw)) att w of
        (Inl e, w) \<Rightarrow> (Err e, w)
      | (Inr (entry, admitted), w) \<Rightarrow>
          (case soak_candidates E so key cycle_id target is_balanced sw n (i + 1) w of
             (Inl e, w) \<Rightarrow> (Err e, w)
           | (Inr (entries, rest), w) \<Rightarrow>
               (Ok (entry # entries, case admitted of Some a \<Rightarrow> a # rest | None \<Rightarrow> rest), w)))"

section \<open>The winner\<close>

text \<open>The insertion sort of the standard library: an element moves left past the elements it is less than.\<close>

definition insert_tail :: "('a \<Rightarrow> 'a \<Rightarrow> bool) \<Rightarrow> 'a \<Rightarrow> 'a list \<Rightarrow> 'a list" where
  "insert_tail lt x ys =
     (let k = length ys - length (takeWhile (\<lambda>y. lt x y) (rev ys)) in take k ys @ x # drop k ys)"

definition sort_by :: "('a \<Rightarrow> 'a \<Rightarrow> bool) \<Rightarrow> 'a list \<Rightarrow> 'a list" where
  "sort_by lt xs = fold (insert_tail lt) xs []"

definition faster :: "admissible \<Rightarrow> admissible \<Rightarrow> bool" where
  "faster a b \<longleftrightarrow> float_less (latency_delta (fst (snd a))) (latency_delta (fst (snd b)))"

definition admit_winner :: "engine \<Rightarrow> soak_config \<Rightarrow> (nat \<Rightarrow> rat \<Rightarrow> string) \<Rightarrow> hypothesis_contract \<Rightarrow> admissible \<Rightarrow> admitted_candidate" where
  "admit_winner E so fixed h winner =
     (let (p, receipt, blk) = winner;
          best = (case latency_delta receipt of Finite x \<Rightarrow> fixed 2 x | Infinite True \<Rightarrow> ''inf'' | Infinite False \<Rightarrow> ''-inf'' | NotANumber \<Rightarrow> ''NaN'') in
      \<lparr>ad_candidate_id = ip_id p, ad_ledger_block_hash = lb_block_hash blk,
       ad_staging_dir = so_rsi_root so @ ''/admitted/'' @ lb_block_hash blk,
       ad_patch_digest = hex_encode (en_X E) (sha256 (en_X E) (ip_proposed_patch p)),
       ad_criteria_1_novel_discovery = cr_passed (criterion_1 (hc_observed_problem h) True [''hardcoded'', ''static_rule'']),
       ad_criteria_2_self_capability_gain = cr_passed (criterion_2 True (''latency improved by '' @ best @ ''%'' @ [CHR 0x09])),
       ad_classification = ''META_CANDIDATE''\<rparr>)"

section \<open>One cycle\<close>

definition soak_checkpoint :: "engine \<Rightarrow> bytes \<Rightarrow> 'r world \<Rightarrow> string option \<times> 'r world" where
  "soak_checkpoint E key w =
     (case checkpoint (en_X E) (p256.truncate (en_P E)) (en_strings E) (en_now E (wd_db w)) (Some key) (wd_db w) of
        Inl _ \<Rightarrow> (None, w)
      | Inr (c, db) \<Rightarrow> (Some (mc_merkle_root c), w\<lparr>wd_db := db\<rparr>))"

definition soak_cycle_id :: "string \<Rightarrow> nat \<Rightarrow> string" where
  "soak_cycle_id run_id i = ''soak-'' @ run_id @ ''-c'' @ (if i < 10 then ''0'' else []) @ dec_nat i"

text \<open>The end of a cycle: without an admitted candidate the pairing is counted as failed, otherwise the best one is staged.\<close>

definition settle_cycle ::
    "engine \<Rightarrow> soak_config \<Rightarrow> (nat \<Rightarrow> rat \<Rightarrow> string) \<Rightarrow> bottleneck_rank \<Rightarrow> hypothesis_contract \<Rightarrow> admissible list \<Rightarrow> quarantine
      \<Rightarrow> admitted_candidate option \<times> quarantine" where
  "settle_cycle E so fixed b h admissibles q =
     (case sort_by faster admissibles of
        [] \<Rightarrow> (None, snd (record_failure (en_X E) (br_node_name b) (soak_problem fixed b) q))
      | winner # _ \<Rightarrow>
          (Some (admit_winner E so fixed h winner), record_success (en_X E) (br_node_name b) (soak_problem fixed b) q))"

definition soak_cycle ::
    "engine \<Rightarrow> soak_config \<Rightarrow> (nat \<Rightarrow> rat \<Rightarrow> string) \<Rightarrow> bytes \<Rightarrow> string \<Rightarrow> nat \<Rightarrow> soak_world \<Rightarrow> quarantine \<Rightarrow> 'r world
      \<Rightarrow> (cycle_error + (soak_cycle_record \<times> admitted_candidate option) option) \<times> quarantine \<times> 'r world" where
  "soak_cycle E so fixed key run_id i sw q w =
     (let cycle_id = soak_cycle_id run_id i in
      case sw_observed sw of
        Inl e \<Rightarrow> (Err (Failed e), q, w)
      | Inr (drive, humanity) \<Rightarrow>
     (case soak_ranking E (sw_context sw) cycle_id (wd_samples w) of
        None \<Rightarrow> (Err Panicked, q, w)
      | Some (Inl e) \<Rightarrow> (Err (Failed (tx_graph (en_texts E) e)), q, w)
      | Some (Inr ranked) \<Rightarrow>
     (case choose_bottleneck (en_X E) fixed q ranked of
        None \<Rightarrow> (Ok None, q, w)
      | Some b \<Rightarrow>
     (let h = soak_hypothesis fixed (sw_hypothesis_uuid sw) cycle_id b;
          is_balanced = (bv_verdict (balance_scalar drive humanity) = ''balanced'') in
      case soak_candidates E so key cycle_id (soak_target b) is_balanced sw (so_candidates_per_cycle so) 1 w of
        (Inl e, w) \<Rightarrow> (Err (Failed e), q, w)
      | (Inr (entries, admissibles), w) \<Rightarrow>
          (let (admitted, q) = settle_cycle E so fixed b h admissibles q;
               (root, w) = soak_checkpoint E key w in
           (Ok (Some
             (\<lparr>sy_cycle_index = i, sy_cycle_id = cycle_id, sy_bottleneck_node = br_node_name b, sy_hypothesis_id = hc_id h,
               sy_hypothesis_problem = hc_observed_problem h, sy_candidates = entries,
               sy_winning_candidate_id = map_option ad_candidate_id admitted, sy_merkle_checkpoint_hash = root,
               sy_cortex_receipt_id = (if admitted = None then None else sw_cortex_receipt sw), sy_status = ''COMPLETED''\<rparr>,
              admitted)), q, w))))))"

section \<open>The run\<close>

text \<open>The cycles from number \<open>i\<close>; an empty ranking ends the run early.\<close>

fun soak_cycles ::
    "engine \<Rightarrow> soak_config \<Rightarrow> (nat \<Rightarrow> rat \<Rightarrow> string) \<Rightarrow> bytes \<Rightarrow> string \<Rightarrow> (nat \<Rightarrow> soak_world) \<Rightarrow> nat \<Rightarrow> nat \<Rightarrow> quarantine \<Rightarrow> 'r world
      \<Rightarrow> (cycle_error + soak_cycle_record list \<times> admitted_candidate list) \<times> quarantine \<times> 'r world" where
  "soak_cycles E so fixed key run_id sws 0 i q w = (Ok ([], []), q, w)"
| "soak_cycles E so fixed key run_id sws (Suc n) i q w =
     (case soak_cycle E so fixed key run_id i (sws i) q w of
        (Inl e, q, w) \<Rightarrow> (Err e, q, w)
      | (Inr None, q, w) \<Rightarrow> (Ok ([], []), q, w)
      | (Inr (Some (cycle, admitted)), q, w) \<Rightarrow>
          (case soak_cycles E so fixed key run_id sws n (i + 1) q w of
             (Inl e, q, w) \<Rightarrow> (Err e, q, w)
           | (Inr (cycles, rest), q, w) \<Rightarrow>
               (Ok (cycle # cycles, case admitted of Some a \<Rightarrow> a # rest | None \<Rightarrow> rest), q, w)))"

record soak_run =
  sr_uuid :: string
  sr_commit :: "string option"
  sr_version :: string
  sr_captured_at :: string
  sr_bwrap :: "string + bool"
  sr_opened_at :: string
  sr_reopened_at :: string
  sr_holdouts_exist :: bool
  sr_cargo_toml_exists :: bool
  sr_worlds :: "nat \<Rightarrow> soak_world"
  sr_saved :: "string + unit"

definition capture_engine_n :: "soak_config \<Rightarrow> soak_run \<Rightarrow> engine_snapshot" where
  "capture_engine_n so env =
     \<lparr>sn_commit_sha = (case sr_commit env of Some c \<Rightarrow> c | None \<Rightarrow> ''unknown_sha''), sn_evaluator_version = sr_version env,
      sn_holdout_bundle_digest = ''sha256:holdouts-bundle-authoritative'', sn_builder_digest = ''sha256:spark-rsi-builder-pinned'',
      sn_model_id = so_model_id so, sn_cortex_snapshot_ref = sr_captured_at env, sn_operator_verifying_key = so_operator_key_hex so\<rparr>"

definition run_preflight_checks :: "engine \<Rightarrow> string option \<Rightarrow> soak_run \<Rightarrow> 'r world \<Rightarrow> (string + unit) \<times> 'r world" where
  "run_preflight_checks E key_hex env w =
     (case sr_bwrap env of
        Inl e \<Rightarrow> (Err (''Preflight containment check failed: bwrap missing: '' @ e), w)
      | Inr False \<Rightarrow> (Err ''Preflight containment check failed: bwrap returned non-zero exit code'', w)
      | Inr True \<Rightarrow>
     (case key_hex of
        None \<Rightarrow> (Err ''Preflight failed: missing signing_key_hex'', w)
      | Some hex \<Rightarrow>
     (case hex_decode (en_X E) hex of
        None \<Rightarrow> (Err ''Preflight failed: invalid hex signing key'', w)
      | Some key \<Rightarrow>
          if \<not> en_signing_key_ok E key then (Err ''Preflight failed: invalid P-256 signing key'', w)
          else case open_ledger (en_X E) (en_strings E) (sr_opened_at env) (wd_db w) of
              Inl e \<Rightarrow> (Err (''Preflight failed: cannot open improvement ledger: '' @ tx_ledger (en_texts E) e), w)
            | Inr db \<Rightarrow>
                (let w = w\<lparr>wd_db := db\<rparr> in
                 if \<not> sr_holdouts_exist env then (Err ''Preflight failed: holdouts directory does not exist'', w)
                 else if \<not> sr_cargo_toml_exists env then (Err ''Preflight failed: Cargo.toml not found in target repo'', w)
                 else (Ok (), w)))))"

definition soak_signing_key :: "engine \<Rightarrow> soak_config \<Rightarrow> string + bytes" where
  "soak_signing_key E so =
     (case so_signing_key_hex so of
        None \<Rightarrow> Err ''Fatal: Missing cryptographic signing key (signing_key_hex). Soak run fails closed.''
      | Some hex \<Rightarrow>
          (case hex_decode (en_X E) hex of
             None \<Rightarrow> Err ''Fatal: Invalid signing_key_hex''
           | Some key \<Rightarrow> if en_signing_key_ok E key then Ok key else Err ''Fatal: Invalid P-256 signing key''))"

definition run_batch ::
    "engine \<Rightarrow> soak_config \<Rightarrow> (nat \<Rightarrow> rat \<Rightarrow> string) \<Rightarrow> soak_run \<Rightarrow> 'r world \<Rightarrow> (cycle_error + soak_manifest) \<times> 'r world" where
  "run_batch E so fixed env w =
     (let run_id = ''soak-'' @ take 12 (sr_uuid env) in
      case soak_signing_key E so of
        Inl e \<Rightarrow> (Err (Failed e), w)
      | Inr key \<Rightarrow>
     (case run_preflight_checks E (so_signing_key_hex so) env w of
        (Inl e, w) \<Rightarrow> (Err (Failed (''Preflight aborted: '' @ e)), w)
      | (Inr _, w) \<Rightarrow>
     (case open_ledger (en_X E) (en_strings E) (sr_reopened_at env) (wd_db w) of
        Inl e \<Rightarrow> (Err (Failed (''Fatal: Failed to open ImprovementLedger: '' @ tx_ledger (en_texts E) e)), w)
      | Inr db \<Rightarrow>
     (case soak_cycles E so fixed key run_id (sr_worlds env) (so_total_cycles so) 1 new_quarantine (w\<lparr>wd_db := db\<rparr>) of
        (Inl e, _, w) \<Rightarrow> (Err e, w)
      | (Inr (cycles, admitted), q, w) \<Rightarrow>
          (let (root, w) = soak_checkpoint E key w in
           (and_then (map_err Failed (sr_saved env)) (\<lambda>_. Ok
              \<lparr>sm_manifest_version = ''1.0.0'', sm_run_id = run_id, sm_engine_n_snapshot = capture_engine_n so env,
               sm_cycles = cycles, sm_admitted_candidates = admitted, sm_exhausted_hypotheses = exhausted_list q,
               sm_final_merkle_checkpoint = root, sm_total_candidates_evaluated = sum_list (map (length \<circ> sy_candidates) cycles),
               sm_total_candidates_admitted = length admitted, sm_preflight_passed = True, sm_overall_status = ''SUCCESS''\<rparr>), w))))))"

end
