(* ===== verification/Soak_Safety.thy ===== *)
theory Soak_Safety
  imports Soak Engine_Examples
begin

text \<open>
  What a soak run may change and what its manifest says: the frames of the engine carry over, so a run promotes nothing and keeps
  the ledger sound; the manifest accounts for every candidate; and the quarantine of exhausted hypotheses has no effect.
\<close>

section \<open>Frames\<close>

text \<open>Of the steps a frame allows, a soak run needs evaluations, checkpoints and the opening of the ledger.\<close>

locale soak_frame = gauntlet_frame +
  assumes checked: "checkpoint (en_X E) (p256.truncate (en_P E)) (en_strings E) now key (wd_db w) = Inr (c, db) \<Longrightarrow> R w (w\<lparr>wd_db := db\<rparr>)"
    and opened: "open_ledger (en_X E) (en_strings E) now (wd_db w) = Inr db \<Longrightarrow> R w (w\<lparr>wd_db := db\<rparr>)"
begin

lemma soak_build: "R w (snd (soak_build E att es w))"
  using refl noted by (auto simp: soak_build_def split: sum.split bool.split)

lemma judge_soak: "R w (snd (judge_soak E key cycle_id idx digest p att w))"
  using evaluated noted by (auto simp: judge_soak_def Let_def split: sum.split prod.split)

lemma try_soak: "R w (snd (try_soak E so key cycle_id target bal idx found att w))"
proof (cases found)
  case (Some p)
  have built: "R w (snd (case soak_build E att es w of (False, w) \<Rightarrow> (x, w) | (True, w) \<Rightarrow>
      if c then (y, noted E t w) else judge_soak E key cycle_id idx digest q att w))" for es x c y t digest q
  proof -
    obtain ok w1 where b: "soak_build E att es w = (ok, w1)" by (metis surj_pair)
    then have w1: "R w w1" using soak_build [of w att es] by simp
    show ?thesis using w1 trans [OF w1 noted] trans [OF w1 judge_soak] by (cases ok) (simp_all add: b)
  qed
  show ?thesis
    unfolding try_soak_def Some Let_def option.case using noted built by (simp split: sum.split)
qed (simp add: try_soak_def refl)

lemma soak_candidates: "R w (snd (soak_candidates E so key cycle_id target bal sw n i w))"
proof (induction n arbitrary: i w)
  case (Suc n)
  obtain g att where a: "sw_attempts sw i = (g, att)" by (metis surj_pair)
  obtain r w1 where r: "try_soak E so key cycle_id target bal i (soak_proposal i g (sw_unslop sw)) att w = (r, w1)" by (metis surj_pair)
  then have w1: "R w w1" using try_soak [of w so key cycle_id target bal i] by (metis snd_conv)
  from trans [OF w1 Suc.IH [of w1 "i + 1"]] w1 show ?case
    by (auto simp: a r split: sum.split prod.split)
qed (simp add: refl)

lemma soak_checkpoint: "R w (snd (soak_checkpoint E key w))"
  using refl checked by (auto simp: soak_checkpoint_def split: sum.split)

lemma soak_cycle: "R w (snd (snd (soak_cycle E so fixed key run_id i sw q w)))"
proof -
  have "R w (snd (soak_checkpoint E key (snd (soak_candidates E so key cycle_id target bal sw n j w))))" for cycle_id target bal n j
    using trans [OF soak_candidates soak_checkpoint] .
  then show ?thesis
    using refl soak_candidates unfolding soak_cycle_def Let_def case_prod_unfold by (simp split: sum.split option.split)
qed

lemma soak_cycles: "R w (snd (snd (soak_cycles E so fixed key run_id sws n i q w)))"
proof (induction n arbitrary: i q w)
  case (Suc n)
  obtain r q1 w1 where r: "soak_cycle E so fixed key run_id i (sws i) q w = (r, q1, w1)" by (metis surj_pair)
  then have w1: "R w w1" using soak_cycle [of w so fixed key run_id i "sws i" q] by simp
  from trans [OF w1 Suc.IH [of w1 "i + 1" q1]] w1 show ?case
    by (auto simp: r split: sum.split prod.split option.split)
qed (simp add: refl)

lemma preflight: "R w (snd (run_preflight_checks E key_hex env w))"
  using refl opened by (auto simp: run_preflight_checks_def Let_def split: sum.split option.split bool.split)

lemma run_batch: "R w (snd (run_batch E so fixed env w))"
proof -
  obtain r1 w1 where p: "run_preflight_checks E (so_signing_key_hex so) env w = (r1, w1)" by (metis surj_pair)
  then have w1: "R w w1" using preflight [of w "so_signing_key_hex so" env] by simp
  have cycles: "R w (snd (snd (soak_cycles E so fixed key run_id sws n i q (w1\<lparr>wd_db := db\<rparr>))))"
    if "open_ledger (en_X E) (en_strings E) now (wd_db w1) = Inr db" for now db key run_id sws n i q
    using trans [OF trans [OF w1 opened [OF that]] soak_cycles] .
  have "R w (snd (soak_checkpoint E key (snd (snd (soak_cycles E so fixed key run_id sws n i q (w1\<lparr>wd_db := db\<rparr>))))))"
    if "open_ledger (en_X E) (en_strings E) now (wd_db w1) = Inr db" for now db key run_id sws n i q
    using trans [OF cycles [OF that] soak_checkpoint] .
  with w1 refl cycles show ?thesis
    unfolding run_batch_def p Let_def case_prod_unfold by (simp split: sum.split add: p)
qed

end

sublocale cycle_frame \<subseteq> soak_frame
  by unfold_locales (fact checked opened)+

text \<open>Nothing but the ledger, the stage clock and the pin of the workload changes.\<close>

definition only_ledger :: "'r world \<Rightarrow> 'r world \<Rightarrow> bool" where
  "only_ledger u v \<longleftrightarrow> wd_host v = wd_host u \<and> wd_log v = wd_log u \<and> wd_repo v = wd_repo u \<and> wd_samples v = wd_samples u
     \<and> wd_partial v = wd_partial u \<and> wd_workload_file v = wd_workload_file u"

interpretation soaked: soak_frame E only_ledger for E
  by unfold_locales (auto simp: only_ledger_def)


section \<open>The fastest candidate\<close>

lemma length_insert_tail [simp]: "length (insert_tail lt x ys) = Suc (length ys)"
  by (simp add: insert_tail_def Let_def)

lemma set_insert_tail: "set (insert_tail lt x ys) = insert x (set ys)"
proof -
  have "set (take k ys) \<union> set (drop k ys) = set ys" for k by (metis append_take_drop_id set_append)
  then show ?thesis by (auto simp: insert_tail_def Let_def)
qed

lemma set_sort_by: "set (sort_by lt xs) = set xs"
proof -
  have "set (fold (insert_tail lt) xs ys) = set xs \<union> set ys" for ys
    by (induction xs arbitrary: ys) (auto simp: set_insert_tail)
  then show ?thesis by (simp add: sort_by_def)
qed

lemma sort_by_Nil [simp]: "sort_by lt xs = [] \<longleftrightarrow> xs = []"
  using set_sort_by [of lt xs] by (metis set_empty)

text \<open>A strict weak order on the elements that are compared.\<close>

definition weak_order_on :: "'a set \<Rightarrow> ('a \<Rightarrow> 'a \<Rightarrow> bool) \<Rightarrow> bool" where
  "weak_order_on A lt \<longleftrightarrow> (\<forall>a \<in> A. \<forall>b \<in> A. lt a b \<longrightarrow> \<not> lt b a)
     \<and> (\<forall>a \<in> A. \<forall>b \<in> A. \<forall>c \<in> A. \<not> lt a b \<longrightarrow> \<not> lt b c \<longrightarrow> \<not> lt a c)"

lemma insert_tail_least:
  assumes "weak_order_on A lt" and "x \<in> A" and "set ys \<subseteq> A" and "\<forall>y \<in> set ys. \<not> lt y (hd ys)"
  shows "\<forall>y \<in> set (insert_tail lt x ys). \<not> lt y (hd (insert_tail lt x ys))"
proof (cases "takeWhile (\<lambda>y. lt x y) (rev ys) = rev ys")
  case True
  then have all: "\<forall>y \<in> set ys. lt x y" by (metis set_rev set_takeWhileD)
  have "insert_tail lt x ys = x # ys" unfolding insert_tail_def Let_def True by simp
  moreover have "\<not> lt y x" if "y \<in> insert x (set ys)" for y
    using that all assms(1,2,3) unfolding weak_order_on_def by blast
  ultimately show ?thesis by simp
next
  case False
  define k where "k = length ys - length (takeWhile (\<lambda>y. lt x y) (rev ys))"
  have len: "length (takeWhile (\<lambda>y. lt x y) (rev ys)) < length ys"
    using False by (metis length_rev length_takeWhile_le nat_less_le takeWhile_eq_take take_all_iff)
  then have k: "0 < k" "k \<le> length ys" by (simp_all add: k_def)
  have "\<not> lt x (rev ys ! length (takeWhile (\<lambda>y. lt x y) (rev ys)))" using nth_length_takeWhile len by (metis length_rev)
  then have last: "\<not> lt x (ys ! (k - 1))" using len by (simp add: rev_nth k_def)
  have ne: "ys \<noteq> []" using k by auto
  have "ys ! (k - 1) \<in> set ys" using k by (intro nth_mem) linarith
  with last assms ne have "\<not> lt x (hd ys)" unfolding weak_order_on_def by (meson hd_in_set subsetD)
  moreover have "insert_tail lt x ys = take k ys @ x # drop k ys" by (simp only: insert_tail_def Let_def k_def)
  then have "hd (insert_tail lt x ys) = hd ys" using k ne by (simp add: hd_append hd_take)
  ultimately show ?thesis using assms(4) by (simp add: set_insert_tail)
qed

lemma sort_by_least:
  assumes "weak_order_on (set xs) lt"
  shows "\<forall>y \<in> set xs. \<not> lt y (hd (sort_by lt xs))"
proof -
  have "set zs \<subseteq> set xs \<Longrightarrow> set ys \<subseteq> set xs \<Longrightarrow> \<forall>y \<in> set ys. \<not> lt y (hd ys) \<Longrightarrow>
      \<forall>y \<in> set zs \<union> set ys. \<not> lt y (hd (fold (insert_tail lt) zs ys))" for zs ys
  proof (induction zs arbitrary: ys)
    case (Cons z zs)
    have "\<forall>y \<in> set (insert_tail lt z ys). \<not> lt y (hd (insert_tail lt z ys))"
      using insert_tail_least [OF assms] Cons.prems by simp
    with Cons.IH [of "insert_tail lt z ys"] Cons.prems show ?case by (auto simp: set_insert_tail)
  qed simp
  from this [of xs "[]"] show ?thesis by (simp add: sort_by_def)
qed

lemma float_weak_order: "\<forall>a \<in> A. f a \<noteq> NotANumber \<Longrightarrow> weak_order_on A (\<lambda>a b. float_less (f a) (f b))"
proof -
  assume ok: "\<forall>a \<in> A. f a \<noteq> NotANumber"
  have "float_less x y \<Longrightarrow> \<not> float_less y x" for x y by (cases x; cases y) auto
  moreover have "\<not> float_less x y \<Longrightarrow> \<not> float_less y z \<Longrightarrow> y \<noteq> NotANumber \<Longrightarrow> \<not> float_less x z" for x y z
    by (cases x; cases y; cases z) auto
  ultimately show ?thesis using ok unfolding weak_order_on_def by blast
qed

section \<open>One record per candidate\<close>

text \<open>What the records and the admissible candidates of a cycle have in common.\<close>

definition entry_summary :: "candidate_entry \<Rightarrow> string \<times> string option \<times> float64 \<times> string" where
  "entry_summary e = (ke_candidate_id e, ke_ledger_block_hash e, ke_primary_metric_value e, ke_proposed_patch_digest e)"

definition admissible_summary :: "crates \<Rightarrow> admissible \<Rightarrow> string \<times> string option \<times> float64 \<times> string" where
  "admissible_summary X a = (case a of (p, r, blk) \<Rightarrow>
     (ip_id p, Some (lb_block_hash blk), latency_delta r, hex_encode X (sha256 X (ip_proposed_patch p))))"

text \<open>An entry whose candidate was admitted has passed every step.\<close>

definition sound_entry :: "candidate_entry \<Rightarrow> bool" where
  "sound_entry e \<longleftrightarrow> (ke_judge_admitted e \<longrightarrow> ke_compilation_passed e \<and> ke_invariants_passed e \<and> ke_rejection_reason e = None
     \<and> ke_ledger_block_hash e \<noteq> None)"

lemma rejected_entry_simps [simp]:
  "ke_candidate_id (rejected_entry c i t d b v r) = c" "ke_candidate_index (rejected_entry c i t d b v r) = i"
  "ke_judge_admitted (rejected_entry c i t d b v r) = False"
  by (simp_all add: rejected_entry_def)

lemma judge_soak_entry:
  assumes "judge_soak E key cid i (hex_encode (en_X E) (sha256 (en_X E) (ip_proposed_patch p))) p att w = (Ok (e, a), w')"
  shows "ke_candidate_index e = i \<and> sound_entry e
     \<and> (case a of Some x \<Rightarrow> ke_judge_admitted e \<and> entry_summary e = admissible_summary (en_X E) x | None \<Rightarrow> \<not> ke_judge_admitted e)"
  using assms
  by (auto simp: judge_soak_def Let_def judged_entry_def entry_summary_def admissible_summary_def sound_entry_def
      split: sum.splits prod.splits if_splits)

lemma try_soak_entry:
  assumes "try_soak E so key cid target bal i found att w = (Ok (e, a), w')"
  shows "ke_candidate_index e = i \<and> sound_entry e
     \<and> (case a of Some x \<Rightarrow> ke_judge_admitted e \<and> entry_summary e = admissible_summary (en_X E) x | None \<Rightarrow> \<not> ke_judge_admitted e)"
proof (cases found)
  case None
  with assms show ?thesis by (auto simp: try_soak_def sound_entry_def)
next
  case (Some p)
  let ?id = "cid @ ''-c'' @ dec_nat i"
  have rejected: "e = rejected_entry ?id i t d c v r \<Longrightarrow> a = None \<Longrightarrow> ?thesis" for t d c v r by (simp add: sound_entry_def)
  show ?thesis
  proof (cases "cw_sandbox att")
    case (Inl x)
    with assms show ?thesis by (auto simp: try_soak_def Some Let_def sound_entry_def split: if_splits)
  next
    case (Inr es)
    obtain ok w1 where b: "soak_build E att es w = (ok, w1)" by (metis surj_pair)
    let ?q = "p\<lparr>ip_id := ?id, ip_sandbox_path := Some (so_sandbox_root so @ ''/'' @ ?id)\<rparr>"
    have "judge_soak E key cid i (hex_encode (en_X E) (sha256 (en_X E) (ip_proposed_patch ?q))) ?q att w1 = (Ok (e, a), w') \<or> a = None
        \<and> (\<exists>t d c v r. e = rejected_entry ?id i t d c v r)"
      using assms unfolding try_soak_def Some Let_def option.case Inr sum.case b
      by (cases ok) (simp_all split: if_splits, blast+)
    then show ?thesis using judge_soak_entry rejected by blast
  qed
qed

lemma soak_candidates_entries:
  assumes "soak_candidates E so key cid target bal sw n i w = (Ok (es, as), w')"
  shows "map ke_candidate_index es = [i..<i + n] \<and> (\<forall>e \<in> set es. sound_entry e)
     \<and> map (admissible_summary (en_X E)) as = map entry_summary (filter ke_judge_admitted es)"
  using assms
proof (induction n arbitrary: i w es as)
  case (Suc n)
  obtain g att where a: "sw_attempts sw i = (g, att)" by (metis surj_pair)
  from Suc.prems a obtain e x w1 es' as' where
    step: "try_soak E so key cid target bal i (soak_proposal i g (sw_unslop sw)) att w = (Ok (e, x), w1)"
    and rest: "soak_candidates E so key cid target bal sw n (i + 1) w1 = (Ok (es', as'), w')"
    and eq: "es = e # es'" "as = (case x of Some a \<Rightarrow> a # as' | None \<Rightarrow> as')"
    by (auto split: sum.splits prod.splits)
  from Suc.IH [OF rest] try_soak_entry [OF step] show ?case
    unfolding eq by (auto simp: upt_conv_Cons split: option.splits)
qed simp


section \<open>Cycles\<close>

lemma soak_cycle_Ok:
  assumes "soak_cycle E so fixed key run_id i sw q w = (Ok (Some (c, adm)), q', w')"
  obtains b ranked es "as" bal w1 where
    "soak_ranking E (sw_context sw) (soak_cycle_id run_id i) (wd_samples w) = Some (Ok ranked)"
    "choose_bottleneck (en_X E) fixed q ranked = Some b"
    "soak_candidates E so key (soak_cycle_id run_id i) (soak_target b) bal sw (so_candidates_per_cycle so) 1 w = (Ok (es, as), w1)"
    "settle_cycle E so fixed b (soak_hypothesis fixed (sw_hypothesis_uuid sw) (soak_cycle_id run_id i) b) as q = (adm, q')"
    "sy_cycle_index c = i" "sy_cycle_id c = soak_cycle_id run_id i" "sy_bottleneck_node c = br_node_name b" "sy_candidates c = es"
    "sy_winning_candidate_id c = map_option ad_candidate_id adm"
  using assms by (auto simp: soak_cycle_def Let_def split: sum.splits prod.splits option.splits)

text \<open>A cycle record is sound: one sound entry per candidate, and the winner is a fastest admitted one.\<close>

definition sound_cycle :: "nat \<Rightarrow> soak_cycle_record \<Rightarrow> admitted_candidate option \<Rightarrow> bool" where
  "sound_cycle k c adm \<longleftrightarrow> map ke_candidate_index (sy_candidates c) = [1..<Suc k] \<and> (\<forall>e \<in> set (sy_candidates c). sound_entry e)
     \<and> sy_winning_candidate_id c = map_option ad_candidate_id adm
     \<and> (case adm of
          None \<Rightarrow> \<forall>e \<in> set (sy_candidates c). \<not> ke_judge_admitted e
        | Some x \<Rightarrow> \<exists>e \<in> set (sy_candidates c). ke_judge_admitted e \<and> ke_candidate_id e = ad_candidate_id x
            \<and> ke_ledger_block_hash e = Some (ad_ledger_block_hash x) \<and> ke_proposed_patch_digest e = ad_patch_digest x
            \<and> ((\<forall>f \<in> set (sy_candidates c). ke_judge_admitted f \<longrightarrow> ke_primary_metric_value f \<noteq> NotANumber)
                \<longrightarrow> (\<forall>f \<in> set (sy_candidates c). ke_judge_admitted f
                      \<longrightarrow> \<not> float_less (ke_primary_metric_value f) (ke_primary_metric_value e))))"

lemma summaries_match:
  assumes "map (admissible_summary X) as = map entry_summary fs" and "a \<in> set as"
  shows "\<exists>e \<in> set fs. entry_summary e = admissible_summary X a"
  using assms by (metis (no_types, lifting) image_iff list.set_map)

lemma settle_sound:
  assumes "settle_cycle E so fixed b h as q = (adm, q')"
    and "map (admissible_summary (en_X E)) as = map entry_summary (filter ke_judge_admitted es)"
  shows "case adm of
          None \<Rightarrow> \<forall>e \<in> set es. \<not> ke_judge_admitted e
        | Some x \<Rightarrow> \<exists>e \<in> set es. ke_judge_admitted e \<and> ke_candidate_id e = ad_candidate_id x
            \<and> ke_ledger_block_hash e = Some (ad_ledger_block_hash x) \<and> ke_proposed_patch_digest e = ad_patch_digest x
            \<and> ((\<forall>f \<in> set es. ke_judge_admitted f \<longrightarrow> ke_primary_metric_value f \<noteq> NotANumber)
                \<longrightarrow> (\<forall>f \<in> set es. ke_judge_admitted f \<longrightarrow> \<not> float_less (ke_primary_metric_value f) (ke_primary_metric_value e)))"
proof (cases "sort_by faster as")
  case Nil
  then have "filter ke_judge_admitted es = []" using assms(2) by simp
  moreover have "adm = None" using assms(1) unfolding settle_cycle_def Nil by simp
  ultimately show ?thesis by (simp add: filter_empty_conv)
next
  case (Cons win rest)
  obtain p r blk where win: "win = (p, r, blk)" by (cases win)
  from Cons have "win \<in> set as" by (metis list.set_intros(1) set_sort_by)
  from summaries_match [OF assms(2) this] obtain e where e: "e \<in> set es" "ke_judge_admitted e" "entry_summary e = admissible_summary (en_X E) win" by auto
  have least: "\<not> float_less (ke_primary_metric_value f) (ke_primary_metric_value e)"
    if ok: "\<forall>f \<in> set es. ke_judge_admitted f \<longrightarrow> ke_primary_metric_value f \<noteq> NotANumber" and f: "f \<in> set es" "ke_judge_admitted f" for f
  proof -
    have delta: "ke_primary_metric_value g = latency_delta (fst (snd a))" if "entry_summary g = admissible_summary (en_X E) a" for g a
      using that by (auto simp: entry_summary_def admissible_summary_def split: prod.splits)
    have "\<forall>a \<in> set as. latency_delta (fst (snd a)) \<noteq> NotANumber"
      using summaries_match [OF assms(2)] delta ok by (metis (no_types, lifting) mem_Collect_eq set_filter)
    from sort_by_least [OF float_weak_order [OF this]] have hd: "\<forall>a \<in> set as. \<not> faster a win"
      unfolding faster_def [symmetric] by (simp add: Cons flip: faster_def)
    from f have "entry_summary f \<in> set (map (admissible_summary (en_X E)) as)" unfolding assms(2) by simp
    then obtain a where "a \<in> set as" "entry_summary f = admissible_summary (en_X E) a" by auto
    with hd delta e(3) show ?thesis by (metis faster_def)
  qed
  have adm: "adm = Some (admit_winner E so fixed h win)" using assms(1) Cons by (simp add: settle_cycle_def)
  have "ad_candidate_id (admit_winner E so fixed h win) = ip_id p" "ad_ledger_block_hash (admit_winner E so fixed h win) = lb_block_hash blk"
    "ad_patch_digest (admit_winner E so fixed h win) = hex_encode (en_X E) (sha256 (en_X E) (ip_proposed_patch p))"
    by (simp_all add: admit_winner_def win Let_def)
  with e least show ?thesis unfolding adm by (auto simp: entry_summary_def admissible_summary_def win)
qed

lemma soak_cycle_sound:
  assumes "soak_cycle E so fixed key run_id i sw q w = (Ok (Some (c, adm)), q', w')"
  shows "sy_cycle_index c = i \<and> sound_cycle (so_candidates_per_cycle so) c adm"
  using assms
proof (rule soak_cycle_Ok, goal_cases)
  case (1 b ranked es as' bal w1)
  from soak_candidates_entries [OF 1(3)] settle_sound [OF 1(4)] 1(5,8,9) show ?case
    by (simp add: sound_cycle_def)
qed

lemma soak_cycles_sound:
  assumes "soak_cycles E so fixed key run_id sws n i q w = (Ok (cs, adms), q', w')"
  shows "length cs \<le> n \<and> map sy_cycle_index cs = [i..<i + length cs]
     \<and> map ad_candidate_id adms = List.map_filter sy_winning_candidate_id cs
     \<and> (\<forall>c \<in> set cs. \<exists>adm. sound_cycle (so_candidates_per_cycle so) c adm \<and> set_option adm \<subseteq> set adms)"
  using assms
proof (induction n arbitrary: i q w cs adms)
  case (Suc n)
  from Suc.prems consider "cs = []" "adms = []"
    | c adm q1 w1 cs' adms' where "soak_cycle E so fixed key run_id i (sws i) q w = (Ok (Some (c, adm)), q1, w1)"
      "soak_cycles E so fixed key run_id sws n (i + 1) q1 w1 = (Ok (cs', adms'), q', w')"
      "cs = c # cs'" "adms = (case adm of Some a \<Rightarrow> a # adms' | None \<Rightarrow> adms')"
    by (auto split: sum.splits prod.splits option.splits)
  then show ?case
  proof cases
    case 2
    note step = soak_cycle_sound [OF 2(1)] and rest = Suc.IH [OF 2(2)]
    have "\<forall>c \<in> set cs. \<exists>adm. sound_cycle (so_candidates_per_cycle so) c adm \<and> set_option adm \<subseteq> set adms"
      using step rest 2(3,4) by (cases adm) fastforce+
    moreover have "map ad_candidate_id adms = List.map_filter sy_winning_candidate_id cs"
      using step rest 2(3,4) by (auto simp: sound_cycle_def map_filter_def split: option.splits)
    moreover have "length cs \<le> Suc n \<and> map sy_cycle_index cs = [i..<i + length cs]"
      using step rest 2(3) upt_conv_Cons [of i "i + Suc (length cs')"] by (simp del: upt_Suc)
    ultimately show ?thesis by blast
  qed (simp add: map_filter_def)
qed (simp add: map_filter_def)

lemma run_batch_Ok:
  assumes "run_batch E so fixed env w = (Ok m, w')"
  obtains key w1 w2 q where
    "only_ledger w w1"
    "soak_cycles E so fixed key (''soak-'' @ take 12 (sr_uuid env)) (sr_worlds env) (so_total_cycles so) 1 new_quarantine w1
       = (Ok (sm_cycles m, sm_admitted_candidates m), q, w2)"
    "sm_total_candidates_evaluated m = sum_list (map (length \<circ> sy_candidates) (sm_cycles m))"
    "sm_total_candidates_admitted m = length (sm_admitted_candidates m)" "sm_exhausted_hypotheses m = exhausted_list q"
proof -
  obtain r w0 where p: "run_preflight_checks E (so_signing_key_hex so) env w = (r, w0)" by (metis surj_pair)
  have w0: "only_ledger w w0" using soaked.preflight [of w E "so_signing_key_hex so" env] by (simp add: p)
  have opened: "only_ledger w (w0\<lparr>wd_db := db\<rparr>)" for db using w0 by (simp add: only_ledger_def)
  from assms p show ?thesis
    by (auto simp: run_batch_def Let_def case_prod_unfold and_then_Ok split: sum.splits)
      (rule that [OF opened], auto simp: prod_eq_iff)
qed


section \<open>The quarantine\<close>

definition failure_text :: "string \<Rightarrow> string" where "failure_text t = ''High latency on '' @ t"

text \<open>Every pairing that was ever exhausted was recorded with the text of a problem.\<close>

definition recorded_keys :: "crates \<Rightarrow> quarantine \<Rightarrow> bool" where
  "recorded_keys X q \<longleftrightarrow> (\<forall>k \<in> set (qt_exhausted_pairings q). \<exists>node t. k = pairing_key X node (failure_text t))"

lemma settle_recorded:
  assumes "settle_cycle E so fixed b h as q = (adm, q')" and "recorded_keys (en_X E) q"
  shows "recorded_keys (en_X E) q'"
proof -
  have "\<exists>t. soak_problem fixed b = failure_text t" by (simp add: soak_problem_def failure_text_def)
  moreover have "set (qt_exhausted_pairings q') \<subseteq> insert (pairing_key (en_X E) (br_node_name b) (soak_problem fixed b)) (set (qt_exhausted_pairings q))"
    using assms(1) by (auto simp: settle_cycle_def record_failure_def record_success_def Let_def split: list.splits if_splits)
  ultimately show ?thesis using assms(2) unfolding recorded_keys_def by (metis insertE subsetD)
qed

lemma pairing_key_digest:
  assumes "hex_ok X" and "sha_ok X" and "pairing_key X n s = pairing_key X m t"
  shows "take 12 (hex_encode X (sha256 X s)) = take 12 (hex_encode X (sha256 X t))"
proof -
  have "length (take 12 (hex_encode X (sha256 X u))) = 12" for u using assms(1,2) by (simp add: hex_ok_def sha_ok_def)
  then have "take 12 (hex_encode X (sha256 X u)) = drop (length (pairing_key X k u) - 12) (pairing_key X k u)" for k u
    by (simp add: pairing_key_def)
  with assms(3) show ?thesis by metis
qed

text \<open>The texts under which failures are recorded and looked up, with digests that agree in twelve digits.\<close>

definition key_collision :: "crates \<Rightarrow> bool" where
  "key_collision X \<longleftrightarrow> (\<exists>t u. take 12 (hex_encode X (sha256 X (''Centrality='' @ t))) = take 12 (hex_encode X (sha256 X (failure_text u))))"

lemma explanation_prefix: "\<exists>t. explanation_text fixed e = ''Centrality='' @ t"
  by (cases e) (simp_all add: explanation_text_def)

lemma choose_top:
  assumes "hex_ok X" and "sha_ok X" and "recorded_keys X q" and "choose_bottleneck X fixed q ranked = Some b"
  shows "(\<exists>bs. ranked = b # bs) \<or> key_collision X"
proof (cases ranked)
  case (Cons r rs)
  obtain t where t: "explanation_text fixed (br_causal_explanation r) = ''Centrality='' @ t" using explanation_prefix by blast
  show ?thesis
  proof (cases "is_exhausted X q (br_node_name r) (explanation_text fixed (br_causal_explanation r))")
    case True
    with assms(3) obtain node u where "pairing_key X (br_node_name r) (''Centrality='' @ t) = pairing_key X node (failure_text u)"
      unfolding is_exhausted_def recorded_keys_def t by blast
    from pairing_key_digest [OF assms(1,2) this] show ?thesis unfolding key_collision_def by blast
  next
    case False
    with assms(4) Cons show ?thesis by (simp add: choose_bottleneck_def)
  qed
qed (use assms(4) in \<open>simp add: choose_bottleneck_def\<close>)

lemma soak_cycles_top:
  assumes "hex_ok (en_X E)" and "sha_ok (en_X E)" and "recorded_keys (en_X E) q"
    and "soak_cycles E so fixed key run_id sws n i q w = (Ok (cs, adms), q', w')" and "c \<in> set cs"
  shows "(\<exists>b bs. soak_ranking E (sw_context (sws (sy_cycle_index c))) (sy_cycle_id c) (wd_samples w) = Some (Ok (b # bs))
     \<and> sy_bottleneck_node c = br_node_name b) \<or> key_collision (en_X E)"
  using assms(3-5)
proof (induction n arbitrary: i q w cs adms)
  case (Suc n)
  from Suc.prems(2,3) obtain d adm q1 w1 cs' adms' where
    step: "soak_cycle E so fixed key run_id i (sws i) q w = (Ok (Some (d, adm)), q1, w1)"
    and rest: "soak_cycles E so fixed key run_id sws n (i + 1) q1 w1 = (Ok (cs', adms'), q', w')" and c: "c = d \<or> c \<in> set cs'"
    by (auto split: sum.splits prod.splits option.splits)
  from step show ?case
  proof (rule soak_cycle_Ok, goal_cases)
    case (1 b ranked es as' bal w2)
    have "only_ledger w w1" using soaked.soak_cycle [of w E so fixed key run_id i "sws i" q] by (simp add: step)
    then have same: "wd_samples w1 = wd_samples w" by (simp add: only_ledger_def)
    have q1: "recorded_keys (en_X E) q1" using settle_recorded [OF 1(4) Suc.prems(1)] .
    from choose_top [OF assms(1,2) Suc.prems(1) 1(2)] 1(1,5,6,7)
    have "(\<exists>b bs. soak_ranking E (sw_context (sws (sy_cycle_index d))) (sy_cycle_id d) (wd_samples w) = Some (Ok (b # bs))
       \<and> sy_bottleneck_node d = br_node_name b) \<or> key_collision (en_X E)" by auto
    moreover have "(\<exists>b bs. soak_ranking E (sw_context (sws (sy_cycle_index c))) (sy_cycle_id c) (wd_samples w) = Some (Ok (b # bs))
       \<and> sy_bottleneck_node c = br_node_name b) \<or> key_collision (en_X E)" if "c \<in> set cs'"
      using Suc.IH [OF q1 rest that] unfolding same .
    ultimately show ?case using c by blast
  qed
qed simp

section \<open>Runs that end\<close>

lemma soak_ranking_total:
  assumes "read_records (en_sample_record E) samples = Ok rs" and "length rs < 2 ^ 53"
  shows "\<exists>b bs. soak_ranking E ctx cycle_id samples = Some (Ok (b # bs))"
proof -
  from pipeline_graph [OF measure_stages_sound [OF assms(2)]] obtain g where
    g: "build_capability_graph (measure_stages (tx_measure (en_texts E)) (Ok rs) cycle_id ctx 3 20 20) = Ok g"
      "node_ids g = map stage_id STAGES" "closed_graph g" by blast
  from ranking_props [OF g(3)] obtain ranked where r: "rank_bottlenecks g = Some ranked" "mset (map br_node_id ranked) = mset (node_ids g)" by blast
  from r(2) have "ranked \<noteq> []" unfolding g(2) by (auto simp: STAGES_def)
  with g(1) r(1) assms(1) show ?thesis by (cases ranked) (simp_all add: soak_ranking_def)
qed

lemma choose_Some: "\<exists>x. choose_bottleneck X fixed q (b # bs) = Some x"
  by (simp add: choose_bottleneck_def split: option.split)

lemma try_soak_end:
  "fst (try_soak E so key cid target bal i found att w) = Err e \<Longrightarrow> \<exists>x. e = ''Failed to append evaluation: '' @ x"
  by (auto simp: try_soak_def judge_soak_def Let_def split: option.splits if_splits sum.splits prod.splits bool.splits)

lemma soak_candidates_end:
  "fst (soak_candidates E so key cid target bal sw n i w) = Err e \<Longrightarrow> \<exists>x. e = ''Failed to append evaluation: '' @ x"
proof (induction n arbitrary: i w)
  case (Suc n)
  obtain g att where a: "sw_attempts sw i = (g, att)" by (metis surj_pair)
  obtain r w1 where r: "try_soak E so key cid target bal i (soak_proposal i g (sw_unslop sw)) att w = (r, w1)" by (metis surj_pair)
  obtain r2 w2 where r2: "soak_candidates E so key cid target bal sw n (i + 1) w1 = (r2, w2)" by (metis surj_pair)
  show ?case
  proof (cases r)
    case (Inl x)
    with Suc.prems a r have "x = e" by simp
    with r Inl try_soak_end show ?thesis by (metis fst_conv)
  next
    case (Inr x)
    with Suc.prems a r r2 have "r2 = Err e" by (cases x; cases r2) auto
    with r2 Suc.IH show ?thesis by (metis fst_conv)
  qed
qed simp

lemma soak_cycles_end:
  assumes "read_records (en_sample_record E) (wd_samples w) = Ok rs" and "length rs < 2 ^ 53" and "\<forall>j. is_ok (sw_observed (sws j))"
  shows "case fst (soak_cycles E so fixed key run_id sws n i q w) of
      Inr (cs, _) \<Rightarrow> length cs = n | Inl e \<Rightarrow> \<exists>x. e = Failed (''Failed to append evaluation: '' @ x)"
  using assms(1)
proof (induction n arbitrary: i q w)
  case (Suc n)
  obtain d hm where obs: "sw_observed (sws i) = Ok (d, hm)" using assms(3) by (metis is_ok_iff surj_pair)
  from soak_ranking_total [OF Suc.prems assms(2)] choose_Some obtain ranked b where
    r: "soak_ranking E (sw_context (sws i)) (soak_cycle_id run_id i) (wd_samples w) = Some (Ok ranked)" "choose_bottleneck (en_X E) fixed q ranked = Some b"
    by metis
  obtain res q1 w1 where c: "soak_cycle E so fixed key run_id i (sws i) q w = (res, q1, w1)" by (metis surj_pair)
  have "only_ledger w w1" using soaked.soak_cycle [of w E so fixed key run_id i "sws i" q] by (simp add: c)
  then have "read_records (en_sample_record E) (wd_samples w1) = Ok rs" using Suc.prems by (simp add: only_ledger_def)
  note rest = Suc.IH [OF this, of "i + 1" q1]
  obtain cand w2 where cand: "soak_candidates E so key (soak_cycle_id run_id i) (soak_target b)
      (bv_verdict (balance_scalar d hm) = ''balanced'') (sws i) (so_candidates_per_cycle so) 1 w = (cand, w2)" by (metis surj_pair)
  show ?case
  proof (cases cand)
    case (Inl e)
    with cand soak_candidates_end have "\<exists>x. e = ''Failed to append evaluation: '' @ x" by (metis fst_conv)
    moreover have "res = Err (Failed e)" using c obs r cand Inl by (simp add: soak_cycle_def Let_def)
    ultimately show ?thesis by (auto simp: c)
  next
    case (Inr x)
    then obtain y where "res = Ok (Some y)" using c obs r cand by (cases x) (auto simp: soak_cycle_def Let_def split: prod.splits)
    with rest show ?thesis by (cases y) (auto simp: c split: sum.splits prod.splits)
  qed
qed simp

end
