(* ===== verification/Soak_Runs.thy ===== *)
theory Soak_Runs
  imports Soak_Safety
begin

text \<open>The properties of soak runs, and a concrete run of five cycles in which the model proposes nothing.\<close>

section \<open>Targets and the permitted surface\<close>

lemma update_subset: "set (AList.update k v xs) \<subseteq> insert (k, v) (set xs)"
  by (induction xs) auto

lemma add_stages_names:
  assumes "add_stages m sts g = Ok g'" and "\<forall>n \<in> snd ` set (cg_nodes g). \<exists>st. cn_name n = fst (node_meta st)"
  shows "\<forall>n \<in> snd ` set (cg_nodes g'). \<exists>st. cn_name n = fst (node_meta st)"
  using assms
proof (induction m sts g rule: add_stages.induct)
  case (2 m st sts g)
  from "2.prems"(1) obtain n where n: "stage_node m st = Ok n" "add_stages m sts (add_node n g) = Ok g'" by (auto simp: and_then_Ok)
  have "cn_name n = fst (node_meta st)"
    using n(1) by (auto simp: stage_node_def new_node_def with_unavailable_def with_measured_latency_def and_then_Ok Let_def
        split: prod.splits option.splits stage_measurement.splits if_splits)
  moreover have "snd ` set (cg_nodes (add_node n g)) \<subseteq> insert n (snd ` set (cg_nodes g))"
    using update_subset [of "cn_id n" n "cg_nodes g"] by (force simp: add_node_def)
  ultimately have "\<forall>x \<in> snd ` set (cg_nodes (add_node n g)). \<exists>st. cn_name x = fst (node_meta st)" using "2.prems"(2) by blast
  with "2.IH" n show ?case by blast
qed simp

lemma add_chain_nodes: "cg_nodes (add_chain sts g) = cg_nodes g"
  by (induction sts g rule: add_chain.induct) (simp_all add: add_edge_def)

lemma number_from_names: "br_node_name ` set (number_from i rs) = br_node_name ` set rs"
  by (induction i rs rule: number_from.induct) simp_all

text \<open>The target of a cycle is always the same file: no stage of the pipeline is called Propose.\<close>

lemma soak_target_is_fixed:
  assumes "soak_ranking E ctx cycle_id samples = Some (Ok ranked)" and "b \<in> set ranked"
  shows "soak_target b = ''src/observe.rs''"
proof -
  from assms(1) obtain m g where g: "build_capability_graph m = Ok g" "rank_bottlenecks g = Some ranked"
    by (auto simp: soak_ranking_def split: sum.splits)
  from g(1) obtain g0 where "add_stages m STAGES new_graph = Ok g0" "g = add_chain STAGES g0"
    by (auto simp: build_capability_graph_def and_then_Ok)
  then have names: "\<forall>n \<in> snd ` set (cg_nodes g). \<exists>st. cn_name n = fst (node_meta st)"
    using add_stages_names by (simp add: add_chain_nodes new_graph_def)
  from g(2) obtain c where "ranked = number_from 1 (sort_key rank_key (map (rank_node g c) (cg_nodes g)))"
    by (auto simp: rank_bottlenecks_def)
  with assms(2) have "br_node_name b \<in> br_node_name ` rank_node g c ` set (cg_nodes g)"
    by (metis image_eqI list.set_map number_from_names set_sort)
  then obtain n where "n \<in> snd ` set (cg_nodes g)" "br_node_name b = cn_name n" by (force simp: rank_node_def Let_def case_prod_unfold)
  with names obtain st where "br_node_name b = fst (node_meta st)" by metis
  then show ?thesis by (cases st) (simp_all add: soak_target_def)
qed

text \<open>The boundary check compares prefixes of the path as it is written.\<close>

lemma boundary_allows_parent_steps:
  "is_permitted (so_writable_prefixes default_soak_config) ''src/propose/../../../outside''"
  by code_simp

text \<open>The files that the punctuation scan may propose are all outside the default surface, so this fallback is always refused.\<close>

lemma unslop_fallback_is_refused:
  "list_all (\<lambda>f. \<not> is_permitted (so_writable_prefixes default_soak_config) f) [''README.md'', ''docs/PHILOSOPHY.md'', ''CONTRIBUTING.md'']"
  by code_simp

section \<open>Properties\<close>


text \<open>A soak run keeps the ledger sound, on every path.\<close>

theorem soak_keeps_the_ledger:
  assumes "strings_ok (en_X E) (en_strings E)" and "run_batch E so fixed env w = (res, w')"
    and "reachable (ledger_init (en_X E) (en_strings E)) (ledger_step (en_X E) (p256.truncate (en_P E)) (en_strings E)) (wd_db w)"
    and "length (db_blocks (wd_db w')) < max_blocks"
  shows "verify_chain_integrity (en_X E) (p256.truncate (en_P E)) (en_strings E) now None (wd_db w') =
       Ok (clean_report (en_X E) now False (latest_checkpoint (wd_db w')) (all_blocks (en_strings E) (wd_db w')))
     \<and> (\<exists>ext. all_blocks (en_strings E) (wd_db w') = all_blocks (en_strings E) (wd_db w) @ ext)"
proof -
  let ?step = "ledger_step (en_X E) (p256.truncate (en_P E)) (en_strings E)"
  have steps: "?step\<^sup>*\<^sup>* (wd_db w) (wd_db w')"
    using recorded.run_batch [of E w so fixed env] assms(2,4) by (simp add: ledger_path_def)
  obtain bs where bs: "ledger_holds (en_X E) (wd_db w) bs" using ledger.reachable_inv [OF assms(3)] assms(1) by blast
  from ledger_steps_hold [OF assms(1) steps bs] obtain ext where ext: "ledger_holds (en_X E) (wd_db w') (bs @ ext)" ..
  show ?thesis
    using audit_clean [OF ext assms(1), of None] ledger_all_blocks [OF bs assms(1)] ledger_all_blocks [OF ext assms(1)] by simp
qed

text \<open>C13: The manifest of a soak run accounts for every candidate.  Its cycles are numbered from one and are at most those configured;
  each has exactly the configured number of candidate records, numbered from one; the total counts are their sums; the admitted
  candidates are the winners of their cycles, in order.  A winner was compiled, verified and admitted by the judge, its digest and
  ledger block are those of its record, and no admitted candidate of its cycle has a smaller latency difference.\<close>

theorem soak_manifest_accounts:
  assumes "run_batch E so fixed env w = (Ok m, w')"
  shows "length (sm_cycles m) \<le> so_total_cycles so \<and> map sy_cycle_index (sm_cycles m) = [1..<Suc (length (sm_cycles m))]
     \<and> sm_total_candidates_evaluated m = length (sm_cycles m) * so_candidates_per_cycle so
     \<and> sm_total_candidates_admitted m = length (sm_admitted_candidates m)
     \<and> map ad_candidate_id (sm_admitted_candidates m) = List.map_filter sy_winning_candidate_id (sm_cycles m)
     \<and> (\<forall>c \<in> set (sm_cycles m). \<exists>adm. sound_cycle (so_candidates_per_cycle so) c adm \<and> set_option adm \<subseteq> set (sm_admitted_candidates m))"
  using assms
proof (rule run_batch_Ok, goal_cases)
  case (1 key w1 w2 q)
  note sound = soak_cycles_sound [OF 1(2)]
  have "length (sy_candidates c) = so_candidates_per_cycle so" if "c \<in> set (sm_cycles m)" for c
  proof -
    from sound that obtain adm where "sound_cycle (so_candidates_per_cycle so) c adm" by blast
    then have "map ke_candidate_index (sy_candidates c) = [1..<Suc (so_candidates_per_cycle so)]" by (simp add: sound_cycle_def)
    from arg_cong [OF this, of length] show ?thesis by simp
  qed
  then have "map (length \<circ> sy_candidates) (sm_cycles m) = replicate (length (sm_cycles m)) (so_candidates_per_cycle so)"
    by (simp add: list_eq_iff_nth_eq)
  then have "sm_total_candidates_evaluated m = length (sm_cycles m) * so_candidates_per_cycle so"
    unfolding 1(3) by (simp add: sum_list_replicate)
  with sound 1(4) show ?case by simp
qed


text \<open>C38: A soak run that starts completes.  With a valid key, a passed preflight, readable stage samples and readable telemetry,
  every configured cycle is run, whatever the candidates do; the only ways to stop early are a ledger that refuses an
  evaluation block and a manifest that cannot be saved.\<close>

theorem soak_run_completes:
  assumes "soak_signing_key E so = Ok key" and "run_preflight_checks E (so_signing_key_hex so) env w = (Ok (), w1)"
    and "open_ledger (en_X E) (en_strings E) (sr_reopened_at env) (wd_db w1) = Ok db" and "sr_saved env = Ok ()"
    and "read_records (en_sample_record E) (wd_samples w) = Ok rs" and "length rs < 2 ^ 53" and "\<forall>j. is_ok (sw_observed (sr_worlds env j))"
  shows "case fst (run_batch E so fixed env w) of
      Inr m \<Rightarrow> length (sm_cycles m) = so_total_cycles so \<and> sm_overall_status m = ''SUCCESS''
    | Inl e \<Rightarrow> \<exists>x. e = Failed (''Failed to append evaluation: '' @ x)"
proof -
  let ?cycles = "soak_cycles E so fixed key (''soak-'' @ take 12 (sr_uuid env)) (sr_worlds env) (so_total_cycles so) 1 new_quarantine (w1\<lparr>wd_db := db\<rparr>)"
  have "only_ledger w w1" using soaked.preflight [of w E "so_signing_key_hex so" env] by (simp add: assms(2))
  then have "read_records (en_sample_record E) (wd_samples (w1\<lparr>wd_db := db\<rparr>)) = Ok rs" using assms(5) by (simp add: only_ledger_def)
  note ended = soak_cycles_end [OF this assms(6,7), where so = so and fixed = fixed and key = key and i = 1 and q = new_quarantine
      and n = "so_total_cycles so" and run_id = "''soak-'' @ take 12 (sr_uuid env)"]
  show ?thesis
    using ended assms(4) unfolding run_batch_def assms(1,2,3) Let_def sum.case prod.case case_prod_unfold
    by (auto simp: assms split: sum.splits)
qed

section \<open>A run in which the model proposes nothing\<close>

definition idle_soak :: soak_world where
  "idle_soak = \<lparr>sw_hypothesis_uuid = ''0123456789abcdef'', sw_observed = Ok (1, 1), sw_context = sample_context, sw_unslop = None,
     sw_attempts = (\<lambda>_. (None, sample_candidate_run)), sw_cortex_receipt = None\<rparr>"

definition idle_env :: soak_run where
  "idle_env = \<lparr>sr_uuid = ''0123456789abcdef'', sr_commit = None, sr_version = ''1'', sr_captured_at = ''t'', sr_bwrap = Ok True,
     sr_opened_at = ''t'', sr_reopened_at = ''t'', sr_holdouts_exist = True, sr_cargo_toml_exists = True, sr_worlds = (\<lambda>_. idle_soak),
     sr_saved = Ok ()\<rparr>"

definition idle_config :: soak_config where
  "idle_config = default_soak_config\<lparr>so_signing_key_hex := Some ''00''\<rparr>"

lemma idle_candidates:
  "\<exists>es. soak_candidates E so key cid target bal idle_soak n i w = (Ok (es, []), w)"
proof (induction n arbitrary: i)
  case (Suc n)
  then obtain es where "soak_candidates E so key cid target bal idle_soak n (i + 1) w = (Ok (es, []), w)" by blast
  moreover have "sw_attempts idle_soak i = (None, sample_candidate_run)" "sw_unslop idle_soak = None" by (simp_all add: idle_soak_def)
  ultimately show ?case by (simp add: soak_proposal_def try_soak_def)
qed simp

lemma idle_cycles:
  assumes "read_records (en_sample_record E) (wd_samples w) = Ok rs" and "length rs < 2 ^ 53"
  shows "\<exists>cs q' w'. soak_cycles E so fixed key run_id (\<lambda>_. idle_soak) n i q w = (Ok (cs, []), q', w')"
  using assms(1)
proof (induction n arbitrary: i q w)
  case (Suc n)
  from soak_ranking_total [OF Suc.prems assms(2)] choose_Some obtain ranked b where
    r: "soak_ranking E (sw_context idle_soak) (soak_cycle_id run_id i) (wd_samples w) = Some (Ok ranked)" "choose_bottleneck (en_X E) fixed q ranked = Some b"
    by metis
  from idle_candidates obtain es where es: "soak_candidates E so key (soak_cycle_id run_id i) (soak_target b)
      (bv_verdict (balance_scalar 1 1) = ''balanced'') idle_soak (so_candidates_per_cycle so) 1 w = (Ok (es, []), w)" by blast
  have obs: "sw_observed idle_soak = Ok (1, 1)" by (simp add: idle_soak_def)
  obtain c q1 w1 where c: "soak_cycle E so fixed key run_id i idle_soak q w = (Ok (Some (c, None)), q1, w1)"
    using obs r es unfolding soak_cycle_def settle_cycle_def Let_def by (simp add: sort_by_def case_prod_unfold)
  have "only_ledger w w1" using soaked.soak_cycle [of w E so fixed key run_id i idle_soak q] by (simp add: c)
  then have "read_records (en_sample_record E) (wd_samples w1) = Ok rs" using Suc.prems by (simp add: only_ledger_def)
  from Suc.IH [OF this, of "i + 1" q1] c show ?case by auto
qed simp

lemma idle_setup:
  "soak_signing_key sample_engine idle_config = Ok [CHR 0x00]"
  "run_preflight_checks sample_engine (so_signing_key_hex idle_config) idle_env sample_world = (Ok (), sample_world)"
  "open_ledger (en_X sample_engine) (en_strings sample_engine) (sr_reopened_at idle_env) (wd_db sample_world) = Ok (wd_db sample_world)"
  "read_records (en_sample_record sample_engine) (wd_samples sample_world) = Ok []"
proof -
  have opened: "open_ledger sample (reread_strings sample) now (fresh_db sample) = Ok (fresh_db sample)" for now
    using ledger_latest_block [OF fresh_holds sample_strings] by (simp add: open_ledger_def)
  have key: "hex_decode sample ''00'' = Some [CHR 0x00]" by code_simp
  have E: "en_X sample_engine = sample" "en_strings sample_engine = reread_strings sample" "en_signing_key_ok sample_engine = (\<lambda>_. True)"
      "wd_db sample_world = fresh_db sample" "sample_world\<lparr>wd_db := fresh_db sample\<rparr> = sample_world"
      "wd_samples sample_world = NoSamples"
    by (simp_all add: sample_engine_def sample_world_def)
  show "soak_signing_key sample_engine idle_config = Ok [CHR 0x00]"
    using key by (simp add: soak_signing_key_def idle_config_def E)
  show "run_preflight_checks sample_engine (so_signing_key_hex idle_config) idle_env sample_world = (Ok (), sample_world)"
    using key opened by (simp add: run_preflight_checks_def idle_config_def idle_env_def E)
  show "open_ledger (en_X sample_engine) (en_strings sample_engine) (sr_reopened_at idle_env) (wd_db sample_world) = Ok (wd_db sample_world)"
    using opened by (simp add: E)
  show "read_records (en_sample_record sample_engine) (wd_samples sample_world) = Ok []" by (simp add: read_records_def E)
qed

lemma idle_run: "\<exists>m w'. run_batch sample_engine idle_config (\<lambda>_ _. []) idle_env sample_world = (Ok m, w')"
proof -
  have [simp]: "sample_world\<lparr>wd_db := wd_db sample_world\<rparr> = sample_world" by simp
  have "sr_worlds idle_env = (\<lambda>_. idle_soak)" "sr_saved idle_env = Ok ()" by (simp_all add: idle_env_def)
  moreover obtain cs q' w' where "soak_cycles sample_engine idle_config (\<lambda>_ _. []) [CHR 0x00] (''soak-'' @ take 12 (sr_uuid idle_env))
      (\<lambda>_. idle_soak) (so_total_cycles idle_config) 1 new_quarantine sample_world = (Ok (cs, []), q', w')"
    using idle_cycles [OF idle_setup(4)] by fastforce
  ultimately show ?thesis
    unfolding run_batch_def Let_def idle_setup sum.case prod.case by (simp add: idle_setup case_prod_unfold)
qed

lemma idle_length:
  assumes "run_batch sample_engine idle_config (\<lambda>_ _. []) idle_env sample_world = (Ok m, w')"
  shows "length (sm_cycles m) = 5"
  using assms
proof (rule run_batch_Ok, goal_cases)
  case (1 key w1 w2 q)
  have "\<forall>j. is_ok (sw_observed (sr_worlds idle_env j))" by (simp add: idle_env_def idle_soak_def)
  moreover have "read_records (en_sample_record sample_engine) (wd_samples w1) = Ok []" using 1(1) idle_setup(4) by (simp add: only_ledger_def)
  ultimately have "case fst (soak_cycles sample_engine idle_config (\<lambda>_ _. []) key (''soak-'' @ take 12 (sr_uuid idle_env)) (sr_worlds idle_env)
      (so_total_cycles idle_config) 1 new_quarantine w1) of
      Inr (cs, _) \<Rightarrow> length cs = so_total_cycles idle_config | Inl e \<Rightarrow> \<exists>x. e = Failed (''Failed to append evaluation: '' @ x)"
    by (intro soak_cycles_end [where rs = "[]"]) simp_all
  then show ?case unfolding 1(2) by (simp add: idle_config_def default_soak_config_def)
qed

theorem soak_run_completes_witness:
  "\<exists>m. fst (run_batch sample_engine idle_config (\<lambda>_ _. []) idle_env sample_world) = Ok m \<and> length (sm_cycles m) = 5"
proof -
  from idle_run obtain m w' where m: "run_batch sample_engine idle_config (\<lambda>_ _. []) idle_env sample_world = (Ok m, w')" by blast
  have "sr_saved idle_env = Ok ()" "\<forall>j. is_ok (sw_observed (sr_worlds idle_env j))" by (simp_all add: idle_env_def idle_soak_def)
  from soak_run_completes [OF idle_setup(1-3) this(1) idle_setup(4) _ this(2), of "\<lambda>_ _. []"] m
  show ?thesis by (simp add: idle_config_def default_soak_config_def)
qed

theorem soak_manifest_accounts_witness:
  "\<exists>m w'. run_batch sample_engine idle_config (\<lambda>_ _. []) idle_env sample_world = (Ok m, w')
     \<and> sm_total_candidates_evaluated m = length (sm_cycles m) * 3"
proof -
  from idle_run obtain m w' where m: "run_batch sample_engine idle_config (\<lambda>_ _. []) idle_env sample_world = (Ok m, w')" by blast
  from soak_manifest_accounts [OF this] m show ?thesis by (auto simp: idle_config_def default_soak_config_def)
qed


end
