(* ===== verification/Proposals.thy ===== *)
theory Proposals
  imports Engine Hypothesis Verifier
begin

text \<open>
  The proposers (\<open>src/src/propose/mod.rs\<close>, \<open>model_seat.rs\<close>, \<open>cortex.rs\<close>): proposals from the model seat's completion and from the
  scan for dashes, and the sandbox a proposal is staged in.

  The file system is the \<open>entries\<close> of its root directory, without links, and a path is the list of its components.  The answers of
  the two HTTP services, the identifiers and the time are arguments.
\<close>

section \<open>Strings\<close>

text \<open>\<open>str::find\<close> and \<open>str::rfind\<close> with a string pattern.\<close>

fun find_str :: "string \<Rightarrow> string \<Rightarrow> nat option" where
  "find_str p [] = (if p = [] then Some 0 else None)"
| "find_str p (x # xs) = (if starts_with p (x # xs) then Some 0 else map_option Suc (find_str p xs))"

definition rfind_str :: "string \<Rightarrow> string \<Rightarrow> nat option" where
  "rfind_str p s = map_option (\<lambda>i. length s - length p - i) (find_str (rev p) (rev s))"

text \<open>\<open>str::replace\<close> of a character.\<close>

definition replace_char :: "nat \<Rightarrow> string \<Rightarrow> string \<Rightarrow> string" where
  "replace_char c r s = concat (map (\<lambda>d. if d = c then r else utf8_char d) (chars s))"

definition has_dash :: "string \<Rightarrow> bool" where
  "has_dash s \<longleftrightarrow> 0x2014 \<in> set (chars s) \<or> 0x2013 \<in> set (chars s)"

definition sanitize_dashes :: "string \<Rightarrow> string" where
  "sanitize_dashes s = replace_char 0x2013 ''-'' (replace_char 0x2014 '', '' s)"

section \<open>Proposals\<close>

definition create_proposal :: "string \<Rightarrow> string \<Rightarrow> string \<Rightarrow> string \<Rightarrow> string \<Rightarrow> string \<Rightarrow> proposal_kind \<Rightarrow> improvement_proposal" where
  "create_proposal uuid now title description target_file patch kind =
     \<lparr>ip_id = ''prop-'' @ uuid, ip_title = title, ip_description = description, ip_target_file = target_file,
      ip_proposed_patch = patch, ip_kind = kind, ip_created_at = now, ip_sandbox_path = None, ip_operator_signature = None\<rparr>"

fun first_dashed :: "entries \<Rightarrow> string list list \<Rightarrow> (string list \<times> string) option" where
  "first_dashed es [] = None"
| "first_dashed es (p # ps) =
     (case read_text es p of
        Some s \<Rightarrow> if has_dash s then Some (p, s) else first_dashed es ps
      | None \<Rightarrow> first_dashed es ps)"

definition scan_and_propose_unslop :: "string \<Rightarrow> string \<Rightarrow> entries \<Rightarrow> improvement_proposal option" where
  "scan_and_propose_unslop uuid now es =
     map_option (\<lambda>(p, s). create_proposal uuid now (''sanitize unslop punctuation in '' @ join ''/'' p)
       ''Remove em dashes and en dashes in accordance with unslop standard'' (join ''/'' p) (sanitize_dashes s) UnslopSanitization)
       (first_dashed es CHECK_FILES)"

definition FENCE :: string where "FENCE = replicate 3 (CHR 0x60)"

text \<open>The text after the opening fence and the rest of its line.\<close>

definition after_fence :: "nat \<Rightarrow> string \<Rightarrow> string" where
  "after_fence start s =
     (let after = drop (start + 3) s in drop (case find_str [newline] after of Some i \<Rightarrow> i + 1 | None \<Rightarrow> 0) after)"

definition extract_code_block :: "string \<Rightarrow> string" where
  "extract_code_block raw =
     (let trimmed = trim raw in
      case find_str FENCE trimmed of
        Some start \<Rightarrow>
          (let rest = after_fence start trimmed in
           case rfind_str FENCE rest of Some e \<Rightarrow> trim (take e rest) | None \<Rightarrow> trim rest)
      | None \<Rightarrow>
          if starts_with ''Here'' trimmed \<or> starts_with ''I '' trimmed \<or> starts_with ''Sure'' trimmed
             \<or> starts_with ''Let'' trimmed \<or> contains ''thinking process:'' trimmed then [] else trimmed)"

text \<open>The message of a model seat's choice, and what the client makes of a successful answer.\<close>

record seat_message =
  sm_content :: "string option"
  sm_reasoning :: "string option"
  sm_reasoning_content :: "string option"

definition reasoning_block :: "string option \<Rightarrow> string option" where
  "reasoning_block r =
     (case r of
        None \<Rightarrow> None
      | Some s \<Rightarrow>
          (case find_str FENCE s of
             None \<Rightarrow> None
           | Some start \<Rightarrow>
               (let rest = after_fence start s in
                case rfind_str FENCE rest of
                  None \<Rightarrow> None
                | Some e \<Rightarrow> (let block = trim (take e rest) in
                    if block = [] then None else Some (FENCE @ ''rust'' @ [newline] @ block @ [newline] @ FENCE)))))"

definition read_completion :: "seat_message list \<Rightarrow> string + string" where
  "read_completion choices =
     (case choices of
        [] \<Rightarrow> Err ''Model seat response returned an empty choices array''
      | m # _ \<Rightarrow>
          (let content = trim (case sm_content m of Some s \<Rightarrow> s | None \<Rightarrow> []) in
           if content \<noteq> [] then Ok content
           else case reasoning_block (sm_reasoning m) of
               Some b \<Rightarrow> Ok b
             | None \<Rightarrow> (case reasoning_block (sm_reasoning_content m) of
                 Some b \<Rightarrow> Ok b
               | None \<Rightarrow> Err ''Model seat assistant message did not emit code output (exhausted in reasoning)'')))"

text \<open>The answer of the endpoint: no response, a status other than success with its body, an unreadable body, or the choices.\<close>

datatype seat_answer = NoAnswer string | HttpStatus string string | BadBody string | Choices "seat_message list"

fun complete_seat :: "seat_answer \<Rightarrow> string + string" where
  "complete_seat (NoAnswer e) = Err (''Model seat completion request failed: '' @ e)"
| "complete_seat (HttpStatus status body) = Err (''Model seat returned HTTP '' @ status @ '': '' @ body)"
| "complete_seat (BadBody e) = Err (''Failed to parse model seat response: '' @ e)"
| "complete_seat (Choices cs) = read_completion cs"

definition propose_from_diagnosis :: "string \<Rightarrow> string \<Rightarrow> seat_answer \<Rightarrow> diagnostic_context \<Rightarrow> string + improvement_proposal" where
  "propose_from_diagnosis uuid now answer d =
     and_then (map_err (\<lambda>e. ''Model seat diagnosis proposal generation failed: '' @ e) (complete_seat answer)) (\<lambda>raw.
     (let patch = extract_code_block raw; title = ''resolve '' @ defect_debug (dc_primary_defect d) @ '' in '' @ dc_target_file d in
      if patch = [] then Err ''Model seat generated an empty patch''
      else if has_dash patch
        then Ok (create_proposal uuid now title
          (''Automated model seat repair with unslop sanitization for cycle '' @ dc_cycle_id d) (dc_target_file d)
          (sanitize_dashes patch) InvariantFix)
        else Ok (create_proposal uuid now title (''Automated model seat repair for cycle '' @ dc_cycle_id d) (dc_target_file d)
          patch InvariantFix)))"

section \<open>Lessons\<close>

record cortex_result =
  cx_canonical_name :: "string option"
  cx_content :: string

text \<open>\<open>None\<close> is a failed request, another status or an unreadable envelope.\<close>

definition recall_lessons :: "cortex_result list option \<Rightarrow> string list" where
  "recall_lessons envelope =
     (case envelope of
        None \<Rightarrow> []
      | Some rs \<Rightarrow> map (\<lambda>r. case cx_canonical_name r of Some n \<Rightarrow> ''['' @ n @ ''] '' @ cx_content r | None \<Rightarrow> cx_content r) rs)"

definition resolve_token :: "string option \<Rightarrow> string option \<Rightarrow> string option" where
  "resolve_token variable token_file =
     (case map_option trim variable of
        Some (c # t) \<Rightarrow> Some (c # t)
      | _ \<Rightarrow> (case map_option trim token_file of Some (c # t) \<Rightarrow> Some (c # t) | _ \<Rightarrow> None))"

section \<open>The file system\<close>

text \<open>A node put at a path, the folders above it created; \<open>None\<close> when a component above it is no folder.\<close>

definition fresh_node :: "string list \<Rightarrow> node \<Rightarrow> node" where
  "fresh_node cs nd = foldr (\<lambda>c n. Folder (Entry c n NoEntries)) cs nd"

fun put_node :: "string list \<Rightarrow> node \<Rightarrow> entries \<Rightarrow> entries option" where
  "put_node [] nd es = None"
| "put_node (c # cs) nd NoEntries = Some (Entry c (fresh_node cs nd) NoEntries)"
| "put_node (c # cs) nd (Entry name old es) =
     (if name \<noteq> c then map_option (Entry name old) (put_node (c # cs) nd es)
      else if cs = [] then Some (Entry name nd es)
      else case old of
          Folder sub \<Rightarrow> map_option (\<lambda>s. Entry name (Folder s) es) (put_node cs nd sub)
        | _ \<Rightarrow> None)"

text \<open>\<open>fs::write\<close>: a file is created or overwritten, its folder exists.\<close>

definition write_file :: "string list \<Rightarrow> bytes \<Rightarrow> entries \<Rightarrow> entries option" where
  "write_file path b fs =
     (case node_at fs path of
        None \<Rightarrow> put_node path (RegularFile (Some b)) fs
      | Some (RegularFile _) \<Rightarrow> put_node path (RegularFile (Some b)) fs
      | Some _ \<Rightarrow> None)"

text \<open>\<open>create_dir_all\<close> down a relative path: where it ends, \<open>None\<close> when a component is no folder, and the folders made on the way.  A
  parent step leaves the folder it is in.\<close>

fun descend :: "string list \<Rightarrow> string list \<Rightarrow> entries \<Rightarrow> string list option \<times> entries" where
  "descend here [] fs = (Some here, fs)"
| "descend here (c # cs) fs =
     (if c = [] \<or> c = ''.'' then descend here cs fs
      else if c = ''..'' then descend (butlast here) cs fs
      else case node_at fs (here @ [c]) of
          Some (Folder _) \<Rightarrow> descend (here @ [c]) cs fs
        | Some _ \<Rightarrow> (None, fs)
        | None \<Rightarrow> (case put_node (here @ [c]) (Folder NoEntries) fs of
            Some fs \<Rightarrow> descend (here @ [c]) cs fs
          | None \<Rightarrow> (None, fs)))"

section \<open>Staging\<close>

datatype stage_error = CannotCreateSandbox | CannotReadDir | CannotWritePatch

text \<open>What is copied of a folder at the given depth, and whether a folder below it could not be listed.\<close>

definition copy_skips :: "string \<Rightarrow> bool" where
  "copy_skips name \<longleftrightarrow> name_text name = ''target'' \<or> name_text name = ''.git'' \<or> starts_with ''.'' (name_text name)"

fun copy_dir_recursive :: "nat \<Rightarrow> entries \<Rightarrow> entries \<times> bool" where
  "copy_dir_recursive depth NoEntries = (NoEntries, True)"
| "copy_dir_recursive depth (Entry name nd es) =
     (if copy_skips name then copy_dir_recursive depth es
      else case nd of
          RegularFile (Some b) \<Rightarrow> (let (rest, ok) = copy_dir_recursive depth es in (Entry name (RegularFile (Some b)) rest, ok))
        | Folder sub \<Rightarrow>
            if 8 < depth + 1 then copy_dir_recursive depth es
            else (let (inner, ok) = copy_dir_recursive (depth + 1) sub in
              if ok then (let (rest, ok) = copy_dir_recursive depth es in (Entry name (Folder inner) rest, ok))
              else (Entry name (Folder inner) NoEntries, False))
        | UnreadableFolder \<Rightarrow>
            if 8 < depth + 1 then copy_dir_recursive depth es else (Entry name (Folder NoEntries) NoEntries, False)
        | _ \<Rightarrow> copy_dir_recursive depth es)"

text \<open>The patch written to the joined target: an absolute target replaces the sandbox.  \<open>fs::write\<close> fails where the target names no
  file or the folders above it could not be made.\<close>

definition write_target :: "string list \<Rightarrow> string \<Rightarrow> bytes \<Rightarrow> entries \<Rightarrow> bool \<times> entries" where
  "write_target sandbox target b fs =
     (let cs = split_on CHR ''/'' target;
          (dir, fs) = descend (if starts_with ''/'' target then [] else sandbox) 
            (butlast (rev (dropWhile (\<lambda>c. c = [] \<or> c = ''.'') (rev cs)))) fs in
      case dir of
        None \<Rightarrow> (False, fs)
      | Some dir \<Rightarrow>
          if last cs = [] \<or> last cs = ''.'' \<or> last cs = ''..'' then (False, fs)
          else (case write_file (dir @ [last cs]) b fs of Some fs \<Rightarrow> (True, fs) | None \<Rightarrow> (False, fs)))"

text \<open>\<open>stage_in_sandbox\<close>: the sandbox is emptied, the repository is copied into it and the patch is written.  The repository is read
  before the sandbox is made, so it does not hold the sandbox.\<close>

definition stage_in_sandbox ::
    "improvement_proposal \<Rightarrow> string list \<Rightarrow> string list \<Rightarrow> entries \<Rightarrow> (stage_error + improvement_proposal \<times> string list) \<times> entries" where
  "stage_in_sandbox p repo base fs =
     (let sandbox = base @ [ip_id p] in
      case (case node_at fs sandbox of None \<Rightarrow> put_node sandbox (Folder NoEntries) fs
              | Some (Folder _) \<Rightarrow> put_node sandbox (Folder NoEntries) fs | Some _ \<Rightarrow> None) of
        None \<Rightarrow> (Err CannotCreateSandbox, fs)
      | Some made \<Rightarrow>
          (case node_at fs repo of
             Some (Folder src) \<Rightarrow>
               (let (copied, ok) = copy_dir_recursive 0 src; filled = the (put_node sandbox (Folder copied) made) in
                if \<not> ok then (Err CannotReadDir, filled)
                else case write_target sandbox (ip_target_file p) (ip_proposed_patch p) filled of
                    (False, fs) \<Rightarrow> (Err CannotWritePatch, fs)
                  | (True, fs) \<Rightarrow> (Ok (p\<lparr>ip_sandbox_path := Some (''/'' @ join ''/'' sandbox)\<rparr>, sandbox), fs))
           | _ \<Rightarrow> (Err CannotReadDir, made)))"

end
