(* ===== verification/Proposals_Safety.thy ===== *)
theory Proposals_Safety
  imports Proposals Verifier_Safety Gate_Safety
begin

text \<open>
  What the proposers and the staging guarantee: a sanitized patch has no dash and is otherwise the text, the scan for dashes is done
  after three rounds, and a proposal whose declared target the gate accepts is staged inside its sandbox.
\<close>

section \<open>Code points\<close>

lemma lead_bytes:
  fixes d :: nat
  shows "d < 32 \<Longrightarrow> (192 + d) mod 256 = 192 + d \<and> (192 + d) mod 32 = d"
    and "d < 16 \<Longrightarrow> (224 + d) mod 256 = 224 + d \<and> (224 + d) mod 16 = d"
    and "d < 8 \<Longrightarrow> (240 + d) mod 256 = 240 + d \<and> (240 + d) mod 8 = d"
  using mod_mult_self2 [of d 32 6] mod_mult_self2 [of d 16 14] mod_mult_self2 [of d 8 30] by (simp_all add: add.commute)

lemma low_bits: "(128 + c mod 64) mod 64 = (c :: nat) mod 64"
  using mod_mult_self2 [of "c mod 64" 64 2] by (simp add: add.commute)

lemma base_64:
  fixes c :: nat
  shows "c div 64 * 64 + c mod 64 = c" and "c div 4096 * 4096 + c div 64 mod 64 * 64 + c mod 64 = c"
    and "c div 262144 * 262144 + c div 4096 mod 64 * 4096 + c div 64 mod 64 * 64 + c mod 64 = c"
proof -
  have step: "d div 64 * 64 + d mod 64 = d" for d :: nat by simp
  have q: "c div 64 div 64 = c div 4096" "c div 4096 div 64 = c div 262144" by (simp_all add: div_mult2_eq [symmetric])
  show 1: "c div 64 * 64 + c mod 64 = c" by (rule step)
  show 2: "c div 4096 * 4096 + c div 64 mod 64 * 64 + c mod 64 = c" using step [of "c div 64"] 1 unfolding q by linarith
  show "c div 262144 * 262144 + c div 4096 mod 64 * 4096 + c div 64 mod 64 * 64 + c mod 64 = c"
    using step [of "c div 4096"] 2 unfolding q by linarith
qed

lemma chars_utf8_char:
  assumes "c < 2097152"
  shows "chars (utf8_char c @ s) = c # chars s"
proof -
  consider "c < 128" | "128 \<le> c" "c < 2048" | "2048 \<le> c" "c < 65536" | "65536 \<le> c" using assms by linarith
  then show ?thesis
  proof cases
    case 2
    then have lt: "c div 64 < 32" by simp
    with 2 lead_bytes(1) [OF lt] show ?thesis by (simp add: utf8_char_def Let_def low_bits base_64(1))
  next
    case 3
    then have lt: "c div 4096 < 16" by simp
    with 3 lead_bytes(2) [OF lt] show ?thesis by (simp add: utf8_char_def Let_def low_bits base_64(2))
  next
    case 4
    with assms have lt: "c div 262144 < 8" by simp
    with 4 lead_bytes(3) [OF lt] show ?thesis by (simp add: utf8_char_def Let_def low_bits base_64(3))
  qed (simp add: utf8_char_def)
qed

lemma code_point_bounds:
  fixes x y z w :: nat
  shows "x mod 32 * 64 + y mod 64 < 2097152" and "x mod 16 * 4096 + y mod 64 * 64 + z mod 64 < 2097152"
    and "x mod 8 * 262144 + y mod 64 * 4096 + z mod 64 * 64 + w mod 64 < 2097152"
proof -
  have b: "x mod 32 < 32" "x mod 16 < 16" "x mod 8 < 8" "y mod 64 < 64" "z mod 64 < 64" "w mod 64 < 64" by simp_all
  show "x mod 32 * 64 + y mod 64 < 2097152" using b(1,4) by linarith
  show "x mod 16 * 4096 + y mod 64 * 64 + z mod 64 < 2097152" using b(2,4,5) by linarith
  show "x mod 8 * 262144 + y mod 64 * 4096 + z mod 64 * 64 + w mod 64 < 2097152" using b(3,4,5,6) by linarith
qed

lemma byte_bound: "(of_char b :: nat) < 2097152"
proof -
  have "(of_char b :: nat) < 256" by simp
  then show ?thesis by linarith
qed

lemma chars_bound: "\<forall>c \<in> set (chars s). c < 2097152"
proof (induction s rule: chars.induct)
  case (2 a s)
  show ?case
    by (subst chars.simps, unfold Let_def)
      (use "2.IH" in \<open>auto simp: byte_bound code_point_bounds simp del: chars.simps split: list.splits\<close>)
qed simp

lemma chars_ascii_append: "list_all (\<lambda>c. (of_char c :: nat) < 128) r \<Longrightarrow> chars (r @ s) = map of_char r @ chars s"
  by (induction r) (simp_all add: Let_def)

lemma chars_replace_char:
  assumes "list_all (\<lambda>c. (of_char c :: nat) < 128) r"
  shows "chars (replace_char c r s) = concat (map (\<lambda>d. if d = c then map of_char r else [d]) (chars s))"
proof -
  have "chars (concat (map (\<lambda>d. if d = c then r else utf8_char d) cs)) = concat (map (\<lambda>d. if d = c then map of_char r else [d]) cs)"
    if "\<forall>d \<in> set cs. d < 2097152" for cs
    using that by (induction cs) (auto simp: chars_utf8_char chars_ascii_append [OF assms])
  then show ?thesis using chars_bound by (simp add: replace_char_def)
qed

text \<open>The sanitized text, code point by code point.\<close>

lemma chars_sanitized:
  "chars (sanitize_dashes s) = concat (map (\<lambda>d. if d = 0x2014 then [44, 32] else if d = 0x2013 then [45] else [d]) (chars s))"
proof -
  have "concat (map (\<lambda>d. if d = 0x2013 then [45] else [d]) (concat (map (\<lambda>d. if d = 0x2014 then [44, 32] else [d]) cs))) =
      concat (map (\<lambda>d. if d = 0x2014 then [44, 32] else if d = 0x2013 then [45] else [d]) cs)" for cs :: "nat list"
    by (induction cs) auto
  moreover have "map of_char ''-'' = [45 :: nat]" "map of_char '', '' = [44, 32 :: nat]" by simp_all
  moreover have "list_all (\<lambda>c. (of_char c :: nat) < 128) ''-''" "list_all (\<lambda>c. (of_char c :: nat) < 128) '', ''" by simp_all
  ultimately show ?thesis unfolding sanitize_dashes_def by (simp only: chars_replace_char)
qed

lemma sanitized_no_dash: "\<not> has_dash (sanitize_dashes s)"
  by (auto simp: has_dash_def chars_sanitized split: if_splits)

section \<open>Files below a node\<close>

fun node_file :: "node \<Rightarrow> string list \<Rightarrow> bytes option option" where
  "node_file (RegularFile b) r = (if r = [] then Some b else None)"
| "node_file (Folder sub) r = file_at sub r"
| "node_file _ r = None"

lemma file_at_Cons: "file_at (Entry name nd es) (c # cs) = (if name \<noteq> c then file_at es (c # cs) else node_file nd cs)"
  by (cases nd) auto

declare file_at.simps(3) [simp del] file_at_Cons [simp]

lemma node_at_file_at: "node_at fs p = Some nd \<Longrightarrow> file_at fs (p @ r) = node_file nd r"
proof (induction fs p rule: node_at.induct)
  case (3 name nd' es c cs)
  then show ?case by (cases nd') (auto simp: file_at_Cons split: if_splits)
qed simp_all

lemma node_file_fresh:
  "node_file (fresh_node cs nd) r = (if take (length cs) r = cs then node_file nd (drop (length cs) r) else None)"
proof (induction cs arbitrary: r)
  case (Cons c cs)
  then show ?case by (cases r) (auto simp: fresh_node_def file_at_Cons)
qed (simp add: fresh_node_def)

lemma file_at_put_node:
  assumes "put_node p nd fs = Some fs'"
  shows "file_at fs' q = (if take (length p) q = p then node_file nd (drop (length p) q) else file_at fs q)"
  using assms
proof (induction p nd fs arbitrary: q fs' rule: put_node.induct)
  case (2 c cs nd)
  then show ?case by (cases q) (auto simp: file_at_Cons node_file_fresh)
next
  case (3 c cs nd name old es)
  show ?case
  proof (cases q)
    case (Cons d ds)
    then show ?thesis using 3 by (cases old) (auto simp: file_at_Cons split: if_splits)
  qed (use 3 in \<open>auto simp: file_at_Nil_path\<close>)
qed simp

fun node_sub :: "node \<Rightarrow> string list \<Rightarrow> node option" where
  "node_sub nd [] = Some nd"
| "node_sub (Folder sub) (c # cs) = node_at sub (c # cs)"
| "node_sub _ (c # cs) = None"

lemma node_at_Cons: "node_at (Entry name nd es) (c # cs) = (if name \<noteq> c then node_at es (c # cs) else node_sub nd cs)"
  by (cases nd; cases cs) auto

lemma node_sub_fresh: "node_sub (fresh_node cs nd) cs = Some nd"
  by (induction cs) (simp_all add: fresh_node_def node_at_Cons del: node_at.simps)

lemma node_at_put_node: "put_node p nd fs = Some fs' \<Longrightarrow> node_at fs' p = Some nd"
proof (induction p nd fs arbitrary: fs' rule: put_node.induct)
  case (2 c cs nd)
  then show ?case by (auto simp: node_at_Cons node_sub_fresh simp del: node_at.simps)
next
  case (3 c cs nd name old es)
  then show ?case by (cases cs) (auto simp: node_at_Cons simp del: node_at.simps split: if_splits node.splits)
qed simp

lemma nothing_below: "node_at fs p = None \<Longrightarrow> p \<noteq> [] \<Longrightarrow> file_at fs (p @ t) = None"
proof (induction fs p rule: node_at.induct)
  case (3 name nd es c cs)
  then show ?case by (cases nd; cases cs) (auto split: if_splits)
qed simp_all

lemma put_node_existing: "node_at fs p = Some nd \<Longrightarrow> \<exists>fs'. put_node p nd' fs = Some fs'"
proof (induction p nd' fs rule: put_node.induct)
  case (3 c cs nd' name old es)
  then show ?case by (cases old) (auto split: if_splits)
next
  case (1 nd' es)
  then show ?case by (cases es) simp_all
qed simp_all

section \<open>Staging\<close>

text \<open>Making folders changes no file.\<close>

lemma file_at_descend:
  "descend here cs fs = (r, fs') \<Longrightarrow> file_at fs' q = file_at fs q"
proof (induction here cs fs arbitrary: r fs' rule: descend.induct)
  case (2 here c cs fs)
  have made: "file_at gs q = file_at fs q" if "put_node (here @ [c]) (Folder NoEntries) fs = Some gs" "node_at fs (here @ [c]) = None" for gs
  proof (cases "take (length (here @ [c])) q = here @ [c]")
    case True
    then obtain t where t: "q = (here @ [c]) @ t" by (metis append_take_drop_id)
    have "file_at fs ((here @ [c]) @ t) = None" using nothing_below [OF that(2)] by simp
    then show ?thesis unfolding t file_at_put_node [OF that(1)] by simp
  qed (simp add: file_at_put_node [OF that(1)])
  show ?case
  proof (cases "c = [] \<or> c = ''.'' \<or> c = ''..''")
    case True
    then show ?thesis using "2.prems" "2.IH"(1,2) by (auto split: if_splits)
  next
    case False
    show ?thesis
    proof (cases "node_at fs (here @ [c])")
      case None
      show ?thesis
      proof (cases "put_node (here @ [c]) (Folder NoEntries) fs")
        case (Some gs)
        then have "descend (here @ [c]) cs gs = (r, fs')" using "2.prems" False None by simp
        then show ?thesis using "2.IH" False None Some made [OF Some None] by simp
      qed (use "2.prems" False None in simp)
    next
      case (Some nd)
      then show ?thesis using "2.prems" "2.IH" False by (cases nd) auto
    qed
  qed
qed simp

lemma descend_ends:
  assumes "descend here cs fs = (Some dir, fs')" and "''..'' \<notin> set cs"
  shows "dir = here @ filter (\<lambda>c. c \<noteq> [] \<and> c \<noteq> ''.'') cs"
  using assms
  by (induction here cs fs arbitrary: dir fs' rule: descend.induct) (auto split: if_splits option.splits node.splits)

lemma file_at_write_file:
  assumes "write_file path b fs = Some fs'"
  shows "file_at fs' q = (if q = path then Some (Some b) else file_at fs q)"
proof -
  from assms have put: "put_node path (RegularFile (Some b)) fs = Some fs'"
    and old: "node_at fs path = None \<or> (\<exists>c. node_at fs path = Some (RegularFile c))"
    by (auto simp: write_file_def split: option.splits node.splits)
  show ?thesis
  proof (cases "take (length path) q = path")
    case True
    then obtain t where t: "q = path @ t" by (metis append_take_drop_id)
    show ?thesis
    proof (cases t)
      case (Cons d ds)
      have "path \<noteq> []" using put by (cases path) auto
      then have "file_at fs q = None" using old nothing_below node_at_file_at t Cons by fastforce
      then show ?thesis using t Cons by (simp add: file_at_put_node [OF put])
    qed (simp add: t file_at_put_node [OF put])
  qed (auto simp: file_at_put_node [OF put])
qed

text \<open>The files the copy takes over: at most eight folders deep and outside the names it leaves out.\<close>

definition copied_path :: "nat \<Rightarrow> string list \<Rightarrow> bool" where
  "copied_path depth cs \<longleftrightarrow> cs \<noteq> [] \<and> length cs + depth \<le> 9 \<and> (\<forall>c \<in> set cs. \<not> copy_skips c)"

definition copied_file :: "nat \<Rightarrow> entries \<Rightarrow> string list \<Rightarrow> bytes option option" where
  "copied_file depth es cs = (if copied_path depth cs then (case file_at es cs of Some (Some b) \<Rightarrow> Some (Some b) | _ \<Rightarrow> None) else None)"

lemma copied_path_Cons: "cs \<noteq> [] \<Longrightarrow> copied_path depth (c # cs) \<longleftrightarrow> \<not> copy_skips c \<and> depth < 8 \<and> copied_path (depth + 1) cs"
  by (cases cs) (auto simp: copied_path_def)

lemma copy_files:
  assumes "tree_ok es" and "depth \<le> 8" and "copy_dir_recursive depth es = (out, True)"
  shows "file_at out cs = copied_file depth es cs"
  using assms
proof (induction depth es arbitrary: out cs rule: copy_dir_recursive.induct)
  case (2 depth name nd es)
  obtain rest ok where rest: "copy_dir_recursive depth es = (rest, ok)" by fastforce
  have other: "file_at es (name # ds) = None" for ds using "2.prems"(1) by (intro file_at_other) simp
  show ?case
  proof (cases "cs = []")
    case False
    then obtain c ds where cs: "cs = c # ds" by (cases cs) auto
    have tree: "tree_ok es" using "2.prems"(1) by simp
    have tail: "copied_file depth (Entry name nd es) cs = copied_file depth es cs" if "c \<noteq> name"
      using that cs by (simp add: copied_file_def)
    have none: "copied_file depth es (name # ds) = None" using other by (simp add: copied_file_def)
    have left_out: "file_at out cs = copied_file depth (Entry name nd es) cs" if "out = rest" "ok" "copied_file depth (Entry name nd es) (name # ds) = None"
      "file_at rest cs = copied_file depth es cs"
      using that tail none cs by (cases "c = name") auto
    have kept: "file_at out cs = copied_file depth (Entry name nd es) cs" if "out = Entry name nd' rest" "file_at rest cs = copied_file depth es cs"
      "node_file nd' ds = copied_file depth (Entry name nd es) (name # ds)" for nd'
      using that tail cs by (cases "c = name") auto
    show ?thesis
    proof (cases "copy_skips name")
      case True
      then have "file_at rest cs = copied_file depth es cs" "out = rest" "ok"
        using "2.IH"(1) [OF True tree "2.prems"(2)] "2.prems"(3) rest by auto
      then show ?thesis using True by (intro left_out) (auto simp: copied_file_def copied_path_def)
    next
      case False
      note keep = False
      show ?thesis
      proof (cases nd)
        case (RegularFile content)
        show ?thesis
        proof (cases content)
          case None
          then have "file_at rest cs = copied_file depth es cs" "out = rest" "ok"
            using "2.IH" "2.prems" keep RegularFile rest by auto
          then show ?thesis using RegularFile None by (intro left_out) (auto simp: copied_file_def)
        next
          case (Some b)
          then have "file_at rest cs = copied_file depth es cs" "out = Entry name (RegularFile (Some b)) rest" "ok"
            using "2.IH" "2.prems" keep RegularFile rest by auto
          then show ?thesis using RegularFile Some keep "2.prems"(2)
            by (intro kept) (auto simp: copied_file_def copied_path_def)
        qed
      next
        case (Folder sub)
        show ?thesis
        proof (cases "depth < 8")
          case True
          obtain inner iok where inner: "copy_dir_recursive (depth + 1) sub = (inner, iok)" by fastforce
          then have r: "iok" "ok" "out = Entry name (Folder inner) rest"
            using "2.prems"(3) keep Folder True rest by (auto split: if_splits)
          have shallow: "\<not> 8 < depth + 1" using True by simp
          have below: "file_at inner ds = copied_file (depth + 1) sub ds"
            using "2.IH"(5) [OF keep Folder shallow, of inner ds] True inner r(1) "2.prems"(1) Folder by simp
          have "file_at rest cs = copied_file depth es cs"
            using "2.IH"(6) [OF keep Folder shallow inner [symmetric] refl r(1) tree "2.prems"(2)] rest r(2) by simp
          moreover have "node_file (Folder inner) ds = copied_file depth (Entry name nd es) (name # ds)"
            using below keep True Folder
            by (cases "ds = []") (simp_all add: copied_file_def copied_path_Cons file_at_Nil_path)
          ultimately show ?thesis by (intro kept [OF r(3)])
        next
          case False
          then have deep: "8 < depth + 1" by simp
          have "file_at rest cs = copied_file depth es cs" "out = rest" "ok"
            using "2.IH"(4) [OF keep Folder deep tree "2.prems"(2)] "2.prems"(3) keep Folder deep rest by auto
          then show ?thesis using Folder False
            by (cases "ds = []"; intro left_out) (auto simp: copied_file_def copied_path_Cons file_at_Nil_path)
        qed
      next
        case UnreadableFolder
        then have "file_at rest cs = copied_file depth es cs" "out = rest" "ok"
          using "2.IH" "2.prems" keep rest by (auto split: if_splits)
        then show ?thesis using UnreadableFolder by (intro left_out) (auto simp: copied_file_def)
      next
        case SpecialEntry
        then have "file_at rest cs = copied_file depth es cs" "out = rest" "ok"
          using "2.IH" "2.prems" keep rest by auto
        then show ?thesis using SpecialEntry by (intro left_out) (auto simp: copied_file_def)
      qed
    qed
  qed (simp add: file_at_Nil_path copied_file_def copied_path_def)
qed (simp add: copied_file_def)

section \<open>Declared targets\<close>

abbreviation named_parts :: "string list \<Rightarrow> string list" where
  "named_parts \<equiv> filter (\<lambda>c. c \<noteq> [] \<and> c \<noteq> ''.'')"

lemma repo_components_parts:
  "repo_components raw parts cs = Ok r \<Longrightarrow> r = parts @ named_parts cs \<and> ''..'' \<notin> set cs"
  by (induction raw parts cs rule: repo_components.induct) (auto split: if_splits)

lemma declared_target_parts:
  assumes "check_declared_target raw roots = Ok target"
  shows "split_on CHR ''/'' target = named_parts (split_on CHR ''/'' raw)" and "''..'' \<notin> set (split_on CHR ''/'' raw)"
    and "\<not> starts_with ''/'' raw"
proof -
  from assms have norm: "normalize_repo_path raw = Ok target"
    by (auto simp: check_declared_target_def and_then_Ok split: if_splits)
  then obtain cs where cs: "repo_components raw [] (split_on CHR ''/'' raw) = Ok cs" "cs \<noteq> []" "target = join ''/'' cs"
    by (auto simp: normalize_repo_path_def and_then_Ok split: if_splits)
  from norm show "\<not> starts_with ''/'' raw" by (auto simp: normalize_repo_path_def split: if_splits)
  from repo_components_parts [OF cs(1)] have parts: "cs = named_parts (split_on CHR ''/'' raw)" "''..'' \<notin> set (split_on CHR ''/'' raw)" by simp_all
  then show "''..'' \<notin> set (split_on CHR ''/'' raw)" by simp
  have "\<forall>c \<in> set cs. CHR ''/'' \<notin> set c" using parts(1) split_on_pieces by fastforce
  then show "split_on CHR ''/'' target = named_parts (split_on CHR ''/'' raw)"
    using split_on_join [of cs "CHR ''/''"] cs(2,3) parts(1) by simp
qed

lemma write_target_files:
  assumes "write_target sandbox raw b fs = (True, fs')" and "check_declared_target raw roots = Ok target"
  shows "file_at fs' q = (if q = sandbox @ split_on CHR ''/'' target then Some (Some b) else file_at fs q)"
proof -
  note t = declared_target_parts [OF assms(2)]
  define cs where "cs = split_on CHR ''/'' raw"
  have cs: "cs \<noteq> []" by (simp add: cs_def)
  obtain dir gs where d: "descend sandbox (butlast (rev (dropWhile (\<lambda>c. c = [] \<or> c = ''.'') (rev cs)))) fs = (dir, gs)" by fastforce
  from assms(1) d t(3) obtain here where here: "dir = Some here" "last cs \<noteq> []" "last cs \<noteq> ''.''" "write_file (here @ [last cs]) b gs = Some fs'"
    by (auto simp: write_target_def Let_def cs_def split: option.splits if_splits)
  have "rev (dropWhile (\<lambda>c. c = [] \<or> c = ''.'') (rev cs)) = cs"
    using cs here(2,3) by (cases cs rule: rev_cases) auto
  with d here(1) have d: "descend sandbox (butlast cs) fs = (Some here, gs)" by simp
  have "''..'' \<notin> set (butlast cs)" using t(2) cs_def in_set_butlastD by metis
  from descend_ends [OF d this] have "here = sandbox @ named_parts (butlast cs)" .
  moreover have "named_parts cs = named_parts (butlast cs) @ [last cs]"
    using here(2,3) cs by (cases cs rule: rev_cases) auto
  ultimately have "here @ [last cs] = sandbox @ split_on CHR ''/'' target" using t(1) cs_def by simp
  with file_at_write_file [OF here(4)] file_at_descend [OF d] show ?thesis by simp
qed

lemma staged_sandbox_files:
  assumes "stage_in_sandbox p repo base fs = (Ok (p', sandbox), fs')"
    and "check_declared_target (ip_target_file p) roots = Ok target"
    and "node_at fs repo = Some (Folder src)" and "tree_ok src"
  shows "sandbox = base @ [ip_id p]" and "ip_sandbox_path p' = Some (''/'' @ join ''/'' sandbox)"
    and "take (length sandbox) path \<noteq> sandbox \<Longrightarrow> file_at fs' path = file_at fs path"
    and "file_at fs' (sandbox @ cs) =
           (if cs = split_on CHR ''/'' target then Some (Some (ip_proposed_patch p)) else copied_file 0 src cs)"
proof -
  define sb where "sb = base @ [ip_id p]"
  obtain made where made: "put_node sb (Folder NoEntries) fs = Some made"
    using assms(1) by (auto simp: stage_in_sandbox_def Let_def sb_def [symmetric] split: option.splits node.splits)
  obtain copied ok where copied: "copy_dir_recursive 0 src = (copied, ok)" by fastforce
  obtain filled where filled: "put_node sb (Folder copied) made = Some filled"
    using put_node_existing [OF node_at_put_node [OF made]] by blast
  have written: "write_target sb (ip_target_file p) (ip_proposed_patch p) filled = (True, fs')" and ok: "ok" and sandbox: "sandbox = sb"
      and p': "p' = p\<lparr>ip_sandbox_path := Some (''/'' @ join ''/'' sb)\<rparr>"
    using assms(1,3) made copied filled
    by (auto simp: stage_in_sandbox_def Let_def sb_def [symmetric] split: option.splits node.splits if_splits prod.splits bool.splits)
  note files = write_target_files [OF written assms(2)] file_at_put_node [OF filled] file_at_put_node [OF made]
  have "file_at copied cs = copied_file 0 src cs" for cs using copy_files [OF assms(4)] copied ok by simp
  then show "sandbox = base @ [ip_id p]" "ip_sandbox_path p' = Some (''/'' @ join ''/'' sandbox)"
    "take (length sandbox) path \<noteq> sandbox \<Longrightarrow> file_at fs' path = file_at fs path"
    "file_at fs' (sandbox @ cs) =
           (if cs = split_on CHR ''/'' target then Some (Some (ip_proposed_patch p)) else copied_file 0 src cs)"
    by (auto simp: sandbox sb_def [symmetric] p' files)
qed

text \<open>C15: A proposal whose declared target the gate accepts is staged inside its own sandbox: no file outside the sandbox changes, and
  inside it the target holds the patch and every other file is the copy of the repository's file of that path, for the paths the
  copy takes over.\<close>

theorem staged_sandbox_exact:
  assumes "stage_in_sandbox p repo base fs = (Ok (p', sandbox), fs')"
    and "check_declared_target (ip_target_file p) roots = Ok target"
    and "node_at fs repo = Some (Folder src)" and "tree_ok src"
  shows "sandbox = base @ [ip_id p] \<and> ip_sandbox_path p' = Some (''/'' @ join ''/'' sandbox)
     \<and> (\<forall>path. take (length sandbox) path \<noteq> sandbox \<longrightarrow> file_at fs' path = file_at fs path)
     \<and> (\<forall>cs. file_at fs' (sandbox @ cs) =
           (if cs = split_on CHR ''/'' target then Some (Some (ip_proposed_patch p)) else copied_file 0 src cs))"
  using staged_sandbox_files [OF assms] by blast

definition sample_disk :: entries where
  "sample_disk = Entry ''repo'' (Folder (Entry ''README.md'' (RegularFile (Some ''old'')) (Entry ''LICENSE'' (RegularFile (Some ''terms'')) NoEntries)))
     (Entry ''boxes'' (Folder NoEntries) NoEntries)"

definition sample_patch :: "string \<Rightarrow> improvement_proposal" where
  "sample_patch target = create_proposal ''u'' ''now'' ''t'' ''d'' target ''new'' Documentation"

lemma sample_staging:
  "fst (stage_in_sandbox (sample_patch ''README.md'') [''repo''] [''boxes''] sample_disk) =
     Ok ((sample_patch ''README.md'')\<lparr>ip_sandbox_path := Some ''/boxes/prop-u''\<rparr>, [''boxes'', ''prop-u''])"
  by code_simp

lemma sample_target: "check_declared_target (ip_target_file (sample_patch ''README.md'')) [''README.md''] = Ok ''README.md''"
  by code_simp

lemma staged_sandbox_exact_witness:
  "file_at (snd (stage_in_sandbox (sample_patch ''README.md'') [''repo''] [''boxes''] sample_disk)) [''repo'', ''README.md''] = Some (Some ''old'')
   \<and> file_at (snd (stage_in_sandbox (sample_patch ''README.md'') [''repo''] [''boxes''] sample_disk)) [''boxes'', ''prop-u'', ''README.md'']
      = Some (Some ''new'')"
proof -
  define r where "r = stage_in_sandbox (sample_patch ''README.md'') [''repo''] [''boxes''] sample_disk"
  have r: "r = (fst r, snd r)" by simp
  have src: "node_at sample_disk [''repo''] = Some (Folder (Entry ''README.md'' (RegularFile (Some ''old''))
      (Entry ''LICENSE'' (RegularFile (Some ''terms'')) NoEntries)))"
    by (simp add: sample_disk_def)
  have "file_at sample_disk [''repo'', ''README.md''] = Some (Some ''old'')" by (simp add: sample_disk_def)
  moreover have "split_on CHR ''/'' ''README.md'' = [''README.md'']" by simp
  moreover note staged_sandbox_exact [OF r [unfolded r_def sample_staging] sample_target src]
  ultimately show ?thesis unfolding r_def
    by (fastforce simp: proper_name_def sample_patch_def create_proposal_def)
qed

text \<open>Without the gate's check a parent step leaves the sandbox.\<close>

lemma staging_follows_parent_steps:
  "file_at (snd (stage_in_sandbox (sample_patch ''src/../../../repo/LICENSE'') [''repo''] [''boxes''] sample_disk)) [''repo'', ''LICENSE'']
     = Some (Some ''new'')"
  by code_simp

section \<open>The verified sandbox\<close>

lemma scan_inner_sound:
  "scan_dir_secrets_inner dir depth es = [] \<Longrightarrow> scan_reaches dir depth cs \<Longrightarrow> file_at es cs = Some c
     \<Longrightarrow> \<not> is_env_file (last cs) \<and> \<not> holds_key c"
proof (induction dir depth es arbitrary: cs c rule: scan_dir_secrets_inner.induct)
  case (2 dir depth name nd es)
  from "2.prems"(3) obtain d ds where cs: "cs = d # ds" by (cases cs) (auto simp: file_at_Nil_path)
  show ?case
  proof (cases "d = name")
    case False
    then have "file_at es cs = Some c" using "2.prems"(3) cs by simp
    moreover have "scan_dir_secrets_inner dir depth es = []" using "2.prems"(1) by (simp add: Let_def)
    ultimately show ?thesis using "2.IH"(2) "2.prems"(2) by blast
  next
    case True
    then have keep: "\<not> scan_skips name (from_utf8_lossy (dir @ ''/'' @ name))" using "2.prems"(2) cs by simp
    show ?thesis
    proof (cases nd)
      case (RegularFile b)
      then show ?thesis using "2.prems" keep cs True by (auto simp: Let_def scan_file_Nil split: if_splits)
    next
      case (Folder sub)
      then have "file_at sub ds = Some c" using "2.prems"(3) cs True by simp
      moreover from this have "ds \<noteq> []" by (auto simp: file_at_Nil_path)
      ultimately show ?thesis
        using "2.IH"(1) [OF refl keep Folder] "2.prems" keep cs True Folder by (auto simp: Let_def)
    qed (use "2.prems"(3) cs True in simp_all)
  qed
qed simp

text \<open>C14: When a staged candidate passes the invariant verifier, no file of its sandbox that the scan reaches, the patch or a copied file of
  the repository, is an env file or holds a private key.\<close>

theorem verified_sandbox_is_clean:
  assumes "stage_in_sandbox p repo base fs = (Ok (p', sandbox), fs')"
    and "check_declared_target (ip_target_file p) roots = Ok target"
    and "node_at fs repo = Some (Folder src)" and "tree_ok src"
    and "node_at fs' sandbox = Some (Folder staged)"
    and "fr_passed (run_full_verification_scoped lowercase show_list dir staged build check test)"
    and "scanned_path dir cs"
    and "cs = split_on CHR ''/'' target \<and> content = ip_proposed_patch p
       \<or> cs \<noteq> split_on CHR ''/'' target \<and> copied_path 0 cs \<and> file_at src cs = Some (Some content)"
  shows "\<not> is_env_file (last cs) \<and> \<not> holds_key (Some content)"
proof -
  have "file_at staged cs = file_at fs' (sandbox @ cs)" using node_at_file_at [OF assms(5)] by simp
  also have "\<dots> = Some (Some content)"
    using staged_sandbox_files [OF assms(1-4)] assms(8) by (auto simp: copied_file_def)
  finally have "file_at staged cs = Some (Some content)" .
  moreover have "scan_dir_secrets_inner dir 0 staged = []"
    using assms(6) unfolding full_passed_iff by (simp add: scan_dir_for_secrets_def Let_def)
  ultimately show ?thesis using scan_inner_sound assms(7) scan_reaches_scanned by blast
qed

lemma verified_sandbox_is_clean_witness:
  "\<not> holds_key (Some ''terms'')"
proof -
  define r where "r = stage_in_sandbox (sample_patch ''README.md'') [''repo''] [''boxes''] sample_disk"
  have r: "r = (fst r, snd r)" by simp
  have src: "node_at sample_disk [''repo''] = Some (Folder (Entry ''README.md'' (RegularFile (Some ''old''))
      (Entry ''LICENSE'' (RegularFile (Some ''terms'')) NoEntries)))"
    by (simp add: sample_disk_def)
  have ok: "tree_ok (Entry ''README.md'' (RegularFile (Some ''old'')) (Entry ''LICENSE'' (RegularFile (Some ''terms'')) NoEntries))"
    by (simp add: proper_name_def)
  have staged: "node_at (snd r) [''boxes'', ''prop-u''] =
      Some (Folder (Entry ''README.md'' (RegularFile (Some ''new'')) (Entry ''LICENSE'' (RegularFile (Some ''terms'')) NoEntries)))"
    unfolding r_def by code_simp
  have passed: "fr_passed (run_full_verification_scoped id concat ''box'' (Entry ''README.md'' (RegularFile (Some ''new''))
      (Entry ''LICENSE'' (RegularFile (Some ''terms'')) NoEntries)) False (Inl []) (Inl []))"
    by code_simp
  have scanned: "scanned_path ''box'' [''LICENSE'']" "copied_path 0 [''LICENSE'']" by code_simp+
  show ?thesis
    using verified_sandbox_is_clean [OF r [unfolded r_def sample_staging] sample_target src ok staged [unfolded r_def] passed scanned(1)]
    using scanned(2) by fastforce
qed

section \<open>The scan for dashes\<close>

text \<open>One round of the dash scan with its proposal applied.\<close>

definition unslop_round :: "entries \<Rightarrow> entries" where
  "unslop_round es =
     (case scan_and_propose_unslop [] [] es of
        Some p \<Rightarrow> (case write_file (split_on CHR ''/'' (ip_target_file p)) (ip_proposed_patch p) es of Some es \<Rightarrow> es | None \<Rightarrow> es)
      | None \<Rightarrow> es)"

definition dashed :: "entries \<Rightarrow> string list set" where
  "dashed es = {p \<in> set CHECK_FILES. \<exists>s. read_text es p = Some s \<and> has_dash s}"

lemma read_text_file:
  "read_text es p = (case file_at es p of Some (Some b) \<Rightarrow> if valid_utf8 b then Some b else None | _ \<Rightarrow> None)"
proof (cases "file_at es p")
  case (Some c)
  then show ?thesis using node_at_file [of es p c] by (simp add: read_text_def split: option.split)
next
  case None
  then have "node_at es p \<noteq> Some (RegularFile c)" for c using node_at_file [of es p c] by simp
  then show ?thesis using None by (auto simp: read_text_def split: option.split node.split)
qed

lemma first_dashed_Some:
  "first_dashed es ps = Some (p, s) \<Longrightarrow> p \<in> set ps \<and> read_text es p = Some s \<and> has_dash s"
  by (induction ps) (auto split: option.splits if_splits)

lemma first_dashed_None: "first_dashed es ps = None \<longleftrightarrow> (\<forall>p \<in> set ps. \<forall>s. read_text es p = Some s \<longrightarrow> \<not> has_dash s)"
  by (induction ps) (auto split: option.splits)

lemma check_files_split: "p \<in> set CHECK_FILES \<Longrightarrow> split_on CHR ''/'' (join ''/'' p) = p"
  by (auto simp: CHECK_FILES_def)

lemma dashed_None: "scan_and_propose_unslop u now es = None \<longleftrightarrow> dashed es = {}"
  by (auto simp: scan_and_propose_unslop_def first_dashed_None dashed_def)

lemma unslop_round_shrinks:
  assumes "dashed es \<noteq> {}"
  shows "dashed (unslop_round es) \<subset> dashed es"
proof -
  obtain p s where found: "first_dashed es CHECK_FILES = Some (p, s)"
    using assms dashed_None [of "[]" "[]" es] by (auto simp: scan_and_propose_unslop_def)
  note f = first_dashed_Some [OF found]
  then obtain c where at: "node_at es p = Some (RegularFile c)"
    by (auto simp: read_text_def split: option.splits node.splits)
  from put_node_existing [OF this] obtain es' where w: "write_file p (sanitize_dashes s) es = Some es'"
    unfolding write_file_def at by fastforce
  then have round: "unslop_round es = es'"
    using found f by (simp add: unslop_round_def scan_and_propose_unslop_def create_proposal_def check_files_split)
  have "p \<in> dashed es" using f by (auto simp: dashed_def)
  moreover have "p \<notin> dashed es'"
    using sanitized_no_dash by (auto simp: dashed_def read_text_file file_at_write_file [OF w] split: if_splits)
  moreover have "q \<in> dashed es" if "q \<in> dashed es'" "q \<noteq> p" for q
    using that by (auto simp: dashed_def read_text_file file_at_write_file [OF w])
  ultimately show ?thesis unfolding round by blast
qed

lemma dashed_rounds: "dashed ((unslop_round ^^ n) es) = {} \<or> card (dashed ((unslop_round ^^ n) es)) + n \<le> card (dashed es)"
proof (induction n)
  case (Suc n)
  have fin: "finite (dashed es)" for es by (simp add: dashed_def)
  show ?case
  proof (cases "dashed ((unslop_round ^^ n) es) = {}")
    case True
    then have "unslop_round ((unslop_round ^^ n) es) = (unslop_round ^^ n) es"
      using dashed_None [of "[]" "[]" "(unslop_round ^^ n) es"] by (simp add: unslop_round_def)
    then show ?thesis using True by simp
  next
    case False
    with psubset_card_mono [OF fin unslop_round_shrinks [OF False]] Suc.IH show ?thesis by auto
  qed
qed simp


end
