(* ===== verification/Jail.thy ===== *)
theory Jail
  imports Engine
begin

text \<open>
  The jails (\<open>src/src/isolation/container.rs\<close>), the sandbox of the judge's cargo commands (\<open>src/src/isolation/cargo_sandbox.rs\<close>)
  and the git worktree of a cycle (\<open>src/src/isolation/rollback.rs\<close>).

  A command is the list of its arguments.  What the host has (user and group, home, which paths exist) is the record \<open>jail_host\<close>; what
  the child process does is the sequence of the answers of \<open>try_wait\<close>, and the clock is in nanoseconds.
\<close>

section \<open>Limits and the time-out\<close>

record sandbox_limits =
  sl_max_memory_mb :: u64
  sl_max_cpu_percent :: u32
  sl_max_pids :: u32
  sl_timeout_seconds :: u64

definition default_limits :: sandbox_limits where
  "default_limits = \<lparr>sl_max_memory_mb = 16384, sl_max_cpu_percent = 800, sl_max_pids = 256, sl_timeout_seconds = 180\<rparr>"

text \<open>An answer of \<open>try_wait\<close>: still running, ended with its status and the two streams, or an error.\<close>

datatype child_answer = StillRunning | Ended bool bytes bytes | WaitFailed string

text \<open>\<open>read_to_string\<close> into an empty string; a stream that is not UTF-8 leaves it empty.\<close>

definition stream_text :: "bytes \<Rightarrow> string" where "stream_text b = (if valid_utf8 b then b else [])"

text \<open>The sleep before the next poll, from the time elapsed and the sleep before.\<close>

definition next_interval :: "nat \<Rightarrow> nat \<Rightarrow> nat" where
  "next_interval elapsed interval =
     (if 50 * 10 ^ 6 < elapsed \<and> interval < 10 ^ 6 then 10 ^ 6 else if 500 * 10 ^ 6 < elapsed then 5 * 10 ^ 6 else interval)"

text \<open>The poll loop from the \<open>k\<close>-th poll on; \<open>None\<close> would be a loop that does not end.\<close>

partial_function (option) poll_child ::
    "u64 \<Rightarrow> (nat \<Rightarrow> child_answer) \<Rightarrow> (nat \<Rightarrow> nat) \<Rightarrow> nat \<Rightarrow> (string + bool \<times> string \<times> string) option" where
  "poll_child timeout answer elapsed k =
     (case answer k of
        Ended success out err \<Rightarrow> Some (Ok (success, stream_text out, stream_text err))
      | WaitFailed e \<Rightarrow> Some (Err (''Error waiting on child process: '' @ e))
      | StillRunning \<Rightarrow>
          if unat timeout * 10 ^ 9 \<le> elapsed k
            then Some (Err (''Process timed out after '' @ dec_nat (unat timeout) @ '' seconds''))
            else poll_child timeout answer elapsed (k + 1))"

definition execute_with_timeout ::
    "string + unit \<Rightarrow> u64 \<Rightarrow> (nat \<Rightarrow> child_answer) \<Rightarrow> (nat \<Rightarrow> nat) \<Rightarrow> (string + bool \<times> string \<times> string) option" where
  "execute_with_timeout spawned timeout answer elapsed =
     (case spawned of Inl e \<Rightarrow> Some (Err (''Failed to spawn process: '' @ e)) | Inr _ \<Rightarrow> poll_child timeout answer elapsed 0)"

section \<open>Command lines\<close>

record jail_host =
  jh_uid :: nat
  jh_gid :: nat
  jh_home :: "string option"
  jh_exists :: "string \<Rightarrow> bool"
  jh_is_dir :: "string \<Rightarrow> bool"
  jh_is_file :: "string \<Rightarrow> bool"
  jh_rustup_home :: "string option"
  jh_cargo_home :: "string option"
  jh_path :: "string option"

text \<open>\<open>{:.2}\<close> of the percentage over a hundred.\<close>

definition cpus_text :: "u32 \<Rightarrow> string" where
  "cpus_text p = dec_nat (unat p div 100) @ ''.'' @ dec_nat (unat p mod 100 div 10) @ dec_nat (unat p mod 10)"

definition docker_limits :: "jail_host \<Rightarrow> sandbox_limits \<Rightarrow> string list" where
  "docker_limits H l =
     [''--read-only'', ''--cap-drop'', ''ALL'', ''--security-opt'', ''no-new-privileges'', ''--memory'',
      dec_nat (unat (sl_max_memory_mb l)) @ ''m'', ''--cpus'', cpus_text (sl_max_cpu_percent l), ''--pids-limit'',
      dec_nat (unat (sl_max_pids l)), ''-u'', dec_nat (jh_uid H) @ '':'' @ dec_nat (jh_gid H)]"

record build_jail =
  bl_builder_image :: string
  bl_host_source_dir :: string
  bl_host_output_dir :: string
  bl_limits :: sandbox_limits

definition new_build_jail :: "string \<Rightarrow> string \<Rightarrow> string \<Rightarrow> build_jail" where
  "new_build_jail img src out = \<lparr>bl_builder_image = img, bl_host_source_dir = src, bl_host_output_dir = out, bl_limits = default_limits\<rparr>"

definition build_docker_args :: "jail_host \<Rightarrow> build_jail \<Rightarrow> string list \<Rightarrow> string list" where
  "build_docker_args H j command =
     [''run'', ''--rm'', ''--network'', ''none''] @ docker_limits H (bl_limits j)
     @ [''-v'', bl_host_source_dir j @ '':/workspace/src:ro'', ''-v'', bl_host_output_dir j @ '':/output:rw'',
        ''--tmpfs'', ''/tmp:rw,size=4G,mode=1777'', ''--tmpfs'', ''/build:rw,size=8G,mode=1777'', ''-w'', ''/build'',
        bl_builder_image j] @ command"

definition UNSHARE :: "string list" where
  "UNSHARE = [''--unshare-user'', ''--unshare-ipc'', ''--unshare-pid'', ''--unshare-net'', ''--unshare-uts'', ''--die-with-parent'']"

definition ro_bind :: "string \<Rightarrow> string list" where "ro_bind p = [''--ro-bind'', p, p]"

definition host_home :: "jail_host \<Rightarrow> string" where
  "host_home H = (case jh_home H of Some h \<Rightarrow> h | None \<Rightarrow> ''/home/drakestapleton'')"

definition host_dirs :: "jail_host \<Rightarrow> string list" where
  "host_dirs H =
     filter (jh_exists H) [''/lib64'', ''/bin'', ''/etc'', path_join (host_home H) ''.cargo'', path_join (host_home H) ''.rustup'']"

definition toolchain_path :: "jail_host \<Rightarrow> string list" where
  "toolchain_path H =
     [''--setenv'', ''PATH'', host_home H @ ''/.cargo/bin:/usr/local/cuda/bin:/usr/local/bin:/usr/bin:/bin'',
      ''--setenv'', ''HOME'', host_home H]"

definition build_bwrap_args :: "jail_host \<Rightarrow> build_jail \<Rightarrow> string list \<Rightarrow> string list" where
  "build_bwrap_args H j command =
     UNSHARE @ ro_bind ''/usr'' @ ro_bind ''/lib'' @ [''--proc'', ''/proc'', ''--dev'', ''/dev'', ''--tmpfs'', ''/tmp'']
     @ [''--ro-bind'', bl_host_source_dir j, ''/workspace/src'', ''--bind'', bl_host_output_dir j, ''/output'', ''--chdir'', ''/output'']
     @ concat (map ro_bind (host_dirs H))
     @ [''--bind'', ''/tmp/spark-rsi-target'', ''/tmp/spark-rsi-target'', ''--setenv'', ''CARGO_TARGET_DIR'', ''/tmp/spark-rsi-target'']
     @ toolchain_path H @ command"

record gpu_jail =
  gl_eval_image :: string
  gl_host_artifact_dir :: string
  gl_cdi_device :: string
  gl_limits :: sandbox_limits

definition new_gpu_jail :: "string \<Rightarrow> string \<Rightarrow> gpu_jail" where
  "new_gpu_jail img dir = \<lparr>gl_eval_image = img, gl_host_artifact_dir = dir, gl_cdi_device = ''nvidia.com/gpu=0'',
     gl_limits = \<lparr>sl_max_memory_mb = 49152, sl_max_cpu_percent = 800, sl_max_pids = 256, sl_timeout_seconds = 300\<rparr>\<rparr>"

definition gpu_docker_args :: "jail_host \<Rightarrow> gpu_jail \<Rightarrow> string list \<Rightarrow> string list" where
  "gpu_docker_args H j command =
     [''run'', ''--rm'', ''--network'', ''none'', ''--device'', gl_cdi_device j] @ docker_limits H (gl_limits j)
     @ [''-v'', gl_host_artifact_dir j @ '':/artifacts:ro'', ''--tmpfs'', ''/tmp:rw,size=4G,mode=1777'', ''-w'', ''/artifacts'',
        gl_eval_image j] @ command"

record candidate_jail =
  cj_candidate_bin :: string
  cj_working_dir :: "string option"
  cj_limits :: sandbox_limits

definition new_candidate_jail :: "string \<Rightarrow> candidate_jail" where
  "new_candidate_jail bin = \<lparr>cj_candidate_bin = bin, cj_working_dir = None,
     cj_limits = \<lparr>sl_max_memory_mb = 49152, sl_max_cpu_percent = 800, sl_max_pids = 256, sl_timeout_seconds = 30\<rparr>\<rparr>"

text \<open>The components of a path without the trailing ones that name nothing; \<open>Path::parent\<close> and \<open>Path::file_name\<close>.\<close>

definition trimmed_parts :: "string list \<Rightarrow> string list" where
  "trimmed_parts cs = rev (dropWhile (\<lambda>c. c = [] \<or> c = ''.'') (rev cs))"

definition bin_parent :: "string \<Rightarrow> string" where
  "bin_parent p =
     (let cs = trimmed_parts (split_on CHR ''/'' p) in
      if cs = [] then ''/''
      else (let ds = trimmed_parts (butlast cs) in if ds = [] \<and> starts_with ''/'' p then ''/'' else join ''/'' ds))"

definition bin_name :: "string \<Rightarrow> string" where
  "bin_name p =
     (let cs = trimmed_parts (split_on CHR ''/'' p) in
      if cs = [] \<or> last cs = ''..'' \<or> \<not> valid_utf8 (last cs) then ''candidate'' else last cs)"

definition candidate_bwrap_args :: "jail_host \<Rightarrow> candidate_jail \<Rightarrow> string list \<Rightarrow> string list" where
  "candidate_bwrap_args H j command =
     UNSHARE @ [''--clearenv''] @ ro_bind ''/usr'' @ ro_bind ''/lib'' @ [''--proc'', ''/proc'', ''--dev'', ''/dev'', ''--tmpfs'', ''/tmp'']
     @ concat (map ro_bind (host_dirs H))
     @ [''--ro-bind'', bin_parent (cj_candidate_bin j), ''/app'']
     @ (case cj_working_dir j of
          Some work \<Rightarrow> [''--bind'', work, ''/workspace'', ''--chdir'', ''/workspace'']
        | None \<Rightarrow> [''--chdir'', ''/tmp''])
     @ toolchain_path H @ [''/app/'' @ bin_name (cj_candidate_bin j)] @ command"

section \<open>Cargo in the sandbox\<close>

text \<open>\<open>Path::starts_with\<close>, component by component.\<close>

definition path_within :: "string \<Rightarrow> string \<Rightarrow> bool" where
  "path_within p d \<longleftrightarrow> take (length (path_components d)) (path_components p) = path_components d"

definition env_dir :: "jail_host \<Rightarrow> string option \<Rightarrow> string \<Rightarrow> string option" where
  "env_dir H variable name =
     (case (case variable of Some v \<Rightarrow> Some v | None \<Rightarrow> map_option (\<lambda>h. path_join h name) (jh_home H)) of
        Some p \<Rightarrow> if jh_is_dir H p then Some p else None
      | None \<Rightarrow> None)"

definition safe_dir :: "jail_host \<Rightarrow> string option \<Rightarrow> string option" where
  "safe_dir H d =
     (case d of
        Some p \<Rightarrow> (case jh_home H of Some h \<Rightarrow> if path_within h p then None else Some p | None \<Rightarrow> Some p)
      | None \<Rightarrow> None)"

definition rustup_dir :: "jail_host \<Rightarrow> string option" where "rustup_dir H = safe_dir H (env_dir H (jh_rustup_home H) ''.rustup'')"
definition cargo_dir :: "jail_host \<Rightarrow> string option" where "cargo_dir H = safe_dir H (env_dir H (jh_cargo_home H) ''.cargo'')"

definition cargo_bin_dir :: "jail_host \<Rightarrow> string option" where
  "cargo_bin_dir H =
     safe_dir H (List.find (\<lambda>d. jh_is_file H (path_join d ''cargo''))
       (split_on CHR '':'' (case jh_path H of Some p \<Rightarrow> p | None \<Rightarrow> ''/usr/bin:/bin'')))"

text \<open>The options of bubblewrap, one list for each option with its operands.\<close>

definition sandbox_options :: "jail_host \<Rightarrow> string \<Rightarrow> string \<Rightarrow> string list list" where
  "sandbox_options H tree target =
     map (\<lambda>flag. [flag]) UNSHARE @ [[''--clearenv''], [''--proc'', ''/proc''], [''--dev'', ''/dev''], [''--tmpfs'', ''/tmp'']]
     @ map ro_bind (filter (jh_exists H) [''/usr'', ''/lib'', ''/lib64'', ''/bin'', ''/etc''])
     @ map ro_bind (List.map_filter id [rustup_dir H, cargo_dir H, cargo_bin_dir H])
     @ (case rustup_dir H of Some d \<Rightarrow> [[''--setenv'', ''RUSTUP_HOME'', d]] | None \<Rightarrow> [])
     @ (case cargo_dir H of Some d \<Rightarrow> [[''--setenv'', ''CARGO_HOME'', d]] | None \<Rightarrow> [])
     @ [[''--ro-bind'', tree, ''/src''], [''--bind'', target, ''/target''],
        [''--setenv'', ''PATH'', join '':'' ((case cargo_bin_dir H of Some d \<Rightarrow> [d] | None \<Rightarrow> []) @ [''/usr/bin'', ''/bin''])],
        [''--setenv'', ''HOME'', ''/tmp''], [''--setenv'', ''CARGO_TARGET_DIR'', ''/target''], [''--chdir'', ''/src'']]"

definition sandboxed_cargo :: "jail_host \<Rightarrow> string \<Rightarrow> string \<Rightarrow> string list \<Rightarrow> string list" where
  "sandboxed_cargo H tree target args = ''bwrap'' # concat (sandbox_options H tree target) @ ''cargo'' # args"

section \<open>The worktree of a cycle\<close>

record rollback_checkpoint =
  rb_repo_root :: string
  rb_cycle_id :: string
  rb_base_commit_sha :: string
  rb_worktree_dir :: string
  rb_ref_name :: string

text \<open>The commands and what git answers: not spawned, or its status and two streams.  The commands run are returned in order.\<close>

definition create_checkpoint ::
    "string \<Rightarrow> string \<Rightarrow> string \<Rightarrow> bool \<Rightarrow> string + bool \<times> bytes \<times> bytes \<Rightarrow> string + bool \<times> bytes \<times> bytes
      \<Rightarrow> (string + rollback_checkpoint) \<times> string list list" where
  "create_checkpoint repo shown cycle_id worktree_exists head added =
     (let git = (\<lambda>args. ''git'' # ''-C'' # repo # args); worktree = ''/tmp/spark-rsi-worktree-'' @ cycle_id;
          ref = ''refs/rsi/checkpoints/'' @ cycle_id; ask = git [''rev-parse'', ''HEAD''] in
      case head of
        Inl e \<Rightarrow> (Err (''Failed to resolve HEAD in '' @ shown @ '': '' @ e), [ask])
      | Inr (False, _, err) \<Rightarrow> (Err (''git rev-parse HEAD failed: '' @ from_utf8_lossy err), [ask])
      | Inr (True, out, _) \<Rightarrow>
          (let sha = trim (from_utf8_lossy out);
               cmds = [ask] @ (if worktree_exists then [git [''worktree'', ''remove'', ''--force'', worktree]] else [])
                 @ [git [''worktree'', ''add'', ''--detach'', worktree, sha]] in
           case added of
             Inl e \<Rightarrow> (Err (''Failed to spawn git worktree add: '' @ e), cmds)
           | Inr (False, _, err) \<Rightarrow> (Err (''Failed to create detached git worktree: '' @ from_utf8_lossy err), cmds)
           | Inr (True, _, _) \<Rightarrow>
               (Ok \<lparr>rb_repo_root = repo, rb_cycle_id = cycle_id, rb_base_commit_sha = sha, rb_worktree_dir = worktree, rb_ref_name = ref\<rparr>,
                cmds @ [git [''update-ref'', ref, sha]])))"

definition teardown :: "rollback_checkpoint \<Rightarrow> string list list" where
  "teardown c =
     [[''git'', ''-C'', rb_repo_root c, ''worktree'', ''remove'', ''--force'', rb_worktree_dir c],
      [''git'', ''-C'', rb_repo_root c, ''update-ref'', ''-d'', rb_ref_name c]]"

section \<open>The time-out ends every command\<close>

text \<open>The sleep after the \<open>k\<close>-th poll.\<close>

fun sleep_after :: "(nat \<Rightarrow> nat) \<Rightarrow> nat \<Rightarrow> nat" where
  "sleep_after elapsed 0 = next_interval (elapsed 0) (10 ^ 5)"
| "sleep_after elapsed (Suc k) = next_interval (elapsed (Suc k)) (sleep_after elapsed k)"

text \<open>What a sleep guarantees: the clock advances by at least its length.\<close>

definition sleeps_at_least :: "(nat \<Rightarrow> nat) \<Rightarrow> bool" where
  "sleeps_at_least elapsed \<longleftrightarrow> (\<forall>k. elapsed k + sleep_after elapsed k \<le> elapsed (Suc k))"

lemma sleep_after_min: "10 ^ 5 \<le> sleep_after elapsed k"
  by (induction k) (simp_all add: next_interval_def)

lemma elapsed_min: "sleeps_at_least elapsed \<Longrightarrow> k * 10 ^ 5 \<le> elapsed k"
proof (induction k)
  case (Suc k)
  then have "elapsed k + sleep_after elapsed k \<le> elapsed (Suc k)" by (simp add: sleeps_at_least_def)
  with Suc sleep_after_min [of elapsed k] show ?case by simp
qed simp

lemma poll_child_skips:
  "(\<And>j. j < k \<Longrightarrow> answer j = StillRunning \<and> elapsed j < unat timeout * 10 ^ 9)
     \<Longrightarrow> i \<le> k \<Longrightarrow> poll_child timeout answer elapsed i = poll_child timeout answer elapsed k"
proof (induction "k - i" arbitrary: i)
  case (Suc n)
  then have "i < k" by simp
  with Suc.prems(1) [of i] have "poll_child timeout answer elapsed i = poll_child timeout answer elapsed (i + 1)"
    by (subst poll_child.simps) simp
  also have "\<dots> = poll_child timeout answer elapsed k" using Suc.hyps Suc.prems \<open>i < k\<close> by simp
  finally show ?case .
qed simp

text \<open>C18: Every jailed command ends.  If a sleep takes at least its length, the poll loop returns after at most ten thousand polls a second
  of the time-out, with the output of the child when a poll finds it ended before the time is up, and with an error otherwise.\<close>

theorem jailed_command_ends:
  assumes "sleeps_at_least elapsed"
  shows "\<exists>k \<le> unat timeout * 10000. (\<forall>j < k. answer j = StillRunning \<and> elapsed j < unat timeout * 10 ^ 9)
     \<and> (answer k = StillRunning \<longrightarrow> unat timeout * 10 ^ 9 \<le> elapsed k)
     \<and> execute_with_timeout (Ok ()) timeout answer elapsed =
        Some (case answer k of
          Ended success out err \<Rightarrow> Ok (success, stream_text out, stream_text err)
        | WaitFailed e \<Rightarrow> Err (''Error waiting on child process: '' @ e)
        | StillRunning \<Rightarrow> Err (''Process timed out after '' @ dec_nat (unat timeout) @ '' seconds''))"
proof -
  let ?stop = "\<lambda>k. \<not> (answer k = StillRunning \<and> elapsed k < unat timeout * 10 ^ 9)"
  have late: "?stop (unat timeout * 10000)" using elapsed_min [OF assms, of "unat timeout * 10000"] by simp
  define k where "k = (LEAST k. ?stop k)"
  have k: "?stop k" "k \<le> unat timeout * 10000" using LeastI [where P = ?stop, OF late] Least_le [where P = ?stop, OF late] by (simp_all add: k_def)
  have before: "answer j = StillRunning \<and> elapsed j < unat timeout * 10 ^ 9" if "j < k" for j
    using not_less_Least [where P = ?stop and k = j] that unfolding k_def by blast
  have "execute_with_timeout (Ok ()) timeout answer elapsed = poll_child timeout answer elapsed k"
    using poll_child_skips [where k = k and i = 0, OF before] by (simp add: execute_with_timeout_def)
  also have "\<dots> = Some (case answer k of
          Ended success out err \<Rightarrow> Ok (success, stream_text out, stream_text err)
        | WaitFailed e \<Rightarrow> Err (''Error waiting on child process: '' @ e)
        | StillRunning \<Rightarrow> Err (''Process timed out after '' @ dec_nat (unat timeout) @ '' seconds''))"
    using k(1) by (subst poll_child.simps) (auto split: child_answer.split)
  finally show ?thesis using k before by (intro exI [of _ k]) auto
qed

text \<open>C19: The cargo sandbox of the judge hides its home: among the options of bubblewrap the network and the environment are cut off,
  the only writable host folder is the target folder, and no folder bound from the host, the tree under test apart, is the home or a
  folder above it when the home is not inside a system folder.\<close>

theorem sandboxed_cargo_hides_home:
  assumes "jh_home H = Some h" and "\<forall>d \<in> set [''/usr'', ''/lib'', ''/lib64'', ''/bin'', ''/etc'']. \<not> path_within h d"
  shows "sandboxed_cargo H tree target args = ''bwrap'' # concat (sandbox_options H tree target) @ ''cargo'' # args
     \<and> [''--unshare-net''] \<in> set (sandbox_options H tree target) \<and> [''--clearenv''] \<in> set (sandbox_options H tree target)
     \<and> (\<forall>opt \<in> set (sandbox_options H tree target). hd opt = ''--bind'' \<longrightarrow> opt = [''--bind'', target, ''/target''])
     \<and> (\<forall>opt \<in> set (sandbox_options H tree target). hd opt = ''--ro-bind'' \<longrightarrow> opt = [''--ro-bind'', tree, ''/src''] \<or> \<not> path_within h (opt ! 1))"
proof -
  have safe: "\<not> path_within h d" if "safe_dir H x = Some d" for x d
    using that assms(1) by (auto simp: safe_dir_def split: option.splits if_splits)
  have tools: "\<not> path_within h d" if "d \<in> set (List.map_filter id [rustup_dir H, cargo_dir H, cargo_bin_dir H])" for d
    using that safe by (auto simp: rustup_dir_def cargo_dir_def cargo_bin_dir_def split: option.splits)
  show ?thesis
    using assms(2) tools unfolding sandboxed_cargo_def
    by (auto simp: sandbox_options_def UNSHARE_def ro_bind_def split: option.splits)
qed

text \<open>The build jail binds the same tools and does not clear the environment: its options never name \<open>--clearenv\<close>.\<close>

lemma build_jail_keeps_environment:
  assumes "''--clearenv'' \<in> set (build_bwrap_args H j command)"
  shows "''--clearenv'' \<in> set command \<union> {bl_host_source_dir j, bl_host_output_dir j, host_home H}"
proof -
  have ends: "x \<noteq> ''--clearenv''" if "last x \<noteq> CHR ''v''" for x using that by auto
  have "last (path_join h ''.cargo'') = CHR ''o''" "last (path_join h ''.rustup'') = CHR ''p''" for h
    by (simp_all add: path_join_def)
  then have dirs: "''--clearenv'' \<notin> set (concat (map ro_bind (host_dirs H)))"
    using ends [of "path_join (host_home H) ''.cargo''"] ends [of "path_join (host_home H) ''.rustup''"]
    by (auto simp: host_dirs_def ro_bind_def)
  have "last (h @ ''/.cargo/bin:/usr/local/cuda/bin:/usr/local/bin:/usr/bin:/bin'') = CHR ''n''" for h by simp
  then have "''--clearenv'' \<in> set (toolchain_path H) \<Longrightarrow> ''--clearenv'' = host_home H"
    using ends [of "host_home H @ ''/.cargo/bin:/usr/local/cuda/bin:/usr/local/bin:/usr/bin:/bin''"]
    by (auto simp: toolchain_path_def)
  with dirs assms show ?thesis unfolding build_bwrap_args_def by (auto simp: UNSHARE_def ro_bind_def)
qed

text \<open>Samples.\<close>

definition tick :: "nat \<Rightarrow> nat" where "tick k = k * 5000000"

lemma tick_sleeps: "sleeps_at_least tick"
proof -
  have "sleep_after tick k \<le> 5000000" for k by (induction k) (simp_all add: next_interval_def)
  then show ?thesis by (simp add: sleeps_at_least_def tick_def)
qed

lemma jailed_command_ends_witness:
  "\<exists>r. execute_with_timeout (Ok ()) 1 (\<lambda>k. StillRunning) tick = Some (Err r)"
  using jailed_command_ends [OF tick_sleeps, where timeout = 1 and answer = "\<lambda>k. StillRunning"] by auto

definition sample_jail_host :: jail_host where
  "sample_jail_host = \<lparr>jh_uid = 1000, jh_gid = 1000, jh_home = Some ''/home/j'', jh_exists = (\<lambda>p. True), jh_is_dir = (\<lambda>p. True),
     jh_is_file = (\<lambda>p. False), jh_rustup_home = Some ''/home'', jh_cargo_home = None, jh_path = None\<rparr>"

lemma sandboxed_cargo_hides_home_witness:
  "[''--ro-bind'', ''/home'', ''/home''] \<notin> set (sandbox_options sample_jail_host ''/t'' ''/b'')"
proof
  assume "[''--ro-bind'', ''/home'', ''/home''] \<in> set (sandbox_options sample_jail_host ''/t'' ''/b'')"
  moreover have "jh_home sample_jail_host = Some ''/home/j''" by (simp add: sample_jail_host_def)
  moreover have "\<forall>d \<in> set [''/usr'', ''/lib'', ''/lib64'', ''/bin'', ''/etc'']. \<not> path_within ''/home/j'' d" by code_simp
  moreover have "path_within ''/home/j'' ''/home''" by code_simp
  ultimately show False using sandboxed_cargo_hides_home [of sample_jail_host "''/home/j''" "''/t''" "''/b''" "[]"] by fastforce
qed

end
