(* ===== verification/Autotune.thy ===== *)
theory Autotune
  imports Engine Statistics Explain
begin

text \<open>
  The kernel tuner (\<open>src/src/propose/kernel_autotune.rs\<close>): the configurations of the attention kernel, their injection into the CUDA
  source, and the experiment that compiles, times and judges a candidate configuration against a baseline.

  The GPU is what the code sees of it: whether the shared library loads, and the return code and duration of every launch.  The jail's
  answers, the built-in kernel source, the printer of the receipt's JSON and the Cortex receipt are arguments.  Samples are finite
  \<open>f64\<close> values, as in the statistics of the evaluator.
\<close>

section \<open>Configurations\<close>

record attention_config =
  ac_page_size :: nat
  ac_query_heads_per_block :: nat
  ac_threads_per_block :: nat
  ac_warps_per_block :: nat
  ac_vector_width :: nat
  ac_prefetch_distance :: nat

definition default_attention_config :: attention_config where
  "default_attention_config = \<lparr>ac_page_size = 16, ac_query_heads_per_block = 4, ac_threads_per_block = 128, ac_warps_per_block = 4,
     ac_vector_width = 2, ac_prefetch_distance = 1\<rparr>"

datatype attention_error = BadPageSize nat | BadQueryHeads nat | BadVectorWidth nat | BadPrefetch nat | PoolMismatch nat nat | GeometryMismatch nat nat

definition new_attention_config :: "nat \<Rightarrow> nat \<Rightarrow> nat \<Rightarrow> nat \<Rightarrow> attention_error + attention_config" where
  "new_attention_config page heads vec prefetch =
     (if page \<noteq> 16 \<and> page \<noteq> 32 then Err (BadPageSize page)
      else if heads \<noteq> 1 \<and> heads \<noteq> 2 \<and> heads \<noteq> 4 \<and> heads \<noteq> 7 then Err (BadQueryHeads heads)
      else if vec \<noteq> 1 \<and> vec \<noteq> 2 then Err (BadVectorWidth vec)
      else if 2 < prefetch then Err (BadPrefetch prefetch)
      else Ok \<lparr>ac_page_size = page, ac_query_heads_per_block = heads, ac_threads_per_block = heads * 32, ac_warps_per_block = heads,
        ac_vector_width = vec, ac_prefetch_distance = prefetch\<rparr>)"

definition is_valid_config :: "attention_config \<Rightarrow> bool" where
  "is_valid_config c \<longleftrightarrow>
     (ac_page_size c = 16 \<or> ac_page_size c = 32)
     \<and> (ac_query_heads_per_block c = 1 \<or> ac_query_heads_per_block c = 2 \<or> ac_query_heads_per_block c = 4 \<or> ac_query_heads_per_block c = 7)
     \<and> ac_warps_per_block c = ac_query_heads_per_block c \<and> ac_threads_per_block c = ac_query_heads_per_block c * 32
     \<and> (ac_vector_width c = 1 \<or> ac_vector_width c = 2) \<and> ac_prefetch_distance c \<le> 2"

definition macro_lines :: "attention_config \<Rightarrow> string list" where
  "macro_lines c =
     [''#define PAGE_SIZE '' @ dec_nat (ac_page_size c), ''#define BLOCK_THREADS '' @ dec_nat (ac_threads_per_block c),
      ''#define Q_HEADS_PER_BLOCK '' @ dec_nat (ac_query_heads_per_block c), ''#define VECTOR_WIDTH '' @ dec_nat (ac_vector_width c),
      ''#define PREFETCH_DISTANCE '' @ dec_nat (ac_prefetch_distance c)]"

definition render_macro_defines :: "attention_config \<Rightarrow> string" where
  "render_macro_defines c = concat (map (\<lambda>l. l @ [newline]) (macro_lines c))"

definition SEARCH_SPACE_MARK :: string where "SEARCH_SPACE_MARK = ''Parameterized autotuning search space''"
definition WARP_DEFINE :: string where "WARP_DEFINE = ''#define WARP_SIZE''"

text \<open>The lines kept of the source: from the marked line on, everything up to the definition of the warp size is dropped.\<close>

fun kept_lines :: "bool \<Rightarrow> string list \<Rightarrow> string list" where
  "kept_lines dropping [] = []"
| "kept_lines dropping (l # ls) =
     (if contains SEARCH_SPACE_MARK l then kept_lines True ls
      else if dropping \<and> \<not> starts_with WARP_DEFINE l then kept_lines True ls
      else l # kept_lines False ls)"

definition KERNEL_HEADER :: string where "KERNEL_HEADER = ''// Autotuned Blackwell sm_121 Configuration by spark-rsi'' @ [newline]"

definition apply_to_kernel_source :: "attention_config \<Rightarrow> string \<Rightarrow> string" where
  "apply_to_kernel_source c source =
     KERNEL_HEADER @ render_macro_defines c @ [newline] @ concat (map (\<lambda>l. l @ [newline]) (kept_lines False (str_lines source)))"

record coupled_config =
  ck_kernel_config :: attention_config
  ck_kv_pool_block_size :: nat
  ck_block_table_page_geometry :: nat

definition verify_coupled :: "coupled_config \<Rightarrow> attention_error + unit" where
  "verify_coupled k =
     (if ac_page_size (ck_kernel_config k) \<noteq> ck_kv_pool_block_size k
        then Err (PoolMismatch (ac_page_size (ck_kernel_config k)) (ck_kv_pool_block_size k))
      else if ck_kv_pool_block_size k \<noteq> ck_block_table_page_geometry k
        then Err (GeometryMismatch (ck_kv_pool_block_size k) (ck_block_table_page_geometry k))
      else Ok ())"

definition new_coupled :: "attention_config \<Rightarrow> attention_error + coupled_config" where
  "new_coupled c =
     (let k = \<lparr>ck_kernel_config = c, ck_kv_pool_block_size = ac_page_size c, ck_block_table_page_geometry = ac_page_size c\<rparr> in
      and_then (verify_coupled k) (\<lambda>_. Ok k))"

definition enumerate_search_space :: "attention_config list" where
  "enumerate_search_space =
     concat (map (\<lambda>p. concat (map (\<lambda>h. concat (map (\<lambda>v. concat (map (\<lambda>pf.
       (case new_attention_config p h v pf of Inr c \<Rightarrow> [c] | Inl _ \<Rightarrow> [])) [0, 1, 2])) [1, 2])) [1, 2, 4])) [16, 32])"

section \<open>Contract and proposal\<close>

definition clamp :: "rat \<Rightarrow> rat \<Rightarrow> rat \<Rightarrow> rat" where "clamp lo hi x = min (max x lo) hi"

definition create_contract :: "string \<Rightarrow> string \<Rightarrow> attention_config \<Rightarrow> rat \<Rightarrow> rat option \<Rightarrow> hypothesis_contract" where
  "create_contract uuid timestamp c baseline_p95_us confidence =
     \<lparr>hc_id = ''hyp-kernel-'' @ uuid, hc_cycle_id = ''cycle-kernel-'' @ timestamp,
      hc_observed_problem = ''Attention decode latency under multi-agent branch pressure'',
      hc_suspected_root_cause = ''Non-optimal GB10 warp geometry and prefetch distance (page_size='' @ dec_nat (ac_page_size c) @ '', heads=''
        @ dec_nat (ac_query_heads_per_block c) @ '', warps='' @ dec_nat (ac_warps_per_block c) @ '', vec='' @ dec_nat (ac_vector_width c) @ '')'',
      hc_target_metric = ''p95_decode_step_latency_us'', hc_baseline_value = Finite baseline_p95_us, hc_predicted_delta_pct = Finite (- 5),
      hc_protected_metrics = [protects ''p99_latency'' 1, protects ''energy_joules_per_token'' 2, protects ''physical_kv_bytes_per_token'' 0],
      hc_falsification_test = ''paired_workload_bootstrap_permutation_test_p001'',
      hc_confidence_score = Finite (clamp (f64_const (1 / 100)) (f64_const (999 / 1000)) (case confidence of Some x \<Rightarrow> x | None \<Rightarrow> 1 / 2))\<rparr>"

definition create_kernel_proposal :: "string \<Rightarrow> string \<Rightarrow> attention_config \<Rightarrow> string \<Rightarrow> string \<Rightarrow> attention_error + improvement_proposal" where
  "create_kernel_proposal uuid now c target_file source =
     and_then (new_coupled c) (\<lambda>k. and_then (verify_coupled k) (\<lambda>_.
       Ok \<lparr>ip_id = ''prop-attn-'' @ uuid,
         ip_title = ''autotune sm_121 paged_attention (p='' @ dec_nat (ac_page_size c) @ '', h='' @ dec_nat (ac_query_heads_per_block c)
           @ '', w='' @ dec_nat (ac_warps_per_block c) @ '', v='' @ dec_nat (ac_vector_width c) @ '', pf='' @ dec_nat (ac_prefetch_distance c) @ '')'',
         ip_description = ''Autonomous Blackwell GB10 PagedAttention kernel parameter exploration (coupled KV pool block_size=''
           @ dec_nat (ck_kv_pool_block_size k) @ '')'',
         ip_target_file = target_file, ip_proposed_patch = apply_to_kernel_source c source, ip_kind = Optimization, ip_created_at = now,
         ip_sandbox_path = None, ip_operator_signature = None\<rparr>))"

section \<open>Measurement\<close>

record kernel_metrics =
  km_latency_samples_us :: "rat list"
  km_p50_latency_us :: rat
  km_p95_latency_us :: rat
  km_p99_latency_us :: rat
  km_energy_joules_per_token :: rat
  km_physical_kv_bytes_per_token :: rat

definition at_fraction :: "rat list \<Rightarrow> rat \<Rightarrow> rat" where
  "at_fraction ordered q =
     (let n = length ordered in ordered ! min (nat \<lfloor>f64_times (f64_round (of_nat n)) (f64_const q)\<rfloor>) (n - 1))"

definition compute_percentiles :: "rat list \<Rightarrow> rat \<times> rat \<times> rat" where
  "compute_percentiles samples =
     (if samples = [] then (0, 0, 0)
      else let ordered = sort samples in (at_fraction ordered (1 / 2), at_fraction ordered (95 / 100), at_fraction ordered (99 / 100)))"

definition metrics_from_samples :: "rat list \<Rightarrow> rat \<Rightarrow> rat \<Rightarrow> kernel_metrics" where
  "metrics_from_samples samples energy kv =
     (let (p50, p95, p99) = compute_percentiles samples in
      \<lparr>km_latency_samples_us = samples, km_p50_latency_us = p50, km_p95_latency_us = p95, km_p99_latency_us = p99,
       km_energy_joules_per_token = energy, km_physical_kv_bytes_per_token = kv\<rparr>)"

text \<open>A loaded library answers each launch with a return code and a duration in nanoseconds.\<close>

type_synonym gpu = "string + (nat \<Rightarrow> int \<times> nat)"

definition WARM_UPS :: nat where "WARM_UPS = 5"

definition failed_launch :: "(nat \<Rightarrow> int \<times> nat) \<Rightarrow> nat list \<Rightarrow> int option" where
  "failed_launch launch is = map_option (\<lambda>i. fst (launch i)) (List.find (\<lambda>i. fst (launch i) \<noteq> 0) is)"

definition launch_us :: "(nat \<Rightarrow> int \<times> nat) \<Rightarrow> nat \<Rightarrow> rat" where
  "launch_us launch i = f64_over (f64_round (of_nat (snd (launch i)))) 1000"

definition measure_workload :: "gpu \<Rightarrow> nat \<Rightarrow> string + kernel_metrics" where
  "measure_workload gpu iterations =
     and_then gpu (\<lambda>launch.
     (case failed_launch launch [0..<WARM_UPS] of
        Some rc \<Rightarrow> Err (''Hardware kernel warm-up launch failed with error code '' @ dec_int rc)
      | None \<Rightarrow>
     (case failed_launch launch [WARM_UPS..<WARM_UPS + iterations] of
        Some rc \<Rightarrow> Err (''Hardware kernel execution failed with error code '' @ dec_int rc)
      | None \<Rightarrow>
          (let samples = map (launch_us launch) [WARM_UPS..<WARM_UPS + iterations]; mean = f64_mean samples (length samples);
               energy = f64_over (f64_times (f64_times mean (f64_const (1 / 1000000))) 25) 4 in
           Ok (metrics_from_samples samples energy (2 * 28 * 4 * 128 * 2))))))"

section \<open>The experiment\<close>

record kernel_receipt =
  kr_experiment_id :: string
  kr_baseline_config :: attention_config
  kr_candidate_config :: attention_config
  kr_coupled_kv_config :: coupled_config
  kr_compilation_passed :: bool
  kr_compilation_error :: "string option"
  kr_baseline_metrics :: kernel_metrics
  kr_candidate_metrics :: kernel_metrics
  kr_p95_delta_pct :: rat
  kr_p99_degradation_pct :: rat
  kr_energy_delta_pct :: rat
  kr_kv_bytes_delta_pct :: rat
  kr_bootstrap_p_value :: rat
  kr_significant :: bool
  kr_confidence_score :: rat
  kr_protected_invariants_passed :: bool
  kr_admitted :: bool
  kr_ledger_block_hash :: "string option"
  kr_cortex_receipt_id :: "string option"

record kernel_experiment =
  kx_experiment_id :: string
  kx_baseline_config :: attention_config
  kx_candidate_config :: attention_config
  kx_coupled_kv :: coupled_config
  kx_iterations :: nat

definition new_experiment :: "string \<Rightarrow> attention_config \<Rightarrow> attention_config \<Rightarrow> attention_error + kernel_experiment" where
  "new_experiment uuid baseline candidate =
     and_then (new_coupled candidate) (\<lambda>k. and_then (verify_coupled k) (\<lambda>_.
       Ok \<lparr>kx_experiment_id = ''exp-kernel-'' @ uuid, kx_baseline_config = baseline, kx_candidate_config = candidate, kx_coupled_kv = k,
         kx_iterations = 30\<rparr>))"

text \<open>What the host answers: the lock, the CUDA source (\<open>None\<close> if there is none), the working directory and its files, the two
  compilations and the two libraries.\<close>

record kernel_host =
  kh_lock :: "string + unit"
  kh_source :: "(string + string) option"
  kh_workspace :: "string + unit"
  kh_baseline_file :: "string + unit"
  kh_candidate_file :: "string + unit"
  kh_compile :: "string \<Rightarrow> string + bool \<times> string \<times> string"
  kh_baseline_gpu :: gpu
  kh_candidate_gpu :: gpu
  kh_cortex_receipt :: "string option"

definition compiled :: "string \<Rightarrow> string + bool \<times> string \<times> string \<Rightarrow> bool \<times> string \<times> string" where
  "compiled which outcome =
     (case outcome of Inr r \<Rightarrow> r | Inl e \<Rightarrow> (False, [], ''Containment spawn error for '' @ which @ '': '' @ e))"

text \<open>The receipt of a candidate that was not compiled or not measured.\<close>

definition failed_receipt :: "kernel_experiment \<Rightarrow> kernel_metrics \<Rightarrow> string option \<Rightarrow> kernel_receipt" where
  "failed_receipt x baseline err =
     \<lparr>kr_experiment_id = kx_experiment_id x, kr_baseline_config = kx_baseline_config x, kr_candidate_config = kx_candidate_config x,
      kr_coupled_kv_config = kx_coupled_kv x, kr_compilation_passed = (err = None), kr_compilation_error = err,
      kr_baseline_metrics = baseline, kr_candidate_metrics = metrics_from_samples [] 0 0, kr_p95_delta_pct = 0,
      kr_p99_degradation_pct = 0, kr_energy_delta_pct = 0, kr_kv_bytes_delta_pct = 0, kr_bootstrap_p_value = 1,
      kr_significant = False, kr_confidence_score = f64_const (1 / 100), kr_protected_invariants_passed = False,
      kr_admitted = False, kr_ledger_block_hash = None, kr_cortex_receipt_id = None\<rparr>"

definition kernel_delta_pct :: "rat \<Rightarrow> rat \<Rightarrow> rat" where
  "kernel_delta_pct baseline candidate = (if baseline > 0 then f64_times (f64_over (f64_minus candidate baseline) baseline) 100 else 0)"

definition confidence_of :: "bootstrap_estimate \<Rightarrow> rat \<Rightarrow> rat" where
  "confidence_of b p95 =
     (if be_significant b \<and> p95 < 0 then clamp (1 / 2) (f64_const (999 / 1000)) (f64_minus 1 (be_p_value b))
      else if be_significant b \<and> p95 > 0 then f64_const (1 / 100)
      else clamp (f64_const (1 / 10)) (1 / 2) (f64_minus 1 (be_p_value b)))"

text \<open>The verdict from the two measurements, before it is recorded.\<close>

definition kernel_verdict :: "kernel_experiment \<Rightarrow> kernel_metrics \<Rightarrow> kernel_metrics \<Rightarrow> bootstrap_estimate \<Rightarrow> kernel_receipt" where
  "kernel_verdict x base cand b =
     (let p95 = kernel_delta_pct (km_p95_latency_us base) (km_p95_latency_us cand);
          p99 = kernel_delta_pct (km_p99_latency_us base) (km_p99_latency_us cand);
          energy = kernel_delta_pct (km_energy_joules_per_token base) (km_energy_joules_per_token cand);
          kv = kernel_delta_pct (km_physical_kv_bytes_per_token base) (km_physical_kv_bytes_per_token cand);
          protected = (p99 \<le> 1 \<and> energy \<le> 2 \<and> kv \<le> 0) in
      \<lparr>kr_experiment_id = kx_experiment_id x, kr_baseline_config = kx_baseline_config x, kr_candidate_config = kx_candidate_config x,
       kr_coupled_kv_config = kx_coupled_kv x, kr_compilation_passed = True, kr_compilation_error = None,
       kr_baseline_metrics = base, kr_candidate_metrics = cand, kr_p95_delta_pct = p95, kr_p99_degradation_pct = p99,
       kr_energy_delta_pct = energy, kr_kv_bytes_delta_pct = kv, kr_bootstrap_p_value = be_p_value b, kr_significant = be_significant b,
       kr_confidence_score = confidence_of b p95, kr_protected_invariants_passed = protected,
       kr_admitted = (protected \<and> p95 \<le> - 5 \<and> be_significant b), kr_ledger_block_hash = None, kr_cortex_receipt_id = None\<rparr>)"

text \<open>The block of the verdict; an append that fails leaves the receipt without a block hash.\<close>

definition record_verdict ::
    "engine \<Rightarrow> (nat \<Rightarrow> rat \<Rightarrow> string) \<Rightarrow> (kernel_receipt \<Rightarrow> string) \<Rightarrow> kernel_host \<Rightarrow> kernel_receipt \<Rightarrow> 'r world \<Rightarrow> kernel_receipt \<times> 'r world" where
  "record_verdict E fixed json H r w =
     (let summary = ''KernelAutotuneExperiment: p95_delta='' @ fixed 2 (kr_p95_delta_pct r) @ ''%, p_val='' @ fixed 4 (kr_bootstrap_p_value r)
            @ '', conf='' @ fixed 3 (kr_confidence_score r) @ '', admitted='' @ bool_text (kr_admitted r) in
      case append_block (en_X E) (en_strings E) (en_now E (wd_db w)) EvaluationB summary
             [hex_encode (en_X E) (sha256 (en_X E) (json r))] (wd_db w) of
        Inl _ \<Rightarrow> (r\<lparr>kr_cortex_receipt_id := kh_cortex_receipt H\<rparr>, w)
      | Inr (blk, db) \<Rightarrow>
          (r\<lparr>kr_ledger_block_hash := Some (lb_block_hash blk), kr_cortex_receipt_id := kh_cortex_receipt H\<rparr>, w\<lparr>wd_db := db\<rparr>))"

definition evaluate_candidate_kernel ::
    "engine \<Rightarrow> (nat \<Rightarrow> rat \<Rightarrow> string) \<Rightarrow> (kernel_receipt \<Rightarrow> string) \<Rightarrow> kernel_experiment \<Rightarrow> kernel_host \<Rightarrow> kernel_metrics \<Rightarrow> 'r world
      \<Rightarrow> (string + kernel_receipt) \<times> 'r world" where
  "evaluate_candidate_kernel E fixed json x H base w =
     (case measure_workload (kh_candidate_gpu H) (kx_iterations x) of
        Inl e \<Rightarrow> (Ok (failed_receipt x base None), noted E (''KernelAutotuneExperiment Rejected (Hardware Execution Failure): '' @ e) w)
      | Inr cand \<Rightarrow>
          (case bootstrap_paired_comparison (km_latency_samples_us base) (km_latency_samples_us cand) 10000 (Some 42) of
             Inl e \<Rightarrow> (Err ''Statistical bootstrap failed'', w)
           | Inr b \<Rightarrow> (let (r, w) = record_verdict E fixed json H (kernel_verdict x base cand b) w in (Ok r, w))))"

definition compile_candidate_kernel ::
    "engine \<Rightarrow> (nat \<Rightarrow> rat \<Rightarrow> string) \<Rightarrow> (kernel_receipt \<Rightarrow> string) \<Rightarrow> kernel_experiment \<Rightarrow> kernel_host \<Rightarrow> string \<Rightarrow> kernel_metrics \<Rightarrow> 'r world
      \<Rightarrow> (string + kernel_receipt) \<times> 'r world" where
  "compile_candidate_kernel E fixed json x H source base w =
     (case kh_candidate_file H of
        Inl e \<Rightarrow> (Err e, w)
      | Inr _ \<Rightarrow>
          (let (ok, out, err) = compiled ''candidate'' (kh_compile H (apply_to_kernel_source (kx_candidate_config x) source)) in
           if ok then evaluate_candidate_kernel E fixed json x H base w
           else (let msg = (if err \<noteq> [] then err else out) in
             (Ok (failed_receipt x base (Some msg)), noted E (''KernelAutotuneExperiment Rejected (Compilation Failure): '' @ msg) w))))"

definition run_experiment ::
    "engine \<Rightarrow> (nat \<Rightarrow> rat \<Rightarrow> string) \<Rightarrow> (kernel_receipt \<Rightarrow> string) \<Rightarrow> (attention_error \<Rightarrow> string) \<Rightarrow> string \<Rightarrow> kernel_experiment \<Rightarrow> kernel_host
      \<Rightarrow> 'r world \<Rightarrow> (string + kernel_receipt) \<times> 'r world" where
  "run_experiment E fixed json show_error builtin x H w =
     (let start =
        and_then (map_err (\<lambda>e. ''Failed to acquire GPU autotune lock: '' @ e) (kh_lock H)) (\<lambda>_.
        and_then (map_err show_error (verify_coupled (kx_coupled_kv x))) (\<lambda>_.
        and_then (case kh_source H of
            Some r \<Rightarrow> map_err (\<lambda>e. ''Failed to read CUDA source: '' @ e) r
          | None \<Rightarrow> Ok builtin) (\<lambda>source.
        and_then (kh_workspace H) (\<lambda>_.
        and_then (kh_baseline_file H) (\<lambda>_.
        (let (ok, _, err) = compiled ''baseline'' (kh_compile H (apply_to_kernel_source (kx_baseline_config x) source)) in
         if \<not> ok then Err (''Baseline kernel failed to compile with nvcc: '' @ err)
         else and_then (measure_workload (kh_baseline_gpu H) (kx_iterations x)) (\<lambda>base. Ok (source, base)))))))) in
      case start of
        Inl e \<Rightarrow> (Err e, w)
      | Inr (source, base) \<Rightarrow> compile_candidate_kernel E fixed json x H source base w)"

end
