(* ===== verification/Autotune_Safety.thy ===== *)
theory Autotune_Safety
  imports Autotune Measure_Safety Engine_Examples
begin

text \<open>
  What an admitted kernel experiment stands for, and the space of configurations the tuner searches.
\<close>

section \<open>The search space\<close>

lemma new_attention_config_Ok:
  "new_attention_config p h v pf = Ok c \<longleftrightarrow>
     is_valid_config c \<and> ac_page_size c = p \<and> ac_query_heads_per_block c = h \<and> ac_vector_width c = v \<and> ac_prefetch_distance c = pf"
proof -
  have "new_attention_config p h v pf = Ok c \<longleftrightarrow> (p = 16 \<or> p = 32) \<and> (h = 1 \<or> h = 2 \<or> h = 4 \<or> h = 7) \<and> (v = 1 \<or> v = 2) \<and> pf \<le> 2
      \<and> c = \<lparr>ac_page_size = p, ac_query_heads_per_block = h, ac_threads_per_block = h * 32, ac_warps_per_block = h,
        ac_vector_width = v, ac_prefetch_distance = pf\<rparr>"
    unfolding new_attention_config_def by (simp split: if_split) blast
  also have "\<dots> \<longleftrightarrow> is_valid_config c \<and> ac_page_size c = p \<and> ac_query_heads_per_block c = h \<and> ac_vector_width c = v \<and> ac_prefetch_distance c = pf"
    by (cases c, simp only: is_valid_config_def attention_config.simps attention_config.ext_inject) blast
  finally show ?thesis .
qed

definition configs_over :: "nat list \<Rightarrow> attention_config list" where
  "configs_over hs =
     concat (map (\<lambda>p. concat (map (\<lambda>h. concat (map (\<lambda>v. concat (map (\<lambda>pf.
       (case new_attention_config p h v pf of Inr c \<Rightarrow> [c] | Inl _ \<Rightarrow> [])) [0, 1, 2])) [1, 2])) hs)) [16, 32])"

lemma search_space_over: "enumerate_search_space = configs_over [1, 2, 4]"
  by (simp only: enumerate_search_space_def configs_over_def)

lemma set_configs_over: "set (configs_over hs) = {c. is_valid_config c \<and> ac_query_heads_per_block c \<in> set hs}"
proof -
  have one: "c \<in> set (case new_attention_config p h v pf of Inr c \<Rightarrow> [c] | Inl _ \<Rightarrow> []) \<longleftrightarrow> new_attention_config p h v pf = Ok c" for p h v pf c
    by (auto split: sum.split)
  have "c \<in> set (configs_over hs) \<longleftrightarrow>
      (\<exists>p \<in> set [16, 32]. \<exists>h \<in> set hs. \<exists>v \<in> set [1, 2]. \<exists>pf \<in> set [0, 1, 2]. new_attention_config p h v pf = Ok c)" for c
    unfolding configs_over_def set_concat set_map UN_iff Union_iff bex_simps image_iff by (simp only: one bex_simps set_concat set_map UN_iff)
  moreover have "(\<exists>p \<in> set [16, 32]. \<exists>h \<in> set hs. \<exists>v \<in> set [1, 2]. \<exists>pf \<in> set [0, 1, 2]. new_attention_config p h v pf = Ok c)
      \<longleftrightarrow> is_valid_config c \<and> ac_query_heads_per_block c \<in> set hs" for c
    unfolding new_attention_config_Ok by (auto simp: is_valid_config_def)
  ultimately show ?thesis by blast
qed

lemma new_coupled_Ok:
  "new_coupled c = Ok \<lparr>ck_kernel_config = c, ck_kv_pool_block_size = ac_page_size c, ck_block_table_page_geometry = ac_page_size c\<rparr>"
  by (simp add: new_coupled_def verify_coupled_def Let_def)

text \<open>The search space of the tuner is exactly the valid configurations with one, two or four query heads in a block, each of them
  once: 36 of the 48 valid ones.  Each couples with a KV pool of its page size, and the coupling check accepts no other pool.\<close>

theorem search_space_exact:
  "distinct enumerate_search_space \<and> length enumerate_search_space = 36
   \<and> set enumerate_search_space = {c. is_valid_config c \<and> ac_query_heads_per_block c \<noteq> 7}
   \<and> card {c. is_valid_config c} = 48
   \<and> (verify_coupled k = Ok () \<longleftrightarrow> new_coupled (ck_kernel_config k) = Ok k)"
proof -
  have valid: "{c. is_valid_config c} = set (configs_over [1, 2, 4, 7])" unfolding set_configs_over by (auto simp: is_valid_config_def)
  have "distinct (configs_over [1, 2, 4, 7])" "length (configs_over [1, 2, 4, 7]) = 48" by code_simp+
  then have "card {c. is_valid_config c} = 48" unfolding valid by (simp only: distinct_card)
  moreover have "set enumerate_search_space = {c. is_valid_config c \<and> ac_query_heads_per_block c \<noteq> 7}"
    unfolding search_space_over set_configs_over by (auto simp: is_valid_config_def)
  moreover have "distinct enumerate_search_space" "length enumerate_search_space = 36" by code_simp+
  moreover have "verify_coupled k = Ok () \<longleftrightarrow> new_coupled (ck_kernel_config k) = Ok k"
    unfolding new_coupled_Ok by (cases k) (auto simp: verify_coupled_def)
  ultimately show ?thesis by blast
qed

section \<open>The source\<close>

text \<open>A tuned source has lost the marked line, so tuning it again keeps the macros of the first configuration after the new ones.\<close>

lemma kept_unmarked: "\<forall>l \<in> set ls. \<not> contains SEARCH_SPACE_MARK l \<Longrightarrow> kept_lines False ls = ls"
  by (induction ls) simp_all

lemma kept_lines_unmarked: "l \<in> set (kept_lines d ls) \<Longrightarrow> \<not> contains SEARCH_SPACE_MARK l"
  by (induction d ls rule: kept_lines.induct) (auto split: if_splits)

section \<open>The measurement\<close>

lemma measured_Ok:
  assumes "measure_workload gpu n = Ok m"
  shows "\<exists>launch. gpu = Ok launch \<and> (\<forall>i < WARM_UPS + n. fst (launch i) = 0)
     \<and> km_latency_samples_us m = map (launch_us launch) [WARM_UPS..<WARM_UPS + n]
     \<and> km_physical_kv_bytes_per_token m = 2 * 28 * 4 * 128 * 2"
proof -
  from assms obtain launch where l: "gpu = Ok launch" "failed_launch launch [0..<WARM_UPS] = None"
      "failed_launch launch [WARM_UPS..<WARM_UPS + n] = None"
    by (auto simp: measure_workload_def and_then_Ok split: option.splits)
  have "fst (launch i) = 0" if "i < WARM_UPS + n" for i
    using l(2,3) that by (cases "i < WARM_UPS") (auto simp: failed_launch_def find_None_iff)
  with assms l show ?thesis
    by (auto simp: measure_workload_def metrics_from_samples_def Let_def case_prod_unfold)
qed

section \<open>The verdict\<close>

lemma kernel_delta_pct_negative: "kernel_delta_pct b c < 0 \<Longrightarrow> 0 < b \<and> c < b"
proof -
  assume neg: "kernel_delta_pct b c < 0"
  then have b: "0 < b" by (auto simp: kernel_delta_pct_def split: if_splits)
  have "0 \<le> kernel_delta_pct b c" if "b \<le> c"
  proof -
    have "0 \<le> f64_minus c b" using that by (simp add: f64_minus_def f64_signed_sign)
    with b have "0 \<le> f64_over (f64_minus c b) b" by (simp add: f64_over_def f64_signed_sign)
    with b show ?thesis by (simp add: kernel_delta_pct_def f64_times_def f64_signed_sign)
  qed
  with neg b show ?thesis by linarith
qed

lemma kernel_delta_pct_same [simp]: "kernel_delta_pct b b = 0"
  by (simp add: kernel_delta_pct_def f64_minus_def f64_over_def f64_times_def)

lemma record_verdict_keeps:
  assumes "record_verdict E fixed json H r w = (r', w')"
  shows "kr_admitted r' = kr_admitted r \<and> kr_kv_bytes_delta_pct r' = kr_kv_bytes_delta_pct r"
  using assms by (auto simp: record_verdict_def Let_def split: sum.splits prod.splits)

lemma experiment_started:
  assumes "run_experiment E fixed json show_error builtin x H w = (Ok r, w')"
  obtains source base where "verify_coupled (kx_coupled_kv x) = Ok ()"
    "fst (compiled ''baseline'' (kh_compile H (apply_to_kernel_source (kx_baseline_config x) source)))"
    "measure_workload (kh_baseline_gpu H) (kx_iterations x) = Ok base"
    "compile_candidate_kernel E fixed json x H source base w = (Ok r, w')"
  using assms
  by (auto simp: run_experiment_def Let_def and_then_Ok map_err_Ok case_prod_unfold split: sum.splits if_splits)

lemma experiment_evaluated:
  assumes "compile_candidate_kernel E fixed json x H source base w = (Ok r, w')" and "kr_admitted r"
  obtains cand b where "fst (compiled ''candidate'' (kh_compile H (apply_to_kernel_source (kx_candidate_config x) source)))"
    "measure_workload (kh_candidate_gpu H) (kx_iterations x) = Ok cand"
    "bootstrap_paired_comparison (km_latency_samples_us base) (km_latency_samples_us cand) 10000 (Some 42) = Ok b"
    "record_verdict E fixed json H (kernel_verdict x base cand b) w = (r, w')"
  using assms
  by (auto simp: compile_candidate_kernel_def evaluate_candidate_kernel_def failed_receipt_def Let_def case_prod_unfold
      split: sum.splits if_splits)

text \<open>C17: An admitted kernel experiment is backed by its measurements.  Both sources compiled and every launch of both libraries returned
  zero; the candidate's p95 is below the baseline's, by the binary64 computation at least five percent; fewer than one resample in
  two hundred contradicts the difference; p99 and energy are within their margins; and the kernel, the KV pool and the block table
  have one page size.\<close>

theorem admitted_kernel_is_backed:
  assumes "run_experiment E fixed json show_error builtin x H w = (Ok r, w')" and "kr_admitted r"
  shows "\<exists>source base cand blaunch claunch.
       fst (compiled ''baseline'' (kh_compile H (apply_to_kernel_source (kx_baseline_config x) source)))
     \<and> fst (compiled ''candidate'' (kh_compile H (apply_to_kernel_source (kx_candidate_config x) source)))
     \<and> kh_baseline_gpu H = Ok blaunch \<and> kh_candidate_gpu H = Ok claunch
     \<and> (\<forall>i < WARM_UPS + kx_iterations x. fst (blaunch i) = 0 \<and> fst (claunch i) = 0)
     \<and> measure_workload (kh_baseline_gpu H) (kx_iterations x) = Ok base \<and> measure_workload (kh_candidate_gpu H) (kx_iterations x) = Ok cand
     \<and> km_p95_latency_us cand < km_p95_latency_us base
     \<and> kernel_delta_pct (km_p95_latency_us base) (km_p95_latency_us cand) \<le> - 5
     \<and> kernel_delta_pct (km_p99_latency_us base) (km_p99_latency_us cand) \<le> 1
     \<and> kernel_delta_pct (km_energy_joules_per_token base) (km_energy_joules_per_token cand) \<le> 2
     \<and> (let means = bootstrap_means (km_latency_samples_us base) (km_latency_samples_us cand) 10000 (Some 42) in
          200 * min (length (filter (\<lambda>v. v \<le> 0) means)) (length (filter (\<lambda>v. v \<ge> 0) means)) < length means)
     \<and> ac_page_size (ck_kernel_config (kx_coupled_kv x)) = ck_kv_pool_block_size (kx_coupled_kv x)
     \<and> ck_kv_pool_block_size (kx_coupled_kv x) = ck_block_table_page_geometry (kx_coupled_kv x)"
proof -
  from experiment_started [OF assms(1)] obtain source base where start: "verify_coupled (kx_coupled_kv x) = Ok ()"
    "fst (compiled ''baseline'' (kh_compile H (apply_to_kernel_source (kx_baseline_config x) source)))"
    "measure_workload (kh_baseline_gpu H) (kx_iterations x) = Ok base"
    "compile_candidate_kernel E fixed json x H source base w = (Ok r, w')" .
  from experiment_evaluated [OF start(4) assms(2)] obtain cand b where
    ev: "fst (compiled ''candidate'' (kh_compile H (apply_to_kernel_source (kx_candidate_config x) source)))"
    "measure_workload (kh_candidate_gpu H) (kx_iterations x) = Ok cand"
    "bootstrap_paired_comparison (km_latency_samples_us base) (km_latency_samples_us cand) 10000 (Some 42) = Ok b"
    "record_verdict E fixed json H (kernel_verdict x base cand b) w = (r, w')" .
  have "kr_admitted (kernel_verdict x base cand b)" using record_verdict_keeps [OF ev(4)] assms(2) by simp
  then have v: "kernel_delta_pct (km_p95_latency_us base) (km_p95_latency_us cand) \<le> - 5"
      "kernel_delta_pct (km_p99_latency_us base) (km_p99_latency_us cand) \<le> 1"
      "kernel_delta_pct (km_energy_joules_per_token base) (km_energy_joules_per_token cand) \<le> 2" "be_significant b"
    by (simp_all add: kernel_verdict_def Let_def)
  have p95: "km_p95_latency_us cand < km_p95_latency_us base" using kernel_delta_pct_negative v(1) by fastforce
  let ?means = "bootstrap_means (km_latency_samples_us base) (km_latency_samples_us cand) 10000 (Some 42)"
  have len: "length ?means = 10000" by (simp add: length_bootstrap_means resample_count_def)
  have "two_sided_p ?means < f64_const (1 / 100)" using v(4) ev(3) by (simp add: bootstrap_Ok estimate_significant)
  then have few: "200 * min (length (filter (\<lambda>v. v \<le> 0) ?means)) (length (filter (\<lambda>v. v \<ge> 0) ?means)) < length ?means"
    by (intro p_value_counts) (use len in auto)
  from measured_Ok [OF start(3)] measured_Ok [OF ev(2)] obtain bl cl where
    launches: "kh_baseline_gpu H = Ok bl" "kh_candidate_gpu H = Ok cl" "\<forall>i < WARM_UPS + kx_iterations x. fst (bl i) = 0 \<and> fst (cl i) = 0" by blast
  have pages: "ac_page_size (ck_kernel_config (kx_coupled_kv x)) = ck_kv_pool_block_size (kx_coupled_kv x)"
      "ck_kv_pool_block_size (kx_coupled_kv x) = ck_block_table_page_geometry (kx_coupled_kv x)"
    using start(1) by (auto simp: verify_coupled_def split: if_splits)
  show ?thesis unfolding Let_def using start ev launches p95 v few pages by blast
qed

text \<open>The KV footprint is computed from constants, so its protection refuses nothing.\<close>

lemma kv_protection_is_vacuous:
  assumes "run_experiment E fixed json show_error builtin x H w = (Ok r, w')"
  shows "kr_kv_bytes_delta_pct r = 0"
proof -
  from experiment_started [OF assms] obtain source base where start:
    "measure_workload (kh_baseline_gpu H) (kx_iterations x) = Ok base"
    "compile_candidate_kernel E fixed json x H source base w = (Ok r, w')" .
  have base: "km_physical_kv_bytes_per_token base = 2 * 28 * 4 * 128 * 2" using measured_Ok [OF start(1)] by blast
  have failed: "kr_kv_bytes_delta_pct (failed_receipt x base err) = 0" for err by (simp add: failed_receipt_def)
  have "kr_kv_bytes_delta_pct r = 0" if "evaluate_candidate_kernel E fixed json x H base w = (Ok r, w')"
  proof (cases "measure_workload (kh_candidate_gpu H) (kx_iterations x)")
    case (Inr cand)
    then have "km_physical_kv_bytes_per_token cand = 2 * 28 * 4 * 128 * 2" using measured_Ok by blast
    with base have "kr_kv_bytes_delta_pct (kernel_verdict x base cand b) = 0" for b by (simp add: kernel_verdict_def Let_def)
    with that Inr show ?thesis
      by (auto simp: evaluate_candidate_kernel_def dest!: record_verdict_keeps split: sum.splits prod.splits)
  qed (use that failed in \<open>auto simp: evaluate_candidate_kernel_def\<close>)
  with start(2) failed show ?thesis
    by (auto simp: compile_candidate_kernel_def Let_def split: sum.splits prod.splits if_splits)
qed

section \<open>A sample experiment\<close>

lemma one_pair_means: "bootstrap_means [p] [c] 10000 seed = replicate 10000 (f64_mean [f64_minus c p] 1)"
proof -
  have "boot_means [d] b g = replicate b (f64_mean [d] 1)" for d b g
    by (induction b arbitrary: g) (simp_all add: gen_range_def)
  then show ?thesis by (simp add: bootstrap_means_def paired_deltas_def resample_count_def sorted_sort_id)
qed

lemma one_pair_significant:
  assumes "f64_mean [f64_minus c p] 1 < 0"
  shows "be_significant (estimate_of [p] [c] 10000 seed)"
proof -
  let ?m = "f64_mean [f64_minus c p] 1"
  have "filter (\<lambda>v. 0 \<le> v) (replicate n ?m) = []" "filter (\<lambda>v. v \<le> 0) (replicate n ?m) = replicate n ?m" for n
    using assms by (simp_all add: filter_replicate)
  then have p: "two_sided_p (bootstrap_means [p] [c] 10000 seed) = 0"
    unfolding two_sided_p_def Let_def one_pair_means by (simp add: f64_over_def f64_times_def)
  have "be_ci_99_upper (estimate_of [p] [c] 10000 seed) = ?m"
    unfolding estimate_of_def Let_def one_pair_means
    unfolding bootstrap_estimate.simps by (rule nth_replicate) (simp add: resample_count_def)
  moreover have "0 < f64_const (1 / 100)" unfolding f64_const_def by (rule f64_round_pos) simp
  ultimately show ?thesis unfolding estimate_significant p using assms by simp
qed

definition timed_gpu :: "nat \<Rightarrow> gpu" where "timed_gpu ns = Ok (\<lambda>i. (0, ns))"

definition sample_kernel_host :: kernel_host where
  "sample_kernel_host = \<lparr>kh_lock = Ok (), kh_source = None, kh_workspace = Ok (), kh_baseline_file = Ok (), kh_candidate_file = Ok (),
     kh_compile = (\<lambda>_. Ok (True, [], [])), kh_baseline_gpu = timed_gpu 2000000, kh_candidate_gpu = timed_gpu 1000000,
     kh_cortex_receipt = None\<rparr>"

definition sample_experiment :: kernel_experiment where
  "sample_experiment = \<lparr>kx_experiment_id = ''e'', kx_baseline_config = default_attention_config, kx_candidate_config = default_attention_config,
     kx_coupled_kv = \<lparr>ck_kernel_config = default_attention_config, ck_kv_pool_block_size = 16, ck_block_table_page_geometry = 16\<rparr>,
     kx_iterations = 1\<rparr>"

definition us_metrics :: "rat \<Rightarrow> rat \<Rightarrow> kernel_metrics" where
  "us_metrics t energy = \<lparr>km_latency_samples_us = [t], km_p50_latency_us = t, km_p95_latency_us = t, km_p99_latency_us = t,
     km_energy_joules_per_token = energy, km_physical_kv_bytes_per_token = 57344\<rparr>"

lemma timed_gpu_measured:
  assumes "f64_over (f64_round (of_nat ns)) 1000 = t" and "f64_mean [t] 1 = t"
  shows "measure_workload (timed_gpu ns) 1 = Ok (us_metrics t (f64_over (f64_times (f64_times t (f64_const (1 / 1000000))) 25) 4))"
proof -
  have launched: "failed_launch (\<lambda>i. (0, ns)) is = None" for "is" by (simp add: failed_launch_def find_None_iff)
  have us: "map (launch_us (\<lambda>i. (0, ns))) [WARM_UPS..<WARM_UPS + 1] = [t]" using assms(1) by (simp add: WARM_UPS_def launch_us_def)
  have "compute_percentiles [t] = (t, t, t)" by (simp add: compute_percentiles_def at_fraction_def)
  then show ?thesis
    unfolding measure_workload_def timed_gpu_def and_then_simps launched option.case us Let_def
    using assms(2) by (simp add: metrics_from_samples_def us_metrics_def)
qed

lemma sample_measured:
  "\<exists>a b. measure_workload (timed_gpu 2000000) 1 = Ok (us_metrics 2000 a) \<and> measure_workload (timed_gpu 1000000) 1 = Ok (us_metrics 1000 b)
     \<and> kernel_delta_pct a b \<le> 2"
proof -
  have "f64_over (f64_round 2000000) 1000 = 2000" "f64_mean [2000] 1 = 2000" "f64_over (f64_round 1000000) 1000 = 1000" "f64_mean [1000] 1 = 1000"
    by code_simp+
  moreover have "kernel_delta_pct (f64_over (f64_times (f64_times 2000 (f64_const (1 / 1000000))) 25) 4)
      (f64_over (f64_times (f64_times 1000 (f64_const (1 / 1000000))) 25) 4) \<le> 2" by code_simp
  ultimately show ?thesis using timed_gpu_measured [of 2000000 2000] timed_gpu_measured [of 1000000 1000] by auto
qed

lemma sample_kernel_admitted:
  "\<exists>r w'. run_experiment E fixed json show_error builtin sample_experiment sample_kernel_host w = (Ok r, w') \<and> kr_admitted r"
proof -
  obtain a b where m: "measure_workload (timed_gpu 2000000) 1 = Ok (us_metrics 2000 a)" "measure_workload (timed_gpu 1000000) 1 = Ok (us_metrics 1000 b)"
    "kernel_delta_pct a b \<le> 2" using sample_measured by blast
  have "f64_mean [f64_minus 1000 2000] 1 < 0" "kernel_delta_pct 2000 1000 \<le> - 5" by code_simp+
  then have v: "kr_admitted (kernel_verdict sample_experiment (us_metrics 2000 a) (us_metrics 1000 b) (estimate_of [2000] [1000] 10000 (Some 42)))"
    using one_pair_significant m(3) by (simp add: kernel_verdict_def Let_def us_metrics_def)
  define res where "res = record_verdict E fixed json sample_kernel_host
    (kernel_verdict sample_experiment (us_metrics 2000 a) (us_metrics 1000 b) (estimate_of [2000] [1000] 10000 (Some 42))) w"
  have "run_experiment E fixed json show_error builtin sample_experiment sample_kernel_host w = (Ok (fst res), snd res)"
    by (simp add: run_experiment_def sample_experiment_def sample_kernel_host_def verify_coupled_def default_attention_config_def compiled_def
        compile_candidate_kernel_def evaluate_candidate_kernel_def m [unfolded One_nat_def] bootstrap_paired_comparison_def us_metrics_def
        res_def case_prod_unfold Let_def)
  moreover have "kr_admitted (fst res)" using record_verdict_keeps [of E fixed json sample_kernel_host _ w "fst res" "snd res"] v by (simp add: res_def)
  ultimately show ?thesis by blast
qed

theorem admitted_kernel_is_backed_witness:
  "\<exists>base cand. measure_workload (timed_gpu 2000000) 1 = Ok base \<and> measure_workload (timed_gpu 1000000) 1 = Ok cand
     \<and> km_p95_latency_us cand < km_p95_latency_us base"
proof -
  obtain r w' where r: "run_experiment sample_engine (\<lambda>_ _. []) (\<lambda>_. []) (\<lambda>_. []) [] sample_experiment sample_kernel_host sample_world = (Ok r, w')"
    "kr_admitted r" using sample_kernel_admitted by blast
  have H: "kh_baseline_gpu sample_kernel_host = timed_gpu 2000000" "kh_candidate_gpu sample_kernel_host = timed_gpu 1000000"
    "kx_iterations sample_experiment = 1" by (simp_all add: sample_kernel_host_def sample_experiment_def)
  from admitted_kernel_is_backed [OF r, unfolded H] show ?thesis by blast
qed

end
