(* ===== verification/Spec2Isabelle.thy ===== *)
theory Spec2Isabelle
  imports Admission Ledger_Chain Supervisor_Safety Executor_Safety Dual_Diagnostic Gate_Safety Promotion_Examples
    Engine_Examples Explain_Safety Benchmark_Safety Soak_Runs Proposals_Safety
    Jail Autotune_Safety
begin

text \<open>
  A verification development for spark-rsi, a Rust engine that proposes changes to a repository, judges
  them, runs candidate engines as canaries beside the serving one, and leaves the decision to merge to a
  human.  The development models the cycle of the engine and the parts that decide what counts as evidence and what a
  candidate may touch; paths below are relative to \<open>src/src\<close>.

  \<^bold>\<open>The program's parts and how they interact.\<close>  One cycle of the engine (\<open>daemon.rs\<close>) opens the ledger, reads the
  stage samples of earlier cycles (\<open>measure/\<close>), ranks the bottlenecks of the pipeline (\<open>graph/mod.rs\<close>), and takes the
  proposed changes one by one through the claim policy, the declared-target gate, the tiers (\<open>meta/\<close>), the build jail, the
  verifier and the blind judge (\<open>actor/judge.rs\<close>), whose layers (\<open>evaluator/\<close>) end in a signed receipt.  The first
  admitted candidate is staged and supervised.  A supervisor (\<open>supervisor/daemon.rs\<close>) stages a canary
  generation and talks to it over an authenticated channel (\<open>supervisor/ipc.rs\<close>).  The executor
  (\<open>supervisor/canary_exec.rs\<close>) sends the canary the requests of a pinned workload
  (\<open>canary/workload.rs\<close>), compares every answer with the expected one, and writes what it saw to an
  append-only observation log (\<open>canary/log.rs\<close>), one record per line, that ends with a seal.  The quota
  validator (\<open>canary/admission.rs\<close>) reads the sealed log and admits the candidate or not, the promotion gate
  (\<open>promotion_gate.rs\<close>) compares the receipt with the staged bytes, and only then is the generation made durable.  What
  was decided goes to a hash-chained ledger (\<open>ledger/\<close>).  Proposals for the repository itself pass
  the ratifier (\<open>ratify.rs\<close>), whose gate (\<open>diff_gate.rs\<close>) checks the real git diff against the
  root of trust (\<open>isolation/root_of_trust.rs\<close>) and the security layer.  A soak run (\<open>soak/runner.rs\<close>) repeats a reduced
  cycle in sandboxes for a bounded number of rounds and leaves every decision to a reviewer.  A price vector of an external controller
  (\<open>dual/\<close>) is read as a diagnostic only.

  \<^bold>\<open>Theories and sources.\<close>
  \<^item> \<open>Prelude\<close>: results as sums, bytes, words, Rust strings, the crates the code calls (SHA-256,
    hexadecimal, JSON strings) as a record \<open>crates\<close> that every definition takes as an argument, and
    their documented behaviour as \<open>hex_ok\<close>, \<open>sha_ok\<close>, \<open>json_ok\<close>, \<open>json_unique\<close>.  \<open>Text\<close>:
    UTF-8 validity, trimming, lines.  \<open>Sample\<close>: concrete crates on which those hypotheses hold.
  \<^item> \<open>Digest\<close> (\<open>canary/mod.rs\<close>, \<open>put_field\<close> of \<open>evaluator/mod.rs\<close>): length-prefixed domain
    digests and canonical JSON, both proved injective.  Every later statement that a digest commits to a
    value rests on this theory and names the two inputs on which SHA-256 would have to collide.
  \<^item> \<open>Workload\<close>, \<open>Identity\<close>, \<open>Observation\<close>: \<open>canary/workload.rs\<close>, \<open>identity.rs\<close> with
    \<open>adapter.rs\<close>, \<open>observation.rs\<close>.
  \<^item> \<open>Obs_Log\<close>, \<open>Log_Recovery\<close> (\<open>canary/log.rs\<close>): the line parser, the writer whose every write
    may fail after any number of bytes, reopening, sealing and verification; then the invariant of every reachable
    log, crash recovery, and what a seal commits to.
  \<^item> \<open>Admission\<close> (\<open>canary/admission.rs\<close>, \<open>canary_observation.rs\<close>): both quota validators.
  \<^item> \<open>Ledger\<close>, \<open>Ledger_Chain\<close> (\<open>ledger/\<close>): blocks, blobs, Merkle checkpoints, the SQLite tables as
    row lists with the constraints of the schema, the audit; then the invariant of every ledger the API
    builds, the append-only prefix order, and the commitment of the latest hash.
  \<^item> \<open>Generation\<close>, \<open>Ipc\<close>, \<open>F64\<close>, \<open>Supervisor\<close>, \<open>Supervisor_Safety\<close> (\<open>supervisor/mod.rs\<close>,
    \<open>ipc.rs\<close>, \<open>daemon.rs\<close>): HMAC and the readiness handshake, the message handler of the daemon, the symlink
    swaps, the early budgets in exact binary64 rounding.
  \<^item> \<open>Executor\<close>, \<open>Executor_Safety\<close> (\<open>supervisor/canary_exec.rs\<close>): one run as a function of a
    script, the frames, clock readings and write outcomes it meets.  Its properties are about runs after any
    sequence of earlier runs, and compose the executor with the log and the quota validator.
  \<^item> \<open>Dual_Records\<close>, \<open>Dual_Codec\<close>, \<open>Dual_Diagnostic\<close> (\<open>dual/records.rs\<close>,
    \<open>dual/diagnostic.rs\<close>): the binary records, their checks and canonical encodings (the interface
    \<open>canonical_codec\<close> is a locale, interpreted for the four kinds), and the selection of the dominant price.
  \<^item> \<open>Root_Of_Trust\<close>, \<open>Diff_Gate\<close>, \<open>Ratify\<close>, \<open>Gate_Safety\<close> (\<open>isolation/root_of_trust.rs\<close>,
    \<open>evaluator/layers/security.rs\<close>, \<open>diff_gate.rs\<close>, \<open>ratify.rs\<close>): path normalisation, the protected
    paths, the diff parser and its check, and the ratification over a repository state.
  \<^item> \<open>Layers\<close>, \<open>Receipt\<close>, \<open>Judge\<close>, \<open>Judge_Safety\<close> (\<open>evaluator/mod.rs\<close>, \<open>evaluator/layers/\<close>, \<open>actor/judge.rs\<close>): the
    layers that read texts, both receipt formats, the strict loading of holdouts, the strict tree comparison, and the judge's
    evaluation; then what a receipt digest, the holdout digest and the tree comparison determine.
  \<^item> \<open>Promotion\<close>, \<open>Promotion_Safety\<close>, \<open>Promotion_Examples\<close> (\<open>promotion_gate.rs\<close>): the gate, and that nothing passes it
    that the holder of the judge's key has not judged.
  \<^item> \<open>Utf8\<close>, \<open>Measure\<close>, \<open>Measure_Safety\<close> (\<open>measure/\<close>): lossy decoding, the stage clock, the sample log, the statistics and
    the selection of comparable cycles; then crash recovery of the log, exactness of the percentiles and the backing of
    every reported measurement.
  \<^item> \<open>Graph\<close>, \<open>Graph_Safety\<close> (\<open>graph/mod.rs\<close>, \<open>measure/select.rs\<close>): the capability graph, Brandes' centrality and the
    ranking in binary64; then termination and correctness of the search and independence of the map order.
  \<^item> \<open>Governance\<close> (\<open>measure/claims.rs\<close>, \<open>meta/\<close>, \<open>balance.rs\<close>): the claim policy, the tiers, the meta benchmark and the
    balance verdict.  \<open>Artifacts\<close> (\<open>isolation/manifest.rs\<close>): artifact manifests and the directory digest.
  \<^item> \<open>Engine\<close>, \<open>Engine_Safety\<close>, \<open>Engine_Examples\<close> (\<open>daemon.rs\<close>): the whole cycle over a world of ledger, host,
    observation log, repository, clock and sample logs, composed of the definitions above.  Two frames, relations between
    worlds that every step short of a promotion keeps, are interpretations of one locale; from them follow that no cycle
    promotes on the strength of its own judge, that a promotion needs every gate, and that the ledger stays sound on every path.

  \<^item> \<open>Hypothesis\<close> (\<open>propose/hypothesis.rs\<close>, \<open>propose/diagnose.rs\<close>): the hypothesis contract, its checks, and the diagnostic
    context.  \<open>Explain\<close>, \<open>Explain_Safety\<close> (\<open>explain.rs\<close>): the evidence graph of a cycle; it is acyclic with every link to an
    earlier node, and its marks are earned by artifacts of the cycle.
  \<^item> \<open>Statistics\<close>, \<open>Benchmarks\<close>, \<open>Benchmark_Safety\<close> (\<open>evaluator/stats.rs\<close>, \<open>metrics.rs\<close>, \<open>evaluator/layers/\<close>,
    \<open>actor/judge.rs\<close>): the generator, the bootstrap and the tail bound in binary64, the paired benchmark, and the measured
    layers; then what a pass says of the runs, and that the memory gate cannot see the candidate.
  \<^item> \<open>Verifier\<close>, \<open>Verifier_Safety\<close> (\<open>verifier.rs\<close>, \<open>observe.rs\<close>): the observation of the code base and the checks of the
    verifier over a tree of files; its style pass agrees with the style layer, and its secret scan is exact.
  \<^item> \<open>Proposals\<close>, \<open>Proposals_Safety\<close> (\<open>propose/mod.rs\<close>, \<open>model_seat.rs\<close>, \<open>cortex.rs\<close>): proposals from answers and from the
    dash scan, and the sandbox on a file system of directories and files; what a staged sandbox holds is determined
    exactly, and repeating the dash scan converges.
  \<^item> \<open>Jail\<close> (\<open>isolation/container.rs\<close>, \<open>cargo_sandbox.rs\<close>, \<open>rollback.rs\<close>): the limits, the loop that polls a jailed child,
    the command lines of the runners, and the worktree of a cycle as the git commands it runs.
  \<^item> \<open>Autotune\<close>, \<open>Autotune_Safety\<close> (\<open>propose/kernel_autotune.rs\<close>): kernel configurations, their injection into the CUDA
    source, the experiment and its ledger block; an admission is backed by the measurements it reports.
  \<^item> \<open>Soak\<close>, \<open>Soak_Safety\<close>, \<open>Soak_Runs\<close> (\<open>soak/\<close>): the bounded series of cycles with its quarantine, selection and manifest;
    no run promotes anything, the manifest accounts for every candidate, and a run ends.

  \<^bold>\<open>How code becomes definitions.\<close>  Structs are records, enums datatypes, \<open>Result\<close> a sum; a \<open>u64\<close> is a
  64-bit word where it wraps or saturates.  State is passed explicitly: the log writer carries its file
  and offset, the ledger its tables, the daemon its host and attached log, the ratifier the repository.
  Code outside the repository is an argument: the crates, serde's parsers (\<open>codec_ok\<close> says they read
  back what was printed), P-256, git (\<open>refs_ok\<close> says that only \<open>update-ref\<close> changes a ref).  A failing
  write is an outcome in the script, so every crash point is covered by a universally quantified
  statement.

  The answers of the world around a cycle (build, verifier, envelope, file system, clock) are the records \<open>candidate_run\<close>,
  \<open>supervised_run\<close> and \<open>cycle_run\<close>; a text that embeds a path or a crate's message keeps only its fixed part.  The clock
  readings of ledger blocks are a function of the ledger, so that a later block may carry any later time.

  \<^bold>\<open>Bounds and termination.\<close>  All functions are total in HOL; the recursions that are not structural (decimal
  printing, Merkle levels, UTF-8 decoding, prefix stripping, the breadth-first search) have measures.  No fuel is used.  The loop that
  polls a jailed child may wait for ever on a child that never exits under a clock that never advances, so it is a
  \<open>partial_function (option)\<close>, and that it returns under an advancing clock is a property.
  Binary64 values are rationals with rounding written out (\<open>F64\<close>); the statements say where the values are small enough for
  no overflow to arise.  Lengths of canonical texts are bounded by \<open>fits\<close> because the length prefix of a field is 64 bits;
  ledger statements assume fewer than \<open>max_blocks\<close> = 2 to the 63 blocks, the range of the sequence column.

  \<^bold>\<open>Not modelled.\<close>  HTTP requests to the model seat and to Cortex and the text of the prompts (their answers are arguments);
  what git, cargo, nvcc, bubblewrap and docker do when their command lines run, and the spawning of processes; the loading
  of the compiled kernel as a shared library (its return codes and durations are arguments).  Fisher's test of \<open>evaluator/stats.rs\<close>
  needs logarithms, whose binary64 rounding the standard does not fix, and has no caller in the cycle.  Thermal
  readings and time stamps only decorate records.  The safety envelope hands fixed probes to crates outside the repository; its
  verdict is an input.  The command line, configuration loading, sockets, signals and printing stay outside.
\<close>

end
